(* ===== verification/Prelude.thy ===== *)
theory Prelude
  imports Main "HOL-Library.Word"
begin

unbundle bit_operations_syntax

section \<open>Shared types and lemmas\<close>

text \<open>
  The vocabulary every component uses: the machine integers of the C sources, the POSIX error
  codes its functions return, little-endian access to a byte buffer, and generic lemmas on
  lists and words.  A C buffer is the list of its bytes; an access outside of it is \<open>None\<close>.
  The sources read and write 32-bit values through the macro \<open>LE32\<close>, which is the identity on a
  little-endian machine and swaps the bytes on a big-endian one; in both cases the value is the
  little-endian reading of four consecutive bytes, which is what \<open>get_le32\<close> computes.
\<close>

type_synonym u8 = "8 word"
type_synonym u16 = "16 word"
type_synonym u32 = "32 word"

text \<open>
  The error codes of \<open>errno.h\<close> the library returns (negated).  \<open>(int)pos\<close> of a \<open>size_t\<close> keeps the lower
  32 bits; a size that comes out negative is an error to every caller, and so it is here.
\<close>

datatype errno = ENOSPC | EPERM | EFAULT | EINVAL | EBADMSG | ENOMEM | Negative_size int

definition c_int :: "nat \<Rightarrow> int" where
  "c_int n = sint (of_nat n :: u32)"

lemma c_int_small: "n < 2 ^ 31 \<Longrightarrow> c_int n = int n"
  by (simp add: c_int_def signed_of_nat signed_take_bit_int_eq_self)

lemma c_int_large: "2 ^ 31 \<le> n \<Longrightarrow> c_int n \<le> int n - 2 ^ 32"
  using signed_take_bit_int_less_eq [of 31 "int n"] by (simp add: c_int_def signed_of_nat)

lemma c_int_le: "c_int n \<le> int n"
  using c_int_small [of n] c_int_large [of n] by (cases "n < 2 ^ 31") auto

lemma c_int_exact: "0 \<le> c_int n \<Longrightarrow> n < 2 ^ 32 \<Longrightarrow> c_int n = int n"
  using c_int_small [of n] c_int_large [of n] by (cases "n < 2 ^ 31") auto

named_theorems le_simps \<open>reading back little-endian stores\<close>

subsection \<open>Lists updated by index\<close>

lemma nth_update_if: "xs[i := x] ! j = (if i = j \<and> i < length xs then x else xs ! j)"
  by (cases "i < length xs") (auto simp: nth_list_update list_update_beyond)

subsection \<open>Little-endian words in a byte buffer\<close>

definition le32_of :: "u8 \<Rightarrow> u8 \<Rightarrow> u8 \<Rightarrow> u8 \<Rightarrow> u32" where
  "le32_of b0 b1 b2 b3 =
     ucast b0 OR push_bit 8 (ucast b1) OR push_bit 16 (ucast b2) OR push_bit 24 (ucast b3)"

definition get_le32 :: "u8 list \<Rightarrow> nat \<Rightarrow> u32" where
  "get_le32 d i = le32_of (d ! i) (d ! (i + 1)) (d ! (i + 2)) (d ! (i + 3))"

definition put_le32 :: "u8 list \<Rightarrow> nat \<Rightarrow> u32 \<Rightarrow> u8 list" where
  "put_le32 d i w =
     d[i := ucast w, i + 1 := ucast (drop_bit 8 w),
       i + 2 := ucast (drop_bit 16 w), i + 3 := ucast (drop_bit 24 w)]"

lemma le32_of_bytes [le_simps]:
  "le32_of (ucast w) (ucast (drop_bit 8 w)) (ucast (drop_bit 16 w)) (ucast (drop_bit 24 w)) = w"
proof (rule bit_word_eqI)
  fix n assume "n < LENGTH(32)"
  then have "n < 8 \<or> (8 \<le> n \<and> n < 16) \<or> (16 \<le> n \<and> n < 24) \<or> (24 \<le> n \<and> n < 32)" by auto
  then show "bit (le32_of (ucast w) (ucast (drop_bit 8 w)) (ucast (drop_bit 16 w))
      (ucast (drop_bit 24 w))) n \<longleftrightarrow> bit w n"
    by (elim disjE) (auto simp: le32_of_def bit_simps)
qed

lemma bytes_le32_of [le_simps]:
  fixes b0 b1 b2 b3 :: u8
  shows "ucast (le32_of b0 b1 b2 b3) = b0"
    and "ucast (drop_bit 8 (le32_of b0 b1 b2 b3)) = b1"
    and "ucast (drop_bit 16 (le32_of b0 b1 b2 b3)) = b2"
    and "ucast (drop_bit 24 (le32_of b0 b1 b2 b3)) = b3"
  by (rule bit_word_eqI; auto simp: le32_of_def bit_simps dest: bit_imp_le_length)+

lemma length_put_le32 [simp]: "length (put_le32 d i w) = length d"
  by (simp add: put_le32_def)

lemma get_put_le32_same [le_simps]:
  "i + 4 \<le> length d \<Longrightarrow> get_le32 (put_le32 d i w) i = w"
  by (simp add: get_le32_def put_le32_def nth_list_update le_simps)

lemma get_put_le32_other [le_simps]:
  "i + 4 \<le> j \<or> j + 4 \<le> i \<Longrightarrow> get_le32 (put_le32 d i w) j = get_le32 d j"
  by (auto simp: get_le32_def put_le32_def nth_list_update)

lemma put_get_le32_same [le_simps]:
  "i + 4 \<le> length d \<Longrightarrow> put_le32 d i (get_le32 d i) = d"
  by (simp add: put_le32_def get_le32_def le_simps list_update_id)

lemma put_put_le32_same [le_simps]:
  "put_le32 (put_le32 d i v) i w = put_le32 d i w"
  by (rule nth_equalityI) (auto simp: put_le32_def nth_update_if)

lemma put_put_le32_swap:
  "i + 4 \<le> j \<Longrightarrow> put_le32 (put_le32 d j v) i w = put_le32 (put_le32 d i w) j v"
  by (rule nth_equalityI) (auto simp: put_le32_def nth_update_if)

text \<open>A byte keeps its value in a wider word.\<close>

lemma unat_u8_less: "unat (b :: u8) < 256"
proof -
  have "unat b < 2 ^ LENGTH(8)" by (rule unsigned_less)
  then show ?thesis by simp
qed

lemma unat_ucast_u8: "unat (ucast (b :: u8) :: u32) = unat b" "unat (ucast (b :: u8) :: u16) = unat b"
  using unat_u8_less [of b] by (simp_all add: unsigned_ucast_eq take_bit_nat_eq_self)

lemma xor_xor_cancel [simp]: "(a XOR b) XOR b = (a :: 'a::semiring_bit_operations)"
  by (simp add: xor.assoc)

lemma xor_xor_cancel_left [simp]: "a XOR (a XOR b) = (b :: 'a::semiring_bit_operations)"
  by (simp flip: xor.assoc)

end
