(* ===== verification/Crypt_Setup.thy ===== *)
theory Crypt_Setup
  imports Prelude
begin

section \<open>The cipher state and the contract of the stream ciphers\<close>

text \<open>
  \<open>CRYPT_SETUP\<close> is the state record of \<open>libsylverant/include/sylverant/encryption.h\<close>, shared by
  the three ciphers.  A pointer into \<open>keys\<close> is the index it points at.  The locale
  \<open>keystream_cipher\<close> is the contract the PC and the GameCube cipher share: a generator of
  32-bit keys and a loop that xors one key into each 32-bit word of a buffer.  Everything a client
  of a stream cipher relies on (the buffer keeps its length, bytes outside of the processed range
  are untouched, running the cipher again from the same state undoes it) is proved there once.
\<close>

record CRYPT_SETUP =
  crypt_type :: u32
  keys :: "u32 list"
  pc_posn :: u32
  gc_block_ptr :: nat
  gc_block_end_ptr :: nat
  gc_seed :: u32
  bb_posn :: u32
  bb_seed :: "u8 list"

definition CRYPT_GAMECUBE :: u32 where "CRYPT_GAMECUBE = 0"
definition CRYPT_BLUEBURST :: u32 where "CRYPT_BLUEBURST = 1"
definition CRYPT_PC :: u32 where "CRYPT_PC = 2"

lemmas crypt_type_defs = CRYPT_GAMECUBE_def CRYPT_BLUEBURST_def CRYPT_PC_def

text \<open>The number of entries of the \<open>keys\<close> array.\<close>

abbreviation n_keys :: nat where "n_keys \<equiv> 1042"

subsection \<open>The contract of a stream cipher\<close>

locale keystream_cipher =
  fixes next_key :: "'s \<Rightarrow> u32 \<times> 's"
    and crypt :: "nat \<Rightarrow> nat \<Rightarrow> 's \<Rightarrow> u8 list \<Rightarrow> ('s \<times> u8 list) option"
  assumes crypt_step: "x < sz \<Longrightarrow> x + 4 \<le> length d \<Longrightarrow>
      crypt x sz s d =
        (case next_key s of (k, s') \<Rightarrow>
          crypt (x + 4) sz s' (put_le32 d x (get_le32 d x XOR k)))"
    and crypt_oob: "x < sz \<Longrightarrow> \<not> x + 4 \<le> length d \<Longrightarrow> crypt x sz s d = None"
    and crypt_done: "\<not> x < sz \<Longrightarrow> crypt x sz s d = Some (s, d)"
begin

lemma crypt_length: "crypt x sz s d = Some (s', e) \<Longrightarrow> length e = length d"
proof (induction "sz - x" arbitrary: x s d rule: less_induct)
  case less
  show ?case
  proof (cases "x < sz")
    case True
    with less.prems have len: "x + 4 \<le> length d" using crypt_oob by (metis option.distinct(1))
    obtain k t where key: "next_key s = (k, t)" by fastforce
    with True len less.prems
    have "crypt (x + 4) sz t (put_le32 d x (get_le32 d x XOR k)) = Some (s', e)"
      by (simp add: crypt_step)
    with True show ?thesis using less.hyps [of "x + 4"] by fastforce
  qed (use less.prems in \<open>simp add: crypt_done\<close>)
qed

text \<open>The cipher neither reads nor writes below its position.\<close>

lemma crypt_put:
  "j + 4 \<le> x \<Longrightarrow> crypt x sz s (put_le32 d j w) =
     map_option (\<lambda>(s', e). (s', put_le32 e j w)) (crypt x sz s d)"
proof (induction "sz - x" arbitrary: x s d rule: less_induct)
  case less
  show ?case
  proof (cases "x < sz \<and> x + 4 \<le> length d")
    case True
    obtain k t where key: "next_key s = (k, t)" by fastforce
    have "crypt (x + 4) sz t (put_le32 (put_le32 d x v) j w) =
        map_option (\<lambda>(s', e). (s', put_le32 e j w)) (crypt (x + 4) sz t (put_le32 d x v))" for v
      using True less.prems by (intro less.hyps) auto
    with True key less.prems show ?thesis
      by (simp add: crypt_step get_put_le32_other put_put_le32_swap [of j x])
  next
    case False
    then show ?thesis by (cases "x < sz") (simp_all add: crypt_oob crypt_done)
  qed
qed

lemma crypt_twice:
  "crypt x sz s d = Some (s', e) \<Longrightarrow> crypt x sz s e = Some (s', d)"
proof (induction "sz - x" arbitrary: x s d e rule: less_induct)
  case less
  show ?case
  proof (cases "x < sz")
    case True
    with less.prems have len: "x + 4 \<le> length d" using crypt_oob by (metis option.distinct(1))
    obtain k t where key: "next_key s = (k, t)" by fastforce
    let ?g = "get_le32 d x"
    from less.prems True len key obtain r
      where r: "crypt (x + 4) sz t d = Some (s', r)" and e: "e = put_le32 r x (?g XOR k)"
      by (auto simp: crypt_step crypt_put)
    from r have "length r = length d" by (rule crypt_length)
    moreover from r True have "crypt (x + 4) sz t r = Some (s', d)" by (auto intro: less.hyps)
    ultimately show ?thesis
      using True len key e by (simp add: crypt_step crypt_put le_simps)
  qed (use less.prems in \<open>simp add: crypt_done\<close>)
qed

text \<open>The loop stays inside the buffer exactly if the size, rounded up to whole words, does.\<close>

lemma crypt_defined:
  "x + 4 * ((sz + 3 - x) div 4) \<le> length d \<Longrightarrow> crypt x sz s d \<noteq> None"
proof (induction "sz - x" arbitrary: x s d rule: less_induct)
  case less
  show ?case
  proof (cases "x < sz")
    case True
    then have q: "(sz + 3 - x) div 4 = Suc ((sz + 3 - (x + 4)) div 4)" by auto
    then have "x + 4 \<le> length d" using less.prems by simp
    with True q less show ?thesis by (auto simp: crypt_step split: prod.split)
  qed (simp add: crypt_done)
qed

end

end
