(* ===== verification/Crypt_PC.thy ===== *)
theory Crypt_PC
  imports Crypt_Setup
begin

section \<open>The PC and Dreamcast cipher\<close>

text \<open>
  \<open>libsylverant/src/encryption/psopc-crypt.c\<close>: a subtractive lagged generator of 55 keys.  The
  loops that count \<open>edx\<close> down recurse on it.  The position \<open>x\<close> of \<open>CRYPT_PC_CryptData\<close> is a
  \<open>uint32_t\<close> in the source; it is a natural number here, which is the same for every size below
  \<open>2 ^ 32 - 4\<close> (a packet's size is a 16-bit field).
\<close>

primrec pc_mix_low :: "nat \<Rightarrow> nat \<Rightarrow> u32 list \<Rightarrow> u32 list" where
  "pc_mix_low 0 eax ks = ks"
| "pc_mix_low (Suc edx) eax ks =
     (let esi = ks ! (eax + 0x1F); ebp = ks ! eax - esi
      in pc_mix_low edx (eax + 1) (ks[eax := ebp]))"

primrec pc_mix_high :: "nat \<Rightarrow> nat \<Rightarrow> u32 list \<Rightarrow> u32 list" where
  "pc_mix_high 0 eax ks = ks"
| "pc_mix_high (Suc edx) eax ks =
     (let esi = ks ! (eax - 0x18); ebp = ks ! eax - esi
      in pc_mix_high edx (eax + 1) (ks[eax := ebp]))"

definition CRYPT_PC_MixKeys :: "CRYPT_SETUP \<Rightarrow> CRYPT_SETUP" where
  "CRYPT_PC_MixKeys pc = pc\<lparr>keys := pc_mix_high 0x1F 0x19 (pc_mix_low 0x18 1 (keys pc))\<rparr>"

function pc_create_loop :: "nat \<Rightarrow> u32 \<Rightarrow> u32 \<Rightarrow> u32 list \<Rightarrow> u32 list" where
  "pc_create_loop edi esi ebx ks =
     (if edi \<le> 0x46E then
        let var1 = edi div 55; edx = edi - var1 * 55; ebx' = ebx - esi; ks' = ks[edx := esi]
        in pc_create_loop (edi + 0x15) ebx' (ks' ! edx) ks'
      else ks)"
  by pat_completeness auto
termination by (relation "measure (\<lambda>(edi, _). 0x46F - edi)") auto

declare pc_create_loop.simps [simp del]

definition CRYPT_PC_CreateKeys :: "CRYPT_SETUP \<Rightarrow> u32 \<Rightarrow> CRYPT_SETUP" where
  "CRYPT_PC_CreateKeys pc val =
     (let pc1 = pc\<lparr>keys := pc_create_loop 0x15 1 val ((keys pc)[56 := val, 55 := val])\<rparr>
      in (CRYPT_PC_MixKeys (CRYPT_PC_MixKeys (CRYPT_PC_MixKeys (CRYPT_PC_MixKeys pc1))))
           \<lparr>pc_posn := 56\<rparr>)"

definition CRYPT_PC_GetNextKey :: "CRYPT_SETUP \<Rightarrow> u32 \<times> CRYPT_SETUP" where
  "CRYPT_PC_GetNextKey pc =
     (let pc1 = (if pc_posn pc = 56 then (CRYPT_PC_MixKeys pc)\<lparr>pc_posn := 1\<rparr> else pc);
          re = keys pc1 ! unat (pc_posn pc1)
      in (re, pc1\<lparr>pc_posn := pc_posn pc1 + 1\<rparr>))"

function pc_crypt_loop ::
    "nat \<Rightarrow> nat \<Rightarrow> CRYPT_SETUP \<Rightarrow> u8 list \<Rightarrow> (CRYPT_SETUP \<times> u8 list) option" where
  "pc_crypt_loop x sz pc d =
     (if x < sz then
        if x + 4 \<le> length d then
          let (k, pc') = CRYPT_PC_GetNextKey pc
          in pc_crypt_loop (x + 4) sz pc' (put_le32 d x (get_le32 d x XOR k))
        else None
      else Some (pc, d))"
  by pat_completeness auto
termination by (relation "measure (\<lambda>(x, sz, _). sz - x)") auto

declare pc_crypt_loop.simps [simp del]

definition CRYPT_PC_CryptData ::
    "CRYPT_SETUP \<Rightarrow> u8 list \<Rightarrow> nat \<Rightarrow> (CRYPT_SETUP \<times> u8 list) option" where
  "CRYPT_PC_CryptData pc d sz = pc_crypt_loop 0 sz pc d"

interpretation pc: keystream_cipher CRYPT_PC_GetNextKey pc_crypt_loop
  by unfold_locales (simp_all add: pc_crypt_loop.simps split: prod.split)

subsection \<open>The generator stays inside its key array\<close>

definition pc_wf :: "CRYPT_SETUP \<Rightarrow> bool" where
  "pc_wf pc \<longleftrightarrow> length (keys pc) = n_keys \<and> 1 \<le> pc_posn pc \<and> pc_posn pc \<le> 56"

lemma length_pc_mix_low [simp]: "length (pc_mix_low n e ks) = length ks"
  by (induction n arbitrary: e ks) (simp_all add: Let_def)

lemma length_pc_mix_high [simp]: "length (pc_mix_high n e ks) = length ks"
  by (induction n arbitrary: e ks) (simp_all add: Let_def)

lemma length_pc_create_loop [simp]: "length (pc_create_loop e a b ks) = length ks"
  by (induction e a b ks rule: pc_create_loop.induct)
    (subst pc_create_loop.simps, simp add: Let_def)

lemma CRYPT_PC_MixKeys_frame [simp]:
  "length (keys (CRYPT_PC_MixKeys pc)) = length (keys pc)"
  "pc_posn (CRYPT_PC_MixKeys pc) = pc_posn pc"
  "crypt_type (CRYPT_PC_MixKeys pc) = crypt_type pc"
  by (simp_all add: CRYPT_PC_MixKeys_def)

lemma pc_wf_create: "length (keys pc) = n_keys \<Longrightarrow> pc_wf (CRYPT_PC_CreateKeys pc seed)"
  by (simp add: pc_wf_def CRYPT_PC_CreateKeys_def Let_def)

lemma pc_wf_next:
  assumes "pc_wf pc" shows "pc_wf (snd (CRYPT_PC_GetNextKey pc))"
proof (cases "pc_posn pc = 56")
  case False
  then have "unat (pc_posn pc) \<noteq> 56" by unat_arith
  with assms False show ?thesis
    by (auto simp: pc_wf_def CRYPT_PC_GetNextKey_def Let_def word_le_nat_alt unat_word_ariths)
qed (use assms in \<open>simp add: pc_wf_def CRYPT_PC_GetNextKey_def Let_def\<close>)

end
