(* ===== verification/Crypt_GC.thy ===== *)
theory Crypt_GC
  imports Crypt_Setup
begin

section \<open>The GameCube cipher\<close>

text \<open>
  \<open>libsylverant/src/encryption/psogc-crypt.c\<close>: a lagged xor generator of 521 keys.  The pointers
  \<open>r5\<close>, \<open>r6\<close>, \<open>r7\<close>, \<open>source1\<close> to \<open>source3\<close> and \<open>gc_block_ptr\<close> are indices into \<open>keys\<close>; a loop
  that runs one of them up to \<open>gc_block_end_ptr\<close> makes as many rounds as their distance.
  The store \<open>*address_start++ = *address_start ^ LE32(tmp)\<close> of \<open>CRYPT_GC_CryptData\<close> reads and
  advances the pointer without a sequence point; the model is the intended reading, which is
  also what compilers generate, of xoring the word in place.
\<close>

primrec gc_xor_loop :: "nat \<Rightarrow> nat \<Rightarrow> nat \<Rightarrow> u32 list \<Rightarrow> u32 list" where
  "gc_xor_loop 0 src r5 ks = ks"
| "gc_xor_loop (Suc n) src r5 ks =
     (let r0 = ks ! src; r4 = ks ! r5
      in gc_xor_loop n (src + 1) (r5 + 1) (ks[r5 := r0 XOR r4]))"

definition CRYPT_GC_MixKeys :: "CRYPT_SETUP \<Rightarrow> CRYPT_SETUP" where
  "CRYPT_GC_MixKeys cs =
     (let n1 = gc_block_end_ptr cs - 489;
          ks1 = gc_xor_loop n1 489 0 (keys cs);
          ks2 = gc_xor_loop (gc_block_end_ptr cs - n1) 0 n1 ks1
      in cs\<lparr>keys := ks2, gc_block_ptr := 0\<rparr>)"

definition CRYPT_GC_GetNextKey :: "CRYPT_SETUP \<Rightarrow> u32 \<times> CRYPT_SETUP" where
  "CRYPT_GC_GetNextKey cs =
     (let cs1 = cs\<lparr>gc_block_ptr := gc_block_ptr cs + 1\<rparr>;
          cs2 = (if gc_block_ptr cs1 = gc_block_end_ptr cs1 then CRYPT_GC_MixKeys cs1 else cs1)
      in (keys cs2 ! gc_block_ptr cs2, cs2))"

primrec gc_basekey_bits :: "nat \<Rightarrow> u32 \<Rightarrow> u32 \<Rightarrow> u32 \<times> u32" where
  "gc_basekey_bits 0 seed basekey = (seed, basekey)"
| "gc_basekey_bits (Suc y) seed basekey =
     (let seed1 = seed * 0x5D588B65; b1 = drop_bit 1 basekey; seed2 = seed1 + 1;
          b2 = (if seed2 AND 0x80000000 \<noteq> 0 then b1 OR 0x80000000 else b1 AND 0x7FFFFFFF)
      in gc_basekey_bits y seed2 b2)"

primrec gc_basekeys :: "nat \<Rightarrow> nat \<Rightarrow> u32 \<Rightarrow> u32 \<Rightarrow> u32 list \<Rightarrow> u32 list" where
  "gc_basekeys 0 p seed basekey ks = ks"
| "gc_basekeys (Suc x) p seed basekey ks =
     (case gc_basekey_bits 32 seed basekey of
        (seed', basekey') \<Rightarrow> gc_basekeys x (p + 1) seed' basekey' (ks[p := basekey']))"

primrec gc_fill_loop :: "nat \<Rightarrow> nat \<Rightarrow> nat \<Rightarrow> nat \<Rightarrow> nat \<Rightarrow> u32 list \<Rightarrow> u32 list" where
  "gc_fill_loop 0 p s1 s2 s3 ks = ks"
| "gc_fill_loop (Suc n) p s1 s2 s3 ks =
     gc_fill_loop n (p + 1) (s1 + 1) (s2 + 1) (s3 + 1)
       (ks[p := ks ! s3 XOR ((push_bit 23 (ks ! s1) AND 0xFF800000) XOR
                             (drop_bit 9 (ks ! s2) AND 0x007FFFFF))])"

definition CRYPT_GC_CreateKeys :: "CRYPT_SETUP \<Rightarrow> u32 \<Rightarrow> CRYPT_SETUP" where
  "CRYPT_GC_CreateKeys cs seed =
     (let ks1 = gc_basekeys 17 0 seed 0 (keys cs);
          ks2 = ks1[16 := (drop_bit 9 (ks1 ! 0) XOR push_bit 23 (ks1 ! 16)) XOR ks1 ! 15];
          ks3 = gc_fill_loop (521 - 17) 17 0 1 16 ks2;
          cs1 = cs\<lparr>gc_seed := seed, gc_block_end_ptr := 521, keys := ks3\<rparr>
      in (CRYPT_GC_MixKeys (CRYPT_GC_MixKeys (CRYPT_GC_MixKeys cs1)))\<lparr>gc_block_ptr := 520\<rparr>)"

function gc_crypt_loop ::
    "nat \<Rightarrow> nat \<Rightarrow> CRYPT_SETUP \<Rightarrow> u8 list \<Rightarrow> (CRYPT_SETUP \<times> u8 list) option" where
  "gc_crypt_loop address_start address_end c d =
     (if address_start < address_end then
        if address_start + 4 \<le> length d then
          let (tmp, c') = CRYPT_GC_GetNextKey c
          in gc_crypt_loop (address_start + 4) address_end c'
               (put_le32 d address_start (get_le32 d address_start XOR tmp))
        else None
      else Some (c, d))"
  by pat_completeness auto
termination by (relation "measure (\<lambda>(x, sz, _). sz - x)") auto

declare gc_crypt_loop.simps [simp del]

definition CRYPT_GC_CryptData ::
    "CRYPT_SETUP \<Rightarrow> u8 list \<Rightarrow> nat \<Rightarrow> (CRYPT_SETUP \<times> u8 list) option" where
  "CRYPT_GC_CryptData c d sz = gc_crypt_loop 0 sz c d"

interpretation gc: keystream_cipher CRYPT_GC_GetNextKey gc_crypt_loop
  by unfold_locales (simp_all add: gc_crypt_loop.simps split: prod.split)

subsection \<open>The generator stays inside its key array\<close>

definition gc_wf :: "CRYPT_SETUP \<Rightarrow> bool" where
  "gc_wf cs \<longleftrightarrow> length (keys cs) = n_keys \<and> gc_block_end_ptr cs = 521 \<and> gc_block_ptr cs < 521"

lemma length_gc_xor_loop [simp]: "length (gc_xor_loop n s r ks) = length ks"
  by (induction n arbitrary: s r ks) (simp_all add: Let_def)

lemma length_gc_basekeys [simp]: "length (gc_basekeys n p s b ks) = length ks"
  by (induction n arbitrary: p s b ks) (simp_all split: prod.split)

lemma length_gc_fill_loop [simp]: "length (gc_fill_loop n p s1 s2 s3 ks) = length ks"
  by (induction n arbitrary: p s1 s2 s3 ks) simp_all

lemma CRYPT_GC_MixKeys_frame [simp]:
  "length (keys (CRYPT_GC_MixKeys cs)) = length (keys cs)"
  "gc_block_end_ptr (CRYPT_GC_MixKeys cs) = gc_block_end_ptr cs"
  "gc_block_ptr (CRYPT_GC_MixKeys cs) = 0"
  "crypt_type (CRYPT_GC_MixKeys cs) = crypt_type cs"
  by (simp_all add: CRYPT_GC_MixKeys_def Let_def)

lemma gc_wf_create: "length (keys cs) = n_keys \<Longrightarrow> gc_wf (CRYPT_GC_CreateKeys cs seed)"
  by (simp add: gc_wf_def CRYPT_GC_CreateKeys_def Let_def)

lemma gc_wf_next: "gc_wf cs \<Longrightarrow> gc_wf (snd (CRYPT_GC_GetNextKey cs))"
  by (auto simp: gc_wf_def CRYPT_GC_GetNextKey_def Let_def)

end
