(* ===== verification/Crypt.thy ===== *)
theory Crypt
  imports Crypt_PC Crypt_GC Crypt_BB
begin

section \<open>The encryption interface\<close>

text \<open>
  \<open>libsylverant/src/encryption/encryption.c\<close>: the two entry points the servers use, which
  dispatch on the type in the state.  Their C result (1 on success, 0 for an unknown type) is the
  first component; \<open>None\<close> is an access outside of the caller's buffer.  The key is the byte
  string the \<open>void *\<close> argument points at, four bytes of a 32-bit seed in the host's (little) byte
  order or the 48 bytes of a Blue Burst salt.
\<close>

definition zero_setup :: CRYPT_SETUP where
  "zero_setup = \<lparr>crypt_type = 0, keys = replicate n_keys 0, pc_posn = 0, gc_block_ptr = 0,
     gc_block_end_ptr = 0, gc_seed = 0, bb_posn = 0, bb_seed = replicate 48 0\<rparr>"

definition CRYPT_CreateKeys :: "u8 list \<Rightarrow> u8 \<Rightarrow> int \<times> CRYPT_SETUP" where
  "CRYPT_CreateKeys key ty =
     (let cs = zero_setup\<lparr>crypt_type := ucast ty\<rparr>
      in if crypt_type cs = CRYPT_PC then (1, CRYPT_PC_CreateKeys cs (get_le32 key 0))
         else if crypt_type cs = CRYPT_GAMECUBE then (1, CRYPT_GC_CreateKeys cs (get_le32 key 0))
         else if crypt_type cs = CRYPT_BLUEBURST then (1, CRYPT_BB_CreateKeys cs key)
         else (0, cs))"

definition CRYPT_CryptData ::
    "CRYPT_SETUP \<Rightarrow> u8 list \<Rightarrow> nat \<Rightarrow> bool \<Rightarrow> (int \<times> CRYPT_SETUP \<times> u8 list) option" where
  "CRYPT_CryptData cs d sz encrypting =
     (if crypt_type cs = CRYPT_PC then
        map_option (\<lambda>(cs', d'). (1, cs', d')) (CRYPT_PC_CryptData cs d sz)
      else if crypt_type cs = CRYPT_GAMECUBE then
        map_option (\<lambda>(cs', d'). (1, cs', d')) (CRYPT_GC_CryptData cs d sz)
      else if crypt_type cs = CRYPT_BLUEBURST then
        map_option (\<lambda>d'. (1, cs, d'))
          (if encrypting then CRYPT_BB_Encrypt cs d sz else CRYPT_BB_Decrypt cs d sz)
      else Some (0, cs, d))"

text \<open>
  A connection: one state per direction, through which every packet goes in order.
\<close>

primrec crypt_session :: "CRYPT_SETUP \<Rightarrow> bool \<Rightarrow> u8 list list \<Rightarrow> (CRYPT_SETUP \<times> u8 list list) option" where
  "crypt_session cs enc [] = Some (cs, [])"
| "crypt_session cs enc (p # ps) =
     (case CRYPT_CryptData cs p (length p) enc of
        None \<Rightarrow> None
      | Some (_, cs', p') \<Rightarrow>
          (case crypt_session cs' enc ps of
             None \<Rightarrow> None
           | Some (cs'', ps') \<Rightarrow> Some (cs'', p' # ps')))"

lemma CRYPT_CryptData_twice:
  assumes "CRYPT_CryptData cs d sz True = Some (r, cs', e)"
  shows "CRYPT_CryptData cs e sz False = Some (r, cs', d)"
  using assms
  by (auto simp: CRYPT_CryptData_def CRYPT_PC_CryptData_def CRYPT_GC_CryptData_def
      CRYPT_BB_Encrypt_def CRYPT_BB_Decrypt_def
      dest: pc.crypt_twice gc.crypt_twice bb.loop_twice split: if_splits)

lemma CRYPT_CryptData_length:
  "CRYPT_CryptData cs d sz enc = Some (r, cs', e) \<Longrightarrow> length e = length d"
  by (auto simp: CRYPT_CryptData_def CRYPT_PC_CryptData_def CRYPT_GC_CryptData_def
      CRYPT_BB_Encrypt_def CRYPT_BB_Decrypt_def
      dest: pc.crypt_length gc.crypt_length bb_crypt_loop_length split: if_splits)

text \<open>C1: The receiver of an encrypted connection sees exactly the packets that were sent: from the
  same initial state, decrypting the packets in order gives back the plain packets and leaves the
  receiver's state where the sender's is, for all three ciphers.\<close>

theorem crypt_session_roundtrip:
  "crypt_session cs True ps = Some (cs', es) \<Longrightarrow> crypt_session cs False es = Some (cs', ps)"
proof (induction ps arbitrary: cs es)
  case (Cons p ps)
  then obtain r c1 p' es' where p: "CRYPT_CryptData cs p (length p) True = Some (r, c1, p')"
    and rest: "crypt_session c1 True ps = Some (cs', es')" and es: "es = p' # es'"
    by (auto split: option.splits)
  from p have "length p' = length p" by (rule CRYPT_CryptData_length)
  with p have "CRYPT_CryptData cs p' (length p') False = Some (r, c1, p)"
    by (simp add: CRYPT_CryptData_twice)
  with rest es Cons.IH show ?case by simp
qed simp


subsection \<open>The state a connection runs on\<close>

definition crypt_wf :: "CRYPT_SETUP \<Rightarrow> bool" where
  "crypt_wf cs \<longleftrightarrow>
     (crypt_type cs = CRYPT_PC \<and> pc_wf cs) \<or>
     (crypt_type cs = CRYPT_GAMECUBE \<and> gc_wf cs) \<or>
     (crypt_type cs = CRYPT_BLUEBURST \<and> length (keys cs) = n_keys)"

lemma pc_loop_wf:
  "pc_crypt_loop x sz cs d = Some (cs', e) \<Longrightarrow> pc_wf cs \<Longrightarrow>
     pc_wf cs' \<and> crypt_type cs' = crypt_type cs"
proof (induction x sz cs d rule: pc_crypt_loop.induct)
  case (1 x sz cs d)
  obtain k t where key: "CRYPT_PC_GetNextKey cs = (k, t)" by fastforce
  with "1.prems" have t: "pc_wf t" "crypt_type t = crypt_type cs"
    using pc_wf_next [of cs] by (auto simp: CRYPT_PC_GetNextKey_def Let_def)
  show ?case
  proof (cases "x < sz \<and> x + 4 \<le> length d")
    case True
    with "1.prems" key
    have "pc_crypt_loop (x + 4) sz t (put_le32 d x (get_le32 d x XOR k)) = Some (cs', e)"
      by (simp add: pc_crypt_loop.simps [of x])
    with True key t show ?thesis using "1.IH" by auto
  qed (use "1.prems" in \<open>auto simp: pc_crypt_loop.simps [of x] split: if_splits\<close>)
qed

lemma gc_loop_wf:
  "gc_crypt_loop x sz cs d = Some (cs', e) \<Longrightarrow> gc_wf cs \<Longrightarrow>
     gc_wf cs' \<and> crypt_type cs' = crypt_type cs"
proof (induction x sz cs d rule: gc_crypt_loop.induct)
  case (1 x sz cs d)
  obtain k t where key: "CRYPT_GC_GetNextKey cs = (k, t)" by fastforce
  with "1.prems" have t: "gc_wf t" "crypt_type t = crypt_type cs"
    using gc_wf_next [of cs] by (auto simp: CRYPT_GC_GetNextKey_def Let_def)
  show ?case
  proof (cases "x < sz \<and> x + 4 \<le> length d")
    case True
    with "1.prems" key
    have "gc_crypt_loop (x + 4) sz t (put_le32 d x (get_le32 d x XOR k)) = Some (cs', e)"
      by (simp add: gc_crypt_loop.simps [of x])
    with True key t show ?thesis using "1.IH" by auto
  qed (use "1.prems" in \<open>auto simp: gc_crypt_loop.simps [of x] split: if_splits\<close>)
qed

lemma length_bb_salt_loop [simp]: "length (bb_salt_loop n p e s ks) = length ks"
  by (induction n arbitrary: p e ks) (simp_all add: Let_def)

lemma length_bb_schedule_loop [simp]:
  "length (fst (bb_schedule_loop n p st)) = length (fst st)"
  by (induction n arbitrary: p st) (simp_all split: prod.split)

lemma length_bb_boxes_loop [simp]: "length (fst (bb_boxes_loop n p st)) = length (fst st)"
  by (induction n arbitrary: p st) (simp_all del: bb_schedule_loop.simps)

lemma length_bbtable: "length bbtable = 1024"
  by (simp add: bbtable_def)

lemma length_CRYPT_BB_CreateKeys: "length (keys (CRYPT_BB_CreateKeys cs salt)) = n_keys"
  by (simp add: CRYPT_BB_CreateKeys_def bb_initial_keys_def length_bbtable Let_def
      del: bb_salt_loop.simps bb_schedule_loop.simps bb_boxes_loop.simps)

lemma CreateKeys_type [simp]:
  "crypt_type (CRYPT_PC_CreateKeys cs v) = crypt_type cs"
  "crypt_type (CRYPT_GC_CreateKeys cs v) = crypt_type cs"
  "crypt_type (CRYPT_BB_CreateKeys cs s) = crypt_type cs"
  by (simp_all add: CRYPT_PC_CreateKeys_def CRYPT_GC_CreateKeys_def CRYPT_BB_CreateKeys_def Let_def)

lemma CRYPT_CreateKeys_wf:
  "CRYPT_CreateKeys key ty = (1, cs) \<Longrightarrow> crypt_wf cs"
  by (auto simp: CRYPT_CreateKeys_def crypt_wf_def Let_def zero_setup_def pc_wf_create
      gc_wf_create length_CRYPT_BB_CreateKeys split: if_splits)

lemma CRYPT_CryptData_wf:
  "CRYPT_CryptData cs d sz enc = Some (r, cs', e) \<Longrightarrow> crypt_wf cs \<Longrightarrow> crypt_wf cs'"
  by (auto simp: CRYPT_CryptData_def crypt_wf_def CRYPT_PC_CryptData_def CRYPT_GC_CryptData_def
      crypt_type_defs dest: pc_loop_wf gc_loop_wf split: if_splits)

lemma CRYPT_CryptData_fits:
  assumes "crypt_wf cs" and "8 dvd length d"
  shows "\<exists>cs' e. CRYPT_CryptData cs d (length d) enc = Some (1, cs', e)"
proof -
  from assms(2) have "4 dvd length d" by presburger
  then have "4 * ((length d + 3) div 4) = length d" "8 * ((length d + 7) div 8) = length d"
    using assms(2) by presburger+
  then show ?thesis
    using assms(1) pc.crypt_defined [of 0 "length d" d cs] gc.crypt_defined [of 0 "length d" d cs]
      bb_crypt_loop_defined [of 0 "length d" d]
    by (auto simp: CRYPT_CryptData_def crypt_wf_def CRYPT_PC_CryptData_def CRYPT_GC_CryptData_def
        CRYPT_BB_Encrypt_def CRYPT_BB_Decrypt_def)
qed

text \<open>C38: A connection whose keys were created for a known cipher never fails and never leaves the
  caller's buffers: every sequence of packets whose sizes are multiples of eight goes through, and
  the state it leaves is well formed again (the generator's position and pointers are inside the key
  array), so the connection can go on.\<close>

theorem crypt_session_total:
  assumes "CRYPT_CreateKeys key ty = (1, cs)" and "list_all (\<lambda>p. 8 dvd length p) ps"
  shows "\<exists>cs' es. crypt_session cs enc ps = Some (cs', es) \<and> crypt_wf cs' \<and>
    map length es = map length ps"
proof -
  have "crypt_wf cs" using assms(1) by (rule CRYPT_CreateKeys_wf)
  then show ?thesis using assms(2)
  proof (induction ps arbitrary: cs)
    case (Cons p ps)
    then obtain c1 e where e: "CRYPT_CryptData cs p (length p) enc = Some (1, c1, e)"
      using CRYPT_CryptData_fits by fastforce
    with Cons.prems have "crypt_wf c1" by (blast intro: CRYPT_CryptData_wf)
    with Cons e show ?case by (fastforce dest: CRYPT_CryptData_length)
  qed simp
qed

theorem crypt_session_total_witness:
  "\<exists>cs' es. crypt_session (snd (CRYPT_CreateKeys [1, 2, 3, 4] 2)) True [replicate 8 7] =
     Some (cs', es) \<and> crypt_wf cs' \<and> map length es = [8]"
proof -
  have "CRYPT_CreateKeys [1, 2, 3, 4] 2 = (1, snd (CRYPT_CreateKeys [1, 2, 3, 4] 2))"
    by (simp add: CRYPT_CreateKeys_def crypt_type_defs zero_setup_def Let_def)
  from crypt_session_total [OF this, of "[replicate 8 7]" True] show ?thesis by simp
qed

text \<open>C37: The Blue Burst cipher is Blowfish: data blocks are four rounds of the textbook network with
  the first six round keys, decryption is the same network with those keys reversed, and the key
  schedule produces every pair of keys with the full sixteen rounds.\<close>

theorem bb_is_blowfish:
  "bb_encrypt_block ks l r = blowfish (bb_F ks) (map ((!) ks) [0, 1, 2, 3]) (ks ! 4) (ks ! 5) l r \<and>
   bb_decrypt_block ks l r = blowfish (bb_F ks) (map ((!) ks) [5, 4, 3, 2]) (ks ! 1) (ks ! 0) l r \<and>
   bb_schedule_block ks l r = blowfish (bb_F ks) (map ((!) ks) [0..<16]) (ks ! 16) (ks ! 17) l r"
  by (simp add: bb_encrypt_block_blowfish bb_decrypt_block_blowfish bb_schedule_block_blowfish)

text \<open>A witness of the round trip (C1): two packets to a PC client.\<close>

theorem crypt_session_roundtrip_witness:
  "\<exists>cs cs' es. crypt_session cs True [replicate 8 1, replicate 16 2] = Some (cs', es) \<and>
     crypt_session cs False es = Some (cs', [replicate 8 1, replicate 16 2])"
proof -
  let ?ps = "[replicate 8 1, replicate 16 2] :: u8 list list"
  have "CRYPT_CreateKeys [1, 2, 3, 4] 2 = (1, snd (CRYPT_CreateKeys [1, 2, 3, 4] 2))"
    by (simp add: CRYPT_CreateKeys_def crypt_type_defs zero_setup_def Let_def)
  then have "crypt_wf (snd (CRYPT_CreateKeys [1, 2, 3, 4] 2))" by (rule CRYPT_CreateKeys_wf)
  then obtain c1 e1 where 1: "CRYPT_CryptData (snd (CRYPT_CreateKeys [1, 2, 3, 4] 2))
      (replicate 8 1) 8 True = Some (1, c1, e1)" and "crypt_wf c1"
    using CRYPT_CryptData_fits [of _ "replicate 8 1"] CRYPT_CryptData_wf by force
  then obtain c2 e2 where 2: "CRYPT_CryptData c1 (replicate 16 2) 16 True = Some (1, c2, e2)"
    using CRYPT_CryptData_fits [of c1 "replicate 16 2"] by force
  from 1 2 have "crypt_session (snd (CRYPT_CreateKeys [1, 2, 3, 4] 2)) True ?ps =
      Some (c2, [e1, e2])" by simp
  from this crypt_session_roundtrip [OF this] show ?thesis by blast
qed

end
