(* ===== verification/Prs_Decomp.thy ===== *)
theory Prs_Decomp
  imports Prelude
begin

section \<open>PRS decompression\<close>

text \<open>
  \<open>libsylverant/src/utils/prs-decomp.c\<close>.  The context \<open>prs_dec_cxt\<close> holds a source and a
  destination buffer; the C pointers \<open>src\<close> and \<open>dst\<close> advance together with \<open>src_pos\<close> and
  \<open>dst_pos\<close>, so the model keeps the buffers whole and reads them at these positions.  The five
  callbacks of the C structure are the record \<open>prs_ops\<close>; \<open>do_decompress\<close> is the one loop that
  all public functions run with their own callbacks.  An error return is \<open>Inl\<close>, and \<open>None\<close>
  stands for a loop that has used up its fuel, which the theorems rule out.

  Memory comes from a heap that says which sizes can be allocated and what a fresh byte holds.
  The unsequenced \<open>*cxt->dst++ = *(cxt->dst + offset)\<close> of \<open>offset_copy\<close> is modelled as its
  comment says: the byte at the offset from the current position is copied, then the position
  advances (the allocating variant writes the same with separate statements).
\<close>

record heap =
  can_alloc :: "nat \<Rightarrow> bool"
  garbage :: "nat \<Rightarrow> u8"

definition malloc :: "heap \<Rightarrow> nat \<Rightarrow> u8 list option" where
  "malloc h n = (if can_alloc h n then Some (map (garbage h) [0..<n]) else None)"

definition realloc :: "heap \<Rightarrow> u8 list \<Rightarrow> nat \<Rightarrow> u8 list option" where
  "realloc h d n =
     (if can_alloc h n then Some (take n d @ map (garbage h) [length d..<n]) else None)"

record prs_dec_cxt =
  flags :: u8
  bit_pos :: nat
  src :: "u8 list"
  dst :: "u8 list"
  src_len :: nat
  dst_len :: nat
  src_pos :: nat
  dst_pos :: nat

record prs_ops =
  op_copy_byte :: "prs_dec_cxt \<Rightarrow> errno + prs_dec_cxt"
  op_offset_copy :: "prs_dec_cxt \<Rightarrow> int \<Rightarrow> errno + prs_dec_cxt"
  op_fetch_bit :: "prs_dec_cxt \<Rightarrow> errno + int \<times> prs_dec_cxt"
  op_fetch_byte :: "prs_dec_cxt \<Rightarrow> errno + int \<times> prs_dec_cxt"
  op_fetch_short :: "prs_dec_cxt \<Rightarrow> errno + int \<times> prs_dec_cxt"

text \<open>Sequencing: the first error ends the function, as its early returns do.\<close>

definition bind_res :: "'e + 'a \<Rightarrow> ('a \<Rightarrow> 'e + 'b) \<Rightarrow> 'e + 'b" where
  "bind_res r f = (case r of Inl e \<Rightarrow> Inl e | Inr x \<Rightarrow> f x)"

lemma bind_res_simps [simp]: "bind_res (Inl e) f = Inl e" "bind_res (Inr x) f = f x"
  by (simp_all add: bind_res_def)

lemma bind_res_eq_Inr: "bind_res r f = Inr y \<longleftrightarrow> (\<exists>x. r = Inr x \<and> f x = Inr y)"
  by (cases r) auto

primrec copy_loop :: "nat \<Rightarrow> prs_ops \<Rightarrow> int \<Rightarrow> prs_dec_cxt \<Rightarrow> errno + prs_dec_cxt" where
  "copy_loop 0 ops offset cxt = Inr cxt"
| "copy_loop (Suc sz) ops offset cxt = bind_res (op_offset_copy ops cxt offset) (copy_loop sz ops offset)"

text \<open>
  What one round of the loop reads after its flag bits \<open>00\<close> and \<open>01\<close>: \<open>None\<close> is the end of the
  file, otherwise the size and the offset of the copy.  Or-ing \<open>0xFFFFFF00\<close> or \<open>0xFFFFE000\<close> into
  the \<open>int32_t\<close> offset makes it negative.
\<close>

definition short_copy :: "prs_ops \<Rightarrow> prs_dec_cxt \<Rightarrow> errno + ((nat \<times> int) option \<times> prs_dec_cxt)" where
  "short_copy ops cxt =
     bind_res (op_fetch_bit ops cxt) (\<lambda>(flag, cxt).
     bind_res (op_fetch_bit ops cxt) (\<lambda>(sz, cxt).
       let sz = (sz OR push_bit 1 flag) + 2 in
     bind_res (op_fetch_byte ops cxt) (\<lambda>(offset, cxt).
       let offset = sint ((word_of_int offset :: u32) OR 0xFFFFFF00)
       in Inr (Some (nat sz, offset), cxt))))"

definition long_copy :: "prs_ops \<Rightarrow> prs_dec_cxt \<Rightarrow> errno + ((nat \<times> int) option \<times> prs_dec_cxt)" where
  "long_copy ops cxt =
     bind_res (op_fetch_short ops cxt) (\<lambda>(offset, cxt).
       if offset = 0 then Inr (None, cxt)
       else
         let sz = offset AND 0x0007; offset = drop_bit 3 offset in
         bind_res (if sz = 0 then bind_res (op_fetch_byte ops cxt) (\<lambda>(sz, cxt). Inr (sz + 1, cxt))
              else Inr (sz + 2, cxt)) (\<lambda>(sz, cxt).
           let offset = sint ((word_of_int offset :: u32) OR 0xFFFFE000)
           in Inr (Some (nat sz, offset), cxt)))"

text \<open>One round: \<open>Inr (True, cxt)\<close> is the end of the file.\<close>

definition decompress_round :: "prs_ops \<Rightarrow> prs_dec_cxt \<Rightarrow> errno + (bool \<times> prs_dec_cxt)" where
  "decompress_round ops cxt =
     bind_res (op_fetch_bit ops cxt) (\<lambda>(flag, cxt).
       if flag \<noteq> 0 then bind_res (op_copy_byte ops cxt) (\<lambda>cxt. Inr (False, cxt))
       else bind_res (op_fetch_bit ops cxt) (\<lambda>(flag, cxt).
         bind_res (if flag \<noteq> 0 then long_copy ops cxt else short_copy ops cxt) (\<lambda>(c, cxt).
           case c of
             None \<Rightarrow> Inr (True, cxt)
           | Some (sz, offset) \<Rightarrow>
               bind_res (copy_loop sz ops offset cxt) (\<lambda>cxt. Inr (False, cxt)))))"

primrec do_decompress :: "nat \<Rightarrow> prs_ops \<Rightarrow> prs_dec_cxt \<Rightarrow> (errno + int \<times> prs_dec_cxt) option" where
  "do_decompress 0 ops cxt = None"
| "do_decompress (Suc fuel) ops cxt =
     (case decompress_round ops cxt of
        Inl e \<Rightarrow> Some (Inl e)
      | Inr (True, cxt') \<Rightarrow>
          let n = c_int (dst_pos cxt') in Some (if n < 0 then Inl (Negative_size n) else Inr (n, cxt'))
      | Inr (False, cxt') \<Rightarrow> do_decompress fuel ops cxt')"

subsection \<open>The callbacks\<close>

definition fetch_bit :: "prs_dec_cxt \<Rightarrow> errno + int \<times> prs_dec_cxt" where
  "fetch_bit cxt =
     bind_res (if bit_pos cxt = 0 then
            if src_pos cxt \<ge> src_len cxt then Inl EBADMSG
            else Inr (cxt\<lparr>flags := src cxt ! src_pos cxt, src_pos := src_pos cxt + 1, bit_pos := 8\<rparr>)
          else Inr cxt)
       (\<lambda>cxt. Inr (uint (flags cxt AND 1),
                    cxt\<lparr>flags := drop_bit 1 (flags cxt), bit_pos := bit_pos cxt - 1\<rparr>))"

definition copy_byte :: "prs_dec_cxt \<Rightarrow> errno + prs_dec_cxt" where
  "copy_byte cxt =
     (if src_pos cxt \<ge> src_len cxt then Inl EBADMSG
      else if dst_pos cxt \<ge> dst_len cxt then Inl ENOSPC
      else Inr (cxt\<lparr>dst := (dst cxt)[dst_pos cxt := src cxt ! src_pos cxt],
                    src_pos := src_pos cxt + 1, dst_pos := dst_pos cxt + 1\<rparr>))"

definition fetch_byte :: "prs_dec_cxt \<Rightarrow> errno + int \<times> prs_dec_cxt" where
  "fetch_byte cxt =
     (if src_pos cxt \<ge> src_len cxt then Inl EBADMSG
      else Inr (uint (src cxt ! src_pos cxt), cxt\<lparr>src_pos := src_pos cxt + 1\<rparr>))"

definition fetch_short :: "prs_dec_cxt \<Rightarrow> errno + int \<times> prs_dec_cxt" where
  "fetch_short cxt =
     (if src_pos cxt + 1 \<ge> src_len cxt then Inl EBADMSG
      else Inr (uint ((ucast (src cxt ! src_pos cxt) :: u16) OR
                      push_bit 8 (ucast (src cxt ! (src_pos cxt + 1)))),
                cxt\<lparr>src_pos := src_pos cxt + 2\<rparr>))"

definition offset_copy :: "prs_dec_cxt \<Rightarrow> int \<Rightarrow> errno + prs_dec_cxt" where
  "offset_copy cxt offset =
     (let tmp = c_int (dst_pos cxt) + offset
      in if tmp < 0 then Inl EBADMSG
         else if dst_pos cxt \<ge> dst_len cxt then Inl ENOSPC
         else Inr (cxt\<lparr>dst := (dst cxt)[dst_pos cxt := dst cxt ! nat (int (dst_pos cxt) + offset)],
                       dst_pos := dst_pos cxt + 1\<rparr>))"

definition nocopy_byte :: "prs_dec_cxt \<Rightarrow> errno + prs_dec_cxt" where
  "nocopy_byte cxt =
     (if src_pos cxt \<ge> src_len cxt then Inl EBADMSG
      else Inr (cxt\<lparr>src_pos := src_pos cxt + 1, dst_pos := dst_pos cxt + 1\<rparr>))"

definition offset_nocopy :: "prs_dec_cxt \<Rightarrow> int \<Rightarrow> errno + prs_dec_cxt" where
  "offset_nocopy cxt offset =
     (let tmp = c_int (dst_pos cxt) + offset
      in if tmp < 0 then Inl EBADMSG else Inr (cxt\<lparr>dst_pos := dst_pos cxt + 1\<rparr>))"

definition grow :: "heap \<Rightarrow> prs_dec_cxt \<Rightarrow> errno + prs_dec_cxt" where
  "grow h cxt =
     (if dst_pos cxt \<ge> dst_len cxt then
        (case realloc h (dst cxt) (dst_len cxt * 2) of
           None \<Rightarrow> Inl ENOMEM
         | Some d \<Rightarrow> Inr (cxt\<lparr>dst := d, dst_len := dst_len cxt * 2\<rparr>))
      else Inr cxt)"

definition offset_copy_alloc :: "heap \<Rightarrow> prs_dec_cxt \<Rightarrow> int \<Rightarrow> errno + prs_dec_cxt" where
  "offset_copy_alloc h cxt offset =
     (let tmp = c_int (dst_pos cxt) + offset
      in if tmp < 0 then Inl EBADMSG
         else bind_res (grow h cxt) (\<lambda>cxt.
           Inr (cxt\<lparr>dst := (dst cxt)[dst_pos cxt := dst cxt ! nat (int (dst_pos cxt) + offset)],
                    dst_pos := dst_pos cxt + 1\<rparr>)))"

definition copy_abyte :: "heap \<Rightarrow> prs_dec_cxt \<Rightarrow> errno + prs_dec_cxt" where
  "copy_abyte h cxt =
     (if src_pos cxt \<ge> src_len cxt then Inl EBADMSG
      else bind_res (grow h cxt) (\<lambda>cxt.
        Inr (cxt\<lparr>dst := (dst cxt)[dst_pos cxt := src cxt ! src_pos cxt],
                 src_pos := src_pos cxt + 1, dst_pos := dst_pos cxt + 1\<rparr>)))"

text \<open>
  The callbacks that read a file.  Here \<open>src\<close> is what the stream holds, which is shorter than
  \<open>src_len\<close> when the file has shrunk since its length was taken, and \<open>e\<close> the error number that is
  left of an earlier call when a short read sets none.
\<close>

definition file_bit :: "prs_dec_cxt \<Rightarrow> errno + int \<times> prs_dec_cxt" where
  "file_bit cxt =
     bind_res (if bit_pos cxt = 0 then
            if src_pos cxt \<ge> src_len cxt then Inl EBADMSG
            else if src_pos cxt \<ge> length (src cxt) then Inl EBADMSG
            else Inr (cxt\<lparr>flags := src cxt ! src_pos cxt, src_pos := src_pos cxt + 1, bit_pos := 8\<rparr>)
          else Inr cxt)
       (\<lambda>cxt. Inr (uint (flags cxt AND 1),
                    cxt\<lparr>flags := drop_bit 1 (flags cxt), bit_pos := bit_pos cxt - 1\<rparr>))"

definition copy_fbyte :: "heap \<Rightarrow> prs_dec_cxt \<Rightarrow> errno + prs_dec_cxt" where
  "copy_fbyte h cxt =
     (if src_pos cxt \<ge> src_len cxt then Inl EBADMSG
      else bind_res (grow h cxt) (\<lambda>cxt.
        if src_pos cxt \<ge> length (src cxt) then Inl EBADMSG
        else Inr (cxt\<lparr>dst := (dst cxt)[dst_pos cxt := src cxt ! src_pos cxt],
                      src_pos := src_pos cxt + 1, dst_pos := dst_pos cxt + 1\<rparr>)))"

definition file_byte :: "prs_dec_cxt \<Rightarrow> errno + int \<times> prs_dec_cxt" where
  "file_byte cxt =
     (if src_pos cxt \<ge> src_len cxt then Inl EBADMSG
      else if src_pos cxt \<ge> length (src cxt) then Inl EBADMSG
      else Inr (uint (src cxt ! src_pos cxt), cxt\<lparr>src_pos := src_pos cxt + 1\<rparr>))"

definition file_short :: "errno \<Rightarrow> prs_dec_cxt \<Rightarrow> errno + int \<times> prs_dec_cxt" where
  "file_short e cxt =
     (if src_pos cxt + 1 \<ge> src_len cxt then Inl EBADMSG
      else if src_pos cxt + 1 \<ge> length (src cxt) then Inl e
      else Inr (uint ((ucast (src cxt ! src_pos cxt) :: u16) OR
                      push_bit 8 (ucast (src cxt ! (src_pos cxt + 1)))),
                cxt\<lparr>src_pos := src_pos cxt + 2\<rparr>))"

definition file_ops :: "heap \<Rightarrow> errno \<Rightarrow> prs_ops" where
  "file_ops h e = \<lparr>op_copy_byte = copy_fbyte h, op_offset_copy = offset_copy_alloc h,
     op_fetch_bit = file_bit, op_fetch_byte = file_byte, op_fetch_short = file_short e\<rparr>"

definition buf_ops :: "heap \<Rightarrow> prs_ops" where
  "buf_ops h = \<lparr>op_copy_byte = copy_abyte h, op_offset_copy = offset_copy_alloc h,
     op_fetch_bit = fetch_bit, op_fetch_byte = fetch_byte, op_fetch_short = fetch_short\<rparr>"

definition buf2_ops :: prs_ops where
  "buf2_ops = \<lparr>op_copy_byte = copy_byte, op_offset_copy = offset_copy,
     op_fetch_bit = fetch_bit, op_fetch_byte = fetch_byte, op_fetch_short = fetch_short\<rparr>"

definition size_ops :: prs_ops where
  "size_ops = \<lparr>op_copy_byte = nocopy_byte, op_offset_copy = offset_nocopy,
     op_fetch_bit = fetch_bit, op_fetch_byte = fetch_byte, op_fetch_short = fetch_short\<rparr>"

subsection \<open>The public functions\<close>

text \<open>
  A \<open>NULL\<close> pointer is \<open>None\<close>.  Every round reads at least one bit, so \<open>8 * src_len + 1\<close> rounds
  are enough fuel.
\<close>

definition new_cxt :: "u8 list \<Rightarrow> u8 list \<Rightarrow> nat \<Rightarrow> prs_dec_cxt" where
  "new_cxt s d dlen = \<lparr>flags = 0, bit_pos = 0, src = s, dst = d, src_len = length s,
     dst_len = dlen, src_pos = 0, dst_pos = 0\<rparr>"

definition rounds :: "nat \<Rightarrow> nat" where
  "rounds len = 8 * len + 1"

definition prs_decompress_buf ::
    "heap \<Rightarrow> u8 list option \<Rightarrow> bool \<Rightarrow> (errno + int \<times> u8 list) option" where
  "prs_decompress_buf h sp dst_null =
     (case sp of
        None \<Rightarrow> Some (Inl EFAULT)
      | Some s \<Rightarrow>
          if dst_null then Some (Inl EFAULT)
          else if length s = 0 then Some (Inl EINVAL)
          else if length s < 3 then Some (Inl EBADMSG)
          else
            (case malloc h (length s * 2) of
               None \<Rightarrow> Some (Inl ENOMEM)
             | Some d \<Rightarrow>
                 (case do_decompress (rounds (length s)) (buf_ops h) (new_cxt s d (length s * 2)) of
                    None \<Rightarrow> None
                  | Some (Inl e) \<Rightarrow> Some (Inl e)
                  | Some (Inr (rv, cxt)) \<Rightarrow>
                      Some (Inr (rv, case realloc h (dst cxt) (nat rv) of
                                       None \<Rightarrow> dst cxt | Some d' \<Rightarrow> d')))))"

definition prs_decompress_buf2 ::
    "u8 list option \<Rightarrow> u8 list option \<Rightarrow> (errno + int \<times> u8 list) option" where
  "prs_decompress_buf2 sp dp =
     (case (sp, dp) of
        (Some s, Some d) \<Rightarrow>
          if length s = 0 \<or> length d = 0 then Some (Inl EINVAL)
          else if length s < 3 then Some (Inl EBADMSG)
          else map_option (map_sum id (\<lambda>(rv, cxt). (rv, dst cxt)))
                 (do_decompress (rounds (length s)) buf2_ops (new_cxt s d (length d)))
      | _ \<Rightarrow> Some (Inl EFAULT))"

definition prs_decompress_size :: "u8 list option \<Rightarrow> (errno + int) option" where
  "prs_decompress_size sp =
     (case sp of
        None \<Rightarrow> Some (Inl EFAULT)
      | Some s \<Rightarrow>
          if length s = 0 then Some (Inl EINVAL)
          else if length s < 3 then Some (Inl EBADMSG)
          else map_option (map_sum id fst)
                 (do_decompress (rounds (length s)) size_ops (new_cxt s [] (2 ^ 64 - 1))))"

text \<open>
  \<open>prs_decompress_file\<close>: \<open>f\<close> is \<open>None\<close> for a file that cannot be opened, with error \<open>e\<close>; otherwise
  the length that \<open>ftell\<close> gave and the bytes the stream delivers.
\<close>

definition prs_decompress_file ::
    "heap \<Rightarrow> errno \<Rightarrow> (nat \<times> u8 list) option \<Rightarrow> bool \<Rightarrow> (errno + int \<times> u8 list) option" where
  "prs_decompress_file h e f dst_null =
     (if dst_null then Some (Inl EFAULT)
      else case f of
        None \<Rightarrow> Some (Inl e)
      | Some (len, s) \<Rightarrow>
          if len < 3 then Some (Inl EBADMSG)
          else
            (case malloc h (len * 2) of
               None \<Rightarrow> Some (Inl ENOMEM)
             | Some d \<Rightarrow>
                 (case do_decompress (rounds len) (file_ops h e)
                         ((new_cxt s d (len * 2))\<lparr>src_len := len\<rparr>) of
                    None \<Rightarrow> None
                  | Some (Inl e) \<Rightarrow> Some (Inl e)
                  | Some (Inr (rv, cxt)) \<Rightarrow>
                      Some (Inr (rv, case realloc h (dst cxt) (nat rv) of
                                       None \<Rightarrow> dst cxt | Some d' \<Rightarrow> d')))))"

lemmas prs_cb_defs = file_bit_def copy_fbyte_def file_byte_def file_short_def fetch_bit_def fetch_byte_def fetch_short_def copy_byte_def offset_copy_def
  nocopy_byte_def offset_nocopy_def grow_def offset_copy_alloc_def copy_abyte_def

end
