(* ===== verification/Prs_Comp.thy ===== *)
theory Prs_Comp
  imports Prs_Decomp
begin

section \<open>PRS compression\<close>

text \<open>
  \<open>libsylverant/src/utils/prs-comp.c\<close>.  Pointers into the source are positions, so a null entry of
  the hash tables is \<open>None\<close>; \<open>PREV\<close> is indexed by the low bits of the address, for which the
  functions take the address \<open>base\<close> of the source.  \<open>HASH_STR\<close> reads two bytes, the second of
  which is one past the end of the source when the last position is hashed (in the lazy search
  and in \<open>add_intermediates\<close>): \<open>past\<close> is the byte the program finds there.  The flag pointer is a
  position in the destination.  Lengths and offsets are mathematical integers, as for sources
  below 2 GiB.  \<open>None\<close> stands for a loop that has used up its fuel.
\<close>

definition MAX_WINDOW :: nat where "MAX_WINDOW = 0x2000"

record prs_comp_cxt =
  comp_flags :: u8
  bits_left :: nat
  comp_src :: "u8 list"
  comp_dst :: "u8 list"
  flag_ptr :: nat
  comp_src_len :: nat
  comp_dst_len :: nat
  comp_src_pos :: nat
  comp_dst_pos :: nat

record prs_hash_cxt =
  hash_ent :: "u8 \<Rightarrow> nat option"
  h_prev :: "nat \<Rightarrow> nat option"

definition src_at :: "u8 \<Rightarrow> u8 list \<Rightarrow> nat \<Rightarrow> u8" where
  "src_at past s i = (if i < length s then s ! i else past)"

definition HASH_STR :: "u8 \<Rightarrow> u8 list \<Rightarrow> nat \<Rightarrow> u8" where
  "HASH_STR past s i = src_at past s i XOR src_at past s (i + 1)"

definition prev_slot :: "nat \<Rightarrow> nat \<Rightarrow> nat" where
  "prev_slot base s = (base + s) mod MAX_WINDOW"

definition PREV :: "nat \<Rightarrow> prs_hash_cxt \<Rightarrow> nat \<Rightarrow> nat option" where
  "PREV base hc s = h_prev hc (prev_slot base s)"

definition ADD_TO_HASH :: "nat \<Rightarrow> prs_hash_cxt \<Rightarrow> nat \<Rightarrow> u8 \<Rightarrow> prs_hash_cxt" where
  "ADD_TO_HASH base hc s h =
     hc\<lparr>h_prev := (h_prev hc)(prev_slot base s := hash_ent hc h),
        hash_ent := (hash_ent hc)(h := Some s)\<rparr>"

definition prs_max_compressed_size :: "nat \<Rightarrow> nat" where
  "prs_max_compressed_size n =
     (let len = n + 2 in len + drop_bit 3 len + (if len AND 0x07 \<noteq> 0 then 1 else 0))"

subsection \<open>Writing flags and bytes\<close>

definition prs_set_bit :: "prs_comp_cxt \<Rightarrow> bool \<Rightarrow> errno + prs_comp_cxt" where
  "prs_set_bit cxt value =
     bind_res
       (if bits_left cxt = 0 then
          if comp_dst_pos cxt \<ge> comp_dst_len cxt then Inl ENOSPC
          else Inr (cxt\<lparr>comp_dst := (comp_dst cxt)[flag_ptr cxt := comp_flags cxt],
                        flag_ptr := comp_dst_pos cxt, comp_dst_pos := comp_dst_pos cxt + 1,
                        bits_left := 7\<rparr>)
        else Inr (cxt\<lparr>bits_left := bits_left cxt - 1\<rparr>))
       (\<lambda>cxt. Inr (cxt\<lparr>comp_flags := drop_bit 1 (comp_flags cxt) OR (if value then 0x80 else 0)\<rparr>))"

definition write_final_flags :: "prs_comp_cxt \<Rightarrow> errno + prs_comp_cxt" where
  "write_final_flags cxt =
     (let f = drop_bit (bits_left cxt) (comp_flags cxt)
      in Inr (cxt\<lparr>comp_flags := f, comp_dst := (comp_dst cxt)[flag_ptr cxt := f]\<rparr>))"

definition copy_literal :: "prs_comp_cxt \<Rightarrow> errno + prs_comp_cxt" where
  "copy_literal cxt =
     (if comp_dst_pos cxt \<ge> comp_dst_len cxt then Inl ENOSPC
      else if comp_src_pos cxt \<ge> comp_src_len cxt then Inl EPERM
      else Inr (cxt\<lparr>comp_dst := (comp_dst cxt)[comp_dst_pos cxt := comp_src cxt ! comp_src_pos cxt],
                    comp_dst_pos := comp_dst_pos cxt + 1, comp_src_pos := comp_src_pos cxt + 1\<rparr>))"

definition write_literal :: "prs_comp_cxt \<Rightarrow> u8 \<Rightarrow> errno + prs_comp_cxt" where
  "write_literal cxt val =
     (if comp_dst_pos cxt \<ge> comp_dst_len cxt then Inl ENOSPC
      else Inr (cxt\<lparr>comp_dst := (comp_dst cxt)[comp_dst_pos cxt := val],
                    comp_dst_pos := comp_dst_pos cxt + 1\<rparr>))"

definition write_eof :: "prs_comp_cxt \<Rightarrow> errno + prs_comp_cxt" where
  "write_eof cxt =
     bind_res (prs_set_bit cxt False) (\<lambda>cxt.
     bind_res (prs_set_bit cxt True) (\<lambda>cxt.
     bind_res (write_final_flags cxt) (\<lambda>cxt.
     bind_res (write_literal cxt 0) (\<lambda>cxt.
     write_literal cxt 0))))"

definition put_literal :: "prs_comp_cxt \<Rightarrow> errno + prs_comp_cxt" where
  "put_literal cxt = bind_res (prs_set_bit cxt True) copy_literal"

subsection \<open>Finding matches\<close>

function match_length :: "u8 list \<Rightarrow> nat \<Rightarrow> nat \<Rightarrow> nat \<Rightarrow> nat" where
  "match_length s end_pos s1 s2 =
     (if s1 < end_pos \<and> s ! s1 = s ! s2 then Suc (match_length s end_pos (s1 + 1) (s2 + 1)) else 0)"
  by pat_completeness auto
termination by (relation "measure (\<lambda>(s, e, s1, s2). e - s1)") auto

declare match_length.simps [simp del]

text \<open>
  The walk along the chain of earlier strings with the same hash: the longest match so far and
  where it is.  A link that leads out of the window is cut.
\<close>

primrec follow_chain :: "nat \<Rightarrow> nat \<Rightarrow> prs_comp_cxt \<Rightarrow> prs_hash_cxt \<Rightarrow> nat \<Rightarrow> nat \<times> nat option \<Rightarrow>
    ((nat \<times> nat option) \<times> prs_hash_cxt) option" where
  "follow_chain 0 base cxt hc ent best = None"
| "follow_chain (Suc fuel) base cxt hc ent best =
     (let mlen = match_length (comp_src cxt) (comp_src_len cxt) (comp_src_pos cxt) ent;
          best = (if mlen \<noteq> 0 \<and> (mlen > fst best \<or> mlen \<ge> 256) then (mlen, Some ent) else best)
      in case PREV base hc ent of
           None \<Rightarrow> Some (best, hc)
         | Some ent2 \<Rightarrow>
             if comp_src_pos cxt - ent2 > MAX_WINDOW
             then Some (best, hc\<lparr>h_prev := (h_prev hc)(prev_slot base ent := None)\<rparr>)
             else follow_chain fuel base cxt hc ent2 best)"

text \<open>The result is the length and, when it is not 0, the offset of the match.\<close>

definition find_longest_match ::
    "nat \<Rightarrow> u8 \<Rightarrow> prs_comp_cxt \<Rightarrow> prs_hash_cxt \<Rightarrow> bool \<Rightarrow> (nat \<times> int \<times> prs_hash_cxt) option" where
  "find_longest_match base past cxt hc lazy =
     (if comp_src_pos cxt \<ge> comp_src_len cxt then Some (0, 0, hc)
      else
        let pos = comp_src_pos cxt; h = HASH_STR past (comp_src cxt) pos;
            add = (\<lambda>hc. if lazy then hc else ADD_TO_HASH base hc pos h)
        in case hash_ent hc h of
             None \<Rightarrow> Some (0, 0, add hc)
           | Some ent \<Rightarrow>
               if pos - ent > MAX_WINDOW
               then Some (0, 0, add (hc\<lparr>hash_ent := (hash_ent hc)(h := None)\<rparr>))
               else
                 (case follow_chain (Suc ent) base cxt hc ent (0, None) of
                    None \<Rightarrow> None
                  | Some ((longest, m), hc) \<Rightarrow>
                      Some (longest, case m of None \<Rightarrow> 0 | Some p \<Rightarrow> int p - int pos, add hc)))"

definition add_intermediates :: "nat \<Rightarrow> u8 \<Rightarrow> prs_comp_cxt \<Rightarrow> prs_hash_cxt \<Rightarrow> nat \<Rightarrow> prs_hash_cxt" where
  "add_intermediates base past cxt hc len =
     fold (\<lambda>i hc. ADD_TO_HASH base hc (comp_src_pos cxt + i)
                    (HASH_STR past (comp_src cxt) (comp_src_pos cxt + i)))
       [1..<len] hc"

subsection \<open>Archiving\<close>

definition new_comp :: "u8 list \<Rightarrow> u8 list \<Rightarrow> prs_comp_cxt" where
  "new_comp s d = \<lparr>comp_flags = 0, bits_left = 0, comp_src = s, comp_dst = d, flag_ptr = 0,
     comp_src_len = length s, comp_dst_len = prs_max_compressed_size (length s),
     comp_src_pos = 0, comp_dst_pos = 0\<rparr>"

primrec put_literals :: "nat \<Rightarrow> prs_comp_cxt \<Rightarrow> errno + prs_comp_cxt" where
  "put_literals 0 cxt = Inr cxt"
| "put_literals (Suc n) cxt = bind_res (put_literal cxt) (put_literals n)"

definition prs_archive :: "heap \<Rightarrow> u8 list option \<Rightarrow> bool \<Rightarrow> errno + int \<times> u8 list" where
  "prs_archive h sp dst_null =
     (case sp of
        None \<Rightarrow> Inl EFAULT
      | Some s \<Rightarrow>
          if dst_null then Inl EFAULT
          else if length s = 0 then Inl EINVAL
          else case malloc h (prs_max_compressed_size (length s)) of
                 None \<Rightarrow> Inl ENOMEM
               | Some d \<Rightarrow>
                   bind_res (put_literals (length s) (new_comp s d)) (\<lambda>cxt.
                   bind_res (write_eof cxt) (\<lambda>cxt.
                   Inr (c_int (comp_dst_pos cxt), comp_dst cxt))))"

subsection \<open>Compressing\<close>

text \<open>
  What to write for a match of length \<open>mlen\<close> at \<open>offset\<close>: \<open>None\<close> when none of the three codes
  fits, otherwise the context with the code written and the length it covers.
\<close>

definition put_match :: "prs_comp_cxt \<Rightarrow> nat \<Rightarrow> int \<Rightarrow> (errno + prs_comp_cxt) option \<times> nat" where
  "put_match cxt mlen offset =
     (if 2 \<le> mlen \<and> mlen \<le> 5 \<and> offset \<ge> -256 then
        (Some (bind_res (prs_set_bit cxt False) (\<lambda>cxt.
               bind_res (prs_set_bit cxt False) (\<lambda>cxt.
               bind_res (prs_set_bit cxt ((mlen - 2) AND 2 \<noteq> 0)) (\<lambda>cxt.
               bind_res (prs_set_bit cxt ((mlen - 2) AND 1 \<noteq> 0)) (\<lambda>cxt.
               write_literal cxt (word_of_int (offset AND 0xFF))))))), mlen)
      else if 3 \<le> mlen \<and> mlen \<le> 9 then
        (Some (bind_res (prs_set_bit cxt False) (\<lambda>cxt.
               bind_res (prs_set_bit cxt True) (\<lambda>cxt.
               bind_res (write_literal cxt
                 (word_of_int (push_bit 3 (offset AND 0x1f) OR ((int mlen - 2) AND 0x07)))) (\<lambda>cxt.
               write_literal cxt (word_of_int (drop_bit 5 offset)))))), mlen)
      else if mlen > 9 then
        (let mlen = (if mlen > 256 then 256 else mlen) in
        (Some (bind_res (prs_set_bit cxt False) (\<lambda>cxt.
               bind_res (prs_set_bit cxt True) (\<lambda>cxt.
               bind_res (write_literal cxt (word_of_int (push_bit 3 (offset AND 0x1f)))) (\<lambda>cxt.
               bind_res (write_literal cxt (word_of_int (drop_bit 5 offset))) (\<lambda>cxt.
               write_literal cxt (of_nat (mlen - 1))))))), mlen))
      else (None, 0))"

text \<open>The test of the lazy match: the longer match at the next byte wins, unless it would turn a
  short code into a long one for fewer than three bytes.\<close>

definition prefer_lazy :: "nat \<Rightarrow> nat \<Rightarrow> int \<Rightarrow> int \<Rightarrow> bool" where
  "prefer_lazy mlen mlen2 offset offset2 \<longleftrightarrow>
     mlen2 > mlen \<and>
     \<not> (2 \<le> mlen \<and> mlen \<le> 5 \<and> offset2 < offset \<and> offset \<ge> -256 \<and> offset2 < -256 \<and> mlen2 - mlen < 3)"

text \<open>One round of the main loop.\<close>

definition compress_round :: "nat \<Rightarrow> u8 \<Rightarrow> prs_comp_cxt \<Rightarrow> prs_hash_cxt \<Rightarrow>
    (errno + prs_comp_cxt \<times> prs_hash_cxt) option" where
  "compress_round base past cxt hc =
     (case find_longest_match base past cxt hc False of
        None \<Rightarrow> None
      | Some (mlen, offset, hc) \<Rightarrow>
          if mlen = 0 then Some (bind_res (put_literal cxt) (\<lambda>cxt. Inr (cxt, hc)))
          else
            (case find_longest_match base past (cxt\<lparr>comp_src_pos := comp_src_pos cxt + 1\<rparr>) hc True of
               None \<Rightarrow> None
             | Some (mlen2, offset2, hc) \<Rightarrow>
                 if prefer_lazy mlen mlen2 offset offset2
                 then Some (bind_res (put_literal cxt) (\<lambda>cxt. Inr (cxt, hc)))
                 else
                   (case put_match cxt mlen offset of
                      (None, _) \<Rightarrow> Some (bind_res (put_literal cxt) (\<lambda>cxt. Inr (cxt, hc)))
                    | (Some r, len) \<Rightarrow>
                        Some (bind_res r (\<lambda>cxt.
                          Inr (cxt\<lparr>comp_src_pos := comp_src_pos cxt + len\<rparr>,
                               add_intermediates base past cxt hc len))))))"

primrec compress_loop :: "nat \<Rightarrow> nat \<Rightarrow> u8 \<Rightarrow> prs_comp_cxt \<Rightarrow> prs_hash_cxt \<Rightarrow>
    (errno + prs_comp_cxt) option" where
  "compress_loop 0 base past cxt hc = None"
| "compress_loop (Suc fuel) base past cxt hc =
     (if comp_src_pos cxt < comp_src_len cxt - 1 then
        (case compress_round base past cxt hc of
           None \<Rightarrow> None
         | Some (Inl e) \<Rightarrow> Some (Inl e)
         | Some (Inr (cxt, hc)) \<Rightarrow> compress_loop fuel base past cxt hc)
      else Some (Inr cxt))"

definition prs_compress ::
    "heap \<Rightarrow> bool \<Rightarrow> nat \<Rightarrow> u8 \<Rightarrow> u8 list option \<Rightarrow> bool \<Rightarrow> (errno + int \<times> u8 list) option" where
  "prs_compress h hash_alloc base past sp dst_null =
     (case sp of
        None \<Rightarrow> Some (Inl EFAULT)
      | Some s \<Rightarrow>
          if dst_null then Some (Inl EFAULT)
          else if length s = 0 then Some (Inl EINVAL)
          else if length s \<le> 3 then Some (prs_archive h sp dst_null)
          else if \<not> hash_alloc then Some (Inl ENOMEM)
          else case malloc h (prs_max_compressed_size (length s)) of
                 None \<Rightarrow> Some (Inl ENOMEM)
               | Some d \<Rightarrow>
                   let hc = \<lparr>hash_ent = \<lambda>_. None, h_prev = \<lambda>_. None\<rparr>;
                       hc = ADD_TO_HASH base hc 0 (HASH_STR past s 0);
                       hc = ADD_TO_HASH base hc 1 (HASH_STR past s 1)
                   in case bind_res (put_literal (new_comp s d)) put_literal of
                        Inl e \<Rightarrow> Some (Inl e)
                      | Inr cxt \<Rightarrow>
                          (case compress_loop (length s) base past cxt hc of
                             None \<Rightarrow> None
                           | Some (Inl e) \<Rightarrow> Some (Inl e)
                           | Some (Inr cxt) \<Rightarrow>
                               Some (bind_res (if comp_src_pos cxt < comp_src_len cxt
                                               then put_literal cxt else Inr cxt) (\<lambda>cxt.
                                     bind_res (write_eof cxt) (\<lambda>cxt.
                                     Inr (c_int (comp_dst_pos cxt),
                                          case realloc h (comp_dst cxt) (comp_dst_pos cxt) of
                                            None \<Rightarrow> comp_dst cxt | Some d \<Rightarrow> d))))))"

end
