(* ===== verification/Prs_Format.thy ===== *)
theory Prs_Format
  imports Prelude
begin

section \<open>The PRS format\<close>

text \<open>
  The format that \<open>prs-comp.c\<close> writes and \<open>prs-decomp.c\<close> reads, independently of both.  A
  compressed file is a sequence of items, each a flag bit or a data byte.  \<open>pack\<close> lays the items
  out: eight flag bits share a byte, which stands where the first of them is needed.  A token is
  one step of the LZ77 scheme; \<open>token_items\<close> is its encoding and \<open>apply_token\<close> its meaning.
\<close>

datatype item = Bit bool | Byte u8

fun item_bits :: "item list \<Rightarrow> bool list" where
  "item_bits [] = []"
| "item_bits (Bit b # xs) = b # item_bits xs"
| "item_bits (Byte v # xs) = item_bits xs"

fun item_bytes :: "item list \<Rightarrow> u8 list" where
  "item_bytes [] = []"
| "item_bytes (Bit b # xs) = item_bytes xs"
| "item_bytes (Byte v # xs) = v # item_bytes xs"

primrec byte_of_bits :: "bool list \<Rightarrow> u8" where
  "byte_of_bits [] = 0"
| "byte_of_bits (b # bs) = of_bool b OR push_bit 1 (byte_of_bits bs)"

fun pack :: "nat \<Rightarrow> item list \<Rightarrow> u8 list" where
  "pack n [] = []"
| "pack n (Byte v # xs) = v # pack n xs"
| "pack 0 (Bit b # xs) = byte_of_bits (b # take 7 (item_bits xs)) # pack 7 xs"
| "pack (Suc n) (Bit b # xs) = pack n xs"

lemma bit_byte_of_bits: "bit (byte_of_bits bs) i \<longleftrightarrow> i < 8 \<and> i < length bs \<and> bs ! i"
proof (induction bs arbitrary: i)
  case (Cons b bs)
  have "bit (of_bool b OR push_bit 1 w) i = (if i = 0 then b else i < 8 \<and> bit w (i - 1))" for w :: u8
    by (simp only: bit_or_iff bit_push_bit_iff bit_of_bool_iff possible_bit_word) auto
  then show ?case
    by (cases i) (auto simp only: byte_of_bits.simps Cons.IH nth_Cons_0 nth_Cons_Suc
        length_Cons diff_Suc_1 split: if_splits)
qed simp

lemma byte_of_bits_low: "byte_of_bits (b # bs) AND 1 = of_bool b"
  by (rule bit_word_eqI) (auto simp: bit_simps bit_byte_of_bits simp del: byte_of_bits.simps)

lemma byte_of_bits_shift:
  "length bs \<le> 7 \<Longrightarrow> drop_bit 1 (byte_of_bits (b # bs)) = byte_of_bits bs"
  by (rule bit_word_eqI) (auto simp: bit_simps bit_byte_of_bits simp del: byte_of_bits.simps)

lemma item_bits_append [simp]: "item_bits (xs @ ys) = item_bits xs @ item_bits ys"
  by (induction xs rule: item_bits.induct) simp_all

lemma item_bytes_append [simp]: "item_bytes (xs @ ys) = item_bytes xs @ item_bytes ys"
  by (induction xs rule: item_bytes.induct) simp_all

text \<open>The size of a layout: the data bytes and a byte for every eight bits begun.\<close>

lemma length_pack:
  "n < 8 \<Longrightarrow> length (pack n xs) =
     length (item_bytes xs) + (length (item_bits xs) + 7 - n) div 8"
  by (induction n xs rule: pack.induct) auto

subsection \<open>Tokens\<close>

datatype token =
  Lit u8
| Short int nat \<comment> \<open>two bits of length, one byte of offset\<close>
| LongS int nat \<comment> \<open>thirteen bits of offset, three bits of length\<close>
| LongL int nat \<comment> \<open>thirteen bits of offset, a byte of length\<close>

definition long_lo :: "int \<Rightarrow> nat \<Rightarrow> u8" where
  "long_lo offset sz =
     word_of_int (push_bit 3 (offset AND 0x1f) OR (if sz = 0 then 0 else (int sz - 2) AND 0x07))"

fun token_items :: "token \<Rightarrow> item list" where
  "token_items (Lit b) = [Bit True, Byte b]"
| "token_items (Short offset len) =
     [Bit False, Bit False, Bit ((len - 2) AND 2 \<noteq> 0), Bit ((len - 2) AND 1 \<noteq> 0),
      Byte (word_of_int offset)]"
| "token_items (LongS offset len) =
     [Bit False, Bit True, Byte (long_lo offset len), Byte (word_of_int (drop_bit 5 offset))]"
| "token_items (LongL offset len) =
     [Bit False, Bit True, Byte (long_lo offset 0), Byte (word_of_int (drop_bit 5 offset)),
      Byte (of_nat (len - 1))]"

definition eof_items :: "item list" where
  "eof_items = [Bit False, Bit True, Byte 0, Byte 0]"

text \<open>A copy takes its bytes one at a time, so it may overlap what it writes.\<close>

primrec copy_back :: "nat \<Rightarrow> int \<Rightarrow> u8 list \<Rightarrow> u8 list" where
  "copy_back 0 offset out = out"
| "copy_back (Suc n) offset out =
     copy_back n offset (out @ [out ! nat (int (length out) + offset)])"

fun apply_token :: "token \<Rightarrow> u8 list \<Rightarrow> u8 list" where
  "apply_token (Lit b) out = out @ [b]"
| "apply_token (Short offset len) out = copy_back len offset out"
| "apply_token (LongS offset len) out = copy_back len offset out"
| "apply_token (LongL offset len) out = copy_back len offset out"

definition apply_tokens :: "token list \<Rightarrow> u8 list \<Rightarrow> u8 list" where
  "apply_tokens ts out = fold apply_token ts out"

text \<open>
  The tokens the format can hold, after \<open>n\<close> bytes of output.  The offset \<open>-8192\<close> of a long copy
  leaves thirteen zero bits: with a length byte of its own the two bytes of the code are both zero,
  which is the mark of the end of the file.
\<close>

fun token_ok :: "nat \<Rightarrow> token \<Rightarrow> bool" where
  "token_ok n (Lit b) = True"
| "token_ok n (Short offset len) =
     (2 \<le> len \<and> len \<le> 5 \<and> -256 \<le> offset \<and> offset < 0 \<and> 0 \<le> int n + offset)"
| "token_ok n (LongS offset len) =
     (3 \<le> len \<and> len \<le> 9 \<and> -8192 \<le> offset \<and> offset < 0 \<and> 0 \<le> int n + offset)"
| "token_ok n (LongL offset len) =
     (1 \<le> len \<and> len \<le> 256 \<and> -8192 < offset \<and> offset < 0 \<and> 0 \<le> int n + offset)"

fun token_len :: "token \<Rightarrow> nat" where
  "token_len (Lit b) = 1"
| "token_len (Short offset len) = len"
| "token_len (LongS offset len) = len"
| "token_len (LongL offset len) = len"

fun tokens_ok :: "nat \<Rightarrow> token list \<Rightarrow> bool" where
  "tokens_ok n [] = True"
| "tokens_ok n (t # ts) = (token_ok n t \<and> tokens_ok (n + token_len t) ts)"

lemma length_copy_back [simp]: "length (copy_back n offset out) = length out + n"
  by (induction n arbitrary: out) simp_all

lemma length_apply_token [simp]: "length (apply_token t out) = length out + token_len t"
  by (cases t) simp_all

lemma tokens_ok_append:
  "tokens_ok n (ts @ us) \<longleftrightarrow> tokens_ok n ts \<and> tokens_ok (n + sum_list (map token_len ts)) us"
  by (induction ts arbitrary: n) (auto simp: add.assoc)

text \<open>Reading the two code bytes of a long copy.\<close>

lemma int_and_mask: "(x::int) AND 7 = x mod 8" "(x::int) AND 31 = x mod 32"
  using take_bit_eq_mask [of 3 x] take_bit_eq_mask [of 5 x]
  by (simp_all add: take_bit_eq_mod mask_eq_exp_minus_1)

lemma push_bit_or_add:
  fixes a b :: int
  assumes "0 \<le> b" "b < 2 ^ n"
  shows "push_bit n a OR b = a * 2 ^ n + b"
proof -
  have "b = take_bit n b" using assms by (simp add: take_bit_int_eq_self)
  then have "push_bit n a AND b = 0"
    by (intro bit_eqI) (metis bit_0_eq bit_and_iff bit_push_bit_iff bit_take_bit_iff bot_apply
        bot_bool_def leD)
  then show ?thesis by (simp flip: disjunctive_add_eq_or add: push_bit_eq_mult)
qed

lemma uint_join_bytes:
  fixes lo hi :: u8
  shows "uint ((ucast lo :: u16) OR push_bit 8 (ucast hi)) = 256 * uint hi + uint lo"
proof -
  have "uint ((ucast lo :: u16) OR push_bit 8 (ucast hi)) = push_bit 8 (uint hi) OR uint lo"
    by (rule bit_eqI) (auto simp: bit_simps bit_uint_iff dest: bit_imp_le_length)
  also have "\<dots> = uint hi * 2 ^ 8 + uint lo"
    using uint_bounded [of lo] by (intro push_bit_or_add) auto
  finally show ?thesis by simp
qed

lemma long_code_value:
  "256 * uint (word_of_int (drop_bit 5 offset) :: u8) + uint (long_lo offset sz)
     = 8 * (offset mod 8192) + (if sz = 0 then 0 else (int sz - 2) mod 8)"
proof -
  define s where "s = (if sz = 0 then 0 else (int sz - 2) mod 8)"
  have s: "0 \<le> s" "s < 8" by (auto simp: s_def)
  have "long_lo offset sz = word_of_int (offset mod 32 * 2 ^ 3 + s)"
    using push_bit_or_add [of s 3 "offset mod 32"] s
    unfolding long_lo_def int_and_mask s_def by simp
  then have "uint (long_lo offset sz) = (offset mod 32 * 8 + s) mod 256"
    by (simp only: uint_word_of_int) simp
  moreover have "uint (word_of_int (drop_bit 5 offset) :: u8) = (offset div 32) mod 256"
    by (simp add: uint_word_of_int drop_bit_eq_div)
  moreover have "offset mod 8192 = 32 * (offset div 32 mod 256) + offset mod 32"
    using zmod_zmult2_eq [of 256 offset 32] by simp
  moreover have "(offset mod 32 * 8 + s) mod 256 = offset mod 32 * 8 + s"
    using s pos_mod_bound [of 32 offset] by (intro mod_pos_pos_trivial) auto
  ultimately show ?thesis unfolding s_def [symmetric] by simp
qed

end
