(* ===== verification/Prs_Sink.thy ===== *)
theory Prs_Sink
  imports Prs_Run
begin

section \<open>The decompression loop reads the PRS format\<close>

text \<open>
  \<open>at_items c n xs rest\<close>: the context still has to read the items \<open>xs\<close>, \<open>n\<close> of whose flag bits are
  already in its \<open>flags\<close>, and \<open>rest\<close> follows them in the source.  Every reading callback moves it
  one item on.  The locale \<open>prs_sink\<close> is what the loop needs of the two writing callbacks; inside
  it the loop is shown to turn the encoding of a token list into its meaning.
\<close>

definition at_items :: "prs_dec_cxt \<Rightarrow> nat \<Rightarrow> item list \<Rightarrow> u8 list \<Rightarrow> bool" where
  "at_items c n xs rest \<longleftrightarrow> bit_pos c = n \<and> n < 8 \<and> flags c = byte_of_bits (take n (item_bits xs)) \<and>
     src_len c = length (src c) \<and> src_pos c \<le> length (src c) \<and>
     drop (src_pos c) (src c) = pack n xs @ rest"

definition same_src :: "prs_dec_cxt \<Rightarrow> prs_dec_cxt \<Rightarrow> bool" where
  "same_src c c' \<longleftrightarrow> flags c' = flags c \<and> bit_pos c' = bit_pos c \<and> src c' = src c \<and>
     src_len c' = src_len c \<and> src_pos c' = src_pos c"

definition same_dst :: "prs_dec_cxt \<Rightarrow> prs_dec_cxt \<Rightarrow> bool" where
  "same_dst c c' \<longleftrightarrow> dst c' = dst c \<and> dst_len c' = dst_len c \<and> dst_pos c' = dst_pos c"

lemma same_dst_trans: "same_dst a b \<Longrightarrow> same_dst b c \<Longrightarrow> same_dst a c"
  by (simp add: same_dst_def)

lemma at_items_same_src: "same_src c c' \<Longrightarrow> at_items c' n xs rest = at_items c n xs rest"
  by (simp add: same_src_def at_items_def)

lemma drop_eq_Cons:
  "i \<le> length xs \<Longrightarrow> drop i xs = y # ys \<Longrightarrow> i < length xs \<and> xs ! i = y \<and> drop (Suc i) xs = ys"
  by (metis Cons_nth_drop_Suc drop_eq_Nil2 leI list.distinct(1) list.inject)

lemma fetch_bit_items:
  assumes "at_items c n (Bit b # xs) rest"
  obtains c' n' where "fetch_bit c = Inr (of_bool b, c')" "at_items c' n' xs rest" "same_dst c c'"
proof (cases n)
  case 0
  then have src: "src_pos c < length (src c)"
      "src c ! src_pos c = byte_of_bits (b # take 7 (item_bits xs))"
      "drop (Suc (src_pos c)) (src c) = pack 7 xs @ rest"
    using assms drop_eq_Cons [of "src_pos c" "src c"] by (auto simp: at_items_def)
  let ?c = "c\<lparr>src_pos := Suc (src_pos c), flags := byte_of_bits (take 7 (item_bits xs)), bit_pos := 7\<rparr>"
  have "fetch_bit c = Inr (of_bool b, ?c)"
    using assms src 0 byte_of_bits_low [of b "take 7 (item_bits xs)"]
      byte_of_bits_shift [of "take 7 (item_bits xs)" b]
    by (simp add: fetch_bit_def at_items_def del: byte_of_bits.simps)
  then show ?thesis
    using assms src by (intro that [of ?c 7]) (auto simp: at_items_def same_dst_def)
next
  case (Suc m)
  let ?c = "c\<lparr>flags := byte_of_bits (take m (item_bits xs)), bit_pos := m\<rparr>"
  have "length (take m (item_bits xs)) \<le> 7" using assms Suc by (auto simp: at_items_def)
  then have "fetch_bit c = Inr (of_bool b, ?c)"
    using assms Suc byte_of_bits_low [of b "take m (item_bits xs)"]
      byte_of_bits_shift [of "take m (item_bits xs)" b]
    by (simp add: fetch_bit_def at_items_def del: byte_of_bits.simps)
  then show ?thesis
    using assms Suc by (intro that [of ?c m]) (auto simp: at_items_def same_dst_def)
qed

lemma at_items_Byte:
  assumes "at_items c n (Byte v # xs) rest"
  shows "src_pos c < src_len c" "src c ! src_pos c = v"
    "at_items (c\<lparr>src_pos := Suc (src_pos c)\<rparr>) n xs rest"
  using assms drop_eq_Cons [of "src_pos c" "src c"] by (auto simp: at_items_def)

lemma fetch_byte_items:
  assumes "at_items c n (Byte v # xs) rest"
  obtains c' where "fetch_byte c = Inr (uint v, c')" "at_items c' n xs rest" "same_dst c c'"
  using at_items_Byte [OF assms] by (auto simp: fetch_byte_def same_dst_def)

lemma fetch_short_items:
  assumes "at_items c n (Byte v # Byte w # xs) rest"
  obtains c' where "fetch_short c = Inr (256 * uint w + uint v, c')" "at_items c' n xs rest"
    "same_dst c c'"
  using at_items_Byte [OF assms] at_items_Byte [OF at_items_Byte(3) [OF assms]]
    uint_join_bytes [of v w]
  by (auto simp: fetch_short_def same_dst_def simp del: push_bit_numeral_minus_1)

text \<open>The sign of an offset is or-ed into it.\<close>

lemma or_sign:
  assumes "- (2 ^ n) \<le> z" "z < 0" "n < 32"
  shows "sint ((word_of_int (z mod 2 ^ n) :: u32) OR word_of_int (- (2 ^ n))) = z"
proof -
  have m: "z mod 2 ^ n = z + 2 ^ n"
    using assms mod_pos_pos_trivial [of "z + 2 ^ n" "2 ^ n"] by simp
  have "push_bit n (-1) OR (z mod 2 ^ n) = z"
    using push_bit_or_add [of "z mod 2 ^ n" n "-1"] assms unfolding m by linarith
  moreover have "(word_of_int (z mod 2 ^ n) :: u32) OR word_of_int (- (2 ^ n))
      = word_of_int (push_bit n (-1) OR (z mod 2 ^ n))"
  proof (rule bit_word_eqI)
    have "push_bit n (-1) = - (2 ^ n :: int)" by (simp add: push_bit_eq_mult)
    then show "bit ((word_of_int (z mod 2 ^ n) :: u32) OR word_of_int (- (2 ^ n))) i
        = bit (word_of_int (push_bit n (-1) OR (z mod 2 ^ n)) :: u32) i" for i
      by (simp only: bit_or_iff bit_word_of_int_iff) blast
  qed
  moreover have "(2::int) ^ n \<le> 2 ^ 31" using assms by (intro power_increasing) auto
  ultimately show ?thesis
    using assms by (simp add: sint_sbintrunc' signed_take_bit_int_eq_self)
qed

lemma sign_masks: "(0xFFFFFF00 :: u32) = word_of_int (- (2 ^ 8))" "(0xFFFFE000 :: u32) = word_of_int (- (2 ^ 13))"
  by simp_all

lemma or_sign_8: "-256 \<le> z \<Longrightarrow> z < 0 \<Longrightarrow> sint ((word_of_int (z mod 256) :: u32) OR 0xFFFFFF00) = z"
  using or_sign [of 8 z] unfolding sign_masks by simp

lemma or_sign_13: "-8192 \<le> z \<Longrightarrow> z < 0 \<Longrightarrow> sint ((word_of_int (z mod 8192) :: u32) OR 0xFFFFE000) = z"
  using or_sign [of 13 z] unfolding sign_masks by simp


lemma uint_of_nat_u8: "m < 256 \<Longrightarrow> uint (of_nat m :: u8) = int m"
  by (simp add: unsigned_of_nat take_bit_nat_eq_self)

subsection \<open>The contract of the writing callbacks\<close>

locale prs_sink =
  fixes ops :: prs_ops and out :: "prs_dec_cxt \<Rightarrow> u8 list" and room :: "prs_dec_cxt \<Rightarrow> nat \<Rightarrow> bool"
  assumes reading: "op_fetch_bit ops = fetch_bit" "op_fetch_byte ops = fetch_byte"
      "op_fetch_short ops = fetch_short"
    and out_dst: "same_dst c c' \<Longrightarrow> out c' = out c"
    and room_dst: "same_dst c c' \<Longrightarrow> room c' k = room c k"
    and out_pos: "room c k \<Longrightarrow> length (out c) = dst_pos c \<and> c_int (dst_pos c) = int (dst_pos c)"
    and sink_byte: "room c (Suc k) \<Longrightarrow> src_pos c < src_len c \<Longrightarrow>
      \<exists>c'. op_copy_byte ops c = Inr c' \<and> room c' k \<and> out c' = out c @ [src c ! src_pos c] \<and>
           same_src (c\<lparr>src_pos := Suc (src_pos c)\<rparr>) c'"
    and sink_back: "room c (Suc k) \<Longrightarrow> 0 \<le> int (length (out c)) + z \<Longrightarrow> z < 0 \<Longrightarrow>
      \<exists>c'. op_offset_copy ops c z = Inr c' \<and> room c' k \<and>
           out c' = out c @ [out c ! nat (int (length (out c)) + z)] \<and> same_src c c'"
begin

lemma copy_loop_back:
  assumes "room c (m + k)" "0 \<le> int (length (out c)) + z" "z < 0"
  shows "\<exists>c'. copy_loop m ops z c = Inr c' \<and> room c' k \<and> out c' = copy_back m z (out c) \<and> same_src c c'"
  using assms
proof (induction m arbitrary: c)
  case 0
  then show ?case by (simp add: same_src_def)
next
  case (Suc m)
  then obtain c1 where c1: "op_offset_copy ops c z = Inr c1" "room c1 (m + k)"
      "out c1 = out c @ [out c ! nat (int (length (out c)) + z)]" "same_src c c1"
    using sink_back [of c "m + k" z] by auto
  with Suc.IH [of c1] Suc.prems show ?case by (auto simp: same_src_def)
qed

definition reads_copy :: "prs_dec_cxt \<Rightarrow> nat \<Rightarrow> int \<Rightarrow> item list \<Rightarrow> u8 list \<Rightarrow> bool" where
  "reads_copy c len z xs rest \<longleftrightarrow> (\<exists>c' n'. decompress_round ops c =
     bind_res (copy_loop len ops z c') (\<lambda>c. Inr (False, c)) \<and> at_items c' n' xs rest \<and> same_dst c c')"

lemma round_reads_copy:
  assumes "reads_copy c len z xs rest" "room c (len + k)" "0 \<le> int (length (out c)) + z" "z < 0"
  shows "\<exists>c' n'. decompress_round ops c = Inr (False, c') \<and> at_items c' n' xs rest \<and>
           out c' = copy_back len z (out c) \<and> room c' k"
proof -
  obtain c1 n' where c1: "decompress_round ops c =
      bind_res (copy_loop len ops z c1) (\<lambda>c. Inr (False, c))" "at_items c1 n' xs rest" "same_dst c c1"
    using assms(1) by (auto simp: reads_copy_def)
  with copy_loop_back [of c1 len k z] assms room_dst [of c c1] out_dst [of c c1]
  show ?thesis by (auto simp: at_items_same_src)
qed

lemma read_items:
  "at_items c n (Bit b # xs) rest \<Longrightarrow> \<exists>c' n'. op_fetch_bit ops c = Inr (of_bool b, c') \<and>
     at_items c' n' xs rest \<and> same_dst c c'"
  "at_items c n (Byte v # xs) rest \<Longrightarrow> \<exists>c' n'. op_fetch_byte ops c = Inr (uint v, c') \<and>
     at_items c' n' xs rest \<and> same_dst c c'"
  "at_items c n (Byte v # Byte w # xs) rest \<Longrightarrow> \<exists>c' n'. op_fetch_short ops c =
     Inr (256 * uint w + uint v, c') \<and> at_items c' n' xs rest \<and> same_dst c c'"
  unfolding reading
  by (meson fetch_bit_items fetch_byte_items fetch_short_items)+

lemma reads_Short:
  assumes "at_items c n (token_items (Short z len) @ xs) rest" "2 \<le> len" "len \<le> 5" "-256 \<le> z" "z < 0"
  shows "reads_copy c len z xs rest"
proof -
  let ?h = "(len - 2) AND 2 \<noteq> 0" and ?l = "(len - 2) AND 1 \<noteq> 0"
  have 0: "at_items c n (Bit False # Bit False # Bit ?h # Bit ?l # Byte (word_of_int z) # xs) rest"
    using assms(1) by (simp only: token_items.simps append_Cons append_Nil)
  obtain c1 n1 where 1: "op_fetch_bit ops c = Inr (0, c1)" "same_dst c c1"
      "at_items c1 n1 (Bit False # Bit ?h # Bit ?l # Byte (word_of_int z) # xs) rest"
    using read_items(1) [OF 0] by (auto simp only: of_bool_eq)
  obtain c2 n2 where 2: "op_fetch_bit ops c1 = Inr (0, c2)" "same_dst c1 c2"
      "at_items c2 n2 (Bit ?h # Bit ?l # Byte (word_of_int z) # xs) rest"
    using read_items(1) [OF 1(3)] by (auto simp only: of_bool_eq)
  obtain c3 n3 where 3: "op_fetch_bit ops c2 = Inr (of_bool ?h, c3)" "same_dst c2 c3"
      "at_items c3 n3 (Bit ?l # Byte (word_of_int z) # xs) rest"
    using read_items(1) [OF 2(3)] by blast
  obtain c4 n4 where 4: "op_fetch_bit ops c3 = Inr (of_bool ?l, c4)" "same_dst c3 c4"
      "at_items c4 n4 (Byte (word_of_int z) # xs) rest"
    using read_items(1) [OF 3(3)] by blast
  have "uint (word_of_int z :: u8) = z mod 256" by (simp add: uint_word_of_int)
  then obtain c5 n5 where 5: "op_fetch_byte ops c4 = Inr (z mod 256, c5)" "same_dst c4 c5"
      "at_items c5 n5 xs rest"
    using read_items(2) [OF 4(3)] by auto
  have "len = 2 \<or> len = 3 \<or> len = 4 \<or> len = 5" using assms by auto
  then have "(of_bool ?l OR push_bit 1 (of_bool ?h)) + 2 = int len" by auto
  then have "short_copy ops c2 = Inr (Some (len, z), c5)"
    unfolding short_copy_def using 3(1) 4(1) 5(1) or_sign_8 assms by (simp add: Let_def)
  then have "decompress_round ops c = bind_res (copy_loop len ops z c5) (\<lambda>c. Inr (False, c))"
    unfolding decompress_round_def using 1(1) 2(1) by simp
  then show ?thesis
    unfolding reads_copy_def using 5 4 3 2 1 same_dst_trans by blast
qed

text \<open>A long copy: what its two code bytes say of the length and the offset.\<close>

lemma code_fields:
  fixes z :: int
  assumes "-8192 \<le> z" "z < 0" "0 \<le> s" "s < 8"
  defines "v \<equiv> 8 * (z mod 8192) + s"
  shows "v = 0 \<longleftrightarrow> z = -8192 \<and> s = 0" "v AND 7 = s"
    "sint ((word_of_int (drop_bit 3 v) :: u32) OR 0xFFFFE000) = z"
proof -
  have "z mod 8192 = z + 8192"
    using assms mod_pos_pos_trivial [of "z + 8192" 8192] by simp
  then show "v = 0 \<longleftrightarrow> z = -8192 \<and> s = 0" using assms by (auto simp: v_def)
  show "v AND 7 = s" using assms by (simp add: v_def int_and_mask mod_add_eq)
  have "drop_bit 3 v = z mod 8192" using assms by (simp add: v_def drop_bit_eq_div)
  then show "sint ((word_of_int (drop_bit 3 v) :: u32) OR 0xFFFFE000) = z"
    using or_sign_13 assms by simp
qed

lemma reads_code:
  assumes "at_items c n (Bit False # Bit True # Byte v # Byte w # xs) rest"
  shows "\<exists>c' n'. decompress_round ops c = bind_res (long_copy ops c') (\<lambda>(r, cxt).
           case r of None \<Rightarrow> Inr (True, cxt)
           | Some (sz, offset) \<Rightarrow> bind_res (copy_loop sz ops offset cxt) (\<lambda>cxt. Inr (False, cxt))) \<and>
         at_items c' n' (Byte v # Byte w # xs) rest \<and> same_dst c c'"
proof -
  obtain c1 n1 where 1: "op_fetch_bit ops c = Inr (0, c1)" "same_dst c c1"
      "at_items c1 n1 (Bit True # Byte v # Byte w # xs) rest"
    using read_items(1) [OF assms] by (auto simp only: of_bool_eq)
  obtain c2 n2 where 2: "op_fetch_bit ops c1 = Inr (1, c2)" "same_dst c1 c2"
      "at_items c2 n2 (Byte v # Byte w # xs) rest"
    using read_items(1) [OF 1(3)] by (auto simp only: of_bool_eq)
  show ?thesis
    unfolding decompress_round_def using 1 2 same_dst_trans by fastforce
qed

lemma reads_LongS:
  assumes "at_items c n (token_items (LongS z len) @ xs) rest" "3 \<le> len" "len \<le> 9" "-8192 \<le> z" "z < 0"
  shows "reads_copy c len z xs rest"
proof -
  have 0: "at_items c n (Bit False # Bit True # Byte (long_lo z len) #
      Byte (word_of_int (drop_bit 5 z)) # xs) rest"
    using assms(1) by (simp only: token_items.simps append_Cons append_Nil)
  obtain c1 n1 where 1: "decompress_round ops c = bind_res (long_copy ops c1) (\<lambda>(r, cxt).
           case r of None \<Rightarrow> Inr (True, cxt)
           | Some (sz, offset) \<Rightarrow> bind_res (copy_loop sz ops offset cxt) (\<lambda>cxt. Inr (False, cxt)))"
      "at_items c1 n1 (Byte (long_lo z len) # Byte (word_of_int (drop_bit 5 z)) # xs) rest"
      "same_dst c c1"
    using reads_code [OF 0] by blast
  let ?v = "8 * (z mod 8192) + (int len - 2)"
  obtain c2 n2 where 2: "op_fetch_short ops c1 = Inr (?v, c2)" "same_dst c1 c2" "at_items c2 n2 xs rest"
    using read_items(3) [OF 1(2)] assms unfolding long_code_value by auto
  have "long_copy ops c1 = Inr (Some (len, z), c2)"
    using code_fields [of z "int len - 2"] 2(1) assms by (simp add: long_copy_def Let_def)
  with 1 2 show ?thesis
    unfolding reads_copy_def using same_dst_trans by fastforce
qed

lemma reads_LongL:
  assumes "at_items c n (token_items (LongL z len) @ xs) rest" "1 \<le> len" "len \<le> 256" "-8192 < z" "z < 0"
  shows "reads_copy c len z xs rest"
proof -
  have 0: "at_items c n (Bit False # Bit True # Byte (long_lo z 0) #
      Byte (word_of_int (drop_bit 5 z)) # Byte (of_nat (len - 1)) # xs) rest"
    using assms(1) by (simp only: token_items.simps append_Cons append_Nil)
  obtain c1 n1 where 1: "decompress_round ops c = bind_res (long_copy ops c1) (\<lambda>(r, cxt).
           case r of None \<Rightarrow> Inr (True, cxt)
           | Some (sz, offset) \<Rightarrow> bind_res (copy_loop sz ops offset cxt) (\<lambda>cxt. Inr (False, cxt)))"
      "at_items c1 n1 (Byte (long_lo z 0) # Byte (word_of_int (drop_bit 5 z)) #
        Byte (of_nat (len - 1)) # xs) rest"
      "same_dst c c1"
    using reads_code [OF 0] by blast
  let ?v = "8 * (z mod 8192)"
  obtain c2 n2 where 2: "op_fetch_short ops c1 = Inr (?v, c2)" "same_dst c1 c2"
      "at_items c2 n2 (Byte (of_nat (len - 1)) # xs) rest"
    using read_items(3) [OF 1(2)] unfolding long_code_value by auto
  have "uint (of_nat (len - 1) :: u8) = int len - 1"
    using uint_of_nat_u8 [of "len - 1"] assms by simp
  then obtain c3 n3 where 3: "op_fetch_byte ops c2 = Inr (int len - 1, c3)"
      "same_dst c2 c3" "at_items c3 n3 xs rest"
    using read_items(2) [OF 2(3)] by auto
  have "long_copy ops c1 = Inr (Some (len, z), c3)"
    using code_fields [of z 0] 2(1) 3(1) assms by (simp add: long_copy_def Let_def)
  then have "decompress_round ops c = bind_res (copy_loop len ops z c3) (\<lambda>c. Inr (False, c))"
    using 1(1) by simp
  moreover have "same_dst c c3" using 1(3) 2(2) 3(2) same_dst_trans by blast
  ultimately show ?thesis unfolding reads_copy_def using 3(3) by blast
qed

lemma reads_eof:
  assumes "at_items c n (eof_items @ xs) rest"
  shows "\<exists>c'. decompress_round ops c = Inr (True, c') \<and> same_dst c c'"
proof -
  have 0: "at_items c n (Bit False # Bit True # Byte 0 # Byte 0 # xs) rest"
    using assms by (simp add: eof_items_def)
  obtain c1 n1 where 1: "decompress_round ops c = bind_res (long_copy ops c1) (\<lambda>(r, cxt).
           case r of None \<Rightarrow> Inr (True, cxt)
           | Some (sz, offset) \<Rightarrow> bind_res (copy_loop sz ops offset cxt) (\<lambda>cxt. Inr (False, cxt)))"
      "at_items c1 n1 (Byte 0 # Byte 0 # xs) rest" "same_dst c c1"
    using reads_code [OF 0] by blast
  from read_items(3) [OF this(2)] this show ?thesis
    by (auto simp: long_copy_def intro: same_dst_trans)
qed

lemma decompress_token:
  assumes "at_items c n (token_items t @ xs) rest" "room c (token_len t + k)"
    "token_ok (length (out c)) t"
  shows "\<exists>c' n'. decompress_round ops c = Inr (False, c') \<and> at_items c' n' xs rest \<and>
           out c' = apply_token t (out c) \<and> room c' k"
proof (cases t)
  case (Lit b)
  then have 0: "at_items c n (Bit True # Byte b # xs) rest" using assms(1) by simp
  obtain c1 n1 where 1: "op_fetch_bit ops c = Inr (1, c1)" "at_items c1 n1 (Byte b # xs) rest"
      "same_dst c c1"
    using read_items(1) [OF 0] by (auto simp only: of_bool_eq)
  obtain c2 where 2: "op_copy_byte ops c1 = Inr c2" "room c2 k" "out c2 = out c1 @ [src c1 ! src_pos c1]"
      "same_src (c1\<lparr>src_pos := Suc (src_pos c1)\<rparr>) c2"
    using sink_byte [of c1 k] at_items_Byte(1) [OF 1(2)] assms(2) room_dst [OF 1(3)] Lit by auto
  show ?thesis
    unfolding decompress_round_def
    using 1 2 at_items_Byte(2,3) [OF 1(2)] at_items_same_src [OF 2(4)] out_dst [OF 1(3)] Lit by auto
next
  case (Short z len)
  with assms show ?thesis using round_reads_copy [OF reads_Short, of c n z len xs rest k] by auto
next
  case (LongS z len)
  with assms show ?thesis using round_reads_copy [OF reads_LongS, of c n z len xs rest k] by auto
next
  case (LongL z len)
  with assms show ?thesis using round_reads_copy [OF reads_LongL, of c n z len xs rest k] by auto
qed

theorem do_decompress_tokens:
  assumes "at_items c n (concat (map token_items ts) @ eof_items @ xs) rest"
    "tokens_ok (length (out c)) ts" "room c (sum_list (map token_len ts))"
    "do_decompress fuel ops c \<noteq> None"
  shows "\<exists>c'. do_decompress fuel ops c = Some (Inr (int (length (out c')), c')) \<and>
     out c' = apply_tokens ts (out c) \<and> room c' 0"
  using assms
proof (induction ts arbitrary: c n fuel)
  case Nil
  then obtain f where f: "fuel = Suc f" by (cases fuel) auto
  obtain c' where c': "decompress_round ops c = Inr (True, c')" "same_dst c c'"
    using reads_eof [of c n xs rest] Nil by auto
  have "room c' 0" using Nil room_dst [OF c'(2)] by simp
  then show ?case
    using f c' out_dst [OF c'(2)] out_pos [OF \<open>room c' 0\<close>] by (simp add: apply_tokens_def)
next
  case (Cons t ts)
  then obtain f where f: "fuel = Suc f" by (cases fuel) auto
  obtain c1 n1 where c1: "decompress_round ops c = Inr (False, c1)"
      "at_items c1 n1 (concat (map token_items ts) @ eof_items @ xs) rest"
      "out c1 = apply_token t (out c)" "room c1 (sum_list (map token_len ts))"
    using decompress_token [of c n t "concat (map token_items ts) @ eof_items @ xs" rest
        "sum_list (map token_len ts)"] Cons.prems
    by auto
  then show ?case using Cons.IH [OF c1(2), of f] Cons.prems f by (auto simp: apply_tokens_def)
qed

end

subsection \<open>The callbacks of the code\<close>

lemma reader_progress:
  "fetch_bit c = Inr (v, c') \<Longrightarrow> todo c' < todo c"
  "fetch_byte c = Inr (v, c') \<Longrightarrow> todo c' \<le> todo c"
  "fetch_short c = Inr (v, c') \<Longrightarrow> todo c' \<le> todo c"
  "file_bit c = Inr (v, c') \<Longrightarrow> todo c' < todo c"
  "file_byte c = Inr (v, c') \<Longrightarrow> todo c' \<le> todo c"
  "file_short e c = Inr (v, c') \<Longrightarrow> todo c' \<le> todo c"
  by (auto simp: prs_cb_defs todo_def bind_res_eq_Inr split: if_splits)

lemma writer_progress:
  "copy_byte c = Inr c' \<Longrightarrow> todo c' \<le> todo c" "offset_copy c z = Inr c' \<Longrightarrow> todo c' \<le> todo c"
  "nocopy_byte c = Inr c' \<Longrightarrow> todo c' \<le> todo c" "offset_nocopy c z = Inr c' \<Longrightarrow> todo c' \<le> todo c"
  "copy_abyte h c = Inr c' \<Longrightarrow> todo c' \<le> todo c" "copy_fbyte h c = Inr c' \<Longrightarrow> todo c' \<le> todo c"
  "offset_copy_alloc h c z = Inr c' \<Longrightarrow> todo c' \<le> todo c"
  by (auto simp: prs_cb_defs todo_def bind_res_eq_Inr Let_def split: if_splits option.splits)

lemmas prs_ops_sel = buf_ops_def buf2_ops_def size_ops_def file_ops_def

interpretation file_progress: prs_progress "file_ops h e" for h e
  by unfold_locales (auto simp: prs_ops_sel dest: reader_progress writer_progress)

interpretation buf_progress: prs_progress "buf_ops h" for h
  by unfold_locales (auto simp: prs_ops_sel dest: reader_progress writer_progress)

interpretation buf2_progress: prs_progress buf2_ops
  by unfold_locales (auto simp: prs_ops_sel dest: reader_progress writer_progress)

interpretation size_progress: prs_progress size_ops
  by unfold_locales (auto simp: prs_ops_sel dest: reader_progress writer_progress)

end
