(* ===== verification/Prs_Decode.thy ===== *)
theory Prs_Decode
  imports Prs_Sink
begin

section \<open>The decompression functions\<close>

text \<open>
  The contracts of \<open>Prs_Run\<close> and \<open>Prs_Sink\<close> hold for the callbacks of the growing buffer
  (\<open>prs_decompress_buf\<close>), the fixed buffer (\<open>prs_decompress_buf2\<close>) and the size function
  (\<open>prs_decompress_size\<close>); the properties of the three public functions follow.
\<close>

subsection \<open>The outputs\<close>

definition written :: "prs_dec_cxt \<Rightarrow> u8 list" where
  "written c = take (dst_pos c) (dst c)"

definition buf_wf :: "heap \<Rightarrow> prs_dec_cxt \<Rightarrow> bool" where
  "buf_wf h c \<longleftrightarrow> (\<forall>n. can_alloc h n) \<and> length (dst c) = dst_len c \<and> dst_pos c \<le> dst_len c \<and> 0 < dst_len c"

definition buf2_wf :: "u8 list \<Rightarrow> prs_dec_cxt \<Rightarrow> bool" where
  "buf2_wf d0 c \<longleftrightarrow> length (dst c) = length d0 \<and> dst_len c = length d0 \<and> dst_pos c \<le> dst_len c \<and>
     drop (dst_pos c) (dst c) = drop (dst_pos c) d0"

lemma take_Suc_update: "i < length xs \<Longrightarrow> take (Suc i) (xs[i := v]) = take i xs @ [v]"
  by (simp add: take_Suc_conv_app_nth)

lemma drop_Suc_eq: "drop i xs = drop i ys \<Longrightarrow> drop (Suc i) xs = drop (Suc i) ys"
  by (metis drop_Suc tl_drop)

lemma nth_written: "buf_wf h c \<Longrightarrow> i < dst_pos c \<Longrightarrow> dst c ! i = written c ! i"
  by (simp add: written_def)

lemma length_written: "buf_wf h c \<Longrightarrow> length (written c) = dst_pos c"
  by (simp add: written_def buf_wf_def)

lemma grow_ok:
  assumes "buf_wf h c"
  obtains c' where "grow h c = Inr c'" "buf_wf h c'" "dst_pos c' < dst_len c'" "dst_pos c' = dst_pos c"
    "written c' = written c" "same_src c c'"
proof (cases "dst_pos c \<ge> dst_len c")
  case True
  with assms show ?thesis
    by (intro that [of "c\<lparr>dst := dst c @ map (garbage h) [length (dst c)..<dst_len c * 2],
          dst_len := dst_len c * 2\<rparr>"])
      (auto simp: grow_def realloc_def buf_wf_def written_def same_src_def)
next
  case False
  with assms show ?thesis by (intro that [of c]) (auto simp: grow_def same_src_def)
qed

lemma put_written:
  assumes "buf_wf h c" "dst_pos c < dst_len c"
  shows "buf_wf h (c\<lparr>dst := (dst c)[dst_pos c := v], dst_pos := Suc (dst_pos c)\<rparr>)" "written (c\<lparr>dst := (dst c)[dst_pos c := v], dst_pos := Suc (dst_pos c)\<rparr>) = written c @ [v]"
    "buf_wf h (c\<lparr>dst := (dst c)[dst_pos c := v], src_pos := p, dst_pos := Suc (dst_pos c)\<rparr>)"
    "written (c\<lparr>dst := (dst c)[dst_pos c := v], src_pos := p, dst_pos := Suc (dst_pos c)\<rparr>) = written c @ [v]"
  using assms by (auto simp: buf_wf_def written_def take_Suc_update)

interpretation buf_sink: prs_sink "buf_ops h" written "\<lambda>c k. buf_wf h c \<and> dst_pos c + k < 2 ^ 31" for h
proof unfold_locales
  fix c c' :: prs_dec_cxt and k :: nat and z :: int
  show "op_fetch_bit (buf_ops h) = fetch_bit" "op_fetch_byte (buf_ops h) = fetch_byte"
    "op_fetch_short (buf_ops h) = fetch_short"
    by (simp_all add: buf_ops_def)
  show "same_dst c c' \<Longrightarrow> written c' = written c" "same_dst c c' \<Longrightarrow> (buf_wf h c' \<and> dst_pos c' + k < 2 ^ 31) = (buf_wf h c \<and> dst_pos c + k < 2 ^ 31)"
    by (simp_all add: same_dst_def written_def buf_wf_def)
  show "buf_wf h c \<and> dst_pos c + k < 2 ^ 31 \<Longrightarrow> length (written c) = dst_pos c \<and> c_int (dst_pos c) = int (dst_pos c)"
    using length_written [of h c] c_int_small [of "dst_pos c"] by auto
  show "\<exists>c'. op_copy_byte (buf_ops h) c = Inr c' \<and> (buf_wf h c' \<and> dst_pos c' + k < 2 ^ 31) \<and>
      written c' = written c @ [src c ! src_pos c] \<and> same_src (c\<lparr>src_pos := Suc (src_pos c)\<rparr>) c'"
    if r: "buf_wf h c \<and> dst_pos c + Suc k < 2 ^ 31" and "src_pos c < src_len c"
  proof -
    have w: "buf_wf h c" using r by simp
    obtain d where d: "grow h c = Inr d" "buf_wf h d" "dst_pos d < dst_len d" "dst_pos d = dst_pos c"
        "written d = written c" "same_src c d"
      using grow_ok [OF w] by blast
    then show ?thesis
      using w that put_written [OF d(2,3), where v = "src c ! src_pos c"]
      by (auto simp: buf_ops_def copy_abyte_def same_src_def buf_wf_def written_def)
  qed
  show "\<exists>c'. op_offset_copy (buf_ops h) c z = Inr c' \<and> (buf_wf h c' \<and> dst_pos c' + k < 2 ^ 31) \<and>
      written c' = written c @ [written c ! nat (int (length (written c)) + z)] \<and> same_src c c'"
    if r: "buf_wf h c \<and> dst_pos c + Suc k < 2 ^ 31" and "0 \<le> int (length (written c)) + z" "z < 0"
  proof -
    have w: "buf_wf h c" and ci: "c_int (dst_pos c) = int (dst_pos c)" using r c_int_small by simp_all
    obtain d where d: "grow h c = Inr d" "buf_wf h d" "dst_pos d < dst_len d" "dst_pos d = dst_pos c"
        "written d = written c" "same_src c d"
      using grow_ok [OF w] by blast
    have n: "nat (int (dst_pos c) + z) < dst_pos d" using length_written [OF w] that d by simp
    show ?thesis
      using w that d put_written [OF d(2,3), where v = "dst d ! nat (int (dst_pos c) + z)"] nth_written [OF d(2) n]
        length_written [OF w]
      by (auto simp: buf_ops_def offset_copy_alloc_def same_src_def ci)
  qed
qed

interpretation buf2_sink: prs_sink buf2_ops written
  "\<lambda>c k. length (dst c) = dst_len c \<and> dst_pos c + k \<le> dst_len c \<and> dst_pos c + k < 2 ^ 31"
proof unfold_locales
  show "op_fetch_bit buf2_ops = fetch_bit" "op_fetch_byte buf2_ops = fetch_byte"
    "op_fetch_short buf2_ops = fetch_short"
    by (simp_all add: buf2_ops_def)
qed (auto simp: buf2_ops_def same_dst_def written_def copy_byte_def offset_copy_def same_src_def
    take_Suc_update Let_def c_int_small)

subsection \<open>Two runs side by side\<close>

definition size_rel :: "heap \<Rightarrow> prs_dec_cxt \<Rightarrow> prs_dec_cxt \<Rightarrow> bool" where
  "size_rel h c d \<longleftrightarrow> buf_wf h c \<and> same_src c d \<and> dst_pos c = dst_pos d"

definition buf2_rel :: "heap \<Rightarrow> u8 list \<Rightarrow> prs_dec_cxt \<Rightarrow> prs_dec_cxt \<Rightarrow> bool" where
  "buf2_rel h d0 c d \<longleftrightarrow> buf_wf h c \<and> same_src c d \<and> dst_pos c = dst_pos d \<and>
     written c = written d \<and> buf2_wf d0 d"

lemma lockstep_read:
  assumes "same_src c d"
    and "\<And>c' d'. same_src c' d' \<Longrightarrow> same_dst c c' \<Longrightarrow> same_dst d d' \<Longrightarrow> R c' d'"
  shows "res_rel lax (rel_prod (=) R) (fetch_bit c) (fetch_bit d)"
    and "res_rel lax (rel_prod (=) R) (fetch_byte c) (fetch_byte d)"
    and "res_rel lax (rel_prod (=) R) (fetch_short c) (fetch_short d)"
  using assms by (auto simp: prs_cb_defs same_src_def same_dst_def)

lemma size_rel_dst: "size_rel h c d \<Longrightarrow> same_src c' d' \<Longrightarrow> same_dst c c' \<Longrightarrow> same_dst d d' \<Longrightarrow> size_rel h c' d'"
  by (simp add: size_rel_def same_dst_def buf_wf_def)

lemma buf2_rel_dst:
  "buf2_rel h d0 c d \<Longrightarrow> same_src c' d' \<Longrightarrow> same_dst c c' \<Longrightarrow> same_dst d d' \<Longrightarrow> buf2_rel h d0 c' d'"
  by (auto simp: buf2_rel_def same_dst_def buf_wf_def buf2_wf_def written_def)

lemma lockstep_copy:
  assumes "buf_wf h c" "same_src c d" "dst_pos c = dst_pos d"
  obtains g where "grow h c = Inr g" "buf_wf h g" "dst_pos g < dst_len g" "dst_pos g = dst_pos d"
    "written g = written c" "same_src g d"
proof -
  obtain g where "grow h c = Inr g" "buf_wf h g" "dst_pos g < dst_len g" "dst_pos g = dst_pos c"
      "written g = written c" "same_src c g"
    using grow_ok [OF assms(1)] by blast
  then show thesis using assms(2,3) by (intro that [of g]) (simp_all add: same_src_def)
qed

interpretation buf_size: prs_lockstep "buf_ops h" size_ops "{}" "size_rel h" for h
proof unfold_locales
  fix c d :: prs_dec_cxt and z :: int
  assume R: "size_rel h c d"
  show "res_rel {} (rel_prod (=) (size_rel h)) (op_fetch_bit (buf_ops h) c) (op_fetch_bit size_ops d)"
    "res_rel {} (rel_prod (=) (size_rel h)) (op_fetch_byte (buf_ops h) c) (op_fetch_byte size_ops d)"
    "res_rel {} (rel_prod (=) (size_rel h)) (op_fetch_short (buf_ops h) c) (op_fetch_short size_ops d)"
    using R lockstep_read [of c d "size_rel h" "{}"] size_rel_dst [OF R]
    by (auto simp: prs_ops_sel size_rel_def)
  obtain g where g: "grow h c = Inr g" "buf_wf h g" "dst_pos g < dst_len g" "dst_pos g = dst_pos d"
      "written g = written c" "same_src g d"
    using lockstep_copy R unfolding size_rel_def by blast
  show "res_rel {} (size_rel h) (op_copy_byte (buf_ops h) c) (op_copy_byte size_ops d)"
    using R g put_written [OF g(2,3), where v = "src c ! src_pos c"]
    by (auto simp: prs_ops_sel copy_abyte_def nocopy_byte_def size_rel_def same_src_def buf_wf_def)
  show "res_rel {} (size_rel h) (op_offset_copy (buf_ops h) c z) (op_offset_copy size_ops d z)"
    using R g put_written [OF g(2,3)]
    by (auto simp: prs_ops_sel offset_copy_alloc_def offset_nocopy_def size_rel_def same_src_def Let_def)
  show "dst_pos c = dst_pos d" using R by (simp add: size_rel_def)
qed

lemma buf2_put:
  assumes "buf2_wf d0 d" "dst_pos d < dst_len d"
  shows "buf2_wf d0 (d\<lparr>dst := (dst d)[dst_pos d := v], dst_pos := Suc (dst_pos d)\<rparr>)" "written (d\<lparr>dst := (dst d)[dst_pos d := v], dst_pos := Suc (dst_pos d)\<rparr>) = written d @ [v]"
    "buf2_wf d0 (d\<lparr>dst := (dst d)[dst_pos d := v], src_pos := p, dst_pos := Suc (dst_pos d)\<rparr>)"
    "written (d\<lparr>dst := (dst d)[dst_pos d := v], src_pos := p, dst_pos := Suc (dst_pos d)\<rparr>) = written d @ [v]"
  using assms by (auto simp: buf2_wf_def written_def take_Suc_update intro: drop_Suc_eq)

interpretation buf_buf2: prs_lockstep "buf_ops h" buf2_ops "{ENOSPC}" "buf2_rel h d0" for h d0
proof unfold_locales
  fix c d :: prs_dec_cxt and z :: int
  assume R: "buf2_rel h d0 c d"
  show "res_rel {ENOSPC} (rel_prod (=) (buf2_rel h d0)) (op_fetch_bit (buf_ops h) c) (op_fetch_bit buf2_ops d)"
    "res_rel {ENOSPC} (rel_prod (=) (buf2_rel h d0)) (op_fetch_byte (buf_ops h) c) (op_fetch_byte buf2_ops d)"
    "res_rel {ENOSPC} (rel_prod (=) (buf2_rel h d0)) (op_fetch_short (buf_ops h) c) (op_fetch_short buf2_ops d)"
    using R lockstep_read [of c d "buf2_rel h d0" "{ENOSPC}"] buf2_rel_dst [OF R]
    by (auto simp: prs_ops_sel buf2_rel_def)
  obtain g where g: "grow h c = Inr g" "buf_wf h g" "dst_pos g < dst_len g" "dst_pos g = dst_pos d"
      "written g = written c" "same_src g d"
    using lockstep_copy R unfolding buf2_rel_def by blast
  show "res_rel {ENOSPC} (buf2_rel h d0) (op_copy_byte (buf_ops h) c) (op_copy_byte buf2_ops d)"
    using R g put_written [OF g(2,3), where v = "src c ! src_pos c"] buf2_put [of d0 d, where v = "src c ! src_pos c"]
    by (auto simp: prs_ops_sel copy_abyte_def copy_byte_def buf2_rel_def same_src_def)
  show "res_rel {ENOSPC} (buf2_rel h d0) (op_offset_copy (buf_ops h) c z) (op_offset_copy buf2_ops d z)"
    if "z < 0"
  proof -
    have "dst g ! nat (int (dst_pos d) + z) = dst d ! nat (int (dst_pos d) + z)"
      if "0 \<le> int (dst_pos d) + z" "dst_pos d < dst_len d"
    proof -
      have n: "nat (int (dst_pos d) + z) < dst_pos d" using that \<open>z < 0\<close> by simp
      then have "dst g ! nat (int (dst_pos d) + z) = written d ! nat (int (dst_pos d) + z)"
        using R g nth_written [OF g(2)] by (simp add: buf2_rel_def)
      with n show ?thesis by (simp add: written_def)
    qed
    moreover have "0 \<le> int (dst_pos d) + z" if "\<not> c_int (dst_pos d) + z < 0"
      using that c_int_le [of "dst_pos d"] by linarith
    ultimately show ?thesis
      using R g put_written [OF g(2,3)] buf2_put [of d0 d]
      by (auto simp: prs_ops_sel offset_copy_alloc_def offset_copy_def buf2_rel_def same_src_def Let_def)
  qed
  show "dst_pos c = dst_pos d" using R by (simp add: buf2_rel_def)
qed

text \<open>A file whose length has not changed is read as a buffer.\<close>

interpretation file_buf: prs_lockstep "file_ops h e" "buf_ops h" "{}"
  "\<lambda>c d. c = d \<and> src_len c = length (src c)" for h e
  by unfold_locales
    (auto simp: prs_ops_sel prs_cb_defs res_rel_def rel_sum.simps bind_res_def Let_def
        split: sum.splits option.splits)

subsection \<open>The public functions\<close>

lemma todo_new: "todo (new_cxt s d n) < rounds (length s)"
  by (simp add: todo_def new_cxt_def rounds_def)

lemma todo_new_file: "todo ((new_cxt s d n)\<lparr>src_len := n'\<rparr>) < rounds n'"
  by (simp add: todo_def new_cxt_def rounds_def)

lemma new_buf_wf: "\<forall>n. can_alloc h n \<Longrightarrow> malloc h (length s * 2) = Some d \<Longrightarrow> s \<noteq> [] \<Longrightarrow>
    buf_wf h (new_cxt s d (length s * 2))"
  by (auto simp: buf_wf_def new_cxt_def malloc_def split: if_splits)

lemma do_decompress_pos: "do_decompress fuel ops c = Some (Inr (n, c')) \<Longrightarrow> n = c_int (dst_pos c') \<and> 0 \<le> n"
  by (induction fuel arbitrary: c) (auto simp: Let_def split: sum.splits bool.splits if_splits)

lemma run_returns:
  "do_decompress (rounds (length s)) (buf_ops h) (new_cxt s d n) \<noteq> None"
  "do_decompress (rounds (length s)) buf2_ops (new_cxt s d n) \<noteq> None"
  "do_decompress (rounds (length s)) size_ops (new_cxt s d n) \<noteq> None"
  "do_decompress (rounds n') (file_ops h e) ((new_cxt s d n)\<lparr>src_len := n'\<rparr>) \<noteq> None"
  by (simp_all add: buf_progress.do_decompress_returns buf2_progress.do_decompress_returns
      size_progress.do_decompress_returns file_progress.do_decompress_returns todo_new todo_new_file)

text \<open>C31: On every input, corrupt ones included, each of the four decompression functions
  returns: a number of bytes or an error code.\<close>

theorem prs_decompress_returns:
  "prs_decompress_buf h sp dst_null \<noteq> None \<and> prs_decompress_file h e f dst_null \<noteq> None \<and> prs_decompress_buf2 sp dp \<noteq> None \<and>
     prs_decompress_size sp \<noteq> None"
  by (auto simp: prs_decompress_buf_def prs_decompress_buf2_def prs_decompress_size_def
      prs_decompress_file_def run_returns
      split: option.splits sum.splits simp del: not_None_eq)

lemma decompress_file_buf:
  assumes "s \<noteq> []"
  shows "prs_decompress_file h e (Some (length s, s)) dst_null = prs_decompress_buf h (Some s) dst_null"
proof -
  have "(new_cxt s d n)\<lparr>src_len := length s\<rparr> = new_cxt s d n" for d n
    by (simp add: new_cxt_def)
  moreover have "do_decompress (rounds (length s)) (file_ops h e) (new_cxt s d n)
      = do_decompress (rounds (length s)) (buf_ops h) (new_cxt s d n)" for d n
  proof -
    let ?c = "new_cxt s d n"
    obtain r1 r2 where r: "do_decompress (rounds (length s)) (file_ops h e) ?c = Some r1"
        "do_decompress (rounds (length s)) (buf_ops h) ?c = Some r2"
      using file_progress.do_decompress_returns buf_progress.do_decompress_returns todo_new by metis
    have "?c = ?c \<and> src_len ?c = length (src ?c)" by (simp add: new_cxt_def)
    from file_buf.do_decompress_rel [OF this r] r show ?thesis
      by (cases r1; cases r2) auto
  qed
  ultimately show ?thesis
    using assms by (auto simp: prs_decompress_file_def prs_decompress_buf_def split: option.split)
qed

lemma decompress_size_buf:
  assumes "\<forall>n. can_alloc h n"
  shows "prs_decompress_size sp = map_option (map_sum id fst) (prs_decompress_buf h sp False)"
proof (cases "\<exists>s. sp = Some s \<and> \<not> length s < 3")
  case True
  then obtain s where s: "sp = Some s" "\<not> length s < 3" by blast
  then have s': "s \<noteq> []" by auto
  obtain d where d: "malloc h (length s * 2) = Some d" using assms by (simp add: malloc_def)
  have "size_rel h (new_cxt s d (length s * 2)) (new_cxt s [] (2 ^ 64 - 1))"
    using new_buf_wf [OF assms d s'] by (simp add: size_rel_def same_src_def new_cxt_def)
  moreover obtain r1 where r1:
      "do_decompress (rounds (length s)) (buf_ops h) (new_cxt s d (length s * 2)) = Some r1"
    using buf_progress.do_decompress_returns todo_new by blast
  moreover obtain r2 where r2: "do_decompress (rounds (length s)) size_ops (new_cxt s [] (2 ^ 64 - 1)) = Some r2"
    using size_progress.do_decompress_returns todo_new by blast
  ultimately have "res_rel {} (rel_prod (=) (size_rel h)) r1 r2"
    by (rule buf_size.do_decompress_rel)
  then show ?thesis
    using s s' d r1 r2 by (cases r1; cases r2)
      (auto simp: prs_decompress_size_def prs_decompress_buf_def)
qed (cases sp; auto simp: prs_decompress_size_def prs_decompress_buf_def)

text \<open>C30: The size function and the file function agree with the buffer function on every
  nonempty source, valid or not: \<open>prs_decompress_size\<close> returns the number or the error that
  \<open>prs_decompress_buf\<close> returns when the memory it asks for is there, and a file that does not
  change while it is read is decompressed as a buffer with its contents.\<close>

theorem prs_decompress_variants_agree:
  assumes "\<forall>n. can_alloc h n" "s \<noteq> []"
  shows "prs_decompress_size (Some s) = map_option (map_sum id fst) (prs_decompress_buf h (Some s) False) \<and>
     prs_decompress_file h e (Some (length s, s)) False = prs_decompress_buf h (Some s) False"
  using assms by (simp add: decompress_size_buf decompress_file_buf)

theorem prs_decompress_variants_agree_witness:
  "prs_decompress_size (Some [3, 65, 66]) = map_option (map_sum id fst)
     (prs_decompress_buf \<lparr>can_alloc = \<lambda>n. True, garbage = \<lambda>n. 0\<rparr> (Some [3, 65, 66]) False)"
  using prs_decompress_variants_agree [of "\<lparr>can_alloc = \<lambda>n. True, garbage = \<lambda>n. 0\<rparr>" "[3, 65, 66]"] by simp

lemma buf2_rel_new:
  assumes "\<forall>n. can_alloc h n" "malloc h (length s * 2) = Some b" "s \<noteq> []"
  shows "buf2_rel h d (new_cxt s b (length s * 2)) (new_cxt s d (length d))"
  using new_buf_wf [OF assms]
  by (auto simp: buf2_rel_def same_src_def buf2_wf_def written_def new_cxt_def)

text \<open>C28: When \<open>prs_decompress_buf2\<close> succeeds, it has written the bytes that
  \<open>prs_decompress_buf\<close> returns for the same source to the front of the destination, and nothing
  else: the number it returns is within the buffer, and the bytes of the buffer after it are
  those it had before (in a buffer below the 4 GB at which the number wraps).\<close>

theorem prs_decompress_buf2_sound:
  assumes "\<forall>n. can_alloc h n" "prs_decompress_buf2 (Some s) (Some d) = Some (Inr (n, out))"
  shows "0 \<le> n \<and> nat n \<le> length d \<and> length out = length d \<and> (length d < 2 ^ 32 \<longrightarrow> drop (nat n) out = drop (nat n) d) \<and>
     prs_decompress_buf h (Some s) False = Some (Inr (n, take (nat n) out))"
proof -
  obtain b where b: "malloc h (length s * 2) = Some b" using assms(1) by (simp add: malloc_def)
  have s: "\<not> length s < 3" "s \<noteq> []" "d \<noteq> []"
    using assms(2) by (auto simp: prs_decompress_buf2_def split: if_splits)
  obtain r2 where r2: "do_decompress (rounds (length s)) buf2_ops (new_cxt s d (length d)) = Some r2"
    using run_returns(2) by blast
  then obtain c2 where "r2 = Inr (n, c2)" "out = dst c2"
    using assms(2) s by (cases r2) (auto simp: prs_decompress_buf2_def)
  note c2 = r2 [unfolded this(1)] this(2)
  obtain r1 where r1: "do_decompress (rounds (length s)) (buf_ops h) (new_cxt s b (length s * 2)) = Some r1"
    using run_returns(1) by blast
  have "res_rel {ENOSPC} (rel_prod (=) (buf2_rel h d)) r1 (Inr (n, c2))"
    by (rule buf_buf2.do_decompress_rel [OF buf2_rel_new [OF assms(1) b s(2)] r1 c2(1)])
  then obtain c1 where c1: "r1 = Inr (n, c1)" "buf2_rel h d c1 c2"
    by (cases r1) auto
  have n: "n = c_int (dst_pos c2)" "0 \<le> n" using c2(1) do_decompress_pos by blast+
  have le: "nat n \<le> dst_pos c2" using c_int_le [of "dst_pos c2"] n by simp
  have "take (nat n) (written c1) = take (nat n) (written c2)" using c1(2) by (simp add: buf2_rel_def)
  then have "take (nat n) (dst c1) = take (nat n) (dst c2)" "nat n \<le> length (dst c1)"
    using c1(2) le by (auto simp: buf2_rel_def written_def buf_wf_def)
  then have "realloc h (dst c1) (nat n) = Some (take (nat n) out)"
    using assms(1) c2(2) by (simp add: realloc_def)
  moreover have "drop (nat n) (dst c2) = drop (nat n) d" if "length d < 2 ^ 32"
  proof -
    have "dst_pos c2 < 2 ^ 32" using c1(2) that by (auto simp: buf2_rel_def buf2_wf_def)
    then have "nat n = dst_pos c2" using c_int_exact [of "dst_pos c2"] n by simp
    then show ?thesis using c1(2) by (simp add: buf2_rel_def buf2_wf_def)
  qed
  ultimately show ?thesis
    using s b r1 c1 c2(2) n le by (auto simp: prs_decompress_buf_def buf2_rel_def buf2_wf_def)
qed

theorem prs_decompress_buf2_sound_witness:
  "prs_decompress_buf \<lparr>can_alloc = \<lambda>n. True, garbage = \<lambda>n. 0\<rparr> (Some [11, 65, 66, 0, 0]) False
     = Some (Inr (2, [65, 66]))"
proof -
  have "prs_decompress_buf2 (Some [11, 65, 66, 0, 0]) (Some [1, 2, 3]) = Some (Inr (2, [65, 66, 3]))"
    by code_simp
  from prs_decompress_buf2_sound [OF _ this, of "\<lparr>can_alloc = \<lambda>n. True, garbage = \<lambda>n. 0\<rparr>"]
  show ?thesis by simp
qed

lemma length_format: "\<not> length (pack 0 (concat (map token_items ts) @ eof_items)) < 3"
proof -
  have "length (item_bytes (eof_items)) = 2" "length (item_bits (eof_items)) = 2"
    by (simp_all add: eof_items_def)
  then show ?thesis by (simp add: length_pack div_greater_zero_iff)
qed

lemma length_apply_tokens: "length (apply_tokens ts out) = length out + sum_list (map token_len ts)"
  by (induction ts arbitrary: out) (simp_all add: apply_tokens_def)

lemma decompress_format:
  assumes "\<forall>n. can_alloc h n" "tokens_ok 0 ts" "length (apply_tokens ts []) < 2 ^ 31"
  shows "prs_decompress_buf h (Some (pack 0 (concat (map token_items ts) @ eof_items))) False
     = Some (Inr (int (length (apply_tokens ts [])), apply_tokens ts []))"
proof -
  let ?s = "pack 0 (concat (map token_items ts) @ eof_items)"
  note s = length_format [of ts]
  then have s0: "?s \<noteq> []" by auto
  obtain b where b: "malloc h (length ?s * 2) = Some b" using assms(1) by (simp add: malloc_def)
  let ?c = "new_cxt ?s b (length ?s * 2)"
  have "at_items ?c 0 (concat (map token_items ts) @ eof_items @ []) []"
    by (simp add: at_items_def new_cxt_def)
  from buf_sink.do_decompress_tokens [OF this _ _ run_returns(1)] new_buf_wf [OF assms(1) b s0] assms(2,3)
  obtain c' where c': "do_decompress (rounds (length ?s)) (buf_ops h) ?c = Some (Inr (int (length (written c')), c'))"
      "written c' = apply_tokens ts []" "buf_wf h c'"
    by (auto simp: written_def new_cxt_def length_apply_tokens)
  have "realloc h (dst c') (length (written c')) = Some (written c')"
    using assms(1) c'(3) by (simp add: realloc_def length_written buf_wf_def) (simp add: written_def)
  with c' s s0 b show ?thesis by (simp add: prs_decompress_buf_def)
qed

lemma decompress_format_buf2:
  assumes "tokens_ok 0 ts" "length (apply_tokens ts []) \<le> length d" "d \<noteq> []" "length (apply_tokens ts []) < 2 ^ 31"
  shows "\<exists>out. prs_decompress_buf2 (Some (pack 0 (concat (map token_items ts) @ eof_items))) (Some d)
     = Some (Inr (int (length (apply_tokens ts [])), out))"
proof -
  let ?s = "pack 0 (concat (map token_items ts) @ eof_items)"
  have s: "\<not> length ?s < 3" "?s \<noteq> []" using length_format [of ts] by auto
  let ?c = "new_cxt ?s d (length d)"
  have "at_items ?c 0 (concat (map token_items ts) @ eof_items @ []) []"
    by (simp add: at_items_def new_cxt_def)
  moreover have "written ?c = []" by (simp add: written_def new_cxt_def)
  moreover have "length (dst ?c) = dst_len ?c \<and> dst_pos ?c + sum_list (map token_len ts) \<le> dst_len ?c \<and>
      dst_pos ?c + sum_list (map token_len ts) < 2 ^ 31"
    using assms(2,4) by (simp add: new_cxt_def length_apply_tokens)
  ultimately obtain c' where
      "do_decompress (rounds (length ?s)) buf2_ops ?c = Some (Inr (int (length (written c')), c'))"
      "written c' = apply_tokens ts []"
    using buf2_sink.do_decompress_tokens [OF _ _ _ run_returns(2)] assms(1) by (metis list.size(3))
  then show ?thesis using s assms(3) by (auto simp: prs_decompress_buf2_def)
qed

text \<open>C29: The decompressor reads the format: for every token list the format can hold whose meaning has
  less than 2 ^ 31 bytes (a longer one does not fit into the \<open>int\<close> that is returned), the file that lays
  out its tokens and the end mark decompresses to the meaning of the tokens, in the growing
  buffer and in every buffer that is large enough for it.\<close>

theorem prs_decompress_format:
  assumes "\<forall>n. can_alloc h n" "tokens_ok 0 ts" "length (apply_tokens ts []) \<le> length d" "d \<noteq> []"
    "length (apply_tokens ts []) < 2 ^ 31" "file = pack 0 (concat (map token_items ts) @ eof_items)"
  shows "prs_decompress_buf h (Some file) False
       = Some (Inr (int (length (apply_tokens ts [])), apply_tokens ts [])) \<and>
     (\<exists>out. prs_decompress_buf2 (Some file) (Some d) = Some (Inr (int (length (apply_tokens ts [])), out)))"
  using assms by (simp add: decompress_format decompress_format_buf2)

theorem prs_decompress_format_witness:
  "prs_decompress_buf \<lparr>can_alloc = \<lambda>n. True, garbage = \<lambda>n. 0\<rparr>
     (Some (pack 0 (concat (map token_items [Lit 7, Short (-1) 3, LongL (-4) 20]) @ eof_items))) False
     = Some (Inr (24, replicate 24 7))"
proof -
  let ?ts = "[Lit 7, Short (-1) 3, LongL (-4) 20]"
  have meaning: "apply_tokens ?ts [] = replicate 24 7" by (simp add: apply_tokens_def eval_nat_numeral)
  have "tokens_ok 0 ?ts" by simp
  then show ?thesis
    using prs_decompress_format [of "\<lparr>can_alloc = \<lambda>n. True, garbage = \<lambda>n. 0\<rparr>" ?ts "replicate 30 0", OF _ _ _ _ _ refl]
    unfolding meaning by simp
qed

end
