(* ===== verification/Prs_Encode.thy ===== *)
theory Prs_Encode
  imports Prs_Comp Prs_Decode
begin

section \<open>The compressor writes the PRS format\<close>

text \<open>
  \<open>enc c sofar\<close>: the destination of the context holds the layout of the items \<open>sofar\<close>, except that
  the flag bits of the last flag byte are still in \<open>comp_flags\<close>.  Setting a bit and writing a byte
  extend the items by one, as long as the destination has room; \<open>write_eof\<close> completes the file.
  The room needed is bounded by nine bits for each source byte covered, which is where the size
  \<open>prs_max_compressed_size\<close> comes from.
\<close>

definition enc_open :: "prs_comp_cxt \<Rightarrow> item list \<Rightarrow> u8 list \<Rightarrow> bool list \<Rightarrow> u8 list \<Rightarrow> bool" where
  "enc_open c sofar pre cur post \<longleftrightarrow>
     length cur + bits_left c = 8 \<and> cur \<noteq> [] \<and> drop_bit (bits_left c) (comp_flags c) = byte_of_bits cur \<and>
     flag_ptr c = length pre \<and> comp_dst_pos c = length pre + 1 + length post \<and>
     (\<exists>x tail. comp_dst c = pre @ x # post @ tail) \<and>
     (\<forall>rest. pack 0 (sofar @ rest) =
        pre @ byte_of_bits (cur @ take (bits_left c) (item_bits rest)) # post @ pack (bits_left c) rest)"

definition enc :: "prs_comp_cxt \<Rightarrow> item list \<Rightarrow> bool" where
  "enc c sofar \<longleftrightarrow> length (comp_dst c) = comp_dst_len c \<and> comp_dst_pos c \<le> comp_dst_len c \<and>
     (sofar = [] \<and> bits_left c = 0 \<and> comp_dst_pos c = 0 \<and> flag_ptr c = 0
      \<or> (\<exists>pre cur post. enc_open c sofar pre cur post))"

definition same_comp_src :: "prs_comp_cxt \<Rightarrow> prs_comp_cxt \<Rightarrow> bool" where
  "same_comp_src c c' \<longleftrightarrow> comp_src c' = comp_src c \<and> comp_src_len c' = comp_src_len c \<and>
     comp_src_pos c' = comp_src_pos c \<and> comp_dst_len c' = comp_dst_len c"

lemma same_comp_src_refl [simp]: "same_comp_src c c"
  by (simp add: same_comp_src_def)

lemma same_comp_src_trans: "same_comp_src a b \<Longrightarrow> same_comp_src b c \<Longrightarrow> same_comp_src a c"
  by (simp add: same_comp_src_def)

definition need :: "item list \<Rightarrow> nat" where
  "need xs = length (pack 0 xs)"

lemma need_eq: "need xs = length (item_bytes xs) + (length (item_bits xs) + 7) div 8"
  by (simp add: need_def length_pack)

lemma need_mono: "need xs \<le> need (xs @ ys)"
  by (simp add: need_eq div_le_mono add_le_mono)

lemma enc_pos: "enc c sofar \<Longrightarrow> comp_dst_pos c = need sofar"
  unfolding enc_def enc_open_def need_def by (metis (no_types, lifting) One_nat_def add.right_neutral
      add_Suc_right append.right_neutral length_Cons length_append list.size(3) pack.simps(1)
      plus_nat.simps(2) add.assoc plus_1_eq_Suc)

lemma byte_of_bits_snoc:
  "length bs \<le> 7 \<Longrightarrow> byte_of_bits (bs @ [b]) = byte_of_bits bs OR push_bit (length bs) (of_bool b)"
  by (rule bit_word_eqI) (auto simp: bit_or_iff bit_byte_of_bits bit_push_bit_iff bit_of_bool_iff
      nth_append less_Suc_eq)

lemma flag_shift:
  assumes "m \<le> 7" "drop_bit (Suc m) (f :: u8) = byte_of_bits cur" "length cur = 7 - m"
  shows "drop_bit m (drop_bit 1 f OR (if b then 0x80 else 0)) = byte_of_bits (cur @ [b])"
proof -
  have "drop_bit m (if b then 0x80 else 0 :: u8) = push_bit (7 - m) (of_bool b)"
  proof -
    have "m \<in> {0, 1, 2, 3, 4, 5, 6, 7}" using assms(1) by auto
    then show ?thesis by auto
  qed
  then show ?thesis
    using assms by (simp add: drop_bit_or byte_of_bits_snoc add.commute)
qed

lemma enc_openI:
  "enc_open c sofar pre cur post \<Longrightarrow> length (comp_dst c) = comp_dst_len c \<Longrightarrow>
     comp_dst_pos c \<le> comp_dst_len c \<Longrightarrow> enc c sofar"
  by (auto simp: enc_def)

lemma enc_size: "enc c sofar \<Longrightarrow> length (comp_dst c) = comp_dst_len c \<and> comp_dst_pos c \<le> comp_dst_len c"
  by (simp add: enc_def)

lemma room_split:
  assumes "length d = n" "p < n" "d = pre @ x # post @ tail" "p = length pre + 1 + length post"
  obtains y tail' where "tail = y # tail'" "d[p := v] = pre @ x # post @ v # tail'"
proof -
  have "tail \<noteq> []" using assms by auto
  then obtain y tail' where "tail = y # tail'" by (cases tail) auto
  with assms show thesis by (intro that [of y tail']) (simp_all add: list_update_append)
qed

lemma write_literal_enc:
  assumes "enc c sofar" "sofar \<noteq> []" "need (sofar @ [Byte v]) \<le> comp_dst_len c"
  shows "\<exists>c'. write_literal c v = Inr c' \<and> enc c' (sofar @ [Byte v]) \<and> same_comp_src c c'"
proof -
  obtain pre cur post where o: "enc_open c sofar pre cur post" using assms by (auto simp: enc_def)
  then obtain x tail where d: "comp_dst c = pre @ x # post @ tail" by (auto simp: enc_open_def)
  have p: "comp_dst_pos c < comp_dst_len c"
    using assms(3) enc_pos [OF assms(1)] by (simp add: need_eq)
  obtain y tail' where t: "tail = y # tail'"
      "(comp_dst c)[comp_dst_pos c := v] = pre @ x # post @ v # tail'"
    by (rule room_split [of "comp_dst c" "comp_dst_len c" "comp_dst_pos c" pre x post tail v])
      (use assms(1) p d o in \<open>auto simp: enc_def enc_open_def\<close>)
  let ?c = "c\<lparr>comp_dst := (comp_dst c)[comp_dst_pos c := v], comp_dst_pos := Suc (comp_dst_pos c)\<rparr>"
  have "enc_open ?c (sofar @ [Byte v]) pre cur (post @ [v])"
    using o t by (auto simp: enc_open_def)
  moreover have "write_literal c v = Inr ?c" using p by (simp add: write_literal_def)
  ultimately show ?thesis
    using enc_size [OF assms(1)] p by (auto simp: same_comp_src_def dest!: enc_openI)
qed

lemma set_bit_enc:
  assumes "enc c sofar" "need (sofar @ [Bit b]) \<le> comp_dst_len c"
  shows "\<exists>c'. prs_set_bit c b = Inr c' \<and> enc c' (sofar @ [Bit b]) \<and> same_comp_src c c'"
proof (cases "bits_left c")
  case (Suc m)
  then obtain pre cur post where o: "enc_open c sofar pre cur post" using assms by (auto simp: enc_def)
  let ?c = "c\<lparr>bits_left := m, comp_flags := drop_bit 1 (comp_flags c) OR (if b then 0x80 else 0)\<rparr>"
  have "enc_open ?c (sofar @ [Bit b]) pre (cur @ [b]) post"
    using o Suc flag_shift [of m "comp_flags c" cur b] by (auto simp: enc_open_def)
  moreover have "prs_set_bit c b = Inr ?c" using Suc by (simp add: prs_set_bit_def)
  ultimately show ?thesis
    using enc_size [OF assms(1)] by (auto simp: same_comp_src_def dest!: enc_openI)
next
  case 0
  let ?d = "(comp_dst c)[flag_ptr c := comp_flags c]"
  let ?c = "c\<lparr>comp_dst := ?d, flag_ptr := comp_dst_pos c, comp_dst_pos := Suc (comp_dst_pos c),
      bits_left := 7, comp_flags := drop_bit 1 (comp_flags c) OR (if b then 0x80 else 0)\<rparr>"
  let ?pre = "pack 0 sofar"
  have pos: "comp_dst_pos c = length ?pre" using enc_pos [OF assms(1)] by (simp add: need_def)
  have bits: "pack 0 (sofar @ rest) = ?pre @ pack 0 rest \<and> take (length ?pre) ?d = ?pre" for rest
  proof (cases "sofar = []")
    case False
    then obtain pre cur post where o: "enc_open c sofar pre cur post" using assms by (auto simp: enc_def)
    have p: "pack 0 (sofar @ rest) = pre @ byte_of_bits cur # post @ pack 0 rest" for rest
      using o 0 by (simp add: enc_open_def)
    then show ?thesis
      using o 0 p [of "[]"] by (auto simp: enc_open_def list_update_append)
  qed simp
  have p: "comp_dst_pos c < comp_dst_len c"
    using assms(2) pos bits [of "[Bit b]"] by (simp add: need_def)
  obtain x tail where d: "?d = ?pre @ x # tail"
    using bits pos p assms(1) id_take_nth_drop [of "length ?pre" ?d] by (auto simp: enc_def)
  have f: "drop_bit 7 (drop_bit 1 (comp_flags c) OR (if b then 0x80 else 0)) = byte_of_bits ([] @ [b])"
  proof (rule flag_shift)
    show "drop_bit (Suc 7) (comp_flags c) = byte_of_bits []"
      by (rule bit_word_eqI) (auto simp: bit_simps dest: bit_imp_le_length)
  qed simp_all
  have "enc_open ?c (sofar @ [Bit b]) ?pre [b] []"
    using pos d f bits by (auto simp: enc_open_def)
  moreover have "prs_set_bit c b = Inr ?c" using 0 p by (simp add: prs_set_bit_def)
  ultimately show ?thesis
    using enc_size [OF assms(1)] p by (auto simp: same_comp_src_def dest!: enc_openI)
qed

subsection \<open>Writing items and tokens\<close>

primrec put_item :: "prs_comp_cxt \<Rightarrow> item \<Rightarrow> errno + prs_comp_cxt" where
  "put_item c (Bit b) = prs_set_bit c b"
| "put_item c (Byte v) = write_literal c v"

primrec put_items :: "item list \<Rightarrow> prs_comp_cxt \<Rightarrow> errno + prs_comp_cxt" where
  "put_items [] c = Inr c"
| "put_items (x # xs) c = bind_res (put_item c x) (put_items xs)"

lemma put_items_enc:
  assumes "enc c sofar" "sofar \<noteq> [] \<or> (\<exists>b ys. xs = Bit b # ys)" "need (sofar @ xs) \<le> comp_dst_len c"
  shows "\<exists>c'. put_items xs c = Inr c' \<and> enc c' (sofar @ xs) \<and> same_comp_src c c'"
  using assms
proof (induction xs arbitrary: c sofar)
  case (Cons x xs)
  have n: "need (sofar @ [x]) \<le> comp_dst_len c"
    using Cons.prems(3) need_mono [of "sofar @ [x]" xs] by simp
  obtain c1 where c1: "put_item c x = Inr c1" "enc c1 (sofar @ [x])" "same_comp_src c c1"
    using Cons.prems n set_bit_enc write_literal_enc by (cases x) fastforce+
  with Cons.IH [of c1 "sofar @ [x]"] Cons.prems show ?case
    by (auto simp: same_comp_src_def)
qed simp

lemma put_literal_enc:
  assumes "enc c sofar" "comp_src_pos c < comp_src_len c"
    "need (sofar @ token_items (Lit (comp_src c ! comp_src_pos c))) \<le> comp_dst_len c"
  shows "\<exists>c'. put_literal c = Inr c' \<and> enc c' (sofar @ token_items (Lit (comp_src c ! comp_src_pos c))) \<and>
     same_comp_src (c\<lparr>comp_src_pos := Suc (comp_src_pos c)\<rparr>) c'"
proof -
  let ?v = "comp_src c ! comp_src_pos c"
  have "need (sofar @ [Bit True]) \<le> comp_dst_len c"
    using assms(3) need_mono [of "sofar @ [Bit True]" "[Byte ?v]"] by simp
  then obtain c1 where c1: "prs_set_bit c True = Inr c1" "enc c1 (sofar @ [Bit True])" "same_comp_src c c1"
    using set_bit_enc [OF assms(1)] by blast
  then obtain c2 where c2: "write_literal c1 ?v = Inr c2" "enc c2 (sofar @ [Bit True, Byte ?v])"
      "same_comp_src c1 c2"
    using write_literal_enc [OF c1(2), of ?v] assms(3) by (auto simp: same_comp_src_def)
  have "copy_literal c1 = Inr (c2\<lparr>comp_src_pos := Suc (comp_src_pos c)\<rparr>)"
    using c1(3) c2(1) assms(2)
    by (auto simp: copy_literal_def write_literal_def same_comp_src_def split: if_splits)
  moreover have "enc (c2\<lparr>comp_src_pos := Suc (comp_src_pos c)\<rparr>) (sofar @ [Bit True, Byte ?v])"
    using c2(2) by (simp add: enc_def enc_open_def)
  ultimately show ?thesis
    using c1 c2(3) by (auto simp: put_literal_def same_comp_src_def)
qed

lemma write_eof_enc:
  assumes "enc c sofar" "need (sofar @ eof_items) \<le> comp_dst_len c"
  shows "\<exists>c'. write_eof c = Inr c' \<and> comp_dst_pos c' = need (sofar @ eof_items) \<and>
     take (comp_dst_pos c') (comp_dst c') = pack 0 (sofar @ eof_items) \<and>
     length (comp_dst c') = comp_dst_len c"
proof -
  let ?d = "sofar @ [Bit False, Bit True]"
  have "need ?d \<le> comp_dst_len c"
    using assms(2) need_mono [of ?d "[Byte 0, Byte 0]"] by (simp add: eof_items_def)
  then obtain c1 where c1: "put_items [Bit False, Bit True] c = Inr c1" "enc c1 ?d" "same_comp_src c c1"
    using put_items_enc [OF assms(1)] by blast
  then obtain pre cur post where o: "enc_open c1 ?d pre cur post" by (auto simp: enc_def)
  then obtain x tail where d: "comp_dst c1 = pre @ x # post @ tail" by (auto simp: enc_open_def)
  define f where "f = byte_of_bits cur"
  let ?c2 = "c1\<lparr>comp_flags := f, comp_dst := pre @ f # post @ tail\<rparr>"
  have c2: "write_final_flags c1 = Inr ?c2"
    using o d by (simp add: write_final_flags_def enc_open_def f_def list_update_append Let_def)
  have pk: "pack 0 (sofar @ eof_items) = pre @ f # post @ [0, 0]"
    using o by (simp add: enc_open_def eof_items_def f_def)
  have pos: "comp_dst_pos c1 = length pre + 1 + length post" using o by (simp add: enc_open_def)
  have len: "length (comp_dst c1) = comp_dst_len c1" "comp_dst_len c1 = comp_dst_len c"
    using c1 by (auto simp: enc_def same_comp_src_def)
  have "2 \<le> length tail"
    using assms(2) len d by (simp add: need_def pk)
  then obtain y z tail' where t: "tail = y # z # tail'"
    by (metis One_nat_def Suc_1 Suc_le_length_iff)
  have w: "write_literal ?c2 0 = Inr (?c2\<lparr>comp_dst := pre @ f # post @ 0 # z # tail',
      comp_dst_pos := Suc (comp_dst_pos c1)\<rparr>)"
    using d t len pos by (simp add: write_literal_def list_update_append)
  have w2: "write_literal (?c2\<lparr>comp_dst := pre @ f # post @ 0 # z # tail',
      comp_dst_pos := Suc (comp_dst_pos c1)\<rparr>) 0 = Inr (?c2\<lparr>comp_dst := pre @ f # post @ 0 # 0 # tail',
      comp_dst_pos := Suc (Suc (comp_dst_pos c1))\<rparr>)"
    using d t len pos by (simp add: write_literal_def list_update_append)
  show ?thesis
    using c1(1) c2 w w2 pk pos len d t
    by (auto simp: write_eof_def need_def bind_res_def numeral_3_eq_3 split: sum.splits)
qed

lemma put_items_fun:
  "put_items [] = Inr" "put_items (x # xs) = (\<lambda>c. bind_res (put_item c x) (put_items xs))"
  by (rule ext, simp)+

definition match_token :: "nat \<Rightarrow> int \<Rightarrow> token option" where
  "match_token mlen offset =
     (if 2 \<le> mlen \<and> mlen \<le> 5 \<and> offset \<ge> -256 then Some (Short offset mlen)
      else if 3 \<le> mlen \<and> mlen \<le> 9 then Some (LongS offset mlen)
      else if mlen > 9 then Some (LongL offset (min mlen 256)) else None)"

lemma put_match_token:
  "put_match c mlen offset =
     (case match_token mlen offset of
        None \<Rightarrow> (None, 0)
      | Some t \<Rightarrow> (Some (put_items (token_items t) c), token_len t))"
proof -
  have "(word_of_int (offset AND 0xFF) :: u8) = word_of_int offset"
  proof -
    have "offset AND 0xFF = take_bit 8 offset"
      using take_bit_eq_mask [of 8 offset] by (simp add: mask_eq_exp_minus_1)
    then show ?thesis by (intro bit_word_eqI) (simp add: bit_simps)
  qed
  moreover have "bind_res r Inr = r" for r :: "errno + prs_comp_cxt" by (cases r) simp_all
  ultimately show ?thesis
    by (auto simp: put_match_def match_token_def long_lo_def Let_def min_def put_items_fun)
qed

end
