(* ===== verification/Prs_Match.thy ===== *)
theory Prs_Match
  imports Prs_Encode
begin

section \<open>The matches the compressor finds\<close>

text \<open>
  The hash tables hold earlier positions only, and inside the window the chain of a position
  descends; so the walk ends within as many steps as there are earlier positions, and every match
  is a true repetition inside the window.  A match written as a token means the bytes it covers.
\<close>

definition hash_inv :: "nat \<Rightarrow> nat \<Rightarrow> prs_hash_cxt \<Rightarrow> bool" where
  "hash_inv base n hc \<longleftrightarrow>
     (\<forall>h p. hash_ent hc h = Some p \<longrightarrow> p < n) \<and>
     (\<forall>q p. q < n \<longrightarrow> n \<le> q + MAX_WINDOW \<longrightarrow> PREV base hc q = Some p \<longrightarrow> p < q)"

lemma prev_slot_inj:
  assumes "q < p" "p < q + MAX_WINDOW"
  shows "prev_slot base q \<noteq> prev_slot base p"
proof
  assume "prev_slot base q = prev_slot base p"
  then have "MAX_WINDOW dvd (p - q)"
    using mod_eq_dvd_iff_nat [of "base + q" "base + p" MAX_WINDOW] assms by (simp add: prev_slot_def)
  with assms show False by (auto dest: dvd_imp_le)
qed

lemma hash_inv_empty: "hash_inv base 0 \<lparr>hash_ent = \<lambda>_. None, h_prev = \<lambda>_. None\<rparr>"
  by (simp add: hash_inv_def)

lemma hash_inv_add: "hash_inv base n hc \<Longrightarrow> hash_inv base (Suc n) (ADD_TO_HASH base hc n h)"
  using prev_slot_inj [of _ n base]
  by (auto simp: hash_inv_def ADD_TO_HASH_def PREV_def less_Suc_eq split: if_splits)

lemma hash_inv_cut:
  "hash_inv base n hc \<Longrightarrow> hash_inv base n (hc\<lparr>h_prev := (h_prev hc)(k := None)\<rparr>)"
  "hash_inv base n hc \<Longrightarrow> hash_inv base n (hc\<lparr>hash_ent := (hash_ent hc)(h := None)\<rparr>)"
  by (auto simp: hash_inv_def PREV_def split: if_splits)

lemma hash_inv_intermediates:
  assumes "hash_inv base (Suc (comp_src_pos c)) hc" "1 \<le> len"
  shows "hash_inv base (comp_src_pos c + len) (add_intermediates base past c hc len)"
  using assms(2)
proof (induction len rule: dec_induct)
  case base
  then show ?case using assms(1) by (simp add: add_intermediates_def)
next
  case (step n)
  then show ?case
    using hash_inv_add [OF step.IH] by (simp add: add_intermediates_def)
qed

definition is_match :: "prs_comp_cxt \<Rightarrow> nat \<Rightarrow> nat \<Rightarrow> bool" where
  "is_match c p len \<longleftrightarrow> p < comp_src_pos c \<and> comp_src_pos c \<le> p + MAX_WINDOW \<and>
     comp_src_pos c + len \<le> comp_src_len c \<and>
     (\<forall>i < len. comp_src c ! (comp_src_pos c + i) = comp_src c ! (p + i))"

lemma match_length_bytes: "i < match_length s e a b \<Longrightarrow> a + i < e \<and> s ! (a + i) = s ! (b + i)"
proof (induction s e a b arbitrary: i rule: match_length.induct)
  case (1 s e a b)
  then show ?case
    by (cases i) (auto simp: match_length.simps [of s e a b] split: if_splits)
qed

lemma is_match_length:
  assumes "p < comp_src_pos c" "comp_src_pos c \<le> p + MAX_WINDOW" "comp_src_pos c \<le> comp_src_len c"
  shows "is_match c p (match_length (comp_src c) (comp_src_len c) (comp_src_pos c) p)"
proof -
  let ?n = "match_length (comp_src c) (comp_src_len c) (comp_src_pos c) p"
  have "comp_src_pos c + ?n \<le> comp_src_len c"
    using assms(3) match_length_bytes [of "?n - 1" "comp_src c" "comp_src_len c" "comp_src_pos c" p]
    by (cases ?n) auto
  with assms show ?thesis by (auto simp: is_match_def dest: match_length_bytes)
qed

definition best_ok :: "prs_comp_cxt \<Rightarrow> nat \<times> nat option \<Rightarrow> bool" where
  "best_ok c best \<longleftrightarrow> fst best = 0 \<or> (\<exists>p. snd best = Some p \<and> is_match c p (fst best))"

lemma follow_chain_ok:
  assumes "hash_inv base (comp_src_pos c) hc" "ent < comp_src_pos c" "comp_src_pos c \<le> ent + MAX_WINDOW"
    "comp_src_pos c \<le> comp_src_len c" "best_ok c best" "ent < fuel"
  shows "\<exists>best' hc'. follow_chain fuel base c hc ent best = Some (best', hc') \<and>
     best_ok c best' \<and> hash_inv base (comp_src_pos c) hc'"
  using assms
proof (induction fuel arbitrary: hc ent best)
  case (Suc fuel)
  define mlen where "mlen = match_length (comp_src c) (comp_src_len c) (comp_src_pos c) ent"
  define b where "b = (if mlen \<noteq> 0 \<and> (mlen > fst best \<or> mlen \<ge> 256) then (mlen, Some ent) else best)"
  have b: "best_ok c b"
    using Suc.prems is_match_length [of ent c] by (auto simp: b_def mlen_def best_ok_def)
  have eq: "follow_chain (Suc fuel) base c hc ent best =
      (case PREV base hc ent of None \<Rightarrow> Some (b, hc)
       | Some ent2 \<Rightarrow> if comp_src_pos c - ent2 > MAX_WINDOW
           then Some (b, hc\<lparr>h_prev := (h_prev hc)(prev_slot base ent := None)\<rparr>)
           else follow_chain fuel base c hc ent2 b)"
    by (simp only: follow_chain.simps Let_def mlen_def b_def)
  show ?case
  proof (cases "PREV base hc ent")
    case None
    then show ?thesis unfolding eq using b Suc.prems by simp
  next
    case (Some ent2)
    then have "ent2 < ent" using Suc.prems by (simp add: hash_inv_def)
    then show ?thesis
      unfolding eq using Some b Suc.prems Suc.IH [of hc ent2 b] hash_inv_cut(1)
      by (cases b) (simp add: not_less)
  qed
qed simp

text \<open>The search for a match ends, and what it finds is a true match: the bytes at the current
  position repeat those at an earlier position inside the window of 8192 bytes.  The hash tables
  keep their invariant, with the current position added to them in the search that is not lazy.\<close>

lemma find_longest_match_ok:
  assumes "hash_inv base (comp_src_pos c) hc" "comp_src_pos c < comp_src_len c"
  shows "\<exists>len offset hc'. find_longest_match base past c hc lazy = Some (len, offset, hc') \<and>
     hash_inv base (if lazy then comp_src_pos c else Suc (comp_src_pos c)) hc' \<and>
     (len \<noteq> 0 \<longrightarrow> (\<exists>p. offset = int p - int (comp_src_pos c) \<and> is_match c p len))"
proof -
  define h where "h = HASH_STR past (comp_src c) (comp_src_pos c)"
  define add where "add = (\<lambda>hc. if lazy then hc else ADD_TO_HASH base hc (comp_src_pos c) h)"
  have add: "hash_inv base (if lazy then comp_src_pos c else Suc (comp_src_pos c)) (add hc')"
    if "hash_inv base (comp_src_pos c) hc'" for hc'
    using that hash_inv_add by (simp add: add_def)
  show ?thesis
  proof (cases "hash_ent hc h")
    case None
    then show ?thesis
      using assms hash_inv_add by (simp add: find_longest_match_def Let_def h_def [symmetric])
  next
    case (Some ent)
    then have ent: "ent < comp_src_pos c" using assms by (simp add: hash_inv_def)
    show ?thesis
    proof (cases "comp_src_pos c - ent > MAX_WINDOW")
      case True
      with Some assms hash_inv_cut(2) [OF assms(1), of h] hash_inv_add show ?thesis
        by (simp add: find_longest_match_def Let_def h_def [symmetric])
    next
      case False
      then have w: "comp_src_pos c \<le> ent + MAX_WINDOW" by simp
      have "comp_src_pos c \<le> comp_src_len c" "best_ok c (0, None)" "ent < Suc ent"
        using assms(2) by (simp_all add: best_ok_def)
      from follow_chain_ok [OF assms(1) ent w this]
      obtain best hc' where f: "follow_chain (Suc ent) base c hc ent (0, None) = Some (best, hc')"
          "best_ok c best" "hash_inv base (comp_src_pos c) hc'"
        by blast
      then have "find_longest_match base past c hc lazy =
          Some (fst best, case snd best of None \<Rightarrow> 0 | Some p \<Rightarrow> int p - int (comp_src_pos c), add hc')"
        using Some assms(2) False
        by (simp add: find_longest_match_def Let_def h_def [symmetric] add_def split: prod.split)
      with f add show ?thesis by (auto simp: best_ok_def)
    qed
  qed
qed

text \<open>A true match is what the copy of the token writes.\<close>

lemma copy_back_match:
  assumes "p < n" "n + len \<le> length s" "\<forall>i < len. s ! (n + i) = s ! (p + i)"
  shows "copy_back len (int p - int n) (take n s) = take (n + len) s"
  using assms
proof (induction len arbitrary: n p)
  case (Suc len)
  have "s ! n = s ! p" using Suc.prems(3) by (metis add_0_right zero_less_Suc)
  then have "take n s @ [take n s ! nat (int (length (take n s)) + (int p - int n))] = take (Suc n) s"
    using Suc.prems(1,2) by (simp add: take_Suc_conv_app_nth)
  moreover have "copy_back len (int (Suc p) - int (Suc n)) (take (Suc n) s) = take (Suc n + len) s"
    using Suc.prems by (intro Suc.IH) auto
  ultimately show ?case by simp
qed simp

end
