(* ===== verification/Prs.thy ===== *)
theory Prs
  imports Prs_Match
begin

section \<open>PRS compression and decompression\<close>

text \<open>
  What \<open>prs_archive\<close> and \<open>prs_compress\<close> produce: always a layout of tokens whose meaning is the
  source, within the size announced by \<open>prs_max_compressed_size\<close>; and what the decompressor makes
  of it.  The one gap is a copy of ten bytes or more from exactly 8192 bytes back: its code is the
  mark of the end of the file, so the round trip is stated for sources too short to have one.
\<close>

abbreviation items :: "token list \<Rightarrow> item list" where
  "items ts \<equiv> concat (map token_items ts)"

subsection \<open>Room in the destination\<close>

definition cost :: "item list \<Rightarrow> nat" where
  "cost xs = 8 * length (item_bytes xs) + length (item_bits xs)"

lemma cost_append [simp]: "cost (xs @ ys) = cost xs + cost ys"
  by (simp add: cost_def)

lemma cost_token: "1 \<le> token_len t \<Longrightarrow> 2 \<le> token_len t \<or> (\<exists>b. t = Lit b) \<Longrightarrow>
    (\<forall>z n. t = LongS z n \<or> t = LongL z n \<longrightarrow> 3 \<le> n) \<Longrightarrow> cost (token_items t) \<le> 9 * token_len t"
  by (cases t) (auto simp: cost_def)

lemma cost_eof: "cost eof_items = 18"
  by (simp add: cost_def eof_items_def)

lemma prs_max_eq: "prs_max_compressed_size n = n + 2 + (n + 9) div 8"
proof -
  have "(n + 2) AND 7 = (n + 2) mod 8"
    using take_bit_eq_mask [of 3 "n + 2"] by (simp add: take_bit_eq_mod mask_eq_exp_minus_1)
  moreover have "drop_bit 3 (n + 2) = (n + 2) div 8" by (simp add: drop_bit_eq_div)
  moreover have "(n + 2) div 8 + (if (n + 2) mod 8 \<noteq> 0 then 1 else 0) = (n + 9) div 8"
    by presburger
  ultimately show ?thesis by (simp add: prs_max_compressed_size_def Let_def)
qed

lemma need_fits:
  assumes "cost xs \<le> 9 * n + 18"
  shows "need xs \<le> prs_max_compressed_size n"
proof -
  have "8 * need xs \<le> cost xs + 7" by (simp add: need_eq cost_def)
  then have "need xs \<le> (9 * n + 25) div 8" using assms by simp
  also have "\<dots> = n + 2 + (n + 9) div 8" by presburger
  finally show ?thesis by (simp add: prs_max_eq)
qed

subsection \<open>The state of the compressor\<close>

text \<open>The tokens the compressor can choose; see the note above for the last case.\<close>

definition token_fits :: "nat \<Rightarrow> token \<Rightarrow> bool" where
  "token_fits n t \<longleftrightarrow> token_ok n t \<or> (\<exists>len. t = LongL (-8192) len \<and> 10 \<le> len \<and> 8192 \<le> n)"

primrec tokens_fit :: "nat \<Rightarrow> token list \<Rightarrow> bool" where
  "tokens_fit n [] = True"
| "tokens_fit n (t # ts) = (token_fits n t \<and> tokens_fit (n + token_len t) ts)"

lemma tokens_fit_append:
  "tokens_fit n (ts @ us) \<longleftrightarrow> tokens_fit n ts \<and> tokens_fit (n + sum_list (map token_len ts)) us"
  by (induction ts arbitrary: n) (auto simp: add.assoc)

lemma tokens_fit_ok:
  "tokens_fit n ts \<Longrightarrow> n + sum_list (map token_len ts) < 8202 \<Longrightarrow> tokens_ok n ts"
  by (induction ts arbitrary: n) (auto simp: token_fits_def)

lemma apply_tokens_snoc: "apply_tokens (ts @ [t]) out = apply_token t (apply_tokens ts out)"
  by (simp add: apply_tokens_def)

definition enc_state :: "u8 list \<Rightarrow> prs_comp_cxt \<Rightarrow> token list \<Rightarrow> bool" where
  "enc_state s c ts \<longleftrightarrow> comp_src c = s \<and> comp_src_len c = length s \<and>
     comp_dst_len c = prs_max_compressed_size (length s) \<and> comp_src_pos c \<le> length s \<and>
     enc c (items ts) \<and> apply_tokens ts [] = take (comp_src_pos c) s \<and>
     cost (items ts) \<le> 9 * comp_src_pos c \<and> tokens_fit 0 ts"

lemma enc_state_pos: "enc_state s c ts \<Longrightarrow> sum_list (map token_len ts) = comp_src_pos c"
  using length_apply_tokens [of ts "[]"] by (simp add: enc_state_def)

lemma enc_state_new:
  assumes "malloc h (prs_max_compressed_size (length s)) = Some d"
  shows "enc_state s (new_comp s d) []"
  using assms by (auto simp: enc_state_def new_comp_def enc_def apply_tokens_def cost_def malloc_def
      split: if_splits)

lemma literal_step:
  assumes "enc_state s c ts" "comp_src_pos c < length s"
  shows "\<exists>c'. put_literal c = Inr c' \<and> enc_state s c' (ts @ [Lit (s ! comp_src_pos c)]) \<and>
     comp_src_pos c' = Suc (comp_src_pos c)"
proof -
  let ?t = "Lit (s ! comp_src_pos c)"
  have "cost (items ts @ token_items ?t) \<le> 9 * length s + 18"
    using assms by (simp add: enc_state_def cost_def)
  then have "need (items ts @ token_items ?t) \<le> comp_dst_len c"
    using need_fits assms by (simp add: enc_state_def)
  then obtain c' where c': "put_literal c = Inr c'" "enc c' (items ts @ token_items ?t)"
      "same_comp_src (c\<lparr>comp_src_pos := Suc (comp_src_pos c)\<rparr>) c'"
    using put_literal_enc [of c "items ts"] assms by (auto simp: enc_state_def)
  moreover have "cost (token_items ?t) = 9" by (simp add: cost_def)
  ultimately show ?thesis
    using assms by (auto simp: enc_state_def same_comp_src_def apply_tokens_snoc tokens_fit_append
        take_Suc_conv_app_nth token_fits_def)
qed

lemma match_token_len: "match_token len z = Some t \<Longrightarrow> token_len t \<le> len \<and> 2 \<le> token_len t"
  by (auto simp: match_token_def split: if_splits)

lemma match_token_fits:
  assumes "match_token len z = Some t" "z = int p - int n" "p < n" "n \<le> p + MAX_WINDOW"
  shows "token_fits n t" "cost (token_items t) \<le> 9 * token_len t"
    "apply_token t out = copy_back (token_len t) z out"
  using assms by (auto simp: match_token_def token_fits_def MAX_WINDOW_def cost_def split: if_splits)

lemma match_step:
  assumes "enc_state s c ts" "is_match c p len" "match_token len (int p - int (comp_src_pos c)) = Some t"
  shows "\<exists>c'. put_items (token_items t) c = Inr c' \<and> same_comp_src c c' \<and>
     enc_state s (c'\<lparr>comp_src_pos := comp_src_pos c + token_len t\<rparr>) (ts @ [t])"
proof -
  note t = match_token_len [OF assms(3)] match_token_fits [OF assms(3) refl]
  have m: "p < comp_src_pos c" "comp_src_pos c \<le> p + MAX_WINDOW" "comp_src_pos c + len \<le> length s"
    using assms(1,2) by (auto simp: is_match_def enc_state_def)
  have "cost (items ts @ token_items t) \<le> 9 * length s + 18"
    using assms(1) t(3) [OF m(1,2)] t(1) m(3) by (simp add: enc_state_def)
  then have n: "need (items ts @ token_items t) \<le> comp_dst_len c"
    using need_fits assms by (simp add: enc_state_def)
  have "\<exists>b ys. token_items t = Bit b # ys" by (cases t) auto
  then obtain c' where c': "put_items (token_items t) c = Inr c'" "enc c' (items ts @ token_items t)"
      "same_comp_src c c'"
    using put_items_enc [OF _ _ n] assms(1) by (auto simp: enc_state_def)
  have "copy_back (token_len t) (int p - int (comp_src_pos c)) (take (comp_src_pos c) s)
      = take (comp_src_pos c + token_len t) s"
    using m t(1) assms(1,2) by (intro copy_back_match) (auto simp: is_match_def enc_state_def)
  moreover have "enc (c'\<lparr>comp_src_pos := comp_src_pos c + token_len t\<rparr>) (items ts @ token_items t)"
    using c'(2) by (simp add: enc_def enc_open_def)
  ultimately show ?thesis
    using c' assms(1) t(2-) [OF m(1,2)] t(1) m(3) enc_state_pos [OF assms(1)]
    by (auto simp: enc_state_def same_comp_src_def apply_tokens_snoc tokens_fit_append)
qed

subsection \<open>The main loop\<close>

lemma compress_round_ok:
  assumes "enc_state s c ts" "hash_inv base (comp_src_pos c) hc" "comp_src_pos c < comp_src_len c - 1"
  shows "\<exists>c' hc' t. compress_round base past c hc = Some (Inr (c', hc')) \<and> enc_state s c' (ts @ [t]) \<and>
     hash_inv base (comp_src_pos c') hc' \<and> comp_src_pos c < comp_src_pos c'"
proof -
  let ?c1 = "c\<lparr>comp_src_pos := comp_src_pos c + 1\<rparr>"
  have pos: "comp_src_pos c < comp_src_len c" "comp_src_pos ?c1 < comp_src_len ?c1"
    "comp_src_pos c < length s"
    using assms by (auto simp: enc_state_def)
  obtain len z hc1 where f: "find_longest_match base past c hc False = Some (len, z, hc1)"
      "hash_inv base (Suc (comp_src_pos c)) hc1"
      "len \<noteq> 0 \<longrightarrow> (\<exists>p. z = int p - int (comp_src_pos c) \<and> is_match c p len)"
    using find_longest_match_ok [OF assms(2) pos(1), of past False] by auto
  have "hash_inv base (comp_src_pos ?c1) hc1" using f(2) by simp
  from find_longest_match_ok [OF this pos(2), of past True]
  obtain len2 z2 hc2 where g: "find_longest_match base past ?c1 hc1 True = Some (len2, z2, hc2)"
      "hash_inv base (Suc (comp_src_pos c)) hc2"
    by auto
  obtain c' where lit: "put_literal c = Inr c'" "enc_state s c' (ts @ [Lit (s ! comp_src_pos c)])"
      "comp_src_pos c' = Suc (comp_src_pos c)"
    using literal_step [OF assms(1) pos(3)] by blast
  show ?thesis
  proof (cases "len = 0 \<or> prefer_lazy len len2 z z2 \<or> match_token len z = None")
    case True
    then show ?thesis
      using f(1,2) g lit by (fastforce simp: compress_round_def put_match_token)
  next
    case False
    then obtain t p where t: "match_token len z = Some t" "z = int p - int (comp_src_pos c)"
        "is_match c p len"
      using f(3) by auto
    then obtain c'' where c'': "put_items (token_items t) c = Inr c''" "same_comp_src c c''"
        "enc_state s (c''\<lparr>comp_src_pos := comp_src_pos c + token_len t\<rparr>) (ts @ [t])"
      using match_step [OF assms(1) t(3)] by auto
    let ?hc = "add_intermediates base past c'' hc2 (token_len t)"
    have p: "comp_src_pos c'' = comp_src_pos c" using c''(2) by (simp add: same_comp_src_def)
    have "hash_inv base (comp_src_pos c + token_len t) ?hc"
      using hash_inv_intermediates [of base c'' hc2 "token_len t" past] g(2) match_token_len [OF t(1)] p
      by simp
    moreover have "compress_round base past c hc =
        Some (Inr (c''\<lparr>comp_src_pos := comp_src_pos c + token_len t\<rparr>, ?hc))"
      using False f(1) g(1) t(1) c''(1) p by (simp add: compress_round_def put_match_token)
    ultimately show ?thesis
      using c''(3) match_token_len [OF t(1)] by fastforce
  qed
qed

lemma compress_loop_ok:
  assumes "enc_state s c ts" "hash_inv base (comp_src_pos c) hc" "length s - comp_src_pos c < fuel"
  shows "\<exists>c' ts'. compress_loop fuel base past c hc = Some (Inr c') \<and> enc_state s c' ts' \<and>
     length s - 1 \<le> comp_src_pos c'"
  using assms
proof (induction fuel arbitrary: c ts hc)
  case (Suc fuel)
  have len: "comp_src_len c = length s" using Suc.prems by (simp add: enc_state_def)
  show ?case
  proof (cases "comp_src_pos c < comp_src_len c - 1")
    case True
    then obtain c' hc' t where "compress_round base past c hc = Some (Inr (c', hc'))"
        "enc_state s c' (ts @ [t])" "hash_inv base (comp_src_pos c') hc'" "comp_src_pos c < comp_src_pos c'"
      using compress_round_ok Suc.prems by blast
    then show ?thesis using True Suc.IH [of c' "ts @ [t]" hc'] Suc.prems(3) len by auto
  next
    case False
    then show ?thesis using Suc.prems len by auto
  qed
qed simp

lemma finish_ok:
  assumes "enc_state s c ts" "comp_src_pos c = length s"
  shows "\<exists>c'. write_eof c = Inr c' \<and> comp_dst_pos c' = need (items ts @ eof_items) \<and>
     take (comp_dst_pos c') (comp_dst c') = pack 0 (items ts @ eof_items) \<and>
     need (items ts @ eof_items) \<le> prs_max_compressed_size (length s) \<and>
     length (comp_dst c') = prs_max_compressed_size (length s) \<and> apply_tokens ts [] = s"
proof -
  have "need (items ts @ eof_items) \<le> prs_max_compressed_size (length s)"
    using assms by (intro need_fits) (simp add: enc_state_def cost_eof)
  then show ?thesis
    using write_eof_enc [of c "items ts"] assms by (auto simp: enc_state_def)
qed

lemma literals_ok:
  assumes "enc_state s c ts" "comp_src_pos c + n \<le> length s"
  shows "\<exists>c' us. put_literals n c = Inr c' \<and> enc_state s c' (ts @ map Lit us) \<and> length us = n \<and>
     comp_src_pos c' = comp_src_pos c + n"
  using assms
proof (induction n arbitrary: c ts)
  case 0
  then show ?case by simp
next
  case (Suc n)
  obtain c1 where c1: "put_literal c = Inr c1" "enc_state s c1 (ts @ [Lit (s ! comp_src_pos c)])"
      "comp_src_pos c1 = Suc (comp_src_pos c)"
    using literal_step [OF Suc.prems(1)] Suc.prems(2) by auto
  obtain c2 us where c2: "put_literals n c1 = Inr c2"
      "enc_state s c2 ((ts @ [Lit (s ! comp_src_pos c)]) @ map Lit us)" "length us = n"
      "comp_src_pos c2 = comp_src_pos c1 + n"
    using Suc.IH [OF c1(2)] Suc.prems(2) c1(3) by auto
  then have "enc_state s c2 (ts @ map Lit (s ! comp_src_pos c # us))" by simp
  then show ?case using c1 c2(1,3,4) by fastforce
qed

subsection \<open>The public functions\<close>

lemma apply_literals: "apply_tokens (map Lit us) out = out @ us"
  by (induction us arbitrary: out) (simp_all add: apply_tokens_def)

lemma need_literals: "need (items (map Lit us) @ eof_items) = prs_max_compressed_size (length us)"
proof -
  have "length (item_bytes (items (map Lit us))) = length us"
    "length (item_bits (items (map Lit us))) = length us"
    by (induction us) auto
  then show ?thesis by (simp add: need_eq prs_max_eq eof_items_def add.commute)
qed

lemma archive_literals:
  assumes "can_alloc h (prs_max_compressed_size (length s))" "s \<noteq> []"
  shows "prs_archive h (Some s) False
     = Inr (c_int (prs_max_compressed_size (length s)), pack 0 (items (map Lit s) @ eof_items))"
proof -
  obtain d where d: "malloc h (prs_max_compressed_size (length s)) = Some d"
    using assms(1) by (simp add: malloc_def)
  obtain c us where c: "put_literals (length s) (new_comp s d) = Inr c" "enc_state s c (map Lit us)"
      "length us = length s" "comp_src_pos c = length s"
    using literals_ok [OF enc_state_new [OF d], of "length s"] by (auto simp: new_comp_def)
  then obtain c' where c': "write_eof c = Inr c'" "comp_dst_pos c' = prs_max_compressed_size (length s)"
      "take (comp_dst_pos c') (comp_dst c') = pack 0 (items (map Lit us) @ eof_items)"
      "length (comp_dst c') = prs_max_compressed_size (length s)" "us = s"
    using finish_ok [OF c(2,4)] need_literals [of us] by (auto simp: apply_literals)
  then show ?thesis using assms(2) d c(1) by (simp add: prs_archive_def)
qed

lemma compress_tokens:
  assumes "\<forall>n. can_alloc h n" "s \<noteq> []"
  shows "\<exists>ts out. prs_compress h True base past (Some s) False = Some (Inr (c_int (length out), out)) \<and>
     out = pack 0 (items ts @ eof_items) \<and> length out \<le> prs_max_compressed_size (length s) \<and>
     apply_tokens ts [] = s \<and> tokens_fit 0 ts"
proof (cases "length s \<le> 3")
  case True
  have "tokens_fit n (map Lit us)" for n us
    by (induction us arbitrary: n) (auto simp: token_fits_def)
  then show ?thesis
    using True assms archive_literals [of h s] need_literals [of s]
    by (intro exI [of _ "map Lit s"]) (simp add: prs_compress_def apply_literals need_def)
next
  case False
  obtain d where d: "malloc h (prs_max_compressed_size (length s)) = Some d"
    using assms(1) by (simp add: malloc_def)
  let ?hc = "ADD_TO_HASH base (ADD_TO_HASH base \<lparr>hash_ent = \<lambda>_. None, h_prev = \<lambda>_. None\<rparr> 0
      (HASH_STR past s 0)) 1 (HASH_STR past s 1)"
  have hc: "hash_inv base (Suc (Suc 0)) ?hc"
    using hash_inv_add [OF hash_inv_add [OF hash_inv_empty [of base]]] by simp
  obtain c1 where c1: "put_literal (new_comp s d) = Inr c1" "enc_state s c1 [Lit (s ! 0)]"
      "comp_src_pos c1 = 1"
    using literal_step [OF enc_state_new [OF d]] assms(2) by (auto simp: new_comp_def)
  obtain c2 ts2 where c2: "put_literal c1 = Inr c2" "enc_state s c2 ts2" "comp_src_pos c2 = Suc (Suc 0)"
    using literal_step [OF c1(2)] c1(3) False by auto
  obtain c3 ts3 where c3: "compress_loop (length s) base past c2 ?hc = Some (Inr c3)"
      "enc_state s c3 ts3" "length s - 1 \<le> comp_src_pos c3"
    using compress_loop_ok [OF c2(2) hc [folded c2(3)], of "length s" past] c2(3) assms(2) by auto
  obtain c4 ts4 where c4: "(if comp_src_pos c3 < comp_src_len c3 then put_literal c3 else Inr c3) = Inr c4"
      "enc_state s c4 ts4" "comp_src_pos c4 = length s"
  proof (cases "comp_src_pos c3 < length s")
    case True
    with literal_step [OF c3(2)] c3(2,3) that show thesis
      by (metis (no_types, lifting) Suc_leI diff_Suc_1 enc_state_def le_antisym less_imp_Suc_add
          Suc_pred add_gr_0 le_less_Suc_eq not_less_eq_eq zero_less_Suc)
  next
    case False
    with c3 that show thesis by (auto simp: enc_state_def)
  qed
  obtain c5 where c5: "write_eof c4 = Inr c5" "comp_dst_pos c5 = need (items ts4 @ eof_items)"
      "take (comp_dst_pos c5) (comp_dst c5) = pack 0 (items ts4 @ eof_items)"
      "need (items ts4 @ eof_items) \<le> prs_max_compressed_size (length s)"
      "length (comp_dst c5) = prs_max_compressed_size (length s)" "apply_tokens ts4 [] = s"
    using finish_ok [OF c4(2,3)] by blast
  have "realloc h (comp_dst c5) (comp_dst_pos c5) = Some (pack 0 (items ts4 @ eof_items))"
    using assms(1) c5 by (simp add: realloc_def)
  moreover have "tokens_fit 0 ts4" using c4(2) by (simp add: enc_state_def)
  ultimately show ?thesis
    using False assms(2) d c1(1) c2(1) c3(1) c4(1) c5
    by (intro exI [of _ ts4]) (simp add: prs_compress_def Let_def need_def)
qed

text \<open>C2: Round trip: a source of 1 to 8201 bytes, compressed with \<open>prs_compress\<close> or archived with
  \<open>prs_archive\<close>, is what \<open>prs_decompress_buf\<close> gives back.\<close>

theorem prs_roundtrip:
  assumes "\<forall>n. can_alloc h n" "1 \<le> length s" "length s < 8202"
  shows "(\<exists>out. prs_compress h True base past (Some s) False = Some (Inr (int (length out), out)) \<and>
       prs_decompress_buf h (Some out) False = Some (Inr (int (length s), s))) \<and>
     (\<exists>out. prs_archive h (Some s) False = Inr (int (prs_max_compressed_size (length s)), out) \<and>
       prs_decompress_buf h (Some out) False = Some (Inr (int (length s), s)))"
proof
  have s: "s \<noteq> []" using assms(2) by auto
  have mx: "prs_max_compressed_size (length s) < 2 ^ 31"
    using assms(3) by (simp add: prs_max_eq)
  obtain ts out where o: "prs_compress h True base past (Some s) False = Some (Inr (int (length out), out))"
      "out = pack 0 (items ts @ eof_items)" "apply_tokens ts [] = s" "tokens_fit 0 ts"
    using compress_tokens [OF assms(1) s, of base past] le_less_trans [OF _ mx, THEN c_int_small] by auto
  have "tokens_ok 0 ts"
    using tokens_fit_ok [OF o(4)] length_apply_tokens [of ts "[]"] o(3) assms(3) by simp
  with o show "\<exists>out. prs_compress h True base past (Some s) False = Some (Inr (int (length out), out)) \<and>
       prs_decompress_buf h (Some out) False = Some (Inr (int (length s), s))"
    using decompress_format [OF assms(1), of ts] assms(3) by auto
  have lits: "tokens_ok n (map Lit s)" for n by (induction s arbitrary: n) auto
  show "\<exists>out. prs_archive h (Some s) False = Inr (int (prs_max_compressed_size (length s)), out) \<and>
       prs_decompress_buf h (Some out) False = Some (Inr (int (length s), s))"
    using decompress_format [OF assms(1) lits] archive_literals [of h s] assms(1,3) s
    unfolding c_int_small [OF mx] by (simp add: apply_literals)
qed

theorem prs_roundtrip_witness:
  "\<exists>out. prs_compress \<lparr>can_alloc = \<lambda>n. True, garbage = \<lambda>n. 0\<rparr> True 0 0 (Some [9, 9, 9, 9, 9]) False
       = Some (Inr (int (length out), out)) \<and>
     prs_decompress_buf \<lparr>can_alloc = \<lambda>n. True, garbage = \<lambda>n. 0\<rparr> (Some out) False
       = Some (Inr (5, [9, 9, 9, 9, 9]))"
  using prs_roundtrip [of "\<lparr>can_alloc = \<lambda>n. True, garbage = \<lambda>n. 0\<rparr>" "[9, 9, 9, 9, 9]" 0 0]
  by simp

text \<open>
  The gap: the code of a copy from exactly 8192 bytes back that is too long for three bits of
  length begins with the end mark, so a decompressor stops there, whatever follows.
\<close>

lemma minus_256: "(- 256 :: u8) = 0"
  by (simp add: word_uint_eq_iff)

lemma long_match_at_window_end:
  "9 < len \<Longrightarrow> put_match c len (- int MAX_WINDOW)
     = (Some (put_items (eof_items @ [Byte (of_nat (min len 256 - 1))]) c), min len 256)"
  by (simp add: put_match_token match_token_def MAX_WINDOW_def long_lo_def eof_items_def
      minus_256)

end
