(* ===== verification/Item_List.thy ===== *)
theory Item_List
  imports Prelude
begin

section \<open>The list of item names\<close>

text \<open>
  The table \<open>item_list\<close> of \<open>ship_server/src/items.c\<close>, in its order, without the terminator: the
  code of an item as it stands in the first three bytes of its data, with the name of the item.
  It is cut in four parts of the file.
\<close>

text \<open>Lines 29 to 172 of the file.\<close>

definition item_list_1 :: "(u32 \<times> string) list" where
  "item_list_1 = [
     (0x000004, ''Meseta''),
     (0x000100, ''Saber''),
     (0x010100, ''Brand''),
     (0x020100, ''Buster''),
     (0x030100, ''Pallasch''),
     (0x040100, ''Gladius''),
     (0x050100, ''DB'S SABER''),
     (0x060100, ''KALADBOLG''),
     (0x070100, ''DURANDAL''),
     (0x000200, ''Sword''),
     (0x010200, ''Gigush''),
     (0x020200, ''Breaker''),
     (0x030200, ''Claymore''),
     (0x040200, ''Calibur''),
     (0x050200, ''FLOWEN'S SWORD''),
     (0x060200, ''LAST SURVIVOR''),
     (0x070200, ''DRAGON SLAYER''),
     (0x000300, ''Dagger''),
     (0x010300, ''Knife''),
     (0x020300, ''Blade''),
     (0x030300, ''Edge''),
     (0x040300, ''Ripper''),
     (0x050300, ''BLADE DANCE''),
     (0x060300, ''BLOODY ART''),
     (0x070300, ''CROSS SCAR''),
     (0x000400, ''Partisan''),
     (0x010400, ''Halbert''),
     (0x020400, ''Glaive''),
     (0x030400, ''Berdys''),
     (0x040400, ''Gungnir''),
     (0x050400, ''BRIONAC''),
     (0x060400, ''VJAYA''),
     (0x070400, ''GAE BOLG''),
     (0x000500, ''Slicer''),
     (0x010500, ''Spinner''),
     (0x020500, ''Cutter''),
     (0x030500, ''Sawcer''),
     (0x040500, ''Diska''),
     (0x050500, ''SLICER OF ASSASSIN''),
     (0x060500, ''DISKA OF LIBERATOR''),
     (0x070500, ''DISKA OF BRAVEMAN''),
     (0x000600, ''Handgun''),
     (0x010600, ''Autogun''),
     (0x020600, ''Lockgun''),
     (0x030600, ''Railgun''),
     (0x040600, ''Raygun''),
     (0x050600, ''VARISTA''),
     (0x060600, ''CUSTOM RAY ver.OO''),
     (0x070600, ''BRAVACE''),
     (0x000700, ''Rifle''),
     (0x010700, ''Sniper''),
     (0x020700, ''Blaster''),
     (0x030700, ''Beam''),
     (0x040700, ''Laser''),
     (0x050700, ''VISK-235W''),
     (0x060700, ''WALS-MK2''),
     (0x070700, ''JUSTY-23ST''),
     (0x000800, ''Mechgun''),
     (0x010800, ''Assault''),
     (0x020800, ''Repeater''),
     (0x030800, ''Gatling''),
     (0x040800, ''Vulcan''),
     (0x050800, ''M&A60 VISE''),
     (0x060800, ''H&S25 JUSTICE''),
     (0x070800, ''L&K14 COMBAT''),
     (0x000900, ''Shot''),
     (0x010900, ''Spread''),
     (0x020900, ''Cannon''),
     (0x030900, ''Launcher''),
     (0x040900, ''Arms''),
     (0x050900, ''CRUSH BULLET''),
     (0x060900, ''METEOR SMASH''),
     (0x070900, ''FINAL IMPACT''),
     (0x000A00, ''Cane''),
     (0x010A00, ''Stick''),
     (0x020A00, ''Mace''),
     (0x030A00, ''Club''),
     (0x040A00, ''CLUB OF LACONIUM''),
     (0x050A00, ''MACE OF ADAMAN''),
     (0x060A00, ''CLUB OF ZUMIURAN''),
     (0x000B00, ''Rod''),
     (0x010B00, ''Pole''),
     (0x020B00, ''Pillar''),
     (0x030B00, ''Striker''),
     (0x040B00, ''BATTLE VERGE''),
     (0x050B00, ''BRAVE HAMMER''),
     (0x060B00, ''ALIVE AQHU''),
     (0x000C00, ''Wand''),
     (0x010C00, ''Staff''),
     (0x020C00, ''Baton''),
     (0x030C00, ''Scepter''),
     (0x040C00, ''FIRE SCEPTER:AGNI''),
     (0x050C00, ''ICE STAFF:DAGON''),
     (0x060C00, ''STORM WAND:INDRA''),
     (0x000D00, ''PHOTON CLAW''),
     (0x010D00, ''SILENCE CLAW''),
     (0x020D00, ''NEI'S CLAW''),
     (0x000E00, ''DOUBLE SABER''),
     (0x010E00, ''STAG CUTLERY''),
     (0x020E00, ''TWIN BRAND''),
     (0x000F00, ''BRAVE KNUCKLE''),
     (0x010F00, ''ANGRY FIST''),
     (0x020F00, ''GOD HAND''),
     (0x030F00, ''SONIC KNUCKLE''),
     (0x040F00, ''OROTIAGITO (alt)''),
     (0x001000, ''OROTIAGITO''),
     (0x011000, ''AGITO (AUW 1975)''),
     (0x021000, ''AGITO (AUW 1983)''),
     (0x031000, ''AGITO (AUW 2001)''),
     (0x041000, ''AGITO (AUW 1991)''),
     (0x051000, ''AGITO (AUW 1977)''),
     (0x061000, ''AGITO (AUW 1980)''),
     (0x001100, ''SOUL EATER''),
     (0x011100, ''SOUL BANISH''),
     (0x001200, ''SPREAD NEEDLE''),
     (0x001300, ''HOLY RAY''),
     (0x001400, ''INFERNO BAZOOKA''),
     (0x001500, ''FLAME VISIT''),
     (0x001600, ''AKIKO'S FRYING PAN''),
     (0x001700, ''C-SORCERER'S CANE''),
     (0x001800, ''S-BEAT'S BLADE''),
     (0x001900, ''P-ARMS'S BLADE''),
     (0x001A00, ''DELSABER'S BUSTER''),
     (0x001B00, ''C-BRINGER'S RIFLE''),
     (0x001C00, ''EGG BLASTER''),
     (0x001D00, ''PSYCHO WAND''),
     (0x001E00, ''HEAVEN PUNISHER''),
     (0x001F00, ''LAVIS CANNON''),
     (0x002000, ''VICTOR AXE''),
     (0x002100, ''CHAIN SAWD''),
     (0x002200, ''CADUCEUS''),
     (0x002300, ''STING TIP''),
     (0x002400, ''MAGICAL PIECE''),
     (0x002500, ''TECHNICAL CROZIER''),
     (0x002600, ''SUPPRESSED GUN''),
     (0x002700, ''ANCIENT SABER''),
     (0x002800, ''HARISEN BATTLE FAN''),
     (0x002900, ''YAMIGARASU''),
     (0x002A00, ''AKIKO'S WOK''),
     (0x002B00, ''TOY HAMMER''),
     (0x002C00, ''ELYSION''),
     (0x002D00, ''RED SABER''),
     (0x002E00, ''METEOR CUDGEL''),
     (0x002F00, ''MONKEY KING BAR'')]"

text \<open>Lines 173 to 316 of the file.\<close>

definition item_list_2 :: "(u32 \<times> string) list" where
  "item_list_2 = [
     (0x003000, ''DOUBLE CANNON''),
     (0x003100, ''HUGE BATTLE FAN''),
     (0x003200, ''TSUMIKIRI J-SWORD''),
     (0x003300, ''SEALED J-SWORD''),
     (0x003400, ''RED SWORD''),
     (0x003500, ''CRAZY TUNE''),
     (0x003600, ''TWIN CHAKRAM''),
     (0x003700, ''WOK OF AKIKO'S SHOP''),
     (0x003800, ''LAVIS BLADE''),
     (0x003900, ''RED DAGGER''),
     (0x003A00, ''MADAM'S PARASOL''),
     (0x003B00, ''MADAM'S UMBRELLA''),
     (0x003C00, ''IMPERIAL PICK''),
     (0x003D00, ''BERDYSH''),
     (0x003E00, ''RED PARTISAN''),
     (0x003F00, ''FLIGHT CUTTER''),
     (0x004000, ''FLIGHT FAN''),
     (0x004100, ''RED SLICER''),
     (0x004200, ''HANDGUN:GULD''),
     (0x004300, ''HANDGUN:MILLA''),
     (0x004400, ''RED HANDGUN''),
     (0x004500, ''FROZEN SHOOTER''),
     (0x004600, ''ANTI ANDROID RIFLE''),
     (0x004700, ''ROCKET PUNCH''),
     (0x004800, ''SAMBA MARACAS''),
     (0x004900, ''TWIN PSYCHOGUN''),
     (0x004A00, ''DRILL LAUNCHER''),
     (0x004B00, ''GULD MILLA''),
     (0x004C00, ''RED MECHGUN''),
     (0x004D00, ''BERLA CANNON''),
     (0x004E00, ''PANZER FAUST''),
     (0x004F00, ''SUMMIT MOON''),
     (0x005000, ''WINDMILL''),
     (0x005100, ''EVIL CURST''),
     (0x005200, ''FLOWER CANE''),
     (0x005300, ''HILDEBEAR'S CANE''),
     (0x005400, ''HILDEBLUE'S CANE''),
     (0x005500, ''RABBIT WAND''),
     (0x005600, ''PLANTAIN LEAF''),
     (0x005700, ''DEMONIC FORK''),
     (0x005800, ''STIRKER OF CHAO''),
     (0x005900, ''BROOM''),
     (0x005A00, ''PROPHETS OF MOTAV''),
     (0x005B00, ''THE SIGH OF A GOD''),
     (0x005C00, ''TWINKLE STAR''),
     (0x005D00, ''PLANTAIN FAN''),
     (0x005E00, ''TWIN BLAZE''),
     (0x005F00, ''MARINA'S BAG''),
     (0x006000, ''DRAGON'S CLAW''),
     (0x006100, ''PANTHER'S CLAW''),
     (0x006200, ''S-RED'S BLADE''),
     (0x006300, ''PLANTAIN HUGE FAN''),
     (0x006400, ''CHAMELEON SCYTHE''),
     (0x006500, ''YASMINKOV 3000R''),
     (0x006600, ''ANO RIFLE''),
     (0x006700, ''BARANZ LAUNCHER''),
     (0x006800, ''BRANCH OF PAKUPAKU''),
     (0x006900, ''HEART OF POUMN''),
     (0x006A00, ''YASMINKOV 2000H''),
     (0x006B00, ''YASMINKOV 7000V''),
     (0x006C00, ''YASMINKOV 9200M''),
     (0x006D00, ''MASER BEAM''),
     (0x006E00, ''GAME MAGAZNE''),
     (0x006F00, ''FLOWER BOUQUET''),
     (0x007000, ''SABER''),
     (0x007100, ''SWORD''),
     (0x007200, ''BLADE''),
     (0x007300, ''PARTISAN''),
     (0x007400, ''SLICER''),
     (0x007500, ''GUN''),
     (0x007600, ''RIFLE''),
     (0x007700, ''MECHGUN''),
     (0x007800, ''SHOT''),
     (0x007900, ''CANE''),
     (0x007A00, ''ROD''),
     (0x007B00, ''WAND''),
     (0x007C00, ''TWIN''),
     (0x007D00, ''CLAW''),
     (0x007E00, ''BAZOOKA''),
     (0x007F00, ''NEEDLE''),
     (0x008000, ''SCYTHE''),
     (0x008100, ''HAMMER''),
     (0x008200, ''MOON''),
     (0x008300, ''PSYCHOGUN''),
     (0x008400, ''PUNCH''),
     (0x008500, ''WINDMILL''),
     (0x008600, ''HARISEN''),
     (0x008700, ''J-BLADE''),
     (0x008800, ''J-CUTTER''),
     (0x000101, ''Frame''),
     (0x010101, ''Armor''),
     (0x020101, ''Psy Armor''),
     (0x030101, ''Giga Frame''),
     (0x040101, ''Soul Frame''),
     (0x050101, ''Cross Armor''),
     (0x060101, ''Solid Frame''),
     (0x070101, ''Brace Armor''),
     (0x080101, ''Hyper Frame''),
     (0x090101, ''Grand Armor''),
     (0x0A0101, ''Shock Frame''),
     (0x0B0101, ''King's Frame''),
     (0x0C0101, ''Dragon Frame''),
     (0x0D0101, ''Absorb Armor''),
     (0x0E0101, ''Protect Frame''),
     (0x0F0101, ''General Armor''),
     (0x100101, ''Perfect Frame''),
     (0x110101, ''Valiant Frame''),
     (0x120101, ''Imperial Armor''),
     (0x130101, ''Holiness Armor''),
     (0x140101, ''Guardian Armor''),
     (0x150101, ''Divinity Armor''),
     (0x160101, ''Ultimate Frame''),
     (0x170101, ''Celestial Armor''),
     (0x180101, ''HUNTER FIELD''),
     (0x190101, ''RANGER FIELD''),
     (0x1A0101, ''FORCE FIELD''),
     (0x1B0101, ''REVIVAL GARMENT''),
     (0x1C0101, ''SPIRIT GARMENT''),
     (0x1D0101, ''STINK FRAME''),
     (0x1E0101, ''D-PARTS ver1.01''),
     (0x1F0101, ''D-PARTS ver2.10''),
     (0x200101, ''PARASITE WEAR:De Rol''),
     (0x210101, ''PARASITE WEAR:Nelgal''),
     (0x220101, ''PARASITE WEAR:Vajulla''),
     (0x230101, ''SENSE PLATE''),
     (0x240101, ''GRAVITON PLATE''),
     (0x250101, ''ATTRIBUTE PLATE''),
     (0x260101, ''FLOWEN'S FRAME''),
     (0x270101, ''CUSTOM FRAME ver.OO''),
     (0x280101, ''DB'S ARMOR''),
     (0x290101, ''GUARD WAVE''),
     (0x2A0101, ''DF FIELD''),
     (0x2B0101, ''LUMINOUS FIELD''),
     (0x2C0101, ''CHU CHU FEVER''),
     (0x2D0101, ''LOVE HEART''),
     (0x2E0101, ''FLAME GARMENT''),
     (0x2F0101, ''VIRUS ARMOR:Lafuteria''),
     (0x300101, ''BRIGHTNESS CIRCLE''),
     (0x310101, ''AURA FIELD''),
     (0x320101, ''ELECTRO FRAME''),
     (0x330101, ''SACRED CLOTH''),
     (0x340101, ''SMOKING PLATE''),
     (0x000201, ''Barrier''),
     (0x010201, ''Shield'')]"

text \<open>Lines 317 to 461 of the file.\<close>

definition item_list_3 :: "(u32 \<times> string) list" where
  "item_list_3 = [
     (0x020201, ''Core Shield''),
     (0x030201, ''Giga Shield''),
     (0x040201, ''Soul Barrier''),
     (0x050201, ''Hard Shield''),
     (0x060201, ''Brave Barrier''),
     (0x070201, ''Solid Shield''),
     (0x080201, ''Flame Barrier''),
     (0x090201, ''Plasma Barrier''),
     (0x0A0201, ''Freeze Barrier''),
     (0x0B0201, ''Psychic Barrier''),
     (0x0C0201, ''General Shield''),
     (0x0D0201, ''Protect Barrier''),
     (0x0E0201, ''Glorious Shield''),
     (0x0F0201, ''Imperial Barrier''),
     (0x100201, ''Guardian Shield''),
     (0x110201, ''Divinity Barrier''),
     (0x120201, ''Ultimate Shield''),
     (0x130201, ''Spiritual Shield''),
     (0x140201, ''Celestial Shield''),
     (0x150201, ''INVISIBLE GUARD''),
     (0x160201, ''SACRED GUARD''),
     (0x170201, ''S-PARTS ver1.16''),
     (0x180201, ''S-PARTS ver2.01''),
     (0x190201, ''LIGHT RELIEF''),
     (0x1A0201, ''SHIELD OF DELSABER''),
     (0x1B0201, ''FORCE WALL''),
     (0x1C0201, ''RANGER WALL''),
     (0x1D0201, ''HUNTER WALL''),
     (0x1E0201, ''ATTRIBUTE WALL''),
     (0x1F0201, ''SECRET GEAR''),
     (0x200201, ''COMBAT GEAR''),
     (0x210201, ''PROTO REGENE GEAR''),
     (0x220201, ''REGENERATE GEAR''),
     (0x230201, ''REGENE GEAR ADV''),
     (0x240201, ''FLOWEN'S SHIELD''),
     (0x250201, ''CUSTOM BARRIER ver.OO''),
     (0x260201, ''DB'S SHIELD''),
     (0x270201, ''RED RING''),
     (0x280201, ''TRIPOLIC SHIELD''),
     (0x290201, ''STANDSTILL SHIELD''),
     (0x2A0201, ''SAFETY HEART''),
     (0x2B0201, ''KASAMI BRACER''),
     (0x2C0201, ''GODS SHIELD SUZAKU''),
     (0x2D0201, ''GODS SHIELD GENBU''),
     (0x2E0201, ''GODS SHIELD BYAKKO''),
     (0x2F0201, ''GODS SHIELD SEIRYU''),
     (0x300201, ''HANTER'S SHELL''),
     (0x310201, ''RIKO'S GLASSES''),
     (0x320201, ''RIKO'S EARRING''),
     (0x330201, ''BLUE RING''),
     (0x340201, ''YELLOW RING''),
     (0x350201, ''SECURE FEET''),
     (0x360201, ''PURPLE RING''),
     (0x370201, ''GREEN RING''),
     (0x380201, ''BLACK RING''),
     (0x390201, ''WHITE RING''),
     (0x000301, ''Knight/Power''),
     (0x010301, ''General/Power''),
     (0x020301, ''Ogre/Power''),
     (0x030301, ''God/Power''),
     (0x040301, ''Priest/Mind''),
     (0x050301, ''General/Mind''),
     (0x060301, ''Angel/Mind''),
     (0x070301, ''God/Mind''),
     (0x080301, ''Marksman/Arm''),
     (0x090301, ''General/Arm''),
     (0x0A0301, ''Elf/Arm''),
     (0x0B0301, ''God/Arm''),
     (0x0C0301, ''Thief/Legs''),
     (0x0D0301, ''General/Legs''),
     (0x0E0301, ''Elf/Legs''),
     (0x0F0301, ''God/Legs''),
     (0x100301, ''Digger/HP''),
     (0x110301, ''General/HP''),
     (0x120301, ''Dragon/HP''),
     (0x130301, ''God/HP''),
     (0x140301, ''Magician/TP''),
     (0x150301, ''General/TP''),
     (0x160301, ''Angel/TP''),
     (0x170301, ''God/TP''),
     (0x180301, ''Warrior/Body''),
     (0x190301, ''General/Body''),
     (0x1A0301, ''Metal/Body''),
     (0x1C0301, ''Angel/Luck''),
     (0x1D0301, ''God/Luck''),
     (0x1E0301, ''Master/Ability''),
     (0x1F0301, ''Hero/Ability''),
     (0x200301, ''God/Ability''),
     (0x210301, ''Resist/Fire''),
     (0x220301, ''Resist/Flame''),
     (0x230301, ''Resist/Burning''),
     (0x240301, ''Resist/Cold''),
     (0x250301, ''Resist/Freeze''),
     (0x260301, ''Resist/Blizzard''),
     (0x270301, ''Resist/Shock''),
     (0x280301, ''Resist/Thunder''),
     (0x290301, ''Resist/Storm''),
     (0x2A0301, ''Resist/Light''),
     (0x2B0301, ''Resist/Saint''),
     (0x2C0301, ''Resist/Holy''),
     (0x2D0301, ''Resist/Dark''),
     (0x2E0301, ''Resist/Evil''),
     (0x2F0301, ''Resist/Devil''),
     (0x300301, ''All/Resist''),
     (0x310301, ''Super/Resist''),
     (0x320301, ''Perfect/Resist''),
     (0x330301, ''HP/Restorate''),
     (0x340301, ''HP/Generate''),
     (0x350301, ''HP/Revival''),
     (0x360301, ''TP/Restorate''),
     (0x370301, ''TP/Generate''),
     (0x380301, ''TP/Revival''),
     (0x390301, ''PB/Amplifier''),
     (0x3A0301, ''PB/Generate''),
     (0x3B0301, ''PB/Create''),
     (0x3C0301, ''Wizard/Technique''),
     (0x3D0301, ''Devil/Technique''),
     (0x3E0301, ''God/Technique''),
     (0x3F0301, ''General/Battle''),
     (0x400301, ''Devil/Battle''),
     (0x410301, ''God/Battle''),
     (0x420301, ''State/Maintenance''),
     (0x430301, ''Trap/Search''),
     (0x000002, ''Mag''),
     (0x000102, ''Varuna''),
     (0x000202, ''Mitra''),
     (0x000302, ''Surya''),
     (0x000402, ''Vayu''),
     (0x000502, ''Varaha''),
     (0x000602, ''Kama''),
     (0x000702, ''Ushasu''),
     (0x000802, ''Apsaras''),
     (0x000902, ''Kumara''),
     (0x000A02, ''Kaitabha''),
     (0x000B02, ''Tapas''),
     (0x000C02, ''Bhirava''),
     (0x000D02, ''Kalki''),
     (0x000E02, ''Rudra''),
     (0x000F02, ''Marutah''),
     (0x001002, ''Yaksa''),
     (0x001102, ''Sita''),
     (0x001202, ''Garuda''),
     (0x001302, ''Nandin''),
     (0x001402, ''Ashvinau'')]"

text \<open>Lines 462 to 604 of the file.\<close>

definition item_list_4 :: "(u32 \<times> string) list" where
  "item_list_4 = [
     (0x001502, ''Ribhava''),
     (0x001602, ''Soma''),
     (0x001702, ''Ila''),
     (0x001802, ''Durga''),
     (0x001902, ''Vritra''),
     (0x001A02, ''Namuci''),
     (0x001B02, ''Sumba''),
     (0x001C02, ''Naga''),
     (0x001D02, ''Pitri''),
     (0x001E02, ''Kabanda''),
     (0x001F02, ''Ravana''),
     (0x002002, ''Marica''),
     (0x002102, ''Soniti''),
     (0x002202, ''Preta''),
     (0x002302, ''Andhaka''),
     (0x002402, ''Bana''),
     (0x002502, ''Naraka''),
     (0x002602, ''Madhu''),
     (0x002702, ''Churel''),
     (0x002802, ''ROBOCHAO''),
     (0x002902, ''OPA-OPA''),
     (0x002A02, ''PIAN''),
     (0x002B02, ''CHAO''),
     (0x002C02, ''CHU CHU''),
     (0x002D02, ''KAPU KAPU''),
     (0x002E02, ''ANGEL'S WING''),
     (0x002F02, ''DEVIL'S WING''),
     (0x003002, ''ELENOR''),
     (0x003102, ''MARK3''),
     (0x003202, ''MASTER SYSTEM''),
     (0x003302, ''GENESIS''),
     (0x003402, ''SEGA SATURN''),
     (0x003502, ''DREAMCAST''),
     (0x003602, ''HAMBURGER''),
     (0x003702, ''PANZER'S TAIL''),
     (0x003802, ''DAVIL'S TAIL''),
     (0x000003, ''Monomate''),
     (0x010003, ''Dimate''),
     (0x020003, ''Trimate''),
     (0x000103, ''Monofluid''),
     (0x010103, ''Difluid''),
     (0x020103, ''Trifluid''),
     (0x000203, ''Disk:Lv.1''),
     (0x010203, ''Disk:Lv.2''),
     (0x020203, ''Disk:Lv.3''),
     (0x030203, ''Disk:Lv.4''),
     (0x040203, ''Disk:Lv.5''),
     (0x050203, ''Disk:Lv.6''),
     (0x060203, ''Disk:Lv.7''),
     (0x070203, ''Disk:Lv.8''),
     (0x080203, ''Disk:Lv.9''),
     (0x090203, ''Disk:Lv.10''),
     (0x0A0203, ''Disk:Lv.11''),
     (0x0B0203, ''Disk:Lv.12''),
     (0x0C0203, ''Disk:Lv.13''),
     (0x0D0203, ''Disk:Lv.14''),
     (0x0E0203, ''Disk:Lv.15''),
     (0x0F0203, ''Disk:Lv.16''),
     (0x100203, ''Disk:Lv.17''),
     (0x110203, ''Disk:Lv.18''),
     (0x120203, ''Disk:Lv.19''),
     (0x130203, ''Disk:Lv.20''),
     (0x140203, ''Disk:Lv.21''),
     (0x150203, ''Disk:Lv.22''),
     (0x160203, ''Disk:Lv.23''),
     (0x170203, ''Disk:Lv.24''),
     (0x180203, ''Disk:Lv.25''),
     (0x190203, ''Disk:Lv.26''),
     (0x1A0203, ''Disk:Lv.27''),
     (0x1B0203, ''Disk:Lv.28''),
     (0x1C0203, ''Disk:Lv.29''),
     (0x1D0203, ''Disk:Lv.30''),
     (0x000303, ''Sol Atomizer''),
     (0x000403, ''Moon Atomizer''),
     (0x000503, ''Star Atomizer''),
     (0x000603, ''Antidote''),
     (0x010603, ''Antiparalysis''),
     (0x000703, ''Telepipe''),
     (0x000803, ''Trap Vision''),
     (0x000903, ''Scape Doll''),
     (0x000A03, ''Monogrinder''),
     (0x010A03, ''Digrinder''),
     (0x020A03, ''Trigrinder''),
     (0x000B03, ''Power Material''),
     (0x010B03, ''Mind Material''),
     (0x020B03, ''Evade Material''),
     (0x030B03, ''HP Material''),
     (0x040B03, ''TP Material''),
     (0x050B03, ''Def Material''),
     (0x060B03, ''Hit Material''),
     (0x070B03, ''Luck Material''),
     (0x000C03, ''Cell of MAG 502''),
     (0x010C03, ''Cell of MAG 213''),
     (0x020C03, ''Parts of RoboChao''),
     (0x030C03, ''Heart of Opa Opa''),
     (0x040C03, ''Heart of Pian''),
     (0x050C03, ''Heart of Chao''),
     (0x000D03, ''Sorcerer's Right Arm''),
     (0x010D03, ''S-beat's Arms''),
     (0x020D03, ''P-arm's Arms''),
     (0x030D03, ''Delsaber's Right Arm''),
     (0x040D03, ''C-bringer's Right Arm''),
     (0x050D03, ''Delsabre's Left Arm''),
     (0x060D03, ''Book of KATANA1''),
     (0x070D03, ''Book of KATANA2''),
     (0x080D03, ''Book of KATANA3''),
     (0x000E03, ''S-red's Arms''),
     (0x010E03, ''Dragon's Claw''),
     (0x020E03, ''Hildebear's Head''),
     (0x030E03, ''Hildeblue's Head''),
     (0x040E03, ''Parts of Baranz''),
     (0x050E03, ''Belra's Right Arm''),
     (0x060E03, ''Joint Parts''),
     (0x070E03, ''Weapons Bronze Badge''),
     (0x080E03, ''Weapons Silver Badge''),
     (0x090E03, ''Weapons Gold Badge''),
     (0x0A0E03, ''Weapons Crystal Badge''),
     (0x0B0E03, ''Weapons Steel Badge''),
     (0x0C0E03, ''Weapons Aluminum Badge''),
     (0x0D0E03, ''Weapons Leather Badge''),
     (0x0E0E03, ''Weapons Bone Badge''),
     (0x0F0E03, ''Letter of appreciation''),
     (0x100E03, ''Autograph Album''),
     (0x110E03, ''High-level Mag Cell, Eno''),
     (0x120E03, ''High-level Mag Armor, Uru''),
     (0x130E03, ''Special Gene Flou''),
     (0x140E03, ''Sound Source FM''),
     (0x150E03, ''Parts of \"68000\"''),
     (0x160E03, ''SH2''),
     (0x170E03, ''SH4''),
     (0x180E03, ''Modem''),
     (0x190E03, ''Power VR''),
     (0x1A0E03, ''Glory in the past''),
     (0x1B0E03, ''Valentine's Chocolate''),
     (0x1C0E03, ''New Year's Card''),
     (0x1D0E03, ''Christmas Card''),
     (0x1E0E03, ''Birthday Card''),
     (0x1F0E03, ''Proof of Sonic Team''),
     (0x200E03, ''Special Event Ticket''),
     (0x210E03, ''Flower Bouquet''),
     (0x220E03, ''Cake''),
     (0x230E03, ''Accessories''),
     (0x240E03, ''Mr.Naka's Business Card'')]"

definition item_list :: "(u32 \<times> string) list" where
  "item_list = item_list_1 @ item_list_2 @ item_list_3 @ item_list_4"

end
