(* ===== verification/Items.thy ===== *)
theory Items
  imports Item_List
begin

section \<open>Items, inventories and the bank\<close>

text \<open>
  \<open>ship_server/src/items.c\<close>.  An item of an inventory (\<open>sylverant_iitem_t\<close>) and an item of the bank
  (\<open>sylverant_bitem_t\<close>) share their twelve data bytes, whose first word is the code and whose byte 5
  is the size of the stack of a tool.  An inventory is an array of 30 items with a count beside
  it, the bank an array of 200 items; the models keep the whole arrays, the slots beyond the count
  included.  The return values of the C functions are kept as integers.
\<close>

record item_t =
  equipped :: u16
  tech :: u16
  item_flags :: u32
  data_b :: "u8 list"
  item_id :: u32
  data2_b :: "u8 list"

record bitem_t =
  bdata_b :: "u8 list"
  bitem_id :: u32
  bdata2_b :: "u8 list"
  bamount :: u16
  bflags :: u16

record bank_t =
  bank_count :: u32
  bank_meseta :: u32
  bank_items :: "bitem_t list"

definition data_l0 :: "item_t \<Rightarrow> u32" where
  "data_l0 it = get_le32 (data_b it) 0"

definition bdata_l0 :: "bitem_t \<Rightarrow> u32" where
  "bdata_l0 it = get_le32 (bdata_b it) 0"

definition item_is_stackable :: "u32 \<Rightarrow> bool" where
  "item_is_stackable code \<longleftrightarrow>
     code AND 0xFF = 0x03 \<and>
     (let code = drop_bit 8 code AND 0xFF in code < 0x09 \<and> code \<noteq> 0x02)"

subsection \<open>Names\<close>

definition item_get_name_by_code :: "u32 \<Rightarrow> string option" where
  "item_get_name_by_code code =
     (let code = (if code AND 0xFF = 0x02 then code AND 0xFFFF else code)
      in map_of item_list code)"

definition item_code3 :: "u8 list \<Rightarrow> u32" where
  "item_code3 d = ucast (d ! 0) OR push_bit 8 (ucast (d ! 1)) OR push_bit 16 (ucast (d ! 2))"

definition v2_code :: "u8 list \<Rightarrow> u32" where
  "v2_code d =
     (let code = item_code3 d
      in if d ! 0 = 0x00 then
           if d ! 5 \<noteq> 0 then push_bit 8 (ucast (d ! 5)) else code
         else if d ! 0 = 0x01 then
           if d ! 1 \<noteq> 0x03 \<and> d ! 3 \<noteq> 0 then code OR push_bit 16 (ucast (d ! 3)) else code
         else if d ! 0 = 0x02 then
           if d ! 1 = 0x00 \<and> d ! 2 \<ge> 0xC9
           then 0x02 OR push_bit 8 ((ucast (d ! 2) - 0xC9) + 0x2C) else code
         else if d ! 0 = 0x03 then
           if code = 0x060D03 \<and> d ! 3 \<noteq> 0 then 0x000E03 OR push_bit 16 (ucast (d ! 3) - 1) else code
         else code)"

definition item_get_name :: "item_t \<Rightarrow> string option" where
  "item_get_name it = item_get_name_by_code (v2_code (data_b it))"

subsection \<open>Inventories\<close>

text \<open>The loop that looks for a slot: its index, or the count when there is none.\<close>

definition find_slot :: "('a \<Rightarrow> bool) \<Rightarrow> 'a list \<Rightarrow> nat \<Rightarrow> nat" where
  "find_slot P xs n = length (takeWhile (\<lambda>x. \<not> P x) (take n xs))"

text \<open>\<open>memmove(inv + i, inv + i + 1, (n - i - 1) * sizeof(item))\<close>.\<close>

definition memmove_down :: "'a list \<Rightarrow> nat \<Rightarrow> nat \<Rightarrow> 'a list" where
  "memmove_down xs i n = take i xs @ take (n - i - 1) (drop (i + 1) xs) @ drop (n - 1) xs"

definition set_stack :: "item_t \<Rightarrow> u8 \<Rightarrow> item_t" where
  "set_stack it v = it\<lparr>data_b := (data_b it)[5 := v]\<rparr>"

definition set_bstack :: "bitem_t \<Rightarrow> u8 \<Rightarrow> bitem_t" where
  "set_bstack it v = it\<lparr>bdata_b := (bdata_b it)[5 := v], bamount := ucast v\<rparr>"

definition item_remove_from_inv :: "item_t list \<Rightarrow> nat \<Rightarrow> u32 \<Rightarrow> u32 \<Rightarrow> int \<times> item_t list" where
  "item_remove_from_inv slots inv_count iid amt =
     (let i = find_slot (\<lambda>x. item_id x = iid) slots inv_count
      in if i = inv_count then (-1, slots)
         else
           let tmp = ucast (data_b (slots ! i) ! 5) :: u32
           in if item_is_stackable (data_l0 (slots ! i)) \<and> amt \<noteq> 0xFFFFFFFF \<and> amt < tmp
              then (0, slots[i := set_stack (slots ! i) (ucast (tmp - amt))])
              else (1, memmove_down slots i inv_count))"

definition item_add_to_inv :: "item_t list \<Rightarrow> nat \<Rightarrow> item_t \<Rightarrow> int \<times> item_t list" where
  "item_add_to_inv slots inv_count it =
     (if inv_count = 30 then (-1, slots)
      else if find_slot (\<lambda>x. item_id x = item_id it) slots inv_count \<noteq> inv_count then (-1, slots)
      else
        let i = find_slot (\<lambda>x. data_l0 x = data_l0 it) slots inv_count
        in if item_is_stackable (data_l0 it) \<and> i \<noteq> inv_count
           then (0, slots[i := set_stack (slots ! i) (data_b (slots ! i) ! 5 + data_b it ! 5)])
           else (1, slots[inv_count := it]))"

subsection \<open>The bank\<close>

definition zero_bitem :: bitem_t where
  "zero_bitem = \<lparr>bdata_b = replicate 12 0, bitem_id = 0xFFFFFFFF, bdata2_b = replicate 4 0,
     bamount = 0, bflags = 0\<rparr>"

definition cleanup_bb_bank :: "u32 \<Rightarrow> bank_t \<Rightarrow> bank_t" where
  "cleanup_bb_bank client_id bank =
     (let base = 0x80010000 OR push_bit 21 client_id; count = unat (bank_count bank)
      in bank\<lparr>bank_items :=
           map (\<lambda>i. if i < count then (bank_items bank ! i)\<lparr>bitem_id := base + of_nat i\<rparr>
                    else zero_bitem) [0..<length (bank_items bank)]\<rparr>)"

definition item_deposit_to_bank :: "bank_t \<Rightarrow> bitem_t \<Rightarrow> int \<times> bank_t" where
  "item_deposit_to_bank bank it =
     (let count = unat (bank_count bank); items = bank_items bank
      in if count = 200 then (-1, bank)
         else
           let i = find_slot (\<lambda>x. bdata_l0 x = bdata_l0 it) items count
           in if item_is_stackable (bdata_l0 it) \<and> i \<noteq> count
              then (0, bank\<lparr>bank_items :=
                      items[i := set_bstack (items ! i) (bdata_b (items ! i) ! 5 + bdata_b it ! 5)]\<rparr>)
              else (1, bank\<lparr>bank_items := items[count := it], bank_count := bank_count bank + 1\<rparr>))"

definition item_take_from_bank :: "bank_t \<Rightarrow> u32 \<Rightarrow> u8 \<Rightarrow> int \<times> bank_t \<times> bitem_t option" where
  "item_take_from_bank bank iid amt =
     (let count = unat (bank_count bank); items = bank_items bank;
          i = find_slot (\<lambda>x. bitem_id x = iid) items count
      in if i = count then (-1, bank, None)
         else
           let it = items ! i; stack = bdata_b it ! 5
           in if item_is_stackable (bdata_l0 it) \<and> amt < stack
              then (0, bank\<lparr>bank_items := items[i := set_bstack it (stack - amt)]\<rparr>,
                    Some (set_bstack it amt))
              else if item_is_stackable (bdata_l0 it) \<and> amt > stack then (-1, bank, Some it)
              else (1, bank\<lparr>bank_items := memmove_down items i count, bank_count := bank_count bank - 1\<rparr>,
                    Some it))"

end
