(* ===== verification/Item_Names.thy ===== *)
theory Item_Names
  imports Items
begin

section \<open>Item names\<close>

text \<open>
  The table is ordered by the type, then the subtype, then the index of the item, with Meseta in
  front; so its codes are different, and a lookup finds each listed item under its own name.
\<close>

definition code_key :: "u32 \<Rightarrow> u32" where
  "code_key c = push_bit 16 (c AND 0xFF) OR (c AND 0xFF00) OR drop_bit 16 c"

lemma keys_increase_1: "successively (<) (map (\<lambda>e. code_key (fst e)) (tl item_list_1))"
  by (simp add: item_list_1_def code_key_def)

lemma keys_increase_2: "successively (<) (map (\<lambda>e. code_key (fst e)) (item_list_2))"
  by (simp add: item_list_2_def code_key_def)

lemma keys_increase_3: "successively (<) (map (\<lambda>e. code_key (fst e)) (item_list_3))"
  by (simp add: item_list_3_def code_key_def)

lemma keys_increase_4: "successively (<) (map (\<lambda>e. code_key (fst e)) (item_list_4))"
  by (simp add: item_list_4_def code_key_def)

lemma part_ends:
  "fst (hd item_list_1) = 0x000004" "fst (last (tl item_list_1)) = 0x002F00"
  "fst (hd item_list_2) = 0x003000" "fst (last item_list_2) = 0x010201"
  "fst (hd item_list_3) = 0x020201" "fst (last item_list_3) = 0x001402"
  "fst (hd item_list_4) = 0x001502" "fst (last item_list_4) = 0x240E03"
  by (simp_all add: item_list_1_def item_list_2_def item_list_3_def item_list_4_def)

lemma parts_nonempty: "tl item_list_1 \<noteq> []" "item_list_1 \<noteq> []" "item_list_2 \<noteq> []"
  "item_list_3 \<noteq> []" "item_list_4 \<noteq> []"
  by (simp_all add: item_list_1_def item_list_2_def item_list_3_def item_list_4_def)

lemma rotate1_append: "xs \<noteq> [] \<Longrightarrow> rotate1 (xs @ ys) = tl xs @ ys @ [hd xs]"
  by (cases xs) auto

lemma keys_increase: "successively (<) (map (\<lambda>e. code_key (fst e)) (rotate1 item_list))"
proof -
  have "rotate1 item_list = (tl item_list_1 @ item_list_2 @ item_list_3 @ item_list_4) @ [hd item_list_1]"
    using rotate1_append [OF parts_nonempty(2)] by (simp add: item_list_def)
  then show ?thesis
    using keys_increase_1 keys_increase_2 keys_increase_3 keys_increase_4 parts_nonempty
    by (simp add: successively_append_iff last_map hd_map hd_append last_append part_ends code_key_def)
qed

lemma codes_distinct: "distinct (map fst item_list)"
proof -
  have "sorted_wrt (<) (map (\<lambda>e. code_key (fst e)) (rotate1 item_list))"
    using keys_increase by (simp add: successively_iff_sorted_wrt_strong)
  then have "distinct (map (\<lambda>e. code_key (fst e)) (rotate1 item_list))"
    by (simp only: strict_sorted_iff)
  then have "distinct (map code_key (map fst item_list))"
    by (simp add: comp_def rotate1_map [symmetric])
  then show ?thesis by (rule distinct_map [THEN iffD1, THEN conjunct1])
qed

definition mag_short :: "u32 \<Rightarrow> bool" where
  "mag_short c \<longleftrightarrow> c AND 0xFF \<noteq> 0x02 \<or> c AND 0xFFFF = c"

lemma mag_codes_1: "list_all (\<lambda>e. mag_short (fst e)) item_list_1"
  by (simp add: item_list_1_def mag_short_def)

lemma mag_codes_2: "list_all (\<lambda>e. mag_short (fst e)) item_list_2"
  by (simp add: item_list_2_def mag_short_def)

lemma mag_codes_3: "list_all (\<lambda>e. mag_short (fst e)) item_list_3"
  by (simp add: item_list_3_def mag_short_def)

lemma mag_codes_4: "list_all (\<lambda>e. mag_short (fst e)) item_list_4"
  by (simp add: item_list_4_def mag_short_def)

lemma mag_codes: "\<forall>(c, n) \<in> set item_list. c AND 0xFF = 0x02 \<longrightarrow> c AND 0xFFFF = c"
  using mag_codes_1 mag_codes_2 mag_codes_3 mag_codes_4 by (auto simp: list_all_iff item_list_def mag_short_def)

text \<open>Every item of the table is found under its own name, and a code gets a name only from an
  entry of the table: the entry of the code itself, or for a mag the entry of its first two bytes.\<close>

theorem item_get_name_by_code_table:
  "(\<forall>(c, n) \<in> set item_list. item_get_name_by_code c = Some n) \<and>
   (item_get_name_by_code c = Some n \<longrightarrow> (c, n) \<in> set item_list \<or>
      c AND 0xFF = 0x02 \<and> (c AND 0xFFFF, n) \<in> set item_list)"
proof
  show "\<forall>(c, n) \<in> set item_list. item_get_name_by_code c = Some n"
    using mag_codes codes_distinct by (auto simp: item_get_name_by_code_def Let_def)
  show "item_get_name_by_code c = Some n \<longrightarrow> (c, n) \<in> set item_list \<or>
      c AND 0xFF = 0x02 \<and> (c AND 0xFFFF, n) \<in> set item_list"
    by (auto simp: item_get_name_by_code_def Let_def dest: map_of_SomeD split: if_splits)
qed

theorem item_get_name_by_code_table_witness:
  "item_get_name_by_code 0x000100 = Some ''Saber''"
proof -
  have "(0x000100, ''Saber'') \<in> set item_list" by (simp add: item_list_def item_list_1_def)
  then show ?thesis using item_get_name_by_code_table by blast
qed

end
