(* ===== verification/Item_Stores.thy ===== *)
theory Item_Stores
  imports Items
begin

section \<open>What inventories and banks keep\<close>

text \<open>
  An inventory and a bank are arrays whose used part is a list of items with distinct ids.  The
  locale \<open>stackable\<close> says what their operations need of an item: a key, a code, and a stack size
  that can be set without changing the other two.  In it, \<open>total k xs\<close> counts the pieces of code
  \<open>k\<close> in a list, and the two changes the operations make, closing a gap and setting a stack, are
  shown to move exactly the pieces they should.  Both item types are instances.
\<close>

subsection \<open>Looking for a slot and closing a gap\<close>

lemma find_slot_le: "find_slot P xs n \<le> n"
  by (metis find_slot_def length_takeWhile_le length_take min.coboundedI2 min_def order_trans)

lemma find_slot_found:
  assumes "n \<le> length xs" "find_slot P xs n \<noteq> n"
  shows "find_slot P xs n < n \<and> P (xs ! find_slot P xs n) \<and> (\<forall>j < find_slot P xs n. \<not> P (xs ! j))"
proof -
  let ?t = "take n xs" and ?i = "length (takeWhile (\<lambda>x. \<not> P x) (take n xs))"
  have len: "?i < length ?t"
    using assms length_takeWhile_le [of "\<lambda>x. \<not> P x" ?t] by (simp add: find_slot_def)
  moreover have "P (?t ! ?i)" using nth_length_takeWhile [OF len] by simp
  moreover have "\<not> P (?t ! j)" if "j < ?i" for j
    using that nth_mem [of j "takeWhile (\<lambda>x. \<not> P x) ?t"] set_takeWhileD takeWhile_nth by metis
  ultimately show ?thesis using assms by (auto simp: find_slot_def)
qed

lemma find_slot_none:
  assumes "n \<le> length xs"
  shows "find_slot P xs n = n \<longleftrightarrow> (\<forall>x \<in> set (take n xs). \<not> P x)"
proof
  assume "find_slot P xs n = n"
  then have "takeWhile (\<lambda>x. \<not> P x) (take n xs) = take n xs"
    using assms by (metis find_slot_def length_take min.absorb2 takeWhile_eq_take take_all_iff order_refl)
  then show "\<forall>x \<in> set (take n xs). \<not> P x" by (metis takeWhile_eq_all_conv)
next
  assume "\<forall>x \<in> set (take n xs). \<not> P x"
  then have "takeWhile (\<lambda>x. \<not> P x) (take n xs) = take n xs"
    unfolding takeWhile_eq_all_conv by blast
  then have "find_slot P xs n = length (take n xs)" by (simp only: find_slot_def)
  then show "find_slot P xs n = n" using assms by simp
qed

lemma length_memmove_down [simp]:
  "i < n \<Longrightarrow> n \<le> length xs \<Longrightarrow> length (memmove_down xs i n) = length xs"
  by (simp add: memmove_down_def)

lemma take_memmove_down:
  "i < n \<Longrightarrow> n \<le> length xs \<Longrightarrow> take (n - 1) (memmove_down xs i n) = take i xs @ drop (i + 1) (take n xs)"
  by (simp add: memmove_down_def drop_take)

lemma split_at:
  assumes "i < n" "n \<le> length xs"
  shows "take n xs = take i xs @ xs ! i # drop (i + 1) (take n xs)"
  using id_take_nth_drop [of i "take n xs"] assms by (simp add: min_def)

lemma take_update:
  assumes "i < n" "n \<le> length xs"
  shows "take n (xs[i := y]) = take i xs @ y # drop (i + 1) (take n xs)"
  using upd_conv_take_nth_drop [of i "take n xs" y] assms by (simp add: take_update_swap min_def)

lemma slot_split:
  assumes "i < n" "n \<le> length xs"
  obtains a b where "take n xs = a @ xs ! i # b" "take (n - 1) (memmove_down xs i n) = a @ b"
    "\<And>y. take n (xs[i := y]) = a @ y # b" "length a = i"
  using that [of "take i xs" "drop (i + 1) (take n xs)"] take_memmove_down [OF assms]
    split_at [OF assms] take_update [OF assms] assms by simp

lemma take_append_slot: "n < length xs \<Longrightarrow> take (n + 1) (xs[n := x]) = take n xs @ [x]"
  by (simp add: take_Suc_conv_app_nth)

subsection \<open>Stackable items\<close>

locale stackable =
  fixes key code :: "'i \<Rightarrow> u32" and stack :: "'i \<Rightarrow> u8" and put_stack :: "'i \<Rightarrow> u8 \<Rightarrow> 'i"
    and ok :: "'i \<Rightarrow> bool"
  assumes stack_put: "ok x \<Longrightarrow> stack (put_stack x v) = v"
    and code_put: "code (put_stack x v) = code x"
    and key_put: "key (put_stack x v) = key x"
    and ok_put: "ok x \<Longrightarrow> ok (put_stack x v)"
begin

definition units :: "'i \<Rightarrow> nat" where
  "units x = (if item_is_stackable (code x) then unat (stack x) else 1)"

definition total :: "u32 \<Rightarrow> 'i list \<Rightarrow> nat" where
  "total k xs = sum_list (map (\<lambda>x. if code x = k then units x else 0) xs)"

definition pieces :: "u32 \<Rightarrow> 'i \<Rightarrow> nat" where
  "pieces k x = (if code x = k then units x else 0)"

lemma total_simps [simp]:
  "total k [] = 0" "total k (x # xs) = pieces k x + total k xs" "total k (xs @ ys) = total k xs + total k ys"
  by (simp_all add: total_def pieces_def)

lemma total_remove:
  assumes "i < n" "n \<le> length xs"
  shows "total k (take (n - 1) (memmove_down xs i n)) + pieces k (xs ! i) = total k (take n xs)"
  by (rule slot_split [OF assms]) simp

lemma total_update:
  assumes "i < n" "n \<le> length xs"
  shows "total k (take n (xs[i := y])) + pieces k (xs ! i) = total k (take n xs) + pieces k y"
  by (rule slot_split [OF assms]) simp

lemma keys_update:
  assumes "i < n" "n \<le> length xs"
  shows "map key (take n (xs[i := put_stack (xs ! i) v])) = map key (take n xs)"
  by (rule slot_split [OF assms]) (simp add: key_put)

lemma keys_remove:
  assumes "i < n" "n \<le> length xs" "distinct (map key (take n xs))"
  shows "distinct (map key (take (n - 1) (memmove_down xs i n)))"
    and "set (map key (take (n - 1) (memmove_down xs i n))) = set (map key (take n xs)) - {key (xs ! i)}"
proof -
  obtain a b where s: "take n xs = a @ xs ! i # b" "take (n - 1) (memmove_down xs i n) = a @ b"
    using slot_split [OF assms(1,2)] by blast
  show "distinct (map key (take (n - 1) (memmove_down xs i n)))"
    using assms(3) unfolding s by auto
  show "set (map key (take (n - 1) (memmove_down xs i n))) = set (map key (take n xs)) - {key (xs ! i)}"
    using assms(3) unfolding s by auto
qed

lemma ok_update: "\<forall>x \<in> set xs. ok x \<Longrightarrow> i < length xs \<Longrightarrow> x \<in> set (xs[i := put_stack (xs ! i) v]) \<Longrightarrow> ok x"
  by (auto simp: ok_put dest!: set_update_subset_insert [THEN subsetD])

end

lemma get_le32_update: "4 \<le> i \<Longrightarrow> get_le32 (d[i := v]) 0 = get_le32 d 0"
  by (simp add: get_le32_def)

interpretation inv_item: stackable item_id data_l0 "\<lambda>it. data_b it ! 5" set_stack
  "\<lambda>it. length (data_b it) = 12"
  by unfold_locales (simp_all add: set_stack_def data_l0_def get_le32_update)

interpretation bank_item: stackable bitem_id bdata_l0 "\<lambda>it. bdata_b it ! 5" set_bstack
  "\<lambda>it. length (bdata_b it) = 12"
  by unfold_locales (simp_all add: set_bstack_def bdata_l0_def get_le32_update)

subsection \<open>Inventories\<close>

definition inv_wf :: "item_t list \<Rightarrow> nat \<Rightarrow> bool" where
  "inv_wf slots n \<longleftrightarrow> length slots = 30 \<and> n \<le> 30 \<and> distinct (map item_id (take n slots)) \<and>
     (\<forall>x \<in> set slots. length (data_b x) = 12)"

definition inv_ids :: "item_t list \<Rightarrow> nat \<Rightarrow> u32 set" where
  "inv_ids slots n = set (map item_id (take n slots))"

lemma set_memmove_down: "i < n \<Longrightarrow> n \<le> length xs \<Longrightarrow> set (memmove_down xs i n) \<subseteq> set xs"
  by (auto simp: memmove_down_def dest: in_set_takeD in_set_dropD)

lemma inv_wf_set_stack:
  "inv_wf slots n \<Longrightarrow> i < n \<Longrightarrow> inv_wf (slots[i := set_stack (slots ! i) v]) n"
  using inv_item.keys_update [of i n slots v] inv_item.ok_update [of slots i _ v]
  by (auto simp: inv_wf_def)

lemma inv_wf_remove: "inv_wf slots n \<Longrightarrow> i < n \<Longrightarrow> inv_wf (memmove_down slots i n) (n - 1)"
  using inv_item.keys_remove(1) [of i n slots] set_memmove_down [of i n slots]
  by (auto simp: inv_wf_def)

lemma stack_minus:
  fixes a :: u8 and amt :: u32
  assumes "unat amt < unat a"
  shows "unat (ucast (ucast a - amt) :: u8) + unat amt = unat a"
proof -
  have "amt \<le> ucast a" using assms by (simp add: word_le_nat_alt unat_ucast_u8)
  then have "unat (ucast a - amt :: u32) = unat a - unat amt"
    by (simp add: unat_sub unat_ucast_u8)
  moreover have "unat a < 256" by (rule unat_u8_less)
  ultimately show ?thesis
    using assms by (simp add: unsigned_ucast_eq take_bit_nat_eq_self)
qed

lemma find_id:
  assumes "inv_wf slots n" "x \<in> set (take n slots)"
  shows "find_slot (\<lambda>y. item_id y = item_id x) slots n < n \<and>
     slots ! find_slot (\<lambda>y. item_id y = item_id x) slots n = x"
proof -
  let ?i = "find_slot (\<lambda>y. item_id y = item_id x) slots n"
  have n: "n \<le> length slots" using assms(1) by (simp add: inv_wf_def)
  have "?i \<noteq> n" using find_slot_none [OF n, of "\<lambda>y. item_id y = item_id x"] assms(2) by auto
  then have i: "?i < n" "item_id (slots ! ?i) = item_id x"
    using find_slot_found [OF n, of "\<lambda>y. item_id y = item_id x"] by auto
  obtain j where j: "j < n" "slots ! j = x"
    using assms(2) n by (auto simp: in_set_conv_nth)
  have "map item_id (take n slots) ! ?i = map item_id (take n slots) ! j" using i j n by simp
  then have "?i = j"
    using assms(1) i(1) j(1) n nth_eq_iff_index_eq [of "map item_id (take n slots)" ?i j]
    by (simp add: inv_wf_def)
  with i j show ?thesis by simp
qed

text \<open>Removing from an inventory.  An id that is not there is an error and changes nothing.
  For an item that is there, a part of a stack is taken when the amount is smaller than the stack,
  otherwise the item goes and the rest close up.  The inventory stays well formed, its ids lose at
  most the id of the item, every other item stays, and of every code exactly the pieces asked for
  leave.\<close>

lemma item_remove_from_inv_ok:
  fixes amt :: u32
  assumes "inv_wf slots n" "x \<in> set (take n slots)"
  defines "part \<equiv> item_is_stackable (data_l0 x) \<and> amt \<noteq> 0xFFFFFFFF \<and> unat amt < inv_item.units x"
  shows "\<exists>r slots' n'. item_remove_from_inv slots n (item_id x) amt = (r, slots') \<and>
     r = (if part then 0 else 1) \<and> n' = (if part then n else n - 1) \<and> inv_wf slots' n' \<and>
     inv_ids slots' n' = inv_ids slots n - (if part then {} else {item_id x}) \<and>
     (\<forall>y \<in> set (take n slots). y \<noteq> x \<longrightarrow> y \<in> set (take n' slots')) \<and>
     (\<forall>k. inv_item.total k (take n' slots') +
        (if k = data_l0 x then (if part then unat amt else inv_item.units x) else 0)
        = inv_item.total k (take n slots))"
proof -
  let ?i = "find_slot (\<lambda>y. item_id y = item_id x) slots n"
  have i: "?i < n" "slots ! ?i = x" using find_id [OF assms(1,2)] by auto
  have n: "n \<le> length slots" using assms(1) by (simp add: inv_wf_def)
  obtain a b where ab: "take n slots = a @ slots ! ?i # b"
      "take (n - 1) (memmove_down slots ?i n) = a @ b" "\<And>y. take n (slots[?i := y]) = a @ y # b"
    using slot_split [OF i(1) n] by blast
  have u: "amt < ucast (data_b x ! 5) \<longleftrightarrow> unat amt < unat (data_b x ! 5)"
    by (simp add: word_less_nat_alt unat_ucast_u8)
  show ?thesis
  proof (cases part)
    case True
    let ?v = "ucast (ucast (data_b x ! 5) - amt) :: u8"
    have p: "item_is_stackable (data_l0 x)" "amt \<noteq> 0xFFFFFFFF" "unat amt < unat (data_b x ! 5)"
      using True by (auto simp: part_def inv_item.units_def)
    have v: "unat ?v + unat amt = unat (data_b x ! 5)"
      using p(3) by (simp add: stack_minus)
    have x: "length (data_b x) = 12" using assms(1,2) by (auto simp: inv_wf_def dest: in_set_takeD)
    have "inv_item.units (set_stack x ?v) = unat ?v"
      using p(1) x inv_item.code_put [of x] inv_item.stack_put [of x ?v] by (simp add: inv_item.units_def)
    then have "inv_item.pieces k (set_stack x ?v) + (if k = data_l0 x then unat amt else 0)
        = inv_item.pieces k x" for k
      using v p(1) inv_item.code_put [of x ?v]
      by (cases "k = data_l0 x") (simp_all add: inv_item.pieces_def inv_item.units_def)
    then have "inv_item.total k (take n (slots[?i := set_stack x ?v])) + (if k = data_l0 x then unat amt else 0)
        = inv_item.total k (take n slots)" for k
      using inv_item.total_update [OF i(1) n, of k "set_stack x ?v"] i(2) by (smt (verit) add.commute add.left_commute add_right_cancel)
    moreover have "item_remove_from_inv slots n (item_id x) amt = (0, slots[?i := set_stack x ?v])"
      using i p u by (simp add: item_remove_from_inv_def Let_def)
    moreover have "inv_ids (slots[?i := set_stack x ?v]) n = inv_ids slots n"
      using inv_item.keys_update [OF i(1) n, of ?v] i(2) unfolding inv_ids_def by metis
    ultimately show ?thesis
      using True inv_wf_set_stack [OF assms(1) i(1), of ?v] i(2) ab by auto
  next
    case False
    then have "item_remove_from_inv slots n (item_id x) amt = (1, memmove_down slots ?i n)"
      using i u by (auto simp: item_remove_from_inv_def Let_def part_def inv_item.units_def)
    moreover have "inv_ids (memmove_down slots ?i n) (n - 1) = inv_ids slots n - {item_id x}"
      using inv_item.keys_remove(2) [OF i(1) n] i(2) assms(1) by (simp add: inv_ids_def inv_wf_def)
    moreover have "inv_item.total k (take (n - 1) (memmove_down slots ?i n)) +
        (if k = data_l0 x then inv_item.units x else 0) = inv_item.total k (take n slots)" for k
      using inv_item.total_remove [OF i(1) n, of k] i(2) by (auto simp: inv_item.pieces_def)
    ultimately show ?thesis
      using False inv_wf_remove [OF assms(1) i(1)] i(2) ab by auto
  qed
qed

text \<open>A stack of five Monomates, for the witnesses.\<close>

definition monomates :: item_t where
  "monomates = \<lparr>equipped = 1, tech = 0, item_flags = 0, data_b = [3, 0, 0, 0, 0, 5, 0, 0, 0, 0, 0, 0],
     item_id = 0x10000, data2_b = [0, 0, 0, 0]\<rparr>"

lemma monomates_facts: "inv_wf (replicate 30 monomates) 1" "data_l0 monomates = 3" "item_is_stackable 3"
  "data_b monomates ! 5 = 5" "length (data_b monomates) = 12" "item_id monomates = 0x10000"
  by (simp_all add: inv_wf_def monomates_def data_l0_def get_le32_def le32_of_def item_is_stackable_def)

lemma item_remove_from_inv_ok_example:
  "\<exists>slots'. item_remove_from_inv (replicate 30 monomates) 1 0x10000 2 = (0, slots') \<and>
     inv_item.total 3 (take 1 slots') = 3"
  using item_remove_from_inv_ok [of "replicate 30 monomates" 1 monomates 2] monomates_facts
  by (auto simp: inv_item.units_def inv_item.pieces_def dest: spec [of _ 3])

text \<open>Adding to an inventory.  A full inventory or an id that is already there is an error and
  changes nothing.  Otherwise the item joins a stack of its code, if it is stackable and there is
  one, or takes the next slot; the inventory stays well formed and within its 30 slots, keeps its
  ids, and of every code has exactly the pieces of the item more, as long as the stack stays below
  256.\<close>

lemma item_add_to_inv_ok:
  assumes "inv_wf slots n" "length (data_b it) = 12"
    "\<forall>x \<in> set (take n slots). data_l0 x = data_l0 it \<longrightarrow> unat (data_b x ! 5) + unat (data_b it ! 5) < 256"
  shows "if n = 30 \<or> item_id it \<in> inv_ids slots n then item_add_to_inv slots n it = (-1, slots)
     else \<exists>r slots' n'. item_add_to_inv slots n it = (r, slots') \<and> r = int n' - int n \<and> inv_wf slots' n' \<and>
       inv_ids slots' n' = inv_ids slots n \<union> (if n' = n then {} else {item_id it}) \<and>
       (\<forall>k. inv_item.total k (take n' slots') = inv_item.total k (take n slots) + inv_item.pieces k it)"
proof -
  have n: "n \<le> length slots" "length slots = 30" using assms(1) by (auto simp: inv_wf_def)
  note id = find_slot_none [OF n(1), of "\<lambda>x. item_id x = item_id it"]
  let ?i = "find_slot (\<lambda>x. data_l0 x = data_l0 it) slots n"
  show ?thesis
  proof (cases "n = 30 \<or> item_id it \<in> inv_ids slots n")
    case True
    then show ?thesis using id by (auto simp: item_add_to_inv_def inv_ids_def Let_def)
  next
    case fresh: False
    then have "\<forall>x \<in> set (take n slots). item_id x \<noteq> item_id it"
      unfolding inv_ids_def set_map by (metis image_eqI)
    then have new: "n < 30" "find_slot (\<lambda>x. item_id x = item_id it) slots n = n"
      using id fresh assms(1) by (auto simp: inv_wf_def)
    show ?thesis
    proof (cases "item_is_stackable (data_l0 it) \<and> ?i \<noteq> n")
      case True
      then have i: "?i < n" "data_l0 (slots ! ?i) = data_l0 it" "item_is_stackable (data_l0 it)"
        using find_slot_found [OF n(1), of "\<lambda>x. data_l0 x = data_l0 it"] by auto
      let ?x = "slots ! ?i"
      let ?v = "data_b ?x ! 5 + data_b it ! 5"
      have mem: "?x \<in> set (take n slots)" using i(1) n by (auto simp: in_set_conv_nth)
      then have "unat ?v = unat (data_b ?x ! 5) + unat (data_b it ! 5)"
        using assms(3) i(2) by (intro unat_plus_simple [THEN iffD1]) (simp add: no_olen_add_nat)
      moreover have "length (data_b ?x) = 12"
        using mem assms(1) by (auto simp: inv_wf_def dest: in_set_takeD)
      ultimately have "inv_item.pieces k (set_stack ?x ?v) = inv_item.pieces k ?x + inv_item.pieces k it" for k
        using i inv_item.code_put [of ?x ?v] inv_item.stack_put [of ?x ?v]
        by (cases "k = data_l0 it") (simp_all add: inv_item.pieces_def inv_item.units_def)
      then have "inv_item.total k (take n (slots[?i := set_stack ?x ?v]))
          = inv_item.total k (take n slots) + inv_item.pieces k it" for k
        using inv_item.total_update [OF i(1) n(1), of k "set_stack ?x ?v"] by simp
      moreover have "item_add_to_inv slots n it = (0, slots[?i := set_stack ?x ?v])"
        using new i True by (simp add: item_add_to_inv_def Let_def)
      moreover have "inv_ids (slots[?i := set_stack ?x ?v]) n = inv_ids slots n"
        using inv_item.keys_update [OF i(1) n(1), of ?v] unfolding inv_ids_def by metis
      ultimately show ?thesis using fresh inv_wf_set_stack [OF assms(1) i(1), of ?v] by auto
    next
      case False
      then have "item_add_to_inv slots n it = (1, slots[n := it])"
        using new by (auto simp: item_add_to_inv_def Let_def)
      moreover have t: "take (n + 1) (slots[n := it]) = take n slots @ [it]"
        using new n by (intro take_append_slot) simp
      moreover have "inv_wf (slots[n := it]) (n + 1)"
        using t assms(1,2) new fresh
        by (auto simp: inv_wf_def inv_ids_def dest!: set_update_subset_insert [THEN subsetD])
      moreover have "inv_ids (slots[n := it]) (n + 1) = inv_ids slots n \<union> {item_id it}"
        using t by (simp add: inv_ids_def)
      moreover have "inv_item.total k (take (n + 1) (slots[n := it]))
          = inv_item.total k (take n slots) + inv_item.pieces k it" for k
        unfolding t by simp
      ultimately have "item_add_to_inv slots n it = (1, slots[n := it]) \<and> 1 = int (n + 1) - int n \<and>
          inv_wf (slots[n := it]) (n + 1) \<and> inv_ids (slots[n := it]) (n + 1) =
            inv_ids slots n \<union> (if n + 1 = n then {} else {item_id it}) \<and>
          (\<forall>k. inv_item.total k (take (n + 1) (slots[n := it])) =
            inv_item.total k (take n slots) + inv_item.pieces k it)"
        by simp
      then show ?thesis using fresh by (metis (no_types, lifting))
    qed
  qed
qed

lemma item_add_to_inv_ok_example:
  "\<exists>r slots' n'. item_add_to_inv (replicate 30 monomates) 1 (monomates\<lparr>item_id := 7\<rparr>) = (r, slots') \<and>
     inv_wf slots' n' \<and> inv_item.total 3 (take n' slots') = 10"
proof -
  have "data_l0 (monomates\<lparr>item_id := 7\<rparr>) = 3" using monomates_facts(2) by (simp add: data_l0_def)
  then have "inv_item.pieces 3 (monomates\<lparr>item_id := 7\<rparr>) = 5" "inv_item.pieces 3 monomates = 5"
    using monomates_facts by (simp_all add: inv_item.pieces_def inv_item.units_def)
  then show ?thesis
    using item_add_to_inv_ok [of "replicate 30 monomates" 1 "monomates\<lparr>item_id := 7\<rparr>"] monomates_facts
    by (fastforce simp: inv_ids_def)
qed

subsection \<open>The bank\<close>

definition bank_list :: "bank_t \<Rightarrow> bitem_t list" where
  "bank_list bank = take (unat (bank_count bank)) (bank_items bank)"

definition bank_wf :: "bank_t \<Rightarrow> bool" where
  "bank_wf bank \<longleftrightarrow> length (bank_items bank) = 200 \<and> unat (bank_count bank) \<le> 200 \<and>
     distinct (map bitem_id (bank_list bank)) \<and> (\<forall>x \<in> set (bank_items bank). length (bdata_b x) = 12)"

lemma bank_wf_put:
  assumes "bank_wf bank" "i < unat (bank_count bank)"
  shows "bank_wf (bank\<lparr>bank_items := (bank_items bank)[i := set_bstack (bank_items bank ! i) v]\<rparr>)"
  using assms bank_item.keys_update [of i "unat (bank_count bank)" "bank_items bank" v]
    bank_item.ok_update [of "bank_items bank" i _ v]
  by (auto simp: bank_wf_def bank_list_def)

lemma bank_wf_remove:
  assumes "bank_wf bank" "i < unat (bank_count bank)"
  defines "bank' \<equiv> bank\<lparr>bank_items := memmove_down (bank_items bank) i (unat (bank_count bank)),
      bank_count := bank_count bank - 1\<rparr>"
  shows "bank_wf bank'" "bank_list bank'
      = take (unat (bank_count bank) - 1) (memmove_down (bank_items bank) i (unat (bank_count bank)))"
proof -
  have "unat (bank_count bank - 1) = unat (bank_count bank) - 1"
    using assms(2) by (intro unat_minus_one) auto
  then show l: "bank_list bank'
      = take (unat (bank_count bank) - 1) (memmove_down (bank_items bank) i (unat (bank_count bank)))"
    by (simp add: bank_list_def bank'_def)
  show "bank_wf bank'"
    unfolding bank_wf_def l using assms \<open>unat (bank_count bank - 1) = _\<close>
      bank_item.keys_remove(1) [of i "unat (bank_count bank)" "bank_items bank"]
      set_memmove_down [of i "unat (bank_count bank)" "bank_items bank"]
    by (auto simp: bank_wf_def bank_list_def bank'_def)
qed

text \<open>Taking from the bank conserves the pieces.  When it succeeds, the item that is handed out
  has the id asked for, and of every code the pieces in the bank before are those in the bank after
  and those handed out; when it fails, the bank is unchanged.  The bank stays well formed.\<close>

lemma item_take_from_bank_conserves:
  assumes "bank_wf bank" "item_take_from_bank bank iid amt = (r, bank', rv)"
  shows "bank_wf bank' \<and> (r = -1 \<and> bank' = bank \<or>
     (r = 0 \<or> r = 1) \<and> (\<exists>it. rv = Some it \<and> bitem_id it = iid \<and>
       (\<forall>k. bank_item.total k (bank_list bank)
          = bank_item.total k (bank_list bank') + bank_item.pieces k it)))"
proof -
  let ?n = "unat (bank_count bank)" and ?i = "find_slot (\<lambda>x. bitem_id x = iid) (bank_items bank) (unat (bank_count bank))"
  let ?it = "bank_items bank ! ?i"
  have n: "?n \<le> length (bank_items bank)" using assms(1) by (simp add: bank_wf_def)
  show ?thesis
  proof (cases "?i = ?n")
    case True
    then show ?thesis using assms by (simp add: item_take_from_bank_def Let_def)
  next
    case False
    then have i: "?i < ?n" "bitem_id ?it = iid"
      using find_slot_found [OF n, of "\<lambda>x. bitem_id x = iid"] by auto
    have ok: "length (bdata_b ?it) = 12" using assms(1) i(1) n by (simp add: bank_wf_def)
    consider (part) "item_is_stackable (bdata_l0 ?it)" "amt < bdata_b ?it ! 5"
      | (many) "item_is_stackable (bdata_l0 ?it)" "amt > bdata_b ?it ! 5"
      | (all) "\<not> (item_is_stackable (bdata_l0 ?it) \<and> amt \<noteq> bdata_b ?it ! 5)"
      by (meson linorder_neqE)
    then show ?thesis
    proof cases
      case part
      let ?v = "bdata_b ?it ! 5 - amt"
      let ?b = "bank\<lparr>bank_items := (bank_items bank)[?i := set_bstack ?it ?v]\<rparr>"
      have r: "r = 0" "bank' = ?b" "rv = Some (set_bstack ?it amt)"
        using assms(2) part i False by (auto simp: item_take_from_bank_def Let_def)
      have "unat ?v + unat amt = unat (bdata_b ?it ! 5)"
        using part(2) by (simp add: unat_sub word_less_nat_alt order_less_imp_le)
      then have "bank_item.pieces k ?it = bank_item.pieces k (set_bstack ?it ?v) +
          bank_item.pieces k (set_bstack ?it amt)" for k
        using part(1) ok bank_item.code_put bank_item.stack_put
        by (cases "k = bdata_l0 ?it") (simp_all add: bank_item.pieces_def bank_item.units_def)
      then have "bank_item.total k (bank_list bank) = bank_item.total k (bank_list ?b) +
          bank_item.pieces k (set_bstack ?it amt)" for k
        using bank_item.total_update [OF i(1) n, of k "set_bstack ?it ?v"] by (simp add: bank_list_def)
      moreover have "bank_wf ?b" using bank_wf_put [OF assms(1) i(1)] by simp
      ultimately show ?thesis using r i(2) bank_item.key_put [of ?it amt] by simp
    next
      case many
      then have "\<not> amt < bdata_b ?it ! 5" by simp
      then show ?thesis using many assms False by (simp add: item_take_from_bank_def Let_def)
    next
      case all
      let ?b = "bank\<lparr>bank_items := memmove_down (bank_items bank) ?i ?n, bank_count := bank_count bank - 1\<rparr>"
      have r: "r = 1" "bank' = ?b" "rv = Some ?it"
        using assms(2) all i False by (auto simp: item_take_from_bank_def Let_def split: if_splits)
      have "bank_item.total k (bank_list bank) = bank_item.total k (bank_list ?b) + bank_item.pieces k ?it" for k
        unfolding bank_wf_remove(2) [OF assms(1) i(1)]
        using bank_item.total_remove [OF i(1) n, of k] by (simp add: bank_list_def)
      then show ?thesis using r i(2) bank_wf_remove(1) [OF assms(1) i(1)] by simp
    qed
  qed
qed

definition banked :: bitem_t where
  "banked = \<lparr>bdata_b = [3, 0, 0, 0, 0, 5, 0, 0, 0, 0, 0, 0], bitem_id = 9, bdata2_b = [0, 0, 0, 0],
     bamount = 5, bflags = 1\<rparr>"

definition bank1 :: bank_t where
  "bank1 = \<lparr>bank_count = 1, bank_meseta = 0, bank_items = replicate 200 banked\<rparr>"

lemma bank1_facts: "bank_wf bank1" "bank_list bank1 = [banked]" "bdata_l0 banked = 3"
  "item_is_stackable 3" "length (bdata_b banked) = 12" "bdata_b banked ! 5 = 5"
  by (simp_all add: bank_wf_def bank_list_def bank1_def banked_def bdata_l0_def get_le32_def le32_of_def
      item_is_stackable_def)

lemma item_take_from_bank_conserves_example:
  "\<exists>bank' it. item_take_from_bank bank1 9 2 = (0, bank', Some it) \<and> bitem_id it = 9 \<and>
     bank_item.pieces 3 banked = bank_item.total 3 (bank_list bank') + bank_item.pieces 3 it"
proof -
  let ?b = "bank1\<lparr>bank_items := (replicate 200 banked)[0 := set_bstack banked 3]\<rparr>"
  have "find_slot (\<lambda>x. bitem_id x = 9) (replicate 200 banked) (Suc 0) = 0"
    by (simp add: find_slot_def banked_def)
  then have "item_take_from_bank bank1 9 2 = (0, ?b, Some (set_bstack banked 2))"
    using bank1_facts(3-6) by (simp add: item_take_from_bank_def Let_def bank1_def)
  from item_take_from_bank_conserves [OF bank1_facts(1) this] this show ?thesis
    using bank1_facts(2) by auto
qed

text \<open>Depositing into the bank.  A full bank is an error and changes nothing.  Otherwise the bank
  has of every code exactly the pieces of the item more, as long as the stack stays below 256, and
  its slots stay within the 200 of the array.\<close>

lemma item_deposit_to_bank_ok:
  assumes "bank_wf bank" "length (bdata_b it) = 12" "bitem_id it \<notin> bitem_id ` set (bank_list bank)"
    "\<forall>x \<in> set (bank_list bank). bdata_l0 x = bdata_l0 it \<longrightarrow> unat (bdata_b x ! 5) + unat (bdata_b it ! 5) < 256"
  shows "if bank_count bank = 200 then item_deposit_to_bank bank it = (-1, bank)
     else \<exists>r bank'. item_deposit_to_bank bank it = (r, bank') \<and> bank_wf bank' \<and>
       r = int (length (bank_list bank')) - int (length (bank_list bank)) \<and>
       (\<forall>k. bank_item.total k (bank_list bank')
          = bank_item.total k (bank_list bank) + bank_item.pieces k it)"
proof -
  let ?n = "unat (bank_count bank)" and ?items = "bank_items bank"
  let ?i = "find_slot (\<lambda>x. bdata_l0 x = bdata_l0 it) ?items ?n"
  have n: "?n \<le> length ?items" "length ?items = 200" using assms(1) by (auto simp: bank_wf_def)
  have full: "?n = 200 \<longleftrightarrow> bank_count bank = 200" by (simp add: word_unat_eq_iff)
  show ?thesis
  proof (cases "bank_count bank = 200")
    case True
    then show ?thesis using full by (simp add: item_deposit_to_bank_def Let_def)
  next
    case False
    with full n have lt: "?n < 200" by simp
    show ?thesis
    proof (cases "item_is_stackable (bdata_l0 it) \<and> ?i \<noteq> ?n")
      case True
      then have i: "?i < ?n" "bdata_l0 (?items ! ?i) = bdata_l0 it" "item_is_stackable (bdata_l0 it)"
        using find_slot_found [OF n(1), of "\<lambda>x. bdata_l0 x = bdata_l0 it"] by auto
      let ?x = "?items ! ?i" and ?v = "bdata_b (?items ! ?i) ! 5 + bdata_b it ! 5"
      let ?b = "bank\<lparr>bank_items := ?items[?i := set_bstack ?x ?v]\<rparr>"
      have mem: "?x \<in> set (bank_list bank)" using i(1) n by (auto simp: in_set_conv_nth bank_list_def)
      then have "unat ?v = unat (bdata_b ?x ! 5) + unat (bdata_b it ! 5)"
        using assms(4) i(2) by (intro unat_plus_simple [THEN iffD1]) (simp add: no_olen_add_nat)
      moreover have "length (bdata_b ?x) = 12"
        using mem assms(1) by (auto simp: bank_wf_def bank_list_def dest: in_set_takeD)
      ultimately have "bank_item.pieces k (set_bstack ?x ?v)
          = bank_item.pieces k ?x + bank_item.pieces k it" for k
        using i bank_item.code_put [of ?x ?v] bank_item.stack_put [of ?x ?v]
        by (cases "k = bdata_l0 it") (simp_all add: bank_item.pieces_def bank_item.units_def)
      then have "bank_item.total k (bank_list ?b) = bank_item.total k (bank_list bank) + bank_item.pieces k it" for k
        using bank_item.total_update [OF i(1) n(1), of k "set_bstack ?x ?v"] by (simp add: bank_list_def)
      moreover have "item_deposit_to_bank bank it = (0, ?b)"
        using lt i True by (simp add: item_deposit_to_bank_def Let_def)
      moreover have "length (bank_list ?b) = length (bank_list bank)" by (simp add: bank_list_def)
      ultimately show ?thesis using False bank_wf_put [OF assms(1) i(1), of ?v] by simp
    next
      case fresh: False
      let ?b = "bank\<lparr>bank_items := ?items[?n := it], bank_count := bank_count bank + 1\<rparr>"
      have c: "unat (bank_count bank + 1) = ?n + 1"
        using lt by (intro unat_plus_simple [THEN iffD1, THEN trans]) (simp_all add: no_olen_add_nat)
      have l: "bank_list ?b = bank_list bank @ [it]"
        unfolding bank_list_def using take_append_slot [of ?n ?items it] lt n c by simp
      have "item_deposit_to_bank bank it = (1, ?b)"
        using lt fresh by (auto simp: item_deposit_to_bank_def Let_def)
      moreover have "bank_wf ?b"
        unfolding bank_wf_def l using assms(1-3) lt c
        by (auto simp: bank_wf_def dest!: set_update_subset_insert [THEN subsetD])
      moreover have "length (bank_list ?b) = length (bank_list bank) + 1" unfolding l by simp
      moreover have "bank_item.total k (bank_list ?b) = bank_item.total k (bank_list bank) + bank_item.pieces k it" for k
        unfolding l by simp
      ultimately show ?thesis using False by simp
    qed
  qed
qed

lemma item_deposit_to_bank_ok_example:
  "\<exists>r bank'. item_deposit_to_bank bank1 (banked\<lparr>bitem_id := 8\<rparr>) = (r, bank') \<and>
     bank_item.total 3 (bank_list bank') = 10"
proof -
  have l0: "bdata_l0 (banked\<lparr>bitem_id := 8\<rparr>) = 3" using bank1_facts(3) by (simp add: bdata_l0_def)
  then have p: "bank_item.pieces 3 (banked\<lparr>bitem_id := 8\<rparr>) = 5" "bank_item.pieces 3 banked = 5"
    using bank1_facts by (simp_all add: bank_item.pieces_def bank_item.units_def)
  have "bank_count bank1 \<noteq> 200" "bitem_id banked = 9" by (simp_all add: bank1_def banked_def)
  then show ?thesis
    using item_deposit_to_bank_ok [of bank1 "banked\<lparr>bitem_id := 8\<rparr>"] bank1_facts p l0 by fastforce
qed

text \<open>Renumbering the bank gives its items consecutive ids, all different, keeps the items
  otherwise, and clears every slot after them.\<close>

theorem cleanup_bb_bank_ids:
  assumes "length (bank_items bank) = 200" "unat (bank_count bank) \<le> 200"
  shows "distinct (map bitem_id (bank_list (cleanup_bb_bank client_id bank))) \<and>
     map bdata_b (bank_list (cleanup_bb_bank client_id bank)) = map bdata_b (bank_list bank) \<and>
     drop (unat (bank_count bank)) (bank_items (cleanup_bb_bank client_id bank))
       = replicate (200 - unat (bank_count bank)) zero_bitem"
proof -
  let ?base = "0x80010000 OR push_bit 21 client_id" and ?n = "unat (bank_count bank)"
  have l: "bank_list (cleanup_bb_bank client_id bank)
      = map (\<lambda>i. (bank_items bank ! i)\<lparr>bitem_id := ?base + of_nat i\<rparr>) [0..<?n]"
    using assms by (auto simp: cleanup_bb_bank_def bank_list_def Let_def take_map intro!: nth_equalityI)
  have "inj_on (\<lambda>i. ?base + of_nat i) {0..<?n}"
    using assms(2) by (auto intro!: inj_onI simp: word_of_nat_eq_iff take_bit_nat_eq_self)
  then have "distinct (map bitem_id (bank_list (cleanup_bb_bank client_id bank)))"
    unfolding l by (simp add: distinct_map comp_def)
  moreover have "map bdata_b (bank_list (cleanup_bb_bank client_id bank)) = map bdata_b (bank_list bank)"
    unfolding l using assms by (auto simp: bank_list_def intro!: nth_equalityI)
  moreover have "drop ?n (bank_items (cleanup_bb_bank client_id bank)) = replicate (200 - ?n) zero_bitem"
    using assms by (auto simp: cleanup_bb_bank_def Let_def intro!: nth_equalityI)
  ultimately show ?thesis by simp
qed

theorem cleanup_bb_bank_ids_witness: "distinct (map bitem_id (bank_list (cleanup_bb_bank 2 bank1)))"
  using cleanup_bb_bank_ids [of bank1 2] by (simp add: bank1_def)

end
