(* ===== verification/Limits.thy ===== *)
theory Limits
  imports Items
begin

section \<open>Item legitimacy\<close>

text \<open>
  The checks of \<open>libsylverant/src/utils/items.c\<close> that decide whether an item may enter a game.  The
  limits read from the configuration file are four lists of records, one for each type of item; a
  bound of \<open>-1\<close> (\<open>INT_MIN\<close> for units) is no bound.  The guards share one list: an entry is cast to a
  frame, a barrier or a unit by the type of the item, so the model keeps the integers that follow
  the common part of the structure as a list, in their order.

  The mask of a weapon attribute is \<open>1 << tmp\<close>, an \<open>int\<close>; for \<open>tmp\<close> of 31 and more C leaves the
  value open, so it is the parameter \<open>shl1\<close>, which is \<open>2 ^ tmp\<close> below 31.
\<close>

type_synonym u64 = "64 word"

record limit_base =
  l_code :: u32
  l_versions :: u32
  auto_reject :: bool
  reject_max :: bool

record weapon_limits = limit_base +
  max_grind :: int
  min_grind :: int
  max_percents :: int
  min_percents :: int
  valid_attrs :: u64

record guard_limits = limit_base +
  g_ints :: "int list"

record mag_limits = limit_base +
  max_level :: int
  min_level :: int
  max_def :: int
  min_def :: int
  max_pow :: int
  min_pow :: int
  max_dex :: int
  min_dex :: int
  max_mind :: int
  min_mind :: int
  max_synchro :: int
  min_synchro :: int
  max_iq :: int
  min_iq :: int
  allowed_colors :: u16
  allowed_cpb :: u8
  allowed_rpb :: u8
  allowed_lpb :: u8

record tool_limits = limit_base +
  max_stack :: int
  min_stack :: int

record limits_t =
  weapons :: "weapon_limits list"
  guards :: "guard_limits list"
  mags :: "mag_limits list"
  tools :: "tool_limits list"
  default_behavior :: bool
  check_srank_names :: bool
  check_pbs :: bool

definition WEAPON_ATTR_MAX :: u8 where "WEAPON_ATTR_MAX = 0x28"
definition INT_MIN :: int where "INT_MIN = -(2 ^ 31)"

definition outside :: "int \<Rightarrow> int \<Rightarrow> int \<Rightarrow> bool" where
  "outside mx mn v \<longleftrightarrow> (mx \<noteq> -1 \<and> v > mx) \<or> (mn \<noteq> -1 \<and> v < mn)"

definition le16 :: "u8 \<Rightarrow> u8 \<Rightarrow> u16" where
  "le16 lo hi = ucast lo OR push_bit 8 (ucast hi)"

text \<open>The loop over a list: the first entry of the code that covers the versions decides.\<close>

definition find_limit :: "u32 \<Rightarrow> u32 \<Rightarrow> 'a limit_base_scheme list \<Rightarrow> 'a limit_base_scheme option" where
  "find_limit ic version xs = List.find (\<lambda>j. l_code j = ic \<and> l_versions j AND version = version) xs"

subsection \<open>Weapons\<close>

definition srank_name :: "u8 list \<Rightarrow> u8 list" where
  "srank_name d =
     [push_bit 3 (d ! 6 AND 0x03) OR drop_bit 5 (d ! 7 AND 0xE0),
      d ! 7 AND 0x1F,
      drop_bit 2 (d ! 8) AND 0x1F,
      push_bit 3 (d ! 8 AND 0x03) OR drop_bit 5 (d ! 9 AND 0xE0),
      d ! 9 AND 0x1F,
      drop_bit 2 (d ! 10) AND 0x1F,
      push_bit 3 (d ! 10 AND 0x03) OR drop_bit 5 (d ! 11 AND 0xE0),
      d ! 11 AND 0x1F]"

definition percents_outside :: "int \<Rightarrow> int \<Rightarrow> u8 list \<Rightarrow> bool" where
  "percents_outside mx mn d \<longleftrightarrow>
     mx \<noteq> -1 \<and> (d ! 6 \<noteq> 0 \<and> sint (d ! 7) > mx \<or> d ! 8 \<noteq> 0 \<and> sint (d ! 9) > mx \<or>
                 d ! 10 \<noteq> 0 \<and> sint (d ! 11) > mx) \<or>
     mn \<noteq> -1 \<and> (d ! 6 \<noteq> 0 \<and> sint (d ! 7) < mn \<or> d ! 8 \<noteq> 0 \<and> sint (d ! 9) < mn \<or>
                 d ! 10 \<noteq> 0 \<and> sint (d ! 11) < mn)"

definition check_weapon :: "(nat \<Rightarrow> u64) \<Rightarrow> limits_t \<Rightarrow> item_t \<Rightarrow> u32 \<Rightarrow> u32 \<Rightarrow> bool" where
  "check_weapon shl1 l i version ic =
     (let d = data_b i;
          is_special_weapon = (d ! 4 = 0x80);
          ic = (if d ! 5 \<noteq> 0 then push_bit 8 (ucast (d ! 5)) else ic);
          is_srank = (ic \<ge> 0x007000 \<and> ic \<le> 0x008800);
          is_named_srank = (is_srank \<and> d ! 6 \<ge> 0x0C)
      in if is_named_srank \<and> check_srank_names l \<and> list_ex (\<lambda>c. c > 26) (srank_name d) then False
         else if is_srank \<and> \<not> is_named_srank \<and> check_srank_names l then False
         else if \<not> is_named_srank \<and> d ! 6 \<noteq> 0 \<and> (d ! 6 = d ! 8 \<or> d ! 6 = d ! 10) then False
         else if \<not> is_named_srank \<and> d ! 8 \<noteq> 0 \<and> d ! 8 = d ! 10 then False
         else case find_limit ic version (weapons l) of
           None \<Rightarrow> default_behavior l
         | Some w \<Rightarrow>
             if auto_reject w then False
             else if outside (max_grind w) (min_grind w) (uint (d ! 3)) \<and> \<not> is_special_weapon then False
             else if \<not> is_named_srank \<and> percents_outside (max_percents w) (min_percents w) d then False
             else if \<not> is_named_srank \<and>
                (sint (d ! 7) mod 5 \<noteq> 0 \<or> sint (d ! 9) mod 5 \<noteq> 0 \<or> sint (d ! 11) mod 5 \<noteq> 0) then False
             else
               let tmp = d ! 4 AND 0x7F
               in if tmp > WEAPON_ATTR_MAX then False
                  else if valid_attrs w AND shl1 (unat tmp) = 0 then False
                  else True)"

subsection \<open>Guards\<close>

definition check_guard :: "limits_t \<Rightarrow> item_t \<Rightarrow> u32 \<Rightarrow> u32 \<Rightarrow> bool" where
  "check_guard l i version ic =
     (let d = data_b i;
          typ = drop_bit 8 ic AND 0x03;
          ic = (if typ \<noteq> 3 \<and> d ! 3 \<noteq> 0 then ic OR push_bit 16 (ucast (d ! 3)) else ic)
      in case find_limit ic version (guards l) of
           None \<Rightarrow> default_behavior l
         | Some j \<Rightarrow>
             if auto_reject j then False
             else
               let g = (\<lambda>k. g_ints j ! k);
                   dfp = uint (le16 (d ! 6) (d ! 7)); evp = uint (le16 (d ! 8) (d ! 9))
               in if typ = 1 then
                    if outside (g 0) (g 1) (uint (d ! 5)) then False
                    else if outside (g 2) (g 3) dfp then False
                    else if outside (g 4) (g 5) evp then False
                    else if reject_max j \<and> dfp = g 2 \<and> evp = g 4 then False
                    else True
                  else if typ = 2 then
                    if outside (g 0) (g 1) dfp then False
                    else if outside (g 2) (g 3) evp then False
                    else if reject_max j \<and> dfp = g 0 \<and> evp = g 2 then False
                    else True
                  else if typ = 3 then
                    let plus = sint (le16 (d ! 6) (d ! 7))
                    in if g 0 \<noteq> INT_MIN \<and> plus > g 0 \<or> g 1 \<noteq> INT_MIN \<and> plus < g 1 then False
                       else True
                  else True)"

subsection \<open>Mags\<close>

text \<open>The photon blast in the left slot is numbered among those the other two slots leave.\<close>

definition left_pb :: "nat \<Rightarrow> nat \<Rightarrow> nat \<Rightarrow> nat" where
  "left_pb cpb rpb lpb =
     (if cpb \<le> lpb \<and> rpb \<le> lpb then lpb + 2
      else if cpb \<le> lpb then (if rpb = lpb + 1 then lpb + 2 else lpb + 1)
      else if rpb \<le> lpb then (if cpb = lpb + 1 then lpb + 2 else lpb + 1)
      else lpb)"

definition mag_stat :: "u8 \<Rightarrow> u8 \<Rightarrow> int" where
  "mag_stat lo hi = uint (le16 lo hi AND 0x7FFE) div 100"

definition check_mag :: "limits_t \<Rightarrow> item_t \<Rightarrow> u32 \<Rightarrow> u32 \<Rightarrow> bool" where
  "check_mag l i version ic =
     (let d = data_b i; d2 = data2_b i;
          ic = (if d ! 1 = 0x00 \<and> d ! 2 \<ge> 0xC9
                then 0x02 OR push_bit 8 ((ucast (d ! 2) - 0xC9) + 0x2C)
                else 0x02 OR push_bit 8 (ucast (d ! 1)));
          cpb = unat (d ! 3 AND 0x07);
          rpb = unat (drop_bit 3 (d ! 3) AND 0x07);
          lpb = unat (drop_bit 6 (d ! 3) AND 0x03);
          hascpb = (d2 ! 3 AND 0x80 \<noteq> 0); hasrpb = (d ! 5 AND 0x80 \<noteq> 0); haslpb = (d ! 7 AND 0x80 \<noteq> 0)
      in if check_pbs l \<and> (cpb > 5 \<or> rpb > 5) then False
         else if check_pbs l \<and> hascpb \<and> hasrpb \<and> cpb = rpb then False
         else case find_limit ic version (mags l) of
           None \<Rightarrow> default_behavior l
         | Some m \<Rightarrow>
             if auto_reject m then False
             else
               let df = mag_stat (d ! 4) (d ! 5); pow = mag_stat (d ! 6) (d ! 7);
                   dex = mag_stat (d ! 8) (d ! 9); mind = mag_stat (d ! 10) (d ! 11);
                   level = df + pow + dex + mind;
                   iq = uint (le16 (d2 ! 0) (d2 ! 1));
                   synchro = uint (le16 (d2 ! 2) (d2 ! 3) AND 0x7FFF);
                   lpb = (if haslpb then left_pb cpb rpb lpb else lpb);
                   color = unat ((d ! 4 AND 0x01) OR push_bit 1 (d ! 6 AND 0x01) OR
                                 push_bit 2 (d ! 8 AND 0x01) OR push_bit 3 (d ! 10 AND 0x01))
               in if outside (max_def m) (min_def m) df then False
                  else if outside (max_pow m) (min_pow m) pow then False
                  else if outside (max_dex m) (min_dex m) dex then False
                  else if outside (max_mind m) (min_mind m) mind then False
                  else if outside (max_level m) (min_level m) level then False
                  else if outside (max_iq m) (min_iq m) iq then False
                  else if outside (max_synchro m) (min_synchro m) synchro then False
                  else if hascpb \<and> \<not> bit (allowed_cpb m) cpb then False
                  else if hasrpb \<and> \<not> bit (allowed_rpb m) rpb then False
                  else if haslpb \<and> \<not> bit (allowed_lpb m) lpb then False
                  else if \<not> bit (allowed_colors m) color then False
                  else True)"

subsection \<open>Tools and the dispatcher\<close>

definition check_tool :: "limits_t \<Rightarrow> item_t \<Rightarrow> u32 \<Rightarrow> u32 \<Rightarrow> bool" where
  "check_tool l i version ic =
     (let d = data_b i;
          ic = (if ic = 0x060D03 \<and> d ! 3 \<noteq> 0 then 0x000E03 OR push_bit 16 (ucast (d ! 3) - 1) else ic)
      in case find_limit ic version (tools l) of
           None \<Rightarrow> default_behavior l
         | Some t \<Rightarrow>
             if auto_reject t then False
             else if outside (max_stack t) (min_stack t) (uint (d ! 5)) then False
             else True)"

definition sylverant_limits_check_item :: "(nat \<Rightarrow> u64) \<Rightarrow> limits_t \<Rightarrow> item_t \<Rightarrow> u32 \<Rightarrow> bool" where
  "sylverant_limits_check_item shl1 l i version =
     (let item_code = item_code3 (data_b i); typ = item_code AND 0xFF
      in if typ = 0x00 then check_weapon shl1 l i version item_code
         else if typ = 0x01 then check_guard l i version item_code
         else if typ = 0x02 then check_mag l i version item_code
         else if typ = 0x03 then check_tool l i version item_code
         else if typ = 0x04 then True
         else False)"

end
