(* ===== verification/Legit.thy ===== *)
theory Legit
  imports Limits Item_Stores
begin

section \<open>What a legitimate item satisfies\<close>

text \<open>
  What the checks of \<open>Limits\<close> guarantee: the photon blasts of mags, the names of S-Rank weapons, and the
  percentages and attributes of weapons that pass.
\<close>

subsection \<open>Photon blasts\<close>

lemma left_pb_table:
  "\<forall>c \<in> set [0..<8]. \<forall>r \<in> set [0..<8]. \<forall>p \<in> set [0..<4]. c \<noteq> r \<longrightarrow>
     left_pb c r p = filter (\<lambda>x. x \<noteq> c \<and> x \<noteq> r) [0..<8] ! p"
  by code_simp

text \<open>The two bits of the left slot of a mag number the photon blasts that the center and the
  right slot leave: with two different ones there, \<open>left_pb\<close> is the blast at that place of the
  list without them.\<close>

theorem left_pb_among_free:
  assumes "cpb < 8" "rpb < 8" "cpb \<noteq> rpb" "lpb < 4"
  shows "left_pb cpb rpb lpb = filter (\<lambda>x. x \<noteq> cpb \<and> x \<noteq> rpb) [0..<8] ! lpb"
  using left_pb_table assms by simp

theorem left_pb_among_free_witness: "left_pb 1 3 2 = 4"
  using left_pb_among_free [of 1 3 2] by (simp add: upt_rec)

subsection \<open>Names of S-Rank weapons\<close>

text \<open>
  The name of an S-Rank weapon: three words of 16 bits, high byte first, with letters of five
  bits; the first word holds two, the others three.  The top bits of the first byte, \<open>mark\<close>, mark
  the weapon as named.
\<close>

definition srank_encode :: "u8 \<Rightarrow> u8 list \<Rightarrow> u8 list" where
  "srank_encode mark cs =
     [push_bit 2 mark OR drop_bit 3 (cs ! 0), push_bit 5 (cs ! 0) OR cs ! 1,
      push_bit 2 (cs ! 2) OR drop_bit 3 (cs ! 3), push_bit 5 (cs ! 3) OR cs ! 4,
      push_bit 2 (cs ! 5) OR drop_bit 3 (cs ! 6), push_bit 5 (cs ! 6) OR cs ! 7]"

lemma five_bits:
  fixes c :: u8
  assumes "c < 32" "bit c i"
  shows "i < 5"
proof -
  have "unat c < 2 ^ 5" using assms(1) by (simp add: word_less_nat_alt)
  then have "take_bit 5 (unat c) = unat c" by (rule take_bit_nat_eq_self)
  moreover have "bit (unat c) i" using assms(2) by (simp add: bit_unsigned_iff bit_imp_le_length)
  ultimately show ?thesis by (metis bit_take_bit_iff)
qed

lemma letter_fields:
  fixes a b t :: u8
  assumes "a < 32" "b < 32"
  shows "push_bit 3 ((push_bit 2 t OR drop_bit 3 a) AND 0x03) OR drop_bit 5 ((push_bit 5 a OR b) AND 0xE0) = a"
    and "(push_bit 5 a OR b) AND 0x1F = b"
    and "drop_bit 2 (push_bit 2 b OR drop_bit 3 a) AND 0x1F = b"
proof -
  have m: "(0x03 :: u8) = mask 2" "(0x1F :: u8) = mask 5" "(0xE0 :: u8) = push_bit 5 (mask 3)"
    by (simp_all add: mask_eq_exp_minus_1)
  note a = five_bits [OF assms(1)] and b = five_bits [OF assms(2)]
  show "push_bit 3 ((push_bit 2 t OR drop_bit 3 a) AND 0x03) OR drop_bit 5 ((push_bit 5 a OR b) AND 0xE0) = a"
    unfolding m by (rule bit_word_eqI) (auto simp: bit_simps dest: a b)
  show "(push_bit 5 a OR b) AND 0x1F = b"
    unfolding m by (rule bit_word_eqI) (auto simp: bit_simps dest: b)
  show "drop_bit 2 (push_bit 2 b OR drop_bit 3 a) AND 0x1F = b"
    unfolding m by (rule bit_word_eqI) (auto simp: bit_simps dest: a b)
qed

text \<open>The check of an S-Rank name looks at the letters of the name: what \<open>srank_name\<close> reads from
  an item with an encoded name of eight letters are those letters.\<close>

theorem srank_name_decodes:
  assumes "length cs = 8" "\<forall>c \<in> set cs. c < 32" "length d = 6"
  shows "srank_name (d @ srank_encode mark cs) = cs"
proof -
  obtain c0 c1 c2 c3 c4 c5 c6 c7 where cs: "cs = [c0, c1, c2, c3, c4, c5, c6, c7]"
    using assms(1) by (auto simp: eval_nat_numeral length_Suc_conv)
  then have lt: "c0 < 32" "c1 < 32" "c2 < 32" "c3 < 32" "c4 < 32" "c5 < 32" "c6 < 32" "c7 < 32"
    using assms(2) by auto
  have e: "(d @ srank_encode mark cs) ! 6 = push_bit 2 mark OR drop_bit 3 c0"
    "(d @ srank_encode mark cs) ! 7 = push_bit 5 c0 OR c1"
    "(d @ srank_encode mark cs) ! 8 = push_bit 2 c2 OR drop_bit 3 c3"
    "(d @ srank_encode mark cs) ! 9 = push_bit 5 c3 OR c4"
    "(d @ srank_encode mark cs) ! 10 = push_bit 2 c5 OR drop_bit 3 c6"
    "(d @ srank_encode mark cs) ! 11 = push_bit 5 c6 OR c7"
    using assms(3) by (simp_all add: srank_encode_def cs nth_append)
  show ?thesis
    by (simp only: srank_name_def e letter_fields lt) (simp only: cs)
qed

theorem srank_name_decodes_witness:
  "srank_name ([0, 0, 0x70, 0, 0, 0] @ srank_encode 3 [1, 2, 3, 26, 0, 5, 6, 7]) = [1, 2, 3, 26, 0, 5, 6, 7]"
  using srank_name_decodes [of "[1, 2, 3, 26, 0, 5, 6, 7]" "[0, 0, 0x70, 0, 0, 0]" 3] by simp

subsection \<open>Weapons\<close>

text \<open>
  What the limits demand of a weapon, said of the item: the entry \<open>w\<close> of the list is the one for
  the code of the weapon, its bounds hold, no attribute is given twice, and every percentage is a
  multiple of five; a named S-Rank has letters instead of percentages.
\<close>

definition weapon_code :: "item_t \<Rightarrow> u32" where
  "weapon_code i = (if data_b i ! 5 \<noteq> 0 then push_bit 8 (ucast (data_b i ! 5)) else item_code3 (data_b i))"

definition named_srank :: "item_t \<Rightarrow> bool" where
  "named_srank i \<longleftrightarrow> weapon_code i \<in> {0x007000..0x008800} \<and> data_b i ! 6 \<ge> 0x0C"

definition percents :: "item_t \<Rightarrow> (u8 \<times> int) list" where
  "percents i = (let d = data_b i in [(d ! 6, sint (d ! 7)), (d ! 8, sint (d ! 9)), (d ! 10, sint (d ! 11))])"

definition weapon_legit :: "limits_t \<Rightarrow> u32 \<Rightarrow> item_t \<Rightarrow> weapon_limits \<Rightarrow> bool" where
  "weapon_legit l version i w \<longleftrightarrow>
     w \<in> set (weapons l) \<and> l_code w = weapon_code i \<and> l_versions w AND version = version \<and> \<not> auto_reject w \<and>
     (data_b i ! 4 = 0x80 \<or> \<not> outside (max_grind w) (min_grind w) (uint (data_b i ! 3))) \<and>
     (if named_srank i then check_srank_names l \<longrightarrow> (\<forall>c \<in> set (srank_name (data_b i)). c \<le> 26)
      else distinct (filter (\<lambda>a. a \<noteq> 0) (map fst (percents i))) \<and>
        (\<forall>(a, p) \<in> set (percents i). p mod 5 = 0 \<and>
           (a \<noteq> 0 \<longrightarrow> \<not> outside (max_percents w) (min_percents w) p))) \<and>
     data_b i ! 4 AND 0x7F \<le> WEAPON_ATTR_MAX \<and>
     (unat (data_b i ! 4 AND 0x7F) < 31 \<longrightarrow> bit (valid_attrs w) (unat (data_b i ! 4 AND 0x7F)))"

text \<open>C36: With limits that reject what they do not list, a weapon that passes the check satisfies
  the demands of an entry of the list; the attribute is one the entry allows as far as the mask
  \<open>1 << tmp\<close> is defined in C.\<close>

theorem weapon_check_sound:
  assumes "sylverant_limits_check_item shl1 l i version" "data_b i ! 0 = 0"
    "\<not> default_behavior l" "\<forall>t < 31. shl1 t = 2 ^ t"
  shows "\<exists>w. weapon_legit l version i w"
proof -
  let ?d = "data_b i" and ?named = "named_srank i" and ?t = "data_b i ! 4 AND 0x7F"
  have "item_code3 ?d AND 0xFF = 0"
  proof -
    have m: "(0xFF :: u32) = mask 8" by (simp add: mask_eq_exp_minus_1)
    show ?thesis
      unfolding m by (rule bit_word_eqI) (use assms(2) in \<open>auto simp: item_code3_def bit_simps dest: bit_imp_le_length\<close>)
  qed
  then have chk: "check_weapon shl1 l i version (item_code3 ?d)"
    using assms(1) by (simp add: sylverant_limits_check_item_def Let_def)
  then obtain w where w: "find_limit (weapon_code i) version (weapons l) = Some w"
    using assms(3) by (auto simp: check_weapon_def weapon_code_def Let_def split: if_splits option.splits)
  then have mem: "w \<in> set (weapons l)" "l_code w = weapon_code i" "l_versions w AND version = version"
    by (auto simp: find_limit_def find_Some_iff in_set_conv_nth)
  have named: "?named \<longleftrightarrow> weapon_code i \<ge> 0x007000 \<and> weapon_code i \<le> 0x008800 \<and> ?d ! 6 \<ge> 0x0C"
    by (auto simp: named_srank_def)
  have c: "(?named \<and> check_srank_names l \<longrightarrow> \<not> list_ex (\<lambda>c. c > 26) (srank_name ?d)) \<and>
      (\<not> ?named \<longrightarrow> \<not> (?d ! 6 \<noteq> 0 \<and> (?d ! 6 = ?d ! 8 \<or> ?d ! 6 = ?d ! 10)) \<and>
         \<not> (?d ! 8 \<noteq> 0 \<and> ?d ! 8 = ?d ! 10) \<and> \<not> percents_outside (max_percents w) (min_percents w) ?d \<and>
         sint (?d ! 7) mod 5 = 0 \<and> sint (?d ! 9) mod 5 = 0 \<and> sint (?d ! 11) mod 5 = 0) \<and>
      \<not> auto_reject w \<and> \<not> (outside (max_grind w) (min_grind w) (uint (?d ! 3)) \<and> ?d ! 4 \<noteq> 0x80) \<and>
      ?t \<le> WEAPON_ATTR_MAX \<and> valid_attrs w AND shl1 (unat ?t) \<noteq> 0"
    using chk w unfolding check_weapon_def weapon_code_def [symmetric] Let_def named
    by (simp add: not_less split: if_splits) argo
  have "bit (valid_attrs w) (unat ?t)" if "unat ?t < 31"
  proof -
    have "valid_attrs w AND 2 ^ unat ?t \<noteq> 0" using c assms(4) that by simp
    then show ?thesis by (metis and_exp_eq_0_iff_not_bit)
  qed
  then show ?thesis
    using c mem
    by (intro exI [of _ w])
      (auto simp: weapon_legit_def percents_def Let_def percents_outside_def outside_def list_ex_iff not_less)
qed

definition sample_weapon :: weapon_limits where
  "sample_weapon = \<lparr>l_code = 0x000100, l_versions = 7, auto_reject = False, reject_max = False,
     max_grind = 35, min_grind = -1, max_percents = 50, min_percents = -1, valid_attrs = 0x3\<rparr>"

definition sample_limits :: limits_t where
  "sample_limits = \<lparr>weapons = [sample_weapon], guards = [], mags = [], tools = [],
     default_behavior = False, check_srank_names = False, check_pbs = False\<rparr>"

theorem weapon_check_sound_witness:
  "\<exists>w. weapon_legit sample_limits 1 (monomates\<lparr>data_b := [0, 1, 0, 10, 1, 0, 1, 20, 2, 15, 0, 0]\<rparr>) w"
proof -
  have "sylverant_limits_check_item (\<lambda>t. 2 ^ t) sample_limits
      (monomates\<lparr>data_b := [0, 1, 0, 10, 1, 0, 1, 20, 2, 15, 0, 0]\<rparr>) 1"
    by (simp add: sample_limits_def sample_weapon_def sylverant_limits_check_item_def check_weapon_def
        item_code3_def find_limit_def outside_def percents_outside_def WEAPON_ATTR_MAX_def Let_def)
  from weapon_check_sound [OF this] show ?thesis by (simp add: sample_limits_def)
qed

end
