(* ===== verification/MTwist.thy ===== *)
theory MTwist
  imports Prelude
begin

section \<open>The Mersenne Twister\<close>

text \<open>
  \<open>libsylverant/src/utils/mt19937ar.c\<close>: the generator with its state in a structure, which the
  blocks of the ship use.  The loops over the state array are folds over their indices.
\<close>

record mt19937_state =
  mti :: nat
  mt :: "u32 list"

definition MT_N :: nat where "MT_N = 624"
definition MT_M :: nat where "MT_M = 397"
definition MATRIX_A :: u32 where "MATRIX_A = 0x9908b0df"
definition UPPER_MASK :: u32 where "UPPER_MASK = 0x80000000"
definition LOWER_MASK :: u32 where "LOWER_MASK = 0x7fffffff"

definition init_step :: "nat \<Rightarrow> u32 list \<Rightarrow> u32 list" where
  "init_step i a = a[i := 1812433253 * (a ! (i - 1) XOR drop_bit 30 (a ! (i - 1))) + of_nat i]"

definition mt19937_init :: "mt19937_state \<Rightarrow> u32 \<Rightarrow> mt19937_state" where
  "mt19937_init rng s = \<lparr>mti = MT_N, mt = fold init_step [1..<MT_N] ((mt rng)[0 := s])\<rparr>"

text \<open>The two loops of \<open>mt19937_init_array\<close>, each with its wrap-around of the indices.\<close>

definition wrap_i :: "u32 list \<Rightarrow> nat \<Rightarrow> u32 list \<times> nat" where
  "wrap_i a i = (if i \<ge> MT_N then (a[0 := a ! (MT_N - 1)], 1) else (a, i))"

primrec array_loop1 :: "nat \<Rightarrow> u32 list \<Rightarrow> u32 list \<times> nat \<times> nat \<Rightarrow> u32 list \<times> nat \<times> nat" where
  "array_loop1 0 key st = st"
| "array_loop1 (Suc k) key st =
     (case st of (a, i, j) \<Rightarrow>
        let a = a[i := (a ! i XOR ((a ! (i - 1) XOR drop_bit 30 (a ! (i - 1))) * 1664525))
                        + key ! j + of_nat j];
            (a, i) = wrap_i a (i + 1);
            j = (if j + 1 \<ge> length key then 0 else j + 1)
        in array_loop1 k key (a, i, j))"

primrec array_loop2 :: "nat \<Rightarrow> u32 list \<times> nat \<Rightarrow> u32 list \<times> nat" where
  "array_loop2 0 st = st"
| "array_loop2 (Suc k) st =
     (case st of (a, i) \<Rightarrow>
        let a = a[i := (a ! i XOR ((a ! (i - 1) XOR drop_bit 30 (a ! (i - 1))) * 1566083941)) - of_nat i]
        in array_loop2 k (wrap_i a (i + 1)))"

definition mt19937_init_array :: "mt19937_state \<Rightarrow> u32 list \<Rightarrow> mt19937_state" where
  "mt19937_init_array rng key =
     (let rng = mt19937_init rng 19650218;
          (a, i, j) = array_loop1 (max MT_N (length key)) key (mt rng, 1, 0);
          (a, i) = array_loop2 (MT_N - 1) (a, i)
      in rng\<lparr>mt := a[0 := 0x80000000]\<rparr>)"

definition mag01 :: "u32 \<Rightarrow> u32" where
  "mag01 y = (if y AND 1 = 0 then 0 else MATRIX_A)"

definition twist_word :: "u32 \<Rightarrow> u32 \<Rightarrow> u32 \<Rightarrow> u32" where
  "twist_word hi lo far =
     (let y = (hi AND UPPER_MASK) OR (lo AND LOWER_MASK) in far XOR drop_bit 1 y XOR mag01 y)"

definition twist :: "u32 list \<Rightarrow> u32 list" where
  "twist a =
     (let a = fold (\<lambda>kk a. a[kk := twist_word (a ! kk) (a ! (kk + 1)) (a ! (kk + MT_M))]) [0..<MT_N - MT_M] a;
          a = fold (\<lambda>kk a. a[kk := twist_word (a ! kk) (a ! (kk + 1)) (a ! (kk - (MT_N - MT_M)))])
                [MT_N - MT_M..<MT_N - 1] a
      in a[MT_N - 1 := twist_word (a ! (MT_N - 1)) (a ! 0) (a ! (MT_M - 1))])"

definition temper :: "u32 \<Rightarrow> u32" where
  "temper y =
     (let y = y XOR drop_bit 11 y;
          y = y XOR (push_bit 7 y AND 0x9d2c5680);
          y = y XOR (push_bit 15 y AND 0xefc60000)
      in y XOR drop_bit 18 y)"

definition mt19937_genrand_int32 :: "mt19937_state \<Rightarrow> u32 \<times> mt19937_state" where
  "mt19937_genrand_int32 rng =
     (let rng = (if mti rng \<ge> MT_N then \<lparr>mti = 0, mt = twist (mt rng)\<rparr> else rng)
      in (temper (mt rng ! mti rng), rng\<lparr>mti := mti rng + 1\<rparr>))"

definition mt19937_genrand_int31 :: "mt19937_state \<Rightarrow> u32 \<times> mt19937_state" where
  "mt19937_genrand_int31 rng =
     (let (r, rng) = mt19937_genrand_int32 rng in (drop_bit 1 r, rng))"

subsection \<open>The recurrence\<close>

text \<open>
  The generator without its array: the sequence that continues the 624 words of a seed by the
  recurrence of MT19937.
\<close>

function mt_seq :: "u32 list \<Rightarrow> nat \<Rightarrow> u32" where
  "mt_seq a n =
     (if n < 624 then a ! n
      else twist_word (mt_seq a (n - 624)) (mt_seq a (n - 623)) (mt_seq a (n - 227)))"
  by pat_completeness auto
termination by (relation "measure snd") auto

declare mt_seq.simps [simp del]

lemma mt_seq_step: "mt_seq a (k + 624) = twist_word (mt_seq a k) (mt_seq a (k + 1)) (mt_seq a (k + 397))"
  by (subst mt_seq.simps) (simp add: algebra_simps)

text \<open>In the middle of a round the words before \<open>k\<close> are those of the next round.\<close>

definition mid_round :: "(nat \<Rightarrow> u32) \<Rightarrow> nat \<Rightarrow> u32 list \<Rightarrow> bool" where
  "mid_round X k a \<longleftrightarrow> length a = 624 \<and> (\<forall>i < 624. a ! i = (if i < k then X (i + 624) else X i))"

lemma mid_round_update:
  assumes "mid_round X k a" "k < 624" "w = X (k + 624)"
  shows "mid_round X (Suc k) (a[k := w])"
  using assms by (auto simp: mid_round_def nth_list_update less_Suc_eq)

lemma fold_mid_round:
  assumes "mid_round X m a" "m \<le> n" "n \<le> 624"
    "\<And>k a. m \<le> k \<Longrightarrow> k < n \<Longrightarrow> mid_round X k a \<Longrightarrow> w k a = X (k + 624)"
  shows "mid_round X n (fold (\<lambda>k a. a[k := w k a]) [m..<n] a)"
  using assms(2,1,3,4)
proof (induction n rule: dec_induct)
  case (step k)
  let ?a = "fold (\<lambda>k a. a[k := w k a]) [m..<k] a"
  have "mid_round X k ?a" using step by simp
  then show ?case using step mid_round_update [of X k ?a "w k ?a"] by simp
qed simp

lemma twist_round:
  assumes X: "\<And>k. X (k + 624) = twist_word (X k) (X (k + 1)) (X (k + 397))"
    and a: "mid_round X 0 a"
  shows "mid_round X 624 (twist a)"
proof -
  define a1 where "a1 = fold (\<lambda>kk a. a[kk := twist_word (a ! kk) (a ! (kk + 1)) (a ! (kk + MT_M))]) [0..<227] a"
  define a2 where "a2 = fold (\<lambda>kk a. a[kk := twist_word (a ! kk) (a ! (kk + 1)) (a ! (kk - 227))]) [227..<623] a1"
  have t: "twist a = a2[623 := twist_word (a2 ! 623) (a2 ! 0) (a2 ! 396)]"
  proof -
    have n: "MT_N - MT_M = 227" "MT_N - 1 = 623" "MT_M - 1 = 396" by (simp_all add: MT_N_def MT_M_def)
    show ?thesis unfolding twist_def Let_def n a1_def a2_def by (rule refl)
  qed
  have 1: "mid_round X 227 a1"
    unfolding a1_def
    by (rule fold_mid_round [OF a]) (auto simp: mid_round_def MT_M_def X)
  have 2: "mid_round X 623 a2"
    unfolding a2_def
  proof (rule fold_mid_round [OF 1])
    fix k b assume k: "227 \<le> k" "k < 623" and b: "mid_round X k b"
    have "b ! (k - 227) = X (k - 227 + 624)" using b k by (simp add: mid_round_def)
    moreover have "k - 227 + 624 = k + 397" using k by simp
    ultimately have "b ! (k - 227) = X (k + 397)" by simp
    then show "twist_word (b ! k) (b ! (k + 1)) (b ! (k - 227)) = X (k + 624)"
      using b k by (simp add: mid_round_def X)
  qed simp_all
  have "twist_word (a2 ! 623) (a2 ! 0) (a2 ! 396) = X (623 + 624)"
    using 2 X [of 623] by (simp add: mid_round_def)
  then show ?thesis unfolding t using mid_round_update [OF 2] by simp
qed

subsection \<open>The outputs\<close>

primrec outputs :: "nat \<Rightarrow> mt19937_state \<Rightarrow> u32 list" where
  "outputs 0 rng = []"
| "outputs (Suc n) rng = (let (r, rng) = mt19937_genrand_int32 rng in r # outputs n rng)"

definition mt_at :: "(nat \<Rightarrow> u32) \<Rightarrow> nat \<Rightarrow> mt19937_state \<Rightarrow> bool" where
  "mt_at x k rng \<longleftrightarrow> mti rng \<le> 624 \<and> length (mt rng) = 624 \<and> mti rng \<le> k \<and>
     (\<forall>i < 624. mt rng ! i = x (k - mti rng + i))"

lemma mt_at_next:
  assumes x: "\<And>k. x (k + 624) = twist_word (x k) (x (k + 1)) (x (k + 397))"
    and at: "mt_at x k rng"
  shows "fst (mt19937_genrand_int32 rng) = temper (x k) \<and> mt_at x (Suc k) (snd (mt19937_genrand_int32 rng))"
proof (cases "mti rng \<ge> MT_N")
  case False
  then show ?thesis using at by (auto simp: mt19937_genrand_int32_def mt_at_def MT_N_def Let_def Suc_diff_le)
next
  case True
  then have m: "mti rng = 624" using at by (simp add: mt_at_def MT_N_def)
  define X where "X = (\<lambda>i. x (k - 624 + i))"
  have "X (i + 624) = twist_word (X i) (X (i + 1)) (X (i + 397))" for i
    using x [of "k - 624 + i"] by (simp add: X_def add.assoc)
  moreover have "mid_round X 0 (mt rng)" using at m by (simp add: mid_round_def X_def mt_at_def)
  ultimately have t: "mid_round X 624 (twist (mt rng))" by (rule twist_round)
  have "X (i + 624) = x (k + i)" for i using at m by (simp add: X_def mt_at_def)
  then have "\<forall>i < 624. twist (mt rng) ! i = x (k + i)" "length (twist (mt rng)) = 624"
    using t by (auto simp: mid_round_def)
  then show ?thesis using True by (auto simp: mt19937_genrand_int32_def mt_at_def Let_def)
qed

lemma fold_init_length: "length (fold init_step is a) = length a"
  by (induction "is" arbitrary: a) (simp_all add: init_step_def)

text \<open>C39: After seeding, the numbers that the generator gives, call after call, are the tempered terms
  of the MT19937 recurrence that continues the seeded array, however many rounds of the array they
  take.\<close>

theorem mt19937_outputs:
  fixes seed :: u32
  assumes "length (mt rng) = MT_N"
  defines "a \<equiv> mt (mt19937_init rng seed)"
  shows "outputs n (mt19937_init rng seed) = map (\<lambda>k. temper (mt_seq a (624 + k))) [0..<n]"
proof -
  have step: "mt_at (mt_seq a) k r \<Longrightarrow>
      outputs n r = map (\<lambda>j. temper (mt_seq a (k + j))) [0..<n]" for k r
  proof (induction n arbitrary: k r)
    case (Suc n)
    obtain v r' where g: "mt19937_genrand_int32 r = (v, r')" by (cases "mt19937_genrand_int32 r")
    have "v = temper (mt_seq a k)" "mt_at (mt_seq a) (Suc k) r'"
      using mt_at_next [OF mt_seq_step Suc.prems] g by auto
    then show ?case
      using Suc.IH [of "Suc k" r'] g by (simp add: map_upt_Suc del: upt_Suc)
  qed simp
  have "mt_at (mt_seq a) 624 (mt19937_init rng seed)"
    using assms by (auto simp: mt_at_def mt19937_init_def MT_N_def fold_init_length mt_seq.simps)
  then show ?thesis by (rule step)
qed

theorem mt19937_outputs_witness:
  "fst (mt19937_genrand_int32 (mt19937_init \<lparr>mti = 0, mt = replicate 624 0\<rparr> 5489))
     = temper (mt_seq (mt (mt19937_init \<lparr>mti = 0, mt = replicate 624 0\<rparr> 5489)) 624)"
  using mt19937_outputs [of "\<lparr>mti = 0, mt = replicate 624 0\<rparr>" 1 5489]
  by (simp add: MT_N_def split: prod.splits)

end
