(* ===== verification/Checksum.thy ===== *)
theory Checksum
  imports Prelude
begin

section \<open>The CRC32 checksum\<close>

text \<open>
  \<open>libsylverant/src/utils/checksum.c\<close>: the bitwise CRC32, eight shift steps for each byte.
  The theorem compares it with the usual form that looks up one table entry for each byte.
\<close>

definition crc_shift :: "u32 \<Rightarrow> u32" where
  "crc_shift rv = (0xEDB88320 AND (- (rv AND 1))) XOR drop_bit 1 rv"

definition crc_byte :: "u32 \<Rightarrow> u8 \<Rightarrow> u32" where
  "crc_byte rv d = (crc_shift ^^ 8) (rv XOR ucast d)"

definition sylverant_crc32 :: "u8 list \<Rightarrow> u32" where
  "sylverant_crc32 data = NOT (fold (\<lambda>d rv. crc_byte rv d) data 0xFFFFFFFF)"

text \<open>The table form.\<close>

definition crc_table :: "u32 list" where
  "crc_table = map (\<lambda>i. (crc_shift ^^ 8) (of_nat i)) [0..<256]"

definition crc_table_byte :: "u32 \<Rightarrow> u8 \<Rightarrow> u32" where
  "crc_table_byte rv d = crc_table ! unat ((rv XOR ucast d) AND 0xFF) XOR drop_bit 8 rv"

lemma crc_shift_if: "crc_shift r = (if bit r 0 then 0xEDB88320 else 0) XOR drop_bit 1 r"
proof -
  have "r AND 1 = of_bool (bit r 0)" by (simp add: and_one_eq bit_0 odd_iff_mod_2_eq_one)
  then show ?thesis by (auto simp: crc_shift_def)
qed

lemma crc_shift_xor: "crc_shift (a XOR b) = crc_shift a XOR crc_shift b"
proof -
  have "drop_bit 1 (a XOR b) = drop_bit 1 a XOR drop_bit 1 b" by simp
  then show ?thesis
    unfolding crc_shift_if bit_xor_iff by (auto simp: xor.assoc xor.left_commute)
qed

lemma crc_steps_xor: "(crc_shift ^^ n) (a XOR b) = (crc_shift ^^ n) a XOR (crc_shift ^^ n) b"
  by (induction n) (simp_all add: crc_shift_xor)

lemma crc_steps_high: "take_bit n r = 0 \<Longrightarrow> (crc_shift ^^ n) r = drop_bit n r"
proof (induction n arbitrary: r)
  case (Suc n)
  then have b: "\<not> bit r i" if "i < Suc n" for i
    using that by (metis bit_0_eq bit_take_bit_iff bot_apply bot_bool_def)
  then have t: "take_bit n (drop_bit 1 r) = 0"
    by (intro bit_word_eqI) (auto simp: bit_simps)
  have "\<not> bit r 0" using b by simp
  then have "crc_shift r = drop_bit 1 r" by (simp add: crc_shift_if)
  then show ?case using Suc.IH [OF t] by (simp add: funpow_Suc_right del: funpow.simps)
qed simp

text \<open>C40: The checksum is the table-driven CRC32: folding one table lookup for each byte gives the
  same value, on every block of data.\<close>

theorem sylverant_crc32_table:
  "sylverant_crc32 data = NOT (fold (\<lambda>d rv. crc_table_byte rv d) data 0xFFFFFFFF)"
proof -
  have "crc_byte rv d = crc_table_byte rv d" for rv d
  proof -
    let ?x = "rv XOR ucast d" and ?lo = "(rv XOR ucast d) AND 0xFF"
    have m: "(0xFF :: u32) = mask 8" by (simp add: mask_eq_exp_minus_1)
    have split: "?x = ?lo XOR push_bit 8 (drop_bit 8 rv)"
      unfolding m by (rule bit_word_eqI) (auto simp: bit_simps dest: bit_imp_le_length)
    have "take_bit 8 (push_bit 8 (drop_bit 8 rv)) = 0"
      by (rule bit_word_eqI) (auto simp: bit_simps)
    then have "(crc_shift ^^ 8) (push_bit 8 (drop_bit 8 rv)) = drop_bit 8 (push_bit 8 (drop_bit 8 rv))"
      by (rule crc_steps_high)
    also have "\<dots> = drop_bit 8 rv"
      by (rule bit_word_eqI) (auto simp: bit_simps dest: bit_imp_le_length)
    finally have hi: "(crc_shift ^^ 8) (push_bit 8 (drop_bit 8 rv)) = drop_bit 8 rv" .
    have "?lo < 2 ^ 8" unfolding m by (rule and_mask_less_size) (simp add: word_size)
    then have "unat ?lo < 256" by (simp add: word_less_nat_alt)
    then have "crc_table ! unat ?lo = (crc_shift ^^ 8) ?lo" by (simp add: crc_table_def)
    then show ?thesis
      unfolding crc_byte_def crc_table_byte_def by (subst split) (simp add: crc_steps_xor hi)
  qed
  then show ?thesis by (simp add: sylverant_crc32_def)
qed

end
