(* ===== verification/Ship_State.thy ===== *)
theory Ship_State
  imports Items Limits MTwist
begin

section \<open>The state of a block: clients, lobbies, packets\<close>

text \<open>
  The structures of \<open>clients.h\<close>, \<open>lobby.h\<close> and \<open>block.h\<close> of the ship server, and the store they live
  in.  A pointer to a client or to a lobby is a reference (a number); the store maps every client
  reference to its structure and the references of the lobbies that have not been freed to theirs,
  so that two slots that point to the same client see the same structure.  Every lobby belongs to
  the one block that is modelled, so its list of lobbies, its count of games and its generator of
  random numbers are fields of the store.  What leaves the program (packets to clients, messages to
  the shipgate) is appended to a log, in order.  Floating point fields are only copied by the
  operations that are modelled; they are kept as their 32 bits.
\<close>

type_synonym cref = nat
type_synonym lref = nat

subsection \<open>Packets\<close>

text \<open>
  A packet is its header (type, length and flags) and the bytes after it.  A subcommand starts with its
  type, its size in words and, in most cases, the id of the client it is about.
\<close>

record packet =
  pkt_type :: u16
  pkt_len :: u16
  pkt_flags :: u32
  payload :: "u8 list"

definition sub_size :: "packet \<Rightarrow> u8" where "sub_size p = payload p ! 1"
definition sub_client :: "packet \<Rightarrow> u8" where "sub_client p = payload p ! 2"
definition sub_short :: "packet \<Rightarrow> nat \<Rightarrow> u16" where
  "sub_short p i = ucast (payload p ! i) OR push_bit 8 (ucast (payload p ! (i + 1)))"
definition sub_long :: "packet \<Rightarrow> nat \<Rightarrow> u32" where "sub_long p i = get_le32 (payload p) i"

definition GAME_COMMAND0_TYPE :: u16 where "GAME_COMMAND0_TYPE = 0x0060"
definition GAME_COMMAND2_TYPE :: u16 where "GAME_COMMAND2_TYPE = 0x0062"
definition GAME_COMMANDC_TYPE :: u16 where "GAME_COMMANDC_TYPE = 0x006C"
definition GAME_COMMANDD_TYPE :: u16 where "GAME_COMMANDD_TYPE = 0x006D"

record lobby_pkt =
  pkt_src :: cref
  pkt_pkt :: packet

subsection \<open>Clients\<close>

definition CLIENT_VERSION_DCV1 :: nat where "CLIENT_VERSION_DCV1 = 0"
definition CLIENT_VERSION_DCV2 :: nat where "CLIENT_VERSION_DCV2 = 1"
definition CLIENT_VERSION_PC :: nat where "CLIENT_VERSION_PC = 2"
definition CLIENT_VERSION_GC :: nat where "CLIENT_VERSION_GC = 3"
definition CLIENT_VERSION_EP3 :: nat where "CLIENT_VERSION_EP3 = 4"
definition CLIENT_VERSION_BB :: nat where "CLIENT_VERSION_BB = 5"

lemmas version_defs = CLIENT_VERSION_DCV1_def CLIENT_VERSION_DCV2_def CLIENT_VERSION_PC_def
  CLIENT_VERSION_GC_def CLIENT_VERSION_EP3_def CLIENT_VERSION_BB_def

definition CLIENT_FLAG_INVULNERABLE :: u32 where "CLIENT_FLAG_INVULNERABLE = 0x00000004"
definition CLIENT_FLAG_INFINITE_TP :: u32 where "CLIENT_FLAG_INFINITE_TP = 0x00000008"
definition CLIENT_FLAG_BURSTING :: u32 where "CLIENT_FLAG_BURSTING = 0x00000400"
definition CLIENT_FLAG_STFU :: u32 where "CLIENT_FLAG_STFU = 0x00000200"
definition CLIENT_FLAG_GC_PROTECT :: u32 where "CLIENT_FLAG_GC_PROTECT = 0x00008000"
definition CLIENT_FLAG_OVERRIDE_GAME :: u32 where "CLIENT_FLAG_OVERRIDE_GAME = 0x00000800"
definition CLIENT_FLAG_SERVER_DROPS :: u32 where "CLIENT_FLAG_SERVER_DROPS = 0x00004000"
definition CLIENT_FLAG_IS_DCNTE :: u32 where "CLIENT_FLAG_IS_DCNTE = 0x00010000"
definition CLIENT_FLAG_TRACK_INVENTORY :: u32 where "CLIENT_FLAG_TRACK_INVENTORY = 0x00020000"
definition CLIENT_FLAG_TRACK_KILLS :: u32 where "CLIENT_FLAG_TRACK_KILLS = 0x00040000"

definition DCPCClassMax :: u8 where "DCPCClassMax = 8"

record inventory =
  inv_count :: u8
  hpmats_used :: u8
  tpmats_used :: u8
  inv_language :: u8
  inv_items :: "item_t list"

text \<open>
  \<open>pl\<close> points to the player data as the client sent it; the inventory, the level, the class, the
  money and the statistics are at the same place of its union for every version.  The times of the
  challenge stages are not, so each version has its own.  \<open>bb_pl\<close> is the character of a Blue Burst
  client as it is saved: the fields that start
  with \<open>bb\<close> are parts of it, \<open>bb_loaded\<close> says whether it is there, \<open>card_text\<close> is the text of its
  guild card, and \<open>ch_name\<close> are the 52 bytes that start with the name.  \<open>has_pl\<close> says whether \<open>pl\<close> is
  there, \<open>pl_name\<close> is the name in it up to its end mark, and \<open>logging\<close> whether there is a log file.  The six statistics are in the order attack, mind, evasion, hit points, defence and
  accuracy, a position is \<open>w\<close>, \<open>x\<close>, \<open>y\<close> and \<open>z\<close>.
\<close>

record ship_client =
  version :: nat
  client_id :: nat
  lobby_id :: u32
  guildcard :: u32
  flags :: u32
  arrow :: u32
  cur_lobby :: "lref option"
  join_time :: int
  ignore_list :: "u32 list"
  last_info_req :: u32
  cur_area :: u32
  position :: "u32 list"
  next_item :: "u32 list"
  next_maps :: "u32 list option"
  enemy_kills :: "u32 list"
  c_items :: "item_t list"
  item_count :: nat
  drop_x :: u32
  drop_z :: u32
  drop_area :: u32
  drop_item :: u32
  drop_amt :: u32
  v2_times :: "u32 list"
  pc_times :: "u32 list"
  v3_times :: "u32 list"
  pl_inv :: inventory
  pl_stats :: "u16 list"
  pl_level :: u32
  pl_meseta :: u32
  ch_class :: u8
  bb_inv :: inventory
  bb_meseta :: u32
  bb_bank :: bank_t
  bb_loaded :: bool
  bb_stats :: "u16 list"
  bb_level :: u32
  bb_exp :: u32
  bb_class :: u8
  language_code :: u8
  ch_section :: u8
  ch_name :: "u8 list"
  card_text :: "u8 list"
  team_name :: "u8 list"
  privilege :: u8
  cc_char :: u8
  q_lang :: u8
  has_pl :: bool
  pl_name :: "u8 list"
  logging :: bool

subsection \<open>Lobbies\<close>

record game_enemy =
  bp_entry :: u32
  rt_index :: u8
  clients_hit :: u8
  last_client :: u8
  drop_done :: u8

record map_object =
  o_skin :: u32
  o_dword :: "u32 list"

record game_object =
  obj_flags :: u32
  obj_data :: map_object

text \<open>An entry of a list of a quest that says what a kind of monster, or one monster, drops.\<close>

record qenemy =
  q_key :: u32
  q_value :: u32

definition LOBBY_MAX_CLIENTS :: nat where "LOBBY_MAX_CLIENTS = 12"

definition LOBBY_TYPE_DEFAULT :: u32 where "LOBBY_TYPE_DEFAULT = 1"
definition LOBBY_TYPE_GAME :: u32 where "LOBBY_TYPE_GAME = 2"
definition LOBBY_TYPE_EP3_GAME :: u32 where "LOBBY_TYPE_EP3_GAME = 4"

lemmas type_defs = LOBBY_TYPE_DEFAULT_def LOBBY_TYPE_GAME_def LOBBY_TYPE_EP3_GAME_def

definition LOBBY_FLAG_BURSTING :: u32 where "LOBBY_FLAG_BURSTING = 0x00000001"
definition LOBBY_FLAG_QUESTING :: u32 where "LOBBY_FLAG_QUESTING = 0x00000002"
definition LOBBY_FLAG_QUESTSEL :: u32 where "LOBBY_FLAG_QUESTSEL = 0x00000004"
definition LOBBY_FLAG_TEMP_UNAVAIL :: u32 where "LOBBY_FLAG_TEMP_UNAVAIL = 0x00000008"
definition LOBBY_FLAG_LEGIT_MODE :: u32 where "LOBBY_FLAG_LEGIT_MODE = 0x00000010"
definition LOBBY_FLAG_LEGIT_CHECK :: u32 where "LOBBY_FLAG_LEGIT_CHECK = 0x00000020"
definition LOBBY_FLAG_DCONLY :: u32 where "LOBBY_FLAG_DCONLY = 0x00000040"
definition LOBBY_FLAG_PCONLY :: u32 where "LOBBY_FLAG_PCONLY = 0x00000080"
definition LOBBY_FLAG_V1ONLY :: u32 where "LOBBY_FLAG_V1ONLY = 0x00000100"
definition LOBBY_FLAG_GC_ALLOWED :: u32 where "LOBBY_FLAG_GC_ALLOWED = 0x00000200"
definition LOBBY_FLAG_SINGLEPLAYER :: u32 where "LOBBY_FLAG_SINGLEPLAYER = 0x00000400"
definition LOBBY_FLAG_EP3 :: u32 where "LOBBY_FLAG_EP3 = 0x00000800"
definition LOBBY_FLAG_SERVER_DROPS :: u32 where "LOBBY_FLAG_SERVER_DROPS = 0x00001000"
definition LOBBY_FLAG_DCNTE :: u32 where "LOBBY_FLAG_DCNTE = 0x00004000"

text \<open>The function pointer \<open>dropfunc\<close> takes one of these values.\<close>

datatype drop_function = No_drops | Pt_bb_drop | Pt_v2_drop | Pt_gc_drop | Td

record lobby =
  l_lobby_id :: u32
  l_type :: u32
  l_flags :: u32
  l_item_id :: u32
  max_clients :: nat
  num_clients :: int
  l_version :: nat
  leader_id :: u8
  difficulty :: u8
  battle :: u8
  challenge :: u8
  l_v2 :: u8
  l_section :: u8
  l_event :: u8
  episode :: u8
  max_chal :: u8
  legit_check_passed :: u8
  legit_check_done :: u8
  min_level :: u32
  max_level :: u32
  rand_seed :: u32
  l_name :: "u8 list"
  passwd :: "u8 list"
  l_maps :: "u32 list"
  highest_item :: "u32 list"
  slots :: "cref option list"
  pkt_queue :: "lobby_pkt list"
  item_queue :: "item_t list"
  create_time :: int
  dropfunc :: drop_function
  map_enemies :: "game_enemy list option"
  map_objs :: "game_object list option"
  qid :: u32
  mids :: "qenemy list option"
  mtypes :: "qenemy list option"
  bb_exps :: "u32 list"

text \<open>\<open>memset(l, 0, sizeof(lobby_t))\<close>.\<close>

definition zero_lobby :: lobby where
  "zero_lobby = \<lparr>l_lobby_id = 0, l_type = 0, l_flags = 0, l_item_id = 0, max_clients = 0, num_clients = 0,
     l_version = 0, leader_id = 0, difficulty = 0, battle = 0, challenge = 0, l_v2 = 0, l_section = 0,
     l_event = 0, episode = 0, max_chal = 0, legit_check_passed = 0, legit_check_done = 0, min_level = 0, max_level = 0,
     rand_seed = 0, l_name = replicate 65 0, passwd = replicate 65 0, l_maps = replicate 32 0,
     highest_item = replicate 4 0, slots = replicate LOBBY_MAX_CLIENTS None, pkt_queue = [],
     item_queue = [], create_time = 0, dropfunc = No_drops, map_enemies = None, map_objs = None,
     qid = 0, mids = None, mtypes = None, bb_exps = []\<rparr>"

subsection \<open>The store and the log\<close>

text \<open>
  What the commands of the chat ask other parts of the server for: packets with formatted text or
  of their own kind, messages to the shipgate (with the number of the player who asks), and files.
\<close>

record guildcard_ban =
  start_time :: int
  end_time :: int
  set_by :: u32
  banned_gc :: u32
  ban_reason :: "u8 list"

datatype arg = Str "u8 list" | Num int | Key string

datatype request =
    Txt cref string "arg list"
  | Box cref "arg list"
  | Simple cref u16 u32
  | Warp cref u8
  | Lobby_warp lref u8
  | Arrows lref
  | Motd cref
  | Gm_menu cref
  | Player_list cref "u8 list"
  | Process_pkt cref packet
  | Chat lref cref "u8 list"
  | Gate_cdata u32 u32 cref nat
  | Gate_creq u32 u32
  | Gate_gmlogin u32 nat "u8 list" "u8 list"
  | Gate_ban u32 u32 u32 "u8 list option"
  | Gate_kick u32 u32 "u8 list option"
  | Gate_friend_add u32 u32 "u8 list"
  | Gate_friend_del u32 u32
  | Gate_user_opt u32 nat u32 "u8 list"
  | Gate_frlist u32 nat u32
  | Gate_global_msg u32 "u8 list"
  | Gate_cbkup_req u32 nat "u8 list"
  | Load_quests
  | Load_gms
  | Save_bans "guildcard_ban list"

datatype event =
    Send_lobby_join cref lref
  | Send_game_join cref lref
  | Send_lobby_add_player lref cref
  | Send_lobby_leave lref cref nat
  | Send_pkt cref packet
  | Send_txt cref string
  | Send_message_box cref
  | Shipgate_lobby_chg u32 u32 "u8 list"
  | Shipgate_mkill u32 cref lref
  | Shipgate_cnt int
  | Ask request

record world =
  clients :: "cref \<Rightarrow> ship_client"
  lobbies :: "lref \<Rightarrow> lobby option"
  block_no :: nat
  block_lobbies :: "lref list"
  block_games :: int
  ship_games :: int
  now :: int
  rng :: mt19937_state
  sent :: "event list"

text \<open>
  What the operations ask their surroundings for: whether a packet could not be sent, the limits the
  administrator has configured, whether the data files of maps and drop tables were loaded, and
  the enemies those files give to a game (\<open>None\<close> when they cannot be set up), with its objects and the
  experience the enemies are worth; \<open>shl1\<close> is the value of \<open>1 << n\<close> (see \<open>Limits\<close>).
\<close>

record env =
  send_fails :: "event \<Rightarrow> bool"
  ship_limits :: "limits_t option"
  shl1 :: "nat \<Rightarrow> u64"
  v2_drop_data :: bool
  gc_drop_data :: bool
  v2_maps :: bool
  gc_maps :: bool
  game_enemies :: "lobby \<Rightarrow> game_enemy list option"
  game_objs :: "lobby \<Rightarrow> game_object list"
  enemy_exps :: "lobby \<Rightarrow> u32 list"

definition cl :: "world \<Rightarrow> cref \<Rightarrow> ship_client" where "cl w c = clients w c"
definition lob :: "world \<Rightarrow> lref \<Rightarrow> lobby" where "lob w l = the (lobbies w l)"

definition upd_client :: "cref \<Rightarrow> (ship_client \<Rightarrow> ship_client) \<Rightarrow> world \<Rightarrow> world" where
  "upd_client c f w = w\<lparr>clients := (clients w)(c := f (clients w c))\<rparr>"

definition upd_lobby :: "lref \<Rightarrow> (lobby \<Rightarrow> lobby) \<Rightarrow> world \<Rightarrow> world" where
  "upd_lobby l f w = w\<lparr>lobbies := (lobbies w)(l := map_option f (lobbies w l))\<rparr>"

definition emit :: "event \<Rightarrow> world \<Rightarrow> world" where
  "emit e w = w\<lparr>sent := sent w @ [e]\<rparr>"

definition set_rng :: "mt19937_state \<Rightarrow> world \<Rightarrow> world" where
  "set_rng r w = w\<lparr>rng := r\<rparr>"

definition next_random :: "world \<Rightarrow> u32 \<times> world" where
  "next_random w = (let (r, g) = mt19937_genrand_int32 (rng w) in (r, set_rng g w))"

definition has_flag :: "u32 \<Rightarrow> u32 \<Rightarrow> bool" where
  "has_flag fs f \<longleftrightarrow> fs AND f \<noteq> 0"

named_theorems store \<open>reading the store after an update\<close>

lemma cl_store [store, simp]:
  "cl (upd_client c f w) c' = (if c' = c then f (cl w c) else cl w c')"
  "cl (upd_lobby l g w) c' = cl w c'"
  "cl (emit e w) c' = cl w c'"
  "cl (set_rng r w) c' = cl w c'"
  by (simp_all add: cl_def upd_client_def upd_lobby_def emit_def set_rng_def)

lemma lobbies_store [store, simp]:
  "lobbies (upd_client c f w) = lobbies w"
  "lobbies (upd_lobby l g w) l' = (if l' = l then map_option g (lobbies w l) else lobbies w l')"
  "lobbies (emit e w) = lobbies w"
  "lobbies (set_rng r w) = lobbies w"
  by (simp_all add: upd_client_def upd_lobby_def emit_def set_rng_def)

lemma lob_store [store, simp]:
  "lob (upd_client c f w) l' = lob w l'"
  "lob (emit e w) l' = lob w l'"
  "lob (set_rng r w) l' = lob w l'"
  by (simp_all add: lob_def)

lemma lob_upd_lobby [store]:
  "lobbies w l \<noteq> None \<Longrightarrow> lob (upd_lobby l g w) l' = (if l' = l then g (lob w l) else lob w l')"
  by (auto simp: lob_def)

lemma world_store [store, simp]:
  "block_lobbies (upd_client c f w) = block_lobbies w" "block_lobbies (upd_lobby l g w) = block_lobbies w"
  "block_lobbies (emit e w) = block_lobbies w"
  "now (upd_client c f w) = now w" "now (upd_lobby l g w) = now w" "now (emit e w) = now w"
  "sent (upd_client c f w) = sent w" "sent (upd_lobby l g w) = sent w" "sent (emit e w) = sent w @ [e]"
  by (simp_all add: upd_client_def upd_lobby_def emit_def)

end
