(* ===== verification/Lobby.thy ===== *)
theory Lobby
  imports Ship_State Checksum
begin

section \<open>Lobbies\<close>

text \<open>
  \<open>ship_server/src/lobby.c\<close>: default lobbies and games, joining and leaving them, the choice of a
  leader, the legit check of the players, the queue of packets that wait for a joining player, and
  the items that lie on the floor of a Blue Burst game.  The operations take the store and return
  it with their result; \<open>time(NULL)\<close> is the field \<open>now\<close>.  An operation is one step of the store, so
  the locks have no state of their own; but the mutex of a lobby is not recursive, and where an
  operation takes one that its thread holds already the code has no defined outcome and the value is
  \<open>None\<close>.
\<close>

subsection \<open>Creating and destroying lobbies\<close>

definition block_get_lobby :: "world \<Rightarrow> u32 \<Rightarrow> lref option" where
  "block_get_lobby w lid = List.find (\<lambda>l. l_lobby_id (lob w l) = lid) (block_lobbies w)"

definition ship_inc_games :: "world \<Rightarrow> world" where
  "ship_inc_games w =
     (let w = w\<lparr>ship_games := ship_games w + 1\<rparr> in emit (Shipgate_cnt (ship_games w)) w)"

definition ship_dec_games :: "world \<Rightarrow> world" where
  "ship_dec_games w =
     (let w = w\<lparr>ship_games := ship_games w - 1\<rparr> in emit (Shipgate_cnt (ship_games w)) w)"

text \<open>The conversions \<open>%d\<close> and \<open>%02d\<close> of \<open>sprintf\<close>, and the names of the default lobbies.\<close>

fun decimal :: "nat \<Rightarrow> u8 list" where
  "decimal n = (if n < 10 then [of_nat (48 + n)] else decimal (n div 10) @ [of_nat (48 + n mod 10)])"

declare decimal.simps [simp del]

definition decimal2 :: "nat \<Rightarrow> u8 list" where
  "decimal2 n = (if n < 10 then 48 # decimal n else decimal n)"

definition default_name :: "nat \<Rightarrow> u32 \<Rightarrow> u8 list" where
  "default_name b lid =
     (let block = [0x42, 0x4C, 0x4F, 0x43, 0x4B] @ decimal2 b;
          s = (if lid \<le> 15 then block @ [0x2D] @ decimal2 (unat lid)
               else block @ [0x2D, 0x43] @ decimal (unat (lid - 15)))
      in s @ replicate (65 - length s) 0)"

definition lobby_create_default :: "lref option \<Rightarrow> u32 \<Rightarrow> u8 \<Rightarrow> world \<Rightarrow> lref option \<times> world" where
  "lobby_create_default mem lid ev w =
     (case mem of
        None \<Rightarrow> (None, w)
      | Some l \<Rightarrow>
          let L = zero_lobby\<lparr>l_lobby_id := lid, l_type := LOBBY_TYPE_DEFAULT,
                max_clients := LOBBY_MAX_CLIENTS, min_level := 0, max_level := 9001, l_event := ev\<rparr>;
              L = (if lid \<le> 15 then L else L\<lparr>l_flags := l_flags L OR LOBBY_FLAG_EP3\<rparr>);
              L = L\<lparr>l_name := default_name (block_no w) lid\<rparr>
          in (Some l, w\<lparr>lobbies := (lobbies w)(l := Some L)\<rparr>))"

definition lobby_setup_drops :: "env \<Rightarrow> ship_client \<Rightarrow> u32 \<Rightarrow> lobby \<Rightarrow> lobby" where
  "lobby_setup_drops e c rs L =
     (let on = (\<lambda>f. L\<lparr>dropfunc := f, l_flags := l_flags L OR LOBBY_FLAG_SERVER_DROPS\<rparr>)
      in if l_version L = CLIENT_VERSION_BB then on Pt_bb_drop
         else if rs = 0x9C350DD4 then on Td
         else if has_flag (flags c) CLIENT_FLAG_SERVER_DROPS then
           if version c \<in> {CLIENT_VERSION_DCV1, CLIENT_VERSION_DCV2, CLIENT_VERSION_PC} then
             if v2_drop_data e then on Pt_v2_drop else L
           else if version c = CLIENT_VERSION_GC then
             if gc_drop_data e then on Pt_gc_drop else L
           else L
         else L)"

definition maps :: "u32 list list" where
  "maps =
    [[1,1,1,5,1,5,3,2,3,2,3,2,3,2,3,2,3,2,3,2,3,2,1,1,1,1,1,1,1,1,1,1],
     [1,1,2,1,2,1,2,1,2,1,1,3,1,3,1,3,2,2,1,3,2,2,2,2,1,1,1,1,1,1,1,1],
     [1,1,1,3,1,3,1,3,1,3,1,3,3,1,1,3,3,1,1,1,1,1,1,1,1,1,1,1,1,1,1,1]]"

definition sp_maps :: "u32 list list" where
  "sp_maps =
    [[1,1,1,3,1,3,3,1,3,1,3,1,3,2,3,2,3,2,3,2,3,2,1,1,1,1,1,1,1,1,1,1],
     [1,1,2,1,2,1,2,1,2,1,1,3,1,3,1,3,2,2,1,3,2,1,2,1,1,1,1,1,1,1,1,1],
     [1,1,1,3,1,3,1,3,1,3,1,3,3,1,1,3,3,1,1,1,1,1,1,1,1,1,1,1,1,1,1,1]]"

text \<open>The loops that choose the maps: at random, or as the client asked where that is possible.\<close>

primrec random_maps :: "u32 list \<Rightarrow> mt19937_state \<Rightarrow> u32 list \<times> mt19937_state" where
  "random_maps [] g = ([], g)"
| "random_maps (m # ms) g =
     (let (x, g) = (if m \<noteq> 1 then (let (r, g) = mt19937_genrand_int32 g in (r mod m, g)) else (0, g));
          (xs, g) = random_maps ms g
      in (x # xs, g))"

primrec wanted_maps :: "u32 list \<Rightarrow> u32 list \<Rightarrow> mt19937_state \<Rightarrow> u32 list \<times> mt19937_state" where
  "wanted_maps [] ns g = ([], g)"
| "wanted_maps (m # ms) ns g =
     (let (x, g) = (if hd ns < m then (hd ns, g) else (let (r, g) = mt19937_genrand_int32 g in (r mod m, g)));
          (xs, g) = wanted_maps ms (tl ns) g
      in (x # xs, g))"

definition game_required_level :: "u32 list" where
  "game_required_level = [1, 20, 40, 80]"

definition strncpy :: "nat \<Rightarrow> u8 list \<Rightarrow> u8 list" where
  "strncpy n s = take n (takeWhile (\<lambda>b. b \<noteq> 0) s @ replicate n 0)"

text \<open>The loop that looks for an id no lobby of the block has; \<open>None\<close> when the fuel runs out.\<close>

primrec unused_id :: "nat \<Rightarrow> world \<Rightarrow> u32 \<Rightarrow> u32 option" where
  "unused_id 0 w lid = None"
| "unused_id (Suc n) w lid =
     (let lid = lid + 1 in if block_get_lobby w lid = None then Some lid else unused_id n w lid)"

definition insert_game :: "lref \<Rightarrow> world \<Rightarrow> world" where
  "insert_game l w =
     ship_inc_games (w\<lparr>block_lobbies := block_lobbies w @ [l], block_games := block_games w + 1\<rparr>)"

text \<open>The structure of a new game before its maps are chosen, and the choice of the maps.\<close>

definition new_game ::
  "u32 \<Rightarrow> u8 list \<Rightarrow> u8 list \<Rightarrow> u8 \<Rightarrow> u8 \<Rightarrow> u8 \<Rightarrow> u8 \<Rightarrow> nat \<Rightarrow> u8 \<Rightarrow> u8 \<Rightarrow> u8 \<Rightarrow> ship_client \<Rightarrow> bool \<Rightarrow> int \<Rightarrow> lobby"
where
  "new_game lid name pass diff batt chal v2 vers sect event epis c single_player t =
     (let L = zero_lobby\<lparr>l_lobby_id := lid, l_type := LOBBY_TYPE_GAME,
           max_clients := (if \<not> single_player then 4 else 1),
           l_item_id := (if vers = CLIENT_VERSION_BB then 0x00810000 else 0xF0000000),
           leader_id := 1, difficulty := diff, battle := batt, challenge := chal, l_v2 := v2,
           episode := epis,
           l_version := (if vers = CLIENT_VERSION_DCV2 \<and> v2 = 0 then CLIENT_VERSION_DCV1 else vers),
           l_section := sect, l_event := event,
           min_level := game_required_level ! unat diff, max_level := 200, max_chal := 0xFF,
           create_time := t\<rparr>;
         L = (if single_player then L\<lparr>l_flags := l_flags L OR LOBBY_FLAG_SINGLEPLAYER\<rparr> else L);
         L = (if has_flag (flags c) CLIENT_FLAG_IS_DCNTE
              then L\<lparr>l_flags := l_flags L OR LOBBY_FLAG_DCNTE\<rparr> else L)
     in L\<lparr>l_name := strncpy 64 name @ [0], passwd := strncpy 64 pass @ [0]\<rparr>)"

definition choose_maps :: "nat \<Rightarrow> u8 \<Rightarrow> bool \<Rightarrow> u32 list option \<Rightarrow> mt19937_state \<Rightarrow> u32 list \<times> mt19937_state" where
  "choose_maps vers epis single_player wanted g =
     (let epis = (if vers < CLIENT_VERSION_GC then 1 else epis);
          table = (if \<not> single_player then maps else sp_maps) ! (unat epis - 1)
      in case wanted of
           None \<Rightarrow> random_maps table g
         | Some ns \<Rightarrow> wanted_maps table ns g)"

definition setup_enemies :: "env \<Rightarrow> nat \<Rightarrow> u8 \<Rightarrow> u8 \<Rightarrow> lobby \<Rightarrow> lobby option" where
  "setup_enemies e vers batt chal L =
     (let load = map_option (\<lambda>en. L\<lparr>map_enemies := Some en, map_objs := Some (game_objs e L)\<rparr>) (game_enemies e L)
      in if vers = CLIENT_VERSION_BB then map_option (\<lambda>L'. L'\<lparr>bb_exps := enemy_exps e L\<rparr>) load
         else if vers \<le> CLIENT_VERSION_PC \<and> v2_maps e \<and> batt = 0 \<and> chal = 0 then load
         else if vers = CLIENT_VERSION_GC \<and> gc_maps e \<and> batt = 0 \<and> chal = 0 then load
         else Some L)"

text \<open>
  The difficulty and the episode index tables, the episode only from the Gamecube version on; neither
  is checked, and a game that would read outside a table is \<open>None\<close>.
\<close>

definition game_in_tables :: "nat \<Rightarrow> u8 \<Rightarrow> u8 \<Rightarrow> bool" where
  "game_in_tables vers diff epis \<longleftrightarrow> diff < 4 \<and> (vers < CLIENT_VERSION_GC \<or> epis \<in> {1, 2, 3})"

definition lobby_create_game ::
  "env \<Rightarrow> lref option \<Rightarrow> u8 list \<Rightarrow> u8 list \<Rightarrow> u8 \<Rightarrow> u8 \<Rightarrow> u8 \<Rightarrow> u8 \<Rightarrow> nat \<Rightarrow> u8 \<Rightarrow> u8 \<Rightarrow> u8 \<Rightarrow>
     cref \<Rightarrow> bool \<Rightarrow> world \<Rightarrow> (lref option \<times> world) option"
where
  "lobby_create_game e mem name pass diff batt chal v2 vers sect event epis c single_player w =
     (case mem of
        None \<Rightarrow> Some (None, w)
      | Some l \<Rightarrow>
     if \<not> game_in_tables vers diff epis then None else
     (case unused_id (length (block_lobbies w) + 1) w 0x20 of
        None \<Rightarrow> None
      | Some lid \<Rightarrow> Some (
     let L = new_game lid name pass diff batt chal v2 vers sect event epis (cl w c) single_player (now w);
         (ms, g) = choose_maps vers epis single_player (next_maps (cl w c)) (rng w);
         w = upd_client c (\<lambda>x. x\<lparr>next_maps := None\<rparr>) (set_rng g w);
         L = L\<lparr>l_maps := ms\<rparr>
     in case setup_enemies e vers batt chal L of
          None \<Rightarrow> (None, w)
        | Some L \<Rightarrow>
          let w = (if vers \<noteq> CLIENT_VERSION_PC \<or> batt \<noteq> 0 \<or> chal \<noteq> 0 \<or> diff = 3
                   then insert_game l w else w);
              (r, w) = next_random w;
              L = lobby_setup_drops e (cl w c) (sylverant_crc32 (take 16 (l_name L))) (L\<lparr>rand_seed := r\<rparr>)
          in (Some l, w\<lparr>lobbies := (lobbies w)(l := Some L)\<rparr>))))"

definition lobby_create_ep3_game ::
  "lref option \<Rightarrow> u8 list \<Rightarrow> u8 list \<Rightarrow> u8 \<Rightarrow> u8 \<Rightarrow> world \<Rightarrow> (lref option \<times> world) option"
where
  "lobby_create_ep3_game mem name pass view_battle sect w =
     (case mem of
        None \<Rightarrow> Some (None, w)
      | Some l \<Rightarrow>
     (case unused_id (length (block_lobbies w) + 1) w 0x20 of
        None \<Rightarrow> None
      | Some lid \<Rightarrow> Some (
     let (r, w) = next_random w;
         L = zero_lobby\<lparr>l_lobby_id := lid, l_type := LOBBY_TYPE_EP3_GAME, max_clients := 4,
           leader_id := 0, battle := view_battle, episode := 3, l_version := CLIENT_VERSION_EP3,
           l_section := sect, min_level := 1, max_level := 200, rand_seed := r, create_time := now w,
           l_flags := LOBBY_FLAG_EP3,
           l_name := strncpy 32 name @ replicate 33 0, passwd := strncpy 16 pass @ replicate 49 0\<rparr>
     in (Some l, insert_game l (w\<lparr>lobbies := (lobbies w)(l := Some L)\<rparr>)))))"

text \<open>
  A PC game is listed when its creator has chosen who may join (\<open>block.c\<close>, menu of the game type).
\<close>

definition choose_game_type :: "lref \<Rightarrow> u32 \<Rightarrow> world \<Rightarrow> world" where
  "choose_game_type l choice w =
     insert_game l (upd_lobby l (\<lambda>L. if choice = 0 then L\<lparr>l_v2 := 0, l_version := CLIENT_VERSION_DCV1\<rparr>
       else if choice = 2 then L\<lparr>l_flags := l_flags L OR LOBBY_FLAG_PCONLY\<rparr> else L) w)"

text \<open>Freeing a lobby frees its packets, its items and its enemies with it.\<close>

definition lobby_destroy_locked :: "lref \<Rightarrow> bool \<Rightarrow> world \<Rightarrow> world" where
  "lobby_destroy_locked l remove w =
     (let w = (if remove then
                 let w1 = w\<lparr>block_lobbies := remove1 l (block_lobbies w)\<rparr>
                 in if l_type (lob w l) \<noteq> LOBBY_TYPE_DEFAULT
                    then ship_dec_games (w1\<lparr>block_games := block_games w1 - 1\<rparr>) else w1
               else w)
      in w\<lparr>lobbies := (lobbies w)(l := None)\<rparr>)"

definition lobby_destroy :: "lref \<Rightarrow> world \<Rightarrow> world" where
  "lobby_destroy l w = lobby_destroy_locked l True w"

definition lobby_destroy_noremove :: "lref \<Rightarrow> world \<Rightarrow> world" where
  "lobby_destroy_noremove l w = lobby_destroy_locked l False w"

subsection \<open>Challenge levels\<close>

text \<open>
  The loops over the times of the nine challenge stages: the first stage that has no time yet.  A
  version without challenge mode has no times.
\<close>

definition rank_times :: "ship_client \<Rightarrow> u32 list option" where
  "rank_times c =
     (if version c = CLIENT_VERSION_DCV2 then Some (v2_times c)
      else if version c = CLIENT_VERSION_PC then Some (pc_times c)
      else if version c = CLIENT_VERSION_GC then Some (v3_times c)
      else None)"

definition stages_done :: "u32 list \<Rightarrow> nat" where
  "stages_done ts = length (takeWhile (\<lambda>t. t \<noteq> 0) (take 9 ts))"

primrec max_challenge_loop :: "world \<Rightarrow> cref option list \<Rightarrow> nat \<Rightarrow> nat option" where
  "max_challenge_loop w [] min_lev = Some min_lev"
| "max_challenge_loop w (x # xs) min_lev =
     (case x of
        None \<Rightarrow> max_challenge_loop w xs min_lev
      | Some c \<Rightarrow>
          (case rank_times (cl w c) of
             None \<Rightarrow> None
           | Some ts \<Rightarrow>
               let i = stages_done ts
               in max_challenge_loop w xs (if i < min_lev then i else min_lev)))"

definition lobby_find_max_challenge :: "world \<Rightarrow> lobby \<Rightarrow> u8" where
  "lobby_find_max_challenge w L =
     (if challenge L = 0 then 0
      else case max_challenge_loop w (take (max_clients L) (slots L)) 255 of
             None \<Rightarrow> -1
           | Some min_lev \<Rightarrow> of_nat (min_lev + 1))"

subsection \<open>Joining and leaving\<close>

text \<open>The block of assignments both branches of \<open>lobby_add_client_locked\<close> end with.\<close>

definition place_client :: "cref \<Rightarrow> lref \<Rightarrow> nat \<Rightarrow> u8 \<Rightarrow> world \<Rightarrow> world" where
  "place_client c l i clev w =
     upd_lobby l (\<lambda>L.
         let L = L\<lparr>slots := (slots L)[i := Some c], num_clients := num_clients L + 1\<rparr>;
             L = (if challenge L \<noteq> 0 \<and> max_chal L > clev then L\<lparr>max_chal := clev\<rparr> else L)
         in if num_clients L = 1 then L\<lparr>leader_id := of_nat i\<rparr> else L)
       (upd_client c (\<lambda>x. x\<lparr>cur_lobby := Some l, client_id := i, arrow := 0, join_time := now w\<rparr>) w)"

definition lobby_add_client_locked :: "cref \<Rightarrow> lref \<Rightarrow> world \<Rightarrow> int \<times> world" where
  "lobby_add_client_locked c l w =
     (let L = lob w l
      in if num_clients L \<ge> int (max_clients L) then (-1, w)
         else if challenge L \<noteq> 0 \<and> rank_times (cl w c) = None then (-1, w)
         else
           let clev = (if challenge L \<noteq> 0 then of_nat (stages_done (the (rank_times (cl w c)))) + 1
                       else max_chal L)
           in if slots L ! 1 = None \<and> l_version L < CLIENT_VERSION_GC \<and> l_type L = LOBBY_TYPE_GAME
              then (0, place_client c l 1 clev w)
              else case List.find (\<lambda>i. slots L ! i = None) [0..<max_clients L] of
                     None \<Rightarrow> (-1, w)
                   | Some i \<Rightarrow> (0, place_client c l i clev w))"

text \<open>The loop of the election: the client that joined first, among those \<open>ok\<close> accepts.\<close>

definition elect_step :: "world \<Rightarrow> (ship_client \<Rightarrow> bool) \<Rightarrow> lobby \<Rightarrow> nat \<Rightarrow> int \<times> int \<Rightarrow> int \<times> int" where
  "elect_step w ok L i st =
     (case st of (earliest_i, earliest) \<Rightarrow>
        if i = unat (leader_id L) then st
        else case slots L ! i of
               None \<Rightarrow> st
             | Some c \<Rightarrow>
                 if join_time (cl w c) < earliest \<and> ok (cl w c) then (int i, join_time (cl w c)) else st)"

definition elect_loop :: "world \<Rightarrow> (ship_client \<Rightarrow> bool) \<Rightarrow> lobby \<Rightarrow> int \<times> int \<Rightarrow> int \<times> int" where
  "elect_loop w ok L st = fold (elect_step w ok L) [0..<max_clients L] st"

definition lobby_elect_leader_locked :: "world \<Rightarrow> lobby \<Rightarrow> int" where
  "lobby_elect_leader_locked w L = fst (elect_loop w (\<lambda>_. True) L (-1, now w))"

definition lobby_elect_leader_cross_locked :: "world \<Rightarrow> lobby \<Rightarrow> int \<times> lobby" where
  "lobby_elect_leader_cross_locked w L =
     (let st = elect_loop w (\<lambda>c. version c < CLIENT_VERSION_GC) L (-1, now w)
      in if fst st = -1 then
           let L = L\<lparr>l_flags := l_flags L AND NOT LOBBY_FLAG_GC_ALLOWED, l_version := CLIENT_VERSION_GC,
                     episode := 1\<rparr>
           in (fst (elect_loop w (\<lambda>_. True) L st), L)
         else (fst st, L))"

definition new_leader :: "world \<Rightarrow> lobby \<Rightarrow> lobby" where
  "new_leader w L =
     (let (new, L) =
            (if l_version L < CLIENT_VERSION_GC \<and> has_flag (l_flags L) LOBBY_FLAG_GC_ALLOWED
             then lobby_elect_leader_cross_locked w L
             else (lobby_elect_leader_locked w L, L))
      in L\<lparr>leader_id := (if new = -1 then 0 else of_int new)\<rparr>)"

text \<open>What leaving does to the lobby, from the election to the challenge level.\<close>

definition after_leave :: "world \<Rightarrow> nat \<Rightarrow> lobby \<Rightarrow> lobby" where
  "after_leave w cid L =
     (let L = (if cid = unat (leader_id L) then new_leader w L else L);
          L = L\<lparr>slots := (slots L)[cid := None], num_clients := num_clients L - 1\<rparr>
      in if challenge L \<noteq> 0 then L\<lparr>max_chal := lobby_find_max_challenge w L\<rparr> else L)"

definition lobby_remove_client_locked :: "cref \<Rightarrow> nat \<Rightarrow> lref \<Rightarrow> world \<Rightarrow> int \<times> world" where
  "lobby_remove_client_locked c cid l w =
     (if slots (lob w l) ! cid \<noteq> Some c then (-1, w)
      else
        let L = after_leave w cid (lob w l);
            w = upd_lobby l (\<lambda>_. L) w;
            w = (if cur_lobby (cl w c) = Some l
                 then upd_client c (\<lambda>x. x\<lparr>cur_lobby := None, client_id := 0\<rparr>) w else w)
        in (if l_type L = LOBBY_TYPE_DEFAULT then 0 else if num_clients L = 0 then 1 else 0, w))"

text \<open>The loop over the lobbies of the block, up to the first that takes the client.\<close>

primrec add_first :: "cref \<Rightarrow> lref list \<Rightarrow> world \<Rightarrow> bool \<times> world" where
  "add_first c [] w = (False, w)"
| "add_first c (l # ls) w =
     (if version (cl w c) = CLIENT_VERSION_DCV1 \<and> l_lobby_id (lob w l) > 10 then add_first c ls w
      else if l_type (lob w l) = LOBBY_TYPE_DEFAULT \<and> num_clients (lob w l) < int (max_clients (lob w l))
      then
        let (r, w') = lobby_add_client_locked c l w
        in if r = 0 then (True, upd_client c (\<lambda>x. x\<lparr>lobby_id := l_lobby_id (lob w l)\<rparr>) w')
           else add_first c ls w'
      else add_first c ls w)"

definition lobby_add_to_any :: "cref \<Rightarrow> lref option \<Rightarrow> world \<Rightarrow> int \<times> world" where
  "lobby_add_to_any c req w =
     (let (added, w) =
            (case req of
               None \<Rightarrow> (False, w)
             | Some l \<Rightarrow>
                 if l_type (lob w l) = LOBBY_TYPE_DEFAULT \<and>
                    num_clients (lob w l) < int (max_clients (lob w l))
                 then
                   let (r, w') = lobby_add_client_locked c l w
                   in if r = 0 then (True, upd_client c (\<lambda>x. x\<lparr>lobby_id := l_lobby_id (lob w l)\<rparr>) w')
                      else (False, w')
                 else (False, w))
      in if added then (0, w)
         else
           let (added, w) = add_first c (block_lobbies w) w
           in (if added then 0 else 1, w))"

subsection \<open>The legit check\<close>

definition lobby_check_player_legit :: "env \<Rightarrow> lobby \<Rightarrow> inventory \<Rightarrow> u32 \<Rightarrow> bool" where
  "lobby_check_player_legit e L pinv v =
     (case ship_limits e of
        None \<Rightarrow> True
      | Some lim \<Rightarrow>
          if \<not> has_flag (l_flags L) LOBBY_FLAG_LEGIT_MODE \<and> \<not> has_flag (l_flags L) LOBBY_FLAG_LEGIT_CHECK
          then True
          else list_all (\<lambda>it. sylverant_limits_check_item (shl1 e) lim it v)
                 (take (unat (inv_count pinv)) (inv_items pinv)))"

definition item_version :: "nat \<Rightarrow> u32 option" where
  "item_version v =
     (if v = CLIENT_VERSION_DCV1 then Some 0x01
      else if v = CLIENT_VERSION_DCV2 \<or> v = CLIENT_VERSION_PC then Some 0x02
      else if v = CLIENT_VERSION_GC then Some 0x04
      else None)"

definition lobby_check_client_legit :: "env \<Rightarrow> lobby \<Rightarrow> ship_client \<Rightarrow> bool" where
  "lobby_check_client_legit e L c =
     (case item_version (version c) of
        None \<Rightarrow> True
      | Some v \<Rightarrow> lobby_check_player_legit e L (pl_inv c) v)"

text \<open>The loop over the clients of a lobby, for a body that does something with each.\<close>

primrec each_client :: "(cref \<Rightarrow> world \<Rightarrow> world) \<Rightarrow> cref option list \<Rightarrow> world \<Rightarrow> world" where
  "each_client f [] w = w"
| "each_client f (x # xs) w = each_client f xs (case x of None \<Rightarrow> w | Some c \<Rightarrow> f c w)"

definition for_clients :: "lref \<Rightarrow> (cref \<Rightarrow> world \<Rightarrow> world) \<Rightarrow> world \<Rightarrow> world" where
  "for_clients l f w = each_client f (take (max_clients (lob w l)) (slots (lob w l))) w"

text \<open>\<open>None\<close> is the access through the slot of a leader that is not there.\<close>

definition lobby_legit_check_finish_locked :: "lref \<Rightarrow> world \<Rightarrow> world option" where
  "lobby_legit_check_finish_locked l w =
     (let L = lob w l;
          r = (if int (unat (legit_check_passed L)) = num_clients L then
                 let w = upd_lobby l (\<lambda>L. L\<lparr>l_flags := l_flags L OR LOBBY_FLAG_LEGIT_MODE\<rparr>) w
                 in Some (for_clients l (\<lambda>c. emit (Send_txt c ''Legit mode active.'')) w)
               else map_option (\<lambda>c. emit (Send_txt c ''Team legit check failed.'') w)
                      (slots L ! unat (leader_id L)))
      in map_option (upd_lobby l (\<lambda>L. L\<lparr>l_flags := l_flags L AND
            NOT (LOBBY_FLAG_LEGIT_CHECK OR LOBBY_FLAG_TEMP_UNAVAIL)\<rparr>)) r)"

subsection \<open>Changing the lobby\<close>

text \<open>The checks of \<open>lobby_change_lobby\<close>, in the order of the code: the error code of the first that fails.\<close>

definition refusal :: "env \<Rightarrow> bool \<Rightarrow> ship_client \<Rightarrow> lobby \<Rightarrow> int" where
  "refusal e override c R =
     (let fl = has_flag (l_flags R)
      in if l_type R = LOBBY_TYPE_GAME \<and> l_version R = CLIENT_VERSION_DCV1 \<and> ch_class c > DCPCClassMax then -15
         else if fl LOBBY_FLAG_SINGLEPLAYER \<and> num_clients R \<noteq> 0 then -14
         else if fl LOBBY_FLAG_PCONLY \<and> version c \<noteq> CLIENT_VERSION_PC \<and> \<not> override then -13
         else if fl LOBBY_FLAG_V1ONLY \<and> version c \<noteq> CLIENT_VERSION_DCV1 \<and> \<not> override then -12
         else if fl LOBBY_FLAG_DCONLY \<and> version c \<noteq> CLIENT_VERSION_DCV1 \<and>
                 version c \<noteq> CLIENT_VERSION_DCV2 \<and> \<not> override then -11
         else if fl LOBBY_FLAG_TEMP_UNAVAIL then -10
         else if fl LOBBY_FLAG_BURSTING then -3
         else if fl LOBBY_FLAG_QUESTING then -7
         else if fl LOBBY_FLAG_QUESTSEL then -8
         else if min_level R > pl_level c + 1 \<and> \<not> override then -4
         else if max_level R < pl_level c + 1 \<and> \<not> override then -5
         else if version c = CLIENT_VERSION_DCV1 \<and> l_v2 R \<noteq> 0 then -6
         else if l_type R = LOBBY_TYPE_GAME \<and> fl LOBBY_FLAG_LEGIT_MODE \<and>
                 \<not> lobby_check_client_legit e R c \<and> \<not> override then -9
         else 0)"

definition arrive :: "cref \<Rightarrow> world \<Rightarrow> world" where
  "arrive c w =
     (let l = the (cur_lobby (cl w c))
      in if l_type (lob w l) = LOBBY_TYPE_DEFAULT then
           upd_client c (\<lambda>x. x\<lparr>lobby_id := l_lobby_id (lob w l)\<rparr>) (emit (Send_lobby_join c l) w)
         else
           let w = upd_client c (\<lambda>x. x\<lparr>enemy_kills := replicate 0x60 0\<rparr>) w;
               w = emit (Send_game_join c l) w;
               w = upd_lobby l (\<lambda>L. L\<lparr>l_flags := l_flags L OR LOBBY_FLAG_BURSTING\<rparr>) w
           in upd_client c (\<lambda>x. x\<lparr>flags := flags x OR CLIENT_FLAG_BURSTING\<rparr>) w)"

definition tell_shipgate :: "cref \<Rightarrow> world \<Rightarrow> world" where
  "tell_shipgate c w =
     (let L = lob w (the (cur_lobby (cl w c)))
      in emit (Shipgate_lobby_chg (guildcard (cl w c)) (l_lobby_id L) (l_name L)) w)"

definition enter_first_lobby :: "env \<Rightarrow> cref \<Rightarrow> lref option \<Rightarrow> world \<Rightarrow> int \<times> world" where
  "enter_first_lobby e c req w =
     (let (r, w) = lobby_add_to_any c req w
      in if r \<noteq> 0 then (-11, w)
         else
           let l = the (cur_lobby (cl w c)); w = emit (Send_lobby_join c l) w
           in if send_fails e (Send_lobby_join c l) then (-11, w)
              else
                let w = emit (Send_lobby_add_player l c) w
                in if send_fails e (Send_lobby_add_player l c) then (-11, w)
                   else (0, tell_shipgate c
                              (upd_client c (\<lambda>x. x\<lparr>lobby_id := l_lobby_id (lob w l)\<rparr>) w)))"

definition lobby_change_lobby :: "env \<Rightarrow> cref \<Rightarrow> lref option \<Rightarrow> world \<Rightarrow> int \<times> world" where
  "lobby_change_lobby e c req w =
     (let override = has_flag (flags (cl w c)) CLIENT_FLAG_OVERRIDE_GAME;
          old_cid = client_id (cl w c);
          w = upd_client c (\<lambda>x. x\<lparr>flags := flags x AND NOT CLIENT_FLAG_OVERRIDE_GAME\<rparr>) w
      in case cur_lobby (cl w c) of
           None \<Rightarrow> enter_first_lobby e c req w
         | Some l \<Rightarrow>
             let rq = the req; rv = refusal e override (cl w c) (lob w rq)
             in if rv \<noteq> 0 then (rv, w)
                else
                  let (rv, delete_lobby, w) =
                        (if l \<noteq> rq then
                           let (a, w) = lobby_add_client_locked c rq w
                           in if a \<noteq> 0 then (-1, 0, w)
                              else let (d, w) = lobby_remove_client_locked c old_cid l w
                                   in (if d < 0 then -2 else 0, d, w)
                         else (0, 0, w))
                  in if rv \<noteq> 0 then (rv, w)
                     else
                       let w = emit (Send_lobby_leave l c old_cid) w;
                           w = arrive c w;
                           w = emit (Send_lobby_add_player (the (cur_lobby (cl w c))) c) w;
                           w = (if delete_lobby \<noteq> 0 then lobby_destroy_locked l True w else w)
                       in (0, tell_shipgate c w))"

subsection \<open>Packets to a lobby\<close>

definition client_has_ignored :: "ship_client \<Rightarrow> u32 \<Rightarrow> bool" where
  "client_has_ignored c gc \<longleftrightarrow> gc \<in> set (take 10 (ignore_list c))"

definition lobby_send_pkt_dcnte :: "lref \<Rightarrow> cref \<Rightarrow> packet \<Rightarrow> packet \<Rightarrow> bool \<Rightarrow> world \<Rightarrow> world" where
  "lobby_send_pkt_dcnte l c h h2 igcheck w =
     for_clients l (\<lambda>d w. if d = c then w
       else if igcheck \<and> client_has_ignored (cl w d) (guildcard (cl w c)) then w
       else if has_flag (flags (cl w c)) CLIENT_FLAG_IS_DCNTE then emit (Send_pkt d h) w
       else emit (Send_pkt d h2) w) w"

definition lobby_send_pkt_dc :: "lref \<Rightarrow> cref \<Rightarrow> packet \<Rightarrow> bool \<Rightarrow> world \<Rightarrow> world" where
  "lobby_send_pkt_dc l c h igcheck w =
     for_clients l (\<lambda>d w. if d = c then w
       else if igcheck \<and> client_has_ignored (cl w d) (guildcard (cl w c)) then w
       else emit (Send_pkt d h) w) w"

definition lobby_send_pkt_bb :: "lref \<Rightarrow> cref \<Rightarrow> packet \<Rightarrow> bool \<Rightarrow> world \<Rightarrow> world" where
  "lobby_send_pkt_bb l c h igcheck w =
     for_clients l (\<lambda>d w. if d = c then w
       else if igcheck \<and> client_has_ignored (cl w d) (guildcard (cl w c)) then w
       else emit (Send_pkt d h) w) w"

definition lobby_send_pkt_ep3 :: "lref \<Rightarrow> cref \<Rightarrow> packet \<Rightarrow> world \<Rightarrow> world" where
  "lobby_send_pkt_ep3 l c h w =
     for_clients l (\<lambda>d w. if d \<noteq> c \<and> l_version (lob w l) = CLIENT_VERSION_EP3
       then emit (Send_pkt d h) w else w) w"

definition lobby_send_kill_counts :: "lref \<Rightarrow> world \<Rightarrow> world" where
  "lobby_send_kill_counts l w =
     for_clients l (\<lambda>c w. if has_flag (flags (cl w c)) CLIENT_FLAG_TRACK_KILLS
       then upd_client c (\<lambda>x. x\<lparr>enemy_kills := replicate 0x60 0\<rparr>)
              (emit (Shipgate_mkill (guildcard (cl w c)) c l) w)
       else w) w"

subsection \<open>The packets that wait for a joining player\<close>

text \<open>
  The handlers of the queued packets are in \<open>subcmd.c\<close>; \<open>hnd True\<close> stands for \<open>subcmd_handle_bcast\<close>
  and \<open>hnd False\<close> for \<open>subcmd_handle_one\<close>.  Both lock the lobby of the packet's sender, and the mutex
  of \<open>l\<close> is held: a packet whose sender is still in \<open>l\<close> locks it twice.  The loop runs until the queue
  is empty, whatever the handlers do to the store, so it may not end: then its value is \<open>None\<close> too.
\<close>

type_synonym handlers = "bool \<Rightarrow> cref \<Rightarrow> packet \<Rightarrow> world \<Rightarrow> (int \<times> world) option"

definition handle_queued :: "handlers \<Rightarrow> lref \<Rightarrow> lobby_pkt \<Rightarrow> world \<Rightarrow> (int \<times> world) option" where
  "handle_queued hnd l i w =
     (let t = pkt_type (pkt_pkt i);
          call = (\<lambda>bcast. if cur_lobby (cl w (pkt_src i)) = Some l then None
                    else map_option (\<lambda>(r, w). (if r \<noteq> 0 then -1 else 0, w)) (hnd bcast (pkt_src i) (pkt_pkt i) w))
      in if t = GAME_COMMAND0_TYPE then call True
         else if t = GAME_COMMAND2_TYPE \<or> t = GAME_COMMANDD_TYPE then call False
         else Some (-1, w))"

partial_function (option) drain :: "handlers \<Rightarrow> lref \<Rightarrow> int \<Rightarrow> world \<Rightarrow> (int \<times> world) option" where
  "drain hnd l rv w =
     (case pkt_queue (lob w l) of
        [] \<Rightarrow> Some (rv, w)
      | i # is \<Rightarrow>
          let w = upd_lobby l (\<lambda>L. L\<lparr>pkt_queue := is\<rparr>) w
          in Option.bind (if rv = 0 then handle_queued hnd l i w else Some (rv, w)) (\<lambda>(rv, w). drain hnd l rv w))"

definition lobby_handle_done_burst :: "handlers \<Rightarrow> lref \<Rightarrow> world \<Rightarrow> (int \<times> world) option" where
  "lobby_handle_done_burst hnd l w = drain hnd l 0 w"

text \<open>A call of this one by a thread that does not hold the mutex of the lobby.\<close>

definition lobby_enqueue_pkt :: "bool \<Rightarrow> lref \<Rightarrow> cref \<Rightarrow> packet \<Rightarrow> world \<Rightarrow> int \<times> world" where
  "lobby_enqueue_pkt mem l c p w =
     (if \<not> has_flag (l_flags (lob w l)) LOBBY_FLAG_BURSTING then (-1, w)
      else if pkt_type p \<notin> {GAME_COMMAND0_TYPE, GAME_COMMAND2_TYPE, GAME_COMMANDD_TYPE} then (-2, w)
      else if \<not> mem then (-3, w)
      else (0, upd_lobby l (\<lambda>L. L\<lparr>pkt_queue := pkt_queue L @ [\<lparr>pkt_src = c, pkt_pkt = p\<rparr>]\<rparr>) w))"

definition lobby_remove_player :: "handlers \<Rightarrow> cref \<Rightarrow> world \<Rightarrow> (int \<times> world) option" where
  "lobby_remove_player hnd c w =
     (case cur_lobby (cl w c) of
        None \<Rightarrow> Some (0, w)
      | Some l \<Rightarrow>
          map_option (\<lambda>w.
              let w = (if l_type (lob w l) = LOBBY_TYPE_GAME \<and> has_flag (flags (cl w c)) CLIENT_FLAG_TRACK_KILLS
                       then emit (Shipgate_mkill (guildcard (cl w c)) c l) w else w);
                  cid = client_id (cl w c);
                  (d, w) = lobby_remove_client_locked c cid l w
              in if d < 0 then (-1, w)
                 else
                   let w = emit (Send_lobby_leave l c cid) w;
                       w = (if d \<noteq> 0 then lobby_destroy_locked l True w else w)
                   in (0, upd_client c (\<lambda>x. x\<lparr>cur_lobby := None\<rparr>) w))
            (if has_flag (flags (cl w c)) CLIENT_FLAG_BURSTING then
               map_option snd (lobby_handle_done_burst hnd l
                 (upd_lobby l (\<lambda>L. L\<lparr>l_flags := l_flags L AND NOT LOBBY_FLAG_BURSTING\<rparr>) w))
             else Some w))"

subsection \<open>The items on the floor of a game\<close>

definition le32_bytes :: "u32 \<Rightarrow> u8 list" where
  "le32_bytes x = [ucast x, ucast (drop_bit 8 x), ucast (drop_bit 16 x), ucast (drop_bit 24 x)]"

definition zero_item :: item_t where
  "zero_item = \<lparr>equipped = 0, tech = 0, item_flags = 0, data_b = replicate 12 0, item_id = 0,
     data2_b = replicate 4 0\<rparr>"

definition lobby_add_item_locked :: "bool \<Rightarrow> lref \<Rightarrow> u32 list \<Rightarrow> world \<Rightarrow> item_t option \<times> world" where
  "lobby_add_item_locked mem l d w =
     (if l_version (lob w l) \<noteq> CLIENT_VERSION_BB then (None, w)
      else if \<not> mem then (None, w)
      else
        let it = zero_item\<lparr>item_id := l_item_id (lob w l),
              data_b := le32_bytes (d ! 0) @ le32_bytes (d ! 1) @ le32_bytes (d ! 2),
              data2_b := le32_bytes (d ! 3)\<rparr>
        in (Some it, upd_lobby l (\<lambda>L. L\<lparr>l_item_id := l_item_id L + 1, item_queue := it # item_queue L\<rparr>) w))"

definition lobby_add_item2_locked :: "bool \<Rightarrow> lref \<Rightarrow> item_t \<Rightarrow> world \<Rightarrow> item_t option \<times> world" where
  "lobby_add_item2_locked mem l it w =
     (if l_version (lob w l) \<noteq> CLIENT_VERSION_BB then (None, w)
      else if \<not> mem then (None, w)
      else (Some it, upd_lobby l (\<lambda>L. L\<lparr>item_queue := it # item_queue L\<rparr>) w))"

definition no_such_item :: item_t where
  "no_such_item = zero_item\<lparr>data_b := le32_bytes 0xFFFFFF @ replicate 8 0\<rparr>"

text \<open>The item through the pointer \<open>rv\<close> is written in every case but the first.\<close>

definition lobby_remove_item_locked :: "lref \<Rightarrow> u32 \<Rightarrow> world \<Rightarrow> int \<times> item_t option \<times> world" where
  "lobby_remove_item_locked l iid w =
     (if l_version (lob w l) \<noteq> CLIENT_VERSION_BB then (-1, None, w)
      else case List.find (\<lambda>it. item_id it = iid) (item_queue (lob w l)) of
             None \<Rightarrow> (1, Some no_such_item, w)
           | Some it \<Rightarrow> (0, Some it, upd_lobby l (\<lambda>L. L\<lparr>item_queue := remove1 it (item_queue L)\<rparr>) w))"

text \<open>
  \<open>subcmd_send_lobby_item\<close> of \<open>subcmd.c\<close> answers the request \<open>req\<close> of the client for a drop, and \<open>td\<close>
  is the drop function of some games.
\<close>

definition subcmd_send_lobby_item :: "lref \<Rightarrow> packet \<Rightarrow> u32 list \<Rightarrow> world \<Rightarrow> int \<times> world" where
  "subcmd_send_lobby_item l req d w =
     (let p = payload req;
          gen = \<lparr>pkt_type = GAME_COMMAND0_TYPE, pkt_len = 0x0030, pkt_flags = 0,
            payload = [0x5F, 0x0B, 0, 0, p ! 4, p ! 5, p ! 6, p ! 7] @ take 8 (drop 8 p) @
              le32_bytes (get_le32 p 16 AND 0x0000FFFF) @
              le32_bytes (d ! 0) @ le32_bytes (d ! 1) @ le32_bytes (d ! 2) @
              le32_bytes (l_item_id (lob w l)) @ le32_bytes (d ! 3) @ le32_bytes 2\<rparr>;
          w = upd_lobby l (\<lambda>L. L\<lparr>l_item_id := l_item_id L + 1\<rparr>) w
      in (0, for_clients l (\<lambda>c. emit (Send_pkt c gen)) w))"

definition td :: "lref \<Rightarrow> packet \<Rightarrow> world \<Rightarrow> int \<times> world" where
  "td l req w =
     (let (r, w) = next_random w
      in if r AND 15 \<noteq> 2 then (0, w)
         else
           let (r, w) = next_random w; d = difficulty (lob w l)
           in if d > 3 then (0, w)
              else
                let i3 = r AND (if d = 0 then 0x1F else if d = 1 then 0x3F else if d = 2 then 0x7F else 0xFF)
                in if i3 \<noteq> 0 then subcmd_send_lobby_item l req [4, 0, 0, i3] w else (0, w))"

end
