(* ===== verification/Lobby_Seats.thy ===== *)
theory Lobby_Seats
  imports Lobby
begin

section \<open>Who sits where\<close>

text \<open>
  The contract of joining and leaving.  \<open>members w l i\<close> is the client in slot \<open>i\<close> of lobby \<open>l\<close>: the
  abstract state of the component, a partial function.  Joining puts a client on a free slot,
  leaving clears one, and nothing else of it changes.  On the detailed state a lobby is well formed
  when its count of clients is the number of its occupied slots and these are below its maximum, and
  the whole store is when the slots and the pointers of the clients agree.
\<close>

subsection \<open>The interface\<close>

locale seats =
  fixes ok :: "'s \<Rightarrow> bool"
    and seat :: "'s \<Rightarrow> 'l \<Rightarrow> nat \<Rightarrow> 'c option"
    and enter :: "'c \<Rightarrow> 'l \<Rightarrow> 's \<Rightarrow> (nat \<times> 's) option"
    and leave :: "'c \<Rightarrow> nat \<Rightarrow> 'l \<Rightarrow> 's \<Rightarrow> 's option"
    and there :: "'s \<Rightarrow> 'l set"
  assumes enter_ok: "ok s \<Longrightarrow> l \<in> there s \<Longrightarrow> enter c l s = Some (i, s') \<Longrightarrow> ok s' \<and> there s' = there s"
    and enter_seat: "ok s \<Longrightarrow> l \<in> there s \<Longrightarrow> enter c l s = Some (i, s') \<Longrightarrow>
      seat s l i = None \<and> seat s' = (seat s)(l := (seat s l)(i := Some c))"
    and leave_ok: "ok s \<Longrightarrow> l \<in> there s \<Longrightarrow> leave c i l s = Some s' \<Longrightarrow> ok s' \<and> there s' = there s"
    and leave_seat: "ok s \<Longrightarrow> l \<in> there s \<Longrightarrow> leave c i l s = Some s' \<Longrightarrow>
      seat s' = (seat s)(l := (seat s l)(i := None))"
    and leave_if: "ok s \<Longrightarrow> l \<in> there s \<Longrightarrow> seat s l i = Some c \<Longrightarrow> \<exists>s'. leave c i l s = Some s'"
begin

text \<open>Moving is joining first and leaving then, which succeeds when joining did.\<close>

definition move :: "'c \<Rightarrow> nat \<Rightarrow> 'l \<Rightarrow> 'l \<Rightarrow> 's \<Rightarrow> (nat \<times> 's) option" where
  "move c i l l' s = Option.bind (enter c l' s) (\<lambda>(j, s). map_option (Pair j) (leave c i l s))"

lemma move_seat:
  assumes "ok s" "l \<in> there s" "l' \<in> there s" "l \<noteq> l'" "seat s l i = Some c" "enter c l' s \<noteq> None"
  shows "\<exists>j s'. move c i l l' s = Some (j, s') \<and> seat s l' j = None \<and> ok s' \<and>
     seat s' = (seat s)(l := (seat s l)(i := None), l' := (seat s l')(j := Some c))"
proof -
  from assms(6) obtain j s1 where e: "enter c l' s = Some (j, s1)" by auto
  note s1 = enter_ok [OF assms(1,3) e] enter_seat [OF assms(1,3) e]
  have "ok s1" "l \<in> there s1" "seat s1 l i = Some c" using s1 assms(2,4,5) by auto
  then obtain s2 where s2: "leave c i l s1 = Some s2" using leave_if by blast
  have "ok s2" "seat s2 = (seat s1)(l := (seat s1 l)(i := None))"
    using leave_ok leave_seat s2 \<open>ok s1\<close> \<open>l \<in> there s1\<close> by blast+
  then show ?thesis using e s1 s2 assms(4) by (auto simp: move_def fun_eq_iff)
qed

text \<open>Between other people and other lobbies nothing changes, and everybody keeps one seat.\<close>

lemma move_alone:
  assumes "ok s" "l \<in> there s" "l' \<in> there s" "l \<noteq> l'" "seat s l i = Some c" "enter c l' s \<noteq> None"
    "\<And>m k. seat s m k = Some c \<Longrightarrow> m = l \<and> k = i"
  shows "\<exists>j s'. move c i l l' s = Some (j, s') \<and> (\<forall>m k. seat s' m k = Some c \<longleftrightarrow> m = l' \<and> k = j) \<and>
     (\<forall>m k d. d \<noteq> c \<longrightarrow> (seat s' m k = Some d \<longleftrightarrow> seat s m k = Some d))"
proof -
  obtain j s' where m: "move c i l l' s = Some (j, s')" "seat s l' j = None"
      "seat s' = (seat s)(l := (seat s l)(i := None), l' := (seat s l')(j := Some c))"
    using move_seat [OF assms(1-6)] by blast
  have at: "seat s' n k = (if n = l' then (if k = j then Some c else seat s l' k)
      else if n = l then (if k = i then None else seat s l k) else seat s n k)" for n k
    by (simp add: m(3))
  have "seat s' n k = Some c \<longleftrightarrow> n = l' \<and> k = j" for n k
    using assms(4) by (auto simp: at dest: assms(7))
  moreover have "d \<noteq> c \<Longrightarrow> seat s' n k = Some d \<longleftrightarrow> seat s n k = Some d" for n k d
    using assms(4,5) m(2) by (auto simp: at)
  ultimately have "(\<forall>m k. seat s' m k = Some c \<longleftrightarrow> m = l' \<and> k = j) \<and>
      (\<forall>m k d. d \<noteq> c \<longrightarrow> (seat s' m k = Some d \<longleftrightarrow> seat s m k = Some d))" by blast
  then show ?thesis using m(1) by blast
qed

end

subsection \<open>Well-formed lobbies\<close>

definition occupied :: "'a option list \<Rightarrow> nat" where
  "occupied xs = length (filter (\<lambda>x. x \<noteq> None) xs)"

lemma occupied_update:
  "i < length xs \<Longrightarrow> occupied (xs[i := x]) + (if xs ! i \<noteq> None then 1 else 0) = occupied xs + (if x \<noteq> None then 1 else 0)"
proof (induction xs arbitrary: i)
  case (Cons a xs)
  show ?case
  proof (cases i)
    case (Suc k)
    then show ?thesis using Cons.IH [of k] Cons.prems by (simp add: occupied_def split: if_splits)
  qed (simp add: occupied_def)
qed simp

lemma occupied_fill: "i < length xs \<Longrightarrow> xs ! i = None \<Longrightarrow> occupied (xs[i := Some c]) = occupied xs + 1"
  using occupied_update [of i xs "Some c"] by simp

lemma occupied_clear: "i < length xs \<Longrightarrow> xs ! i = Some c \<Longrightarrow> occupied xs = occupied (xs[i := None]) + 1"
  using occupied_update [of i xs None] by simp

lemma occupied_0: "occupied xs = 0 \<longleftrightarrow> (\<forall>k < length xs. xs ! k = None)"
  by (simp add: occupied_def filter_empty_conv all_set_conv_all_nth)

lemma occupied_full:
  assumes "n \<le> length xs" "\<forall>i < n. xs ! i \<noteq> None"
  shows "n \<le> occupied xs"
proof -
  have "filter (\<lambda>x. x \<noteq> None) (take n xs) = take n xs"
    using assms by (auto simp: filter_id_conv in_set_conv_nth)
  then have "n \<le> length (filter (\<lambda>x. x \<noteq> None) (take n xs @ drop n xs))"
    using assms(1) unfolding filter_append length_append by simp
  then show ?thesis by (simp add: occupied_def)
qed

lemma occupied_below:
  assumes "\<forall>i < length xs. n \<le> i \<longrightarrow> xs ! i = None"
  shows "occupied xs \<le> n"
proof -
  have "filter (\<lambda>x. x \<noteq> None) (drop n xs) = []"
    using assms by (auto simp: filter_empty_conv in_set_conv_nth)
  then have "occupied (take n xs @ drop n xs) = occupied (take n xs)"
    unfolding occupied_def filter_append by simp
  also have "\<dots> \<le> length (take n xs)" unfolding occupied_def by (rule length_filter_le)
  finally show ?thesis by simp
qed

definition lobby_ok :: "lobby \<Rightarrow> bool" where
  "lobby_ok L \<longleftrightarrow> length (slots L) = LOBBY_MAX_CLIENTS \<and> max_clients L \<le> LOBBY_MAX_CLIENTS \<and>
     (l_version L < CLIENT_VERSION_GC \<and> l_type L = LOBBY_TYPE_GAME \<longrightarrow> 2 \<le> max_clients L) \<and>
     (\<forall>i < LOBBY_MAX_CLIENTS. max_clients L \<le> i \<longrightarrow> slots L ! i = None) \<and>
     num_clients L = int (occupied (slots L))"

definition lobbies_ok :: "world \<Rightarrow> bool" where
  "lobbies_ok w \<longleftrightarrow> (\<forall>l L. lobbies w l = Some L \<longrightarrow> lobby_ok L)"

definition members :: "world \<Rightarrow> lref \<Rightarrow> nat \<Rightarrow> cref option" where
  "members w l i =
     (case lobbies w l of
        None \<Rightarrow> None
      | Some L \<Rightarrow> if i < length (slots L) then slots L ! i else None)"

definition live :: "world \<Rightarrow> lref set" where
  "live w = {l. lobbies w l \<noteq> None}"

definition pointers_ok :: "world \<Rightarrow> bool" where
  "pointers_ok w \<longleftrightarrow>
     (\<forall>l i c. members w l i = Some c \<longleftrightarrow> cur_lobby (cl w c) = Some l \<and> client_id (cl w c) = i)"

lemma live_lob: "l \<in> live w \<Longrightarrow> lobbies w l = Some (lob w l)"
  by (auto simp: live_def lob_def)

lemma live_ok: "lobbies_ok w \<Longrightarrow> l \<in> live w \<Longrightarrow> lobby_ok (lob w l)"
  by (drule live_lob) (simp add: lobbies_ok_def)

lemma members_live:
  "l \<in> live w \<Longrightarrow> members w l = (\<lambda>i. if i < length (slots (lob w l)) then slots (lob w l) ! i else None)"
  by (simp add: members_def live_lob fun_eq_iff)

lemma members_lob:
  "lobbies_ok w \<Longrightarrow> l \<in> live w \<Longrightarrow> i < LOBBY_MAX_CLIENTS \<Longrightarrow> members w l i = slots (lob w l) ! i"
  using live_ok [of w l] by (simp add: members_def live_lob lobby_ok_def)

lemma members_beyond:
  "lobbies_ok w \<Longrightarrow> l \<in> live w \<Longrightarrow> max_clients (lob w l) \<le> i \<Longrightarrow> members w l i = None"
  using live_ok [of w l] by (simp add: members_def live_lob lobby_ok_def)

lemma live_store [simp]:
  "live (upd_client c f w) = live w" "live (upd_lobby l g w) = live w" "live (emit e w) = live w"
  by (auto simp: live_def)

lemma members_store [simp]:
  "members (upd_client c f w) = members w" "members (emit e w) = members w"
  by (simp_all add: members_def fun_eq_iff)

lemma lobbies_ok_store [simp]:
  "lobbies_ok (upd_client c f w) = lobbies_ok w" "lobbies_ok (emit e w) = lobbies_ok w"
  by (simp_all add: lobbies_ok_def)

lemma lobbies_ok_upd:
  "lobbies_ok w \<Longrightarrow> (l \<in> live w \<Longrightarrow> lobby_ok (g (lob w l))) \<Longrightarrow> lobbies_ok (upd_lobby l g w)"
  by (auto simp: lobbies_ok_def live_def lob_def)

lemma members_upd:
  assumes "l \<in> live w"
  shows "members (upd_lobby l g w) = (members w)(l := (\<lambda>i. if i < length (slots (g (lob w l)))
     then slots (g (lob w l)) ! i else None))"
  using assms by (auto simp: members_def fun_eq_iff live_lob)

subsection \<open>Joining\<close>

lemma cl_place [simp]:
  "cl (place_client c l i v w) d =
     (if d = c then (cl w c)\<lparr>cur_lobby := Some l, client_id := i, arrow := 0, join_time := now w\<rparr> else cl w d)"
  by (simp add: place_client_def)

lemma live_place [simp]: "live (place_client c l i v w) = live w"
  by (simp add: place_client_def)

lemma place_ok:
  assumes "lobbies_ok w" "l \<in> live w" "i < max_clients (lob w l)" "slots (lob w l) ! i = None"
  shows "lobbies_ok (place_client c l i v w)"
    and "members (place_client c l i v w) = (members w)(l := (members w l)(i := Some c))"
proof -
  note ok = live_ok [OF assms(1,2)]
  then have i: "i < length (slots (lob w l))" using assms(3) by (simp add: lobby_ok_def)
  show "lobbies_ok (place_client c l i v w)"
    unfolding place_client_def
    using ok i assms by (intro lobbies_ok_upd)
      (auto simp: Let_def lobby_ok_def nth_list_update occupied_fill)
  show "members (place_client c l i v w) = (members w)(l := (members w l)(i := Some c))"
    unfolding place_client_def using i assms(2)
    by (subst members_upd) (auto simp: Let_def fun_eq_iff members_live nth_list_update)
qed

text \<open>The slot of a newcomer.\<close>

definition free_slot :: "lobby \<Rightarrow> nat option" where
  "free_slot L =
     (if slots L ! 1 = None \<and> l_version L < CLIENT_VERSION_GC \<and> l_type L = LOBBY_TYPE_GAME then Some 1
      else List.find (\<lambda>i. slots L ! i = None) [0..<max_clients L])"

definition may_enter :: "ship_client \<Rightarrow> lobby \<Rightarrow> bool" where
  "may_enter c L \<longleftrightarrow> num_clients L < int (max_clients L) \<and> (challenge L \<noteq> 0 \<longrightarrow> rank_times c \<noteq> None)"

lemma find_upt_Some:
  "List.find P [0..<n] = Some i \<longleftrightarrow> i < n \<and> P i \<and> (\<forall>j < i. \<not> P j)"
  by (auto simp: find_Some_iff)

lemma free_slot_exists:
  assumes "lobby_ok L" "num_clients L < int (max_clients L)"
  shows "\<exists>i. free_slot L = Some i \<and> i < max_clients L \<and> slots L ! i = None"
proof -
  have "List.find (\<lambda>i. slots L ! i = None) [0..<max_clients L] \<noteq> None"
  proof
    assume "List.find (\<lambda>i. slots L ! i = None) [0..<max_clients L] = None"
    then have "\<forall>i < max_clients L. slots L ! i \<noteq> None" by (auto simp: find_None_iff)
    then have "max_clients L \<le> occupied (slots L)"
      using assms(1) by (intro occupied_full) (simp_all add: lobby_ok_def)
    then show False using assms by (simp add: lobby_ok_def)
  qed
  then show ?thesis
    using assms(1) by (auto simp: free_slot_def find_upt_Some lobby_ok_def)
qed

lemma add_client_eq:
  assumes "lobby_ok (lob w l)"
  shows "lobby_add_client_locked c l w =
    (if may_enter (cl w c) (lob w l)
     then (0, place_client c l (the (free_slot (lob w l)))
            (if challenge (lob w l) \<noteq> 0 then of_nat (stages_done (the (rank_times (cl w c)))) + 1
             else max_chal (lob w l)) w)
     else (-1, w))"
proof (cases "may_enter (cl w c) (lob w l)")
  case True
  then obtain i where "free_slot (lob w l) = Some i"
    using free_slot_exists [OF assms] by (auto simp: may_enter_def)
  then show ?thesis
    using True by (auto simp: lobby_add_client_locked_def may_enter_def Let_def free_slot_def)
next
  case False
  then show ?thesis by (auto simp: lobby_add_client_locked_def may_enter_def Let_def)
qed

lemma add_client_ok:
  assumes "lobbies_ok w" "l \<in> live w" "lobby_add_client_locked c l w = (0, w')"
  shows "\<exists>i v. w' = place_client c l i v w \<and> free_slot (lob w l) = Some i \<and> i < max_clients (lob w l) \<and>
     slots (lob w l) ! i = None \<and> client_id (cl w' c) = i \<and> may_enter (cl w c) (lob w l) \<and> lobbies_ok w' \<and>
     live w' = live w \<and> members w' = (members w)(l := (members w l)(i := Some c)) \<and> members w l i = None"
proof -
  note ok = live_ok [OF assms(1,2)]
  have m: "may_enter (cl w c) (lob w l)" using assms(3) add_client_eq [OF ok] by (auto split: if_splits)
  obtain i where i: "free_slot (lob w l) = Some i" "i < max_clients (lob w l)" "slots (lob w l) ! i = None"
    using m free_slot_exists [OF ok] by (auto simp: may_enter_def)
  have "members w l i = None"
    using i members_lob [OF assms(1,2), of i] ok by (simp add: lobby_ok_def)
  then show ?thesis
    using assms(3) i m place_ok [OF assms(1,2) i(2,3)] unfolding add_client_eq [OF ok] by auto
qed

lemma add_client_result: "fst (lobby_add_client_locked c l w) \<in> {0, -1}"
  by (auto simp: lobby_add_client_locked_def Let_def split: option.split)

lemma add_client_refused: "lobby_add_client_locked c l w = (r, w') \<Longrightarrow> r \<noteq> 0 \<Longrightarrow> r = -1 \<and> w' = w"
  by (auto simp: lobby_add_client_locked_def Let_def split: if_splits option.splits)

subsection \<open>Leaving\<close>

lemma elect_cross_slots:
  "lobby_elect_leader_cross_locked w L = (r, L') \<Longrightarrow>
     slots L' = slots L \<and> max_clients L' = max_clients L \<and> num_clients L' = num_clients L \<and>
     l_type L' = l_type L \<and> challenge L' = challenge L \<and> (l_version L' = l_version L \<or> l_version L' = CLIENT_VERSION_GC)"
  by (auto simp: lobby_elect_leader_cross_locked_def Let_def split: if_splits)

lemma new_leader_slots:
  "slots (new_leader w L) = slots L \<and> max_clients (new_leader w L) = max_clients L \<and>
     num_clients (new_leader w L) = num_clients L \<and> l_type (new_leader w L) = l_type L \<and>
     challenge (new_leader w L) = challenge L \<and>
     (l_version (new_leader w L) = l_version L \<or> l_version (new_leader w L) = CLIENT_VERSION_GC)"
  by (auto simp: new_leader_def split: prod.split dest: elect_cross_slots)

lemma after_leave_fields:
  "slots (after_leave w cid L) = (slots L)[cid := None] \<and> num_clients (after_leave w cid L) = num_clients L - 1 \<and>
     max_clients (after_leave w cid L) = max_clients L \<and> l_type (after_leave w cid L) = l_type L \<and>
     (l_version (after_leave w cid L) = l_version L \<or> l_version (after_leave w cid L) = CLIENT_VERSION_GC)"
  using new_leader_slots [of w L] by (auto simp: after_leave_def Let_def)

lemma remove_client_eq:
  "lobby_remove_client_locked c cid l w =
     (if slots (lob w l) ! cid \<noteq> Some c then (-1, w)
      else (if l_type (lob w l) \<noteq> LOBBY_TYPE_DEFAULT \<and> num_clients (lob w l) = 1 then 1 else 0,
        (if cur_lobby (cl w c) = Some l then upd_client c (\<lambda>x. x\<lparr>cur_lobby := None, client_id := 0\<rparr>) else (\<lambda>x. x))
          (upd_lobby l (\<lambda>_. after_leave w cid (lob w l)) w)))"
  using after_leave_fields [of w cid "lob w l"] by (simp add: lobby_remove_client_locked_def Let_def)

lemma remove_client_ok:
  assumes "lobbies_ok w" "l \<in> live w" "i < LOBBY_MAX_CLIENTS"
    "lobby_remove_client_locked c i l w = (r, w')" "0 \<le> r"
  shows "members w l i = Some c \<and> lobbies_ok w' \<and> live w' = live w \<and>
     members w' = (members w)(l := (members w l)(i := None)) \<and>
     lobbies w' = (lobbies w)(l := Some (after_leave w i (lob w l))) \<and>
     r = (if l_type (lob w l) \<noteq> LOBBY_TYPE_DEFAULT \<and> (\<forall>k. members w' l k = None) then 1 else 0) \<and>
     cl w' = (cl w)(c := if cur_lobby (cl w c) = Some l then (cl w c)\<lparr>cur_lobby := None, client_id := 0\<rparr> else cl w c)"
proof -
  let ?L = "lob w l"
  note ok = live_ok [OF assms(1,2)] and L' = after_leave_fields [of w i ?L]
  have i: "slots ?L ! i = Some c" "i < length (slots ?L)" "i < max_clients ?L"
    using assms(3-5) ok by (auto simp: remove_client_eq lobby_ok_def not_less split: if_splits)
  have num: "occupied (slots ?L) = occupied ((slots ?L)[i := None]) + 1"
    using occupied_clear i by metis
  have ok': "lobby_ok (after_leave w i ?L)"
    using ok L' num i by (auto simp: lobby_ok_def nth_list_update)
  have w': "w' = (if cur_lobby (cl w c) = Some l then upd_client c (\<lambda>x. x\<lparr>cur_lobby := None, client_id := 0\<rparr>) else (\<lambda>x. x))
      (upd_lobby l (\<lambda>_. after_leave w i ?L) w)"
    "r = (if l_type ?L \<noteq> LOBBY_TYPE_DEFAULT \<and> num_clients ?L = 1 then 1 else 0)"
    using assms(4) i(1) by (auto simp: remove_client_eq)
  have mem: "members w' = (members w)(l := (members w l)(i := None))"
    using w'(1) assms(2) L' i by (auto simp: members_upd fun_eq_iff members_live nth_list_update)
  have "num_clients ?L = 1 \<longleftrightarrow> occupied ((slots ?L)[i := None]) = 0"
    using ok num by (simp add: lobby_ok_def)
  also have "\<dots> \<longleftrightarrow> (\<forall>k. members w' l k = None)"
    using i(2) assms(2) by (auto simp: occupied_0 mem members_live nth_list_update)
  finally have "num_clients ?L = 1 \<longleftrightarrow> (\<forall>k. members w' l k = None)" .
  then show ?thesis
    using w' mem ok' assms(1,2) i members_lob [OF assms(1-3)]
    by (auto simp: lobbies_ok_upd live_lob fun_eq_iff)
qed

subsection \<open>The interface, provided\<close>

definition enter :: "cref \<Rightarrow> lref \<Rightarrow> world \<Rightarrow> (nat \<times> world) option" where
  "enter c l w =
     (let (r, w') = lobby_add_client_locked c l w in if r = 0 then Some (client_id (cl w' c), w') else None)"

definition leave :: "cref \<Rightarrow> nat \<Rightarrow> lref \<Rightarrow> world \<Rightarrow> world option" where
  "leave c i l w =
     (let (r, w') = lobby_remove_client_locked c i l w
      in if i < LOBBY_MAX_CLIENTS \<and> 0 \<le> r then Some w' else None)"

lemma enterD: "enter c l w = Some (i, w') \<Longrightarrow> lobby_add_client_locked c l w = (0, w') \<and> i = client_id (cl w' c)"
  by (auto simp: enter_def split: prod.splits if_splits)

lemma leaveD:
  "leave c i l w = Some w' \<Longrightarrow> i < LOBBY_MAX_CLIENTS \<and> (\<exists>r \<ge> 0. lobby_remove_client_locked c i l w = (r, w'))"
  by (auto simp: leave_def split: prod.splits if_splits)

interpretation lobby_seats: seats lobbies_ok members enter leave live
proof
  fix w w' :: world and c :: cref and l :: lref and i :: nat
  assume w: "lobbies_ok w" "l \<in> live w"
  {
    assume "enter c l w = Some (i, w')"
    then show "lobbies_ok w' \<and> live w' = live w"
      and "members w l i = None \<and> members w' = (members w)(l := (members w l)(i := Some c))"
      using add_client_ok [OF w] by (metis enterD)+
  }
  {
    assume "leave c i l w = Some w'"
    then show "lobbies_ok w' \<and> live w' = live w" and "members w' = (members w)(l := (members w l)(i := None))"
      using remove_client_ok [OF w] by (metis leaveD)+
  }
  assume "members w l i = Some c"
  then have "i < LOBBY_MAX_CLIENTS" "slots (lob w l) ! i = Some c"
    using live_ok [OF w] w(2) by (auto simp: members_live lobby_ok_def split: if_splits)
  then show "\<exists>w'. leave c i l w = Some w'" by (simp add: leave_def remove_client_eq)
qed

subsection \<open>The invariant of the store\<close>

definition seats_ok :: "world \<Rightarrow> bool" where
  "seats_ok w \<longleftrightarrow> lobbies_ok w \<and> pointers_ok w \<and> distinct (block_lobbies w) \<and> set (block_lobbies w) \<subseteq> live w"

text \<open>Updates that do not concern the seats.\<close>

definition same_seats :: "world \<Rightarrow> world \<Rightarrow> bool" where
  "same_seats w w' \<longleftrightarrow> members w' = members w \<and> live w' = live w \<and> block_lobbies w' = block_lobbies w \<and>
     (lobbies_ok w \<longrightarrow> lobbies_ok w') \<and> (\<forall>l. map_option l_type (lobbies w' l) = map_option l_type (lobbies w l)) \<and>
     (\<forall>c. cur_lobby (cl w' c) = cur_lobby (cl w c) \<and> client_id (cl w' c) = client_id (cl w c))"

named_theorems seat_rules \<open>updates that do not concern the seats\<close>

lemma same_seats_refl [seat_rules]: "same_seats w w"
  by (simp add: same_seats_def)

lemma same_seats_trans [trans]: "same_seats w w' \<Longrightarrow> same_seats w' w'' \<Longrightarrow> same_seats w w''"
  by (auto simp: same_seats_def)

lemma same_seats_ok: "same_seats w w' \<Longrightarrow> seats_ok w \<Longrightarrow> seats_ok w'"
  by (auto simp: same_seats_def seats_ok_def pointers_ok_def)

lemma same_seats_emit [seat_rules]: "same_seats w w' \<Longrightarrow> same_seats w (emit e w')"
  by (simp add: same_seats_def)

lemma same_seats_client [seat_rules]:
  "same_seats w w' \<Longrightarrow> (\<And>x. cur_lobby (f x) = cur_lobby x \<and> client_id (f x) = client_id x) \<Longrightarrow>
     same_seats w (upd_client c f w')"
  by (auto simp: same_seats_def)

lemma same_seats_lobby [seat_rules]:
  assumes "same_seats w w'" "\<And>L. slots (g L) = slots L \<and> max_clients (g L) = max_clients L \<and>
     num_clients (g L) = num_clients L \<and> l_type (g L) = l_type L \<and> l_version (g L) = l_version L"
  shows "same_seats w (upd_lobby l g w')"
proof -
  have "lobby_ok (g L) = lobby_ok L" for L using assms(2) by (simp add: lobby_ok_def)
  moreover have "members (upd_lobby l g w') = members w'"
    using assms(2) by (auto simp: members_def fun_eq_iff split: option.split)
  ultimately have "same_seats w' (upd_lobby l g w')"
    using assms(2) by (auto simp: same_seats_def lobbies_ok_def option.map_comp comp_def)
  with assms(1) show ?thesis by (rule same_seats_trans)
qed

lemma same_seats_each [seat_rules]:
  "same_seats w w' \<Longrightarrow> (\<And>c w'. same_seats w w' \<Longrightarrow> same_seats w (f c w')) \<Longrightarrow> same_seats w (each_client f xs w')"
  by (induction xs arbitrary: w') (auto split: option.split)

lemma same_seats_for [seat_rules]:
  "same_seats w w' \<Longrightarrow> (\<And>c w'. same_seats w w' \<Longrightarrow> same_seats w (f c w')) \<Longrightarrow> same_seats w (for_clients l f w')"
  unfolding for_clients_def by (rule same_seats_each)

lemma same_seats_arrive [seat_rules]: "same_seats w w' \<Longrightarrow> same_seats w (arrive c w')"
  unfolding arrive_def Let_def by (auto intro!: seat_rules)

lemma same_seats_tell [seat_rules]: "same_seats w w' \<Longrightarrow> same_seats w (tell_shipgate c w')"
  unfolding tell_shipgate_def Let_def by (auto intro!: seat_rules)

text \<open>One client has moved, or left.\<close>

lemma pointers_moved:
  assumes "pointers_ok w" "\<forall>m k. members w' m k = Some c \<longleftrightarrow> m = l \<and> k = i"
    "\<forall>m k d. d \<noteq> c \<longrightarrow> (members w' m k = Some d \<longleftrightarrow> members w m k = Some d)"
    "\<forall>d. d \<noteq> c \<longrightarrow> cur_lobby (cl w' d) = cur_lobby (cl w d) \<and> client_id (cl w' d) = client_id (cl w d)"
    "cur_lobby (cl w' c) = Some l" "client_id (cl w' c) = i"
  shows "pointers_ok w'"
  unfolding pointers_ok_def
proof (intro allI)
  fix m k d
  show "members w' m k = Some d \<longleftrightarrow> cur_lobby (cl w' d) = Some m \<and> client_id (cl w' d) = k"
    using assms by (cases "d = c") (auto simp: pointers_ok_def)
qed

lemma pointers_left:
  assumes "pointers_ok w" "\<forall>m k. members w' m k \<noteq> Some c"
    "\<forall>m k d. d \<noteq> c \<longrightarrow> (members w' m k = Some d \<longleftrightarrow> members w m k = Some d)"
    "\<forall>d. d \<noteq> c \<longrightarrow> cur_lobby (cl w' d) = cur_lobby (cl w d) \<and> client_id (cl w' d) = client_id (cl w d)"
    "cur_lobby (cl w' c) = None"
  shows "pointers_ok w'"
  unfolding pointers_ok_def
proof (intro allI)
  fix m k d
  show "members w' m k = Some d \<longleftrightarrow> cur_lobby (cl w' d) = Some m \<and> client_id (cl w' d) = k"
    using assms by (cases "d = c") (auto simp: pointers_ok_def)
qed

lemma no_seat: "pointers_ok w \<Longrightarrow> cur_lobby (cl w c) = None \<Longrightarrow> members w l i \<noteq> Some c"
  by (auto simp: pointers_ok_def)

lemma add_seats_ok:
  assumes "seats_ok w" "cur_lobby (cl w c) = None" "l \<in> live w" "lobby_add_client_locked c l w = (0, w')"
  shows "seats_ok w' \<and> cur_lobby (cl w' c) = Some l"
proof -
  have w: "lobbies_ok w" "pointers_ok w" using assms(1) by (simp_all add: seats_ok_def)
  obtain i v where i: "w' = place_client c l i v w" "lobbies_ok w'" "live w' = live w"
      "members w' = (members w)(l := (members w l)(i := Some c))" "members w l i = None"
    using add_client_ok [OF w(1) assms(3,4)] by blast
  have "pointers_ok w'"
    by (rule pointers_moved [OF w(2), where c = c and l = l and i = i])
      (use i no_seat [OF w(2) assms(2)] in auto)
  then show ?thesis
    using i assms(1) by (auto simp: seats_ok_def place_client_def)
qed

lemma destroy_seats_ok:
  assumes "seats_ok w" "\<forall>i. members w l i = None"
  shows "seats_ok (lobby_destroy_locked l True w) \<and>
     members (lobby_destroy_locked l True w) = members w \<and> cl (lobby_destroy_locked l True w) = cl w \<and>
     live (lobby_destroy_locked l True w) = live w - {l}"
proof -
  let ?w = "lobby_destroy_locked l True w"
  have f: "lobbies ?w = (lobbies w)(l := None)" "clients ?w = clients w"
    "block_lobbies ?w = remove1 l (block_lobbies w)"
    by (simp_all add: lobby_destroy_locked_def Let_def ship_dec_games_def emit_def)
  then have m: "members ?w = members w"
    using assms(2) by (auto simp: members_def fun_eq_iff)
  have c: "cl ?w = cl w" using f(2) by (simp add: cl_def fun_eq_iff)
  have v: "live ?w = live w - {l}" using f(1) by (auto simp: live_def)
  show ?thesis
    using assms(1) m c v f by (auto simp: seats_ok_def lobbies_ok_def pointers_ok_def)
qed

end
