(* ===== verification/Lobby_Change.thy ===== *)
theory Lobby_Change
  imports Lobby_Seats
begin

section \<open>Changing lobbies keeps everybody on one seat\<close>

text \<open>
  The operations that take a client from one lobby to another keep the seat invariant of \<open>Lobby_Seats\<close>;
  \<open>lobby_change_lobby\<close> is composed of the operations whose lemmas are there.
\<close>

lemma add_first_ok:
  assumes "seats_ok w" "cur_lobby (cl w c) = None" "set ls \<subseteq> live w" "add_first c ls w = (b, w')"
  shows "seats_ok w' \<and> (if b then \<exists>l \<in> set ls. cur_lobby (cl w' c) = Some l \<and> l_type (lob w l) = LOBBY_TYPE_DEFAULT \<and>
       lobby_id (cl w' c) = l_lobby_id (lob w l) else w' = w)"
  using assms
proof (induction ls)
  case (Cons l ls)
  show ?case
  proof (cases "\<not> (version (cl w c) = CLIENT_VERSION_DCV1 \<and> l_lobby_id (lob w l) > 10) \<and>
      l_type (lob w l) = LOBBY_TYPE_DEFAULT \<and> num_clients (lob w l) < int (max_clients (lob w l)) \<and>
      fst (lobby_add_client_locked c l w) = 0")
    case True
    then obtain w1 where w1: "lobby_add_client_locked c l w = (0, w1)" by (metis prod.collapse)
    have "seats_ok w1 \<and> cur_lobby (cl w1 c) = Some l"
      using add_seats_ok [OF Cons.prems(1,2) _ w1] Cons.prems(3) by simp
    then have "seats_ok (upd_client c (\<lambda>x. x\<lparr>lobby_id := l_lobby_id (lob w l)\<rparr>) w1)"
      by (auto intro!: seat_rules intro: same_seats_ok [rotated])
    then show ?thesis
      using Cons.prems(4) True w1 \<open>seats_ok w1 \<and> _\<close> by auto
  next
    case False
    then have "add_first c ls w = (b, w')"
      using Cons.prems(4) by (auto split: prod.splits if_splits dest: add_client_refused)
    then show ?thesis using Cons by (auto split: if_splits)
  qed
qed simp

lemma add_to_any_ok:
  assumes "seats_ok w" "cur_lobby (cl w c) = None" "set_option req \<subseteq> live w" "lobby_add_to_any c req w = (r, w')"
  shows "seats_ok w' \<and> (if r = 0 then \<exists>l \<in> live w. cur_lobby (cl w' c) = Some l \<and>
      l_type (lob w l) = LOBBY_TYPE_DEFAULT \<and> lobby_id (cl w' c) = l_lobby_id (lob w l) else r = 1 \<and> w' = w)"
proof -
  have bl: "set (block_lobbies w) \<subseteq> live w" using assms(1) by (simp add: seats_ok_def)
  have any: "lobby_add_to_any c req w = (let (added, w) = add_first c (block_lobbies w) w in (if added then 0 else 1, w)) \<Longrightarrow> ?thesis"
    using add_first_ok [OF assms(1,2) bl] assms(4) bl by (auto split: prod.splits if_splits)
  show ?thesis
  proof (cases req)
    case None
    then show ?thesis by (intro any) (simp add: lobby_add_to_any_def)
  next
    case (Some l)
    show ?thesis
    proof (cases "l_type (lob w l) = LOBBY_TYPE_DEFAULT \<and> num_clients (lob w l) < int (max_clients (lob w l)) \<and>
        fst (lobby_add_client_locked c l w) = 0")
      case True
      then obtain w1 where w1: "lobby_add_client_locked c l w = (0, w1)" by (metis prod.collapse)
      have l: "l \<in> live w" using assms(3) Some by simp
      have "seats_ok w1 \<and> cur_lobby (cl w1 c) = Some l" using add_seats_ok [OF assms(1,2) l w1] .
      moreover from this have "seats_ok (upd_client c (\<lambda>x. x\<lparr>lobby_id := l_lobby_id (lob w l)\<rparr>) w1)"
        by (auto intro!: seat_rules intro: same_seats_ok [rotated])
      ultimately show ?thesis
        using assms(4) True w1 Some l by (auto simp: lobby_add_to_any_def)
    next
      case False
      then have "lobby_add_to_any c req w = (let (added, w) = add_first c (block_lobbies w) w in (if added then 0 else 1, w))"
        using Some by (auto simp: lobby_add_to_any_def split: prod.splits dest: add_client_refused)
      then show ?thesis by (rule any)
    qed
  qed
qed

lemma enter_first_ok:
  assumes "seats_ok w" "cur_lobby (cl w c) = None" "set_option req \<subseteq> live w"
  shows "seats_ok (snd (enter_first_lobby e c req w))"
proof -
  obtain r w1 where a: "lobby_add_to_any c req w = (r, w1)" by fastforce
  have "seats_ok w1" using add_to_any_ok [OF assms a] by simp
  moreover have "same_seats w1 (snd (enter_first_lobby e c req w))"
    unfolding enter_first_lobby_def Let_def a by (auto intro!: seat_rules)
  ultimately show ?thesis by (rule same_seats_ok [rotated])
qed

text \<open>The flag that is cleared first is not read by the checks or by joining.\<close>

lemma refusal_flags [simp]: "refusal e ov (c\<lparr>flags := fl\<rparr>) R = refusal e ov c R"
  by (cases c) (simp only: refusal_def lobby_check_client_legit_def ship_client.simps)

lemma may_enter_flags [simp]: "may_enter (c\<lparr>flags := fl\<rparr>) L = may_enter c L"
  by (simp add: may_enter_def rank_times_def)

definition admitted :: "env \<Rightarrow> cref \<Rightarrow> lref \<Rightarrow> world \<Rightarrow> bool" where
  "admitted e c l w \<longleftrightarrow>
     refusal e (has_flag (flags (cl w c)) CLIENT_FLAG_OVERRIDE_GAME) (cl w c) (lob w l) = 0 \<and>
     may_enter (cl w c) (lob w l)"

lemma change_lobby_moves:
  assumes "seats_ok w" "cur_lobby (cl w c) = Some l" "rq \<in> live w" "l \<noteq> rq"
    "lobby_change_lobby e c (Some rq) w = (r, w')"
  shows "(r = 0 \<longleftrightarrow> admitted e c rq w) \<and> seats_ok w' \<and>
     (if r = 0 then \<exists>j. free_slot (lob w rq) = Some j \<and>
        members w' = (members w)(l := (members w l)(client_id (cl w c) := None), rq := (members w rq)(j := Some c)) \<and>
        live w' = live w - (if l_type (lob w l) \<noteq> LOBBY_TYPE_DEFAULT \<and> (\<forall>k. members w' l k = None) then {l} else {})
      else members w' = members w \<and> live w' = live w)"
proof -
  let ?ov = "has_flag (flags (cl w c)) CLIENT_FLAG_OVERRIDE_GAME" and ?i = "client_id (cl w c)"
  let ?w0 = "upd_client c (\<lambda>x. x\<lparr>flags := flags x AND NOT CLIENT_FLAG_OVERRIDE_GAME\<rparr>) w"
  have same0: "same_seats w ?w0" by (auto intro!: seat_rules)
  have w0: "seats_ok ?w0" "members ?w0 = members w" "live ?w0 = live w" "lob ?w0 = lob w"
    "cur_lobby (cl ?w0 c) = Some l" "client_id (cl ?w0 c) = ?i"
    using same_seats_ok [OF same0 assms(1)] assms(2) by (simp_all add: fun_eq_iff)
  have lob: "lobbies_ok ?w0" "pointers_ok ?w0" "lobby_ok (lob ?w0 rq)" "l \<in> live ?w0" "rq \<in> live ?w0"
    "members ?w0 l ?i = Some c"
  proof -
    show *: "lobbies_ok ?w0" "pointers_ok ?w0" using w0(1) by (simp_all add: seats_ok_def)
    show "rq \<in> live ?w0" "lobby_ok (lob ?w0 rq)" using assms(3) live_ok [OF *(1)] by simp_all
    show m: "members ?w0 l ?i = Some c" using *(2) w0(5,6) by (simp add: pointers_ok_def)
    then show "l \<in> live ?w0" by (auto simp: members_def live_def split: option.splits)
  qed
  show ?thesis
  proof (cases "admitted e c rq w")
    case False
    then have "r \<noteq> 0 \<and> w' = ?w0"
      using assms(5) w0(5) assms(2,4) add_client_eq [OF lob(3), of c]
      by (auto simp: lobby_change_lobby_def admitted_def Let_def split: if_splits)
    then show ?thesis using False w0 by simp
  next
    case True
    obtain w1 where w1: "lobby_add_client_locked c rq ?w0 = (0, w1)"
      using True add_client_eq [OF lob(3), of c] w0(4) by (auto simp: admitted_def)
    obtain j v where j: "w1 = place_client c rq j v ?w0" "free_slot (lob w rq) = Some j" "live w1 = live w"
        "client_id (cl w1 c) = j"
      using add_client_ok [OF lob(1,5) w1] by auto
    have en: "enter c rq ?w0 = Some (j, w1)" using w1 j(4) by (simp add: enter_def)
    have alone: "members ?w0 m k = Some c \<Longrightarrow> m = l \<and> k = ?i" for m k
      using lob(2) assms(2) by (auto simp: pointers_ok_def)
    obtain w2 where w2: "lobby_seats.move c ?i l rq ?w0 = Some (j, w2)" "lobbies_ok w2"
        "members w2 = (members w)(l := (members w l)(?i := None), rq := (members w rq)(j := Some c))"
      using lobby_seats.move_seat [OF lob(1,4,5) assms(4) lob(6)] en w0(2)
      by (auto simp: lobby_seats.move_def)
    have mv: "(\<forall>m k. members w2 m k = Some c \<longleftrightarrow> m = rq \<and> k = j) \<and>
        (\<forall>m k d. d \<noteq> c \<longrightarrow> (members w2 m k = Some d \<longleftrightarrow> members ?w0 m k = Some d))"
      using lobby_seats.move_alone [OF lob(1,4,5) assms(4) lob(6) _ alone] en w2(1) by auto
    obtain d where d: "lobby_remove_client_locked c ?i l w1 = (d, w2)" "0 \<le> d" "?i < LOBBY_MAX_CLIENTS"
      using w2(1) en by (auto simp: lobby_seats.move_def dest: leaveD)
    have w1ok: "lobbies_ok w1" "l \<in> live w1" using add_client_ok [OF lob(1,5) w1] lob(4) j(3) by auto
    note rem = remove_client_ok [OF w1ok d(3,1,2)]
    have cl2: "cl w2 = cl w1" using rem j(1) assms(4) by (auto simp: fun_eq_iff)
    have bl: "block_lobbies w2 = block_lobbies w"
      using d(1) j(1) by (auto simp: remove_client_eq place_client_def split: if_splits)
    have "pointers_ok w2"
      by (rule pointers_moved [OF lob(2), where c = c and l = rq and i = j]) (use mv cl2 j(1) in auto)
    then have ok2: "seats_ok w2"
      using w2(2) bl rem j(3) assms(1) by (auto simp: seats_ok_def)
    define w3 where "w3 = emit (Send_lobby_add_player rq c) (arrive c (emit (Send_lobby_leave l c ?i) w2))"
    have cur: "cur_lobby (cl w2 c) = Some rq" using cl2 j(1) by simp
    have same3: "same_seats w2 w3" unfolding w3_def by (auto intro!: seat_rules)
    then have cur3: "cur_lobby (cl (arrive c (emit (Send_lobby_leave l c ?i) w2)) c) = Some rq"
      using cur by (simp add: same_seats_def w3_def)
    have res: "r = 0 \<and> w' = tell_shipgate c (if d \<noteq> 0 then lobby_destroy_locked l True w3 else w3)"
      using assms(5) True w1 d(1,2) assms(2,4) w0(4) cur3
      by (auto simp: lobby_change_lobby_def admitted_def Let_def w3_def split: if_splits)
    have ty: "l_type (lob w1 l) = l_type (lob w l)"
      using assms(4) lob(5) by (simp add: j(1) place_client_def lob_upd_lobby live_def)
    have d0: "d \<noteq> 0 \<longleftrightarrow> l_type (lob w l) \<noteq> LOBBY_TYPE_DEFAULT \<and> (\<forall>k. members w2 l k = None)"
      using rem ty by simp
    have ok3: "seats_ok w3" "members w3 = members w2" "live w3 = live w"
      using same_seats_ok [OF same3 ok2] same3 rem j(3) by (simp_all add: same_seats_def)
    let ?w4 = "if d \<noteq> 0 then lobby_destroy_locked l True w3 else w3"
    have ok4: "seats_ok ?w4 \<and> members ?w4 = members w2 \<and> live ?w4 = live w - (if d \<noteq> 0 then {l} else {})"
      using destroy_seats_ok [OF ok3(1), of l] d0 ok3 by auto
    have same5: "same_seats ?w4 w'" using res by (auto intro!: seat_rules)
    have "seats_ok w'" "members w' = members w2" "live w' = live w - (if d \<noteq> 0 then {l} else {})"
      using ok4 same_seats_ok [OF same5] same5 by (simp_all add: same_seats_def)
    then show ?thesis using True res j(2) w2(3) d0 by auto
  qed
qed

subsection \<open>Leaving for good\<close>

text \<open>
  The handlers of the packets that waited for a joining player may do what they want except seat
  people differently.
\<close>

definition seatless :: "handlers \<Rightarrow> bool" where
  "seatless hnd \<longleftrightarrow> (\<forall>b c p w r w'. hnd b c p w = Some (r, w') \<longrightarrow> same_seats w w')"

lemma same_seats_queued: "seatless hnd \<Longrightarrow> handle_queued hnd l i w = Some y \<Longrightarrow> same_seats w (snd y)"
  unfolding seatless_def handle_queued_def Let_def
  by (auto intro!: seat_rules split: if_splits)

lemma same_seats_drain:
  assumes "seatless hnd" "drain hnd l rv w = Some (r, w')"
  shows "same_seats w w'"
proof -
  have "\<And>hnd l rv w y. drain hnd l rv w = Some y \<Longrightarrow> seatless hnd \<longrightarrow> same_seats w (snd y)"
  proof (erule drain.raw_induct [rotated], intro impI)
    fix self :: "handlers \<Rightarrow> lref \<Rightarrow> int \<Rightarrow> world \<Rightarrow> (int \<times> world) option" and hnd l rv w y
    assume IH: "\<And>hnd l rv w y. self hnd l rv w = Some y \<Longrightarrow> seatless hnd \<longrightarrow> same_seats w (snd y)"
      and step: "(case pkt_queue (lob w l) of [] \<Rightarrow> Some (rv, w)
          | i # is \<Rightarrow> let w = upd_lobby l (\<lambda>L. L\<lparr>pkt_queue := is\<rparr>) w
               in Option.bind (if rv = 0 then handle_queued hnd l i w else Some (rv, w)) (\<lambda>(rv, w). self hnd l rv w)) = Some y"
      and s: "seatless hnd"
    show "same_seats w (snd y)"
    proof (cases "pkt_queue (lob w l)")
      case Nil
      then show ?thesis using step by (auto intro!: seat_rules)
    next
      case (Cons i "is")
      let ?w1 = "upd_lobby l (\<lambda>L. L\<lparr>pkt_queue := is\<rparr>) w"
      obtain rv2 w2 where w2: "(if rv = 0 then handle_queued hnd l i ?w1 else Some (rv, ?w1)) = Some (rv2, w2)"
        "self hnd l rv2 w2 = Some y"
        using step Cons by (auto simp: Let_def bind_eq_Some_conv)
      have "same_seats w ?w1" by (auto intro!: seat_rules)
      also have "same_seats ?w1 w2"
        using same_seats_queued [OF s] w2(1) by (fastforce intro!: seat_rules split: if_splits)
      also have "same_seats w2 (snd y)" using IH [OF w2(2)] s by blast
      finally show ?thesis .
    qed
  qed
  then show ?thesis using assms by fastforce
qed

lemma remove_player_leaves:
  assumes "seats_ok w" "cur_lobby (cl w c) = Some l" "seatless hnd" "lobby_remove_player hnd c w = Some (r, w')"
  shows "r = 0 \<and> seats_ok w' \<and> members w' = (members w)(l := (members w l)(client_id (cl w c) := None)) \<and>
     cur_lobby (cl w' c) = None \<and>
     live w' = live w - (if l_type (lob w l) \<noteq> LOBBY_TYPE_DEFAULT \<and> (\<forall>k. members w' l k = None) then {l} else {})"
proof -
  let ?i = "client_id (cl w c)"
  define w0 where "w0 = (if has_flag (flags (cl w c)) CLIENT_FLAG_BURSTING then
      map_option snd (lobby_handle_done_burst hnd l
        (upd_lobby l (\<lambda>L. L\<lparr>l_flags := l_flags L AND NOT LOBBY_FLAG_BURSTING\<rparr>) w)) else Some w)"
  obtain w1 where w1: "w0 = Some w1"
    using assms(4) assms(2) by (cases w0) (auto simp: lobby_remove_player_def w0_def)
  have same1: "same_seats w w1"
  proof (cases "has_flag (flags (cl w c)) CLIENT_FLAG_BURSTING")
    case True
    let ?v = "upd_lobby l (\<lambda>L. L\<lparr>l_flags := l_flags L AND NOT LOBBY_FLAG_BURSTING\<rparr>) w"
    obtain rv where "drain hnd l 0 ?v = Some (rv, w1)"
      using w1 True by (auto simp: w0_def lobby_handle_done_burst_def)
    then have "same_seats ?v w1" by (rule same_seats_drain [OF assms(3)])
    moreover have "same_seats w ?v" by (auto intro!: seat_rules)
    ultimately show ?thesis by (blast intro: same_seats_trans)
  qed (use w1 in \<open>auto simp: w0_def intro!: seat_rules\<close>)
  define w2 where "w2 = (if l_type (lob w1 l) = LOBBY_TYPE_GAME \<and> has_flag (flags (cl w1 c)) CLIENT_FLAG_TRACK_KILLS
      then emit (Shipgate_mkill (guildcard (cl w1 c)) c l) w1 else w1)"
  have same2: "same_seats w w2" using same1 by (auto simp: w2_def intro!: seat_rules)
  then have w2: "seats_ok w2" "members w2 = members w" "live w2 = live w" "cur_lobby (cl w2 c) = Some l"
      "client_id (cl w2 c) = ?i" "map_option l_type (lobbies w2 l) = map_option l_type (lobbies w l)"
    using same_seats_ok [OF same2 assms(1)] assms(2) by (simp_all add: same_seats_def)
  have i1: "client_id (cl w1 c) = ?i" using same1 by (simp add: same_seats_def)
  have ok: "lobbies_ok w2" "pointers_ok w2" using w2(1) by (simp_all add: seats_ok_def)
  have m: "members w2 l ?i = Some c" using ok(2) w2(4,5) by (simp add: pointers_ok_def)
  then have l: "l \<in> live w2" by (auto simp: members_def live_def split: option.splits)
  obtain w3 where "leave c ?i l w2 = Some w3" using lobby_seats.leave_if [OF ok(1) l m] by blast
  then obtain d where d: "?i < LOBBY_MAX_CLIENTS" "lobby_remove_client_locked c ?i l w2 = (d, w3)" "0 \<le> d"
    by (auto dest: leaveD)
  note rem = remove_client_ok [OF ok(1) l d]
  have bl: "block_lobbies w3 = block_lobbies w2" using d(2) by (auto simp: remove_client_eq split: if_splits)
  have gone: "members w3 m k \<noteq> Some c" for m k
    using rem ok(2) w2(4,5) by (auto simp: pointers_ok_def)
  have p3: "pointers_ok w3"
  proof (rule pointers_left [OF ok(2), where c = c])
    show "\<forall>m k d. d \<noteq> c \<longrightarrow> (members w3 m k = Some d \<longleftrightarrow> members w2 m k = Some d)"
      using rem m by auto
  qed (use gone rem w2(4) in auto)
  have ok3: "seats_ok w3" using p3 rem bl w2(1) by (simp add: seats_ok_def)
  define w4 where "w4 = (if d \<noteq> 0 then lobby_destroy_locked l True (emit (Send_lobby_leave l c ?i) w3)
      else emit (Send_lobby_leave l c ?i) w3)"
  have res: "r = 0" "w' = upd_client c (\<lambda>x. x\<lparr>cur_lobby := None\<rparr>) w4"
    using assms(2,4) w1 d(2,3) i1
    by (auto simp: lobby_remove_player_def w0_def [symmetric] w2_def w4_def Let_def split: prod.splits if_splits)
  have e: "same_seats w3 (emit (Send_lobby_leave l c ?i) w3)" by (auto intro!: seat_rules)
  have ty: "l_type (lob w2 l) = l_type (lob w l)"
    using w2(3,6) l live_lob [of l w2] live_lob [of l w] by simp
  have emp: "d \<noteq> 0 \<longleftrightarrow> l_type (lob w l) \<noteq> LOBBY_TYPE_DEFAULT \<and> (\<forall>k. members w3 l k = None)"
    using rem ty by simp
  have w4: "seats_ok w4 \<and> members w4 = members w3 \<and> cl w4 = cl w3 \<and> live w4 = live w3 - (if d \<noteq> 0 then {l} else {})"
    using destroy_seats_ok [OF same_seats_ok [OF e ok3], of l] same_seats_ok [OF e ok3] emp
    by (auto simp: w4_def fun_eq_iff)
  have cur: "cur_lobby (cl w4 c) = None" using w4 rem w2(4) by simp
  have "same_seats w4 w'"
    unfolding res(2) using cur by (auto simp: same_seats_def)
  then have "seats_ok w'" "members w' = members w4" "live w' = live w4" "cur_lobby (cl w' c) = None"
    using same_seats_ok [of w4 w'] w4 cur by (simp_all add: same_seats_def)
  then show ?thesis using res(1) w4 rem w2 emp by simp
qed

subsection \<open>Creating games\<close>

lemma unused_id_fresh: "unused_id n w lid = Some i \<Longrightarrow> block_get_lobby w i = None"
  by (induction n arbitrary: lid) (auto simp: Let_def split: if_splits)

lemma unused_id_range: "unused_id n w lid = Some i \<Longrightarrow> \<exists>k \<ge> 1. k \<le> n \<and> i = lid + of_nat k"
proof (induction n arbitrary: lid)
  case (Suc n)
  show ?case
  proof (cases "block_get_lobby w (lid + 1) = None")
    case True
    then show ?thesis using Suc.prems by (intro exI [of _ 1]) (simp add: Let_def)
  next
    case False
    then have "unused_id n w (lid + 1) = Some i" using Suc.prems by (simp add: Let_def split: if_splits)
    then obtain k where "k \<ge> 1" "k \<le> n" "i = lid + 1 + of_nat k" using Suc.IH by blast
    then show ?thesis by (intro exI [of _ "Suc k"]) (simp add: add.assoc)
  qed
qed simp

lemma unused_id_None:
  "unused_id n w lid = None \<Longrightarrow> \<forall>k \<in> {1..n}. lid + of_nat k \<in> (\<lambda>l. l_lobby_id (lob w l)) ` set (block_lobbies w)"
proof (induction n arbitrary: lid)
  case (Suc n)
  have one: "lid + 1 \<in> (\<lambda>l. l_lobby_id (lob w l)) ` set (block_lobbies w)"
    using Suc.prems by (auto simp: Let_def block_get_lobby_def find_Some_iff image_iff split: if_splits) (metis nth_mem)
  have rest: "\<forall>k \<in> {1..n}. (lid + 1) + of_nat k \<in> (\<lambda>l. l_lobby_id (lob w l)) ` set (block_lobbies w)"
    using Suc by (auto simp: Let_def split: if_splits)
  show ?case
  proof
    fix k assume "k \<in> {1..Suc n}"
    then show "lid + of_nat k \<in> (\<lambda>l. l_lobby_id (lob w l)) ` set (block_lobbies w)"
      using one rest by (cases k; cases "k = 1") (auto simp: add.assoc)
  qed
qed simp

text \<open>One more try than there are lobbies is enough: two of them would have the same lobby.\<close>

lemma unused_id_enough:
  assumes "length (block_lobbies w) + 1 < 2 ^ 32"
  shows "unused_id (length (block_lobbies w) + 1) w lid \<noteq> None"
proof
  let ?n = "length (block_lobbies w) + 1" and ?ids = "(\<lambda>l. l_lobby_id (lob w l)) ` set (block_lobbies w)"
  assume "unused_id ?n w lid = None"
  from unused_id_None [OF this] have "(\<lambda>k. lid + of_nat k) ` {1..?n} \<subseteq> ?ids" by blast
  moreover have "inj_on (\<lambda>k. lid + of_nat k) {1..?n}"
    using assms by (auto intro!: inj_onI simp: word_of_nat_eq_iff take_bit_nat_eq_self)
  ultimately have "card {1..?n} \<le> card ?ids"
    by (metis List.finite_set card_image card_mono finite_imageI)
  also have "\<dots> \<le> card (set (block_lobbies w))" by (rule card_image_le) simp
  also have "\<dots> \<le> length (block_lobbies w)" by (rule card_length)
  finally show False by simp
qed

lemma seats_ok_new:
  assumes "seats_ok w" "l \<notin> live w" "lobby_ok L" "slots L = replicate LOBBY_MAX_CLIENTS None"
    "lobbies w' = (lobbies w)(l := Some L)" "\<forall>c. cur_lobby (cl w' c) = cur_lobby (cl w c) \<and> client_id (cl w' c) = client_id (cl w c)"
    "block_lobbies w' = block_lobbies w \<or> block_lobbies w' = block_lobbies w @ [l]"
  shows "seats_ok w' \<and> members w' = members w"
proof -
  have m: "members w' = members w"
    using assms(2-5) by (auto simp: members_def fun_eq_iff live_def lobby_ok_def not_le split: option.split)
  have v: "live w' = insert l (live w)" using assms(5) by (auto simp: live_def)
  show ?thesis
    using assms(1-3,5,6,7) m v by (auto simp: seats_ok_def lobbies_ok_def pointers_ok_def)
qed

lemma occupied_empty [simp]: "occupied (replicate n None) = 0"
  by (simp add: occupied_def)

lemma setup_drops_shape [simp]:
  "slots (lobby_setup_drops e c rs L) = slots L" "max_clients (lobby_setup_drops e c rs L) = max_clients L"
  "num_clients (lobby_setup_drops e c rs L) = num_clients L" "l_type (lobby_setup_drops e c rs L) = l_type L"
  "l_version (lobby_setup_drops e c rs L) = l_version L" "l_lobby_id (lobby_setup_drops e c rs L) = l_lobby_id L"
  by (simp_all add: lobby_setup_drops_def Let_def)

lemma insert_game_fields [simp]:
  "lobbies (insert_game l w) = lobbies w" "cl (insert_game l w) = cl w" "rng (insert_game l w) = rng w"
  "block_lobbies (insert_game l w) = block_lobbies w @ [l]" "block_games (insert_game l w) = block_games w + 1"
  by (simp_all add: insert_game_def ship_inc_games_def Let_def emit_def cl_def fun_eq_iff)

lemma next_random_fields:
  "next_random w = (r, w') \<Longrightarrow> lobbies w' = lobbies w \<and> cl w' = cl w \<and> block_lobbies w' = block_lobbies w \<and>
     now w' = now w"
  by (auto simp: next_random_def set_rng_def cl_def split: prod.splits)

lemma create_game_ok:
  assumes "seats_ok w" "l \<notin> live w" "CLIENT_VERSION_GC \<le> vers \<or> \<not> single"
    "lobby_create_game e (Some l) name pass diff batt chal v2 vers sect ev epis c single w = Some (r, w')"
  shows "seats_ok w' \<and> members w' = members w \<and>
     (case r of
        None \<Rightarrow> lobbies w' = lobbies w \<and> block_lobbies w' = block_lobbies w
      | Some l' \<Rightarrow> l' = l \<and> lobbies w' = (lobbies w)(l := lobbies w' l) \<and> l \<in> live w' \<and>
          l_type (lob w' l) = LOBBY_TYPE_GAME \<and> num_clients (lob w' l) = 0 \<and>
          unused_id (length (block_lobbies w) + 1) w 0x20 = Some (l_lobby_id (lob w' l)) \<and>
          block_lobbies w' = block_lobbies w @
            (if vers = CLIENT_VERSION_PC \<and> batt = 0 \<and> chal = 0 \<and> diff \<noteq> 3 then [] else [l]))"
proof -
  obtain lid where lid: "unused_id (length (block_lobbies w) + 1) w 0x20 = Some lid"
    using assms(4) by (cases "unused_id (length (block_lobbies w) + 1) w 0x20") (simp_all add: lobby_create_game_def split: if_splits)
  have tables: "game_in_tables vers diff epis" using assms(4) by (simp add: lobby_create_game_def split: if_splits)
  obtain ms g where mg: "choose_maps vers epis single (next_maps (cl w c)) (rng w) = (ms, g)" by fastforce
  define w1 where "w1 = upd_client c (\<lambda>x. x\<lparr>next_maps := None\<rparr>) (set_rng g w)"
  define L where "L = (new_game lid name pass diff batt chal v2 vers sect ev epis (cl w c) single (now w))\<lparr>l_maps := ms\<rparr>"
  have shape0: "slots L'' = slots L \<and> num_clients L'' = num_clients L \<and> l_lobby_id L'' = l_lobby_id L \<and>
      l_type L'' = l_type L \<and> max_clients L'' = max_clients L \<and> l_version L'' = l_version L"
    if "setup_enemies e vers batt chal L = Some L''" for L''
    using that by (auto simp: setup_enemies_def Let_def split: if_splits)
  have L: "slots L = replicate LOBBY_MAX_CLIENTS None" "num_clients L = 0" "l_lobby_id L = lid"
    "l_type L = LOBBY_TYPE_GAME" "max_clients L = (if single then 1 else 4)"
    "l_version L = (if vers = CLIENT_VERSION_DCV2 \<and> v2 = 0 then CLIENT_VERSION_DCV1 else vers)"
    by (simp_all add: L_def new_game_def Let_def zero_lobby_def)
  have same1: "same_seats w w1"
    unfolding w1_def by (rule same_seats_client) (auto simp: same_seats_def set_rng_def members_def live_def
        lobbies_ok_def cl_def fun_eq_iff)
  have w1: "lobbies w1 = lobbies w" "block_lobbies w1 = block_lobbies w"
    by (simp_all add: w1_def upd_client_def set_rng_def)
  show ?thesis
  proof (cases "setup_enemies e vers batt chal L")
    case None
    then have "r = None \<and> w' = w1"
      using assms(4) lid mg tables by (simp add: lobby_create_game_def Let_def flip: L_def w1_def)
    then show ?thesis using same_seats_ok [OF same1 assms(1)] same1 w1 by (simp add: same_seats_def)
  next
    case (Some L2)
    define listed where "listed \<longleftrightarrow> vers \<noteq> CLIENT_VERSION_PC \<or> batt \<noteq> 0 \<or> chal \<noteq> 0 \<or> diff = 3"
    define w2 where "w2 = (if listed then insert_game l w1 else w1)"
    obtain x w3 where w3: "next_random w2 = (x, w3)" by fastforce
    define L' where "L' = lobby_setup_drops e (cl w3 c) (sylverant_crc32 (take 16 (l_name L2))) (L2\<lparr>rand_seed := x\<rparr>)"
    have res: "r = Some l" "w' = w3\<lparr>lobbies := (lobbies w3)(l := Some L')\<rparr>"
      using assms(4) lid mg tables Some w3 [unfolded w2_def w1_def listed_def]
      by (simp_all add: lobby_create_game_def Let_def L'_def flip: L_def)
    note nr = next_random_fields [OF w3]
    have f: "lobbies w' = (lobbies w)(l := Some L')" "cl w' = cl w1"
      "block_lobbies w' = block_lobbies w @ (if listed then [l] else [])"
    proof -
      have "cl w' = cl w3" using res(2) by (simp add: cl_def fun_eq_iff)
      then show "cl w' = cl w1" using nr by (simp add: w2_def)
    qed (use res(2) nr w1 in \<open>auto simp: w2_def fun_eq_iff\<close>)
    have shape: "slots L' = slots L" "num_clients L' = num_clients L" "l_lobby_id L' = lid" "l_type L' = l_type L"
      "max_clients L' = max_clients L" "l_version L' = l_version L" using L(3) shape0 [OF Some] by (simp_all add: L'_def)
    have ok: "lobby_ok L'"
      using shape L assms(3) by (auto simp: lobby_ok_def LOBBY_MAX_CLIENTS_def version_defs)
    have "seats_ok w' \<and> members w' = members w"
      by (rule seats_ok_new [OF assms(1,2) ok _ f(1)]) (use shape L(1) f same1 in \<open>auto simp: same_seats_def\<close>)
    moreover have "lob w' l = L'" "l \<in> live w'" by (simp_all add: lob_def live_def f(1))
    ultimately show ?thesis
      using res(1) f shape L(2,4) lid by (auto simp: listed_def)
  qed
qed

lemma create_game_returns:
  "length (block_lobbies w) + 1 < 2 ^ 32 \<Longrightarrow> game_in_tables vers diff epis \<Longrightarrow>
     lobby_create_game e mem name pass diff batt chal v2 vers sect ev epis c single w \<noteq> None"
  using unused_id_enough [of w "0x20"] by (auto simp: lobby_create_game_def split: option.splits)

lemma create_ep3_ok:
  assumes "seats_ok w" "l \<notin> live w" "lobby_create_ep3_game (Some l) name pass vb sect w = Some (r, w')"
  shows "r = Some l \<and> seats_ok w' \<and> members w' = members w"
proof -
  obtain lid where lid: "unused_id (length (block_lobbies w) + 1) w 0x20 = Some lid"
    using assms(3) by (cases "unused_id (length (block_lobbies w) + 1) w 0x20") (simp_all add: lobby_create_ep3_game_def)
  obtain x w1 where x: "next_random w = (x, w1)" by fastforce
  obtain L where res: "r = Some l" "w' = insert_game l (w1\<lparr>lobbies := (lobbies w1)(l := Some L)\<rparr>)"
      "slots L = replicate LOBBY_MAX_CLIENTS None" "num_clients L = 0" "max_clients L = 4"
    using assms(3) lid x by (auto simp: lobby_create_ep3_game_def Let_def zero_lobby_def)
  have ok: "lobby_ok L" using res by (simp add: lobby_ok_def LOBBY_MAX_CLIENTS_def)
  have "seats_ok w' \<and> members w' = members w"
    by (rule seats_ok_new [OF assms(1,2) ok res(3)])
      (use res(2) next_random_fields [OF x] in \<open>auto simp: cl_def fun_eq_iff\<close>)
  then show ?thesis using res(1) by simp
qed

lemma create_default_ok:
  assumes "seats_ok w" "l \<notin> live w" "lobby_create_default (Some l) lid ev w = (r, w')"
  shows "r = Some l \<and> members w' = members w \<and> seats_ok (w'\<lparr>block_lobbies := block_lobbies w' @ [l]\<rparr>)"
proof -
  obtain L where res: "r = Some l" "w' = w\<lparr>lobbies := (lobbies w)(l := Some L)\<rparr>"
      "slots L = replicate LOBBY_MAX_CLIENTS None" "num_clients L = 0" "max_clients L = LOBBY_MAX_CLIENTS"
      "l_type L = LOBBY_TYPE_DEFAULT"
    using assms(3) by (auto simp: lobby_create_default_def Let_def zero_lobby_def)
  have ok: "lobby_ok L" using res by (simp add: lobby_ok_def type_defs)
  have "seats_ok (w'\<lparr>block_lobbies := block_lobbies w' @ [l]\<rparr>) \<and>
      members (w'\<lparr>block_lobbies := block_lobbies w' @ [l]\<rparr>) = members w"
    by (rule seats_ok_new [OF assms(1,2) ok res(3)]) (use res(2) in \<open>auto simp: cl_def\<close>)
  then show ?thesis using res(1) by (simp add: members_def fun_eq_iff)
qed

end
