(* ===== verification/Lobby_Block.thy ===== *)
theory Lobby_Block
  imports Lobby_Change
begin

section \<open>The lobbies of a block as a state machine\<close>

text \<open>
  The steps of the lobbies of a block: opening the default lobbies, creating games, listing a PC
  game whose kind was chosen, changing the lobby, leaving for good, and whatever the rest of the
  server does to the store without seating anybody.
\<close>

lemma change_same:
  assumes "cur_lobby (cl w c) = Some l"
  shows "same_seats w (snd (lobby_change_lobby e c (Some l) w))"
proof -
  let ?w0 = "upd_client c (\<lambda>x. x\<lparr>flags := flags x AND NOT CLIENT_FLAG_OVERRIDE_GAME\<rparr>) w"
  have "same_seats w ?w0" by (auto intro!: seat_rules)
  then show ?thesis
    using assms by (auto simp: lobby_change_lobby_def Let_def intro!: same_seats_tell same_seats_emit same_seats_arrive)
qed

lemma change_lobby_ok:
  assumes "seats_ok w" "set_option req \<subseteq> live w" "cur_lobby (cl w c) \<noteq> None \<longrightarrow> req \<noteq> None"
  shows "seats_ok (snd (lobby_change_lobby e c req w))"
proof (cases "cur_lobby (cl w c)")
  case None
  let ?w0 = "upd_client c (\<lambda>x. x\<lparr>flags := flags x AND NOT CLIENT_FLAG_OVERRIDE_GAME\<rparr>) w"
  have "same_seats w ?w0" by (auto intro!: seat_rules)
  then have "seats_ok ?w0" using assms(1) by (rule same_seats_ok)
  then show ?thesis
    using enter_first_ok [of ?w0 c req e] None assms(2) by (simp add: lobby_change_lobby_def Let_def)
next
  case (Some l)
  then obtain rq where rq: "req = Some rq" "rq \<in> live w" using assms(2,3) by auto
  show ?thesis
  proof (cases "l = rq")
    case True
    then show ?thesis using change_same [OF Some] same_seats_ok assms(1) rq(1) by blast
  next
    case False
    then show ?thesis
      using change_lobby_moves [OF assms(1) Some rq(2), of e] rq(1) by (metis prod.collapse)
  qed
qed

lemma choose_game_type_ok:
  assumes "seats_ok w" "l \<in> live w" "l \<notin> set (block_lobbies w)" "l_version (lob w l) = CLIENT_VERSION_PC"
  shows "seats_ok (choose_game_type l choice w)"
proof -
  let ?g = "\<lambda>L. if choice = 0 then L\<lparr>l_v2 := 0, l_version := CLIENT_VERSION_DCV1\<rparr>
       else if choice = 2 then L\<lparr>l_flags := l_flags L OR LOBBY_FLAG_PCONLY\<rparr> else L"
  let ?w = "upd_lobby l ?g w"
  have ok: "lobbies_ok w" "lobby_ok (lob w l)" using assms(1,2) live_ok by (auto simp: seats_ok_def)
  have "lobbies_ok ?w"
    by (rule lobbies_ok_upd [OF ok(1)]) (use ok(2) assms(4) in \<open>auto simp: lobby_ok_def version_defs\<close>)
  moreover have m: "members ?w = members w"
    by (auto simp: members_upd [OF assms(2)] members_live [OF assms(2)] fun_eq_iff)
  ultimately have "seats_ok ?w" using assms(1) by (simp add: seats_ok_def pointers_ok_def)
  moreover have "members (insert_game l ?w) = members ?w" "live (insert_game l ?w) = live ?w"
    "lobbies_ok (insert_game l ?w) = lobbies_ok ?w"
    by (simp_all add: members_def live_def lobbies_ok_def fun_eq_iff)
  ultimately show ?thesis
    using assms(2,3) by (auto simp: choose_game_type_def seats_ok_def pointers_ok_def)
qed

inductive lobby_step :: "env \<Rightarrow> handlers \<Rightarrow> world \<Rightarrow> world \<Rightarrow> bool" for e hnd where
  open_default: "l \<notin> live w \<Longrightarrow> lobby_create_default (Some l) lid ev w = (r, w') \<Longrightarrow>
    lobby_step e hnd w (w'\<lparr>block_lobbies := block_lobbies w' @ [l]\<rparr>)"
| create_game: "l \<notin> live w \<Longrightarrow> CLIENT_VERSION_GC \<le> vers \<or> \<not> single \<Longrightarrow>
    lobby_create_game e (Some l) name pass diff batt chal v2 vers sect ev epis c single w = Some (r, w') \<Longrightarrow>
    lobby_step e hnd w w'"
| create_ep3: "l \<notin> live w \<Longrightarrow> lobby_create_ep3_game (Some l) name pass vb sect w = Some (r, w') \<Longrightarrow>
    lobby_step e hnd w w'"
| list_game: "l \<in> live w \<Longrightarrow> l \<notin> set (block_lobbies w) \<Longrightarrow> l_version (lob w l) = CLIENT_VERSION_PC \<Longrightarrow>
    lobby_step e hnd w (choose_game_type l choice w)"
| change: "set_option req \<subseteq> live w \<Longrightarrow> cur_lobby (cl w c) \<noteq> None \<longrightarrow> req \<noteq> None \<Longrightarrow>
    lobby_step e hnd w (snd (lobby_change_lobby e c req w))"
| remove: "lobby_remove_player hnd c w = Some (r, w') \<Longrightarrow> lobby_step e hnd w w'"
| elsewhere: "same_seats w w' \<Longrightarrow> lobby_step e hnd w w'"

definition empty_block :: "world \<Rightarrow> bool" where
  "empty_block w \<longleftrightarrow> lobbies w = (\<lambda>_. None) \<and> block_lobbies w = [] \<and> (\<forall>c. cur_lobby (cl w c) = None)"

inductive lobby_reachable :: "env \<Rightarrow> handlers \<Rightarrow> world \<Rightarrow> bool" for e hnd where
  start: "empty_block w \<Longrightarrow> lobby_reachable e hnd w"
| step: "lobby_reachable e hnd w \<Longrightarrow> lobby_step e hnd w w' \<Longrightarrow> lobby_reachable e hnd w'"

lemma lobby_step_ok:
  assumes "seatless hnd" "lobby_step e hnd w w'" "seats_ok w"
  shows "seats_ok w'"
  using assms(2,3)
proof (cases rule: lobby_step.cases)
  case (open_default l lid ev r w'')
  then show ?thesis using create_default_ok [OF assms(3)] by blast
next
  case (create_game l vers single name pass diff batt chal v2 sect ev epis c r)
  then show ?thesis using create_game_ok [OF assms(3)] by blast
next
  case (create_ep3 l name pass vb sect r)
  then show ?thesis using create_ep3_ok [OF assms(3)] by blast
next
  case (list_game l choice)
  then show ?thesis using choose_game_type_ok [OF assms(3)] by blast
next
  case (change req c)
  then show ?thesis using change_lobby_ok [OF assms(3)] by blast
next
  case (remove c r)
  then show ?thesis
    using remove_player_leaves [OF assms(3) _ assms(1)] assms(3)
    by (cases "cur_lobby (cl w c)") (auto simp: lobby_remove_player_def)
next
  case elsewhere
  then show ?thesis using same_seats_ok assms(3) by blast
qed

lemma empty_block_ok: "empty_block w \<Longrightarrow> seats_ok w"
  by (auto simp: empty_block_def seats_ok_def lobbies_ok_def pointers_ok_def members_def)

lemma reachable_ok: "lobby_reachable e hnd w \<Longrightarrow> seatless hnd \<Longrightarrow> seats_ok w"
  by (induction rule: lobby_reachable.induct) (auto intro: empty_block_ok lobby_step_ok)

text \<open>C3: In every state the lobbies of a block can reach, the server knows where everybody is.  A
  client that has a current lobby sits there, in the slot of its client id, below the maximum of the
  lobby, and the lobby has not been freed; whoever sits in a slot has that lobby and that slot as its
  own, so nobody sits twice; and every lobby's count of clients is the number of its occupied slots.  (The
  handlers that play a queue of waiting packets are any that leave the seats alone, as those of the
  subcommands do.)\<close>

theorem lobby_reachable_seats:
  assumes "seatless hnd" "lobby_reachable e hnd w"
  shows "(\<forall>c l. cur_lobby (cl w c) = Some l \<longrightarrow> lobbies w l \<noteq> None \<and>
       client_id (cl w c) < max_clients (lob w l) \<and> slots (lob w l) ! client_id (cl w c) = Some c) \<and>
     (\<forall>l L i c. lobbies w l = Some L \<and> i < LOBBY_MAX_CLIENTS \<and> slots L ! i = Some c \<longrightarrow>
       cur_lobby (cl w c) = Some l \<and> client_id (cl w c) = i) \<and>
     (\<forall>l L. lobbies w l = Some L \<longrightarrow> num_clients L = int (occupied (slots L)) \<and> num_clients L \<le> int (max_clients L))"
proof (intro conjI allI impI)
  have ok: "lobbies_ok w" "pointers_ok w" using reachable_ok [OF assms(2,1)] by (simp_all add: seats_ok_def)
  {
    fix c l assume "cur_lobby (cl w c) = Some l"
    then have m: "members w l (client_id (cl w c)) = Some c" using ok(2) by (simp add: pointers_ok_def)
    then have l: "l \<in> live w" by (auto simp: members_def live_def split: option.splits)
    then show "lobbies w l \<noteq> None" by (simp add: live_def)
    show "client_id (cl w c) < max_clients (lob w l)"
      using members_beyond [OF ok(1) l, of "client_id (cl w c)"] m by (cases "client_id (cl w c) < max_clients (lob w l)") (simp_all add: not_less)
    show "slots (lob w l) ! client_id (cl w c) = Some c"
      using m l by (simp add: members_live split: if_splits)
  }
  {
    fix l L i c assume a: "lobbies w l = Some L \<and> i < LOBBY_MAX_CLIENTS \<and> slots L ! i = Some c"
    then have "members w l i = Some c" using ok(1) by (auto simp: members_def lobbies_ok_def lobby_ok_def)
    then show "cur_lobby (cl w c) = Some l" "client_id (cl w c) = i" using ok(2) by (simp_all add: pointers_ok_def)
  }
  fix l L assume "lobbies w l = Some L"
  then have L: "lobby_ok L" using ok(1) by (simp add: lobbies_ok_def)
  then show "num_clients L = int (occupied (slots L))" by (simp add: lobby_ok_def)
  show "num_clients L \<le> int (max_clients L)"
    using L occupied_below [of "slots L" "max_clients L"] by (simp add: lobby_ok_def)
qed

text \<open>A block with its first lobby, and a client that has come in.\<close>

definition no_inventory :: inventory where
  "no_inventory = \<lparr>inv_count = 0, hpmats_used = 0, tpmats_used = 0, inv_language = 0, inv_items = []\<rparr>"

definition new_client :: "nat \<Rightarrow> u32 \<Rightarrow> ship_client" where
  "new_client vers gc =
     \<lparr>version = vers, client_id = 0, lobby_id = 0, guildcard = gc, flags = 0, arrow = 0, cur_lobby = None,
      join_time = 0, ignore_list = replicate 10 0, last_info_req = 0, cur_area = 0, position = [0, 0, 0, 0],
      next_item = [0, 0, 0, 0], next_maps = None, enemy_kills = [], c_items = [],
      item_count = 0, drop_x = 0, drop_z = 0, drop_area = 0, drop_item = 0, drop_amt = 0,
      v2_times = replicate 9 0, pc_times = replicate 9 0, v3_times = replicate 9 0, pl_inv = no_inventory,
      pl_stats = replicate 6 0, pl_level = 0, pl_meseta = 0, ch_class = 0, bb_inv = no_inventory, bb_meseta = 0,
      bb_bank = \<lparr>bank_count = 0, bank_meseta = 0, bank_items = []\<rparr>, bb_loaded = True, bb_stats = replicate 6 0,
      bb_level = 0, bb_exp = 0, bb_class = 0, language_code = 0, ch_section = 0, ch_name = replicate 52 0,
      card_text = replicate 176 0, team_name = replicate 32 0, privilege = 0,
      cc_char = 0, q_lang = 0, has_pl = True, pl_name = [], logging = False\<rparr>"

definition quiet_env :: env where
  "quiet_env = \<lparr>send_fails = (\<lambda>_. False), ship_limits = None, shl1 = (\<lambda>n. 2 ^ n), v2_drop_data = False,
     gc_drop_data = False, v2_maps = False, gc_maps = False, game_enemies = (\<lambda>_. Some []),
     game_objs = (\<lambda>_. []), enemy_exps = (\<lambda>_. [])\<rparr>"

definition quiet_handlers :: handlers where
  "quiet_handlers = (\<lambda>b c p w. Some (0, w))"

definition world0 :: world where
  "world0 = \<lparr>clients = (\<lambda>c. new_client CLIENT_VERSION_BB (of_nat c)), lobbies = (\<lambda>_. None), block_no = 1,
     block_lobbies = [], block_games = 0, ship_games = 0, now = 100, rng = \<lparr>mti = 0, mt = []\<rparr>, sent = []\<rparr>"

definition world1 :: world where
  "world1 = (let w = snd (lobby_create_default (Some 0) 1 0 world0) in w\<lparr>block_lobbies := block_lobbies w @ [0]\<rparr>)"

definition world2 :: world where
  "world2 = snd (lobby_change_lobby quiet_env 7 None world1)"

lemma world2_reachable: "lobby_reachable quiet_env quiet_handlers world2"
proof -
  have "lobby_reachable quiet_env quiet_handlers world0"
    by (rule lobby_reachable.start) (simp add: empty_block_def world0_def cl_def new_client_def)
  moreover have "lobby_step quiet_env quiet_handlers world0 world1"
    unfolding world1_def Let_def
    by (rule lobby_step.open_default [where r = "fst (lobby_create_default (Some 0) 1 0 world0)"])
      (simp_all add: live_def world0_def)
  ultimately have "lobby_reachable quiet_env quiet_handlers world1" by (rule lobby_reachable.step)
  moreover have "cur_lobby (cl world1 7) = None"
    by (simp add: world1_def world0_def lobby_create_default_def cl_def new_client_def Let_def)
  then have "lobby_step quiet_env quiet_handlers world1 world2"
    unfolding world2_def by (intro lobby_step.change) simp_all
  ultimately show ?thesis by (rule lobby_reachable.step)
qed

lemma quiet_seatless: "seatless quiet_handlers"
  by (simp add: seatless_def quiet_handlers_def same_seats_refl)

theorem lobby_reachable_seats_witness:
  "cur_lobby (cl world2 7) = Some 0 \<and> slots (lob world2 0) ! client_id (cl world2 7) = Some 7"
proof -
  have "cur_lobby (cl world2 7) = Some 0" by code_simp
  then show ?thesis using lobby_reachable_seats [OF quiet_seatless world2_reachable] by blast
qed

end
