(* ===== verification/Lobby_Props.thy ===== *)
theory Lobby_Props
  imports Lobby_Block
begin

section \<open>Slots, leaders, levels and packets of a lobby\<close>

text \<open>
  The functional behaviour of the operations of a lobby: moving is all or nothing, a newcomer gets a seat exactly when
  there is room, the leader is elected by the time of joining, and the challenge level is that of the members.
\<close>

subsection \<open>Moving\<close>

text \<open>C27: Changing the lobby is all or nothing.  It succeeds exactly when the checks of the new lobby pass and
  it has room; then the client sits in the free slot the new lobby gives to newcomers, its old slot
  is empty, nobody else has moved, and the old lobby is gone if and only if it was a game that is now
  empty.  When it fails nobody has moved and no lobby is gone.\<close>

theorem lobby_change_lobby_moves:
  assumes "seats_ok w" "cur_lobby (cl w c) = Some l" "rq \<in> live w" "l \<noteq> rq"
    "lobby_change_lobby e c (Some rq) w = (r, w')"
  shows "(r = 0 \<longleftrightarrow> admitted e c rq w) \<and>
     (if r = 0 then \<exists>j. free_slot (lob w rq) = Some j \<and>
        members w' = (members w)(l := (members w l)(client_id (cl w c) := None), rq := (members w rq)(j := Some c)) \<and>
        live w' = live w - (if l_type (lob w l) \<noteq> LOBBY_TYPE_DEFAULT \<and> (\<forall>k. members w' l k = None) then {l} else {})
      else members w' = members w \<and> live w' = live w)"
  using change_lobby_moves [OF assms] by blast

text \<open>A second default lobby, and the client that goes there.\<close>

definition world3 :: world where
  "world3 = (let w = snd (lobby_create_default (Some 1) 2 0 world2) in w\<lparr>block_lobbies := block_lobbies w @ [1]\<rparr>)"

lemma world3_ok: "seats_ok world3" "1 \<in> live world3"
proof -
  have "lobbies world2 1 = None" by code_simp
  then have "seats_ok world3"
    unfolding world3_def Let_def
    using create_default_ok [OF reachable_ok [OF world2_reachable quiet_seatless], of 1 2 0
        "fst (lobby_create_default (Some 1) 2 0 world2)" "snd (lobby_create_default (Some 1) 2 0 world2)"]
    by (simp add: live_def)
  moreover have "1 \<in> live world3"
    by (simp add: live_def world3_def lobby_create_default_def Let_def)
  ultimately show "seats_ok world3" "1 \<in> live world3" by simp_all
qed

theorem lobby_change_lobby_moves_witness:
  "members (snd (lobby_change_lobby quiet_env 7 (Some 1) world3)) 1 0 = Some 7 \<and>
     members (snd (lobby_change_lobby quiet_env 7 (Some 1) world3)) 0 0 = None"
proof -
  have *: "cur_lobby (cl world3 7) = Some 0" "client_id (cl world3 7) = 0" "free_slot (lob world3 1) = Some 0"
    "admitted quiet_env 7 1 world3"
    by code_simp+
  obtain r w' where r: "lobby_change_lobby quiet_env 7 (Some 1) world3 = (r, w')" by fastforce
  show ?thesis
    using lobby_change_lobby_moves [OF world3_ok(1) *(1) world3_ok(2) _ r] *(2-4) r by auto
qed

subsection \<open>The slot of a newcomer\<close>

lemma lob_place:
  "l \<in> live w \<Longrightarrow> lob (place_client c l i v w) l = (let L = (lob w l)\<lparr>slots := (slots (lob w l))[i := Some c],
       num_clients := num_clients (lob w l) + 1\<rparr>;
     L = (if challenge L \<noteq> 0 \<and> max_chal L > v then L\<lparr>max_chal := v\<rparr> else L)
   in if num_clients L = 1 then L\<lparr>leader_id := of_nat i\<rparr> else L)"
  by (simp add: place_client_def lob_upd_lobby live_def)

text \<open>C32: A lobby takes a client exactly when it has room and, for a challenge game, the version of the client
  knows challenge mode; a refusal changes nothing.  The newcomer gets slot 1 of a Dreamcast or PC game
  when it is free, otherwise the first free slot, and is the leader when it is alone.\<close>

theorem lobby_add_client_slot:
  assumes "lobbies_ok w" "l \<in> live w" "lobby_add_client_locked c l w = (r, w')"
  shows "(r = 0 \<longleftrightarrow> num_clients (lob w l) < int (max_clients (lob w l)) \<and>
       (challenge (lob w l) \<noteq> 0 \<longrightarrow> version (cl w c) \<in> {CLIENT_VERSION_DCV2, CLIENT_VERSION_PC, CLIENT_VERSION_GC})) \<and>
     (r \<noteq> 0 \<longrightarrow> r = -1 \<and> w' = w) \<and>
     (r = 0 \<longrightarrow> (let L = lob w l; i = client_id (cl w' c) in
        i < max_clients L \<and> slots L ! i = None \<and> slots (lob w' l) = (slots L)[i := Some c] \<and>
        (if l_type L = LOBBY_TYPE_GAME \<and> l_version L < CLIENT_VERSION_GC \<and> slots L ! 1 = None then i = 1
         else \<forall>j < i. slots L ! j \<noteq> None) \<and>
        (num_clients L = 0 \<longrightarrow> unat (leader_id (lob w' l)) = i)))"
proof -
  note ok = live_ok [OF assms(1,2)]
  have me: "may_enter (cl w c) (lob w l) \<longleftrightarrow> num_clients (lob w l) < int (max_clients (lob w l)) \<and>
      (challenge (lob w l) \<noteq> 0 \<longrightarrow> version (cl w c) \<in> {CLIENT_VERSION_DCV2, CLIENT_VERSION_PC, CLIENT_VERSION_GC})"
    by (auto simp: may_enter_def rank_times_def)
  show ?thesis
  proof (cases "r = 0")
    case False
    then show ?thesis using assms(3) add_client_eq [OF ok, of c] me by (auto split: if_splits)
  next
    case True
    then obtain i v where i: "w' = place_client c l i v w" "free_slot (lob w l) = Some i"
        "i < max_clients (lob w l)" "slots (lob w l) ! i = None" "may_enter (cl w c) (lob w l)"
      using add_client_ok [OF assms(1,2)] assms(3) by blast
    have small: "unat (of_nat i :: u8) = i"
      using i(3) ok by (simp add: lobby_ok_def LOBBY_MAX_CLIENTS_def unat_of_nat)
    have first: "if l_type (lob w l) = LOBBY_TYPE_GAME \<and> l_version (lob w l) < CLIENT_VERSION_GC \<and> slots (lob w l) ! 1 = None
        then i = 1 else \<forall>j < i. slots (lob w l) ! j \<noteq> None"
      using i(2) by (auto simp: free_slot_def find_upt_Some split: if_splits)
    have "slots (lob w' l) = (slots (lob w l))[i := Some c]"
      "num_clients (lob w l) = 0 \<longrightarrow> leader_id (lob w' l) = of_nat i"
      unfolding i(1) lob_place [OF assms(2)] by (simp_all add: Let_def)
    then show ?thesis using True i first small me by (simp add: Let_def)
  qed
qed

theorem lobby_add_client_slot_witness:
  "client_id (cl (snd (lobby_add_client_locked 8 0 world2)) 8) = 1"
proof -
  have r: "lobby_add_client_locked 8 0 world2 = (0, snd (lobby_add_client_locked 8 0 world2))"
    by (rule prod_eqI) (simp_all, code_simp)
  have ok: "lobbies_ok world2"
    using reachable_ok [OF world2_reachable quiet_seatless] by (simp add: seats_ok_def)
  have "lobbies world2 0 \<noteq> None" by code_simp
  then have l: "0 \<in> live world2" by (simp add: live_def)
  let ?i = "client_id (cl (snd (lobby_add_client_locked 8 0 world2)) 8)"
  have s: "slots (lob world2 0) ! 0 = Some 7" "slots (lob world2 0) ! 1 = None" "l_type (lob world2 0) \<noteq> LOBBY_TYPE_GAME"
    by code_simp+
  have "slots (lob world2 0) ! ?i = None" "\<forall>j < ?i. slots (lob world2 0) ! j \<noteq> None"
    using lobby_add_client_slot [OF ok l r] s(3) by (simp_all add: Let_def)
  then show ?thesis using s(1,2) by (metis One_nat_def less_one linorder_neqE_nat option.distinct(1))
qed

subsection \<open>The leader\<close>

text \<open>A client that can become leader at the time \<open>t\<close>, and the one that has been there longest.\<close>

definition candidate :: "world \<Rightarrow> (ship_client \<Rightarrow> bool) \<Rightarrow> lobby \<Rightarrow> int \<Rightarrow> nat \<Rightarrow> bool" where
  "candidate w ok L t i \<longleftrightarrow> i \<noteq> unat (leader_id L) \<and>
     (case slots L ! i of None \<Rightarrow> False | Some c \<Rightarrow> join_time (cl w c) < t \<and> ok (cl w c))"

definition joined :: "world \<Rightarrow> lobby \<Rightarrow> nat \<Rightarrow> int" where
  "joined w L i = join_time (cl w (the (slots L ! i)))"

definition longest :: "world \<Rightarrow> lobby \<Rightarrow> (nat \<Rightarrow> bool) \<Rightarrow> nat \<Rightarrow> bool" where
  "longest w L P i \<longleftrightarrow> i < max_clients L \<and> P i \<and>
     (\<forall>j < max_clients L. P j \<longrightarrow> joined w L i < joined w L j \<or> joined w L i = joined w L j \<and> i \<le> j)"

lemma elect_fold:
  "(let (a, t') = fold (elect_step w ok L) [0..<n] (-1, t)
    in (\<forall>i < n. \<not> candidate w ok L t i) \<and> a = -1 \<and> t' = t \<or>
       (\<exists>i < n. candidate w ok L t i \<and> a = int i \<and> t' = joined w L i \<and>
         (\<forall>j < n. candidate w ok L t j \<longrightarrow> joined w L i < joined w L j \<or> joined w L i = joined w L j \<and> i \<le> j)))"
proof (induction n)
  case (Suc n)
  obtain a t' where f: "fold (elect_step w ok L) [0..<n] (-1, t) = (a, t')" by fastforce
  have step: "fold (elect_step w ok L) [0..<Suc n] (-1, t) = elect_step w ok L n (a, t')"
    by (simp add: f)
  have e: "elect_step w ok L n (a, t') = (if candidate w ok L t' n then (int n, joined w L n) else (a, t'))"
    by (auto simp: elect_step_def candidate_def joined_def split: option.split)
  have c: "candidate w ok L t' n \<longleftrightarrow> candidate w ok L t n \<and> joined w L n < t'" if "t' \<le> t"
    using that by (auto simp: candidate_def joined_def split: option.split)
  have le: "joined w L i \<le> t" if "candidate w ok L t i" for i
    using that by (auto simp: candidate_def joined_def split: option.splits)
  from Suc.IH consider (none) "\<forall>i < n. \<not> candidate w ok L t i" "a = -1" "t' = t"
    | (some) i where "i < n" "candidate w ok L t i" "a = int i" "t' = joined w L i"
        "\<forall>j < n. candidate w ok L t j \<longrightarrow> joined w L i < joined w L j \<or> joined w L i = joined w L j \<and> i \<le> j"
    using f by auto
  then show ?case
  proof cases
    case none
    then show ?thesis
      unfolding step e using c by (auto simp: less_Suc_eq)
  next
    case some
    show ?thesis
    proof (cases "candidate w ok L t' n")
      case True
      then have "candidate w ok L t n" "joined w L n < joined w L i" using c le some by auto
      then show ?thesis
        unfolding step e using True some by (fastforce simp: less_Suc_eq)
    next
      case False
      then have "candidate w ok L t n \<Longrightarrow> joined w L i \<le> joined w L n" using c le some by fastforce
      then show ?thesis
        unfolding step e using False some by (fastforce simp: less_Suc_eq)
    qed
  qed
qed simp

lemma elect_loop_cases:
  obtains "\<forall>i < max_clients L. \<not> candidate w ok L t i" "elect_loop w ok L (-1, t) = (-1, t)"
  | i where "longest w L (candidate w ok L t) i" "fst (elect_loop w ok L (-1, t)) = int i"
  using elect_fold [of w ok L "max_clients L" t] that
  by (auto simp: elect_loop_def longest_def split: prod.splits)

text \<open>The candidates of \<open>lobby_remove_client_locked\<close>: in a game that Gamecube players may join, the
  Dreamcast and PC players come first.\<close>

definition cross :: "lobby \<Rightarrow> bool" where
  "cross L \<longleftrightarrow> l_version L < CLIENT_VERSION_GC \<and> has_flag (l_flags L) LOBBY_FLAG_GC_ALLOWED"

definition old_version :: "world \<Rightarrow> lobby \<Rightarrow> nat \<Rightarrow> bool" where
  "old_version w L i \<longleftrightarrow> candidate w (\<lambda>c. version c < CLIENT_VERSION_GC) L (now w) i"

definition heir :: "world \<Rightarrow> lobby \<Rightarrow> nat \<Rightarrow> bool" where
  "heir w L i \<longleftrightarrow>
     (if cross L \<and> (\<exists>j < max_clients L. old_version w L j) then longest w L (old_version w L) i
      else longest w L (candidate w (\<lambda>_. True) L (now w)) i)"

lemma new_leader_heir:
  assumes "lobby_ok L"
  shows "if \<exists>j < max_clients L. candidate w (\<lambda>_. True) L (now w) j
     then heir w L (unat (leader_id (new_leader w L))) else leader_id (new_leader w L) = 0"
    and "l_version (new_leader w L) = (if cross L \<and> \<not> (\<exists>j < max_clients L. old_version w L j)
       then CLIENT_VERSION_GC else l_version L)"
proof -
  let ?any = "candidate w (\<lambda>_. True) L (now w)"
  let ?st = "elect_loop w (\<lambda>c. version c < CLIENT_VERSION_GC) L (-1, now w)"
  let ?L = "L\<lparr>l_flags := l_flags L AND NOT LOBBY_FLAG_GC_ALLOWED, l_version := CLIENT_VERSION_GC, episode := 1\<rparr>"
  have small: "unat (of_nat i :: u8) = i" if "i < max_clients L" for i
    using that assms by (simp add: lobby_ok_def LOBBY_MAX_CLIENTS_def unat_of_nat)
  have L': "elect_loop w ok ?L st = elect_loop w ok L st" for ok st
    unfolding elect_loop_def by (rule arg_cong2 [where f = "\<lambda>f xs. fold f xs st"]) (auto simp: elect_step_def fun_eq_iff)
  have old: "old_version w L j \<Longrightarrow> ?any j" for j
    by (auto simp: old_version_def candidate_def split: option.splits)
  have plain: "if \<exists>j < max_clients L. ?any j
      then longest w L ?any (unat (of_int (fst (elect_loop w (\<lambda>_. True) L (-1, now w))) :: u8)) \<and>
        fst (elect_loop w (\<lambda>_. True) L (-1, now w)) \<noteq> -1
      else fst (elect_loop w (\<lambda>_. True) L (-1, now w)) = -1"
    by (rule elect_loop_cases [of L w "\<lambda>_. True" "now w"]) (auto simp: longest_def small)
  have pref: "if \<exists>j < max_clients L. old_version w L j
      then longest w L (old_version w L) (unat (of_int (fst ?st) :: u8)) \<and> fst ?st \<noteq> -1
      else ?st = (-1, now w)"
    by (rule elect_loop_cases [of L w "\<lambda>c. version c < CLIENT_VERSION_GC" "now w"])
      (auto simp: longest_def small simp flip: old_version_def)
  show "if \<exists>j < max_clients L. ?any j then heir w L (unat (leader_id (new_leader w L)))
     else leader_id (new_leader w L) = 0"
    using plain pref old
    by (auto simp: new_leader_def heir_def cross_def lobby_elect_leader_locked_def
        lobby_elect_leader_cross_locked_def Let_def L' split: if_splits)
  show "l_version (new_leader w L) = (if cross L \<and> \<not> (\<exists>j < max_clients L. old_version w L j)
       then CLIENT_VERSION_GC else l_version L)"
    using pref
    by (auto simp: new_leader_def cross_def lobby_elect_leader_locked_def
        lobby_elect_leader_cross_locked_def Let_def split: if_splits)
qed

lemma remove_client_lob:
  assumes "l \<in> live w" "lobby_remove_client_locked c i l w = (r, w')" "slots (lob w l) ! i = Some c"
  shows "lob w' l = after_leave w i (lob w l)"
  using assms by (auto simp: remove_client_eq lob_upd_lobby live_def)

text \<open>C33: When the leader leaves, the new leader is the client that has been in the lobby longest, the one in
  the lowest slot among several, and while anybody who joined earlier than now is left there is one.
  In a cross-platform game players on Dreamcast and PC come before players on Gamecube, and if none is
  left the game becomes a Gamecube game.  When somebody else leaves, the leader stays.\<close>

theorem lobby_leader_after_leave:
  assumes "lobbies_ok w" "l \<in> live w" "i < LOBBY_MAX_CLIENTS" "slots (lob w l) ! i = Some c"
    "lobby_remove_client_locked c i l w = (r, w')"
  shows "if i \<noteq> unat (leader_id (lob w l)) then leader_id (lob w' l) = leader_id (lob w l)
     else (if \<exists>j < max_clients (lob w l). candidate w (\<lambda>_. True) (lob w l) (now w) j
           then heir w (lob w l) (unat (leader_id (lob w' l))) \<and> slots (lob w' l) ! unat (leader_id (lob w' l)) \<noteq> None
           else leader_id (lob w' l) = 0) \<and>
       l_version (lob w' l) = (if cross (lob w l) \<and> \<not> (\<exists>j < max_clients (lob w l). old_version w (lob w l) j)
          then CLIENT_VERSION_GC else l_version (lob w l))"
proof -
  let ?L = "lob w l"
  note ok = live_ok [OF assms(1,2)] and nl = new_leader_heir [OF live_ok [OF assms(1,2)], of w]
  have lw: "lob w' l = after_leave w i ?L" using remove_client_lob assms by blast
  have f: "leader_id (lob w' l) = leader_id (if i = unat (leader_id ?L) then new_leader w ?L else ?L)"
    "l_version (lob w' l) = l_version (if i = unat (leader_id ?L) then new_leader w ?L else ?L)"
    "slots (lob w' l) = (slots ?L)[i := None]"
    using after_leave_fields [of w i ?L] by (simp_all add: lw after_leave_def Let_def)
  have inh: "slots ?L ! k \<noteq> None \<and> k \<noteq> unat (leader_id ?L)" if "heir w ?L k" for k
    using that by (auto simp: heir_def longest_def candidate_def old_version_def split: if_splits option.splits)
  show ?thesis
  proof (cases "i = unat (leader_id ?L)")
    case True
    let ?k = "unat (leader_id (lob w' l))"
    have "slots (lob w' l) ! ?k \<noteq> None" if "heir w ?L ?k"
      using inh [OF that] f(3) True by (simp add: nth_list_update_neq)
    moreover have "if \<exists>j < max_clients ?L. candidate w (\<lambda>_. True) ?L (now w) j then heir w ?L ?k
        else leader_id (lob w' l) = 0"
      using nl(1) f(1) True by simp
    ultimately show ?thesis using True nl(2) f(2) by simp
  next
    case False
    then show ?thesis using f by simp
  qed
qed

text \<open>Three players: one on PC leads, one on Gamecube joined next, one on Dreamcast last.\<close>

definition cross_game :: lobby where
  "cross_game = zero_lobby\<lparr>l_type := LOBBY_TYPE_GAME, max_clients := 4, num_clients := 3, l_version := CLIENT_VERSION_PC,
     leader_id := 1, l_flags := LOBBY_FLAG_GC_ALLOWED,
     slots := [Some 12, Some 11, Some 13] @ replicate 9 None\<rparr>"

definition cross_world :: world where
  "cross_world = world0\<lparr>lobbies := (\<lambda>l. if l = 5 then Some cross_game else None),
     clients := (\<lambda>c. (new_client (if c = 11 then CLIENT_VERSION_PC else if c = 12 then CLIENT_VERSION_GC
        else CLIENT_VERSION_DCV2) 0)\<lparr>join_time := int c, cur_lobby := Some 5\<rparr>)\<rparr>"

theorem lobby_leader_after_leave_witness:
  "heir cross_world cross_game (unat (leader_id (lob (snd (lobby_remove_client_locked 11 1 5 cross_world)) 5))) \<and>
     leader_id (lob (snd (lobby_remove_client_locked 11 1 5 cross_world)) 5) = 2"
proof
  have ok: "lobbies_ok cross_world"
    by (auto simp: lobbies_ok_def cross_world_def lobby_ok_def cross_game_def zero_lobby_def LOBBY_MAX_CLIENTS_def
        occupied_def version_defs nth_Cons' split: if_splits)
  have l: "5 \<in> live cross_world" "lob cross_world 5 = cross_game"
    by (simp_all add: live_def lob_def cross_world_def)
  have s: "slots (lob cross_world 5) ! 1 = Some 11" "unat (leader_id cross_game) = 1"
    by (simp_all add: l(2) cross_game_def)
  have "candidate cross_world (\<lambda>_. True) cross_game (now cross_world) 0 \<and> 0 < max_clients cross_game" by code_simp
  then have ex: "\<exists>j < max_clients cross_game. candidate cross_world (\<lambda>_. True) cross_game (now cross_world) j" by blast
  have one: "1 < LOBBY_MAX_CLIENTS" by (simp add: LOBBY_MAX_CLIENTS_def)
  show "heir cross_world cross_game (unat (leader_id (lob (snd (lobby_remove_client_locked 11 1 5 cross_world)) 5)))"
    using lobby_leader_after_leave [OF ok l(1) one s(1) prod.collapse [symmetric], unfolded l(2) s(2)] ex by simp
  show "leader_id (lob (snd (lobby_remove_client_locked 11 1 5 cross_world)) 5) = 2" by code_simp
qed

subsection \<open>The challenge level\<close>

definition seated :: "lobby \<Rightarrow> cref set" where
  "seated L = {c. \<exists>i < max_clients L. slots L ! i = Some c}"

definition stages :: "world \<Rightarrow> lobby \<Rightarrow> nat set" where
  "stages w L = (\<lambda>c. stages_done (the (rank_times (cl w c)))) ` seated L"

definition all_ranked :: "world \<Rightarrow> lobby \<Rightarrow> bool" where
  "all_ranked w L \<longleftrightarrow> (\<forall>c \<in> seated L. rank_times (cl w c) \<noteq> None)"

lemma stages_done_le: "stages_done ts \<le> 9"
proof -
  have "length (takeWhile (\<lambda>t. t \<noteq> 0) (take 9 ts)) \<le> length (take 9 ts)" by (rule length_takeWhile_le)
  then show ?thesis by (simp add: stages_done_def)
qed

lemma max_challenge_loop_eq:
  assumes "\<forall>c. Some c \<in> set xs \<longrightarrow> rank_times (cl w c) \<noteq> None"
  shows "max_challenge_loop w xs m
     = Some (Min (insert m {stages_done (the (rank_times (cl w c))) | c. Some c \<in> set xs}))"
  using assms
proof (induction xs arbitrary: m)
  case (Cons x xs)
  let ?S = "\<lambda>xs. {stages_done (the (rank_times (cl w c))) | c. Some c \<in> set xs}"
  have fin: "finite (?S xs)" for xs
  proof -
    have "?S xs \<subseteq> {..9}" using stages_done_le by auto
    then show ?thesis by (rule finite_subset) simp
  qed
  show ?case
  proof (cases x)
    case None
    then show ?thesis using Cons by simp
  next
    case (Some c)
    then obtain ts where ts: "rank_times (cl w c) = Some ts" using Cons.prems by auto
    have S: "?S (x # xs) = insert (stages_done ts) (?S xs)" using Some ts by force
    have "max_challenge_loop w (x # xs) m = Some (Min (insert (min (stages_done ts) m) (?S xs)))"
      using Cons Some ts by (auto simp: Let_def min_def)
    also have "Min (insert (min (stages_done ts) m) (?S xs)) = Min (insert m (?S (x # xs)))"
    proof (cases "?S xs = {}")
      case False
      then show ?thesis unfolding S using fin [of xs] by (simp add: Min_insert min.assoc min.left_commute min.commute)
    qed (simp only: S, simp add: min.commute)
    finally show ?thesis .
  qed
qed simp

lemma find_max_challenge_eq:
  assumes "challenge L \<noteq> 0" "all_ranked w L" "length (slots L) = LOBBY_MAX_CLIENTS" "max_clients L \<le> LOBBY_MAX_CLIENTS"
    "stages w L \<noteq> {}"
  shows "lobby_find_max_challenge w L = of_nat (Min (stages w L) + 1)" "Min (stages w L) \<le> 9"
proof -
  have set: "Some c \<in> set (take (max_clients L) (slots L)) \<longleftrightarrow> c \<in> seated L" for c
    using assms(3,4) by (auto simp: in_set_conv_nth seated_def)
  have S: "stages w L = {stages_done (the (rank_times (cl w c))) | c. Some c \<in> set (take (max_clients L) (slots L))}"
    unfolding set stages_def by blast
  have sub: "stages w L \<subseteq> {..9}" using stages_done_le by (auto simp: stages_def)
  then have fin: "finite (stages w L)" by (rule finite_subset) simp
  show le: "Min (stages w L) \<le> 9" using Min_in [OF fin assms(5)] sub by auto
  have "max_challenge_loop w (take (max_clients L) (slots L)) 255 = Some (Min (insert 255 (stages w L)))"
    unfolding S using assms(2) by (intro max_challenge_loop_eq) (auto simp: set all_ranked_def)
  also have "Min (insert 255 (stages w L)) = Min (stages w L)"
    using fin assms(5) le by (simp add: Min_insert)
  finally show "lobby_find_max_challenge w L = of_nat (Min (stages w L) + 1)"
    using assms(1) by (simp add: lobby_find_max_challenge_def)
qed

text \<open>The level of a challenge game is the first stage somebody in it has not finished.\<close>

definition level_ok :: "world \<Rightarrow> lobby \<Rightarrow> bool" where
  "level_ok w L \<longleftrightarrow> all_ranked w L \<and>
     max_chal L = (if stages w L = {} then 0xFF else of_nat (Min (stages w L) + 1))"

lemma finite_stages: "finite (stages w L)"
proof -
  have "stages w L \<subseteq> {..9}" using stages_done_le by (auto simp: stages_def)
  then show ?thesis by (rule finite_subset) simp
qed

lemma rank_times_seat [simp]:
  "rank_times (x\<lparr>cur_lobby := a, client_id := b, arrow := d, join_time := t\<rparr>) = rank_times x"
  "rank_times (x\<lparr>cur_lobby := a, client_id := b\<rparr>) = rank_times x"
  by (simp_all add: rank_times_def)

lemma unat_level: "k \<le> 9 \<Longrightarrow> unat (of_nat k + 1 :: u8) = k + 1"
  using unat_of_nat [of "k + 1", where ?'a = 8] by (simp add: add.commute)

lemma u8_level_less: "a \<le> 9 \<Longrightarrow> b \<le> 9 \<Longrightarrow> (of_nat a + 1 :: u8) < of_nat b + 1 \<longleftrightarrow> a < b"
  by (simp add: word_less_nat_alt unat_level)

lemma seated_join:
  assumes "i < max_clients L" "i < length (slots L)" "slots L ! i = None" "max_clients L' = max_clients L"
    "slots L' = (slots L)[i := Some c]"
  shows "seated L' = insert c (seated L)"
proof -
  have "(\<exists>k < max_clients L. (slots L)[i := Some c] ! k = Some d) \<longleftrightarrow> d = c \<or> (\<exists>k < max_clients L. slots L ! k = Some d)" for d
    using assms(1-3) by (auto simp: nth_update_if) (metis option.distinct(1))
  then show ?thesis using assms(4,5) by (auto simp: seated_def)
qed

lemma seated_leave:
  "max_clients L' = max_clients L \<Longrightarrow> slots L' = (slots L)[i := None] \<Longrightarrow> seated L' \<subseteq> seated L"
  by (auto simp: seated_def nth_update_if split: if_splits)

lemma level_after_join:
  assumes "lobbies_ok w" "l \<in> live w" "challenge (lob w l) \<noteq> 0" "level_ok w (lob w l)"
    "lobby_add_client_locked c l w = (0, w')"
  shows "level_ok w' (lob w' l)"
proof -
  let ?L = "lob w l" and ?s = "stages_done (the (rank_times (cl w c)))"
  note ok = live_ok [OF assms(1,2)]
  obtain i where i: "w' = place_client c l i (of_nat ?s + 1) w" "i < max_clients ?L" "slots ?L ! i = None"
      "rank_times (cl w c) \<noteq> None"
    using assms(3,5) free_slot_exists [OF ok]
    by (auto simp: add_client_eq [OF ok] may_enter_def split: if_splits)
  have len: "length (slots ?L) = LOBBY_MAX_CLIENTS" "max_clients ?L \<le> LOBBY_MAX_CLIENTS" using ok by (simp_all add: lobby_ok_def)
  have L': "slots (lob w' l) = (slots ?L)[i := Some c]" "max_clients (lob w' l) = max_clients ?L"
    "max_chal (lob w' l) = (if max_chal ?L > of_nat ?s + 1 then of_nat ?s + 1 else max_chal ?L)"
    unfolding i(1) lob_place [OF assms(2)] using assms(3) by (simp_all add: Let_def)
  have r: "rank_times (cl w' d) = rank_times (cl w d)" for d by (simp add: i(1))
  have seats: "seated (lob w' l) = insert c (seated ?L)"
    by (rule seated_join) (use i(2,3) L'(1,2) len in auto)
  then have st: "stages w' (lob w' l) = insert ?s (stages w ?L)"
    by (simp add: stages_def r)
  have "all_ranked w' (lob w' l)"
    using assms(4) i(4) seats by (simp add: level_ok_def all_ranked_def r)
  moreover have "max_chal (lob w' l) = of_nat (Min (insert ?s (stages w ?L)) + 1)"
  proof (cases "stages w ?L = {}")
    case True
    then have "max_chal ?L = 0xFF" using assms(4) by (simp add: level_ok_def)
    moreover have "(of_nat ?s + 1 :: u8) < 0xFF"
      using unat_level [OF stages_done_le] stages_done_le [of "the (rank_times (cl w c))"]
      by (simp add: word_less_nat_alt)
    ultimately show ?thesis using L'(3) True by simp
  next
    case False
    let ?m = "Min (stages w ?L)"
    have m: "?m \<le> 9" using Min_in [OF finite_stages False] stages_done_le by (auto simp: stages_def)
    have "max_chal ?L = of_nat ?m + 1" using assms(4) False by (simp add: level_ok_def)
    then have "max_chal (lob w' l) = of_nat (min ?s ?m) + 1"
      using L'(3) u8_level_less [OF stages_done_le m] by (auto simp: min_def)
    then show ?thesis using False finite_stages by (simp add: Min_insert)
  qed
  ultimately show ?thesis using st by (simp add: level_ok_def)
qed

lemma level_after_leave:
  assumes "lobbies_ok w" "l \<in> live w" "challenge (lob w l) \<noteq> 0" "level_ok w (lob w l)" "i < LOBBY_MAX_CLIENTS"
    "lobby_remove_client_locked c i l w = (r, w')" "slots (lob w l) ! i = Some c" "num_clients (lob w l) \<noteq> 1"
  shows "level_ok w' (lob w' l)"
proof -
  let ?L = "lob w l"
  note ok = live_ok [OF assms(1,2)]
  have rm: "lobby_remove_client_locked c i l w = (r, w')" "0 \<le> r"
    using assms(6,7) by (auto simp: remove_client_eq split: if_splits)
  note rem = remove_client_ok [OF assms(1,2,5) rm] and lw = remove_client_lob [OF assms(2,6,7)]
  define L1 where "L1 = (if i = unat (leader_id ?L) then new_leader w ?L else ?L)
    \<lparr>slots := (slots ?L)[i := None], num_clients := num_clients ?L - 1\<rparr>"
  have L1: "challenge L1 = challenge ?L" "max_clients L1 = max_clients ?L" "slots L1 = (slots ?L)[i := None]"
    using new_leader_slots [of w ?L] by (simp_all add: L1_def)
  have lw': "lob w' l = L1\<lparr>max_chal := lobby_find_max_challenge w L1\<rparr>"
    using assms(3) new_leader_slots [of w ?L] by (auto simp: lw after_leave_def Let_def L1_def)
  have len: "length (slots ?L) = LOBBY_MAX_CLIENTS" "max_clients ?L \<le> LOBBY_MAX_CLIENTS" using ok by (simp_all add: lobby_ok_def)
  have r: "rank_times (cl w' d) = rank_times (cl w d)" for d using rem by simp
  have ranked: "all_ranked w L1"
    using assms(4) seated_leave [OF L1(2,3)] by (auto simp: level_ok_def all_ranked_def)
  have ne: "stages w L1 \<noteq> {}"
  proof -
    have "occupied ((slots ?L)[i := None]) \<noteq> 0"
      using assms(8) occupied_clear [of i "slots ?L" c] assms(5,7) len ok by (simp add: lobby_ok_def)
    then obtain k d where k: "k < LOBBY_MAX_CLIENTS" "(slots ?L)[i := None] ! k = Some d"
      using len by (auto simp: occupied_0)
    then have "slots ?L ! k \<noteq> None" using len assms(5) by (auto simp: nth_list_update split: if_splits)
    then have "k < max_clients ?L" using ok k(1) by (force simp: lobby_ok_def not_less)
    then show ?thesis using k(2) by (auto simp: stages_def seated_def L1)
  qed
  have eq: "lobby_find_max_challenge w L1 = of_nat (Min (stages w L1) + 1)"
    by (rule find_max_challenge_eq(1)) (use assms(3) L1 ranked len ne in auto)
  have "stages w' (lob w' l) = stages w L1" "all_ranked w' (lob w' l) = all_ranked w L1"
    by (simp_all add: stages_def all_ranked_def seated_def r lw')
  then show ?thesis using ranked ne eq by (simp add: level_ok_def lw')
qed

text \<open>C34: The level a challenge game offers is kept right: whoever joins, and whoever leaves as long as
  somebody stays, it is one more than the least number of stages that a player in it has finished.\<close>

theorem lobby_challenge_level:
  assumes "lobbies_ok w" "l \<in> live w" "challenge (lob w l) \<noteq> 0" "level_ok w (lob w l)"
  shows "(lobby_add_client_locked c l w = (0, w') \<longrightarrow> level_ok w' (lob w' l)) \<and>
     (lobby_remove_client_locked c i l w = (r, w') \<and> i < LOBBY_MAX_CLIENTS \<and> slots (lob w l) ! i = Some c \<and>
       num_clients (lob w l) \<noteq> 1 \<longrightarrow> level_ok w' (lob w' l))"
  using level_after_join [OF assms] level_after_leave [OF assms] by blast

text \<open>A challenge game with nobody in it, and a Gamecube player who has finished two stages.\<close>

definition challenge_world :: world where
  "challenge_world = world0\<lparr>lobbies := (\<lambda>l. if l = 5 then Some (zero_lobby\<lparr>l_type := LOBBY_TYPE_GAME, max_clients := 4,
       l_version := CLIENT_VERSION_GC, challenge := 1, max_chal := 0xFF\<rparr>) else None),
     clients := (\<lambda>c. (new_client CLIENT_VERSION_GC 0)\<lparr>v3_times := [90, 80] @ replicate 7 0\<rparr>)\<rparr>"

theorem lobby_challenge_level_witness:
  "level_ok (snd (lobby_add_client_locked 3 5 challenge_world)) (lob (snd (lobby_add_client_locked 3 5 challenge_world)) 5)"
proof -
  have ok: "lobbies_ok challenge_world"
    by (auto simp: lobbies_ok_def challenge_world_def lobby_ok_def zero_lobby_def LOBBY_MAX_CLIENTS_def
        occupied_def version_defs split: if_splits)
  have l: "5 \<in> live challenge_world" by (simp add: live_def challenge_world_def)
  have c: "challenge (lob challenge_world 5) \<noteq> 0" "fst (lobby_add_client_locked 3 5 challenge_world) = 0"
    by code_simp+
  have "slots (lob challenge_world 5) = replicate LOBBY_MAX_CLIENTS None" "max_clients (lob challenge_world 5) = 4"
    "max_chal (lob challenge_world 5) = 0xFF"
    by (simp_all add: lob_def challenge_world_def zero_lobby_def)
  moreover have "replicate LOBBY_MAX_CLIENTS None ! i \<noteq> Some c" if "i < 4" for i and c :: cref
    using that by (simp add: LOBBY_MAX_CLIENTS_def)
  ultimately have "seated (lob challenge_world 5) = {}" "max_chal (lob challenge_world 5) = 0xFF"
    by (auto simp: seated_def)
  then have "level_ok challenge_world (lob challenge_world 5)"
    by (simp add: level_ok_def all_ranked_def stages_def)
  then show ?thesis
    using lobby_challenge_level [OF ok l c(1)] c(2) by (metis prod.collapse)
qed

end
