(* ===== verification/Lobby_Packets.thy ===== *)
theory Lobby_Packets
  imports Lobby_Props
begin

section \<open>Creating a game\<close>

text \<open>New games get an id that is free and change nothing else.\<close>



subsection \<open>Who gets a packet\<close>

definition seat_list :: "lobby \<Rightarrow> cref list" where
  "seat_list L = map the (filter (\<lambda>x. x \<noteq> None) (take (max_clients L) (slots L)))"

lemma each_client_fold: "each_client f xs w = fold f (map the (filter (\<lambda>x. x \<noteq> None) xs)) w"
  by (induction xs arbitrary: w) (auto split: option.split)

lemma for_clients_fold: "for_clients l f w = fold f (seat_list (lob w l)) w"
  by (simp add: for_clients_def each_client_fold seat_list_def)

lemma fold_emit:
  assumes "\<And>d w'. clients w' = clients w \<Longrightarrow> lobbies w' = lobbies w \<Longrightarrow>
     f d w' = (if P d then emit (Send_pkt d (h d)) w' else w')"
  shows "fold f ds (w\<lparr>sent := sent w @ es\<rparr>) = w\<lparr>sent := sent w @ es @ map (\<lambda>d. Send_pkt d (h d)) (filter P ds)\<rparr>"
proof (induction ds arbitrary: es)
  case (Cons d ds)
  have "f d (w\<lparr>sent := sent w @ es\<rparr>) = w\<lparr>sent := sent w @ (es @ (if P d then [Send_pkt d (h d)] else []))\<rparr>"
    using assms [of "w\<lparr>sent := sent w @ es\<rparr>" d] by (simp add: emit_def)
  then show ?case using Cons.IH by simp
qed simp

lemma fold_emit_all:
  assumes "\<And>d w'. clients w' = clients w \<Longrightarrow> lobbies w' = lobbies w \<Longrightarrow>
     f d w' = (if P d then emit (Send_pkt d (h d)) w' else w')"
  shows "fold f ds w = w\<lparr>sent := sent w @ map (\<lambda>d. Send_pkt d (h d)) (filter P ds)\<rparr>"
  using fold_emit [where f = f and w = w and es = "[]" and P = P and h = h, OF assms] by simp

text \<open>A packet to a lobby goes, once each and in the order of the slots, to everybody in the lobby except
  its sender and, when the ignore lists are to be respected, whoever ignores the sender; nothing else
  happens.  On an Episode 3 lobby only, and there to everybody but the sender, in the third case.\<close>

theorem lobby_send_pkt_recipients:
  "lobby_send_pkt_dc l c h ig w = w\<lparr>sent := sent w @ map (\<lambda>d. Send_pkt d h)
     (filter (\<lambda>d. d \<noteq> c \<and> \<not> (ig \<and> client_has_ignored (cl w d) (guildcard (cl w c)))) (seat_list (lob w l)))\<rparr> \<and>
   lobby_send_pkt_bb l c h ig w = lobby_send_pkt_dc l c h ig w \<and>
   lobby_send_pkt_ep3 l c h w = w\<lparr>sent := sent w @ map (\<lambda>d. Send_pkt d h)
     (filter (\<lambda>d. d \<noteq> c \<and> l_version (lob w l) = CLIENT_VERSION_EP3) (seat_list (lob w l)))\<rparr>"
proof (intro conjI)
  show "lobby_send_pkt_dc l c h ig w = w\<lparr>sent := sent w @ map (\<lambda>d. Send_pkt d h)
     (filter (\<lambda>d. d \<noteq> c \<and> \<not> (ig \<and> client_has_ignored (cl w d) (guildcard (cl w c)))) (seat_list (lob w l)))\<rparr>"
    unfolding lobby_send_pkt_dc_def for_clients_fold
    by (rule fold_emit_all) (simp add: cl_def)
  show "lobby_send_pkt_bb l c h ig w = lobby_send_pkt_dc l c h ig w"
    by (simp add: lobby_send_pkt_bb_def lobby_send_pkt_dc_def)
  show "lobby_send_pkt_ep3 l c h w = w\<lparr>sent := sent w @ map (\<lambda>d. Send_pkt d h)
     (filter (\<lambda>d. d \<noteq> c \<and> l_version (lob w l) = CLIENT_VERSION_EP3) (seat_list (lob w l)))\<rparr>"
    unfolding lobby_send_pkt_ep3_def for_clients_fold
    by (rule fold_emit_all) (simp add: lob_def)
qed

end
