(* ===== verification/Subcmd_Send.thy ===== *)
theory Subcmd_Send
  imports Lobby
begin

section \<open>Sending subcommands\<close>

text \<open>
  The part of \<open>ship_server/src/subcmd.c\<close> that builds and sends packets, \<open>subcmd-dcnte.c\<close> with the
  translation between the numbers the Dreamcast network trial edition and the later versions give to
  the same subcommands, and the change of a player's statistics of \<open>ship_packets.c\<close>.
\<close>

text \<open>
  What the handlers of subcommands ask their surroundings for, beyond \<open>env\<close>: whether memory is
  there, the conversion of text (\<open>iconv\<close>: the bytes written for an input and the room in the
  output), the table of experience for each class and level, and the values of the local variables
  that the code reads before it has set them.
\<close>

datatype charset = Ic_8859_to_utf16 | Ic_sjis_to_utf16 | Ic_utf16_to_ascii | Ic_utf16_to_8859 | Ic_utf16_to_sjis

record level_entry =
  e_stats :: "u8 list"
  e_exp :: u32

record sub_env = env +
  has_mem :: bool
  iconv :: "charset \<Rightarrow> u8 list \<Rightarrow> nat \<Rightarrow> u8 list"
  levels :: "nat \<Rightarrow> nat \<Rightarrow> level_entry"
  junk_isframe :: int
  junk_item :: item_t
  junk_items :: "item_t list"
  junk_enemy :: game_enemy
  junk_bytes :: "u8 list"

definition lobby_of :: "world \<Rightarrow> cref \<Rightarrow> lref" where
  "lobby_of w c = the (cur_lobby (cl w c))"

definition le16_bytes :: "u16 \<Rightarrow> u8 list" where
  "le16_bytes x = [ucast x, ucast (drop_bit 8 x)]"

definition send_pkt :: "'e env_scheme \<Rightarrow> cref \<Rightarrow> packet \<Rightarrow> world \<Rightarrow> int \<times> world" where
  "send_pkt e c p w = (if send_fails e (Send_pkt c p) then -1 else 0, emit (Send_pkt c p) w)"

definition send_txt :: "'e env_scheme \<Rightarrow> cref \<Rightarrow> string \<Rightarrow> world \<Rightarrow> int \<times> world" where
  "send_txt e c s w = (if send_fails e (Send_txt c s) then -1 else 0, emit (Send_txt c s) w)"

subsection \<open>The network trial edition\<close>

definition SUBCMD_SET_AREA_21 :: u8 where "SUBCMD_SET_AREA_21 = 0x21"
definition SUBCMD_FINISH_LOAD :: u8 where "SUBCMD_FINISH_LOAD = 0x23"
definition SUBCMD_SET_POS_3F :: u8 where "SUBCMD_SET_POS_3F = 0x3F"
definition SUBCMD_MOVE_SLOW :: u8 where "SUBCMD_MOVE_SLOW = 0x40"
definition SUBCMD_MOVE_FAST :: u8 where "SUBCMD_MOVE_FAST = 0x42"
definition SUBCMD_TALK_DESK :: u8 where "SUBCMD_TALK_DESK = 0x52"
definition SUBCMD_DCNTE_SET_AREA :: u8 where "SUBCMD_DCNTE_SET_AREA = 0x1D"
definition SUBCMD_DCNTE_FINISH_LOAD :: u8 where "SUBCMD_DCNTE_FINISH_LOAD = 0x1F"
definition SUBCMD_DCNTE_SET_POS :: u8 where "SUBCMD_DCNTE_SET_POS = 0x36"
definition SUBCMD_DCNTE_MOVE_SLOW :: u8 where "SUBCMD_DCNTE_MOVE_SLOW = 0x37"
definition SUBCMD_DCNTE_MOVE_FAST :: u8 where "SUBCMD_DCNTE_MOVE_FAST = 0x39"
definition SUBCMD_DCNTE_TALK_DESK :: u8 where "SUBCMD_DCNTE_TALK_DESK = 0x46"

lemmas nte_defs = SUBCMD_SET_AREA_21_def SUBCMD_FINISH_LOAD_def SUBCMD_SET_POS_3F_def SUBCMD_MOVE_SLOW_def
  SUBCMD_MOVE_FAST_def SUBCMD_TALK_DESK_def SUBCMD_DCNTE_SET_AREA_def SUBCMD_DCNTE_FINISH_LOAD_def
  SUBCMD_DCNTE_SET_POS_def SUBCMD_DCNTE_MOVE_SLOW_def SUBCMD_DCNTE_MOVE_FAST_def SUBCMD_DCNTE_TALK_DESK_def

definition sub_type :: "packet \<Rightarrow> u8" where "sub_type p = payload p ! 0"

text \<open>The switches of the three translations; \<open>None\<close> drops the packet.\<close>

definition dc_to_nte_type :: "u8 \<Rightarrow> u8 option" where
  "dc_to_nte_type t =
     (if t = SUBCMD_SET_AREA_21 then Some SUBCMD_DCNTE_SET_AREA
      else if t = SUBCMD_FINISH_LOAD then Some SUBCMD_DCNTE_FINISH_LOAD
      else if t = SUBCMD_SET_POS_3F then Some SUBCMD_DCNTE_SET_POS
      else if t = SUBCMD_MOVE_SLOW then Some SUBCMD_DCNTE_MOVE_SLOW
      else if t = SUBCMD_MOVE_FAST then Some SUBCMD_DCNTE_MOVE_FAST
      else if t = SUBCMD_TALK_DESK then Some SUBCMD_DCNTE_TALK_DESK
      else None)"

definition bb_to_nte_type :: "u8 \<Rightarrow> u8 option" where
  "bb_to_nte_type t =
     (if t = SUBCMD_SET_AREA_21 then Some SUBCMD_DCNTE_SET_AREA
      else if t = SUBCMD_FINISH_LOAD then Some SUBCMD_DCNTE_FINISH_LOAD
      else if t = SUBCMD_SET_POS_3F then Some SUBCMD_DCNTE_SET_POS
      else if t = SUBCMD_MOVE_SLOW then Some SUBCMD_DCNTE_MOVE_SLOW
      else if t = SUBCMD_MOVE_FAST then Some SUBCMD_DCNTE_MOVE_FAST
      else if t = SUBCMD_TALK_DESK then Some SUBCMD_DCNTE_TALK_DESK
      else None)"

definition nte_to_dc_type :: "u8 \<Rightarrow> u8 option" where
  "nte_to_dc_type t =
     (if t = SUBCMD_DCNTE_SET_AREA then Some SUBCMD_SET_AREA_21
      else if t = SUBCMD_DCNTE_FINISH_LOAD then Some SUBCMD_FINISH_LOAD
      else if t = SUBCMD_DCNTE_SET_POS then Some SUBCMD_SET_POS_3F
      else if t = SUBCMD_DCNTE_MOVE_SLOW then Some SUBCMD_MOVE_SLOW
      else if t = SUBCMD_DCNTE_MOVE_FAST then Some SUBCMD_MOVE_FAST
      else if t = SUBCMD_DCNTE_TALK_DESK then Some SUBCMD_TALK_DESK
      else None)"

definition send_translated :: "sub_env \<Rightarrow> (u8 \<Rightarrow> u8 option) \<Rightarrow> cref \<Rightarrow> packet \<Rightarrow> world \<Rightarrow> int \<times> world" where
  "send_translated e types c p w =
     (case types (sub_type p) of
        None \<Rightarrow> (0, w)
      | Some t \<Rightarrow>
          if \<not> has_mem e then (-1, w) else send_pkt e c (p\<lparr>payload := (payload p)[0 := t]\<rparr>) w)"

definition subcmd_translate_dc_to_nte :: "sub_env \<Rightarrow> cref \<Rightarrow> packet \<Rightarrow> world \<Rightarrow> int \<times> world" where
  "subcmd_translate_dc_to_nte e c p w = send_translated e dc_to_nte_type c p w"

definition subcmd_translate_bb_to_nte :: "sub_env \<Rightarrow> cref \<Rightarrow> packet \<Rightarrow> world \<Rightarrow> int \<times> world" where
  "subcmd_translate_bb_to_nte e c p w = send_translated e bb_to_nte_type c p w"

definition subcmd_translate_nte_to_dc :: "sub_env \<Rightarrow> cref \<Rightarrow> packet \<Rightarrow> world \<Rightarrow> int \<times> world" where
  "subcmd_translate_nte_to_dc e c p w = send_translated e nte_to_dc_type c p w"

subsection \<open>To the lobby\<close>

definition subcmd_send_lobby_dc :: "sub_env \<Rightarrow> lref \<Rightarrow> cref \<Rightarrow> packet \<Rightarrow> bool \<Rightarrow> world \<Rightarrow> int \<times> world" where
  "subcmd_send_lobby_dc e l c p igcheck w =
     (0, for_clients l (\<lambda>d w. if d = c then w
           else if igcheck \<and> client_has_ignored (cl w d) (guildcard (cl w c)) then w
           else if \<not> has_flag (flags (cl w d)) CLIENT_FLAG_IS_DCNTE then snd (send_pkt e d p w)
           else snd (subcmd_translate_dc_to_nte e d p w)) w)"

definition subcmd_send_lobby_dcnte :: "sub_env \<Rightarrow> lref \<Rightarrow> cref \<Rightarrow> packet \<Rightarrow> bool \<Rightarrow> world \<Rightarrow> int \<times> world" where
  "subcmd_send_lobby_dcnte e l c p igcheck w =
     (0, for_clients l (\<lambda>d w. if d = c then w
           else if igcheck \<and> client_has_ignored (cl w d) (guildcard (cl w c)) then w
           else if has_flag (flags (cl w d)) CLIENT_FLAG_IS_DCNTE then snd (send_pkt e d p w)
           else snd (subcmd_translate_nte_to_dc e d p w)) w)"

text \<open>The sender is \<open>NULL\<close> (here \<open>None\<close>) when the server itself has something to tell everybody.\<close>

definition subcmd_send_lobby_bb :: "sub_env \<Rightarrow> lref \<Rightarrow> cref option \<Rightarrow> packet \<Rightarrow> bool \<Rightarrow> world \<Rightarrow> int \<times> world" where
  "subcmd_send_lobby_bb e l c p igcheck w =
     (0, for_clients l (\<lambda>d w. if Some d = c then w
           else if igcheck \<and> client_has_ignored (cl w d) (guildcard (cl w (the c))) then w
           else if \<not> has_flag (flags (cl w d)) CLIENT_FLAG_IS_DCNTE then snd (send_pkt e d p w)
           else snd (subcmd_translate_bb_to_nte e d p w)) w)"

subsection \<open>Packets of the server\<close>

definition command0 :: "u16 \<Rightarrow> u8 list \<Rightarrow> packet" where
  "command0 len d = \<lparr>pkt_type = GAME_COMMAND0_TYPE, pkt_len = len, pkt_flags = 0, payload = d\<rparr>"

definition subcmd_send_bb_lobby_item :: "sub_env \<Rightarrow> lref \<Rightarrow> packet \<Rightarrow> item_t \<Rightarrow> world \<Rightarrow> int \<times> world" where
  "subcmd_send_bb_lobby_item e l req it w =
     (let p = payload req;
          gen = command0 0x0030 ([0x5F, 0x0B, 0, 0, p ! 4, p ! 5, p ! 6, p ! 7] @ take 8 (drop 8 p) @
                  le32_bytes (get_le32 p 16 AND 0x0000FFFF) @ data_b it @ le32_bytes (item_id it) @ data2_b it)
      in (0, for_clients l (\<lambda>d w. snd (send_pkt e d gen w)) w))"

text \<open>The goods of the shop: eleven of them, each with a random price.\<close>

primrec shop_items :: "nat \<Rightarrow> u32 \<Rightarrow> world \<Rightarrow> u8 list \<times> world" where
  "shop_items 0 i w = ([], w)"
| "shop_items (Suc n) i w =
     (let (r, w) = next_random w;
          (rest, w) = shop_items n (i + 1) w
      in (le32_bytes (0x03 OR push_bit 8 i) @ le32_bytes 0 @ le32_bytes 0 @ le32_bytes 0xFFFFFFFF @
            le32_bytes (r mod 255) @ rest, w))"

definition subcmd_send_shop_inv :: "sub_env \<Rightarrow> cref \<Rightarrow> packet \<Rightarrow> world \<Rightarrow> int \<times> world" where
  "subcmd_send_shop_inv e c req w =
     (let (goods, w) = shop_items 0x0B 0 w;
          d = [0xB6, 0x3B, 0, 0, payload req ! 4, 0x0B, 0, 0] @ goods
      in send_pkt e c (command0 0x00EC (take (0x00EC - 8) (d @ replicate 504 0))) w)"

definition subcmd_send_drop_stack :: "sub_env \<Rightarrow> cref \<Rightarrow> u32 \<Rightarrow> u32 \<Rightarrow> u32 \<Rightarrow> item_t \<Rightarrow> world \<Rightarrow> int \<times> world" where
  "subcmd_send_drop_stack e c area x z it w =
     subcmd_send_lobby_bb e (lobby_of w c) None
       (command0 0x002C ([0x5D, 0x09, of_nat (client_id (cl w c)), 0] @ le32_bytes area @ le32_bytes x @
          le32_bytes z @ data_b it @ le32_bytes (item_id it) @ data2_b it)) False w"

definition subcmd_send_picked_up :: "sub_env \<Rightarrow> cref \<Rightarrow> u8 list \<Rightarrow> u32 \<Rightarrow> u8 list \<Rightarrow> bool \<Rightarrow> world \<Rightarrow> int \<times> world" where
  "subcmd_send_picked_up e c d iid d2 send_to_client w =
     (let pick = command0 0x0024 ([0xBE, 0x07, of_nat (client_id (cl w c)), 0] @ d @ le32_bytes iid @ d2 @
            le32_bytes 0)
      in subcmd_send_lobby_bb e (lobby_of w c) (if send_to_client then None else Some c) pick False w)"

definition subcmd_send_destroy_map_item :: "sub_env \<Rightarrow> cref \<Rightarrow> u8 \<Rightarrow> u32 \<Rightarrow> world \<Rightarrow> int \<times> world" where
  "subcmd_send_destroy_map_item e c area iid w =
     (let cid = of_nat (client_id (cl w c))
      in subcmd_send_lobby_bb e (lobby_of w c) None
           (command0 0x0014 ([0x59, 0x03, cid, 0, cid, 0, area, 0] @ le32_bytes iid)) False w)"

definition subcmd_send_destroy_item :: "sub_env \<Rightarrow> cref \<Rightarrow> u32 \<Rightarrow> u8 \<Rightarrow> world \<Rightarrow> int \<times> world" where
  "subcmd_send_destroy_item e c iid amt w =
     subcmd_send_lobby_bb e (lobby_of w c) (Some c)
       (command0 0x0014 ([0x29, 0x03, of_nat (client_id (cl w c)), 0] @ le32_bytes iid @
          le32_bytes (ucast amt))) False w"

definition subcmd_send_bb_exp :: "sub_env \<Rightarrow> cref \<Rightarrow> u32 \<Rightarrow> world \<Rightarrow> int \<times> world" where
  "subcmd_send_bb_exp e c ex w =
     subcmd_send_lobby_bb e (lobby_of w c) None
       (command0 0x0010 ([0xBF, 0x02, of_nat (client_id (cl w c)), 0] @ le32_bytes ex)) False w"

text \<open>The statistics of a character with the bonus of the first mag it wears.\<close>

definition with_mag :: "u16 list \<Rightarrow> item_t \<Rightarrow> u16 list" where
  "with_mag st mag =
     (let half = (\<lambda>i. ucast (data_b mag ! (2 * i)) OR push_bit 8 (ucast (data_b mag ! (2 * i + 1))) :: u16);
          st = st[4 := st ! 4 + half 2 div 100];
          st = st[0 := st ! 0 + half 3 div 50];
          st = st[5 := st ! 5 + half 4 div 200]
      in st[1 := st ! 1 + half 5 div 50])"

definition worn_mag :: "inventory \<Rightarrow> item_t option" where
  "worn_mag pinv = List.find (\<lambda>it. item_flags it AND 8 \<noteq> 0 \<and> data_b it ! 0 = 0x02)
     (take (unat (inv_count pinv)) (inv_items pinv))"

definition subcmd_send_bb_level :: "sub_env \<Rightarrow> cref \<Rightarrow> world \<Rightarrow> int \<times> world" where
  "subcmd_send_bb_level e c w =
     (let x = cl w c;
          st = (case worn_mag (bb_inv x) of None \<Rightarrow> bb_stats x | Some mag \<Rightarrow> with_mag (bb_stats x) mag)
      in subcmd_send_lobby_bb e (lobby_of w c) None
           (command0 0x001C ([0x30, 0x05, of_nat (client_id x), 0] @ concat (map le16_bytes st) @
              le32_bytes (bb_level x))) False w)"

text \<open>The field \<open>w\<close> of the packet holds the other player's \<open>x\<close>, its \<open>y\<close> the player's \<open>z\<close>.\<close>

definition subcmd_send_pos :: "sub_env \<Rightarrow> cref \<Rightarrow> cref \<Rightarrow> world \<Rightarrow> int \<times> world" where
  "subcmd_send_pos e dst src w =
     (let s = cl w src;
          body = (\<lambda>t. [t, 6, of_nat (client_id s), 0] @ le32_bytes 0x0000000F @ le32_bytes (position s ! 1) @
             le32_bytes 0 @ le32_bytes (position s ! 3) @ le32_bytes 0)
      in if version (cl w dst) = CLIENT_VERSION_BB then send_pkt e dst (command0 0x0020 (body 0x20)) w
         else (0, snd (send_pkt e dst (command0 0x001C
                    (body (if has_flag (flags (cl w dst)) CLIENT_FLAG_IS_DCNTE then 0x1C else 0x20))) w)))"

subsection \<open>Changing a statistic\<close>

text \<open>A change of more than 255 points is cut into several subcommands of one packet.\<close>

fun stat_changes :: "u8 \<Rightarrow> u8 \<Rightarrow> nat \<Rightarrow> u8 list" where
  "stat_changes cid stat amt =
     (if amt = 0 then []
      else [0x9A, 2, cid, 0, 0, 0, stat, if amt > 0xFF then 0xFF else of_nat amt] @
           stat_changes cid stat (amt - 0xFF))"

declare stat_changes.simps [simp del]

definition send_dc_mod_stat :: "sub_env \<Rightarrow> cref \<Rightarrow> cref \<Rightarrow> u8 \<Rightarrow> nat \<Rightarrow> world \<Rightarrow> int \<times> world" where
  "send_dc_mod_stat e d s stat amt w =
     (let b = stat_changes (of_nat (client_id (cl w s))) stat amt
      in send_pkt e d (command0 (of_nat (4 + length b)) b) w)"

definition send_bb_mod_stat :: "sub_env \<Rightarrow> cref \<Rightarrow> cref \<Rightarrow> u8 \<Rightarrow> nat \<Rightarrow> world \<Rightarrow> int \<times> world" where
  "send_bb_mod_stat e d s stat amt w =
     (let b = stat_changes (of_nat (client_id (cl w s))) stat amt
      in send_pkt e d (command0 (of_nat (8 + length b)) b) w)"

definition send_lobby_mod_stat :: "sub_env \<Rightarrow> lref \<Rightarrow> cref \<Rightarrow> u8 \<Rightarrow> nat \<Rightarrow> world \<Rightarrow> int \<times> world" where
  "send_lobby_mod_stat e l c stat amt w =
     (if l_type (lob w l) = LOBBY_TYPE_DEFAULT then (0, w)
      else if stat > 4 \<or> amt < 1 \<or> amt > 2040 then (0, w)
      else (0, for_clients l (\<lambda>d w.
              if version (cl w d) < CLIENT_VERSION_BB then snd (send_dc_mod_stat e d c stat amt w)
              else if version (cl w d) = CLIENT_VERSION_BB then snd (send_bb_mod_stat e d c stat amt w)
              else w) w))"

end
