(* ===== verification/Subcmd.thy ===== *)
theory Subcmd
  imports Subcmd_Send
begin

section \<open>Subcommands of the Dreamcast, PC and Gamecube clients\<close>

text \<open>
  The handlers of \<open>ship_server/src/subcmd.c\<close> and \<open>subcmd-dcnte.c\<close> for the packets that players of
  the older versions send to everybody in their lobby.  A handler checks the packet against what the
  server knows of the sender, keeps the server's copy of the character up to date and passes the
  packet on; -1 disconnects the sender.  \<open>None\<close> is a step with no defined outcome: a write beyond the
  thirty slots of the items, which hits the fields behind them, or locking the lobby again, which the
  dispatcher has locked.  The texts shown to the players lack their colour codes.
\<close>

definition in_default :: "world \<Rightarrow> cref \<Rightarrow> bool" where
  "in_default w c \<longleftrightarrow> l_type (lob w (lobby_of w c)) = LOBBY_TYPE_DEFAULT"

abbreviation sub_byte :: "packet \<Rightarrow> nat \<Rightarrow> u8" where "sub_byte p i \<equiv> payload p ! i"

text \<open>The item whose five words lie at offset \<open>i\<close> of a packet, copied over \<open>it\<close>.\<close>

definition item_words :: "packet \<Rightarrow> nat \<Rightarrow> item_t \<Rightarrow> item_t" where
  "item_words p i it = it\<lparr>data_b := take 12 (drop i (payload p)), item_id := sub_long p (i + 12),
     data2_b := take 4 (drop (i + 16) (payload p))\<rparr>"

definition handle_itemreq :: "sub_env \<Rightarrow> cref \<Rightarrow> packet \<Rightarrow> world \<Rightarrow> int \<times> world" where
  "handle_itemreq e c req w =
     (let p = payload req; n = next_item (cl w c); l = lobby_of w c;
          gen = command0 0x30 ([0x5F, 0x0B, 0, 0, p ! 4, 0x02, p ! 6, p ! 7] @ take 8 (drop 8 p) @
                  le32_bytes 0x00000010 @ le32_bytes (n ! 0) @ le32_bytes (n ! 1) @ le32_bytes (n ! 2) @
                  le32_bytes (ucast (sub_short req 6) OR 0x06010100) @ le32_bytes (n ! 3) @
                  le32_bytes 0x00000002);
          w = for_clients l (\<lambda>d w. snd (send_pkt e d gen w)) w
      in (0, upd_client c (\<lambda>x. x\<lparr>next_item := [0, 0, 0, 0]\<rparr>) w))"

definition handle_levelup :: "sub_env \<Rightarrow> cref \<Rightarrow> packet \<Rightarrow> world \<Rightarrow> int \<times> world" where
  "handle_levelup e c p w =
     (if in_default w c then (-1, w)
      else if sub_size p \<noteq> 0x05 \<or> unat (sub_client p) \<noteq> client_id (cl w c) then (-1, w)
      else
        let w = upd_client c (\<lambda>x. x\<lparr>pl_stats := [sub_short p 4, sub_short p 6, sub_short p 8, sub_short p 10,
              sub_short p 12, sub_short p 14], pl_level := sub_long p 16\<rparr>) w
        in subcmd_send_lobby_dc e (lobby_of w c) c p False w)"

text \<open>
  The legit check of an item that enters a game, \<open>None\<close> for a version that has no such check.
\<close>

definition item_legit :: "sub_env \<Rightarrow> world \<Rightarrow> cref \<Rightarrow> item_t \<Rightarrow> bool option" where
  "item_legit e w c it =
     (case ship_limits e of
        None \<Rightarrow> Some True
      | Some lim \<Rightarrow>
          if \<not> has_flag (l_flags (lob w (lobby_of w c))) LOBBY_FLAG_LEGIT_MODE then Some True
          else map_option (sylverant_limits_check_item (shl1 e) lim it) (item_version (version (cl w c))))"

text \<open>
  Adding an item to the inventory the server keeps: a stackable item joins the first item of its
  kind, any other goes to the end.  \<open>put\<close> is the item as it is stored at the end.  Nothing checks
  that there is a slot left.
\<close>

definition track_item :: "u32 \<Rightarrow> u32 \<Rightarrow> (item_t \<Rightarrow> item_t) \<Rightarrow> ship_client \<Rightarrow> ship_client option" where
  "track_item code amount put x =
     (let i = (if item_is_stackable code then find_slot (\<lambda>it. data_l0 it = code) (c_items x) (item_count x)
               else item_count x)
      in if length (c_items x) \<le> i then None
         else if i \<noteq> item_count x
         then Some (x\<lparr>c_items := (c_items x)[i := (c_items x ! i)\<lparr>data_b :=
                  put_le32 (data_b (c_items x ! i)) 4 (get_le32 (data_b (c_items x ! i)) 4 + amount)\<rparr>]\<rparr>)
         else Some (x\<lparr>c_items := (c_items x)[item_count x := put (c_items x ! item_count x)],
                item_count := item_count x + 1\<rparr>))"

text \<open>The same for a client of the store, when the server keeps track of its inventory.\<close>

definition track :: "u32 \<Rightarrow> u32 \<Rightarrow> (item_t \<Rightarrow> item_t) \<Rightarrow> cref \<Rightarrow> world \<Rightarrow> world option" where
  "track code amount put c w =
     (if \<not> has_flag (flags (cl w c)) CLIENT_FLAG_TRACK_INVENTORY then Some w
      else map_option (\<lambda>x. upd_client c (\<lambda>_. x) w) (track_item code amount put (cl w c)))"

definition handle_take_item :: "sub_env \<Rightarrow> cref \<Rightarrow> packet \<Rightarrow> world \<Rightarrow> (int \<times> world) option" where
  "handle_take_item e c p w =
     (let l = lobby_of w c;
          p = (if version (cl w c) = CLIENT_VERSION_DCV1 \<and> sub_size p = 0x06
               then p\<lparr>payload := (payload p)[1 := 0x07]\<rparr> else p)
      in if in_default w c then Some (-1, w)
         else if sub_size p \<noteq> 0x07 \<or> unat (sub_client p) \<noteq> client_id (cl w c) then Some (-1, w)
         else case item_legit e w c (item_words p 4 (junk_item e)) of
           None \<Rightarrow> Some (-1, w)
         | Some False \<Rightarrow> Some (-1, emit (Send_message_box c) w)
         | Some True \<Rightarrow>
             let w = upd_lobby l (\<lambda>L. L\<lparr>highest_item := (highest_item L)[client_id (cl w c) :=
                       ucast (ucast (sub_long p 16) :: u16)]\<rparr>) w
             in map_option (subcmd_send_lobby_dc e l c p False)
                  (track (sub_long p 4) (sub_long p 8) (item_words p 4) c w))"

definition handle_itemdrop :: "sub_env \<Rightarrow> cref \<Rightarrow> packet \<Rightarrow> world \<Rightarrow> int \<times> world" where
  "handle_itemdrop e c p w =
     (let l = lobby_of w c; it = item_words p 20 (junk_item e)
      in if in_default w c then (-1, w)
         else if sub_size p \<noteq> 0x0B \<and> sub_size p \<noteq> 0x0A then (-1, w)
         else case item_legit e w c it of
           None \<Rightarrow> (-1, w)
         | Some False \<Rightarrow>
             let dp = command0 0x0010 ([0x63, 0x03, 0, 0] @ take 4 (drop 32 (payload p)) @ le32_bytes 0);
                 msg = (case item_get_name it of
                          None \<Rightarrow> ''Potentially hacked drop detected.''
                        | Some name \<Rightarrow> ''Potentially hacked drop detected.: '' @ name)
             in (0, for_clients l (\<lambda>d w.
                   let w = snd (send_txt e d msg w);
                       w = (if c \<noteq> d then snd (send_pkt e d p w) else w)
                   in snd (send_pkt e d dp w)) w)
         | Some True \<Rightarrow> subcmd_send_lobby_dc e l c p False w)"

text \<open>\<open>send_lobby_mod_stat\<close>, which the last branch of the next two calls, locks the lobby.\<close>

definition handle_take_damage :: "sub_env \<Rightarrow> cref \<Rightarrow> packet \<Rightarrow> world \<Rightarrow> (int \<times> world) option" where
  "handle_take_damage e c p w =
     (let l = lobby_of w c
      in if in_default w c then Some (-1, w)
         else if has_flag (l_flags (lob w l)) LOBBY_FLAG_LEGIT_MODE \<or>
                 \<not> has_flag (flags (cl w c)) CLIENT_FLAG_INVULNERABLE
         then Some (subcmd_send_lobby_dc e l c p False w)
         else None)"

definition handle_used_tech :: "sub_env \<Rightarrow> cref \<Rightarrow> packet \<Rightarrow> world \<Rightarrow> (int \<times> world) option" where
  "handle_used_tech e c p w =
     (let l = lobby_of w c
      in if in_default w c then Some (-1, w)
         else if has_flag (l_flags (lob w l)) LOBBY_FLAG_LEGIT_MODE \<or>
                 \<not> has_flag (flags (cl w c)) CLIENT_FLAG_INFINITE_TP
         then Some (subcmd_send_lobby_dc e l c p False w)
         else None)"

text \<open>
  Where the players are: all versions keep the same fields, so the handlers differ only in how they
  pass the packet on.  \<open>i\<close> is the offset of the client's id in a move: 2, but 1 in \<open>subcmd_bb_move_t\<close>,
  which has no field \<open>type\<close>.
\<close>

definition keep_area :: "cref \<Rightarrow> packet \<Rightarrow> world \<Rightarrow> world" where
  "keep_area c p w =
     (if client_id (cl w c) = unat (sub_client p) then upd_client c (\<lambda>x. x\<lparr>cur_area := ucast (sub_byte p 4)\<rparr>) w
      else w)"

definition keep_pos :: "cref \<Rightarrow> packet \<Rightarrow> world \<Rightarrow> world" where
  "keep_pos c p w =
     (if client_id (cl w c) = unat (sub_client p)
      then upd_client c (\<lambda>x. x\<lparr>position := [sub_long p 8, sub_long p 12, sub_long p 16, sub_long p 20]\<rparr>) w
      else w)"

definition keep_move :: "nat \<Rightarrow> cref \<Rightarrow> packet \<Rightarrow> world \<Rightarrow> world" where
  "keep_move i c p w =
     (if client_id (cl w c) = unat (sub_byte p i)
      then upd_client c (\<lambda>x. x\<lparr>position := (position x)[1 := sub_long p (i + 2), 3 := sub_long p (i + 6)]\<rparr>) w
      else w)"

definition handle_set_area :: "sub_env \<Rightarrow> cref \<Rightarrow> packet \<Rightarrow> world \<Rightarrow> int \<times> world" where
  "handle_set_area e c p w =
     (if sub_byte p 4 > 17 then (-1, w)
      else subcmd_send_lobby_dc e (lobby_of w c) c p False (keep_area c p w))"

definition handle_set_pos :: "sub_env \<Rightarrow> cref \<Rightarrow> packet \<Rightarrow> world \<Rightarrow> int \<times> world" where
  "handle_set_pos e c p w =
     (let w = upd_client c (\<lambda>x. x\<lparr>last_info_req := 0\<rparr>) (keep_pos c p w)
      in subcmd_send_lobby_dc e (lobby_of w c) c p False w)"

definition handle_move :: "sub_env \<Rightarrow> cref \<Rightarrow> packet \<Rightarrow> world \<Rightarrow> int \<times> world" where
  "handle_move e c p w = subcmd_send_lobby_dc e (lobby_of w c) c p False (keep_move 2 c p w)"

text \<open>
  Taking an item out of the inventory the server keeps; a count beyond the thirty slots makes the code
  move what lies behind them.
\<close>

definition untrack :: "u32 \<Rightarrow> u32 \<Rightarrow> cref \<Rightarrow> world \<Rightarrow> world option" where
  "untrack iid amt c w =
     (if \<not> has_flag (flags (cl w c)) CLIENT_FLAG_TRACK_INVENTORY then Some w
      else if length (c_items (cl w c)) < item_count (cl w c) then None
      else Some (upd_client c (\<lambda>x.
             let (num, xs) = item_remove_from_inv (c_items x) (item_count x) iid amt
             in if num < 0 then x\<lparr>c_items := xs\<rparr>
                else x\<lparr>c_items := xs, item_count := item_count x - nat num\<rparr>) w))"

definition handle_delete_inv :: "sub_env \<Rightarrow> cref \<Rightarrow> packet \<Rightarrow> world \<Rightarrow> (int \<times> world) option" where
  "handle_delete_inv e c p w =
     (if in_default w c then Some (-1, w)
      else if sub_size p \<noteq> 0x03 then Some (-1, w)
      else map_option (subcmd_send_lobby_dc e (lobby_of w c) c p False)
             (if sub_long p 4 = 0xFFFFFFFF then Some w else untrack (sub_long p 4) (sub_long p 8) c w))"

definition handle_buy :: "sub_env \<Rightarrow> cref \<Rightarrow> packet \<Rightarrow> world \<Rightarrow> (int \<times> world) option" where
  "handle_buy e c p w =
     (let l = lobby_of w c
      in if in_default w c then Some (-1, w)
         else if sub_size p \<noteq> 0x06 \<or> unat (sub_client p) \<noteq> client_id (cl w c) then Some (-1, w)
         else
           let w = upd_lobby l (\<lambda>L. L\<lparr>highest_item := (highest_item L)[client_id (cl w c) := sub_long p 16]\<rparr>) w
           in map_option (subcmd_send_lobby_dc e l c p False)
                (track (sub_long p 4) (sub_long p 8) (\<lambda>it. (item_words p 4 it)\<lparr>data2_b := replicate 4 0\<rparr>) c w))"

definition handle_use_item :: "sub_env \<Rightarrow> cref \<Rightarrow> packet \<Rightarrow> world \<Rightarrow> (int \<times> world) option" where
  "handle_use_item e c p w =
     (if in_default w c then Some (-1, w)
      else if sub_size p \<noteq> 0x02 then Some (-1, w)
      else map_option (subcmd_send_lobby_dc e (lobby_of w c) c p False) (untrack (sub_long p 4) 1 c w))"

definition handle_symbol_chat :: "sub_env \<Rightarrow> cref \<Rightarrow> packet \<Rightarrow> world \<Rightarrow> int \<times> world" where
  "handle_symbol_chat e c p w =
     (if has_flag (flags (cl w c)) CLIENT_FLAG_GC_PROTECT
      then send_txt e c ''You must login before you can chat.'' w
      else if has_flag (flags (cl w c)) CLIENT_FLAG_STFU then (0, w)
      else subcmd_send_lobby_dc e (lobby_of w c) c p True w)"

text \<open>The flags of a hit have the opposite byte order on Gamecube.\<close>

definition SWAP32 :: "u32 \<Rightarrow> u32" where
  "SWAP32 x = (drop_bit 24 x AND 0x00FF) OR (drop_bit 8 x AND 0xFF00) OR push_bit 8 (x AND 0xFF00) OR
     push_bit 24 (x AND 0x00FF)"

text \<open>
  A hit on a monster that still lives: the bit of the player is set, and a kill marks the monster
  as dead and counts for the player.
\<close>

definition hit_enemy :: "nat \<Rightarrow> game_enemy \<Rightarrow> game_enemy" where
  "hit_enemy cid en = en\<lparr>clients_hit := clients_hit en OR push_bit cid 1, last_client := of_nat cid\<rparr>"

definition upd_enemy :: "lref \<Rightarrow> nat \<Rightarrow> (game_enemy \<Rightarrow> game_enemy) \<Rightarrow> world \<Rightarrow> world" where
  "upd_enemy l i f w = upd_lobby l (\<lambda>L. L\<lparr>map_enemies := map_option (\<lambda>ens. ens[i := f (ens ! i)]) (map_enemies L)\<rparr>) w"

text \<open>
  The test \<open>mid > count\<close> lets the index \<open>count\<close> through, which is one past the last enemy.
\<close>

definition enemy_at :: "sub_env \<Rightarrow> game_enemy list \<Rightarrow> nat \<Rightarrow> game_enemy" where
  "enemy_at e ens mid = (if mid < length ens then ens ! mid else junk_enemy e)"

text \<open>The hits for which that index is read and written, in a lobby whose enemies are known.\<close>

definition past_enemies :: "world \<Rightarrow> cref \<Rightarrow> packet \<Rightarrow> bool" where
  "past_enemies w c p \<longleftrightarrow> \<not> in_default w c \<and>
     map_option length (map_enemies (lob w (lobby_of w c))) = Some (unat (sub_short p 4))"

definition handle_mhit :: "sub_env \<Rightarrow> cref \<Rightarrow> packet \<Rightarrow> world \<Rightarrow> int \<times> world" where
  "handle_mhit e c p w =
     (let l = lobby_of w c; mid = unat (sub_short p 4); cid = client_id (cl w c);
          forward = subcmd_send_lobby_dc e l c p False
      in if in_default w c then (-1, w)
         else if pkt_len p \<noteq> 0x0010 \<or> sub_size p \<noteq> 0x03 then (-1, w)
         else case map_enemies (lob w l) of
           None \<Rightarrow> forward w
         | Some ens \<Rightarrow>
             let en = enemy_at e ens mid
             in if mid > length ens then
                  if \<not> has_flag (l_flags (lob w l)) LOBBY_FLAG_SERVER_DROPS then forward w else (-1, w)
                else if clients_hit en AND 0x80 \<noteq> 0 then forward w
                else
                  let w = upd_enemy l mid (hit_enemy cid) w;
                      fl = sub_long p 8;
                      fl = (if version (cl w c) = CLIENT_VERSION_GC then SWAP32 fl else fl)
                  in if fl AND 0x00000800 = 0 then forward w
                     else
                       let w = upd_enemy l mid (\<lambda>en. en\<lparr>clients_hit := clients_hit en OR 0x80\<rparr>) w;
                           bp = unat (bp_entry en);
                           w = (if bp < 0x60
                                then upd_client c (\<lambda>x. x\<lparr>enemy_kills := (enemy_kills x)[bp := enemy_kills x ! bp + 1]\<rparr>) w
                                else w)
                       in forward w)"

subsection \<open>The network trial edition\<close>

definition nte_set_area :: "sub_env \<Rightarrow> cref \<Rightarrow> packet \<Rightarrow> world \<Rightarrow> int \<times> world" where
  "nte_set_area e c p w =
     (if sub_byte p 4 > 17 then (-1, w)
      else subcmd_send_lobby_dcnte e (lobby_of w c) c p False (keep_area c p w))"

definition nte_set_pos :: "sub_env \<Rightarrow> cref \<Rightarrow> packet \<Rightarrow> world \<Rightarrow> int \<times> world" where
  "nte_set_pos e c p w = subcmd_send_lobby_dcnte e (lobby_of w c) c p False (keep_pos c p w)"

definition nte_move :: "sub_env \<Rightarrow> cref \<Rightarrow> packet \<Rightarrow> world \<Rightarrow> int \<times> world" where
  "nte_move e c p w = subcmd_send_lobby_dcnte e (lobby_of w c) c p False (keep_move 2 c p w)"

text \<open>
  A client that has finished loading is told where the others stand, until that fails once.
\<close>

primrec send_positions :: "sub_env \<Rightarrow> cref \<Rightarrow> cref option list \<Rightarrow> world \<Rightarrow> world" where
  "send_positions e c [] w = w"
| "send_positions e c (x # xs) w =
     (case x of
        None \<Rightarrow> send_positions e c xs w
      | Some d \<Rightarrow>
          if d = c then send_positions e c xs w
          else let (r, w) = subcmd_send_pos e c d w in if r \<noteq> 0 then w else send_positions e c xs w)"

definition finish_load :: "sub_env \<Rightarrow> cref \<Rightarrow> world \<Rightarrow> world" where
  "finish_load e c w =
     (let L = lob w (lobby_of w c)
      in if l_type L = LOBBY_TYPE_DEFAULT then send_positions e c (take (max_clients L) (slots L)) w else w)"

definition subcmd_dcnte_handle_bcast :: "sub_env \<Rightarrow> cref \<Rightarrow> packet \<Rightarrow> world \<Rightarrow> int \<times> world" where
  "subcmd_dcnte_handle_bcast e c p w =
     (case cur_lobby (cl w c) of
        None \<Rightarrow> (0, w)
      | Some l \<Rightarrow>
          let t = sub_type p
          in if t = SUBCMD_DCNTE_SET_AREA then nte_set_area e c p w
             else if t = SUBCMD_DCNTE_SET_POS then nte_set_pos e c p w
             else if t = SUBCMD_DCNTE_MOVE_SLOW \<or> t = SUBCMD_DCNTE_MOVE_FAST then nte_move e c p w
             else
               let w = (if t = 0x1F then finish_load e c w else w)
               in subcmd_send_lobby_dcnte e l c p False w)"

end
