(* ===== verification/Subcmd_BB.thy ===== *)
theory Subcmd_BB
  imports Subcmd
begin

section \<open>Subcommands of the Blue Burst clients\<close>

text \<open>
  The handlers of \<open>ship_server/src/subcmd.c\<close> for Blue Burst, where the server itself keeps the
  characters: what lies on the floor of a game, what a player carries, wears and has in the bank, its
  money, and its experience (\<open>client_give_exp\<close> of \<open>clients.c\<close>).
\<close>

subsection \<open>The character\<close>

definition bb_items :: "ship_client \<Rightarrow> item_t list" where "bb_items x = inv_items (bb_inv x)"
definition bb_count :: "ship_client \<Rightarrow> nat" where "bb_count x = unat (inv_count (bb_inv x))"

definition set_bb_items :: "item_t list \<Rightarrow> ship_client \<Rightarrow> ship_client" where
  "set_bb_items xs x = x\<lparr>bb_inv := (bb_inv x)\<lparr>inv_items := xs\<rparr>\<rparr>"

definition set_bb_count :: "int \<Rightarrow> ship_client \<Rightarrow> ship_client" where
  "set_bb_count n x = x\<lparr>bb_inv := (bb_inv x)\<lparr>inv_count := of_int n\<rparr>\<rparr>"

definition set_meseta :: "u32 \<Rightarrow> ship_client \<Rightarrow> ship_client" where
  "set_meseta m x = x\<lparr>bb_meseta := m, pl_meseta := m\<rparr>"

definition clear_equip :: "item_t \<Rightarrow> item_t" where
  "clear_equip it = it\<lparr>item_flags := item_flags it AND 0xFFFFFFF7\<rparr>"

definition is_frame :: "item_t \<Rightarrow> bool" where
  "is_frame it \<longleftrightarrow> data_b it ! 0 = 0x01 \<and> data_b it ! 1 = 0x01"

definition is_unit :: "item_t \<Rightarrow> bool" where
  "is_unit it \<longleftrightarrow> data_b it ! 0 = 0x01 \<and> data_b it ! 1 = 0x03"

text \<open>The loop that takes off every unit.\<close>

definition unequip_units :: "nat \<Rightarrow> item_t list \<Rightarrow> item_t list" where
  "unequip_units n xs = map (\<lambda>it. if is_unit it then clear_equip it else it) (take n xs) @ drop n xs"

definition find_bb_item :: "ship_client \<Rightarrow> u32 \<Rightarrow> nat" where
  "find_bb_item x iid = find_slot (\<lambda>it. item_id it = iid) (bb_items x) (bb_count x)"

text \<open>The checks that nearly all handlers start with.\<close>

definition bad_packet :: "world \<Rightarrow> cref \<Rightarrow> packet \<Rightarrow> u16 \<Rightarrow> u8 \<Rightarrow> bool" where
  "bad_packet w c p len sz \<longleftrightarrow> in_default w c \<or> pkt_len p \<noteq> len \<or> sub_size p \<noteq> sz"

definition not_self :: "world \<Rightarrow> cref \<Rightarrow> packet \<Rightarrow> bool" where
  "not_self w c p \<longleftrightarrow> unat (sub_client p) \<noteq> client_id (cl w c)"

subsection \<open>Items on the floor\<close>

definition handle_bb_drop_item :: "sub_env \<Rightarrow> cref \<Rightarrow> packet \<Rightarrow> world \<Rightarrow> int \<times> world" where
  "handle_bb_drop_item e c p w =
     (let l = lobby_of w c; x = cl w c; iid = sub_long p 8; inv = bb_count x;
          found = find_bb_item x iid; it = bb_items x ! found
      in if bad_packet w c p 0x20 0x06 \<or> not_self w c p then (-1, w)
         else if found = inv then (-1, w)
         else
           let isframe = (if is_frame it \<and> item_flags it AND 8 \<noteq> 0 then 1 else junk_isframe e);
               xs = (bb_items x)[found := clear_equip it];
               xs = (if isframe \<noteq> 0 then unequip_units inv xs else xs);
               w = upd_client c (set_bb_items xs) w;
               (added, w) = lobby_add_item2_locked (has_mem e) l (xs ! found) w
           in if added = None then (-1, w)
              else
                let (n, xs) = item_remove_from_inv xs inv iid 0xFFFFFFFF;
                    w = upd_client c (set_bb_items xs) w
                in if n < 1 then (-1, w)
                   else subcmd_send_lobby_bb e l (Some c) p False
                          (upd_client c (set_bb_count (int inv - 1)) w))"

definition handle_bb_drop_pos :: "sub_env \<Rightarrow> cref \<Rightarrow> packet \<Rightarrow> world \<Rightarrow> int \<times> world" where
  "handle_bb_drop_pos e c p w =
     (let x = cl w c; iid = sub_long p 16; amt = sub_long p 20
      in if bad_packet w c p 0x20 0x06 \<or> not_self w c p then (-1, w)
         else if iid \<noteq> 0xFFFFFFFF \<and> find_bb_item x iid = bb_count x then (-1, w)
         else if iid = 0xFFFFFFFF \<and> bb_meseta x < amt then (-1, w)
         else subcmd_send_lobby_bb e (lobby_of w c) (Some c) p False
                (upd_client c (\<lambda>x. x\<lparr>drop_x := sub_long p 8, drop_z := sub_long p 12, drop_area := sub_long p 4,
                   drop_item := iid, drop_amt := amt\<rparr>) w))"

definition Item_Meseta :: u32 where "Item_Meseta = 0x000004"

text \<open>
  Dropping part of a stack, or money.  The item that lands on the floor is taken from \<open>c->items\<close>, not
  from the inventory that was searched; only its data and its id are set for money.
\<close>

definition dropped_stack :: "sub_env \<Rightarrow> ship_client \<Rightarrow> nat \<Rightarrow> u32 \<Rightarrow> u32 \<Rightarrow> u32 \<Rightarrow> item_t" where
  "dropped_stack e x found iid amt newid =
     (if iid \<noteq> 0xFFFFFFFF then set_stack ((c_items x ! found)\<lparr>item_id := newid\<rparr>) (ucast amt)
      else (junk_item e)\<lparr>data_b := le32_bytes Item_Meseta @ le32_bytes 0 @ le32_bytes 0,
             data2_b := le32_bytes amt, item_id := newid\<rparr>)"

definition handle_bb_drop_stack :: "sub_env \<Rightarrow> cref \<Rightarrow> packet \<Rightarrow> world \<Rightarrow> int \<times> world" where
  "handle_bb_drop_stack e c p w =
     (let l = lobby_of w c; x = cl w c; iid = sub_long p 4; amt = sub_long p 8; cid = client_id x;
          found = find_bb_item x iid
      in if bad_packet w c p 0x14 0x03 \<or> not_self w c p then (-1, w)
         else if iid \<noteq> 0xFFFFFFFF \<and> found = bb_count x then (-1, w)
         else
           let newid = highest_item (lob w l) ! cid + 1;
               w = upd_lobby l (\<lambda>L. L\<lparr>highest_item := (highest_item L)[cid := newid]\<rparr>) w;
               it = dropped_stack e x found iid amt newid
           in if iid \<noteq> drop_item x \<or> amt \<noteq> drop_amt x then (-1, w)
              else
                let (added, w) = lobby_add_item2_locked (has_mem e) l it w
                in if added = None then (-1, w)
                   else
                     let (ok, w) =
                       (if iid \<noteq> 0xFFFFFFFF then
                          let (n, xs) = item_remove_from_inv (bb_items x) (bb_count x) iid amt;
                              w = upd_client c (set_bb_items xs) w
                          in if n < 0 then (False, w)
                             else (True, upd_client c (set_bb_count (int (bb_count x) - n)) w)
                        else if amt > bb_meseta x then (False, w)
                        else (True, upd_client c (set_meseta (bb_meseta x - amt)) w))
                     in if \<not> ok then (-1, w)
                        else subcmd_send_lobby_bb e l (Some c) p False
                               (snd (subcmd_send_drop_stack e c (drop_area x) (drop_x x) (drop_z x) it w)))"

definition handle_bb_pick_up :: "sub_env \<Rightarrow> cref \<Rightarrow> packet \<Rightarrow> world \<Rightarrow> int \<times> world" where
  "handle_bb_pick_up e c p w =
     (let l = lobby_of w c
      in if bad_packet w c p 0x14 0x03 \<or> not_self w c p then (-1, w)
         else
           let (found, item, w) = lobby_remove_item_locked l (sub_long p 4) w; x = cl w c
           in if found < 0 then (-1, w)
              else if found > 0 then (0, w)
              else
                let it = the item;
                    (ok, it, w) =
                      (if data_l0 it = Item_Meseta then
                         let tmp = get_le32 (data2_b it) 0 + bb_meseta x;
                             tmp = (if tmp > 999999 then 999999 else tmp)
                         in (True, it, upd_client c (set_meseta tmp) w)
                       else
                         let it = it\<lparr>item_flags := 0, equipped := 1, tech := 0\<rparr>;
                             (n, xs) = item_add_to_inv (bb_items x) (bb_count x) it
                         in if n = -1 then (False, it, w)
                            else (True, it, upd_client c (set_bb_count (int (bb_count x) + n))
                                              (upd_client c (set_bb_items xs) w)))
                in if \<not> ok then (-1, w)
                   else
                     let w = snd (subcmd_send_picked_up e c (data_b it) (item_id it) (data2_b it) True w)
                     in subcmd_send_destroy_map_item e c (sub_byte p 8) (item_id it) w)"

subsection \<open>The bank\<close>

definition bitem_bytes :: "bitem_t \<Rightarrow> u8 list" where
  "bitem_bytes it = bdata_b it @ le32_bytes (bitem_id it) @ bdata2_b it @ le16_bytes (bamount it) @
     le16_bytes (bflags it)"

text \<open>The size of the reply is computed before the bank is cleaned up, in sixteen bits.\<close>

definition handle_bb_bank :: "sub_env \<Rightarrow> cref \<Rightarrow> packet \<Rightarrow> world \<Rightarrow> int \<times> world" where
  "handle_bb_bank e c p w =
     (let size = of_nat (24 + 24 * unat (bank_count (bb_bank (cl w c)))) :: u16
      in if bad_packet w c p 0x10 0x02 then (-1, w)
         else
           let w = upd_client c (\<lambda>x. x\<lparr>bb_bank := cleanup_bb_bank (of_nat (client_id x)) (bb_bank x)\<rparr>) w;
               (r, w) = next_random w;
               b = bb_bank (cl w c);
               d = [0xBC, 0, 0, 0] @ le32_bytes (ucast size) @ le32_bytes r @ le32_bytes (bank_count b) @
                   le32_bytes (bank_meseta b) @ concat (map bitem_bytes (bank_items b))
           in send_pkt e c \<lparr>pkt_type = GAME_COMMANDC_TYPE, pkt_len = size, pkt_flags = 0,
                payload = take (unat size - 8) d\<rparr> w)"

definition to_bank_item :: "item_t \<Rightarrow> u8 \<Rightarrow> bitem_t" where
  "to_bank_item it amt =
     (let stack = item_is_stackable (data_l0 it); it = (if stack then set_stack it amt else it)
      in \<lparr>bdata_b = data_b it, bitem_id = item_id it, bdata2_b = data2_b it,
          bamount = (if stack then ucast amt else 1), bflags = 1\<rparr>)"

definition from_bank_item :: "bitem_t \<Rightarrow> u32 \<Rightarrow> item_t" where
  "from_bank_item b iid = \<lparr>equipped = 1, tech = 0, item_flags = 0, data_b = bdata_b b, item_id = iid,
     data2_b = bdata2_b b\<rparr>"

definition bank_deposit_meseta :: "cref \<Rightarrow> u32 \<Rightarrow> world \<Rightarrow> int \<times> world" where
  "bank_deposit_meseta c amt w =
     (let x = cl w c; inv = bb_meseta x; bank = bank_meseta (bb_bank x)
      in if amt > inv then (-1, w)
         else if amt + bank > 999999 then (-1, w)
         else (0, upd_client c (\<lambda>x. (set_meseta (inv - amt) x)\<lparr>bb_bank := (bb_bank x)\<lparr>bank_meseta := bank + amt\<rparr>\<rparr>) w))"

definition bank_take_meseta :: "cref \<Rightarrow> u32 \<Rightarrow> world \<Rightarrow> int \<times> world" where
  "bank_take_meseta c amt w =
     (let x = cl w c; inv = bb_meseta x; bank = bank_meseta (bb_bank x)
      in if amt + inv > 999999 then (-1, w)
         else if amt > bank then (-1, w)
         else (0, upd_client c (\<lambda>x. (set_meseta (inv + amt) x)\<lparr>bb_bank := (bb_bank x)\<lparr>bank_meseta := bank - amt\<rparr>\<rparr>) w))"

text \<open>
  The message after a deposit names the item in the variable \<open>item\<close>, which the loop over the units
  has overwritten when the item was a worn frame: \<open>told\<close>.
\<close>

definition bank_deposit_item :: "sub_env \<Rightarrow> cref \<Rightarrow> u32 \<Rightarrow> u8 \<Rightarrow> world \<Rightarrow> int \<times> world" where
  "bank_deposit_item e c iid amt w =
     (let x = cl w c; inv = bb_count x; found = find_bb_item x iid; it = bb_items x ! found;
          isframe = is_frame it \<and> item_flags it AND 8 \<noteq> 0
      in if found = inv then (-1, w)
         else if \<not> item_is_stackable (data_l0 it) \<and> amt > 1 then (-1, w)
         else
           let (n, xs) = item_remove_from_inv (bb_items x) inv iid (ucast amt)
           in if n < 0 \<or> n > 1 then (-1, upd_client c (set_bb_items xs) w)
              else
                let inv = inv - nat n;
                    told = (if isframe \<and> inv > 0 then xs ! (inv - 1) else it);
                    xs = (if isframe then unequip_units inv xs else xs);
                    w = upd_client c (set_bb_count (int inv)) (upd_client c (set_bb_items xs) w);
                    (r, bank) = item_deposit_to_bank (bb_bank x) (to_bank_item it amt);
                    w = upd_client c (\<lambda>x. x\<lparr>bb_bank := bank\<rparr>) w
                in if r < 0 then (-1, w)
                   else subcmd_send_destroy_item e c (item_id told) amt w)"

definition bank_take_item :: "sub_env \<Rightarrow> cref \<Rightarrow> u32 \<Rightarrow> u8 \<Rightarrow> world \<Rightarrow> int \<times> world" where
  "bank_take_item e c iid amt w =
     (let l = lobby_of w c; x = cl w c;
          (r, bank, taken) = item_take_from_bank (bb_bank x) iid amt;
          w = upd_client c (\<lambda>x. x\<lparr>bb_bank := bank\<rparr>) w
      in if r < 0 then (-1, w)
         else
           let b = the taken;
               it = from_bank_item b (l_item_id (lob w l));
               w = upd_lobby l (\<lambda>L. L\<lparr>l_item_id := l_item_id L + 1\<rparr>) w;
               (n, xs) = item_add_to_inv (bb_items x) (bb_count x) it
           in if n < 0 then (-1, upd_client c (\<lambda>x. x\<lparr>bb_bank := snd (item_deposit_to_bank bank b)\<rparr>) w)
              else subcmd_send_picked_up e c (data_b it) (item_id it) (data2_b it) True
                     (upd_client c (set_bb_count (int (bb_count x) + n)) (upd_client c (set_bb_items xs) w)))"

definition handle_bb_bank_action :: "sub_env \<Rightarrow> cref \<Rightarrow> packet \<Rightarrow> world \<Rightarrow> int \<times> world" where
  "handle_bb_bank_action e c p w =
     (let iid = sub_long p 4; money = sub_long p 8; action = sub_byte p 12; amt = sub_byte p 13
      in if bad_packet w c p 0x18 0x04 then (-1, w)
         else if action = 3 \<or> action = 2 then (0, w)
         else if action = 0 then
           if iid = 0xFFFFFFFF then bank_deposit_meseta c money w else bank_deposit_item e c iid amt w
         else if action = 1 then
           if iid = 0xFFFFFFFF then bank_take_meseta c money w else bank_take_item e c iid amt w
         else (-1, w))"

subsection \<open>Equipment\<close>

definition handle_bb_equip :: "sub_env \<Rightarrow> cref \<Rightarrow> packet \<Rightarrow> world \<Rightarrow> int \<times> world" where
  "handle_bb_equip e c p w =
     (let x = cl w c; i = find_bb_item x (sub_long p 4); it = bb_items x ! i
      in if bad_packet w c p 0x14 0x03 \<or> not_self w c p then (-1, w)
         else if i \<ge> bb_count x then (-1, w)
         else subcmd_send_lobby_bb e (lobby_of w c) (Some c) p False
                (upd_client c (set_bb_items ((bb_items x)[i := it\<lparr>item_flags := item_flags it OR 0x00000008\<rparr>])) w))"

definition handle_bb_unequip :: "sub_env \<Rightarrow> cref \<Rightarrow> packet \<Rightarrow> world \<Rightarrow> int \<times> world" where
  "handle_bb_unequip e c p w =
     (let x = cl w c; i = find_bb_item x (sub_long p 4); it = bb_items x ! i
      in if bad_packet w c p 0x14 0x03 \<or> not_self w c p then (-1, w)
         else if i \<ge> bb_count x then (-1, w)
         else
           let xs = (bb_items x)[i := clear_equip it];
               xs = (if is_frame it then unequip_units (bb_count x) xs else xs)
           in subcmd_send_lobby_bb e (lobby_of w c) (Some c) p False (upd_client c (set_bb_items xs) w))"

definition handle_bb_medic :: "sub_env \<Rightarrow> cref \<Rightarrow> packet \<Rightarrow> world \<Rightarrow> int \<times> world" where
  "handle_bb_medic e c p w =
     (if bad_packet w c p 0x0C 0x01 \<or> not_self w c p then (-1, w)
      else subcmd_send_lobby_bb e (lobby_of w c) (Some c) p False
             (upd_client c (\<lambda>x. x\<lparr>bb_meseta := bb_meseta x - 10, pl_meseta := pl_meseta x - 10\<rparr>) w))"

subsection \<open>Sorting the inventory\<close>

text \<open>
  The loop over the list of ids: it returns the number of ids read and the items they name, or
  \<open>None\<close> when an id is not carried or comes twice.  \<open>used\<close> are the slots already copied.
\<close>

fun sort_loop :: "item_t list \<Rightarrow> nat \<Rightarrow> u32 list \<Rightarrow> nat set \<Rightarrow> item_t list option" where
  "sort_loop items n [] used = Some []"
| "sort_loop items n (iid # ids) used =
     (if iid = 0xFFFFFFFF then Some []
      else
        let j = find_slot (\<lambda>it. item_id it = iid) items n
        in if j \<ge> n then None
           else if j \<in> used then None
           else map_option ((#) (items ! j)) (sort_loop items n ids (insert j used)))"

definition sort_ids :: "packet \<Rightarrow> u32 list" where
  "sort_ids p = map (\<lambda>i. sub_long p (4 + 4 * i)) [0..<30]"

definition handle_bb_sort_inv :: "sub_env \<Rightarrow> cref \<Rightarrow> packet \<Rightarrow> world \<Rightarrow> int \<times> world" where
  "handle_bb_sort_inv e c p w =
     (let x = cl w c
      in if bad_packet w c p 0x84 0x1F then (-1, w)
         else case sort_loop (bb_items x) (bb_count x) (sort_ids p) {} of
           None \<Rightarrow> (-1, w)
         | Some xs \<Rightarrow>
             if length xs \<noteq> bb_count x then (-1, w)
             else
               let new = (bb_inv x)\<lparr>inv_items := xs @ drop (length xs) (junk_items e)\<rparr>
               in (0, upd_client c (\<lambda>x. x\<lparr>bb_inv := new, pl_inv := new\<rparr>) w))"

subsection \<open>Monsters and experience\<close>

definition handle_bb_mhit :: "sub_env \<Rightarrow> cref \<Rightarrow> packet \<Rightarrow> world \<Rightarrow> int \<times> world" where
  "handle_bb_mhit e c p w =
     (let l = lobby_of w c; mid = unat (sub_short p 4); cid = client_id (cl w c);
          ens = the (map_enemies (lob w l))
      in if bad_packet w c p 0x0014 0x03 then (-1, w)
         else if mid > length ens then (-1, w)
         else subcmd_send_lobby_bb e l (Some c) p False
                (if clients_hit (enemy_at e ens mid) AND 0x80 = 0 then upd_enemy l mid (hit_enemy cid) w else w))"

definition give_stats :: "level_entry \<Rightarrow> u16 list \<Rightarrow> u16 list" where
  "give_stats ent st = map2 (\<lambda>a b. a + ucast b) st (e_stats ent)"

text \<open>
  The loop over the levels: each level whose experience the player has reached gives its
  statistics.  A player below level 199 goes through it at most until that level.
\<close>

function level_loop :: "(nat \<Rightarrow> level_entry) \<Rightarrow> u32 \<Rightarrow> nat \<Rightarrow> u16 list \<Rightarrow> nat \<times> u16 list" where
  "level_loop table tot level st =
     (let ent = table (level + 1)
      in if tot \<ge> e_exp ent then
           let st = give_stats ent st; level = level + 1
           in if level < 199 then level_loop table tot level st else (level, st)
         else (level, st))"
  by pat_completeness auto
termination by (relation "measure (\<lambda>(_, _, level, _). 199 - level)") auto

declare level_loop.simps [simp del]

definition client_give_exp :: "sub_env \<Rightarrow> cref \<Rightarrow> u32 \<Rightarrow> world \<Rightarrow> int \<times> world" where
  "client_give_exp e c ex w =
     (let x = cl w c
      in if version x \<noteq> CLIENT_VERSION_BB \<or> \<not> bb_loaded x then (-1, w)
         else if bb_level x \<ge> 199 then (0, w)
         else
           let total = bb_exp x + ex;
               w = upd_client c (\<lambda>x. x\<lparr>bb_exp := total\<rparr>) w;
               (r, w) = subcmd_send_bb_exp e c ex w
           in if r \<noteq> 0 then (-1, w)
              else
                let (level, st) = level_loop (levels e (unat (bb_class x))) total (unat (bb_level x)) (bb_stats x)
                in if level \<noteq> unat (bb_level x) then
                     let w = upd_client c (\<lambda>x. x\<lparr>bb_stats := st, bb_level := of_nat level\<rparr>) w;
                         (r, w) = subcmd_send_bb_level e c w
                     in if r \<noteq> 0 then (-1, w) else (0, w)
                   else (0, w))"

definition client_give_level :: "sub_env \<Rightarrow> cref \<Rightarrow> u32 \<Rightarrow> world \<Rightarrow> int \<times> world" where
  "client_give_level e c level_req w =
     (let x = cl w c
      in if version x \<noteq> CLIENT_VERSION_BB \<or> \<not> bb_loaded x \<or> level_req > 199 then (-1, w)
         else if bb_level x \<ge> level_req then (0, w)
         else
           let ent = levels e (unat (bb_class x)) (unat level_req);
               gained = e_exp ent - bb_exp x;
               w = upd_client c (\<lambda>x. x\<lparr>bb_exp := e_exp ent\<rparr>) w;
               (r, w) = subcmd_send_bb_exp e c gained w
           in if r \<noteq> 0 then (-1, w)
              else
                let w = upd_client c (\<lambda>x. x\<lparr>bb_level := level_req\<rparr>) w;
                    (r, w) = subcmd_send_bb_level e c w
                in if r \<noteq> 0 then (-1, w) else (0, w))"

definition handle_bb_req_exp :: "sub_env \<Rightarrow> cref \<Rightarrow> packet \<Rightarrow> world \<Rightarrow> int \<times> world" where
  "handle_bb_req_exp e c p w =
     (let l = lobby_of w c; mid = unat (sub_short p 4); cid = client_id (cl w c);
          ens = the (map_enemies (lob w l)); en = enemy_at e ens mid; bit = push_bit cid 1
      in if bad_packet w c p 0x0014 0x03 then (-1, w)
         else if mid > length ens then (-1, w)
         else if clients_hit en AND bit = 0 then (0, w)
         else
           let w = upd_enemy l mid (\<lambda>en. en\<lparr>clients_hit := (clients_hit en AND NOT bit) OR 0x80\<rparr>) w;
               ex = bb_exps (lob w l) ! unat (bp_entry en);
               ex = (if sub_byte p 8 = 0 then ex * 80 div 100 else ex)
           in client_give_exp e c ex w)"

subsection \<open>Where the players are, damage, techniques and symbol chats\<close>

definition handle_bb_set_area :: "sub_env \<Rightarrow> cref \<Rightarrow> packet \<Rightarrow> world \<Rightarrow> int \<times> world" where
  "handle_bb_set_area e c p w =
     (if sub_byte p 4 > 17 then (-1, w)
      else subcmd_send_lobby_bb e (lobby_of w c) (Some c) p False (keep_area c p w))"

definition handle_bb_set_pos :: "sub_env \<Rightarrow> cref \<Rightarrow> packet \<Rightarrow> world \<Rightarrow> int \<times> world" where
  "handle_bb_set_pos e c p w = subcmd_send_lobby_bb e (lobby_of w c) (Some c) p False (keep_pos c p w)"

definition handle_bb_move :: "sub_env \<Rightarrow> cref \<Rightarrow> packet \<Rightarrow> world \<Rightarrow> int \<times> world" where
  "handle_bb_move e c p w = subcmd_send_lobby_bb e (lobby_of w c) (Some c) p False (keep_move 1 c p w)"

definition handle_bb_take_damage :: "sub_env \<Rightarrow> cref \<Rightarrow> packet \<Rightarrow> world \<Rightarrow> (int \<times> world) option" where
  "handle_bb_take_damage e c p w =
     (let l = lobby_of w c
      in if in_default w c then Some (-1, w)
         else if has_flag (l_flags (lob w l)) LOBBY_FLAG_LEGIT_MODE \<or>
                 \<not> has_flag (flags (cl w c)) CLIENT_FLAG_INVULNERABLE
         then Some (subcmd_send_lobby_bb e l (Some c) p False w)
         else None)"

definition handle_bb_used_tech :: "sub_env \<Rightarrow> cref \<Rightarrow> packet \<Rightarrow> world \<Rightarrow> (int \<times> world) option" where
  "handle_bb_used_tech e c p w =
     (let l = lobby_of w c
      in if in_default w c then Some (-1, w)
         else if has_flag (l_flags (lob w l)) LOBBY_FLAG_LEGIT_MODE \<or>
                 \<not> has_flag (flags (cl w c)) CLIENT_FLAG_INFINITE_TP
         then Some (subcmd_send_lobby_bb e l (Some c) p False w)
         else None)"

definition handle_bb_symbol_chat :: "sub_env \<Rightarrow> cref \<Rightarrow> packet \<Rightarrow> world \<Rightarrow> int \<times> world" where
  "handle_bb_symbol_chat e c p w =
     (if has_flag (flags (cl w c)) CLIENT_FLAG_GC_PROTECT
      then send_txt e c ''You must login before you can chat.'' w
      else if has_flag (flags (cl w c)) CLIENT_FLAG_STFU then (0, w)
      else subcmd_send_lobby_bb e (lobby_of w c) (Some c) p True w)"

end
