(* ===== verification/Subcmd_Items.thy ===== *)
theory Subcmd_Items
  imports Subcmd_BB Item_Stores Lobby_Packets
begin

section \<open>What Blue Burst players own\<close>

text \<open>
  What happens to items and money when they change hands.  The pieces of a code
  (\<open>inv_item.total\<close>) are counted over all stores an operation touches: the inventory of the player,
  the floor of the game, the bank.
\<close>

subsection \<open>Sending changes nothing but the log\<close>

definition only_sent :: "world \<Rightarrow> world \<Rightarrow> bool" where
  "only_sent w w' \<longleftrightarrow> clients w' = clients w \<and> lobbies w' = lobbies w"

named_theorems sent_rules \<open>operations that only send\<close>

lemma only_sent_refl [sent_rules]: "only_sent w w"
  by (simp add: only_sent_def)

lemma only_sent_emit [sent_rules]: "only_sent w w' \<Longrightarrow> only_sent w (emit ev w')"
  by (simp add: only_sent_def emit_def)

lemma only_sent_each:
  "only_sent w w' \<Longrightarrow> (\<And>d w'. only_sent w w' \<Longrightarrow> only_sent w (f d w')) \<Longrightarrow> only_sent w (each_client f xs w')"
  by (induction xs arbitrary: w') (auto split: option.split)

lemma only_sent_for [sent_rules]:
  "only_sent w w' \<Longrightarrow> (\<And>d w'. only_sent w w' \<Longrightarrow> only_sent w (f d w')) \<Longrightarrow> only_sent w (for_clients l f w')"
  unfolding for_clients_def by (rule only_sent_each)

lemma only_sent_pkt [sent_rules]: "only_sent w w' \<Longrightarrow> only_sent w (snd (send_pkt e c p w'))"
  by (auto simp: send_pkt_def intro: sent_rules)

lemma only_sent_translated [sent_rules]: "only_sent w w' \<Longrightarrow> only_sent w (snd (send_translated e t c p w'))"
  by (auto simp: send_translated_def intro!: sent_rules split: option.split)

lemma only_sent_lobby_bb [sent_rules]: "only_sent w w' \<Longrightarrow> only_sent w (snd (subcmd_send_lobby_bb e l c p ig w'))"
  by (auto simp: subcmd_send_lobby_bb_def subcmd_translate_bb_to_nte_def intro!: sent_rules)

lemma only_sent_store: "only_sent w w' \<Longrightarrow> cl w' = cl w \<and> lob w' = lob w \<and> lobbies w' = lobbies w"
  by (simp add: only_sent_def cl_def lob_def fun_eq_iff)

lemma after_send [simp]:
  "cl (snd (subcmd_send_lobby_bb e l c p ig w)) = cl w" "lobbies (snd (subcmd_send_lobby_bb e l c p ig w)) = lobbies w"
  "lob (snd (subcmd_send_lobby_bb e l c p ig w)) = lob w" "fst (subcmd_send_lobby_bb e l c p ig w) = 0"
  using only_sent_store [OF only_sent_lobby_bb [OF only_sent_refl]] by (simp_all add: subcmd_send_lobby_bb_def)

lemma after_server_packet [simp]:
  "cl (snd (subcmd_send_picked_up e c d i d2 b w)) = cl w" "lob (snd (subcmd_send_picked_up e c d i d2 b w)) = lob w"
  "fst (subcmd_send_picked_up e c d i d2 b w) = 0"
  "cl (snd (subcmd_send_destroy_map_item e c a i w)) = cl w" "lob (snd (subcmd_send_destroy_map_item e c a i w)) = lob w"
  "fst (subcmd_send_destroy_map_item e c a i w) = 0"
  "cl (snd (subcmd_send_destroy_item e c i amt w)) = cl w" "lob (snd (subcmd_send_destroy_item e c i amt w)) = lob w"
  "fst (subcmd_send_destroy_item e c i amt w) = 0"
  by (simp_all add: subcmd_send_picked_up_def subcmd_send_destroy_map_item_def subcmd_send_destroy_item_def Let_def)

subsection \<open>The inventory and the floor\<close>

definition carried :: "ship_client \<Rightarrow> item_t list" where
  "carried x = take (bb_count x) (bb_items x)"

definition floor_items :: "world \<Rightarrow> cref \<Rightarrow> item_t list" where
  "floor_items w c = item_queue (lob w (lobby_of w c))"

lemma bb_fields [simp]:
  "bb_items (set_bb_items xs x) = xs" "bb_count (set_bb_items xs x) = bb_count x"
  "bb_items (set_bb_count n x) = bb_items x" "cur_lobby (set_bb_items xs x) = cur_lobby x"
  "cur_lobby (set_bb_count n x) = cur_lobby x" "client_id (set_bb_items xs x) = client_id x"
  "client_id (set_bb_count n x) = client_id x"
  "bb_meseta (set_bb_items xs x) = bb_meseta x" "bb_meseta (set_bb_count n x) = bb_meseta x"
  "bb_bank (set_bb_items xs x) = bb_bank x" "bb_bank (set_bb_count n x) = bb_bank x"
  "bb_items (set_meseta m x) = bb_items x" "bb_count (set_meseta m x) = bb_count x"
  "cur_lobby (set_meseta m x) = cur_lobby x" "bb_meseta (set_meseta m x) = m" "bb_bank (set_meseta m x) = bb_bank x"
  by (simp_all add: set_bb_items_def set_bb_count_def set_meseta_def bb_items_def bb_count_def)

lemma bb_count_set [simp]: "0 \<le> n \<Longrightarrow> n \<le> 30 \<Longrightarrow> bb_count (set_bb_count n x) = nat n"
  by (simp add: set_bb_count_def bb_count_def unsigned_of_int take_bit_int_eq_self)

lemma bb_bank_upd [simp]:
  "bb_items (x\<lparr>bb_bank := b\<rparr>) = bb_items x" "bb_count (x\<lparr>bb_bank := b\<rparr>) = bb_count x"
  by (simp_all add: bb_items_def bb_count_def)

lemma lobby_of_store [simp]:
  "lobby_of (upd_client d f w) c = (if c = d then the (cur_lobby (f (cl w d))) else lobby_of w c)"
  "lobby_of (upd_lobby l g w) c = lobby_of w c" "lobby_of (emit ev w) c = lobby_of w c"
  by (simp_all add: lobby_of_def)

text \<open>Taking off units concerns neither ids nor data.\<close>

lemma clear_equip_fields [simp]:
  "data_b (clear_equip it) = data_b it" "item_id (clear_equip it) = item_id it" "data_l0 (clear_equip it) = data_l0 it"
  by (simp_all add: clear_equip_def data_l0_def)

lemma map_unequip: "(\<And>it. f (clear_equip it) = f it) \<Longrightarrow> map f (unequip_units n xs) = map f xs"
proof -
  assume f: "\<And>it. f (clear_equip it) = f it"
  then have "map f (map (\<lambda>it. if is_unit it then clear_equip it else it) ys) = map f ys" for ys by simp
  then show ?thesis by (simp only: unequip_units_def map_append) (simp flip: map_append)
qed

lemma unequip_units_maps [simp]:
  "map data_b (unequip_units n xs) = map data_b xs" "map item_id (unequip_units n xs) = map item_id xs"
  "length (unequip_units n xs) = length xs"
  by (simp_all add: map_unequip) (simp add: unequip_units_def)

text \<open>Two lists with the same ids and data.\<close>

definition same_goods :: "item_t list \<Rightarrow> item_t list \<Rightarrow> bool" where
  "same_goods xs ys \<longleftrightarrow> map data_b ys = map data_b xs \<and> map item_id ys = map item_id xs"

lemma same_goods_wf:
  assumes "same_goods xs ys"
  shows "inv_wf ys n = inv_wf xs n" "inv_ids ys n = inv_ids xs n"
    "inv_item.total k (take n ys) = inv_item.total k (take n xs)"
proof -
  have "length ys = length xs" using assms map_eq_imp_length_eq by (auto simp: same_goods_def)
  moreover have "map item_id (take n ys) = map item_id (take n xs)"
    by (rule arg_cong [of "map item_id ys" "map item_id xs" "take n", unfolded take_map]) (use assms in \<open>simp add: same_goods_def\<close>)
  moreover have "map data_b (take n ys) = map data_b (take n xs)"
    by (rule arg_cong [of "map data_b ys" "map data_b xs" "take n", unfolded take_map]) (use assms in \<open>simp add: same_goods_def\<close>)
  moreover have "(\<forall>x \<in> set ys. length (data_b x) = 12) = (\<forall>x \<in> set xs. length (data_b x) = 12)"
  proof -
    have all: "(\<forall>x \<in> set zs. length (data_b x) = 12) = (\<forall>d \<in> set (map data_b zs). length d = 12)" for zs by simp
    show ?thesis unfolding all using assms by (simp only: same_goods_def)
  qed
  ultimately show "inv_wf ys n = inv_wf xs n" "inv_ids ys n = inv_ids xs n"
    by (simp_all only: inv_wf_def inv_ids_def)
  define g where "g d = (if get_le32 d 0 = k then if item_is_stackable (get_le32 d 0) then unat (d ! 5 :: u8) else 1 else 0)" for d
  have "inv_item.pieces k x = g (data_b x)" for x
    by (simp add: inv_item.pieces_def inv_item.units_def g_def data_l0_def)
  then have "inv_item.total k zs = sum_list (map g (map data_b zs))" for zs by (induction zs) simp_all
  then show "inv_item.total k (take n ys) = inv_item.total k (take n xs)"
    using \<open>map data_b (take n ys) = map data_b (take n xs)\<close> by (simp only:)
qed

lemma same_goods_clear: "i < length xs \<Longrightarrow> same_goods xs (xs[i := clear_equip (xs ! i)])"
  by (simp add: same_goods_def map_update) (metis list_update_id nth_map)

lemma same_goods_units: "same_goods xs ys \<Longrightarrow> same_goods xs (unequip_units n ys)"
  by (simp add: same_goods_def)

end
