(* ===== verification/Bb_Floor.thy ===== *)
theory Bb_Floor
  imports Subcmd_Items
begin

section \<open>Items between players and the floor\<close>

text \<open>
  Dropping and picking up items of a Blue Burst game.  The pieces of a code are counted over what
  the player carries and what lies on the floor.
\<close>

definition holdings :: "u32 \<Rightarrow> world \<Rightarrow> cref \<Rightarrow> nat" where
  "holdings k w c = inv_item.total k (carried (cl w c)) + inv_item.total k (floor_items w c)"

definition player_ok :: "ship_client \<Rightarrow> bool" where
  "player_ok x \<longleftrightarrow> inv_wf (bb_items x) (bb_count x)"

lemma player_okD: "player_ok x \<Longrightarrow> bb_count x \<le> 30"
  by (simp add: player_ok_def inv_wf_def)

lemma found_item:
  assumes "player_ok x" "find_bb_item x iid \<noteq> bb_count x"
  shows "find_bb_item x iid < bb_count x" "item_id (bb_items x ! find_bb_item x iid) = iid"
    "find_bb_item x iid < length (bb_items x)"
  using find_slot_found [of "bb_count x" "bb_items x" "\<lambda>it. item_id it = iid"] assms
  by (auto simp: find_bb_item_def player_ok_def inv_wf_def)

lemma floor_upd [simp]: "floor_items (upd_client c f w) c = item_queue (lob w (the (cur_lobby (f (cl w c)))))"
  by (simp add: floor_items_def)

lemma floor_sent [simp]:
  "floor_items (snd (subcmd_send_lobby_bb e l d p ig w)) c = floor_items w c"
  by (simp add: floor_items_def lobby_of_def)

lemma remove_whole:
  assumes "inv_wf s0 n" "x \<in> set (take n s0)"
  obtains s1 where "item_remove_from_inv s0 n (item_id x) 0xFFFFFFFF = (1, s1)" "inv_wf s1 (n - 1)"
    "inv_ids s1 (n - 1) = inv_ids s0 n - {item_id x}"
    "\<And>k. inv_item.total k (take (n - 1) s1) + inv_item.pieces k x = inv_item.total k (take n s0)"
proof -
  have "inv_item.pieces k x = (if k = data_l0 x then inv_item.units x else 0)" for k
    by (auto simp: inv_item.pieces_def)
  then show ?thesis using item_remove_from_inv_ok [OF assms, of "0xFFFFFFFF"] that by (simp only: simp_thms if_False) metis
qed

text \<open>A game with one player, for the witnesses: she carries a stack of five Monomates and 300 meseta, and
  another five Monomates and 100 meseta are in her bank.\<close>

definition bb_player :: ship_client where
  "bb_player = (new_client CLIENT_VERSION_BB 42)\<lparr>cur_lobby := Some 5,
     bb_inv := \<lparr>inv_count = 1, hpmats_used = 0, tpmats_used = 0, inv_language = 0, inv_items = replicate 30 monomates\<rparr>,
     bb_meseta := 300, bb_bank := bank1\<lparr>bank_meseta := 100\<rparr>\<rparr>"

definition bb_game :: lobby where
  "bb_game = zero_lobby\<lparr>l_type := LOBBY_TYPE_GAME, max_clients := 4, num_clients := 1, l_version := CLIENT_VERSION_BB,
     slots := Some 7 # replicate 11 None\<rparr>"

definition bb_world :: world where
  "bb_world = world0\<lparr>lobbies := (\<lambda>l. if l = 5 then Some bb_game else None), clients := (\<lambda>_. bb_player)\<rparr>"

definition bb_env :: sub_env where
  "bb_env = \<lparr>send_fails = (\<lambda>_. False), ship_limits = None, shl1 = (\<lambda>n. 2 ^ n), v2_drop_data = False,
     gc_drop_data = False, v2_maps = False, gc_maps = False, game_enemies = (\<lambda>_. Some []),
     game_objs = (\<lambda>_. []), enemy_exps = (\<lambda>_. []),
     has_mem = True, iconv = (\<lambda>_ s n. take n s), levels = (\<lambda>_ n. \<lparr>e_stats = replicate 6 1, e_exp = of_nat (50 * n)\<rparr>),
     junk_isframe = 0, junk_item = monomates, junk_items = replicate 30 monomates,
     junk_enemy = \<lparr>bp_entry = 0, rt_index = 0, clients_hit = 0, last_client = 0, drop_done = 0\<rparr>, junk_bytes = []\<rparr>"

definition bb_packet :: "u16 \<Rightarrow> u8 list \<Rightarrow> packet" where
  "bb_packet len d = \<lparr>pkt_type = GAME_COMMAND0_TYPE, pkt_len = len, pkt_flags = 0, payload = d\<rparr>"

definition monomate_drop :: packet where
  "monomate_drop = bb_packet 0x20 ([0x2A, 6, 0, 0, 1, 0, 0, 0, 0, 0, 1, 0] @ replicate 12 0)"

text \<open>C14: Dropping a whole item.  What was carried and what lay on the floor is afterwards the same, in
  every case; when the packet is accepted the item of that id has left the inventory and lies on
  the floor, and when it is refused nothing has moved.\<close>

theorem handle_bb_drop_item_moves:
  assumes "player_ok (cl w c)" "lobbies w (lobby_of w c) \<noteq> None" "handle_bb_drop_item e c p w = (r, w')"
  shows "player_ok (cl w' c) \<and> holdings k w' c = holdings k w c \<and> (r = 0 \<or> r = -1) \<and>
     (if r = 0 then sub_long p 8 \<in> item_id ` set (floor_items w' c) \<and>
        inv_ids (bb_items (cl w' c)) (bb_count (cl w' c)) =
          inv_ids (bb_items (cl w c)) (bb_count (cl w c)) - {sub_long p 8}
      else floor_items w' c = floor_items w c)"
proof -
  let ?x = "cl w c" and ?l = "lobby_of w c" and ?iid = "sub_long p 8"
  let ?n = "bb_count ?x" and ?i = "find_bb_item ?x ?iid"
  let ?it = "bb_items ?x ! ?i"
  define fr where "fr = (if is_frame ?it \<and> item_flags ?it AND 8 \<noteq> 0 then 1 else junk_isframe e)"
  define xs where "xs = (if fr \<noteq> 0 then unequip_units ?n ((bb_items ?x)[?i := clear_equip ?it])
     else (bb_items ?x)[?i := clear_equip ?it])"
  show ?thesis
  proof (cases "bad_packet w c p 0x20 0x06 \<or> not_self w c p \<or> ?i = ?n")
    case True
    then have "r = -1 \<and> w' = w"
      using assms(3) by (cases "bad_packet w c p 0x20 0x06 \<or> not_self w c p") (auto simp: handle_bb_drop_item_def)
    then show ?thesis using assms(1) by simp
  next
    case False
    note i = found_item [OF assms(1), of ?iid]
    have same: "same_goods (bb_items ?x) xs"
      unfolding xs_def using same_goods_clear [of ?i "bb_items ?x"] i False by (simp add: same_goods_units)
    have wf: "inv_wf xs ?n" using same_goods_wf(1) [OF same] assms(1) by (simp add: player_ok_def)
    have total: "inv_item.total k (take ?n xs) = inv_item.total k (carried ?x)"
      using same_goods_wf(3) [OF same] by (simp add: carried_def)
    have at: "item_id (xs ! ?i) = ?iid" "length xs = length (bb_items ?x)"
    proof -
      show "length xs = length (bb_items ?x)" using same map_eq_imp_length_eq by (auto simp: same_goods_def)
      have "map item_id xs ! ?i = map item_id (bb_items ?x) ! ?i" using same by (simp add: same_goods_def)
      then show "item_id (xs ! ?i) = ?iid" using i False \<open>length xs = _\<close> by simp
    qed
    have mem: "xs ! ?i \<in> set (take ?n xs)" using i at False by (auto simp: in_set_conv_nth)
    obtain xs' where rm: "item_remove_from_inv xs ?n ?iid 0xFFFFFFFF = (1, xs')" "inv_wf xs' (?n - 1)"
        "inv_ids xs' (?n - 1) = inv_ids xs ?n - {?iid}"
        "\<And>k. inv_item.total k (take (?n - 1) xs') + inv_item.pieces k (xs ! ?i) = inv_item.total k (take ?n xs)"
      using remove_whole [OF wf mem] unfolding at(1) by blast
    let ?add = "lobby_add_item2_locked (has_mem e) ?l (xs ! ?i) (upd_client c (set_bb_items xs) w)"
    show ?thesis
    proof (cases "fst ?add")
      case None
      then have "r = -1 \<and> w' = upd_client c (set_bb_items xs) w"
        using assms(3) False
        by (auto simp: handle_bb_drop_item_def Let_def fr_def xs_def lobby_add_item2_locked_def split: if_splits)
      then show ?thesis
        using wf total by (simp add: player_ok_def holdings_def carried_def floor_items_def lobby_of_def)
    next
      case (Some it)
      let ?w1 = "upd_lobby ?l (\<lambda>L. L\<lparr>item_queue := xs ! ?i # item_queue L\<rparr>) (upd_client c (set_bb_items xs) w)"
      have a: "snd ?add = ?w1"
        using Some by (auto simp: lobby_add_item2_locked_def split: if_splits)
      have n: "0 < ?n" using i False by linarith
      have "r = 0 \<and> w' = snd (subcmd_send_lobby_bb e ?l (Some c) p False
          (upd_client c (set_bb_count (int ?n - 1)) (upd_client c (set_bb_items xs') ?w1)))"
        unfolding a [symmetric] using assms(3) False rm(1) Some
        by (auto simp: handle_bb_drop_item_def Let_def fr_def [symmetric] xs_def [symmetric] split_def
            subcmd_send_lobby_bb_def)
      moreover have "nat (int ?n - 1) = ?n - 1" by simp
      ultimately show ?thesis
        using assms(2) rm(2-4) wf total n player_okD [OF assms(1)] at(1) same_goods_wf(2) [OF same]
        by (simp add: player_ok_def holdings_def carried_def floor_items_def lobby_of_def lob_upd_lobby)
    qed
  qed
qed

theorem handle_bb_drop_item_moves_witness:
  "\<exists>w'. handle_bb_drop_item bb_env 7 monomate_drop bb_world = (0, w') \<and> holdings 3 w' 7 = holdings 3 bb_world 7 \<and>
     inv_ids (bb_items (cl w' 7)) (bb_count (cl w' 7)) = {}"
proof -
  obtain r w' where h: "handle_bb_drop_item bb_env 7 monomate_drop bb_world = (r, w')" by fastforce
  have "fst (handle_bb_drop_item bb_env 7 monomate_drop bb_world) = 0" by code_simp
  moreover have "lobbies bb_world (lobby_of bb_world 7) \<noteq> None" by code_simp
  moreover have "player_ok (cl bb_world 7)" by code_simp
  moreover have "inv_ids (bb_items (cl bb_world 7)) (bb_count (cl bb_world 7)) - {sub_long monomate_drop 8} = {}"
    by code_simp
  ultimately show ?thesis using handle_bb_drop_item_moves [of bb_world 7 bb_env monomate_drop r w' 3] h by simp
qed

lemma total_remove1: "it \<in> set xs \<Longrightarrow> inv_item.total k (remove1 it xs) + inv_item.pieces k it = inv_item.total k xs"
  by (induction xs) auto

definition taken_up :: "item_t \<Rightarrow> item_t" where
  "taken_up it = it\<lparr>item_flags := 0, equipped := 1, tech := 0\<rparr>"

lemma taken_up_fields [simp]:
  "data_b (taken_up it) = data_b it" "item_id (taken_up it) = item_id it" "data_l0 (taken_up it) = data_l0 it"
  "inv_item.pieces k (taken_up it) = inv_item.pieces k it"
  by (simp_all add: taken_up_def data_l0_def inv_item.pieces_def inv_item.units_def)

text \<open>C15: Picking up an item, with a well-formed packet, in a game where no stack would grow beyond the 255
  pieces its byte can count.  Asking for something that does not lie there changes nothing.
  Otherwise exactly that item leaves the floor.  Money goes to the player's money, which stays at most
  999999.  Of any other item the inventory gains, for every code, the pieces it has, so that floor and
  inventory together keep theirs, unless the inventory is full or has an item of that id
  already: then the request is an error, the inventory stays as it is, and the item is lost.\<close>

theorem handle_bb_pick_up_moves:
  assumes "player_ok (cl w c)" "lobbies w (lobby_of w c) \<noteq> None" "l_version (lob w (lobby_of w c)) = CLIENT_VERSION_BB"
    "\<not> bad_packet w c p 0x14 0x03" "\<not> not_self w c p"
    "\<forall>y \<in> set (floor_items w c). length (data_b y) = 12 \<and> (\<forall>x \<in> set (carried (cl w c)).
       data_l0 x = data_l0 y \<longrightarrow> unat (data_b x ! 5) + unat (data_b y ! 5) < 256)"
    "handle_bb_pick_up e c p w = (r, w')"
  shows "case List.find (\<lambda>it. item_id it = sub_long p 4) (floor_items w c) of
      None \<Rightarrow> r = 0 \<and> w' = w
    | Some it \<Rightarrow> player_ok (cl w' c) \<and> floor_items w' c = remove1 it (floor_items w c) \<and>
        (if data_l0 it = Item_Meseta then r = 0 \<and> carried (cl w' c) = carried (cl w c) \<and>
           bb_meseta (cl w' c) = min 999999 (get_le32 (data2_b it) 0 + bb_meseta (cl w c))
         else if bb_count (cl w c) = 30 \<or> item_id it \<in> inv_ids (bb_items (cl w c)) (bb_count (cl w c))
         then r = -1 \<and> carried (cl w' c) = carried (cl w c) \<and>
           holdings k w' c + inv_item.pieces k it = holdings k w c
         else r = 0 \<and> holdings k w' c = holdings k w c \<and>
           inv_item.total k (carried (cl w' c)) = inv_item.total k (carried (cl w c)) + inv_item.pieces k it)"
proof -
  let ?x = "cl w c" and ?iid = "sub_long p 4"
  define l where "l = lobby_of w c"
  have l: "lobbies w l \<noteq> None" "l_version (lob w l) = CLIENT_VERSION_BB" "the (cur_lobby ?x) = l"
    using assms(2,3) by (simp_all add: l_def lobby_of_def)
  have rw: "r = fst (handle_bb_pick_up e c p w)" "w' = snd (handle_bb_pick_up e c p w)" using assms(7) by simp_all
  have cap: "(if tmp > 999999 then 999999 else tmp) = min 999999 tmp" for tmp :: u32 by simp
  have fl: "floor_items w c = item_queue (lob w l)" by (simp add: floor_items_def l_def)
  show ?thesis
  proof (cases "List.find (\<lambda>it. item_id it = ?iid) (item_queue (lob w l))")
    case None
    then have "r = 0 \<and> w' = w"
      using assms(4,5,7) l(2) by (auto simp: handle_bb_pick_up_def lobby_remove_item_locked_def l_def [symmetric])
    then show ?thesis using None by (simp add: fl)
  next
    case (Some it)
    then have it: "it \<in> set (item_queue (lob w l))" "item_id it = ?iid"
      by (auto simp: find_Some_iff in_set_conv_nth)
    let ?w = "upd_lobby l (\<lambda>L. L\<lparr>item_queue := remove1 it (item_queue L)\<rparr>) w"
    have queue: "item_queue (lob ?w l) = remove1 it (item_queue (lob w l))" using l by (simp add: lob_upd_lobby)
    have rem: "lobby_remove_item_locked l ?iid w = (0, Some it, ?w)"
      using Some l by (simp add: lobby_remove_item_locked_def)
    show ?thesis
    proof (cases "data_l0 it = Item_Meseta")
      case True
      then have "r = 0 \<and> cl w' c = set_meseta (min 999999 (get_le32 (data2_b it) 0 + bb_meseta ?x)) ?x \<and> lob w' l = lob ?w l"
        unfolding rw using assms(4,5) rem by (simp add: handle_bb_pick_up_def l_def [symmetric] split_def cap)
      then show ?thesis using True Some assms(1) queue l(3)
        by (simp add: fl player_ok_def carried_def floor_items_def lobby_of_def)
    next
      case False
      let ?add = "item_add_to_inv (bb_items ?x) (bb_count ?x) (taken_up it)"
      note add = item_add_to_inv_ok [of "bb_items ?x" "bb_count ?x" "taken_up it"]
      have wf: "inv_wf (bb_items ?x) (bb_count ?x)" "length (data_b (taken_up it)) = 12"
        "\<forall>y \<in> set (take (bb_count ?x) (bb_items ?x)). data_l0 y = data_l0 (taken_up it) \<longrightarrow>
           unat (data_b y ! 5) + unat (data_b (taken_up it) ! 5) < 256"
        using assms(1,6) it fl by (simp_all add: player_ok_def carried_def)
      have tot: "inv_item.total k (remove1 it (item_queue (lob w l))) + inv_item.pieces k it
          = inv_item.total k (item_queue (lob w l))" using total_remove1 [OF it(1)] .
      show ?thesis
      proof (cases "bb_count ?x = 30 \<or> item_id it \<in> inv_ids (bb_items ?x) (bb_count ?x)")
        case full: True
        then have "?add = (-1, bb_items ?x)" using add [OF wf] by simp
        then have "r = -1 \<and> w' = ?w"
          unfolding rw using assms(4,5) rem False
          by (simp add: handle_bb_pick_up_def l_def [symmetric] Let_def split_def taken_up_def [symmetric])
        then show ?thesis
          using False full Some assms(1) tot l queue by (simp add: fl holdings_def floor_items_def lobby_of_def)
      next
        case room: False
        then obtain ra xs n where a: "?add = (ra, xs)" "ra = int n - int (bb_count ?x)" "inv_wf xs n"
            "inv_item.total k (take n xs) = inv_item.total k (carried ?x) + inv_item.pieces k it"
          using add [OF wf] by (auto simp: carried_def dest: spec [of _ k])
        have "find_slot (\<lambda>y. item_id y = item_id it) (bb_items ?x) (bb_count ?x) = bb_count ?x"
          using find_slot_none [of "bb_count ?x" "bb_items ?x" "\<lambda>y. item_id y = item_id it"] room assms(1)
          by (auto simp: player_ok_def inv_wf_def inv_ids_def image_iff)
        then have n: "n \<le> 30" "ra \<noteq> -1" "int (bb_count ?x) + ra = int n"
          using a room by (auto simp: inv_wf_def item_add_to_inv_def Let_def split: if_splits)
        have "r = 0 \<and> cl w' = cl (upd_client c (set_bb_count (int n)) (upd_client c (set_bb_items xs) ?w)) \<and>
            lob w' = lob (upd_client c (set_bb_count (int n)) (upd_client c (set_bb_items xs) ?w))"
          unfolding rw using assms(4,5) rem False a(1) n(2,3)
          by (simp add: handle_bb_pick_up_def l_def [symmetric] Let_def split_def taken_up_def [symmetric])
        then show ?thesis
          using False room Some tot l queue a n
          by (simp add: fl holdings_def floor_items_def lobby_of_def player_ok_def carried_def)
      qed
    qed
  qed
qed

definition floor_world :: world where
  "floor_world = upd_lobby 5 (\<lambda>L. L\<lparr>item_queue := [monomates\<lparr>item_id := 7\<rparr>]\<rparr>) bb_world"

definition monomate_pick :: packet where
  "monomate_pick = bb_packet 0x14 [0x5A, 3, 0, 0, 7, 0, 0, 0, 1, 0, 0, 0]"

theorem handle_bb_pick_up_moves_witness:
  "\<exists>w'. handle_bb_pick_up bb_env 7 monomate_pick floor_world = (0, w') \<and> floor_items w' 7 = [] \<and>
     holdings 3 w' 7 = holdings 3 floor_world 7 \<and> player_ok (cl w' 7)"
proof -
  obtain r w' where h: "handle_bb_pick_up bb_env 7 monomate_pick floor_world = (r, w')" by fastforce
  have "lobbies floor_world (lobby_of floor_world 7) \<noteq> None"
    "l_version (lob floor_world (lobby_of floor_world 7)) = CLIENT_VERSION_BB"
    "\<not> bad_packet floor_world 7 monomate_pick 0x14 0x03" "\<not> not_self floor_world 7 monomate_pick"
    "player_ok (cl floor_world 7)" "floor_items floor_world 7 = [monomates\<lparr>item_id := 7\<rparr>]"
    "carried (cl floor_world 7) = [monomates]" "sub_long monomate_pick 4 = 7"
    "bb_count (cl floor_world 7) = 1" "7 \<notin> inv_ids (bb_items (cl floor_world 7)) 1"
    "data_l0 monomates \<noteq> Item_Meseta" "length (data_b monomates) = 12" "data_b monomates ! 5 = 5"
    by code_simp+
  moreover have "data_l0 (monomates\<lparr>item_id := 7\<rparr>) = data_l0 monomates" by (simp add: data_l0_def)
  ultimately show ?thesis using handle_bb_pick_up_moves [OF _ _ _ _ _ _ h, of 3] h by simp
qed

end
