(* ===== verification/Bb_Bank.thy ===== *)
theory Bb_Bank
  imports Bb_Floor
begin

section \<open>Money and items between players and the bank\<close>

text \<open>
  The actions a Blue Burst player takes at the bank: money and items only move between the player and
  the bank, as long as the player does not ask for more pieces than the stack has.
\<close>

subsection \<open>Money\<close>

definition money :: "ship_client \<Rightarrow> nat" where
  "money x = unat (bb_meseta x) + unat (bank_meseta (bb_bank x))"

definition money_ok :: "ship_client \<Rightarrow> bool" where
  "money_ok x \<longleftrightarrow> bb_meseta x \<le> 999999 \<and> bank_meseta (bb_bank x) \<le> 999999"

lemma deposit_meseta [simp]: "bank_meseta (snd (item_deposit_to_bank b it)) = bank_meseta b"
  by (simp add: item_deposit_to_bank_def Let_def)

lemma take_meseta [simp]: "bank_meseta (fst (snd (item_take_from_bank b iid amt))) = bank_meseta b"
  by (simp add: item_take_from_bank_def Let_def)

lemma money_fields [simp]:
  "money (set_bb_items xs x) = money x" "money (set_bb_count n x) = money x"
  "money_ok (set_bb_items xs x) = money_ok x" "money_ok (set_bb_count n x) = money_ok x"
  by (simp_all add: money_def money_ok_def)

lemma money_bank [simp]: "bank_meseta b = bank_meseta (bb_bank x) \<Longrightarrow>
    money (x\<lparr>bb_bank := b\<rparr>) = money x \<and> money_ok (x\<lparr>bb_bank := b\<rparr>) = money_ok x"
  by (simp add: money_def money_ok_def)

lemma deposit_item_money:
  "money (cl (snd (bank_deposit_item e c iid amt w)) c) = money (cl w c) \<and>
     money_ok (cl (snd (bank_deposit_item e c iid amt w)) c) = money_ok (cl w c)"
proof -
  let ?x = "cl w c"
  let ?it = "bb_items ?x ! find_bb_item ?x iid"
  obtain n xs where rm: "item_remove_from_inv (bb_items ?x) (bb_count ?x) iid (ucast amt) = (n, xs)" by fastforce
  obtain r b where dep: "item_deposit_to_bank (bb_bank ?x) (to_bank_item ?it amt) = (r, b)" by fastforce
  have b: "bank_meseta b = bank_meseta (bb_bank ?x)" using deposit_meseta [of "bb_bank ?x"] dep by (metis snd_conv)
  show ?thesis
    unfolding bank_deposit_item_def Let_def rm dep prod.case
    by (simp only: if_distrib [of snd] if_distrib [of cl] if_distrib [of "\<lambda>f. f c"] after_server_packet
        cl_store snd_conv if_True simp_thms) (simp add: b money_def money_ok_def)
qed

lemma take_item_money:
  "money (cl (snd (bank_take_item e c iid amt w)) c) = money (cl w c) \<and>
     money_ok (cl (snd (bank_take_item e c iid amt w)) c) = money_ok (cl w c)"
proof -
  let ?x = "cl w c"
  obtain r b t where tk: "item_take_from_bank (bb_bank ?x) iid amt = (r, b, t)" by (metis prod_cases3)
  have b: "bank_meseta b = bank_meseta (bb_bank ?x)" using take_meseta [of "bb_bank ?x"] tk by (metis fst_conv snd_conv)
  obtain n xs where add: "item_add_to_inv (bb_items ?x) (bb_count ?x)
      (from_bank_item (the t) (l_item_id (lob w (lobby_of w c)))) = (n, xs)" by (metis surj_pair)
  have "snd (bank_take_item e c iid amt w) =
     (let w1 = upd_client c (\<lambda>x. x\<lparr>bb_bank := b\<rparr>) w; w2 = upd_lobby (lobby_of w c) (\<lambda>L. L\<lparr>l_item_id := l_item_id L + 1\<rparr>) w1;
          it = from_bank_item (the t) (l_item_id (lob w (lobby_of w c)))
      in if r < 0 then w1
         else if n < 0 then upd_client c (\<lambda>x. x\<lparr>bb_bank := snd (item_deposit_to_bank b (the t))\<rparr>) w2
         else snd (subcmd_send_picked_up e c (data_b it) (item_id it) (data2_b it) True
                (upd_client c (set_bb_count (int (bb_count ?x) + n)) (upd_client c (set_bb_items xs) w2))))"
    unfolding bank_take_item_def Let_def tk prod.case by (simp add: add)
  then show ?thesis by (simp add: Let_def b money_def money_ok_def)
qed

lemma moved:
  fixes a b amt :: u32
  assumes "amt \<le> a" "a \<le> 999999" "b \<le> 999999" "amt + b \<le> 999999"
  shows "unat (a - amt) + unat (b + amt) = unat a + unat b" "a - amt \<le> 999999"
proof -
  have "unat b + unat amt < 2 ^ LENGTH(32)" using assms(1-3) by (simp add: word_le_nat_alt)
  then have "unat (b + amt) = unat b + unat amt" by (rule unat_add_lem [THEN iffD1])
  then show "unat (a - amt) + unat (b + amt) = unat a + unat b"
    using assms(1) by (simp add: unat_sub word_le_nat_alt)
  show "a - amt \<le> 999999" using assms(1,2) by (simp add: word_le_nat_alt unat_sub)
qed

text \<open>C13: At the bank money neither appears nor vanishes, whatever the packet asks for, and neither
  the player nor the bank ever has more than 999999.\<close>

theorem handle_bb_bank_action_money:
  assumes "money_ok (cl w c)" "handle_bb_bank_action e c p w = (r, w')"
  shows "money (cl w' c) = money (cl w c) \<and> money_ok (cl w' c)"
proof -
  let ?x = "cl w c" and ?amt = "sub_long p 8"
  have "money (cl (snd (bank_deposit_meseta c ?amt w)) c) = money ?x \<and> money_ok (cl (snd (bank_deposit_meseta c ?amt w)) c)"
    using assms(1) moved [of ?amt "bb_meseta ?x" "bank_meseta (bb_bank ?x)"]
    by (auto simp: bank_deposit_meseta_def Let_def money_def money_ok_def not_less add.commute)
  moreover have "money (cl (snd (bank_take_meseta c ?amt w)) c) = money ?x \<and> money_ok (cl (snd (bank_take_meseta c ?amt w)) c)"
    using assms(1) moved [of ?amt "bank_meseta (bb_bank ?x)" "bb_meseta ?x"]
    by (auto simp: bank_take_meseta_def Let_def money_def money_ok_def not_less add.commute)
  ultimately have "money (cl (snd (handle_bb_bank_action e c p w)) c) = money ?x \<and>
      money_ok (cl (snd (handle_bb_bank_action e c p w)) c)"
    using deposit_item_money take_item_money assms(1) by (simp add: handle_bb_bank_action_def Let_def)
  with assms(2) show ?thesis by simp
qed

definition meseta_deposit :: packet where
  "meseta_deposit = bb_packet 0x18 ([0xBD, 4, 0, 0] @ replicate 4 0xFF @ [200, 0, 0, 0, 0, 0, 0, 0])"

theorem handle_bb_bank_action_money_witness:
  "\<exists>w'. handle_bb_bank_action bb_env 7 meseta_deposit bb_world = (0, w') \<and> money (cl w' 7) = 400 \<and>
     bb_meseta (cl w' 7) = 100"
proof -
  obtain r w' where h: "handle_bb_bank_action bb_env 7 meseta_deposit bb_world = (r, w')" by fastforce
  have "fst (handle_bb_bank_action bb_env 7 meseta_deposit bb_world) = 0"
    "bb_meseta (cl (snd (handle_bb_bank_action bb_env 7 meseta_deposit bb_world)) 7) = 100"
    "money (cl bb_world 7) = 400" "money_ok (cl bb_world 7)" by code_simp+
  then show ?thesis using handle_bb_bank_action_money [OF _ h] h by simp
qed

subsection \<open>Items\<close>

abbreviation carries :: "u32 \<Rightarrow> ship_client \<Rightarrow> nat" where
  "carries k x \<equiv> inv_item.total k (carried x)"

abbreviation banks :: "u32 \<Rightarrow> ship_client \<Rightarrow> nat" where
  "banks k x \<equiv> bank_item.total k (bank_list (bb_bank x))"

lemma from_bank_item_fields [simp]:
  "data_b (from_bank_item b i) = bdata_b b" "item_id (from_bank_item b i) = i"
  "data_l0 (from_bank_item b i) = bdata_l0 b"
  "inv_item.pieces k (from_bank_item b i) = bank_item.pieces k b"
  by (simp_all add: from_bank_item_def data_l0_def bdata_l0_def inv_item.pieces_def inv_item.units_def
      bank_item.pieces_def bank_item.units_def)

lemma to_bank_item_fields:
  assumes "length (data_b it) = 12"
  shows "bdata_l0 (to_bank_item it amt) = data_l0 it" "bitem_id (to_bank_item it amt) = item_id it"
    "length (bdata_b (to_bank_item it amt)) = 12"
    "bdata_b (to_bank_item it amt) ! 5 = (if item_is_stackable (data_l0 it) then amt else data_b it ! 5)"
    "bank_item.pieces k (to_bank_item it amt) =
       (if k = data_l0 it then if item_is_stackable (data_l0 it) then unat amt else 1 else 0)"
proof -
  have c: "bdata_l0 (to_bank_item it amt) = data_l0 it"
    using inv_item.code_put [of it amt] by (simp add: to_bank_item_def bdata_l0_def data_l0_def Let_def)
  show "bdata_l0 (to_bank_item it amt) = data_l0 it" by (rule c)
  show "bitem_id (to_bank_item it amt) = item_id it" "length (bdata_b (to_bank_item it amt)) = 12"
    using assms by (simp_all add: to_bank_item_def set_stack_def Let_def)
  show s: "bdata_b (to_bank_item it amt) ! 5 = (if item_is_stackable (data_l0 it) then amt else data_b it ! 5)"
    using assms by (simp add: to_bank_item_def set_stack_def Let_def)
  show "bank_item.pieces k (to_bank_item it amt) =
       (if k = data_l0 it then if item_is_stackable (data_l0 it) then unat amt else 1 else 0)"
    by (simp add: bank_item.pieces_def bank_item.units_def c s)
qed

lemma item_taken:
  assumes "bank_wf bank" "item_take_from_bank bank iid amt = (r, bank', Some it)" "0 \<le> r"
  shows "\<exists>b \<in> set (bank_list bank). bdata_l0 it = bdata_l0 b \<and> bdata_b it ! 5 \<le> bdata_b b ! 5 \<and> length (bdata_b it) = 12"
proof -
  let ?n = "unat (bank_count bank)" and ?i = "find_slot (\<lambda>x. bitem_id x = iid) (bank_items bank) (unat (bank_count bank))"
  let ?b = "bank_items bank ! ?i"
  have n: "?n \<le> length (bank_items bank)" using assms(1) by (simp add: bank_wf_def)
  have i: "?i < ?n" using assms(2,3) find_slot_found [OF n, of "\<lambda>x. bitem_id x = iid"]
    by (auto simp: item_take_from_bank_def Let_def split: if_splits)
  then have b: "?b \<in> set (bank_list bank)" using n by (auto simp: bank_list_def in_set_conv_nth)
  then have "length (bdata_b ?b) = 12" using assms(1) by (auto simp: bank_list_def bank_wf_def dest: in_set_takeD)
  note b = b this
  have "it = ?b \<or> it = set_bstack ?b amt \<and> amt < bdata_b ?b ! 5"
    using assms(2,3) by (auto simp: item_take_from_bank_def Let_def split: if_splits)
  then have "bdata_l0 it = bdata_l0 ?b \<and> bdata_b it ! 5 \<le> bdata_b ?b ! 5 \<and> length (bdata_b it) = 12"
    using b bank_item.code_put [of ?b amt] by (auto simp: set_bstack_def)
  with b(1) show ?thesis by blast
qed

text \<open>C12: Taking an item out of the bank.  Whether it succeeds or not, of every code the player and the
  bank together have the same pieces as before, and the inventory and the bank stay well formed;
  when it fails, neither has changed.  There must be room in the inventory, the next item id of the
  game must not be in it, and no stack may grow beyond a byte.\<close>

theorem bank_take_item_moves:
  assumes "player_ok (cl w c)" "bank_wf (bb_bank (cl w c))" "bb_count (cl w c) < 30"
    "l_item_id (lob w (lobby_of w c)) \<notin> inv_ids (bb_items (cl w c)) (bb_count (cl w c))"
    "\<forall>b \<in> set (bank_list (bb_bank (cl w c))). \<forall>y \<in> set (carried (cl w c)).
       data_l0 y = bdata_l0 b \<longrightarrow> unat (data_b y ! 5) + unat (bdata_b b ! 5) < 256"
    "bank_take_item e c iid amt w = (r, w')"
  shows "player_ok (cl w' c) \<and> bank_wf (bb_bank (cl w' c)) \<and>
     carries k (cl w' c) + banks k (cl w' c) = carries k (cl w c) + banks k (cl w c) \<and>
     (r = 0 \<or> r = -1 \<and> carried (cl w' c) = carried (cl w c) \<and> bb_bank (cl w' c) = bb_bank (cl w c))"
proof -
  let ?x = "cl w c" and ?id = "l_item_id (lob w (lobby_of w c))"
  have rw: "r = fst (bank_take_item e c iid amt w)" "w' = snd (bank_take_item e c iid amt w)"
    using assms(6) by simp_all
  obtain ra b t where tk: "item_take_from_bank (bb_bank ?x) iid amt = (ra, b, t)" by (metis prod_cases3)
  note taken = item_take_from_bank_conserves [OF assms(2) tk]
  show ?thesis
  proof (cases "ra = -1")
    case True
    then have "r = -1" "cl w' c = ?x\<lparr>bb_bank := b\<rparr>" "b = bb_bank ?x"
      using tk taken unfolding rw by (auto simp: bank_take_item_def Let_def)
    then show ?thesis using assms(1,2) by (simp add: player_ok_def carried_def)
  next
    case False
    then obtain it where it: "t = Some it" "0 \<le> ra" "bank_wf b"
        "bank_item.total k (bank_list (bb_bank ?x)) = bank_item.total k (bank_list b) + bank_item.pieces k it"
      using taken by auto
    obtain b0 where b0: "b0 \<in> set (bank_list (bb_bank ?x))" "bdata_l0 it = bdata_l0 b0" "bdata_b it ! 5 \<le> bdata_b b0 ! 5"
        "length (bdata_b it) = 12"
      using item_taken [OF assms(2) tk [unfolded it(1)] it(2)] by blast
    have room: "\<forall>y \<in> set (take (bb_count ?x) (bb_items ?x)). data_l0 y = data_l0 (from_bank_item it ?id) \<longrightarrow>
        unat (data_b y ! 5) + unat (data_b (from_bank_item it ?id) ! 5) < 256"
      using assms(5) b0 by (fastforce simp: carried_def word_le_nat_alt)
    obtain n xs m where add: "item_add_to_inv (bb_items ?x) (bb_count ?x) (from_bank_item it ?id) = (n, xs)"
        "n = int m - int (bb_count ?x)" "inv_wf xs m"
        "inv_ids xs m = inv_ids (bb_items ?x) (bb_count ?x) \<union> (if m = bb_count ?x then {} else {?id})"
        "inv_item.total k (take m xs) = inv_item.total k (carried ?x) + bank_item.pieces k it"
      using item_add_to_inv_ok [OF assms(1) [unfolded player_ok_def] _ room] b0(4) assms(3,4)
      by (auto simp: carried_def dest: spec [of _ k])
    have nn: "0 \<le> n"
      using add(1) find_slot_none [of "bb_count ?x" "bb_items ?x" "\<lambda>y. item_id y = ?id"] assms(1,3,4)
      by (auto simp: item_add_to_inv_def Let_def player_ok_def inv_wf_def inv_ids_def image_iff split: if_splits)
    have m: "m \<le> 30" "int (bb_count ?x) + n = int m" using add(2,3) by (auto simp: inv_wf_def)
    have "r = 0" "cl w' c = set_bb_count (int m) (set_bb_items xs (?x\<lparr>bb_bank := b\<rparr>))"
      unfolding rw bank_take_item_def Let_def tk prod.case using it(1,2) nn m(2) by (simp_all add: add(1))
    then show ?thesis using add(3,5) it(3,4) m(1) by (simp add: player_ok_def carried_def)
  qed
qed

theorem bank_take_item_moves_witness:
  "\<exists>w'. bank_take_item bb_env 7 9 2 bb_world = (0, w') \<and>
     carries 3 (cl w' 7) + banks 3 (cl w' 7) = carries 3 (cl bb_world 7) + banks 3 (cl bb_world 7)"
proof -
  obtain r w' where h: "bank_take_item bb_env 7 9 2 bb_world = (r, w')" by fastforce
  have "fst (bank_take_item bb_env 7 9 2 bb_world) = 0" "player_ok (cl bb_world 7)" "bank_wf (bb_bank (cl bb_world 7))"
    "bb_count (cl bb_world 7) < 30"
    "l_item_id (lob bb_world (lobby_of bb_world 7)) \<notin> inv_ids (bb_items (cl bb_world 7)) (bb_count (cl bb_world 7))"
    "carried (cl bb_world 7) = [monomates]" "bank_list (bb_bank (cl bb_world 7)) = [banked]"
    "data_b monomates ! 5 = 5" "bdata_b banked ! 5 = 5"
    by code_simp+
  then show ?thesis using bank_take_item_moves [OF _ _ _ _ _ h, of 3] h by simp
qed

text \<open>C8: Bringing a carried item to the bank, which has a free slot and no item of that id, where no stack
  grows beyond a byte, and of which at most one piece is asked for when it does not stack.  Of the
  item's code the inventory loses what the stack has, at most the amount asked for, and the bank
  gets the amount asked for: nothing appears or vanishes exactly when the amount is not larger than the
  stack.  Of every other code the inventory and the bank have what they had, both stay well
  formed, and money, the lobbies and all other players are as before.  (What the player wears may
  change: with a worn frame its units are taken off.)\<close>

theorem bank_deposit_item_moves:
  fixes amt :: u8
  assumes "player_ok (cl w c)" "bank_wf (bb_bank (cl w c))" "bank_count (bb_bank (cl w c)) \<noteq> 200"
    "it \<in> set (carried (cl w c))" "item_is_stackable (data_l0 it) \<or> amt \<le> 1"
    "item_id it \<notin> bitem_id ` set (bank_list (bb_bank (cl w c)))"
    "\<forall>b \<in> set (bank_list (bb_bank (cl w c))). bdata_l0 b = data_l0 it \<longrightarrow>
       unat (bdata_b b ! 5) + (if item_is_stackable (data_l0 it) then unat amt else unat (data_b it ! 5)) < 256"
    "bank_deposit_item e c (item_id it) amt w = (r, w')"
  defines "lost \<equiv> if item_is_stackable (data_l0 it) then min (unat amt) (unat (data_b it ! 5)) else 1"
    and "won \<equiv> if item_is_stackable (data_l0 it) then unat amt else 1"
  shows "r = 0 \<and> player_ok (cl w' c) \<and> bank_wf (bb_bank (cl w' c)) \<and>
     carries k (cl w' c) + (if k = data_l0 it then lost else 0) = carries k (cl w c) \<and>
     banks k (cl w' c) = banks k (cl w c) + (if k = data_l0 it then won else 0) \<and>
     bb_meseta (cl w' c) = bb_meseta (cl w c) \<and> bank_meseta (bb_bank (cl w' c)) = bank_meseta (bb_bank (cl w c)) \<and>
     lobbies w' = lobbies w \<and> (\<forall>d. d \<noteq> c \<longrightarrow> cl w' d = cl w d)"
proof -
  let ?x = "cl w c" and ?n = "bb_count (cl w c)"
  have wf: "inv_wf (bb_items ?x) ?n" and mem: "it \<in> set (take ?n (bb_items ?x))"
    using assms(1,4) by (simp_all add: player_ok_def carried_def)
  have found: "find_bb_item ?x (item_id it) < ?n" "bb_items ?x ! find_bb_item ?x (item_id it) = it"
    using find_id [OF wf mem] by (simp_all add: find_bb_item_def)
  have len: "length (data_b it) = 12" using wf mem by (auto simp: inv_wf_def dest: in_set_takeD)
  let ?b = "to_bank_item it amt" and ?a = "ucast amt :: u32"
  note b = to_bank_item_fields [OF len, where amt = amt]
  have ua: "unat ?a = unat amt" by (simp add: unat_ucast_u8)
  have na: "?a \<noteq> 0xFFFFFFFF"
  proof
    assume "?a = 0xFFFFFFFF"
    then have "unat amt = 0xFFFFFFFF" using ua by simp
    then show False using unat_u8_less [of amt] by simp
  qed
  obtain ra xs m where rm: "item_remove_from_inv (bb_items ?x) ?n (item_id it) ?a = (ra, xs)" "ra = int ?n - int m"
      "0 \<le> ra" "ra \<le> 1" "inv_wf xs m"
      "inv_item.total k (take m xs) + (if k = data_l0 it then lost else 0) = carries k ?x"
  proof -
    define part where "part = (item_is_stackable (data_l0 it) \<and> ?a \<noteq> 0xFFFFFFFF \<and> unat ?a < inv_item.units it)"
    have lost: "lost = (if part then unat ?a else inv_item.units it)"
      using na by (auto simp: lost_def part_def inv_item.units_def ua)
    obtain xs where "item_remove_from_inv (bb_items ?x) ?n (item_id it) ?a = (if part then 0 else 1, xs)"
        "inv_wf xs (if part then ?n else ?n - 1)"
        "inv_item.total k (take (if part then ?n else ?n - 1) xs) + (if k = data_l0 it then lost else 0) = carries k ?x"
      using item_remove_from_inv_ok [OF wf mem, of ?a] unfolding part_def [symmetric] lost [symmetric] carried_def
      by blast
    then show ?thesis using found(1) by (intro that [of "if part then 0 else 1" xs "if part then ?n else ?n - 1"]) auto
  qed
  obtain rb bank where dep: "item_deposit_to_bank (bb_bank ?x) ?b = (rb, bank)" "0 \<le> rb" "bank_wf bank"
      "bank_meseta bank = bank_meseta (bb_bank ?x)"
      "bank_item.total k (bank_list bank) = banks k ?x + (if k = data_l0 it then won else 0)"
  proof -
    have p: "bank_item.pieces k ?b = (if k = data_l0 it then won else 0)" unfolding b(5) won_def by simp
    have fits: "\<forall>y \<in> set (bank_list (bb_bank ?x)). bdata_l0 y = bdata_l0 ?b \<longrightarrow>
        unat (bdata_b y ! 5) + unat (bdata_b ?b ! 5) < 256"
      using assms(7) unfolding b(1,4) by (simp split: if_splits)
    obtain rb bank where d: "item_deposit_to_bank (bb_bank ?x) ?b = (rb, bank)" "bank_wf bank"
        "bank_item.total k (bank_list bank) = banks k ?x + (if k = data_l0 it then won else 0)"
      using item_deposit_to_bank_ok [OF assms(2) b(3) _ fits] assms(3,6) unfolding b(2) p [symmetric] by auto
    moreover have "bank_meseta bank = bank_meseta (bb_bank ?x)"
      using d(1) by (auto simp: item_deposit_to_bank_def Let_def split: if_splits)
    moreover have "0 \<le> rb" using d(1) assms(2,3) by (auto simp: item_deposit_to_bank_def Let_def word_unat_eq_iff split: if_splits)
    ultimately show ?thesis using that by blast
  qed
  have m: "m \<le> 30" "nat ra \<le> ?n" "?n - nat ra = m" using rm(2-5) by (auto simp: inv_wf_def)
  define ys where "ys = (if is_frame it \<and> item_flags it AND 8 \<noteq> 0 then unequip_units m xs else xs)"
  have ys: "inv_wf ys m" "inv_item.total k (take m ys) = inv_item.total k (take m xs)"
    using same_goods_wf [OF same_goods_units [of xs xs m], where n = m] rm(5) by (simp_all add: ys_def same_goods_def)
  have guards: "(\<not> item_is_stackable (data_l0 it) \<and> amt > 1) = False" "(ra < 0 \<or> ra > 1) = False" "(rb < 0) = False"
      "(find_bb_item ?x (item_id it) = ?n) = False"
    using assms(5) rm(3,4) dep(2) found(1) by (auto simp: not_less)
  have "r = fst (bank_deposit_item e c (item_id it) amt w)" "w' = snd (bank_deposit_item e c (item_id it) amt w)"
    using assms(8) by simp_all
  then have "r = 0" "cl w' c = (set_bb_count (int m) (set_bb_items ys ?x))\<lparr>bb_bank := bank\<rparr>"
    "lobbies w' = lobbies w" "\<forall>d. d \<noteq> c \<longrightarrow> cl w' d = cl w d"
    unfolding bank_deposit_item_def Let_def found(2) rm(1) dep(1) prod.case guards if_False m(3)
    by (simp_all add: ys_def subcmd_send_destroy_item_def)
  then show ?thesis using rm(6) dep(3-5) ys m by (simp add: player_ok_def carried_def)
qed

definition empty_bank_world :: world where
  "empty_bank_world = upd_client 7 (\<lambda>x. x\<lparr>bb_bank := bank1\<lparr>bank_count := 0\<rparr>\<rparr>) bb_world"

theorem bank_deposit_item_moves_witness:
  "\<exists>w'. bank_deposit_item bb_env 7 0x10000 3 empty_bank_world = (0, w') \<and> carries 3 (cl w' 7) = 2 \<and>
     banks 3 (cl w' 7) = 3"
proof -
  obtain r w' where h: "bank_deposit_item bb_env 7 (item_id monomates) 3 empty_bank_world = (r, w')" by fastforce
  have "player_ok (cl empty_bank_world 7)" "bank_wf (bb_bank (cl empty_bank_world 7))"
    "bank_count (bb_bank (cl empty_bank_world 7)) \<noteq> 200"
    "carried (cl empty_bank_world 7) = [monomates]" "bank_list (bb_bank (cl empty_bank_world 7)) = []"
    by code_simp+
  moreover from this have "carries 3 (cl empty_bank_world 7) = 5" "banks 3 (cl empty_bank_world 7) = 0"
    using monomates_facts by (simp_all add: inv_item.pieces_def inv_item.units_def)
  ultimately show ?thesis using monomates_facts bank_deposit_item_moves [OF _ _ _ _ _ _ _ h, of 3] h by simp
qed

end
