(* ===== verification/Word_Tables.thy ===== *)
theory Word_Tables
  imports Prelude
begin

section \<open>The words of word select\<close>

text \<open>
  The tables of \<open>word_select-dc.h\<close>, \<open>word_select-pc.h\<close> and \<open>word_select-gc.h\<close>: row \<open>n\<close> holds the
  numbers that word \<open>n\<close> of one version has in the two others, 0xFFFF when it has none.  Each table is
  cut into twelve pieces of at most 150 rows, in such a way that pieces with the same number hold
  the same words.
\<close>

definition WORD_SELECT_DC_MAX :: u16 where "WORD_SELECT_DC_MAX = 0x0463"
definition WORD_SELECT_PC_MAX :: u16 where "WORD_SELECT_PC_MAX = 0x0651"
definition WORD_SELECT_GC_MAX :: u16 where "WORD_SELECT_GC_MAX = 0x0698"

definition word_select_dc_1 :: "(u16 \<times> u16) list" where
  "word_select_dc_1 = [
    (0x0,0x0), (0x1,0x1), (0x2,0x2), (0x3,0x3), (0x4,0x4), (0x5,0x5), (0x6,0x6), (0x9,0x9),
    (0xA,0xA), (0xB,0xB), (0xC,0xC), (0xD,0xD), (0xE,0x30), (0xF,0x31), (0x10,0x32), (0x11,0x33),
    (0x12,0x34), (0x13,0x35), (0x14,0x36), (0x15,0x37), (0xFFFF,0xFFFF), (0x19,0x3B), (0x1A,0x3C), (0x1C,0x3E),
    (0x1D,0x3F), (0x1E,0x40), (0x20,0x42), (0x21,0x43), (0x22,0x44), (0x23,0x45), (0x24,0x46), (0x25,0x47),
    (0x26,0x48), (0x27,0x49), (0x28,0x4A), (0x29,0x4B), (0x2A,0x4C), (0x2B,0x4D), (0x2C,0x4E), (0x2D,0x4F),
    (0x2E,0x50), (0x2F,0x51), (0x30,0x52), (0x31,0x53), (0x32,0x54), (0x33,0x55), (0x34,0x56), (0x35,0x57),
    (0x36,0x58), (0x37,0x59), (0x38,0x5A), (0x39,0x5B), (0x3A,0x5C), (0x3B,0x5D), (0x3C,0x5E), (0x3D,0x5F),
    (0x3E,0x60), (0x3F,0x61), (0x40,0x62), (0x41,0x63), (0x42,0x64), (0x43,0x65), (0x44,0x66), (0x45,0x67),
    (0x46,0x68), (0x47,0x69), (0x48,0x6A), (0x49,0x6B), (0x4A,0x6C), (0x4B,0x6D), (0x4C,0x6E), (0x4D,0x6F),
    (0x4E,0x70), (0x4F,0x71), (0x50,0x72), (0x51,0x73), (0x52,0x74), (0x53,0x75), (0x54,0x76), (0x55,0x77),
    (0x56,0x78), (0x57,0x79), (0x58,0x7A), (0x59,0x7B), (0x5A,0x7C), (0x5B,0x7D), (0x5C,0x7E), (0x5D,0x7F),
    (0x5E,0x80), (0x5F,0x81), (0x60,0x82), (0x61,0x83), (0x62,0x84), (0x63,0x85), (0x64,0x86), (0x65,0x87),
    (0x66,0x88), (0x67,0x89), (0x68,0x8A)]"

definition word_select_dc_2 :: "(u16 \<times> u16) list" where
  "word_select_dc_2 = [
    (0x74,0x96), (0x75,0x97), (0x76,0x98), (0x77,0x99), (0x78,0x9A), (0x79,0x9B), (0x7A,0x9C), (0x7B,0x9D),
    (0x7C,0x9E), (0x7D,0x9F), (0x7E,0xA0), (0x7F,0xA1), (0x82,0xA4), (0x83,0xA5), (0x84,0xA6), (0x85,0xA7),
    (0x86,0xA8), (0x87,0xA9), (0x88,0xAA), (0x89,0xAB), (0x8A,0xAC), (0x8E,0xB0), (0x8F,0xB1), (0x90,0xB2),
    (0x91,0xB3), (0x92,0xB4), (0x93,0xB5), (0x94,0xB6), (0x95,0xB7), (0x96,0xB8), (0x97,0xB9), (0x98,0xBA),
    (0x99,0xBB), (0x9A,0xBC), (0x9B,0xBD), (0x9C,0xBE), (0x9D,0xBF), (0x9E,0xC0), (0x9F,0xC1), (0xA0,0xC2),
    (0xA1,0xC3), (0xA2,0xC4), (0xA3,0xC5), (0xA4,0xC6), (0xA5,0xC7), (0xA6,0xC8), (0xA7,0xC9), (0xA8,0xCA),
    (0xA9,0xCB), (0xFFFF,0xFFFF), (0xBA,0xDC), (0xBB,0xDD), (0xBC,0xDE), (0xBD,0xDF), (0xBE,0xE0), (0xBF,0xE1),
    (0xC0,0xE2), (0xC1,0xE3), (0xC2,0xE4), (0xC3,0xE5), (0xC4,0xFFFF), (0xC5,0xE7), (0xC6,0xE8), (0xC7,0xE9),
    (0xC8,0xEA), (0xC9,0xEB), (0xCA,0xEC), (0xCB,0xED), (0xCC,0xEE), (0xCD,0xEF), (0xCE,0xF0), (0xCF,0xF1),
    (0xD0,0xF2), (0xD1,0xF3)]"

definition word_select_dc_3 :: "(u16 \<times> u16) list" where
  "word_select_dc_3 = [
    (0x10C,0x12E), (0x10D,0x12F), (0x10E,0x130), (0x10F,0x131), (0x110,0x132), (0x111,0x133), (0x112,0x134), (0x113,0x135),
    (0x114,0x136), (0x115,0x137), (0x116,0x138), (0x117,0x139), (0x118,0x13A), (0x119,0x13B), (0x11A,0x13C), (0x11B,0x13D),
    (0x11C,0x13E), (0x11D,0x13F), (0x11E,0x140), (0x11F,0x141), (0x120,0x142), (0x121,0x143), (0x122,0x144), (0x123,0x145),
    (0x124,0x146), (0x125,0x147), (0x126,0x148), (0x127,0x149), (0x128,0x14A), (0x129,0x14B), (0x12A,0x14C), (0x12B,0x14D),
    (0x12C,0x14E), (0x12D,0x14F), (0x12E,0x150), (0x12F,0x151), (0x130,0x152), (0x131,0x153), (0x132,0x154), (0x133,0x155),
    (0x134,0x156), (0x135,0x157), (0x136,0x158), (0x137,0x159), (0x138,0x15A), (0x139,0x15B), (0x13A,0x15C), (0x13B,0x15D),
    (0x13C,0x15E), (0x13D,0x15F), (0x13E,0x160), (0x13F,0x161), (0x140,0x162), (0x144,0x166), (0x145,0x167), (0x146,0x168),
    (0x147,0x169), (0x148,0x16A), (0x149,0x16B), (0x14A,0x16C), (0x14B,0x16D), (0x14C,0x16E), (0x14D,0x16F), (0x14E,0x170),
    (0x14F,0x171), (0x150,0x172), (0x151,0x173), (0x152,0x174), (0x164,0x186), (0x165,0x187), (0x166,0x188), (0x167,0x189),
    (0x168,0x18A), (0x169,0x18B), (0x16A,0x18C), (0x16B,0x18D), (0x16C,0x18E), (0x16D,0x18F), (0x16E,0x190), (0x15B,0x17D),
    (0x15C,0x17E), (0x157,0x179), (0x158,0x17A), (0x159,0x17B), (0x15A,0x17C), (0x155,0x177), (0x156,0x178), (0x15D,0x17F),
    (0xFFFF,0xFFFF), (0x15F,0x181), (0x160,0x182), (0x161,0x183), (0x162,0x184), (0x163,0x185), (0x16F,0x191), (0x170,0x192),
    (0xFFFF,0xFFFF), (0x172,0x194), (0x173,0x195), (0x174,0x196), (0x175,0x197), (0x176,0x198), (0x177,0x199), (0x178,0x19A),
    (0x179,0x19B), (0x17A,0x19C), (0x17B,0x19D), (0x17D,0x19F), (0x17E,0x1A0), (0x17F,0x1A1), (0x180,0x1A2), (0x181,0x1A3),
    (0x182,0x1A4), (0x183,0x1A5), (0x184,0x1A6), (0x153,0x175), (0x154,0x176), (0x185,0x1A7), (0x17C,0x19E), (0x186,0x1A8),
    (0x187,0x1A9), (0x188,0x1AA), (0x189,0x1AB), (0x18A,0x1AC), (0x18B,0x1AD), (0x18C,0x1AE), (0x18D,0x1AF), (0x18E,0x1B0),
    (0x18F,0x1B1), (0x190,0x1B2), (0x191,0x1B3), (0x192,0x1B4), (0x193,0x1B5), (0x194,0x1B6), (0x195,0x1B7), (0x196,0x1B8),
    (0x197,0x1B9), (0x198,0x1BA), (0x199,0x1BB), (0x19A,0x1BC), (0x19B,0x1BD), (0x19C,0x1BE), (0x19D,0x1BF), (0x19E,0x1C0),
    (0x19F,0x1C1)]"

definition word_select_dc_4 :: "(u16 \<times> u16) list" where
  "word_select_dc_4 = [
    (0x1A0,0x1C2), (0x1A1,0x1C3), (0x1A2,0x1C4), (0x1A3,0x1C5), (0x1A4,0x1C6), (0x1A5,0x1C7), (0x1A6,0x1C8), (0x1A7,0x1C9),
    (0x1A8,0x1CA), (0x1A9,0x1CB), (0x1AA,0x1CC), (0x1AB,0x1CD), (0x1AC,0x1CE), (0x1AD,0x1CF), (0x1AE,0x1D0), (0x1AF,0x1D1),
    (0x1B0,0x1D2), (0x1B1,0x1D3), (0x1B2,0x1D4), (0x1B3,0x1D5), (0x1B4,0x1D6), (0x1B5,0x1D7), (0x1B6,0x1D8), (0x1B7,0x1D9),
    (0x1B8,0x1DA), (0x1B9,0x1DB), (0x1BA,0x1DC), (0x1BB,0x1DD), (0x1BC,0x1DE), (0x1BD,0x1DF), (0x1BE,0x1E0), (0x1BF,0x1E1),
    (0x1C0,0x1E2), (0x1C1,0x1E3), (0x1C2,0x1E4), (0x1C3,0x1E5), (0x1C4,0x1E6), (0x1C5,0x1E7), (0x1C6,0x1E8), (0x1C7,0x1E9),
    (0x1C8,0x1EA), (0x1C9,0x1EB), (0x1CA,0x1EC), (0x1CB,0x1ED), (0x1CC,0x1EE)]"

definition word_select_dc_5 :: "(u16 \<times> u16) list" where
  "word_select_dc_5 = [
    (0x259,0x27B), (0x25A,0x27C), (0x25B,0x27D), (0x25C,0x27E), (0x25D,0x27F), (0x25E,0x280), (0x25F,0x281), (0x260,0x282),
    (0x261,0x283), (0x262,0x284), (0x263,0x285), (0x264,0x286), (0x265,0x287), (0x266,0x288), (0x267,0x289), (0x268,0x28A),
    (0x269,0x28B), (0x26A,0x28C), (0x26B,0x28D), (0x26C,0x28E), (0x26D,0x28F), (0x26E,0x290), (0x26F,0x291), (0x270,0x292),
    (0x271,0x293), (0x272,0x294), (0x273,0x295), (0x274,0x296), (0x275,0x297), (0x276,0x298), (0x277,0x299), (0x278,0x29A),
    (0x279,0x29B), (0x27A,0x29C), (0x27B,0x29D), (0x27C,0x29E), (0x27D,0x29F), (0x27E,0x2A0), (0x27F,0x2A1), (0x280,0x2A2),
    (0x281,0x2A3), (0x282,0x2A4), (0x283,0x2A5), (0x284,0x2A6), (0x285,0x2A7), (0x286,0x2A8), (0x287,0x2A9), (0x288,0x2AA),
    (0x289,0x2AB), (0x28A,0x2AC), (0x28B,0x2AD), (0x28C,0x2AE), (0x28D,0x2AF), (0x28E,0x2B0), (0x28F,0x2B1), (0x290,0x2B2),
    (0x291,0x2B3), (0x292,0x2B4), (0x293,0x2B5), (0x294,0x2B6), (0x295,0x2B7), (0x296,0x2B8), (0x297,0x2B9), (0x298,0x2BA),
    (0x299,0x2BB), (0x29A,0x2BC), (0x29B,0x2BD), (0x29C,0x2BE), (0x29D,0x2BF), (0x29E,0x2C0), (0x29F,0x2C1), (0x2A0,0x2C2),
    (0x2A1,0x2C3), (0x2A2,0x2C4), (0x2A3,0x2C5), (0x2A4,0x2C6), (0x2A5,0x2C7), (0x2A6,0x2C8), (0x2A7,0x2C9), (0x2A8,0x2CA),
    (0x2A9,0x2CB), (0x2AA,0x2CC), (0x2AB,0x2CD), (0x2AC,0x2CE), (0x2AD,0x2CF), (0x2AE,0x2D0), (0x2AF,0x2D1), (0x2B0,0x2D2),
    (0x2B1,0x2D3), (0x2B2,0x2D4), (0x2B3,0x2D5), (0x2B4,0x2D6), (0x2B5,0x2D7), (0x2B6,0x2D8), (0x2B7,0x2D9), (0x2B8,0x2DA),
    (0x2B9,0x2DB), (0x2BA,0x2DC), (0x2BB,0x2DD), (0x2BC,0x2DE), (0x2BD,0x2DF), (0x2BE,0x2E0), (0x2BF,0x2E1), (0x2C0,0x2E2),
    (0x2C1,0x2E3), (0x2C2,0x2E4), (0x2C3,0x2E5)]"

definition word_select_dc_6 :: "(u16 \<times> u16) list" where
  "word_select_dc_6 = [
    (0x2D3,0x300), (0x2D4,0x301), (0x2D5,0x302), (0x2D6,0x303), (0x2D8,0x305), (0x2D9,0x306), (0x2DA,0x307), (0x2DB,0x308),
    (0x2DD,0x30A), (0x2DE,0x30B), (0x2DF,0x30C), (0x2E0,0x30D), (0x2E2,0x30F), (0x2E3,0x310), (0x2E4,0x311), (0x2E5,0x312),
    (0x2E7,0x314), (0x2E8,0x315), (0x2E9,0x316), (0x2EA,0x317), (0x31D,0x34B), (0x31E,0x34C), (0x31F,0x34D), (0x320,0x34E),
    (0x322,0x350), (0x323,0x351), (0x324,0x352), (0x325,0x353), (0x327,0x355), (0x328,0x356), (0x329,0x357), (0x32A,0x358),
    (0x32C,0x35A), (0x32D,0x35B), (0x32E,0x35C), (0x32F,0x35D), (0x349,0x378), (0x34A,0x379), (0x34B,0x37A), (0x34D,0x37C),
    (0x34E,0x37D), (0x34F,0x37E), (0x351,0x380), (0x352,0x381), (0x353,0x382), (0x2EC,0x319), (0x2ED,0x31A), (0xFFFF,0xFFFF)]"

definition word_select_dc_7 :: "(u16 \<times> u16) list" where
  "word_select_dc_7 = [
    (0x369,0x399), (0x36A,0x39A), (0x36B,0x39B), (0x36C,0x39C), (0x36D,0x39D), (0x36E,0x39E), (0x36F,0x39F), (0x370,0x3A0),
    (0x371,0x3A1), (0x372,0x3A2), (0x373,0x3A3), (0x374,0x3A4), (0x375,0x3A5), (0x376,0x3A6), (0x377,0x3A7), (0x378,0x3A8),
    (0x379,0x3A9), (0x37A,0x3AA), (0x37B,0x3AB), (0x37C,0x3AC), (0x37D,0x3AD), (0x37E,0x3AE), (0x37F,0x3AF), (0x380,0x3B0),
    (0x392,0x3C2), (0x393,0x3C3), (0x394,0x3C4), (0x395,0x3C5), (0x396,0x3C6), (0x397,0x3C7), (0x398,0x3C8), (0x399,0x3C9),
    (0x39A,0x3CA), (0x39B,0x3CB), (0x39C,0x3CC), (0x39D,0x3CD), (0x39E,0x3CE), (0x39F,0x3CF), (0x3A0,0x3D0), (0x3A1,0x3D1),
    (0x3A2,0x3D2), (0x3A3,0x3D3), (0x3A4,0x3D4), (0x3A5,0x3D5), (0x3A6,0x3D6), (0x3E9,0x419)]"

definition word_select_dc_8 :: "(u16 \<times> u16) list" where
  "word_select_dc_8 = [
    (0x3EA,0x41A), (0x3EB,0x41B), (0x3EC,0x41C), (0x3ED,0x41D), (0x3EE,0x41E), (0x3EF,0x41F), (0x3F0,0x420), (0x3F1,0x421),
    (0x3F2,0x422), (0x3F3,0x423), (0x3F4,0x424), (0x3F5,0x425), (0x3F6,0x426), (0x3F7,0x427), (0x3F8,0x428), (0x3F9,0x429),
    (0x3FA,0x42A), (0x3FB,0x42B), (0x3FC,0x42C), (0x3FD,0x42D), (0x3FE,0x42E), (0x3FF,0x42F), (0x400,0x430), (0x401,0x431),
    (0x402,0x432), (0x403,0x433), (0x404,0x434), (0x405,0x435), (0x406,0x436), (0x407,0x437), (0x408,0x438), (0x409,0x439),
    (0x40A,0x43A), (0x40B,0x43B), (0x40C,0x43C), (0x40D,0x43D), (0x40E,0x43E), (0x40F,0x43F), (0x410,0x440), (0x411,0x441),
    (0x412,0x442), (0x413,0x443), (0x414,0x444), (0x415,0x445), (0x416,0x446), (0x417,0x447), (0x418,0x448), (0x42D,0x45D),
    (0x42E,0x45E), (0x42F,0x45F), (0x430,0x460), (0x431,0x461), (0x432,0x462), (0x433,0x463), (0x434,0x464), (0x435,0x465),
    (0x436,0x466), (0x437,0x467), (0x438,0x468), (0x439,0x469), (0x43A,0x46A), (0x43B,0x46B), (0x43C,0x46C), (0x43D,0x46D),
    (0x43E,0x46E), (0x43F,0x46F), (0x440,0x470), (0x441,0x471), (0x442,0x472), (0x443,0x473), (0x444,0x474), (0x445,0x475),
    (0x446,0x476), (0x447,0x477), (0x448,0x478), (0x449,0x479), (0x44A,0x47A), (0x44B,0x47B), (0x44C,0x47C), (0x44D,0x47D),
    (0x44E,0x47E), (0x44F,0x47F), (0x450,0x480), (0x451,0x481), (0x452,0x482), (0x453,0x483), (0x454,0x484), (0x455,0x485),
    (0x456,0x486), (0x457,0x487), (0x458,0x488), (0x459,0x489), (0x45A,0x48A), (0x45B,0x48B), (0x45C,0x48C), (0x45D,0x48D),
    (0x45E,0x48E), (0x45F,0x48F), (0x460,0x490), (0x461,0x491), (0x462,0x492), (0x463,0x493), (0x464,0x494), (0x465,0x495),
    (0x466,0x496), (0x467,0x497), (0x468,0x498), (0x469,0x499), (0x46A,0x49A), (0x46B,0x49B), (0x46C,0x49C), (0x46D,0x49D)]"

definition word_select_dc_9 :: "(u16 \<times> u16) list" where
  "word_select_dc_9 = [
    (0x46E,0x4B1), (0x46F,0x4B2), (0x470,0x4B3), (0x471,0x4B4), (0x472,0x4B5), (0x497,0x4DA), (0x498,0x4DB), (0x499,0x4DC),
    (0x49A,0x4DD), (0x49B,0x4DE), (0x49C,0x4DF), (0x49D,0x4E0), (0x49E,0x4E1), (0x49F,0x4E2), (0x4A0,0x4E3), (0x4A1,0x4E4),
    (0x4A2,0x4E5), (0x4A3,0x4E9), (0x4A4,0x4EA), (0x4A5,0x4EC), (0x4A6,0x4ED), (0x4A7,0x4EE), (0x4A8,0x4EF), (0x4A9,0x4F0),
    (0x4AA,0x4F1), (0x4AB,0x4F2), (0x4AC,0x4F3), (0x4AD,0x4F4), (0x4AE,0x4F5), (0x4AF,0x4F6), (0x4B0,0x4F7), (0x4B1,0x4F8),
    (0x4B2,0x4F9), (0x4B3,0x4FA), (0x4B4,0x4FB), (0x4B5,0x4FC), (0x4B6,0x4FD), (0x4B7,0x4FE), (0x4B8,0x4FF), (0x4B9,0x500),
    (0x4BA,0x501), (0x4BB,0x502), (0x4BC,0x503), (0x4BD,0x504), (0x4BE,0x505), (0x4BF,0x506), (0x4C0,0x507), (0x4C1,0x508),
    (0x4C2,0x509), (0x4C3,0x50A), (0x4C4,0x50B), (0x4C5,0x50C), (0x4C6,0x50D), (0x4C7,0x50E), (0x4C8,0x50F), (0x4C9,0x510),
    (0x4CA,0x511), (0x4CB,0x512), (0x4CC,0x513), (0x4CD,0x514), (0x4CE,0x515), (0x4CF,0x516), (0x4D0,0x517), (0x4D1,0x518),
    (0x4D2,0x519), (0x4D3,0x51A), (0x4D4,0x51B), (0x4D5,0x51C), (0x4D6,0x51D), (0x4D7,0x51E), (0x4D8,0x51F), (0x4D9,0x520),
    (0x4DA,0x521), (0x4DB,0x522), (0x4DC,0x523), (0x4DD,0x524), (0x4DE,0x525), (0x4DF,0x526), (0x4E0,0x527), (0x4E1,0x528),
    (0x4E2,0x529), (0x4E3,0x52A), (0x4E4,0x52B), (0x4E5,0x52C), (0x4E6,0x52D), (0x4E7,0x52E), (0x4E8,0x52F), (0x4E9,0x530),
    (0x4EA,0x531), (0x4EB,0x532), (0x4EC,0x533), (0x4ED,0x534), (0x4EE,0x535), (0x4EF,0x536), (0x4F0,0x537), (0x4F1,0x538),
    (0x4F2,0x539), (0x4F3,0x53A), (0x4F4,0x53B), (0x4F5,0x53C), (0x4F6,0x53D), (0x4F7,0x53E), (0x4F8,0x53F), (0x4F9,0x540),
    (0x4FA,0x541), (0x4FB,0x542), (0x4FC,0x543), (0x4FD,0x544), (0x4FE,0x545)]"

definition word_select_dc_10 :: "(u16 \<times> u16) list" where
  "word_select_dc_10 = [
    (0x4FF,0x546), (0x500,0x547), (0x501,0x548), (0x502,0x549), (0x503,0x54A), (0x504,0x54B), (0x505,0x54C), (0x506,0x54D),
    (0x507,0x54E), (0x508,0x54F), (0x509,0x550), (0x50A,0x551), (0x50B,0x552), (0x50C,0x553), (0x50D,0x554), (0x50E,0x555),
    (0x50F,0x556), (0x510,0x557), (0x511,0x558), (0x512,0x559), (0x513,0x55A), (0x514,0x55B), (0x515,0x55C), (0x516,0x55D),
    (0x517,0x55E), (0x518,0x55F), (0x519,0x560), (0x51A,0x561), (0x51B,0x562), (0x51C,0x563), (0x51D,0x564), (0x51E,0x565),
    (0x51F,0x566), (0x520,0x567), (0x521,0x568), (0x522,0x569), (0x523,0x56A), (0x524,0x56B), (0x525,0x56C), (0x526,0x56D),
    (0x527,0x56E), (0x528,0x56F), (0x529,0x570), (0x52A,0x571), (0x52B,0x572), (0x52C,0x573), (0x52D,0x574), (0x52E,0x575),
    (0x52F,0x576), (0x530,0x577), (0x531,0x578), (0x532,0x579), (0x533,0x57A), (0x534,0x57B), (0x535,0x57C), (0x536,0x57D),
    (0x537,0x57E), (0x538,0x57F), (0x539,0x580), (0x53A,0x581), (0x53B,0x582), (0x53C,0x583), (0x53D,0x584), (0x53E,0x585),
    (0x53F,0x586), (0x540,0x587), (0x541,0x588), (0x542,0x589), (0x543,0x58A), (0x544,0x58B), (0x545,0x58C), (0x546,0x58D),
    (0x547,0x58E), (0x548,0x58F), (0x549,0x590), (0x54A,0x591), (0x54B,0x592), (0x54C,0x593), (0x54D,0x594), (0x54E,0x595),
    (0x54F,0x596), (0x550,0x597), (0x551,0x598), (0x552,0x599), (0x553,0x59A), (0x554,0x59B), (0x555,0x59C), (0x556,0x59D),
    (0x557,0x59E), (0x558,0x59F), (0x559,0x5A0), (0x55A,0x5A1), (0x55B,0x5A2), (0x55C,0x5A3), (0x55D,0x5A4), (0x55E,0x5A5),
    (0x55F,0x5A6), (0x560,0x5A7), (0x561,0x5A8), (0x562,0x5A9), (0x563,0x5AA), (0x564,0x5AB), (0x565,0x5AC), (0x566,0x5AD),
    (0x567,0x5AE), (0x568,0x5AF), (0x569,0x5B0), (0x56A,0x5B1), (0x56B,0x5B2), (0x56C,0x5B3), (0x56D,0x5B4), (0x56E,0x5B5),
    (0x56F,0x5B6), (0x570,0x5B7), (0x571,0x5B8), (0x572,0x5B9), (0x573,0x5BA), (0x574,0x5BB), (0x575,0x5BC), (0x576,0x5BD),
    (0x577,0x5BE), (0x578,0x5BF), (0x579,0x5C0), (0x57A,0x5C1), (0x57B,0x5C2), (0x57C,0x5C3), (0x57D,0x5C4), (0x57E,0x5C5),
    (0x57F,0x5C6), (0x580,0x5C7), (0x581,0x5C8), (0x582,0x5C9), (0x583,0x5CA), (0x584,0x5CB), (0x585,0x5CC), (0x586,0x5CD),
    (0x587,0x5CE), (0x588,0x5CF), (0x589,0x5D0), (0x58A,0x5D1), (0x58B,0x5D2), (0x58C,0x5D3), (0x58D,0x5D4), (0x58E,0x5D5),
    (0x58F,0x5D6), (0x590,0x5D7), (0x591,0x5D8), (0x592,0x5D9), (0x593,0x5DA), (0x594,0x5DB)]"

definition word_select_dc_11 :: "(u16 \<times> u16) list" where
  "word_select_dc_11 = [
    (0x595,0x5DC), (0x596,0x5DD), (0x597,0x5DE), (0x598,0x5DF), (0x599,0x5E0), (0x59A,0x5E1), (0x59B,0x5E2), (0x59C,0x5E3),
    (0x59D,0x5E4), (0x59E,0x5E5), (0x59F,0x5E6), (0x5A0,0x5E7), (0x5A1,0x5E8), (0x5A2,0x5E9), (0x5A3,0x5EA), (0x5A4,0x5EB),
    (0x5A5,0x5EC), (0x5A6,0x5ED), (0x5A7,0x5EE), (0x5A8,0x5EF), (0x5A9,0x5F0), (0x5AA,0x5F1), (0x5AB,0x5F2), (0x5AC,0x5F3),
    (0x5AD,0x5F4), (0x5AE,0x5F5), (0x5AF,0x5F6), (0x5B0,0x5F7), (0x5B1,0x5F8), (0x5B2,0x5F9), (0x5B3,0x5FA), (0x5B4,0x5FB),
    (0x5B5,0x5FC), (0x5B6,0x5FD), (0x5B7,0x5FE), (0x5B8,0x5FF), (0x5B9,0x600), (0x5BA,0x601), (0x5BB,0x602), (0x5BC,0x603),
    (0x5BD,0x604), (0x5BE,0x605), (0x5BF,0x606), (0x5C0,0x607), (0x5C1,0x608), (0x5C2,0x609), (0x5C3,0x60A), (0x5C4,0x60B),
    (0x5C5,0x60C), (0x5C6,0x60D), (0x5C7,0x60E), (0x5C8,0x60F), (0x5C9,0x610), (0x5CA,0x611), (0x5CB,0x612), (0x5CC,0x613),
    (0x5CD,0x614), (0x5CE,0x615), (0x5CF,0x616), (0x5D0,0x617), (0x5D1,0x618), (0x5D2,0x619), (0x5D3,0x61A), (0x5D4,0x61B),
    (0x5D5,0x61C), (0x5D6,0x61D), (0x5D7,0x61E), (0x5D8,0x61F), (0x5D9,0x620), (0x5DA,0x621), (0x5DB,0x622), (0x5DC,0x623),
    (0x5DD,0x624), (0x5DE,0x625), (0x5DF,0x626), (0x5E0,0x627), (0x5E1,0x628), (0x5E2,0x629), (0x5E3,0x62A), (0x5E4,0x62B),
    (0x5E5,0x62C), (0x5E6,0x62D), (0x5E7,0x62E), (0x5E8,0x62F), (0x5E9,0x630), (0x5EA,0x631), (0x5EB,0x632), (0x5EC,0x633),
    (0x5ED,0x634), (0x5EE,0x635), (0x5EF,0x636), (0x5F0,0x637), (0x5F1,0x638), (0x5F2,0x639), (0x5F3,0x63A), (0x5F4,0x63B),
    (0x5F5,0x63C), (0x5F6,0x63D), (0x5F7,0x63E), (0x5F8,0x63F), (0x5F9,0x640), (0x5FA,0x641), (0x5FB,0x642), (0x5FC,0x643),
    (0x5FD,0x644), (0x5FE,0x645), (0x5FF,0x646), (0x600,0x647), (0x601,0x648), (0x602,0x649), (0x603,0x64A), (0x604,0x64B),
    (0x605,0x64C), (0x606,0x64D), (0x607,0x64E), (0x608,0x64F), (0x609,0x650), (0x60A,0x651), (0x60B,0x652), (0x60C,0x653),
    (0x60D,0x654), (0x60E,0x655), (0x60F,0x656), (0x610,0x657), (0x611,0x658), (0x612,0x659), (0x613,0x65A), (0x614,0x65B),
    (0x615,0x65C), (0x616,0x65D), (0x617,0x65E), (0x618,0x65F), (0x619,0x660), (0x61A,0x661), (0x61B,0x662), (0x61C,0x663),
    (0x61D,0x664), (0x61E,0x665), (0x61F,0x666), (0x620,0x667), (0x621,0x668), (0x622,0x669), (0x623,0x66A), (0x624,0x66B),
    (0x625,0x66C), (0x626,0x66D), (0x627,0x66E), (0x628,0x66F), (0x629,0x670), (0x62A,0x671)]"

definition word_select_dc_12 :: "(u16 \<times> u16) list" where
  "word_select_dc_12 = [
    (0x62B,0x672), (0x62C,0x673), (0x62D,0x674), (0x62E,0x675), (0x62F,0x676), (0x630,0x677), (0x631,0x678), (0x632,0x679),
    (0x633,0x67A), (0x634,0x67B), (0x635,0x67C), (0x636,0x67D), (0x637,0x67E), (0x638,0x67F), (0x639,0x680), (0x63A,0x681),
    (0x63B,0x682), (0x63C,0x683), (0x63D,0x684), (0x63E,0x685), (0x63F,0x686), (0x640,0x687), (0x641,0x688), (0x642,0x689),
    (0x643,0x68A), (0x644,0x68B), (0x645,0x68C), (0x646,0x68D), (0x647,0x68E), (0x648,0x68F), (0x649,0x690), (0x64A,0x691),
    (0x64B,0x692), (0x64C,0x693), (0x64D,0x694), (0x64E,0x695), (0x64F,0x696), (0x650,0x697), (0x651,0x698)]"

definition word_select_dc_map :: "(u16 \<times> u16) list" where
  "word_select_dc_map = word_select_dc_1 @ word_select_dc_2 @ word_select_dc_3 @ word_select_dc_4 @
     word_select_dc_5 @ word_select_dc_6 @ word_select_dc_7 @ word_select_dc_8 @
     word_select_dc_9 @ word_select_dc_10 @ word_select_dc_11 @ word_select_dc_12"

definition word_select_pc_1 :: "(u16 \<times> u16) list" where
  "word_select_pc_1 = [
    (0x0,0x0), (0x1,0x1), (0x2,0x2), (0x3,0x3), (0x4,0x4), (0x5,0x5), (0x6,0x6), (0xFFFF,0x7),
    (0xFFFF,0x8), (0x7,0x9), (0x8,0xA), (0x9,0xB), (0xA,0xC), (0xB,0xD), (0xC,0x30), (0xD,0x31),
    (0xE,0x32), (0xF,0x33), (0x10,0x34), (0x11,0x35), (0x12,0x36), (0x13,0x37), (0xFFFF,0x38), (0xFFFF,0x39),
    (0xFFFF,0x3A), (0x15,0x3B), (0x16,0x3C), (0xFFFF,0x3D), (0x17,0x3E), (0x18,0x3F), (0x19,0x40), (0xFFFF,0x41),
    (0x1A,0x42), (0x1B,0x43), (0x1C,0x44), (0x1D,0x45), (0x1E,0x46), (0x1F,0x47), (0x20,0x48), (0x21,0x49),
    (0x22,0x4A), (0x23,0x4B), (0x24,0x4C), (0x25,0x4D), (0x26,0x4E), (0x27,0x4F), (0x28,0x50), (0x29,0x51),
    (0x2A,0x52), (0x2B,0x53), (0x2C,0x54), (0x2D,0x55), (0x2E,0x56), (0x2F,0x57), (0x30,0x58), (0x31,0x59),
    (0x32,0x5A), (0x33,0x5B), (0x34,0x5C), (0x35,0x5D), (0x36,0x5E), (0x37,0x5F), (0x38,0x60), (0x39,0x61),
    (0x3A,0x62), (0x3B,0x63), (0x3C,0x64), (0x3D,0x65), (0x3E,0x66), (0x3F,0x67), (0x40,0x68), (0x41,0x69),
    (0x42,0x6A), (0x43,0x6B), (0x44,0x6C), (0x45,0x6D), (0x46,0x6E), (0x47,0x6F), (0x48,0x70), (0x49,0x71),
    (0x4A,0x72), (0x4B,0x73), (0x4C,0x74), (0x4D,0x75), (0x4E,0x76), (0x4F,0x77), (0x50,0x78), (0x51,0x79),
    (0x52,0x7A), (0x53,0x7B), (0x54,0x7C), (0x55,0x7D), (0x56,0x7E), (0x57,0x7F), (0x58,0x80), (0x59,0x81),
    (0x5A,0x82), (0x5B,0x83), (0x5C,0x84), (0x5D,0x85), (0x5E,0x86), (0x5F,0x87), (0x60,0x88), (0x61,0x89),
    (0x62,0x8A), (0xFFFF,0x8B), (0xFFFF,0x8C), (0xFFFF,0x8D), (0xFFFF,0x8E), (0xFFFF,0x8F), (0xFFFF,0x90), (0xFFFF,0x91),
    (0xFFFF,0x92), (0xFFFF,0x93), (0xFFFF,0x94), (0xFFFF,0x95)]"

definition word_select_pc_2 :: "(u16 \<times> u16) list" where
  "word_select_pc_2 = [
    (0x63,0x96), (0x64,0x97), (0x65,0x98), (0x66,0x99), (0x67,0x9A), (0x68,0x9B), (0x69,0x9C), (0x6A,0x9D),
    (0x6B,0x9E), (0x6C,0x9F), (0x6D,0xA0), (0x6E,0xA1), (0xFFFF,0xA2), (0xFFFF,0xA3), (0x6F,0xA4), (0x70,0xA5),
    (0x71,0xA6), (0x72,0xA7), (0x73,0xA8), (0x74,0xA9), (0x75,0xAA), (0x76,0xAB), (0x77,0xAC), (0xFFFF,0xAD),
    (0xFFFF,0xAE), (0xFFFF,0xAF), (0x78,0xB0), (0x79,0xB1), (0x7A,0xB2), (0x7B,0xB3), (0x7C,0xB4), (0x7D,0xB5),
    (0x7E,0xB6), (0x7F,0xB7), (0x80,0xB8), (0x81,0xB9), (0x82,0xBA), (0x83,0xBB), (0x84,0xBC), (0x85,0xBD),
    (0x86,0xBE), (0x87,0xBF), (0x88,0xC0), (0x89,0xC1), (0x8A,0xC2), (0x8B,0xC3), (0x8C,0xC4), (0x8D,0xC5),
    (0x8E,0xC6), (0x8F,0xC7), (0x90,0xC8), (0x91,0xC9), (0x92,0xCA), (0x93,0xCB), (0xFFFF,0xCC), (0xFFFF,0xCD),
    (0xFFFF,0xCE), (0xFFFF,0xCF), (0xFFFF,0xD0), (0xFFFF,0xD1), (0xFFFF,0xD2), (0xFFFF,0xD3), (0xFFFF,0xD4), (0xFFFF,0xD5),
    (0xFFFF,0xD6), (0xFFFF,0xD7), (0xFFFF,0xD8), (0xFFFF,0xD9), (0xFFFF,0xDA), (0xFFFF,0xDB), (0x95,0xDC), (0x96,0xDD),
    (0x97,0xDE), (0x98,0xDF), (0x99,0xE0), (0x9A,0xE1), (0x9B,0xE2), (0x9C,0xE3), (0x9D,0xE4), (0x9E,0xE5),
    (0x9F,0xFFFF), (0xA0,0xE7), (0xA1,0xE8), (0xA2,0xE9), (0xA3,0xEA), (0xA4,0xEB), (0xA5,0xEC), (0xA6,0xED),
    (0xA7,0xEE), (0xA8,0xEF), (0xA9,0xF0), (0xAA,0xF1), (0xAB,0xF2), (0xAC,0xF3), (0xFFFF,0xF4), (0xFFFF,0xF5),
    (0xFFFF,0xF6), (0xFFFF,0xF7), (0xFFFF,0xF8), (0xFFFF,0xF9), (0xFFFF,0xFA), (0xFFFF,0xFB), (0xFFFF,0xFC), (0xFFFF,0xFD),
    (0xFFFF,0xFE), (0xFFFF,0xFF), (0xFFFF,0x100), (0xFFFF,0x101), (0xFFFF,0x102), (0xFFFF,0x103), (0xFFFF,0x104), (0xFFFF,0x105),
    (0xFFFF,0x106), (0xFFFF,0x107), (0xFFFF,0x108), (0xFFFF,0x109), (0xFFFF,0x10A), (0xFFFF,0x10B), (0xFFFF,0x10C), (0xFFFF,0x10D),
    (0xFFFF,0x10E), (0xFFFF,0x10F), (0xFFFF,0x110), (0xFFFF,0x111), (0xFFFF,0x112), (0xFFFF,0x113), (0xFFFF,0x114), (0xFFFF,0x115),
    (0xFFFF,0x116), (0xFFFF,0x117), (0xFFFF,0x118), (0xFFFF,0x119), (0xFFFF,0x11A), (0xFFFF,0x11B), (0xFFFF,0x11C), (0xFFFF,0x11D),
    (0xFFFF,0x11E), (0xFFFF,0x11F), (0xFFFF,0x120), (0xFFFF,0x121), (0xFFFF,0x122), (0xFFFF,0x123), (0xFFFF,0x124), (0xFFFF,0x125),
    (0xFFFF,0x126), (0xFFFF,0x127), (0xFFFF,0x128), (0xFFFF,0x129), (0xFFFF,0x12A), (0xFFFF,0x12B)]"

definition word_select_pc_3 :: "(u16 \<times> u16) list" where
  "word_select_pc_3 = [
    (0xFFFF,0x12C), (0xFFFF,0x12D), (0xAD,0x12E), (0xAE,0x12F), (0xAF,0x130), (0xB0,0x131), (0xB1,0x132), (0xB2,0x133),
    (0xB3,0x134), (0xB4,0x135), (0xB5,0x136), (0xB6,0x137), (0xB7,0x138), (0xB8,0x139), (0xB9,0x13A), (0xBA,0x13B),
    (0xBB,0x13C), (0xBC,0x13D), (0xBD,0x13E), (0xBE,0x13F), (0xBF,0x140), (0xC0,0x141), (0xC1,0x142), (0xC2,0x143),
    (0xC3,0x144), (0xC4,0x145), (0xC5,0x146), (0xC6,0x147), (0xC7,0x148), (0xC8,0x149), (0xC9,0x14A), (0xCA,0x14B),
    (0xCB,0x14C), (0xCC,0x14D), (0xCD,0x14E), (0xCE,0x14F), (0xCF,0x150), (0xD0,0x151), (0xD1,0x152), (0xD2,0x153),
    (0xD3,0x154), (0xD4,0x155), (0xD5,0x156), (0xD6,0x157), (0xD7,0x158), (0xD8,0x159), (0xD9,0x15A), (0xDA,0x15B),
    (0xDB,0x15C), (0xDC,0x15D), (0xDD,0x15E), (0xDE,0x15F), (0xDF,0x160), (0xE0,0x161), (0xE1,0x162), (0xFFFF,0x163),
    (0xFFFF,0x164), (0xFFFF,0x165), (0xE2,0x166), (0xE3,0x167), (0xE4,0x168), (0xE5,0x169), (0xE6,0x16A), (0xE7,0x16B),
    (0xE8,0x16C), (0xE9,0x16D), (0xEA,0x16E), (0xEB,0x16F), (0xEC,0x170), (0xED,0x171), (0xEE,0x172), (0xEF,0x173),
    (0xF0,0x174), (0x120,0x175), (0x121,0x176), (0x102,0x177), (0x103,0x178), (0xFE,0x179), (0xFF,0x17A), (0x100,0x17B),
    (0x101,0x17C), (0xFC,0x17D), (0xFD,0x17E), (0x104,0x17F), (0xFFFF,0x180), (0x106,0x181), (0x107,0x182), (0x108,0x183),
    (0x109,0x184), (0x10A,0x185), (0xF1,0x186), (0xF2,0x187), (0xF3,0x188), (0xF4,0x189), (0xF5,0x18A), (0xF6,0x18B),
    (0xF7,0x18C), (0xF8,0x18D), (0xF9,0x18E), (0xFA,0x18F), (0xFB,0x190), (0x10B,0x191), (0x10C,0x192), (0xFFFF,0x193),
    (0x10E,0x194), (0x10F,0x195), (0x110,0x196), (0x111,0x197), (0x112,0x198), (0x113,0x199), (0x114,0x19A), (0x115,0x19B),
    (0x116,0x19C), (0x117,0x19D), (0x123,0x19E), (0x118,0x19F), (0x119,0x1A0), (0x11A,0x1A1), (0x11B,0x1A2), (0x11C,0x1A3),
    (0x11D,0x1A4), (0x11E,0x1A5), (0x11F,0x1A6), (0x122,0x1A7), (0x124,0x1A8), (0x125,0x1A9), (0x126,0x1AA), (0x127,0x1AB),
    (0x128,0x1AC), (0x129,0x1AD), (0x12A,0x1AE), (0x12B,0x1AF), (0x12C,0x1B0), (0x12D,0x1B1), (0x12E,0x1B2), (0x12F,0x1B3),
    (0x130,0x1B4), (0x131,0x1B5), (0x132,0x1B6), (0x133,0x1B7), (0x134,0x1B8), (0x135,0x1B9), (0x136,0x1BA), (0x137,0x1BB),
    (0x138,0x1BC), (0x139,0x1BD), (0x13A,0x1BE), (0x13B,0x1BF), (0x13C,0x1C0), (0x13D,0x1C1)]"

definition word_select_pc_4 :: "(u16 \<times> u16) list" where
  "word_select_pc_4 = [
    (0x13E,0x1C2), (0x13F,0x1C3), (0x140,0x1C4), (0x141,0x1C5), (0x142,0x1C6), (0x143,0x1C7), (0x144,0x1C8), (0x145,0x1C9),
    (0x146,0x1CA), (0x147,0x1CB), (0x148,0x1CC), (0x149,0x1CD), (0x14A,0x1CE), (0x14B,0x1CF), (0x14C,0x1D0), (0x14D,0x1D1),
    (0x14E,0x1D2), (0x14F,0x1D3), (0x150,0x1D4), (0x151,0x1D5), (0x152,0x1D6), (0x153,0x1D7), (0x154,0x1D8), (0x155,0x1D9),
    (0x156,0x1DA), (0x157,0x1DB), (0x158,0x1DC), (0x159,0x1DD), (0x15A,0x1DE), (0x15B,0x1DF), (0x15C,0x1E0), (0x15D,0x1E1),
    (0x15E,0x1E2), (0x15F,0x1E3), (0x160,0x1E4), (0x161,0x1E5), (0x162,0x1E6), (0x163,0x1E7), (0x164,0x1E8), (0x165,0x1E9),
    (0x166,0x1EA), (0x167,0x1EB), (0x168,0x1EC), (0x169,0x1ED), (0x16A,0x1EE), (0xFFFF,0x1EF), (0xFFFF,0x1F0), (0xFFFF,0x1F1),
    (0xFFFF,0x1F2), (0xFFFF,0x1F3), (0xFFFF,0x1F4), (0xFFFF,0x1F5), (0xFFFF,0x1F6), (0xFFFF,0x1F7), (0xFFFF,0x1F8), (0xFFFF,0x1F9),
    (0xFFFF,0x1FA), (0xFFFF,0x1FB), (0xFFFF,0x1FC), (0xFFFF,0x1FD), (0xFFFF,0x1FE), (0xFFFF,0x1FF), (0xFFFF,0x200), (0xFFFF,0x201),
    (0xFFFF,0x202), (0xFFFF,0x203), (0xFFFF,0x204), (0xFFFF,0x205), (0xFFFF,0x206), (0xFFFF,0x207), (0xFFFF,0x208), (0xFFFF,0x209),
    (0xFFFF,0x20A), (0xFFFF,0x20B), (0xFFFF,0x20C), (0xFFFF,0x20D), (0xFFFF,0x20E), (0xFFFF,0x20F), (0xFFFF,0x210), (0xFFFF,0x211),
    (0xFFFF,0x212), (0xFFFF,0x213), (0xFFFF,0x214), (0xFFFF,0x215), (0xFFFF,0x216), (0xFFFF,0x217), (0xFFFF,0x218), (0xFFFF,0x219),
    (0xFFFF,0x21A), (0xFFFF,0x21B), (0xFFFF,0x21C), (0xFFFF,0x21D), (0xFFFF,0x21E), (0xFFFF,0x21F), (0xFFFF,0x220), (0xFFFF,0x221),
    (0xFFFF,0x222), (0xFFFF,0x223), (0xFFFF,0x224), (0xFFFF,0x225), (0xFFFF,0x226), (0xFFFF,0x227), (0xFFFF,0x228), (0xFFFF,0x229),
    (0xFFFF,0x22A), (0xFFFF,0x22B), (0xFFFF,0x22C), (0xFFFF,0x22D), (0xFFFF,0x22E), (0xFFFF,0x22F), (0xFFFF,0x230), (0xFFFF,0x231),
    (0xFFFF,0x232), (0xFFFF,0x233), (0xFFFF,0x234), (0xFFFF,0x235), (0xFFFF,0x236), (0xFFFF,0x237), (0xFFFF,0x238), (0xFFFF,0x239),
    (0xFFFF,0x23A), (0xFFFF,0x23B), (0xFFFF,0x23C), (0xFFFF,0x23D), (0xFFFF,0x23E), (0xFFFF,0x23F), (0xFFFF,0x240), (0xFFFF,0x241),
    (0xFFFF,0x242), (0xFFFF,0x243), (0xFFFF,0x244), (0xFFFF,0x245), (0xFFFF,0x246), (0xFFFF,0x247), (0xFFFF,0x248), (0xFFFF,0x249),
    (0xFFFF,0x24A), (0xFFFF,0x24B), (0xFFFF,0x24C), (0xFFFF,0x24D), (0xFFFF,0x24E), (0xFFFF,0x24F), (0xFFFF,0x250), (0xFFFF,0x251),
    (0xFFFF,0x252), (0xFFFF,0x253), (0xFFFF,0x254), (0xFFFF,0x255), (0xFFFF,0x256), (0xFFFF,0x257)]"

definition word_select_pc_5 :: "(u16 \<times> u16) list" where
  "word_select_pc_5 = [
    (0xFFFF,0x258), (0xFFFF,0x259), (0xFFFF,0x25A), (0xFFFF,0x25B), (0xFFFF,0x25C), (0xFFFF,0x25D), (0xFFFF,0x25E), (0xFFFF,0x25F),
    (0xFFFF,0x260), (0xFFFF,0x261), (0xFFFF,0x262), (0xFFFF,0x263), (0xFFFF,0x264), (0xFFFF,0x265), (0xFFFF,0x266), (0xFFFF,0x267),
    (0xFFFF,0x268), (0xFFFF,0x269), (0xFFFF,0x26A), (0xFFFF,0x26B), (0xFFFF,0x26C), (0xFFFF,0x26D), (0xFFFF,0x26E), (0xFFFF,0x26F),
    (0xFFFF,0x270), (0xFFFF,0x271), (0xFFFF,0x272), (0xFFFF,0x273), (0xFFFF,0x274), (0xFFFF,0x275), (0xFFFF,0x276), (0xFFFF,0x277),
    (0xFFFF,0x278), (0xFFFF,0x279), (0xFFFF,0x27A), (0x16B,0x27B), (0x16C,0x27C), (0x16D,0x27D), (0x16E,0x27E), (0x16F,0x27F),
    (0x170,0x280), (0x171,0x281), (0x172,0x282), (0x173,0x283), (0x174,0x284), (0x175,0x285), (0x176,0x286), (0x177,0x287),
    (0x178,0x288), (0x179,0x289), (0x17A,0x28A), (0x17B,0x28B), (0x17C,0x28C), (0x17D,0x28D), (0x17E,0x28E), (0x17F,0x28F),
    (0x180,0x290), (0x181,0x291), (0x182,0x292), (0x183,0x293), (0x184,0x294), (0x185,0x295), (0x186,0x296), (0x187,0x297),
    (0x188,0x298), (0x189,0x299), (0x18A,0x29A), (0x18B,0x29B), (0x18C,0x29C), (0x18D,0x29D), (0x18E,0x29E), (0x18F,0x29F),
    (0x190,0x2A0), (0x191,0x2A1), (0x192,0x2A2), (0x193,0x2A3), (0x194,0x2A4), (0x195,0x2A5), (0x196,0x2A6), (0x197,0x2A7),
    (0x198,0x2A8), (0x199,0x2A9), (0x19A,0x2AA), (0x19B,0x2AB), (0x19C,0x2AC), (0x19D,0x2AD), (0x19E,0x2AE), (0x19F,0x2AF),
    (0x1A0,0x2B0), (0x1A1,0x2B1), (0x1A2,0x2B2), (0x1A3,0x2B3), (0x1A4,0x2B4), (0x1A5,0x2B5), (0x1A6,0x2B6), (0x1A7,0x2B7),
    (0x1A8,0x2B8), (0x1A9,0x2B9), (0x1AA,0x2BA), (0x1AB,0x2BB), (0x1AC,0x2BC), (0x1AD,0x2BD), (0x1AE,0x2BE), (0x1AF,0x2BF),
    (0x1B0,0x2C0), (0x1B1,0x2C1), (0x1B2,0x2C2), (0x1B3,0x2C3), (0x1B4,0x2C4), (0x1B5,0x2C5), (0x1B6,0x2C6), (0x1B7,0x2C7),
    (0x1B8,0x2C8), (0x1B9,0x2C9), (0x1BA,0x2CA), (0x1BB,0x2CB), (0x1BC,0x2CC), (0x1BD,0x2CD), (0x1BE,0x2CE), (0x1BF,0x2CF),
    (0x1C0,0x2D0), (0x1C1,0x2D1), (0x1C2,0x2D2), (0x1C3,0x2D3), (0x1C4,0x2D4), (0x1C5,0x2D5), (0x1C6,0x2D6), (0x1C7,0x2D7),
    (0x1C8,0x2D8), (0x1C9,0x2D9), (0x1CA,0x2DA), (0x1CB,0x2DB), (0x1CC,0x2DC), (0x1CD,0x2DD), (0x1CE,0x2DE), (0x1CF,0x2DF),
    (0x1D0,0x2E0), (0x1D1,0x2E1), (0x1D2,0x2E2), (0x1D3,0x2E3), (0x1D4,0x2E4), (0x1D5,0x2E5), (0xFFFF,0x2E6), (0xFFFF,0x2E7),
    (0xFFFF,0x2E8), (0xFFFF,0x2E9), (0xFFFF,0x2EA), (0xFFFF,0x2EB), (0xFFFF,0x2EC), (0xFFFF,0x2ED)]"

definition word_select_pc_6 :: "(u16 \<times> u16) list" where
  "word_select_pc_6 = [
    (0xFFFF,0x2EE), (0xFFFF,0x2EF), (0xFFFF,0x2F0), (0xFFFF,0x2F1), (0xFFFF,0x2F2), (0xFFFF,0x2F3), (0xFFFF,0x2F4), (0x1D6,0x300),
    (0x1D7,0x301), (0x1D8,0x302), (0x1D9,0x303), (0xFFFF,0x304), (0x1DA,0x305), (0x1DB,0x306), (0x1DC,0x307), (0x1DD,0x308),
    (0xFFFF,0x309), (0x1DE,0x30A), (0x1DF,0x30B), (0x1E0,0x30C), (0x1E1,0x30D), (0xFFFF,0x30E), (0x1E2,0x30F), (0x1E3,0x310),
    (0x1E4,0x311), (0x1E5,0x312), (0xFFFF,0x313), (0x1E6,0x314), (0x1E7,0x315), (0x1E8,0x316), (0x1E9,0x317), (0xFFFF,0x318),
    (0x203,0x319), (0x204,0x31A), (0xFFFF,0x31B), (0xFFFF,0x31C), (0xFFFF,0x31D), (0xFFFF,0x31E), (0xFFFF,0x31F), (0xFFFF,0x320),
    (0xFFFF,0x321), (0xFFFF,0x322), (0xFFFF,0x323), (0xFFFF,0x324), (0xFFFF,0x325), (0xFFFF,0x326), (0xFFFF,0x327), (0xFFFF,0x328),
    (0xFFFF,0x329), (0xFFFF,0x32A), (0xFFFF,0x32B), (0xFFFF,0x32C), (0xFFFF,0x32D), (0xFFFF,0x32E), (0xFFFF,0x32F), (0xFFFF,0x330),
    (0xFFFF,0x331), (0xFFFF,0x332), (0xFFFF,0x333), (0xFFFF,0x334), (0xFFFF,0x335), (0xFFFF,0x336), (0xFFFF,0x337), (0xFFFF,0x338),
    (0xFFFF,0x339), (0xFFFF,0x33A), (0xFFFF,0x33B), (0xFFFF,0x33C), (0xFFFF,0x33D), (0xFFFF,0x33E), (0xFFFF,0x33F), (0xFFFF,0x340),
    (0xFFFF,0x341), (0xFFFF,0x342), (0xFFFF,0x343), (0xFFFF,0x344), (0xFFFF,0x345), (0xFFFF,0x346), (0xFFFF,0x347), (0xFFFF,0x348),
    (0xFFFF,0x349), (0x1EA,0x34B), (0x1EB,0x34C), (0x1EC,0x34D), (0x1ED,0x34E), (0xFFFF,0x34F), (0x1EE,0x350), (0x1EF,0x351),
    (0x1F0,0x352), (0x1F1,0x353), (0xFFFF,0x354), (0x1F2,0x355), (0x1F3,0x356), (0x1F4,0x357), (0x1F5,0x358), (0xFFFF,0x359),
    (0x1F6,0x35A), (0x1F7,0x35B), (0x1F8,0x35C), (0x1F9,0x35D), (0xFFFF,0x35E), (0xFFFF,0x35F), (0xFFFF,0xFFFF), (0xFFFF,0x361),
    (0xFFFF,0xFFFF), (0xFFFF,0xFFFF), (0xFFFF,0xFFFF), (0xFFFF,0x365), (0xFFFF,0x366), (0xFFFF,0xFFFF), (0xFFFF,0x368), (0xFFFF,0x369),
    (0xFFFF,0x36A), (0xFFFF,0x36B), (0xFFFF,0x36C), (0xFFFF,0x36D), (0xFFFF,0x36E), (0xFFFF,0x36F), (0xFFFF,0x370), (0xFFFF,0x371),
    (0xFFFF,0x372), (0xFFFF,0x373), (0xFFFF,0x374), (0xFFFF,0x375), (0xFFFF,0x376), (0x1FA,0x378), (0x1FB,0x379), (0x1FC,0x37A),
    (0xFFFF,0x37B), (0x1FD,0x37C), (0x1FE,0x37D), (0x1FF,0x37E), (0xFFFF,0x37F), (0x200,0x380), (0x201,0x381), (0x202,0x382),
    (0xFFFF,0x383)]"

definition word_select_pc_7 :: "(u16 \<times> u16) list" where
  "word_select_pc_7 = [
    (0xFFFF,0x384), (0xFFFF,0x385), (0xFFFF,0x386), (0xFFFF,0x387), (0xFFFF,0x388), (0xFFFF,0x389), (0xFFFF,0x38A), (0xFFFF,0x38B),
    (0xFFFF,0x38C), (0xFFFF,0x38D), (0xFFFF,0x38E), (0xFFFF,0x38F), (0xFFFF,0x390), (0xFFFF,0x391), (0xFFFF,0x392), (0xFFFF,0x393),
    (0xFFFF,0x394), (0xFFFF,0x395), (0xFFFF,0x397), (0xFFFF,0x398), (0x206,0x399), (0x207,0x39A), (0x208,0x39B), (0x209,0x39C),
    (0x20A,0x39D), (0x20B,0x39E), (0x20C,0x39F), (0x20D,0x3A0), (0x20E,0x3A1), (0x20F,0x3A2), (0x210,0x3A3), (0x211,0x3A4),
    (0x212,0x3A5), (0x213,0x3A6), (0x214,0x3A7), (0x215,0x3A8), (0x216,0x3A9), (0x217,0x3AA), (0x218,0x3AB), (0x219,0x3AC),
    (0x21A,0x3AD), (0x21B,0x3AE), (0x21C,0x3AF), (0x21D,0x3B0), (0xFFFF,0x3B1), (0xFFFF,0x3B2), (0xFFFF,0x3B3), (0xFFFF,0x3B4),
    (0xFFFF,0x3B5), (0xFFFF,0x3B6), (0xFFFF,0x3B7), (0xFFFF,0x3B8), (0xFFFF,0x3B9), (0xFFFF,0x3BA), (0xFFFF,0x3BB), (0xFFFF,0x3BC),
    (0xFFFF,0x3BD), (0xFFFF,0x3BE), (0xFFFF,0x3BF), (0xFFFF,0x3C0), (0xFFFF,0x3C1), (0x21E,0x3C2), (0x21F,0x3C3), (0x220,0x3C4),
    (0x221,0x3C5), (0x222,0x3C6), (0x223,0x3C7), (0x224,0x3C8), (0x225,0x3C9), (0x226,0x3CA), (0x227,0x3CB), (0x228,0x3CC),
    (0x229,0x3CD), (0x22A,0x3CE), (0x22B,0x3CF), (0x22C,0x3D0), (0x22D,0x3D1), (0x22E,0x3D2), (0x22F,0x3D3), (0x230,0x3D4),
    (0x231,0x3D5), (0x232,0x3D6), (0xFFFF,0x3D7), (0xFFFF,0x3D8), (0xFFFF,0x3D9), (0xFFFF,0x3DA), (0xFFFF,0x3DB), (0xFFFF,0x3DC),
    (0xFFFF,0x3DD), (0xFFFF,0x3DE), (0xFFFF,0x3DF), (0xFFFF,0x3E0), (0xFFFF,0x3E1), (0xFFFF,0x3E2), (0xFFFF,0x3E3), (0xFFFF,0x3E4),
    (0xFFFF,0x3E5), (0xFFFF,0x3E6), (0xFFFF,0x3E7), (0xFFFF,0x3E8), (0xFFFF,0x3E9), (0xFFFF,0x3EA), (0xFFFF,0x3EB), (0xFFFF,0x3EC),
    (0xFFFF,0x3ED), (0xFFFF,0x3EE), (0xFFFF,0xFFFF), (0xFFFF,0x3F0), (0xFFFF,0x3F1), (0xFFFF,0x3F2), (0xFFFF,0x3F3), (0xFFFF,0x3F4),
    (0xFFFF,0x3F5), (0xFFFF,0x3F6), (0xFFFF,0x3F7), (0xFFFF,0x3F8), (0xFFFF,0x3F9), (0xFFFF,0x3FA), (0xFFFF,0x3FB), (0xFFFF,0x3FC),
    (0xFFFF,0x3FD), (0xFFFF,0x3FE), (0xFFFF,0x3FF), (0xFFFF,0x400), (0xFFFF,0x401), (0xFFFF,0x402), (0xFFFF,0x403), (0xFFFF,0xFFFF),
    (0xFFFF,0x405), (0xFFFF,0x406), (0xFFFF,0x407), (0xFFFF,0x408), (0xFFFF,0x409), (0xFFFF,0x40A), (0xFFFF,0x40B), (0xFFFF,0x40C),
    (0xFFFF,0x40D), (0xFFFF,0x40E), (0xFFFF,0x40F), (0xFFFF,0x410), (0xFFFF,0x411), (0xFFFF,0x412), (0xFFFF,0x413), (0xFFFF,0x414),
    (0xFFFF,0x415), (0xFFFF,0x416), (0xFFFF,0x417), (0xFFFF,0x418), (0x233,0x419)]"

definition word_select_pc_8 :: "(u16 \<times> u16) list" where
  "word_select_pc_8 = [
    (0x234,0x41A), (0x235,0x41B), (0x236,0x41C), (0x237,0x41D), (0x238,0x41E), (0x239,0x41F), (0x23A,0x420), (0x23B,0x421),
    (0x23C,0x422), (0x23D,0x423), (0x23E,0x424), (0x23F,0x425), (0x240,0x426), (0x241,0x427), (0x242,0x428), (0x243,0x429),
    (0x244,0x42A), (0x245,0x42B), (0x246,0x42C), (0x247,0x42D), (0x248,0x42E), (0x249,0x42F), (0x24A,0x430), (0x24B,0x431),
    (0x24C,0x432), (0x24D,0x433), (0x24E,0x434), (0x24F,0x435), (0x250,0x436), (0x251,0x437), (0x252,0x438), (0x253,0x439),
    (0x254,0x43A), (0x255,0x43B), (0x256,0x43C), (0x257,0x43D), (0x258,0x43E), (0x259,0x43F), (0x25A,0x440), (0x25B,0x441),
    (0x25C,0x442), (0x25D,0x443), (0x25E,0x444), (0x25F,0x445), (0x260,0x446), (0x261,0x447), (0x262,0x448), (0xFFFF,0x449),
    (0xFFFF,0x44A), (0xFFFF,0x44B), (0xFFFF,0x44C), (0xFFFF,0x44D), (0xFFFF,0x44E), (0xFFFF,0x44F), (0xFFFF,0x450), (0xFFFF,0x451),
    (0xFFFF,0x452), (0xFFFF,0x453), (0xFFFF,0x454), (0xFFFF,0x455), (0xFFFF,0x456), (0xFFFF,0x457), (0xFFFF,0x458), (0xFFFF,0x459),
    (0xFFFF,0x45A), (0xFFFF,0x45B), (0xFFFF,0x45C), (0x263,0x45D), (0x264,0x45E), (0x265,0x45F), (0x266,0x460), (0x267,0x461),
    (0x268,0x462), (0x269,0x463), (0x26A,0x464), (0x26B,0x465), (0x26C,0x466), (0x26D,0x467), (0x26E,0x468), (0x26F,0x469),
    (0x270,0x46A), (0x271,0x46B), (0x272,0x46C), (0x273,0x46D), (0x274,0x46E), (0x275,0x46F), (0x276,0x470), (0x277,0x471),
    (0x278,0x472), (0x279,0x473), (0x27A,0x474), (0x27B,0x475), (0x27C,0x476), (0x27D,0x477), (0x27E,0x478), (0x27F,0x479),
    (0x280,0x47A), (0x281,0x47B), (0x282,0x47C), (0x283,0x47D), (0x284,0x47E), (0x285,0x47F), (0x286,0x480), (0x287,0x481),
    (0x288,0x482), (0x289,0x483), (0x28A,0x484), (0x28B,0x485), (0x28C,0x486), (0x28D,0x487), (0x28E,0x488), (0x28F,0x489),
    (0x290,0x48A), (0x291,0x48B), (0x292,0x48C), (0x293,0x48D), (0x294,0x48E), (0x295,0x48F), (0x296,0x490), (0x297,0x491),
    (0x298,0x492), (0x299,0x493), (0x29A,0x494), (0x29B,0x495), (0x29C,0x496), (0x29D,0x497), (0x29E,0x498), (0x29F,0x499),
    (0x2A0,0x49A), (0x2A1,0x49B), (0x2A2,0x49C), (0x2A3,0x49D)]"

definition word_select_pc_9 :: "(u16 \<times> u16) list" where
  "word_select_pc_9 = [
    (0x2A4,0x4B1), (0x2A5,0x4B2), (0x2A6,0x4B3), (0x2A7,0x4B4), (0x2A8,0x4B5), (0xFFFF,0x4B6), (0xFFFF,0x4B7), (0xFFFF,0x4B8),
    (0xFFFF,0x4B9), (0xFFFF,0x4BA), (0xFFFF,0x4BB), (0xFFFF,0x4BC), (0xFFFF,0x4BD), (0xFFFF,0x4BE), (0xFFFF,0x4BF), (0xFFFF,0x4C0),
    (0xFFFF,0x4C1), (0xFFFF,0x4C2), (0xFFFF,0x4C3), (0xFFFF,0x4C4), (0xFFFF,0x4C5), (0xFFFF,0x4C6), (0xFFFF,0x4C7), (0xFFFF,0x4C8),
    (0xFFFF,0x4C9), (0xFFFF,0x4CA), (0xFFFF,0x4CB), (0xFFFF,0x4CC), (0xFFFF,0x4CD), (0xFFFF,0x4CE), (0xFFFF,0xFFFF), (0xFFFF,0xFFFF),
    (0xFFFF,0x4D1), (0xFFFF,0x4D2), (0xFFFF,0x4D3), (0xFFFF,0x4D4), (0xFFFF,0x4D5), (0xFFFF,0x4D6), (0xFFFF,0x4D7), (0xFFFF,0x4D8),
    (0xFFFF,0x4D9), (0x2A9,0x4DA), (0x2AA,0x4DB), (0x2AB,0x4DC), (0x2AC,0x4DD), (0x2AD,0x4DE), (0x2AE,0x4DF), (0x2AF,0x4E0),
    (0x2B0,0x4E1), (0x2B1,0x4E2), (0x2B2,0x4E3), (0x2B3,0x4E4), (0x2B4,0x4E5), (0x2B5,0x4E9), (0x2B6,0x4EA), (0x2B7,0x4EC),
    (0x2B8,0x4ED), (0x2B9,0x4EE), (0x2BA,0x4EF), (0x2BB,0x4F0), (0x2BC,0x4F1), (0x2BD,0x4F2), (0x2BE,0x4F3), (0x2BF,0x4F4),
    (0x2C0,0x4F5), (0x2C1,0x4F6), (0x2C2,0x4F7), (0x2C3,0x4F8), (0x2C4,0x4F9), (0x2C5,0x4FA), (0x2C6,0x4FB), (0x2C7,0x4FC),
    (0x2C8,0x4FD), (0x2C9,0x4FE), (0x2CA,0x4FF), (0x2CB,0x500), (0x2CC,0x501), (0x2CD,0x502), (0x2CE,0x503), (0x2CF,0x504),
    (0x2D0,0x505), (0x2D1,0x506), (0x2D2,0x507), (0x2D3,0x508), (0x2D4,0x509), (0x2D5,0x50A), (0x2D6,0x50B), (0x2D7,0x50C),
    (0x2D8,0x50D), (0x2D9,0x50E), (0x2DA,0x50F), (0x2DB,0x510), (0x2DC,0x511), (0x2DD,0x512), (0x2DE,0x513), (0x2DF,0x514),
    (0x2E0,0x515), (0x2E1,0x516), (0x2E2,0x517), (0x2E3,0x518), (0x2E4,0x519), (0x2E5,0x51A), (0x2E6,0x51B), (0x2E7,0x51C),
    (0x2E8,0x51D), (0x2E9,0x51E), (0x2EA,0x51F), (0x2EB,0x520), (0x2EC,0x521), (0x2ED,0x522), (0x2EE,0x523), (0x2EF,0x524),
    (0x2F0,0x525), (0x2F1,0x526), (0x2F2,0x527), (0x2F3,0x528), (0x2F4,0x529), (0x2F5,0x52A), (0x2F6,0x52B), (0x2F7,0x52C),
    (0x2F8,0x52D), (0x2F9,0x52E), (0x2FA,0x52F), (0x2FB,0x530), (0x2FC,0x531), (0x2FD,0x532), (0x2FE,0x533), (0x2FF,0x534),
    (0x300,0x535), (0x301,0x536), (0x302,0x537), (0x303,0x538), (0x304,0x539), (0x305,0x53A), (0x306,0x53B), (0x307,0x53C),
    (0x308,0x53D), (0x309,0x53E), (0x30A,0x53F), (0x30B,0x540), (0x30C,0x541), (0x30D,0x542), (0x30E,0x543), (0x30F,0x544),
    (0x310,0x545)]"

definition word_select_pc_10 :: "(u16 \<times> u16) list" where
  "word_select_pc_10 = [
    (0x311,0x546), (0x312,0x547), (0x313,0x548), (0x314,0x549), (0x315,0x54A), (0x316,0x54B), (0x317,0x54C), (0x318,0x54D),
    (0x319,0x54E), (0x31A,0x54F), (0x31B,0x550), (0x31C,0x551), (0x31D,0x552), (0x31E,0x553), (0x31F,0x554), (0x320,0x555),
    (0x321,0x556), (0x322,0x557), (0x323,0x558), (0x324,0x559), (0x325,0x55A), (0x326,0x55B), (0x327,0x55C), (0x328,0x55D),
    (0x329,0x55E), (0x32A,0x55F), (0x32B,0x560), (0x32C,0x561), (0x32D,0x562), (0x32E,0x563), (0x32F,0x564), (0x330,0x565),
    (0x331,0x566), (0x332,0x567), (0x333,0x568), (0x334,0x569), (0x335,0x56A), (0x336,0x56B), (0x337,0x56C), (0x338,0x56D),
    (0x339,0x56E), (0x33A,0x56F), (0x33B,0x570), (0x33C,0x571), (0x33D,0x572), (0x33E,0x573), (0x33F,0x574), (0x340,0x575),
    (0x341,0x576), (0x342,0x577), (0x343,0x578), (0x344,0x579), (0x345,0x57A), (0x346,0x57B), (0x347,0x57C), (0x348,0x57D),
    (0x349,0x57E), (0x34A,0x57F), (0x34B,0x580), (0x34C,0x581), (0x34D,0x582), (0x34E,0x583), (0x34F,0x584), (0x350,0x585),
    (0x351,0x586), (0x352,0x587), (0x353,0x588), (0x354,0x589), (0x355,0x58A), (0x356,0x58B), (0x357,0x58C), (0x358,0x58D),
    (0x359,0x58E), (0x35A,0x58F), (0x35B,0x590), (0x35C,0x591), (0x35D,0x592), (0x35E,0x593), (0x35F,0x594), (0x360,0x595),
    (0x361,0x596), (0x362,0x597), (0x363,0x598), (0x364,0x599), (0x365,0x59A), (0x366,0x59B), (0x367,0x59C), (0x368,0x59D),
    (0x369,0x59E), (0x36A,0x59F), (0x36B,0x5A0), (0x36C,0x5A1), (0x36D,0x5A2), (0x36E,0x5A3), (0x36F,0x5A4), (0x370,0x5A5),
    (0x371,0x5A6), (0x372,0x5A7), (0x373,0x5A8), (0x374,0x5A9), (0x375,0x5AA), (0x376,0x5AB), (0x377,0x5AC), (0x378,0x5AD),
    (0x379,0x5AE), (0x37A,0x5AF), (0x37B,0x5B0), (0x37C,0x5B1), (0x37D,0x5B2), (0x37E,0x5B3), (0x37F,0x5B4), (0x380,0x5B5),
    (0x381,0x5B6), (0x382,0x5B7), (0x383,0x5B8), (0x384,0x5B9), (0x385,0x5BA), (0x386,0x5BB), (0x387,0x5BC), (0x388,0x5BD),
    (0x389,0x5BE), (0x38A,0x5BF), (0x38B,0x5C0), (0x38C,0x5C1), (0x38D,0x5C2), (0x38E,0x5C3), (0x38F,0x5C4), (0x390,0x5C5),
    (0x391,0x5C6), (0x392,0x5C7), (0x393,0x5C8), (0x394,0x5C9), (0x395,0x5CA), (0x396,0x5CB), (0x397,0x5CC), (0x398,0x5CD),
    (0x399,0x5CE), (0x39A,0x5CF), (0x39B,0x5D0), (0x39C,0x5D1), (0x39D,0x5D2), (0x39E,0x5D3), (0x39F,0x5D4), (0x3A0,0x5D5),
    (0x3A1,0x5D6), (0x3A2,0x5D7), (0x3A3,0x5D8), (0x3A4,0x5D9), (0x3A5,0x5DA), (0x3A6,0x5DB)]"

definition word_select_pc_11 :: "(u16 \<times> u16) list" where
  "word_select_pc_11 = [
    (0x3A7,0x5DC), (0x3A8,0x5DD), (0x3A9,0x5DE), (0x3AA,0x5DF), (0x3AB,0x5E0), (0x3AC,0x5E1), (0x3AD,0x5E2), (0x3AE,0x5E3),
    (0x3AF,0x5E4), (0x3B0,0x5E5), (0x3B1,0x5E6), (0x3B2,0x5E7), (0x3B3,0x5E8), (0x3B4,0x5E9), (0x3B5,0x5EA), (0x3B6,0x5EB),
    (0x3B7,0x5EC), (0x3B8,0x5ED), (0x3B9,0x5EE), (0x3BA,0x5EF), (0x3BB,0x5F0), (0x3BC,0x5F1), (0x3BD,0x5F2), (0x3BE,0x5F3),
    (0x3BF,0x5F4), (0x3C0,0x5F5), (0x3C1,0x5F6), (0x3C2,0x5F7), (0x3C3,0x5F8), (0x3C4,0x5F9), (0x3C5,0x5FA), (0x3C6,0x5FB),
    (0x3C7,0x5FC), (0x3C8,0x5FD), (0x3C9,0x5FE), (0x3CA,0x5FF), (0x3CB,0x600), (0x3CC,0x601), (0x3CD,0x602), (0x3CE,0x603),
    (0x3CF,0x604), (0x3D0,0x605), (0x3D1,0x606), (0x3D2,0x607), (0x3D3,0x608), (0x3D4,0x609), (0x3D5,0x60A), (0x3D6,0x60B),
    (0x3D7,0x60C), (0x3D8,0x60D), (0x3D9,0x60E), (0x3DA,0x60F), (0x3DB,0x610), (0x3DC,0x611), (0x3DD,0x612), (0x3DE,0x613),
    (0x3DF,0x614), (0x3E0,0x615), (0x3E1,0x616), (0x3E2,0x617), (0x3E3,0x618), (0x3E4,0x619), (0x3E5,0x61A), (0x3E6,0x61B),
    (0x3E7,0x61C), (0x3E8,0x61D), (0x3E9,0x61E), (0x3EA,0x61F), (0x3EB,0x620), (0x3EC,0x621), (0x3ED,0x622), (0x3EE,0x623),
    (0x3EF,0x624), (0x3F0,0x625), (0x3F1,0x626), (0x3F2,0x627), (0x3F3,0x628), (0x3F4,0x629), (0x3F5,0x62A), (0x3F6,0x62B),
    (0x3F7,0x62C), (0x3F8,0x62D), (0x3F9,0x62E), (0x3FA,0x62F), (0x3FB,0x630), (0x3FC,0x631), (0x3FD,0x632), (0x3FE,0x633),
    (0x3FF,0x634), (0x400,0x635), (0x401,0x636), (0x402,0x637), (0x403,0x638), (0x404,0x639), (0x405,0x63A), (0x406,0x63B),
    (0x407,0x63C), (0x408,0x63D), (0x409,0x63E), (0x40A,0x63F), (0x40B,0x640), (0x40C,0x641), (0x40D,0x642), (0x40E,0x643),
    (0x40F,0x644), (0x410,0x645), (0x411,0x646), (0x412,0x647), (0x413,0x648), (0x414,0x649), (0x415,0x64A), (0x416,0x64B),
    (0x417,0x64C), (0x418,0x64D), (0x419,0x64E), (0x41A,0x64F), (0x41B,0x650), (0x41C,0x651), (0x41D,0x652), (0x41E,0x653),
    (0x41F,0x654), (0x420,0x655), (0x421,0x656), (0x422,0x657), (0x423,0x658), (0x424,0x659), (0x425,0x65A), (0x426,0x65B),
    (0x427,0x65C), (0x428,0x65D), (0x429,0x65E), (0x42A,0x65F), (0x42B,0x660), (0x42C,0x661), (0x42D,0x662), (0x42E,0x663),
    (0x42F,0x664), (0x430,0x665), (0x431,0x666), (0x432,0x667), (0x433,0x668), (0x434,0x669), (0x435,0x66A), (0x436,0x66B),
    (0x437,0x66C), (0x438,0x66D), (0x439,0x66E), (0x43A,0x66F), (0x43B,0x670), (0x43C,0x671)]"

definition word_select_pc_12 :: "(u16 \<times> u16) list" where
  "word_select_pc_12 = [
    (0x43D,0x672), (0x43E,0x673), (0x43F,0x674), (0x440,0x675), (0x441,0x676), (0x442,0x677), (0x443,0x678), (0x444,0x679),
    (0x445,0x67A), (0x446,0x67B), (0x447,0x67C), (0x448,0x67D), (0x449,0x67E), (0x44A,0x67F), (0x44B,0x680), (0x44C,0x681),
    (0x44D,0x682), (0x44E,0x683), (0x44F,0x684), (0x450,0x685), (0x451,0x686), (0x452,0x687), (0x453,0x688), (0x454,0x689),
    (0x455,0x68A), (0x456,0x68B), (0x457,0x68C), (0x458,0x68D), (0x459,0x68E), (0x45A,0x68F), (0x45B,0x690), (0x45C,0x691),
    (0x45D,0x692), (0x45E,0x693), (0x45F,0x694), (0x460,0x695), (0x461,0x696), (0x462,0x697), (0x463,0x698)]"

definition word_select_pc_map :: "(u16 \<times> u16) list" where
  "word_select_pc_map = word_select_pc_1 @ word_select_pc_2 @ word_select_pc_3 @ word_select_pc_4 @
     word_select_pc_5 @ word_select_pc_6 @ word_select_pc_7 @ word_select_pc_8 @
     word_select_pc_9 @ word_select_pc_10 @ word_select_pc_11 @ word_select_pc_12"

definition word_select_gc_1 :: "(u16 \<times> u16) list" where
  "word_select_gc_1 = [
    (0x0,0x0), (0x1,0x1), (0x2,0x2), (0x3,0x3), (0x4,0x4), (0x5,0x5), (0x6,0x6), (0xFFFF,0x7),
    (0xFFFF,0x8), (0x7,0x9), (0x8,0xA), (0x9,0xB), (0xA,0xC), (0xB,0xD), (0xFFFF,0xFFFF), (0xFFFF,0xFFFF),
    (0xFFFF,0xFFFF), (0xFFFF,0xFFFF), (0xFFFF,0xFFFF), (0xFFFF,0xFFFF), (0xFFFF,0xFFFF), (0xFFFF,0xFFFF), (0xFFFF,0xFFFF), (0xFFFF,0xFFFF),
    (0xFFFF,0xFFFF), (0xFFFF,0xFFFF), (0xFFFF,0xFFFF), (0xFFFF,0xFFFF), (0xFFFF,0xFFFF), (0xFFFF,0xFFFF), (0xFFFF,0xFFFF), (0xFFFF,0xFFFF),
    (0xFFFF,0xFFFF), (0xFFFF,0xFFFF), (0xFFFF,0xFFFF), (0xFFFF,0xFFFF), (0xFFFF,0xFFFF), (0xFFFF,0xFFFF), (0xFFFF,0xFFFF), (0xFFFF,0xFFFF),
    (0xFFFF,0xFFFF), (0xFFFF,0xFFFF), (0xFFFF,0xFFFF), (0xFFFF,0xFFFF), (0xFFFF,0xFFFF), (0xFFFF,0xFFFF), (0xFFFF,0xFFFF), (0xFFFF,0xFFFF),
    (0xC,0xE), (0xD,0xF), (0xE,0x10), (0xF,0x11), (0x10,0x12), (0x11,0x13), (0x12,0x14), (0x13,0x15),
    (0xFFFF,0x16), (0xFFFF,0x17), (0xFFFF,0x18), (0x15,0x19), (0x16,0x1A), (0xFFFF,0x1B), (0x17,0x1C), (0x18,0x1D),
    (0x19,0x1E), (0xFFFF,0x1F), (0x1A,0x20), (0x1B,0x21), (0x1C,0x22), (0x1D,0x23), (0x1E,0x24), (0x1F,0x25),
    (0x20,0x26), (0x21,0x27), (0x22,0x28), (0x23,0x29), (0x24,0x2A), (0x25,0x2B), (0x26,0x2C), (0x27,0x2D),
    (0x28,0x2E), (0x29,0x2F), (0x2A,0x30), (0x2B,0x31), (0x2C,0x32), (0x2D,0x33), (0x2E,0x34), (0x2F,0x35),
    (0x30,0x36), (0x31,0x37), (0x32,0x38), (0x33,0x39), (0x34,0x3A), (0x35,0x3B), (0x36,0x3C), (0x37,0x3D),
    (0x38,0x3E), (0x39,0x3F), (0x3A,0x40), (0x3B,0x41), (0x3C,0x42), (0x3D,0x43), (0x3E,0x44), (0x3F,0x45),
    (0x40,0x46), (0x41,0x47), (0x42,0x48), (0x43,0x49), (0x44,0x4A), (0x45,0x4B), (0x46,0x4C), (0x47,0x4D),
    (0x48,0x4E), (0x49,0x4F), (0x4A,0x50), (0x4B,0x51), (0x4C,0x52), (0x4D,0x53), (0x4E,0x54), (0x4F,0x55),
    (0x50,0x56), (0x51,0x57), (0x52,0x58), (0x53,0x59), (0x54,0x5A), (0x55,0x5B), (0x56,0x5C), (0x57,0x5D),
    (0x58,0x5E), (0x59,0x5F), (0x5A,0x60), (0x5B,0x61), (0x5C,0x62), (0x5D,0x63), (0x5E,0x64), (0x5F,0x65),
    (0x60,0x66), (0x61,0x67), (0x62,0x68), (0xFFFF,0x69), (0xFFFF,0x6A), (0xFFFF,0x6B), (0xFFFF,0x6C), (0xFFFF,0x6D),
    (0xFFFF,0x6E), (0xFFFF,0x6F), (0xFFFF,0x70), (0xFFFF,0x71), (0xFFFF,0x72), (0xFFFF,0x73)]"

definition word_select_gc_2 :: "(u16 \<times> u16) list" where
  "word_select_gc_2 = [
    (0x63,0x74), (0x64,0x75), (0x65,0x76), (0x66,0x77), (0x67,0x78), (0x68,0x79), (0x69,0x7A), (0x6A,0x7B),
    (0x6B,0x7C), (0x6C,0x7D), (0x6D,0x7E), (0x6E,0x7F), (0xFFFF,0x80), (0xFFFF,0x81), (0x6F,0x82), (0x70,0x83),
    (0x71,0x84), (0x72,0x85), (0x73,0x86), (0x74,0x87), (0x75,0x88), (0x76,0x89), (0x77,0x8A), (0xFFFF,0x8B),
    (0xFFFF,0x8C), (0xFFFF,0x8D), (0x78,0x8E), (0x79,0x8F), (0x7A,0x90), (0x7B,0x91), (0x7C,0x92), (0x7D,0x93),
    (0x7E,0x94), (0x7F,0x95), (0x80,0x96), (0x81,0x97), (0x82,0x98), (0x83,0x99), (0x84,0x9A), (0x85,0x9B),
    (0x86,0x9C), (0x87,0x9D), (0x88,0x9E), (0x89,0x9F), (0x8A,0xA0), (0x8B,0xA1), (0x8C,0xA2), (0x8D,0xA3),
    (0x8E,0xA4), (0x8F,0xA5), (0x90,0xA6), (0x91,0xA7), (0x92,0xA8), (0x93,0xA9), (0xFFFF,0xAA), (0xFFFF,0xAB),
    (0xFFFF,0xAC), (0xFFFF,0xAD), (0xFFFF,0xAE), (0xFFFF,0xAF), (0xFFFF,0xB0), (0xFFFF,0xB1), (0xFFFF,0xB2), (0xFFFF,0xB3),
    (0xFFFF,0xB4), (0xFFFF,0xB5), (0xFFFF,0xB6), (0xFFFF,0xB7), (0xFFFF,0xB8), (0xFFFF,0xB9), (0x95,0xBA), (0x96,0xBB),
    (0x97,0xBC), (0x98,0xBD), (0x99,0xBE), (0x9A,0xBF), (0x9B,0xC0), (0x9C,0xC1), (0x9D,0xC2), (0x9E,0xC3),
    (0xFFFF,0xFFFF), (0xA0,0xC5), (0xA1,0xC6), (0xA2,0xC7), (0xA3,0xC8), (0xA4,0xC9), (0xA5,0xCA), (0xA6,0xCB),
    (0xA7,0xCC), (0xA8,0xCD), (0xA9,0xCE), (0xAA,0xCF), (0xAB,0xD0), (0xAC,0xD1), (0xFFFF,0xD2), (0xFFFF,0xD3),
    (0xFFFF,0xD4), (0xFFFF,0xD5), (0xFFFF,0xD6), (0xFFFF,0xD7), (0xFFFF,0xD8), (0xFFFF,0xD9), (0xFFFF,0xDA), (0xFFFF,0xDB),
    (0xFFFF,0xDC), (0xFFFF,0xDD), (0xFFFF,0xDE), (0xFFFF,0xDF), (0xFFFF,0xE0), (0xFFFF,0xE1), (0xFFFF,0xE2), (0xFFFF,0xE3),
    (0xFFFF,0xE4), (0xFFFF,0xE5), (0xFFFF,0xE6), (0xFFFF,0xE7), (0xFFFF,0xE8), (0xFFFF,0xE9), (0xFFFF,0xEA), (0xFFFF,0xEB),
    (0xFFFF,0xEC), (0xFFFF,0xED), (0xFFFF,0xEE), (0xFFFF,0xEF), (0xFFFF,0xF0), (0xFFFF,0xF1), (0xFFFF,0xF2), (0xFFFF,0xF3),
    (0xFFFF,0xF4), (0xFFFF,0xF5), (0xFFFF,0xF6), (0xFFFF,0xF7), (0xFFFF,0xF8), (0xFFFF,0xF9), (0xFFFF,0xFA), (0xFFFF,0xFB),
    (0xFFFF,0xFC), (0xFFFF,0xFD), (0xFFFF,0xFE), (0xFFFF,0xFF), (0xFFFF,0x100), (0xFFFF,0x101), (0xFFFF,0x102), (0xFFFF,0x103),
    (0xFFFF,0x104), (0xFFFF,0x105), (0xFFFF,0x106), (0xFFFF,0x107), (0xFFFF,0x108), (0xFFFF,0x109)]"

definition word_select_gc_3 :: "(u16 \<times> u16) list" where
  "word_select_gc_3 = [
    (0xFFFF,0x10A), (0xFFFF,0x10B), (0xAD,0x10C), (0xAE,0x10D), (0xAF,0x10E), (0xB0,0x10F), (0xB1,0x110), (0xB2,0x111),
    (0xB3,0x112), (0xB4,0x113), (0xB5,0x114), (0xB6,0x115), (0xB7,0x116), (0xB8,0x117), (0xB9,0x118), (0xBA,0x119),
    (0xBB,0x11A), (0xBC,0x11B), (0xBD,0x11C), (0xBE,0x11D), (0xBF,0x11E), (0xC0,0x11F), (0xC1,0x120), (0xC2,0x121),
    (0xC3,0x122), (0xC4,0x123), (0xC5,0x124), (0xC6,0x125), (0xC7,0x126), (0xC8,0x127), (0xC9,0x128), (0xCA,0x129),
    (0xCB,0x12A), (0xCC,0x12B), (0xCD,0x12C), (0xCE,0x12D), (0xCF,0x12E), (0xD0,0x12F), (0xD1,0x130), (0xD2,0x131),
    (0xD3,0x132), (0xD4,0x133), (0xD5,0x134), (0xD6,0x135), (0xD7,0x136), (0xD8,0x137), (0xD9,0x138), (0xDA,0x139),
    (0xDB,0x13A), (0xDC,0x13B), (0xDD,0x13C), (0xDE,0x13D), (0xDF,0x13E), (0xE0,0x13F), (0xE1,0x140), (0xFFFF,0x141),
    (0xFFFF,0x142), (0xFFFF,0x143), (0xE2,0x144), (0xE3,0x145), (0xE4,0x146), (0xE5,0x147), (0xE6,0x148), (0xE7,0x149),
    (0xE8,0x14A), (0xE9,0x14B), (0xEA,0x14C), (0xEB,0x14D), (0xEC,0x14E), (0xED,0x14F), (0xEE,0x150), (0xEF,0x151),
    (0xF0,0x152), (0x120,0x153), (0x121,0x154), (0x102,0x155), (0x103,0x156), (0xFE,0x157), (0xFF,0x158), (0x100,0x159),
    (0x101,0x15A), (0xFC,0x15B), (0xFD,0x15C), (0x104,0x15D), (0xFFFF,0x15E), (0x106,0x15F), (0x107,0x160), (0x108,0x161),
    (0x109,0x162), (0x10A,0x163), (0xF1,0x164), (0xF2,0x165), (0xF3,0x166), (0xF4,0x167), (0xF5,0x168), (0xF6,0x169),
    (0xF7,0x16A), (0xF8,0x16B), (0xF9,0x16C), (0xFA,0x16D), (0xFB,0x16E), (0x10B,0x16F), (0x10C,0x170), (0xFFFF,0x171),
    (0x10E,0x172), (0x10F,0x173), (0x110,0x174), (0x111,0x175), (0x112,0x176), (0x113,0x177), (0x114,0x178), (0x115,0x179),
    (0x116,0x17A), (0x117,0x17B), (0x123,0x17C), (0x118,0x17D), (0x119,0x17E), (0x11A,0x17F), (0x11B,0x180), (0x11C,0x181),
    (0x11D,0x182), (0x11E,0x183), (0x11F,0x184), (0x122,0x185), (0x124,0x186), (0x125,0x187), (0x126,0x188), (0x127,0x189),
    (0x128,0x18A), (0x129,0x18B), (0x12A,0x18C), (0x12B,0x18D), (0x12C,0x18E), (0x12D,0x18F), (0x12E,0x190), (0x12F,0x191),
    (0x130,0x192), (0x131,0x193), (0x132,0x194), (0x133,0x195), (0x134,0x196), (0x135,0x197), (0x136,0x198), (0x137,0x199),
    (0x138,0x19A), (0x139,0x19B), (0x13A,0x19C), (0x13B,0x19D), (0x13C,0x19E), (0x13D,0x19F)]"

definition word_select_gc_4 :: "(u16 \<times> u16) list" where
  "word_select_gc_4 = [
    (0x13E,0x1A0), (0x13F,0x1A1), (0x140,0x1A2), (0x141,0x1A3), (0x142,0x1A4), (0x143,0x1A5), (0x144,0x1A6), (0x145,0x1A7),
    (0x146,0x1A8), (0x147,0x1A9), (0x148,0x1AA), (0x149,0x1AB), (0x14A,0x1AC), (0x14B,0x1AD), (0x14C,0x1AE), (0x14D,0x1AF),
    (0x14E,0x1B0), (0x14F,0x1B1), (0x150,0x1B2), (0x151,0x1B3), (0x152,0x1B4), (0x153,0x1B5), (0x154,0x1B6), (0x155,0x1B7),
    (0x156,0x1B8), (0x157,0x1B9), (0x158,0x1BA), (0x159,0x1BB), (0x15A,0x1BC), (0x15B,0x1BD), (0x15C,0x1BE), (0x15D,0x1BF),
    (0x15E,0x1C0), (0x15F,0x1C1), (0x160,0x1C2), (0x161,0x1C3), (0x162,0x1C4), (0x163,0x1C5), (0x164,0x1C6), (0x165,0x1C7),
    (0x166,0x1C8), (0x167,0x1C9), (0x168,0x1CA), (0x169,0x1CB), (0x16A,0x1CC), (0xFFFF,0x1CD), (0xFFFF,0x1CE), (0xFFFF,0x1CF),
    (0xFFFF,0x1D0), (0xFFFF,0x1D1), (0xFFFF,0x1D2), (0xFFFF,0x1D3), (0xFFFF,0x1D4), (0xFFFF,0x1D5), (0xFFFF,0x1D6), (0xFFFF,0x1D7),
    (0xFFFF,0x1D8), (0xFFFF,0x1D9), (0xFFFF,0x1DA), (0xFFFF,0x1DB), (0xFFFF,0x1DC), (0xFFFF,0x1DD), (0xFFFF,0x1DE), (0xFFFF,0x1DF),
    (0xFFFF,0x1E0), (0xFFFF,0x1E1), (0xFFFF,0x1E2), (0xFFFF,0x1E3), (0xFFFF,0x1E4), (0xFFFF,0x1E5), (0xFFFF,0x1E6), (0xFFFF,0x1E7),
    (0xFFFF,0x1E8), (0xFFFF,0x1E9), (0xFFFF,0x1EA), (0xFFFF,0x1EB), (0xFFFF,0x1EC), (0xFFFF,0x1ED), (0xFFFF,0x1EE), (0xFFFF,0x1EF),
    (0xFFFF,0x1F0), (0xFFFF,0x1F1), (0xFFFF,0x1F2), (0xFFFF,0x1F3), (0xFFFF,0x1F4), (0xFFFF,0x1F5), (0xFFFF,0x1F6), (0xFFFF,0x1F7),
    (0xFFFF,0x1F8), (0xFFFF,0x1F9), (0xFFFF,0x1FA), (0xFFFF,0x1FB), (0xFFFF,0x1FC), (0xFFFF,0x1FD), (0xFFFF,0x1FE), (0xFFFF,0x1FF),
    (0xFFFF,0x200), (0xFFFF,0x201), (0xFFFF,0x202), (0xFFFF,0x203), (0xFFFF,0x204), (0xFFFF,0x205), (0xFFFF,0x206), (0xFFFF,0x207),
    (0xFFFF,0x208), (0xFFFF,0x209), (0xFFFF,0x20A), (0xFFFF,0x20B), (0xFFFF,0x20C), (0xFFFF,0x20D), (0xFFFF,0x20E), (0xFFFF,0x20F),
    (0xFFFF,0x210), (0xFFFF,0x211), (0xFFFF,0x212), (0xFFFF,0x213), (0xFFFF,0x214), (0xFFFF,0x215), (0xFFFF,0x216), (0xFFFF,0x217),
    (0xFFFF,0x218), (0xFFFF,0x219), (0xFFFF,0x21A), (0xFFFF,0x21B), (0xFFFF,0x21C), (0xFFFF,0x21D), (0xFFFF,0x21E), (0xFFFF,0x21F),
    (0xFFFF,0x220), (0xFFFF,0x221), (0xFFFF,0x222), (0xFFFF,0x223), (0xFFFF,0x224), (0xFFFF,0x225), (0xFFFF,0x226), (0xFFFF,0x227),
    (0xFFFF,0x228), (0xFFFF,0x229), (0xFFFF,0x22A), (0xFFFF,0x22B), (0xFFFF,0x22C), (0xFFFF,0x22D), (0xFFFF,0x22E), (0xFFFF,0x22F),
    (0xFFFF,0x230), (0xFFFF,0x231), (0xFFFF,0x232), (0xFFFF,0x233), (0xFFFF,0x234), (0xFFFF,0x235)]"

definition word_select_gc_5 :: "(u16 \<times> u16) list" where
  "word_select_gc_5 = [
    (0xFFFF,0x236), (0xFFFF,0x237), (0xFFFF,0x238), (0xFFFF,0x239), (0xFFFF,0x23A), (0xFFFF,0x23B), (0xFFFF,0x23C), (0xFFFF,0x23D),
    (0xFFFF,0x23E), (0xFFFF,0x23F), (0xFFFF,0x240), (0xFFFF,0x241), (0xFFFF,0x242), (0xFFFF,0x243), (0xFFFF,0x244), (0xFFFF,0x245),
    (0xFFFF,0x246), (0xFFFF,0x247), (0xFFFF,0x248), (0xFFFF,0x249), (0xFFFF,0x24A), (0xFFFF,0x24B), (0xFFFF,0x24C), (0xFFFF,0x24D),
    (0xFFFF,0x24E), (0xFFFF,0x24F), (0xFFFF,0x250), (0xFFFF,0x251), (0xFFFF,0x252), (0xFFFF,0x253), (0xFFFF,0x254), (0xFFFF,0x255),
    (0xFFFF,0x256), (0xFFFF,0x257), (0xFFFF,0x258), (0x16B,0x259), (0x16C,0x25A), (0x16D,0x25B), (0x16E,0x25C), (0x16F,0x25D),
    (0x170,0x25E), (0x171,0x25F), (0x172,0x260), (0x173,0x261), (0x174,0x262), (0x175,0x263), (0x176,0x264), (0x177,0x265),
    (0x178,0x266), (0x179,0x267), (0x17A,0x268), (0x17B,0x269), (0x17C,0x26A), (0x17D,0x26B), (0x17E,0x26C), (0x17F,0x26D),
    (0x180,0x26E), (0x181,0x26F), (0x182,0x270), (0x183,0x271), (0x184,0x272), (0x185,0x273), (0x186,0x274), (0x187,0x275),
    (0x188,0x276), (0x189,0x277), (0x18A,0x278), (0x18B,0x279), (0x18C,0x27A), (0x18D,0x27B), (0x18E,0x27C), (0x18F,0x27D),
    (0x190,0x27E), (0x191,0x27F), (0x192,0x280), (0x193,0x281), (0x194,0x282), (0x195,0x283), (0x196,0x284), (0x197,0x285),
    (0x198,0x286), (0x199,0x287), (0x19A,0x288), (0x19B,0x289), (0x19C,0x28A), (0x19D,0x28B), (0x19E,0x28C), (0x19F,0x28D),
    (0x1A0,0x28E), (0x1A1,0x28F), (0x1A2,0x290), (0x1A3,0x291), (0x1A4,0x292), (0x1A5,0x293), (0x1A6,0x294), (0x1A7,0x295),
    (0x1A8,0x296), (0x1A9,0x297), (0x1AA,0x298), (0x1AB,0x299), (0x1AC,0x29A), (0x1AD,0x29B), (0x1AE,0x29C), (0x1AF,0x29D),
    (0x1B0,0x29E), (0x1B1,0x29F), (0x1B2,0x2A0), (0x1B3,0x2A1), (0x1B4,0x2A2), (0x1B5,0x2A3), (0x1B6,0x2A4), (0x1B7,0x2A5),
    (0x1B8,0x2A6), (0x1B9,0x2A7), (0x1BA,0x2A8), (0x1BB,0x2A9), (0x1BC,0x2AA), (0x1BD,0x2AB), (0x1BE,0x2AC), (0x1BF,0x2AD),
    (0x1C0,0x2AE), (0x1C1,0x2AF), (0x1C2,0x2B0), (0x1C3,0x2B1), (0x1C4,0x2B2), (0x1C5,0x2B3), (0x1C6,0x2B4), (0x1C7,0x2B5),
    (0x1C8,0x2B6), (0x1C9,0x2B7), (0x1CA,0x2B8), (0x1CB,0x2B9), (0x1CC,0x2BA), (0x1CD,0x2BB), (0x1CE,0x2BC), (0x1CF,0x2BD),
    (0x1D0,0x2BE), (0x1D1,0x2BF), (0x1D2,0x2C0), (0x1D3,0x2C1), (0x1D4,0x2C2), (0x1D5,0x2C3), (0xFFFF,0x2C4), (0xFFFF,0x2C5),
    (0xFFFF,0x2C6), (0xFFFF,0x2C7), (0xFFFF,0x2C8), (0xFFFF,0x2C9), (0xFFFF,0x2CA), (0xFFFF,0x2CB)]"

definition word_select_gc_6 :: "(u16 \<times> u16) list" where
  "word_select_gc_6 = [
    (0xFFFF,0x2CC), (0xFFFF,0x2CD), (0xFFFF,0x2CE), (0xFFFF,0x2CF), (0xFFFF,0x2D0), (0xFFFF,0x2D1), (0xFFFF,0x2D2), (0xFFFF,0xFFFF),
    (0xFFFF,0xFFFF), (0xFFFF,0xFFFF), (0xFFFF,0xFFFF), (0xFFFF,0xFFFF), (0xFFFF,0xFFFF), (0xFFFF,0xFFFF), (0xFFFF,0xFFFF), (0xFFFF,0xFFFF),
    (0xFFFF,0xFFFF), (0xFFFF,0xFFFF), (0x1D6,0x2D3), (0x1D7,0x2D4), (0x1D8,0x2D5), (0x1D9,0x2D6), (0xFFFF,0x2D7), (0x1DA,0x2D8),
    (0x1DB,0x2D9), (0x1DC,0x2DA), (0x1DD,0x2DB), (0xFFFF,0x2DC), (0x1DE,0x2DD), (0x1DF,0x2DE), (0x1E0,0x2DF), (0x1E1,0x2E0),
    (0xFFFF,0x2E1), (0x1E2,0x2E2), (0x1E3,0x2E3), (0x1E4,0x2E4), (0x1E5,0x2E5), (0xFFFF,0x2E6), (0x1E6,0x2E7), (0x1E7,0x2E8),
    (0x1E8,0x2E9), (0x1E9,0x2EA), (0xFFFF,0x2EB), (0x203,0x2EC), (0x204,0x2ED), (0xFFFF,0x2EE), (0xFFFF,0x2EF), (0xFFFF,0x2F0),
    (0xFFFF,0x2F1), (0xFFFF,0x2F2), (0xFFFF,0x2F3), (0xFFFF,0x2F4), (0xFFFF,0x2F5), (0xFFFF,0x2F6), (0xFFFF,0x2F7), (0xFFFF,0x2F8),
    (0xFFFF,0x2F9), (0xFFFF,0x2FA), (0xFFFF,0x2FB), (0xFFFF,0x2FC), (0xFFFF,0x2FD), (0xFFFF,0x2FE), (0xFFFF,0x2FF), (0xFFFF,0x300),
    (0xFFFF,0x301), (0xFFFF,0x302), (0xFFFF,0x303), (0xFFFF,0x304), (0xFFFF,0x305), (0xFFFF,0x306), (0xFFFF,0x307), (0xFFFF,0x308),
    (0xFFFF,0x309), (0xFFFF,0x30A), (0xFFFF,0x30B), (0xFFFF,0x30C), (0xFFFF,0x30D), (0xFFFF,0x30E), (0xFFFF,0x30F), (0xFFFF,0x310),
    (0xFFFF,0x311), (0xFFFF,0x312), (0xFFFF,0x313), (0xFFFF,0x314), (0xFFFF,0x315), (0xFFFF,0x316), (0xFFFF,0x317), (0xFFFF,0x318),
    (0xFFFF,0x319), (0xFFFF,0x31A), (0xFFFF,0x31B), (0xFFFF,0x31C), (0xFFFF,0xFFFF), (0x1EA,0x31D), (0x1EB,0x31E), (0x1EC,0x31F),
    (0x1ED,0x320), (0xFFFF,0x321), (0x1EE,0x322), (0x1EF,0x323), (0x1F0,0x324), (0x1F1,0x325), (0xFFFF,0x326), (0x1F2,0x327),
    (0x1F3,0x328), (0x1F4,0x329), (0x1F5,0x32A), (0xFFFF,0x32B), (0x1F6,0x32C), (0x1F7,0x32D), (0x1F8,0x32E), (0x1F9,0x32F),
    (0xFFFF,0x330), (0xFFFF,0x331), (0xFFFF,0xFFFF), (0xFFFF,0x333), (0xFFFF,0xFFFF), (0xFFFF,0xFFFF), (0xFFFF,0xFFFF), (0xFFFF,0x337),
    (0xFFFF,0x338), (0xFFFF,0xFFFF), (0xFFFF,0x33A), (0xFFFF,0x33B), (0xFFFF,0x33C), (0xFFFF,0x33D), (0xFFFF,0x33E), (0xFFFF,0x33F),
    (0xFFFF,0x340), (0xFFFF,0x341), (0xFFFF,0x342), (0xFFFF,0x343), (0xFFFF,0x344), (0xFFFF,0x345), (0xFFFF,0x346), (0xFFFF,0x347),
    (0xFFFF,0x348), (0xFFFF,0xFFFF), (0x1FA,0x349), (0x1FB,0x34A), (0x1FC,0x34B), (0xFFFF,0x34C), (0x1FD,0x34D), (0x1FE,0x34E),
    (0x1FF,0x34F), (0xFFFF,0x350), (0x200,0x351), (0x201,0x352), (0x202,0x353), (0xFFFF,0x354)]"

definition word_select_gc_7 :: "(u16 \<times> u16) list" where
  "word_select_gc_7 = [
    (0xFFFF,0x355), (0xFFFF,0x356), (0xFFFF,0x357), (0xFFFF,0x358), (0xFFFF,0x359), (0xFFFF,0x35A), (0xFFFF,0x35B), (0xFFFF,0x35C),
    (0xFFFF,0x35D), (0xFFFF,0x35E), (0xFFFF,0x35F), (0xFFFF,0x360), (0xFFFF,0x361), (0xFFFF,0x362), (0xFFFF,0x363), (0xFFFF,0x364),
    (0xFFFF,0x365), (0xFFFF,0x366), (0xFFFF,0xFFFF), (0xFFFF,0x367), (0xFFFF,0x368), (0x206,0x369), (0x207,0x36A), (0x208,0x36B),
    (0x209,0x36C), (0x20A,0x36D), (0x20B,0x36E), (0x20C,0x36F), (0x20D,0x370), (0x20E,0x371), (0x20F,0x372), (0x210,0x373),
    (0x211,0x374), (0x212,0x375), (0x213,0x376), (0x214,0x377), (0x215,0x378), (0x216,0x379), (0x217,0x37A), (0x218,0x37B),
    (0x219,0x37C), (0x21A,0x37D), (0x21B,0x37E), (0x21C,0x37F), (0x21D,0x380), (0xFFFF,0x381), (0xFFFF,0x382), (0xFFFF,0x383),
    (0xFFFF,0x384), (0xFFFF,0x385), (0xFFFF,0x386), (0xFFFF,0x387), (0xFFFF,0x388), (0xFFFF,0x389), (0xFFFF,0x38A), (0xFFFF,0x38B),
    (0xFFFF,0x38C), (0xFFFF,0x38D), (0xFFFF,0x38E), (0xFFFF,0x38F), (0xFFFF,0x390), (0xFFFF,0x391), (0x21E,0x392), (0x21F,0x393),
    (0x220,0x394), (0x221,0x395), (0x222,0x396), (0x223,0x397), (0x224,0x398), (0x225,0x399), (0x226,0x39A), (0x227,0x39B),
    (0x228,0x39C), (0x229,0x39D), (0x22A,0x39E), (0x22B,0x39F), (0x22C,0x3A0), (0x22D,0x3A1), (0x22E,0x3A2), (0x22F,0x3A3),
    (0x230,0x3A4), (0x231,0x3A5), (0x232,0x3A6), (0xFFFF,0x3A7), (0xFFFF,0x3A8), (0xFFFF,0x3A9), (0xFFFF,0x3AA), (0xFFFF,0x3AB),
    (0xFFFF,0x3AC), (0xFFFF,0x3AD), (0xFFFF,0x3AE), (0xFFFF,0x3AF), (0xFFFF,0x3B0), (0xFFFF,0x3B1), (0xFFFF,0x3B2), (0xFFFF,0x3B3),
    (0xFFFF,0x3B4), (0xFFFF,0x3B5), (0xFFFF,0x3B6), (0xFFFF,0x3B7), (0xFFFF,0x3B8), (0xFFFF,0x3B9), (0xFFFF,0x3BA), (0xFFFF,0x3BB),
    (0xFFFF,0x3BC), (0xFFFF,0x3BD), (0xFFFF,0x3BE), (0xFFFF,0xFFFF), (0xFFFF,0x3C0), (0xFFFF,0x3C1), (0xFFFF,0x3C2), (0xFFFF,0x3C3),
    (0xFFFF,0x3C4), (0xFFFF,0x3C5), (0xFFFF,0x3C6), (0xFFFF,0x3C7), (0xFFFF,0x3C8), (0xFFFF,0x3C9), (0xFFFF,0x3CA), (0xFFFF,0x3CB),
    (0xFFFF,0x3CC), (0xFFFF,0x3CD), (0xFFFF,0x3CE), (0xFFFF,0x3CF), (0xFFFF,0x3D0), (0xFFFF,0x3D1), (0xFFFF,0x3D2), (0xFFFF,0x3D3),
    (0xFFFF,0xFFFF), (0xFFFF,0x3D5), (0xFFFF,0x3D6), (0xFFFF,0x3D7), (0xFFFF,0x3D8), (0xFFFF,0x3D9), (0xFFFF,0x3DA), (0xFFFF,0x3DB),
    (0xFFFF,0x3DC), (0xFFFF,0x3DD), (0xFFFF,0x3DE), (0xFFFF,0x3DF), (0xFFFF,0x3E0), (0xFFFF,0x3E1), (0xFFFF,0x3E2), (0xFFFF,0x3E3),
    (0xFFFF,0x3E4), (0xFFFF,0x3E5), (0xFFFF,0x3E6), (0xFFFF,0x3E7), (0xFFFF,0x3E8), (0x233,0x3E9)]"

definition word_select_gc_8 :: "(u16 \<times> u16) list" where
  "word_select_gc_8 = [
    (0x234,0x3EA), (0x235,0x3EB), (0x236,0x3EC), (0x237,0x3ED), (0x238,0x3EE), (0x239,0x3EF), (0x23A,0x3F0), (0x23B,0x3F1),
    (0x23C,0x3F2), (0x23D,0x3F3), (0x23E,0x3F4), (0x23F,0x3F5), (0x240,0x3F6), (0x241,0x3F7), (0x242,0x3F8), (0x243,0x3F9),
    (0x244,0x3FA), (0x245,0x3FB), (0x246,0x3FC), (0x247,0x3FD), (0x248,0x3FE), (0x249,0x3FF), (0x24A,0x400), (0x24B,0x401),
    (0x24C,0x402), (0x24D,0x403), (0x24E,0x404), (0x24F,0x405), (0x250,0x406), (0x251,0x407), (0x252,0x408), (0x253,0x409),
    (0x254,0x40A), (0x255,0x40B), (0x256,0x40C), (0x257,0x40D), (0x258,0x40E), (0x259,0x40F), (0x25A,0x410), (0x25B,0x411),
    (0x25C,0x412), (0x25D,0x413), (0x25E,0x414), (0x25F,0x415), (0x260,0x416), (0x261,0x417), (0x262,0x418), (0xFFFF,0x419),
    (0xFFFF,0x41A), (0xFFFF,0x41B), (0xFFFF,0x41C), (0xFFFF,0x41D), (0xFFFF,0x41E), (0xFFFF,0x41F), (0xFFFF,0x420), (0xFFFF,0x421),
    (0xFFFF,0x422), (0xFFFF,0x423), (0xFFFF,0x424), (0xFFFF,0x425), (0xFFFF,0x426), (0xFFFF,0x427), (0xFFFF,0x428), (0xFFFF,0x429),
    (0xFFFF,0x42A), (0xFFFF,0x42B), (0xFFFF,0x42C), (0x263,0x42D), (0x264,0x42E), (0x265,0x42F), (0x266,0x430), (0x267,0x431),
    (0x268,0x432), (0x269,0x433), (0x26A,0x434), (0x26B,0x435), (0x26C,0x436), (0x26D,0x437), (0x26E,0x438), (0x26F,0x439),
    (0x270,0x43A), (0x271,0x43B), (0x272,0x43C), (0x273,0x43D), (0x274,0x43E), (0x275,0x43F), (0x276,0x440), (0x277,0x441),
    (0x278,0x442), (0x279,0x443), (0x27A,0x444), (0x27B,0x445), (0x27C,0x446), (0x27D,0x447), (0x27E,0x448), (0x27F,0x449),
    (0x280,0x44A), (0x281,0x44B), (0x282,0x44C), (0x283,0x44D), (0x284,0x44E), (0x285,0x44F), (0x286,0x450), (0x287,0x451),
    (0x288,0x452), (0x289,0x453), (0x28A,0x454), (0x28B,0x455), (0x28C,0x456), (0x28D,0x457), (0x28E,0x458), (0x28F,0x459),
    (0x290,0x45A), (0x291,0x45B), (0x292,0x45C), (0x293,0x45D), (0x294,0x45E), (0x295,0x45F), (0x296,0x460), (0x297,0x461),
    (0x298,0x462), (0x299,0x463), (0x29A,0x464), (0x29B,0x465), (0x29C,0x466), (0x29D,0x467), (0x29E,0x468), (0x29F,0x469),
    (0x2A0,0x46A), (0x2A1,0x46B), (0x2A2,0x46C), (0x2A3,0x46D), (0xFFFF,0xFFFF), (0xFFFF,0xFFFF), (0xFFFF,0xFFFF), (0xFFFF,0xFFFF),
    (0xFFFF,0xFFFF), (0xFFFF,0xFFFF), (0xFFFF,0xFFFF), (0xFFFF,0xFFFF), (0xFFFF,0xFFFF), (0xFFFF,0xFFFF), (0xFFFF,0xFFFF), (0xFFFF,0xFFFF),
    (0xFFFF,0xFFFF), (0xFFFF,0xFFFF), (0xFFFF,0xFFFF), (0xFFFF,0xFFFF), (0xFFFF,0xFFFF), (0xFFFF,0xFFFF)]"

definition word_select_gc_9 :: "(u16 \<times> u16) list" where
  "word_select_gc_9 = [
    (0xFFFF,0xFFFF), (0x2A4,0x46E), (0x2A5,0x46F), (0x2A6,0x470), (0x2A7,0x471), (0x2A8,0x472), (0xFFFF,0x473), (0xFFFF,0x474),
    (0xFFFF,0x475), (0xFFFF,0x476), (0xFFFF,0x477), (0xFFFF,0x478), (0xFFFF,0x479), (0xFFFF,0x47A), (0xFFFF,0x47B), (0xFFFF,0x47C),
    (0xFFFF,0x47D), (0xFFFF,0x47E), (0xFFFF,0x47F), (0xFFFF,0x480), (0xFFFF,0x481), (0xFFFF,0x482), (0xFFFF,0x483), (0xFFFF,0x484),
    (0xFFFF,0x485), (0xFFFF,0x486), (0xFFFF,0x487), (0xFFFF,0x488), (0xFFFF,0x489), (0xFFFF,0x48A), (0xFFFF,0x48B), (0xFFFF,0xFFFF),
    (0xFFFF,0xFFFF), (0xFFFF,0x48E), (0xFFFF,0x48F), (0xFFFF,0x490), (0xFFFF,0x491), (0xFFFF,0x492), (0xFFFF,0x493), (0xFFFF,0x494),
    (0xFFFF,0x495), (0xFFFF,0x496), (0x2A9,0x497), (0x2AA,0x498), (0x2AB,0x499), (0x2AC,0x49A), (0x2AD,0x49B), (0x2AE,0x49C),
    (0x2AF,0x49D), (0x2B0,0x49E), (0x2B1,0x49F), (0x2B2,0x4A0), (0x2B3,0x4A1), (0x2B4,0x4A2), (0xFFFF,0xFFFF), (0xFFFF,0xFFFF),
    (0xFFFF,0xFFFF), (0x2B5,0x4A3), (0x2B6,0x4A4), (0xFFFF,0xFFFF), (0x2B7,0x4A5), (0x2B8,0x4A6), (0x2B9,0x4A7), (0x2BA,0x4A8),
    (0x2BB,0x4A9), (0x2BC,0x4AA), (0x2BD,0x4AB), (0x2BE,0x4AC), (0x2BF,0x4AD), (0x2C0,0x4AE), (0x2C1,0x4AF), (0x2C2,0x4B0),
    (0x2C3,0x4B1), (0x2C4,0x4B2), (0x2C5,0x4B3), (0x2C6,0x4B4), (0x2C7,0x4B5), (0x2C8,0x4B6), (0x2C9,0x4B7), (0x2CA,0x4B8),
    (0x2CB,0x4B9), (0x2CC,0x4BA), (0x2CD,0x4BB), (0x2CE,0x4BC), (0x2CF,0x4BD), (0x2D0,0x4BE), (0x2D1,0x4BF), (0x2D2,0x4C0),
    (0x2D3,0x4C1), (0x2D4,0x4C2), (0x2D5,0x4C3), (0x2D6,0x4C4), (0x2D7,0x4C5), (0x2D8,0x4C6), (0x2D9,0x4C7), (0x2DA,0x4C8),
    (0x2DB,0x4C9), (0x2DC,0x4CA), (0x2DD,0x4CB), (0x2DE,0x4CC), (0x2DF,0x4CD), (0x2E0,0x4CE), (0x2E1,0x4CF), (0x2E2,0x4D0),
    (0x2E3,0x4D1), (0x2E4,0x4D2), (0x2E5,0x4D3), (0x2E6,0x4D4), (0x2E7,0x4D5), (0x2E8,0x4D6), (0x2E9,0x4D7), (0x2EA,0x4D8),
    (0x2EB,0x4D9), (0x2EC,0x4DA), (0x2ED,0x4DB), (0x2EE,0x4DC), (0x2EF,0x4DD), (0x2F0,0x4DE), (0x2F1,0x4DF), (0x2F2,0x4E0),
    (0x2F3,0x4E1), (0x2F4,0x4E2), (0x2F5,0x4E3), (0x2F6,0x4E4), (0x2F7,0x4E5), (0x2F8,0x4E6), (0x2F9,0x4E7), (0x2FA,0x4E8),
    (0x2FB,0x4E9), (0x2FC,0x4EA), (0x2FD,0x4EB), (0x2FE,0x4EC), (0x2FF,0x4ED), (0x300,0x4EE), (0x301,0x4EF), (0x302,0x4F0),
    (0x303,0x4F1), (0x304,0x4F2), (0x305,0x4F3), (0x306,0x4F4), (0x307,0x4F5), (0x308,0x4F6), (0x309,0x4F7), (0x30A,0x4F8),
    (0x30B,0x4F9), (0x30C,0x4FA), (0x30D,0x4FB), (0x30E,0x4FC), (0x30F,0x4FD), (0x310,0x4FE)]"

definition word_select_gc_10 :: "(u16 \<times> u16) list" where
  "word_select_gc_10 = [
    (0x311,0x4FF), (0x312,0x500), (0x313,0x501), (0x314,0x502), (0x315,0x503), (0x316,0x504), (0x317,0x505), (0x318,0x506),
    (0x319,0x507), (0x31A,0x508), (0x31B,0x509), (0x31C,0x50A), (0x31D,0x50B), (0x31E,0x50C), (0x31F,0x50D), (0x320,0x50E),
    (0x321,0x50F), (0x322,0x510), (0x323,0x511), (0x324,0x512), (0x325,0x513), (0x326,0x514), (0x327,0x515), (0x328,0x516),
    (0x329,0x517), (0x32A,0x518), (0x32B,0x519), (0x32C,0x51A), (0x32D,0x51B), (0x32E,0x51C), (0x32F,0x51D), (0x330,0x51E),
    (0x331,0x51F), (0x332,0x520), (0x333,0x521), (0x334,0x522), (0x335,0x523), (0x336,0x524), (0x337,0x525), (0x338,0x526),
    (0x339,0x527), (0x33A,0x528), (0x33B,0x529), (0x33C,0x52A), (0x33D,0x52B), (0x33E,0x52C), (0x33F,0x52D), (0x340,0x52E),
    (0x341,0x52F), (0x342,0x530), (0x343,0x531), (0x344,0x532), (0x345,0x533), (0x346,0x534), (0x347,0x535), (0x348,0x536),
    (0x349,0x537), (0x34A,0x538), (0x34B,0x539), (0x34C,0x53A), (0x34D,0x53B), (0x34E,0x53C), (0x34F,0x53D), (0x350,0x53E),
    (0x351,0x53F), (0x352,0x540), (0x353,0x541), (0x354,0x542), (0x355,0x543), (0x356,0x544), (0x357,0x545), (0x358,0x546),
    (0x359,0x547), (0x35A,0x548), (0x35B,0x549), (0x35C,0x54A), (0x35D,0x54B), (0x35E,0x54C), (0x35F,0x54D), (0x360,0x54E),
    (0x361,0x54F), (0x362,0x550), (0x363,0x551), (0x364,0x552), (0x365,0x553), (0x366,0x554), (0x367,0x555), (0x368,0x556),
    (0x369,0x557), (0x36A,0x558), (0x36B,0x559), (0x36C,0x55A), (0x36D,0x55B), (0x36E,0x55C), (0x36F,0x55D), (0x370,0x55E),
    (0x371,0x55F), (0x372,0x560), (0x373,0x561), (0x374,0x562), (0x375,0x563), (0x376,0x564), (0x377,0x565), (0x378,0x566),
    (0x379,0x567), (0x37A,0x568), (0x37B,0x569), (0x37C,0x56A), (0x37D,0x56B), (0x37E,0x56C), (0x37F,0x56D), (0x380,0x56E),
    (0x381,0x56F), (0x382,0x570), (0x383,0x571), (0x384,0x572), (0x385,0x573), (0x386,0x574), (0x387,0x575), (0x388,0x576),
    (0x389,0x577), (0x38A,0x578), (0x38B,0x579), (0x38C,0x57A), (0x38D,0x57B), (0x38E,0x57C), (0x38F,0x57D), (0x390,0x57E),
    (0x391,0x57F), (0x392,0x580), (0x393,0x581), (0x394,0x582), (0x395,0x583), (0x396,0x584), (0x397,0x585), (0x398,0x586),
    (0x399,0x587), (0x39A,0x588), (0x39B,0x589), (0x39C,0x58A), (0x39D,0x58B), (0x39E,0x58C), (0x39F,0x58D), (0x3A0,0x58E),
    (0x3A1,0x58F), (0x3A2,0x590), (0x3A3,0x591), (0x3A4,0x592), (0x3A5,0x593), (0x3A6,0x594)]"

definition word_select_gc_11 :: "(u16 \<times> u16) list" where
  "word_select_gc_11 = [
    (0x3A7,0x595), (0x3A8,0x596), (0x3A9,0x597), (0x3AA,0x598), (0x3AB,0x599), (0x3AC,0x59A), (0x3AD,0x59B), (0x3AE,0x59C),
    (0x3AF,0x59D), (0x3B0,0x59E), (0x3B1,0x59F), (0x3B2,0x5A0), (0x3B3,0x5A1), (0x3B4,0x5A2), (0x3B5,0x5A3), (0x3B6,0x5A4),
    (0x3B7,0x5A5), (0x3B8,0x5A6), (0x3B9,0x5A7), (0x3BA,0x5A8), (0x3BB,0x5A9), (0x3BC,0x5AA), (0x3BD,0x5AB), (0x3BE,0x5AC),
    (0x3BF,0x5AD), (0x3C0,0x5AE), (0x3C1,0x5AF), (0x3C2,0x5B0), (0x3C3,0x5B1), (0x3C4,0x5B2), (0x3C5,0x5B3), (0x3C6,0x5B4),
    (0x3C7,0x5B5), (0x3C8,0x5B6), (0x3C9,0x5B7), (0x3CA,0x5B8), (0x3CB,0x5B9), (0x3CC,0x5BA), (0x3CD,0x5BB), (0x3CE,0x5BC),
    (0x3CF,0x5BD), (0x3D0,0x5BE), (0x3D1,0x5BF), (0x3D2,0x5C0), (0x3D3,0x5C1), (0x3D4,0x5C2), (0x3D5,0x5C3), (0x3D6,0x5C4),
    (0x3D7,0x5C5), (0x3D8,0x5C6), (0x3D9,0x5C7), (0x3DA,0x5C8), (0x3DB,0x5C9), (0x3DC,0x5CA), (0x3DD,0x5CB), (0x3DE,0x5CC),
    (0x3DF,0x5CD), (0x3E0,0x5CE), (0x3E1,0x5CF), (0x3E2,0x5D0), (0x3E3,0x5D1), (0x3E4,0x5D2), (0x3E5,0x5D3), (0x3E6,0x5D4),
    (0x3E7,0x5D5), (0x3E8,0x5D6), (0x3E9,0x5D7), (0x3EA,0x5D8), (0x3EB,0x5D9), (0x3EC,0x5DA), (0x3ED,0x5DB), (0x3EE,0x5DC),
    (0x3EF,0x5DD), (0x3F0,0x5DE), (0x3F1,0x5DF), (0x3F2,0x5E0), (0x3F3,0x5E1), (0x3F4,0x5E2), (0x3F5,0x5E3), (0x3F6,0x5E4),
    (0x3F7,0x5E5), (0x3F8,0x5E6), (0x3F9,0x5E7), (0x3FA,0x5E8), (0x3FB,0x5E9), (0x3FC,0x5EA), (0x3FD,0x5EB), (0x3FE,0x5EC),
    (0x3FF,0x5ED), (0x400,0x5EE), (0x401,0x5EF), (0x402,0x5F0), (0x403,0x5F1), (0x404,0x5F2), (0x405,0x5F3), (0x406,0x5F4),
    (0x407,0x5F5), (0x408,0x5F6), (0x409,0x5F7), (0x40A,0x5F8), (0x40B,0x5F9), (0x40C,0x5FA), (0x40D,0x5FB), (0x40E,0x5FC),
    (0x40F,0x5FD), (0x410,0x5FE), (0x411,0x5FF), (0x412,0x600), (0x413,0x601), (0x414,0x602), (0x415,0x603), (0x416,0x604),
    (0x417,0x605), (0x418,0x606), (0x419,0x607), (0x41A,0x608), (0x41B,0x609), (0x41C,0x60A), (0x41D,0x60B), (0x41E,0x60C),
    (0x41F,0x60D), (0x420,0x60E), (0x421,0x60F), (0x422,0x610), (0x423,0x611), (0x424,0x612), (0x425,0x613), (0x426,0x614),
    (0x427,0x615), (0x428,0x616), (0x429,0x617), (0x42A,0x618), (0x42B,0x619), (0x42C,0x61A), (0x42D,0x61B), (0x42E,0x61C),
    (0x42F,0x61D), (0x430,0x61E), (0x431,0x61F), (0x432,0x620), (0x433,0x621), (0x434,0x622), (0x435,0x623), (0x436,0x624),
    (0x437,0x625), (0x438,0x626), (0x439,0x627), (0x43A,0x628), (0x43B,0x629), (0x43C,0x62A)]"

definition word_select_gc_12 :: "(u16 \<times> u16) list" where
  "word_select_gc_12 = [
    (0x43D,0x62B), (0x43E,0x62C), (0x43F,0x62D), (0x440,0x62E), (0x441,0x62F), (0x442,0x630), (0x443,0x631), (0x444,0x632),
    (0x445,0x633), (0x446,0x634), (0x447,0x635), (0x448,0x636), (0x449,0x637), (0x44A,0x638), (0x44B,0x639), (0x44C,0x63A),
    (0x44D,0x63B), (0x44E,0x63C), (0x44F,0x63D), (0x450,0x63E), (0x451,0x63F), (0x452,0x640), (0x453,0x641), (0x454,0x642),
    (0x455,0x643), (0x456,0x644), (0x457,0x645), (0x458,0x646), (0x459,0x647), (0x45A,0x648), (0x45B,0x649), (0x45C,0x64A),
    (0x45D,0x64B), (0x45E,0x64C), (0x45F,0x64D), (0x460,0x64E), (0x461,0x64F), (0x462,0x650), (0x463,0x651)]"

definition word_select_gc_map :: "(u16 \<times> u16) list" where
  "word_select_gc_map = word_select_gc_1 @ word_select_gc_2 @ word_select_gc_3 @ word_select_gc_4 @
     word_select_gc_5 @ word_select_gc_6 @ word_select_gc_7 @ word_select_gc_8 @
     word_select_gc_9 @ word_select_gc_10 @ word_select_gc_11 @ word_select_gc_12"

end
