(* ===== verification/Word_Select.thy ===== *)
theory Word_Select
  imports Subcmd Word_Tables
begin

section \<open>Word select\<close>

text \<open>
  \<open>ship_server/src/word_select.c\<close>: a phrase made of words from a menu is sent to every player of the
  lobby with the numbers the words have in that player's version, and not at all when one of them
  does not exist there.
\<close>

text \<open>
  The loop over the eight words: what they are in the two other versions, and for each of these
  whether a word is missing; \<open>None\<close> for a number that is no word.
\<close>

primrec ws_loop :: "u16 \<Rightarrow> (u16 \<times> u16) list \<Rightarrow> u16 list \<Rightarrow> (u16 list \<times> bool \<times> u16 list \<times> bool) option" where
  "ws_loop mx table [] = Some ([], False, [], False)"
| "ws_loop mx table (x # xs) =
     (if x > mx \<and> x \<noteq> 0xFFFF then None
      else
        let (a, b) = (if x \<noteq> 0xFFFF then table ! unat x else (0xFFFF, 0xFFFF))
        in map_option (\<lambda>(ys, au, zs, bu). (a # ys, a = 0xFFFF \<and> x \<noteq> 0xFFFF \<or> au, b # zs, b = 0xFFFF \<and> x \<noteq> 0xFFFF \<or> bu))
             (ws_loop mx table xs))"

definition ws_words :: "packet \<Rightarrow> u16 list" where
  "ws_words p = map (\<lambda>i. sub_short p (8 + 2 * i)) [0..<8]"

definition ws_amounts :: "packet \<Rightarrow> u8 list" where
  "ws_amounts p = take 8 (drop 24 (payload p))"

definition ws_packet :: "u16 \<Rightarrow> packet \<Rightarrow> u8 \<Rightarrow> u8 \<Rightarrow> u16 list \<Rightarrow> packet" where
  "ws_packet len p cid cid_gc ws =
     \<lparr>pkt_type = GAME_COMMAND0_TYPE, pkt_len = len, pkt_flags = pkt_flags p,
      payload = [0x74, 0x08, cid, cid_gc, payload p ! 4, 0, payload p ! 6, 0] @ concat (map le16_bytes ws) @
        ws_amounts p\<rparr>"

text \<open>The loop that sends: each player gets the packet of its version, if there is one.\<close>

definition ws_hears :: "world \<Rightarrow> cref \<Rightarrow> cref \<Rightarrow> bool" where
  "ws_hears w c d \<longleftrightarrow> d \<noteq> c \<and> \<not> client_has_ignored (cl w d) (guildcard (cl w c))"

definition ws_deliver :: "sub_env \<Rightarrow> lref \<Rightarrow> cref \<Rightarrow> (nat \<Rightarrow> packet option) \<Rightarrow> world \<Rightarrow> world" where
  "ws_deliver e l c packet_for w =
     for_clients l (\<lambda>d w. if ws_hears w c d then
         case packet_for (version (cl w d)) of None \<Rightarrow> w | Some q \<Rightarrow> snd (send_pkt e d q w)
       else w) w"

definition ws_users :: "lref \<Rightarrow> cref \<Rightarrow> nat set \<Rightarrow> world \<Rightarrow> bool" where
  "ws_users l c vs w \<longleftrightarrow>
     list_ex (\<lambda>x. case x of None \<Rightarrow> False | Some d \<Rightarrow> ws_hears w c d \<and> version (cl w d) \<in> vs)
       (take (max_clients (lob w l)) (slots (lob w l)))"

definition ws_finish :: "sub_env \<Rightarrow> cref \<Rightarrow> bool \<Rightarrow> world \<Rightarrow> int \<times> world" where
  "ws_finish e c missed w =
     (0, if missed then snd (send_txt e c ''Some clients did not receive your last word select.'' w) else w)"

abbreviation old_dc :: "nat set" where "old_dc \<equiv> {CLIENT_VERSION_DCV1, CLIENT_VERSION_DCV2}"
abbreviation gc_ep3 :: "nat set" where "gc_ep3 \<equiv> {CLIENT_VERSION_GC, CLIENT_VERSION_EP3}"

definition word_select_send_dc :: "sub_env \<Rightarrow> cref \<Rightarrow> packet \<Rightarrow> world \<Rightarrow> int \<times> world" where
  "word_select_send_dc e c p w =
     (let l = lobby_of w c; cid = sub_byte p 2
      in case ws_loop WORD_SELECT_DC_MAX word_select_dc_map (ws_words p) of
           None \<Rightarrow> send_txt e c ''Invalid word select.'' w
         | Some (pcs, pcun, gcs, gcun) \<Rightarrow>
             let all = sub_byte p 6 = 6; pcun = (pcun \<or> all); gcun = (gcun \<or> all);
                 packet_for = (\<lambda>v. if v \<in> old_dc then Some p
                   else if v = CLIENT_VERSION_PC then if pcun then None else Some (ws_packet 0x0024 p cid 0 pcs)
                   else if v \<in> gc_ep3 then if gcun then None else Some (ws_packet 0x0024 p 0 cid gcs)
                   else if v = CLIENT_VERSION_BB then if gcun then None else Some (ws_packet 0x0028 p cid 0 gcs)
                   else None);
                 pcusers = ws_users l c {CLIENT_VERSION_PC} w;
                 gcusers = ws_users l c (insert CLIENT_VERSION_BB gc_ep3) w
             in ws_finish e c (pcusers \<and> pcun \<or> gcusers \<and> gcun) (ws_deliver e l c packet_for w))"

definition word_select_send_pc :: "sub_env \<Rightarrow> cref \<Rightarrow> packet \<Rightarrow> world \<Rightarrow> int \<times> world" where
  "word_select_send_pc e c p w =
     (let l = lobby_of w c; cid = sub_byte p 2
      in case ws_loop WORD_SELECT_PC_MAX word_select_pc_map (ws_words p) of
           None \<Rightarrow> send_txt e c ''Invalid word select.'' w
         | Some (dcs, dcun, gcs, gcun) \<Rightarrow>
             let packet_for = (\<lambda>v. if v \<in> old_dc then if dcun then None else Some (ws_packet 0x0024 p cid 0 dcs)
                   else if v = CLIENT_VERSION_PC then Some p
                   else if v \<in> gc_ep3 then if gcun then None else Some (ws_packet 0x0024 p 0 cid gcs)
                   else if v = CLIENT_VERSION_BB then if gcun then None else Some (ws_packet 0x0028 p cid 0 gcs)
                   else None);
                 dcusers = ws_users l c old_dc w;
                 gcusers = ws_users l c (insert CLIENT_VERSION_BB gc_ep3) w
             in ws_finish e c (dcusers \<and> dcun \<or> gcusers \<and> gcun) (ws_deliver e l c packet_for w))"

definition word_select_send_gc :: "sub_env \<Rightarrow> cref \<Rightarrow> packet \<Rightarrow> world \<Rightarrow> int \<times> world" where
  "word_select_send_gc e c p w =
     (let l = lobby_of w c; cid = sub_byte p 3
      in case ws_loop WORD_SELECT_GC_MAX word_select_gc_map (ws_words p) of
           None \<Rightarrow> send_txt e c ''Invalid word select.'' w
         | Some (dcs, dcun, pcs, pcun) \<Rightarrow>
             let packet_for = (\<lambda>v. if v \<in> old_dc then if dcun then None else Some (ws_packet 0x0024 p cid 0 dcs)
                   else if v = CLIENT_VERSION_PC then if pcun then None else Some (ws_packet 0x0024 p cid 0 pcs)
                   else if v \<in> gc_ep3 then Some p
                   else if v = CLIENT_VERSION_BB then Some (ws_packet 0x0028 p cid 0 (ws_words p))
                   else None);
                 dcusers = ws_users l c old_dc w;
                 pcusers = ws_users l c {CLIENT_VERSION_PC} w
             in ws_finish e c (pcusers \<and> pcun \<or> dcusers \<and> dcun) (ws_deliver e l c packet_for w))"

definition handle_word_select :: "sub_env \<Rightarrow> cref \<Rightarrow> packet \<Rightarrow> world \<Rightarrow> int \<times> world" where
  "handle_word_select e c p w =
     (let v = version (cl w c)
      in if has_flag (flags (cl w c)) CLIENT_FLAG_GC_PROTECT
         then send_txt e c ''You must login before you can chat.'' w
         else if has_flag (flags (cl w c)) CLIENT_FLAG_STFU then (0, w)
         else if v \<in> old_dc then word_select_send_dc e c p w
         else if v = CLIENT_VERSION_PC then word_select_send_pc e c p w
         else if v \<in> gc_ep3 \<or> v = CLIENT_VERSION_BB then word_select_send_gc e c p w
         else (0, w))"

text \<open>
  The copy for the Gamecube handler starts at the header of the Blue Burst packet, which is four
  bytes longer: the body that is passed on begins with the flags of that header, and its last four
  bytes are not set.
\<close>

definition bb_as_gc :: "sub_env \<Rightarrow> packet \<Rightarrow> packet" where
  "bb_as_gc e p = \<lparr>pkt_type = ucast (ucast (pkt_type p) :: u8), pkt_len = pkt_len p - 4,
     pkt_flags = ucast (ucast (pkt_flags p) :: u8),
     payload = (le32_bytes (pkt_flags p) @ take 24 (payload p) @ take 4 (junk_bytes e))[3 := sub_byte p 2]\<rparr>"

definition handle_bb_word_select :: "sub_env \<Rightarrow> cref \<Rightarrow> packet \<Rightarrow> world \<Rightarrow> int \<times> world" where
  "handle_bb_word_select e c p w =
     (if has_flag (flags (cl w c)) CLIENT_FLAG_GC_PROTECT
      then send_txt e c ''You must login before you can chat.'' w
      else if has_flag (flags (cl w c)) CLIENT_FLAG_STFU then (0, w)
      else word_select_send_gc e c (bb_as_gc e p) w)"

end
