(* ===== verification/Guild_Card.thy ===== *)
theory Guild_Card
  imports Subcmd
begin

section \<open>Guild cards and graves\<close>

text \<open>
  The packets of \<open>ship_server/src/subcmd.c\<close> whose text has to be converted: a guild card that one
  player hands to another, and the grave of a player in challenge mode.  Each version has its own
  layout, and its own encoding of text; the conversion is \<open>iconv\<close>.
\<close>

text \<open>\<open>iconv\<close> into a buffer: what it writes replaces the start of the buffer.\<close>

definition conv_into :: "sub_env \<Rightarrow> charset \<Rightarrow> u8 list \<Rightarrow> u8 list \<Rightarrow> u8 list" where
  "conv_into e cs s buf = (let out = take (length buf) (iconv e cs s (length buf)) in out @ drop (length out) buf)"

definition field :: "nat \<Rightarrow> nat \<Rightarrow> packet \<Rightarrow> u8 list" where
  "field i n p = take n (drop i (payload p))"

definition to_utf16 :: "sub_env \<Rightarrow> u8 list \<Rightarrow> nat \<Rightarrow> u8 list" where
  "to_utf16 e s n = conv_into e (if s ! 1 = 0x4A then Ic_sjis_to_utf16 else Ic_8859_to_utf16) s (replicate n 0)"

definition from_utf16 :: "sub_env \<Rightarrow> u8 list \<Rightarrow> nat \<Rightarrow> u8 list" where
  "from_utf16 e s n =
     conv_into e (if s ! 2 = 0x4A \<and> s ! 3 = 0 then Ic_utf16_to_sjis else Ic_utf16_to_8859) s (replicate n 0)"

subsection \<open>Layouts\<close>

text \<open>The last three bytes of every card: the language, the section id and the class.\<close>

definition dc_card :: "u16 \<Rightarrow> u32 \<Rightarrow> u8 \<Rightarrow> u8 list \<Rightarrow> u8 list \<Rightarrow> u8 list \<Rightarrow> u8 list \<Rightarrow> u8 list \<Rightarrow> packet" where
  "dc_card ty fl t tag gc name text who =
     \<lparr>pkt_type = ty, pkt_len = 0x0088, pkt_flags = fl,
      payload = [t, 0x21, 0, 0] @ tag @ gc @ name @ text @ [0, 1] @ who @ [0, 0, 0]\<rparr>"

definition pc_card :: "u16 \<Rightarrow> u32 \<Rightarrow> u8 \<Rightarrow> u8 list \<Rightarrow> u8 list \<Rightarrow> u8 list \<Rightarrow> u8 list \<Rightarrow> u8 list \<Rightarrow> packet" where
  "pc_card ty fl t tag gc name text who =
     \<lparr>pkt_type = ty, pkt_len = 0x00F8, pkt_flags = fl,
      payload = [t, 0x3D, 0, 0] @ tag @ gc @ name @ text @ [0, 0, 0, 0] @ [1] @ who\<rparr>"

definition gc_card :: "u16 \<Rightarrow> u32 \<Rightarrow> u8 \<Rightarrow> u8 list \<Rightarrow> u8 list \<Rightarrow> u8 list \<Rightarrow> u8 list \<Rightarrow> u8 list \<Rightarrow> packet" where
  "gc_card ty fl t tag gc name text who =
     \<lparr>pkt_type = ty, pkt_len = 0x0098, pkt_flags = fl,
      payload = [t, 0x25, 0, 0] @ tag @ gc @ name @ text @ replicate 16 0 @ [0, 0, 0, 0] @ [1] @ who\<rparr>"

definition bb_card :: "u32 \<Rightarrow> u8 list \<Rightarrow> u8 list \<Rightarrow> u8 list \<Rightarrow> u8 list \<Rightarrow> u8 list \<Rightarrow> packet" where
  "bb_card fl gc name team text who =
     \<lparr>pkt_type = GAME_COMMAND2_TYPE, pkt_len = 0x0114, pkt_flags = fl,
      payload = [0x06, 0x43, 0, 0] @ gc @ name @ team @ text @ [1] @ who\<rparr>"

definition tab_E :: "u8 list" where "tab_E = [0x09, 0, 0x45, 0]"

subsection \<open>Handing over a card\<close>

definition handle_dc_gcsend :: "sub_env \<Rightarrow> cref \<Rightarrow> packet \<Rightarrow> world \<Rightarrow> int \<times> world" where
  "handle_dc_gcsend e d p w =
     (let v = version (cl w d); name = field 12 24 p; text = field 36 88 p; who = field 126 3 p;
          tag = field 4 4 p; gc = field 8 4 p; t = sub_type p
      in if v = CLIENT_VERSION_DCV1 \<or> v = CLIENT_VERSION_DCV2 then send_pkt e d p w
         else if v = CLIENT_VERSION_GC \<or> v = CLIENT_VERSION_EP3 then
           send_pkt e d (gc_card (pkt_type p) (pkt_flags p) t tag gc name text who) w
         else if v = CLIENT_VERSION_PC then
           send_pkt e d (pc_card (pkt_type p) (pkt_flags p) t tag gc
             (conv_into e Ic_8859_to_utf16 name (replicate 48 0)) (to_utf16 e text 176) who) w
         else if v = CLIENT_VERSION_BB then
           send_pkt e d (bb_card (of_nat (client_id (cl w d))) gc
             (tab_E @ conv_into e Ic_8859_to_utf16 name (replicate 44 0)) (replicate 32 0) (to_utf16 e text 176) who) w
         else (0, w))"

definition handle_pc_gcsend :: "sub_env \<Rightarrow> cref \<Rightarrow> packet \<Rightarrow> world \<Rightarrow> int \<times> world" where
  "handle_pc_gcsend e d p w =
     (let v = version (cl w d); name = field 12 48 p; text = field 60 176 p; who = field 241 3 p;
          tag = field 4 4 p; gc = field 8 4 p; t = sub_type p
      in if v = CLIENT_VERSION_PC then send_pkt e d p w
         else if v = CLIENT_VERSION_DCV1 \<or> v = CLIENT_VERSION_DCV2 then
           send_pkt e d (dc_card (pkt_type p) (pkt_flags p) t tag gc
             (conv_into e Ic_utf16_to_ascii name (replicate 24 0)) (from_utf16 e text 88) who) w
         else if v = CLIENT_VERSION_GC \<or> v = CLIENT_VERSION_EP3 then
           send_pkt e d (gc_card (pkt_type p) (pkt_flags p) t tag gc
             (conv_into e Ic_utf16_to_ascii name (replicate 24 0)) (from_utf16 e text 88) who) w
         else if v = CLIENT_VERSION_BB then
           send_pkt e d (bb_card (of_nat (client_id (cl w d))) gc
             (tab_E @ take 28 name @ replicate 16 0) (replicate 32 0) text who) w
         else (0, w))"

definition handle_gc_gcsend :: "sub_env \<Rightarrow> cref \<Rightarrow> packet \<Rightarrow> world \<Rightarrow> int \<times> world" where
  "handle_gc_gcsend e d p w =
     (let v = version (cl w d); name = field 12 24 p; text = field 36 88 p; who = field 145 3 p;
          tag = field 4 4 p; gc = field 8 4 p; t = sub_type p
      in if v = CLIENT_VERSION_GC \<or> v = CLIENT_VERSION_EP3 then send_pkt e d p w
         else if v = CLIENT_VERSION_DCV1 \<or> v = CLIENT_VERSION_DCV2 then
           send_pkt e d (dc_card (pkt_type p) (pkt_flags p) t tag gc name text who) w
         else if v = CLIENT_VERSION_PC then
           send_pkt e d (pc_card (pkt_type p) (pkt_flags p) t tag gc
             (conv_into e Ic_8859_to_utf16 name (replicate 48 0)) (to_utf16 e text 176) who) w
         else if v = CLIENT_VERSION_BB then
           send_pkt e d (bb_card (of_nat (client_id (cl w d))) gc
             (tab_E @ conv_into e Ic_8859_to_utf16 name (replicate 44 0)) (replicate 32 0) (to_utf16 e text 176) who) w
         else (0, w))"

text \<open>
  A Blue Burst player does not send its card: the server takes it from the character.  The name is
  read 48 bytes from its third character on.
\<close>

definition handle_bb_gcsend :: "sub_env \<Rightarrow> cref \<Rightarrow> cref \<Rightarrow> world \<Rightarrow> int \<times> world" where
  "handle_bb_gcsend e s d w =
     (let x = cl w s; v = version (cl w d); name = ch_name x; text = card_text x;
          who = [language_code x, ch_section x, ch_class x];
          fl = ucast (of_nat (client_id (cl w d)) :: u8); tag = le32_bytes 0x00010000; gc = le32_bytes (guildcard x);
          dashed = replicate 16 0x2D @ replicate 8 0;
          ascii = conv_into e Ic_utf16_to_ascii (take 48 (drop 4 name)) dashed
      in if v = CLIENT_VERSION_DCV1 \<or> v = CLIENT_VERSION_DCV2 then
           send_pkt e d (dc_card GAME_COMMAND2_TYPE fl 0x06 tag gc ascii (from_utf16 e text 88) who) w
         else if v = CLIENT_VERSION_PC then
           send_pkt e d (pc_card GAME_COMMAND2_TYPE fl 0x06 tag gc (take 28 (drop 4 name) @ replicate 20 0)
             (take 176 text) who) w
         else if v = CLIENT_VERSION_GC \<or> v = CLIENT_VERSION_EP3 then
           send_pkt e d (gc_card GAME_COMMAND2_TYPE fl 0x06 tag gc ascii (from_utf16 e text 88) who) w
         else if v = CLIENT_VERSION_BB then
           send_pkt e d (bb_card (of_nat (client_id (cl w d))) gc (take 32 name @ replicate 16 0)
             (take 32 (team_name x)) (take 176 text) who) w
         else (0, w))"

subsection \<open>Graves\<close>

text \<open>
  A character of the challenge rank is widened with its sign.  In the copy for the Dreamcast the
  rank is left empty.
\<close>

definition dc_grave_to_pc :: "sub_env \<Rightarrow> packet \<Rightarrow> packet" where
  "dc_grave_to_pc e p =
     \<lparr>pkt_type = GAME_COMMAND0_TYPE, pkt_len = 0x00E4, pkt_flags = 0,
      payload = [0x7C, 0x38, sub_byte p 2, 0, sub_byte p 4, 0] @ field 6 2 p @ field 8 4 p @
        concat (map (\<lambda>b. le16_bytes (scast b)) (field 12 12 p)) @ field 24 36 p @ field 60 4 p @ field 64 20 p @
        to_utf16 e (field 84 20 p) 40 @ to_utf16 e (field 104 24 p) 48 @ field 128 36 p @ field 164 4 p\<rparr>"

definition pc_grave_to_dc :: "sub_env \<Rightarrow> packet \<Rightarrow> packet" where
  "pc_grave_to_dc e p =
     \<lparr>pkt_type = GAME_COMMAND0_TYPE, pkt_len = 0x00AC, pkt_flags = 0,
      payload = [0x7C, 0x2A, sub_byte p 2, 0, sub_byte p 4, 0] @ field 6 2 p @ field 8 4 p @
        replicate 12 0 @ field 36 36 p @ field 72 4 p @ field 76 20 p @
        from_utf16 e (field 96 40 p) 20 @ from_utf16 e (field 136 48 p) 24 @ field 184 36 p @ field 220 4 p\<rparr>"

definition handle_cmode_grave :: "sub_env \<Rightarrow> cref \<Rightarrow> packet \<Rightarrow> world \<Rightarrow> int \<times> world" where
  "handle_cmode_grave e c p w =
     (let l = lobby_of w c; v = version (cl w c);
          spread = (\<lambda>dc pc. for_clients l (\<lambda>d w. if d = c then w
            else if version (cl w d) = CLIENT_VERSION_DCV2 then snd (send_pkt e d dc w)
            else if version (cl w d) = CLIENT_VERSION_PC then snd (send_pkt e d pc w)
            else w) w)
      in if v = CLIENT_VERSION_DCV2 then (0, spread p (dc_grave_to_pc e p))
         else if v = CLIENT_VERSION_PC then (0, spread (pc_grave_to_dc e p) p)
         else subcmd_send_lobby_dc e l c p False w)"

end
