(* ===== verification/Subcmd_Dispatch.thy ===== *)
theory Subcmd_Dispatch
  imports Subcmd_BB Word_Select Guild_Card
begin

section \<open>Dispatching subcommands\<close>

text \<open>
  The entry points of \<open>ship_server/src/subcmd.c\<close>: packets for one player of the lobby and packets for
  all of them, for the older versions and for Blue Burst.  The functions that create the drops of a
  game are those of \<open>ptdata.c\<close>, except for \<open>td\<close>; the former are the argument \<open>drops\<close>.

  All four lock the lobby of the sender first.  \<open>None\<close> stands for what has no defined outcome in C: a
  destination beyond the twelve slots of a lobby, an access behind the enemies of a game, the call of
  a drop function that is not there, and whatever locks the lobby again.  The latter happens to most
  packets while a player is joining, which are to be put into the queue of the lobby:
  \<open>lobby_enqueue_pkt\<close> takes the mutex that is held.
\<close>

definition SUBCMD_GUILDCARD :: u8 where "SUBCMD_GUILDCARD = 0x06"
definition SUBCMD_PICK_UP :: u8 where "SUBCMD_PICK_UP = 0x5A"
definition SUBCMD_ITEMREQ :: u8 where "SUBCMD_ITEMREQ = 0x60"
definition SUBCMD_BITEMREQ :: u8 where "SUBCMD_BITEMREQ = 0xA2"
definition SUBCMD_SHOPREQ :: u8 where "SUBCMD_SHOPREQ = 0xB5"
definition SUBCMD_OPEN_BANK :: u8 where "SUBCMD_OPEN_BANK = 0xBB"
definition SUBCMD_BANK_ACTION :: u8 where "SUBCMD_BANK_ACTION = 0xBD"
definition SUBCMD_SYMBOL_CHAT :: u8 where "SUBCMD_SYMBOL_CHAT = 0x07"
definition SUBCMD_HIT_MONSTER :: u8 where "SUBCMD_HIT_MONSTER = 0x0A"
definition SUBCMD_SET_AREA :: u8 where "SUBCMD_SET_AREA = 0x1F"
definition SUBCMD_EQUIP :: u8 where "SUBCMD_EQUIP = 0x25"
definition SUBCMD_REMOVE_EQUIP :: u8 where "SUBCMD_REMOVE_EQUIP = 0x26"
definition SUBCMD_USE_ITEM :: u8 where "SUBCMD_USE_ITEM = 0x27"
definition SUBCMD_DELETE_ITEM :: u8 where "SUBCMD_DELETE_ITEM = 0x29"
definition SUBCMD_DROP_ITEM :: u8 where "SUBCMD_DROP_ITEM = 0x2A"
definition SUBCMD_TAKE_ITEM :: u8 where "SUBCMD_TAKE_ITEM = 0x2B"
definition SUBCMD_LEVELUP :: u8 where "SUBCMD_LEVELUP = 0x30"
definition SUBCMD_LOAD_3B :: u8 where "SUBCMD_LOAD_3B = 0x3B"
definition SUBCMD_SET_POS_3E :: u8 where "SUBCMD_SET_POS_3E = 0x3E"
definition SUBCMD_USED_TECH :: u8 where "SUBCMD_USED_TECH = 0x48"
definition SUBCMD_TAKE_DAMAGE1 :: u8 where "SUBCMD_TAKE_DAMAGE1 = 0x4B"
definition SUBCMD_TAKE_DAMAGE2 :: u8 where "SUBCMD_TAKE_DAMAGE2 = 0x4C"
definition SUBCMD_BUY :: u8 where "SUBCMD_BUY = 0x5E"
definition SUBCMD_ITEMDROP :: u8 where "SUBCMD_ITEMDROP = 0x5F"
definition SUBCMD_BURST_DONE :: u8 where "SUBCMD_BURST_DONE = 0x72"
definition SUBCMD_WORD_SELECT :: u8 where "SUBCMD_WORD_SELECT = 0x74"
definition SUBCMD_CMODE_GRAVE :: u8 where "SUBCMD_CMODE_GRAVE = 0x7C"
definition SUBCMD_DROP_POS :: u8 where "SUBCMD_DROP_POS = 0xC3"
definition SUBCMD_SORT_INV :: u8 where "SUBCMD_SORT_INV = 0xC4"
definition SUBCMD_MEDIC :: u8 where "SUBCMD_MEDIC = 0xC5"
definition SUBCMD_REQ_EXP :: u8 where "SUBCMD_REQ_EXP = 0xC8"
definition SUBCMD_BURST1 :: u8 where "SUBCMD_BURST1 = 0x6D"
definition SUBCMD_BURST2 :: u8 where "SUBCMD_BURST2 = 0x6B"
definition SUBCMD_BURST3 :: u8 where "SUBCMD_BURST3 = 0x6C"
definition SUBCMD_BURST4 :: u8 where "SUBCMD_BURST4 = 0x6E"
definition SUBCMD_BURST5 :: u8 where "SUBCMD_BURST5 = 0x6F"
definition SUBCMD_BURST6 :: u8 where "SUBCMD_BURST6 = 0x71"
definition SUBCMD_BURST7 :: u8 where "SUBCMD_BURST7 = 0x70"

lemmas subcmd_types = nte_defs SUBCMD_GUILDCARD_def SUBCMD_PICK_UP_def SUBCMD_ITEMREQ_def SUBCMD_BITEMREQ_def SUBCMD_SHOPREQ_def
  SUBCMD_OPEN_BANK_def SUBCMD_BANK_ACTION_def SUBCMD_SYMBOL_CHAT_def SUBCMD_HIT_MONSTER_def SUBCMD_SET_AREA_def
  SUBCMD_EQUIP_def SUBCMD_REMOVE_EQUIP_def SUBCMD_USE_ITEM_def SUBCMD_DELETE_ITEM_def SUBCMD_DROP_ITEM_def
  SUBCMD_TAKE_ITEM_def SUBCMD_LEVELUP_def SUBCMD_LOAD_3B_def SUBCMD_SET_POS_3E_def SUBCMD_USED_TECH_def
  SUBCMD_TAKE_DAMAGE1_def SUBCMD_TAKE_DAMAGE2_def SUBCMD_BUY_def SUBCMD_ITEMDROP_def SUBCMD_BURST_DONE_def
  SUBCMD_WORD_SELECT_def SUBCMD_CMODE_GRAVE_def SUBCMD_DROP_POS_def SUBCMD_SORT_INV_def SUBCMD_MEDIC_def
  SUBCMD_REQ_EXP_def SUBCMD_BURST1_def SUBCMD_BURST2_def SUBCMD_BURST3_def SUBCMD_BURST4_def
  SUBCMD_BURST5_def SUBCMD_BURST6_def SUBCMD_BURST7_def

definition dest_of :: "lobby \<Rightarrow> packet \<Rightarrow> cref option option" where
  "dest_of L p = (let n = unat (pkt_flags p) in if n < LOBBY_MAX_CLIENTS then Some (slots L ! n) else None)"

type_synonym drop_functions = "drop_function \<Rightarrow> cref \<Rightarrow> packet \<Rightarrow> world \<Rightarrow> (int \<times> world) option"

definition run_drop :: "drop_functions \<Rightarrow> lref \<Rightarrow> cref \<Rightarrow> packet \<Rightarrow> world \<Rightarrow> (int \<times> world) option" where
  "run_drop drops l c p w =
     (if dropfunc (lob w l) = No_drops then None
      else if dropfunc (lob w l) = Td then Some (td l p w) else drops (dropfunc (lob w l)) c p w)"

definition burst_types :: "u8 set" where
  "burst_types = {SUBCMD_BURST1, SUBCMD_BURST2, SUBCMD_BURST3, SUBCMD_BURST4, SUBCMD_BURST5, SUBCMD_BURST6,
     SUBCMD_BURST7}"

definition guild_card_to :: "sub_env \<Rightarrow> cref \<Rightarrow> cref \<Rightarrow> packet \<Rightarrow> world \<Rightarrow> int \<times> world" where
  "guild_card_to e c dest p w =
     (let v = version (cl w c)
      in if client_has_ignored (cl w dest) (guildcard (cl w c)) then (0, w)
         else if v \<in> old_dc then handle_dc_gcsend e dest p w
         else if v \<in> gc_ep3 then handle_gc_gcsend e dest p w
         else if v = CLIENT_VERSION_PC then handle_pc_gcsend e dest p w
         else (-1, w))"

definition item_request :: "sub_env \<Rightarrow> drop_functions \<Rightarrow> lref \<Rightarrow> cref \<Rightarrow> cref \<Rightarrow> packet \<Rightarrow> world \<Rightarrow> (int \<times> world) option" where
  "item_request e drops l c dest p w =
     (if next_item (cl w c) ! 0 \<noteq> 0 \<and> \<not> has_flag (l_flags (lob w l)) LOBBY_FLAG_LEGIT_MODE
      then Some (handle_itemreq e c p w)
      else if dropfunc (lob w l) \<noteq> No_drops \<and> has_flag (l_flags (lob w l)) LOBBY_FLAG_SERVER_DROPS
      then run_drop drops l c p w
      else Some (send_pkt e dest p w))"

definition subcmd_handle_one :: "sub_env \<Rightarrow> drop_functions \<Rightarrow> cref \<Rightarrow> packet \<Rightarrow> world \<Rightarrow> (int \<times> world) option" where
  "subcmd_handle_one e drops c p w =
     (case cur_lobby (cl w c) of
        None \<Rightarrow> Some (0, w)
      | Some l \<Rightarrow>
     (case dest_of (lob w l) p of
        None \<Rightarrow> None
      | Some None \<Rightarrow> Some (0, w)
      | Some (Some dest) \<Rightarrow>
          let t = sub_type p
          in if has_flag (l_flags (lob w l)) LOBBY_FLAG_BURSTING then
               if t \<in> burst_types then Some (send_pkt e dest p w) else None
             else if t = SUBCMD_GUILDCARD then Some (guild_card_to e c dest p w)
             else if t = SUBCMD_ITEMREQ \<or> t = SUBCMD_BITEMREQ then item_request e drops l c dest p w
             else Some (send_pkt e dest p w)))"

definition subcmd_bb_handle_one :: "sub_env \<Rightarrow> drop_functions \<Rightarrow> cref \<Rightarrow> packet \<Rightarrow> world \<Rightarrow> (int \<times> world) option" where
  "subcmd_bb_handle_one e drops c p w =
     (case cur_lobby (cl w c) of
        None \<Rightarrow> Some (0, w)
      | Some l \<Rightarrow>
     (case dest_of (lob w l) p of
        None \<Rightarrow> None
      | Some None \<Rightarrow> Some (0, w)
      | Some (Some dest) \<Rightarrow>
          let t = sub_type p
          in if t = SUBCMD_GUILDCARD then
               Some (if client_has_ignored (cl w dest) (guildcard (cl w c)) then (0, w)
                     else handle_bb_gcsend e c dest w)
             else if t = SUBCMD_PICK_UP then Some (handle_bb_pick_up e c p w)
             else if t = SUBCMD_SHOPREQ then Some (subcmd_send_shop_inv e c p w)
             else if t = SUBCMD_OPEN_BANK then Some (handle_bb_bank e c p w)
             else if t = SUBCMD_BANK_ACTION then Some (handle_bb_bank_action e c p w)
             else if t = SUBCMD_ITEMREQ \<or> t = SUBCMD_BITEMREQ then run_drop drops l c p w
             else Some (send_pkt e dest p w)))"

text \<open>
  A packet that names an enemy is defined unless it reaches the index that is one too large.
\<close>

definition reach_enemy :: "world \<Rightarrow> cref \<Rightarrow> packet \<Rightarrow> u16 \<Rightarrow> int \<times> world \<Rightarrow> (int \<times> world) option" where
  "reach_enemy w c p len res =
     (if past_enemies w c p \<and> pkt_len p = len \<and> sub_size p = 0x03 then None else Some res)"

definition subcmd_handle_bcast :: "sub_env \<Rightarrow> cref \<Rightarrow> packet \<Rightarrow> world \<Rightarrow> (int \<times> world) option" where
  "subcmd_handle_bcast e c p w =
     (if has_flag (flags (cl w c)) CLIENT_FLAG_IS_DCNTE then Some (subcmd_dcnte_handle_bcast e c p w)
      else case cur_lobby (cl w c) of
        None \<Rightarrow> Some (0, w)
      | Some l \<Rightarrow>
          let t = sub_type p
          in if has_flag (l_flags (lob w l)) LOBBY_FLAG_BURSTING then
               if t = SUBCMD_LOAD_3B \<or> t = SUBCMD_BURST_DONE then Some (subcmd_send_lobby_dc e l c p False w)
               else if t = SUBCMD_SET_AREA then Some (handle_set_area e c p w)
               else if t = SUBCMD_SET_POS_3F then Some (handle_set_pos e c p w)
               else if t = SUBCMD_CMODE_GRAVE then Some (handle_cmode_grave e c p w)
               else None
             else if t = SUBCMD_TAKE_ITEM then handle_take_item e c p w
             else if t = SUBCMD_LEVELUP then Some (handle_levelup e c p w)
             else if t = SUBCMD_USED_TECH then handle_used_tech e c p w
             else if t = SUBCMD_TAKE_DAMAGE1 \<or> t = SUBCMD_TAKE_DAMAGE2 then handle_take_damage e c p w
             else if t = SUBCMD_ITEMDROP then Some (handle_itemdrop e c p w)
             else if t = SUBCMD_SET_AREA then Some (handle_set_area e c p w)
             else if t = SUBCMD_SET_POS_3E \<or> t = SUBCMD_SET_POS_3F then Some (handle_set_pos e c p w)
             else if t = SUBCMD_MOVE_SLOW \<or> t = SUBCMD_MOVE_FAST then Some (handle_move e c p w)
             else if t = SUBCMD_DELETE_ITEM then handle_delete_inv e c p w
             else if t = SUBCMD_BUY then handle_buy e c p w
             else if t = SUBCMD_USE_ITEM then handle_use_item e c p w
             else if t = SUBCMD_WORD_SELECT then Some (handle_word_select e c p w)
             else if t = SUBCMD_SYMBOL_CHAT then Some (handle_symbol_chat e c p w)
             else if t = SUBCMD_CMODE_GRAVE then Some (handle_cmode_grave e c p w)
             else if t = SUBCMD_HIT_MONSTER \<and> \<not> has_flag (l_flags (lob w l)) LOBBY_FLAG_QUESTING
             then reach_enemy w c p 0x0010 (handle_mhit e c p w)
             else Some (subcmd_send_lobby_dc e l c p False (if t = SUBCMD_FINISH_LOAD then finish_load e c w else w)))"

definition subcmd_bb_handle_bcast :: "sub_env \<Rightarrow> cref \<Rightarrow> packet \<Rightarrow> world \<Rightarrow> (int \<times> world) option" where
  "subcmd_bb_handle_bcast e c p w =
     (case cur_lobby (cl w c) of
        None \<Rightarrow> Some (0, w)
      | Some l \<Rightarrow>
          let t = sub_type p
          in if t = SUBCMD_SYMBOL_CHAT then Some (handle_bb_symbol_chat e c p w)
             else if t = SUBCMD_HIT_MONSTER then reach_enemy w c p 0x0014 (handle_bb_mhit e c p w)
             else if t = SUBCMD_SET_AREA then Some (handle_bb_set_area e c p w)
             else if t = SUBCMD_EQUIP then Some (handle_bb_equip e c p w)
             else if t = SUBCMD_REMOVE_EQUIP then Some (handle_bb_unequip e c p w)
             else if t = SUBCMD_DROP_ITEM then Some (handle_bb_drop_item e c p w)
             else if t = SUBCMD_SET_POS_3E \<or> t = SUBCMD_SET_POS_3F then Some (handle_bb_set_pos e c p w)
             else if t = SUBCMD_MOVE_SLOW \<or> t = SUBCMD_MOVE_FAST then Some (handle_bb_move e c p w)
             else if t = SUBCMD_DELETE_ITEM then Some (handle_bb_drop_stack e c p w)
             else if t = SUBCMD_WORD_SELECT then Some (handle_bb_word_select e c p w)
             else if t = SUBCMD_DROP_POS then Some (handle_bb_drop_pos e c p w)
             else if t = SUBCMD_SORT_INV then Some (handle_bb_sort_inv e c p w)
             else if t = SUBCMD_MEDIC then Some (handle_bb_medic e c p w)
             else if t = SUBCMD_REQ_EXP then reach_enemy w c p 0x0014 (handle_bb_req_exp e c p w)
             else if t = SUBCMD_USED_TECH then handle_bb_used_tech e c p w
             else if t = SUBCMD_TAKE_DAMAGE1 \<or> t = SUBCMD_TAKE_DAMAGE2 then handle_bb_take_damage e c p w
             else Some (subcmd_send_lobby_bb e l (Some c) p False (if t = SUBCMD_FINISH_LOAD then finish_load e c w else w)))"

definition subcmd_handle_ep3_bcast :: "cref \<Rightarrow> packet \<Rightarrow> world \<Rightarrow> int \<times> world" where
  "subcmd_handle_ep3_bcast c p w =
     (case cur_lobby (cl w c) of None \<Rightarrow> (0, w) | Some l \<Rightarrow> (0, lobby_send_pkt_ep3 l c p w))"

end
