(* ===== verification/Subcmd_Frame.thy ===== *)
theory Subcmd_Frame
  imports Subcmd_Dispatch Lobby_Packets
begin

section \<open>What no subcommand changes\<close>

text \<open>
  No subcommand moves a player, changes the flags of a lobby, or touches the queue of waiting packets.
  Each operation has one rule, which carries what holds between a
  store and the one the operation starts in over to the one it ends in.
\<close>

definition keeps :: "world \<Rightarrow> world \<Rightarrow> bool" where
  "keeps w w' \<longleftrightarrow> same_seats w w' \<and> (\<forall>l. map_option l_flags (lobbies w' l) = map_option l_flags (lobbies w l)) \<and>
     (\<forall>l. map_option pkt_queue (lobbies w' l) = map_option pkt_queue (lobbies w l))"

named_theorems keep_rules \<open>operations that keep the seats, the flags and the queues\<close>

lemma keeps_refl [keep_rules]: "keeps w w"
  by (simp add: keeps_def same_seats_refl)

lemma keeps_if [keep_rules]:
  "keeps w x \<Longrightarrow> keeps w y \<Longrightarrow> keeps w (if b then x else y)"
  "keeps w (snd q) \<Longrightarrow> keeps w (snd r) \<Longrightarrow> keeps w (snd (if b then q else r))"
  "keeps w (snd (snd s)) \<Longrightarrow> keeps w (snd (snd t)) \<Longrightarrow> keeps w (snd (snd (if b then s else t)))"
  by simp_all

lemma keeps_pair [keep_rules]:
  "keeps w x \<Longrightarrow> keeps w (snd (r, x))"
  "keeps w x \<Longrightarrow> keeps w (snd (snd (r, s, x)))"
  by simp_all

lemma keeps_option [keep_rules]:
  "keeps w (snd q) \<Longrightarrow> (\<And>a. keeps w (snd (r a))) \<Longrightarrow> keeps w (snd (case x of None \<Rightarrow> q | Some a \<Rightarrow> r a))"
  by (simp split: option.split)

lemma keeps_flags: "keeps w w' \<Longrightarrow> lobbies w l \<noteq> None \<Longrightarrow> l_flags (lob w' l) = l_flags (lob w l)"
  by (auto simp: keeps_def lob_def dest!: spec [of _ l])

lemma keeps_emit [keep_rules]: "keeps w w' \<Longrightarrow> keeps w (emit e w')"
  by (simp add: keeps_def same_seats_emit)

lemma keeps_rng [keep_rules]: "keeps w w' \<Longrightarrow> keeps w (set_rng g w')"
  by (auto simp: keeps_def same_seats_def set_rng_def members_def live_def lobbies_ok_def cl_def fun_eq_iff)

lemma keeps_random [keep_rules]: "keeps w w' \<Longrightarrow> keeps w (snd (next_random w'))"
  by (simp add: next_random_def keeps_rng split_def Let_def)

lemma keeps_client [keep_rules]:
  "keeps w w' \<Longrightarrow> (\<And>x. cur_lobby (f x) = cur_lobby x \<and> client_id (f x) = client_id x) \<Longrightarrow>
     keeps w (upd_client c f w')"
  by (simp add: keeps_def same_seats_client)

lemma keeps_lobby [keep_rules]:
  assumes "keeps w w'" "\<And>L. slots (g L) = slots L \<and> max_clients (g L) = max_clients L \<and>
     num_clients (g L) = num_clients L \<and> l_type (g L) = l_type L \<and> l_version (g L) = l_version L \<and>
     l_flags (g L) = l_flags L \<and> pkt_queue (g L) = pkt_queue L"
  shows "keeps w (upd_lobby l g w')"
  using assms by (auto simp: keeps_def option.map_comp comp_def intro: same_seats_lobby)

lemma keeps_each [keep_rules]:
  "keeps w w' \<Longrightarrow> (\<And>c w'. keeps w w' \<Longrightarrow> keeps w (f c w')) \<Longrightarrow> keeps w (each_client f xs w')"
  by (induction xs arbitrary: w') (auto split: option.split)

lemma keeps_for [keep_rules]:
  "keeps w w' \<Longrightarrow> (\<And>c w'. keeps w w' \<Longrightarrow> keeps w (f c w')) \<Longrightarrow> keeps w (for_clients l f w')"
  unfolding for_clients_def by (rule keeps_each)

text \<open>The same for operations that may have no defined outcome.\<close>

definition if_defined :: "world \<Rightarrow> (int \<times> world) option \<Rightarrow> bool" where
  "if_defined w q \<longleftrightarrow> (\<forall>r w'. q = Some (r, w') \<longrightarrow> keeps w w')"

lemma if_defined_rules [keep_rules]:
  "if_defined w None"
  "keeps w (snd q) \<Longrightarrow> if_defined w (Some q)"
  "if_defined w o1 \<Longrightarrow> if_defined w o2 \<Longrightarrow> if_defined w (if b then o1 else o2)"
  "if_defined w o1 \<Longrightarrow> (\<And>a. if_defined w (f a)) \<Longrightarrow> if_defined w (case x of None \<Rightarrow> o1 | Some a \<Rightarrow> f a)"
  by (auto simp: if_defined_def split: option.split)

lemma if_definedD: "if_defined w q \<Longrightarrow> q = Some (r, w') \<Longrightarrow> keeps w w'"
  by (simp add: if_defined_def)

lemma if_defined_then:
  assumes "\<And>w''. m = Some w'' \<Longrightarrow> keeps w w''" "\<And>w''. keeps w w'' \<Longrightarrow> keeps w (snd (f w''))"
  shows "if_defined w (map_option f m)"
proof -
  have "keeps w w'" if "map_option f m = Some (r, w')" for r w'
    using that assms by (metis (no_types, lifting) map_option_eq_Some snd_conv)
  then show ?thesis by (simp add: if_defined_def)
qed

subsection \<open>Sending\<close>

lemma keeps_send [keep_rules]:
  assumes "keeps w w'"
  shows "keeps w (snd (send_pkt e c p w'))" "keeps w (snd (send_txt e c s w'))"
  using assms by (simp_all add: send_pkt_def send_txt_def keeps_emit)

lemma keeps_translated [keep_rules]: "keeps w w' \<Longrightarrow> keeps w (snd (send_translated e t c p w'))"
  by (auto simp: send_translated_def intro!: keep_rules split: option.split)

lemma keeps_to_lobby [keep_rules]:
  assumes "keeps w w'"
  shows "keeps w (snd (subcmd_send_lobby_dc e l c p ig w'))" "keeps w (snd (subcmd_send_lobby_dcnte e l c p ig w'))"
    "keeps w (snd (subcmd_send_lobby_bb e l x p ig w'))"
  using assms by (auto simp: subcmd_send_lobby_dc_def subcmd_send_lobby_dcnte_def subcmd_send_lobby_bb_def
      subcmd_translate_dc_to_nte_def subcmd_translate_nte_to_dc_def subcmd_translate_bb_to_nte_def intro!: keep_rules)

lemma keeps_shop_items: "keeps w w' \<Longrightarrow> keeps w (snd (shop_items n i w'))"
proof (induction n arbitrary: i w')
  case (Suc n)
  show ?case unfolding shop_items.simps Let_def split_def snd_conv by (intro Suc.IH keep_rules Suc.prems)
qed simp

lemma keeps_server_packets [keep_rules]:
  assumes "keeps w w'"
  shows "keeps w (snd (subcmd_send_shop_inv e c p w'))" "keeps w (snd (subcmd_send_drop_stack e c a x z it w'))"
    "keeps w (snd (subcmd_send_picked_up e c d i d2 b w'))" "keeps w (snd (subcmd_send_destroy_map_item e c ar i w'))"
    "keeps w (snd (subcmd_send_destroy_item e c i amt w'))" "keeps w (snd (subcmd_send_bb_exp e c ex w'))"
    "keeps w (snd (subcmd_send_bb_level e c w'))" "keeps w (snd (subcmd_send_pos e c d' w'))"
    "keeps w (snd (subcmd_send_lobby_item l p its w'))"
  using assms keeps_shop_items [OF assms]
  by (auto simp: subcmd_send_shop_inv_def subcmd_send_drop_stack_def subcmd_send_picked_up_def
      subcmd_send_destroy_map_item_def subcmd_send_destroy_item_def subcmd_send_bb_exp_def subcmd_send_bb_level_def
      subcmd_send_pos_def subcmd_send_lobby_item_def Let_def split_def intro!: keep_rules)

lemma keeps_mod_stat [keep_rules]: "keeps w w' \<Longrightarrow> keeps w (snd (send_lobby_mod_stat e l c st amt w'))"
  by (auto simp: send_lobby_mod_stat_def send_dc_mod_stat_def send_bb_mod_stat_def Let_def intro!: keep_rules)

subsection \<open>The handlers of the older versions\<close>

lemma keeps_places [keep_rules]:
  assumes "keeps w w'"
  shows "keeps w (keep_area c p w')" "keeps w (keep_pos c p w')" "keeps w (keep_move i c p w')"
  using assms by (auto simp: keep_area_def keep_pos_def keep_move_def intro!: keep_rules)

lemma track_item_seat:
  "track_item code amt put x = Some y \<Longrightarrow> cur_lobby y = cur_lobby x \<and> client_id y = client_id x"
  by (auto simp: track_item_def Let_def split: if_splits)

lemma keeps_one_client:
  assumes "keeps w w'" "cur_lobby x = cur_lobby (cl w' c)" "client_id x = client_id (cl w' c)"
  shows "keeps w (upd_client c (\<lambda>_. x) w')"
proof -
  have "x = x\<lparr>cur_lobby := cur_lobby (cl w' c), client_id := client_id (cl w' c)\<rparr>"
    by (cases x) (use assms(2,3) in simp)
  then have "upd_client c (\<lambda>_. x) w' = upd_client c (\<lambda>y. x\<lparr>cur_lobby := cur_lobby y, client_id := client_id y\<rparr>) w'"
    by (simp add: upd_client_def cl_def)
  then show ?thesis using keeps_client [OF assms(1)] by simp
qed

lemma keeps_track: "track code amt put c w' = Some w'' \<Longrightarrow> keeps w w' \<Longrightarrow> keeps w w''"
  using track_item_seat by (auto simp: track_def intro!: keeps_one_client split: if_splits)

lemma keeps_untrack: "untrack iid amt c w' = Some w'' \<Longrightarrow> keeps w w' \<Longrightarrow> keeps w w''"
  by (auto simp: untrack_def Let_def split_def intro!: keep_rules split: if_splits)

lemma keeps_enemy [keep_rules]: "keeps w w' \<Longrightarrow> keeps w (upd_enemy l i f w')"
  by (auto simp: upd_enemy_def intro!: keep_rules)

lemma keeps_dc_handlers [keep_rules]:
  assumes "keeps w w'"
  shows "keeps w (snd (handle_itemreq e c p w'))" "keeps w (snd (handle_levelup e c p w'))"
    "keeps w (snd (handle_itemdrop e c p w'))" "if_defined w (handle_take_damage e c p w')"
    "if_defined w (handle_used_tech e c p w')" "keeps w (snd (handle_set_area e c p w'))"
    "keeps w (snd (handle_set_pos e c p w'))" "keeps w (snd (handle_move e c p w'))"
    "keeps w (snd (handle_symbol_chat e c p w'))"
  using assms by (auto simp: handle_itemreq_def handle_levelup_def handle_itemdrop_def handle_take_damage_def
      handle_used_tech_def handle_set_area_def handle_set_pos_def handle_move_def handle_symbol_chat_def Let_def
      intro!: keep_rules split: option.split bool.split)

lemma keeps_dc_items [keep_rules]:
  assumes "keeps w w'"
  shows "if_defined w (handle_take_item e c p w')" "if_defined w (handle_buy e c p w')"
    "if_defined w (handle_delete_inv e c p w')" "if_defined w (handle_use_item e c p w')"
proof -
  have put: "keeps w (upd_lobby l (\<lambda>L. L\<lparr>highest_item := f L\<rparr>) w')" for l f
    by (intro keep_rules assms) simp
  note add = if_defined_then [OF keeps_track [OF _ put]] and remove = if_defined_then [OF keeps_untrack [OF _ assms]]
  show "if_defined w (handle_take_item e c p w')" "if_defined w (handle_buy e c p w')"
    using assms by (auto simp: handle_take_item_def handle_buy_def Let_def intro!: add keep_rules
        split: option.split bool.split)
  show "if_defined w (handle_delete_inv e c p w')" "if_defined w (handle_use_item e c p w')"
    using assms by (auto simp: handle_delete_inv_def handle_use_item_def Let_def intro!: remove keep_rules)
qed

lemma keeps_mhit [keep_rules]: "keeps w w' \<Longrightarrow> keeps w (snd (handle_mhit e c p w'))"
  by (auto simp: handle_mhit_def Let_def intro!: keep_rules split: option.split)

lemma keeps_positions: "keeps w w' \<Longrightarrow> keeps w (send_positions e c xs w')"
  by (induction xs arbitrary: w') (auto simp: Let_def split_def intro!: keep_rules split: option.split)

lemma keeps_finish [keep_rules]: "keeps w w' \<Longrightarrow> keeps w (finish_load e c w')"
  by (auto simp: finish_load_def Let_def keeps_positions)

lemma keeps_dcnte [keep_rules]: "keeps w w' \<Longrightarrow> keeps w (snd (subcmd_dcnte_handle_bcast e c p w'))"
  by (auto simp: subcmd_dcnte_handle_bcast_def nte_set_area_def nte_set_pos_def nte_move_def Let_def
      intro!: keep_rules split: option.split)

subsection \<open>Word select, guild cards and graves\<close>

lemma keeps_word_select [keep_rules]:
  assumes "keeps w w'"
  shows "keeps w (snd (word_select_send_dc e c p w'))" "keeps w (snd (word_select_send_pc e c p w'))"
    "keeps w (snd (word_select_send_gc e c p w'))"
  using assms by (auto simp: word_select_send_dc_def word_select_send_pc_def word_select_send_gc_def
      ws_deliver_def ws_finish_def Let_def intro!: keep_rules split: option.split prod.split)

lemma keeps_word_handlers [keep_rules]:
  assumes "keeps w w'"
  shows "keeps w (snd (handle_word_select e c p w'))" "keeps w (snd (handle_bb_word_select e c p w'))"
  using assms by (auto simp: handle_word_select_def handle_bb_word_select_def Let_def intro!: keep_rules)

lemma keeps_cards [keep_rules]:
  assumes "keeps w w'"
  shows "keeps w (snd (handle_dc_gcsend e d p w'))" "keeps w (snd (handle_pc_gcsend e d p w'))"
    "keeps w (snd (handle_gc_gcsend e d p w'))" "keeps w (snd (handle_bb_gcsend e s d w'))"
    "keeps w (snd (handle_cmode_grave e c p w'))"
  using assms by (auto simp: handle_dc_gcsend_def handle_pc_gcsend_def handle_gc_gcsend_def handle_bb_gcsend_def
      handle_cmode_grave_def Let_def intro!: keep_rules)

subsection \<open>The Blue Burst handlers\<close>

lemma keeps_set [simp]:
  "cur_lobby (set_bb_items xs x) = cur_lobby x" "client_id (set_bb_items xs x) = client_id x"
  "cur_lobby (set_bb_count n x) = cur_lobby x" "client_id (set_bb_count n x) = client_id x"
  "cur_lobby (set_meseta m x) = cur_lobby x" "client_id (set_meseta m x) = client_id x"
  by (simp_all add: set_bb_items_def set_bb_count_def set_meseta_def)

lemma keeps_floor [keep_rules]:
  assumes "keeps w w'"
  shows "keeps w (snd (lobby_add_item2_locked mem l it w'))" "keeps w (snd (snd (lobby_remove_item_locked l i w')))"
  using assms by (auto simp: lobby_add_item2_locked_def lobby_remove_item_locked_def intro!: keep_rules split: option.split)

lemma keeps_bb_items [keep_rules]:
  assumes "keeps w w'"
  shows "keeps w (snd (handle_bb_drop_item e c p w'))" "keeps w (snd (handle_bb_drop_pos e c p w'))"
    "keeps w (snd (handle_bb_drop_stack e c p w'))" "keeps w (snd (handle_bb_pick_up e c p w'))"
  unfolding handle_bb_drop_item_def handle_bb_drop_pos_def handle_bb_drop_stack_def
      handle_bb_pick_up_def Let_def split_def by (intro keep_rules assms; simp)+

lemma keeps_bb_bank [keep_rules]:
  assumes "keeps w w'"
  shows "keeps w (snd (handle_bb_bank e c p w'))" "keeps w (snd (bank_deposit_meseta c m w'))"
    "keeps w (snd (bank_take_meseta c m w'))" "keeps w (snd (bank_deposit_item e c i amt w'))"
    "keeps w (snd (bank_take_item e c i amt w'))"
  using assms by (auto simp: handle_bb_bank_def bank_deposit_meseta_def bank_take_meseta_def bank_deposit_item_def
      bank_take_item_def Let_def split_def intro!: keep_rules)

lemma keeps_bb_equipment [keep_rules]:
  assumes "keeps w w'"
  shows "keeps w (snd (handle_bb_bank_action e c p w'))" "keeps w (snd (handle_bb_equip e c p w'))"
    "keeps w (snd (handle_bb_unequip e c p w'))" "keeps w (snd (handle_bb_medic e c p w'))"
    "keeps w (snd (handle_bb_sort_inv e c p w'))"
  using assms by (auto simp: handle_bb_bank_action_def handle_bb_equip_def handle_bb_unequip_def handle_bb_medic_def
      handle_bb_sort_inv_def Let_def split_def intro!: keep_rules split: option.split)

lemma keeps_exp [keep_rules]: "keeps w w' \<Longrightarrow> keeps w (snd (client_give_exp e c ex w'))"
  by (auto simp: client_give_exp_def Let_def split_def intro!: keep_rules)

lemma keeps_bb_rest [keep_rules]:
  assumes "keeps w w'"
  shows "keeps w (snd (handle_bb_mhit e c p w'))" "keeps w (snd (handle_bb_req_exp e c p w'))"
    "keeps w (snd (handle_bb_set_area e c p w'))" "keeps w (snd (handle_bb_set_pos e c p w'))"
    "keeps w (snd (handle_bb_move e c p w'))" "if_defined w (handle_bb_take_damage e c p w')"
    "if_defined w (handle_bb_used_tech e c p w')" "keeps w (snd (handle_bb_symbol_chat e c p w'))"
  using assms by (auto simp: handle_bb_mhit_def handle_bb_req_exp_def handle_bb_set_area_def handle_bb_set_pos_def
      handle_bb_move_def handle_bb_take_damage_def handle_bb_used_tech_def handle_bb_symbol_chat_def Let_def
      intro!: keep_rules)

subsection \<open>The entry points\<close>

definition drops_keep :: "drop_functions \<Rightarrow> bool" where
  "drops_keep drops \<longleftrightarrow> (\<forall>f c p w. if_defined w (drops f c p w))"

lemma keeps_trans: "keeps w w' \<Longrightarrow> keeps w' w'' \<Longrightarrow> keeps w w''"
  unfolding keeps_def by (metis (no_types, lifting) same_seats_trans)

lemma keeps_td: "keeps w w' \<Longrightarrow> keeps w (snd (td l p w'))"
  by (auto simp: td_def Let_def split_def intro!: keep_rules)

lemma keeps_reach [keep_rules]: "keeps w (snd res) \<Longrightarrow> if_defined w (reach_enemy w' c p len res)"
  unfolding reach_enemy_def by (intro keep_rules)

lemma keeps_drop: "drops_keep drops \<Longrightarrow> if_defined w (run_drop drops l c p w)"
  using keeps_td [OF keeps_refl] by (auto simp: run_drop_def drops_keep_def intro!: keep_rules)

lemma keeps_bcast: "if_defined w (subcmd_handle_bcast e c p w)"
  unfolding subcmd_handle_bcast_def Let_def by (intro keep_rules)

lemma keeps_bb_bcast: "if_defined w (subcmd_bb_handle_bcast e c p w)"
  unfolding subcmd_bb_handle_bcast_def Let_def by (intro keep_rules)

lemma keeps_one: "drops_keep drops \<Longrightarrow> if_defined w (subcmd_handle_one e drops c p w)"
  unfolding subcmd_handle_one_def item_request_def guild_card_to_def Let_def
  by (intro keep_rules keeps_drop)

lemma keeps_bb_one: "drops_keep drops \<Longrightarrow> if_defined w (subcmd_bb_handle_one e drops c p w)"
  unfolding subcmd_bb_handle_one_def Let_def
  by (auto split: option.split intro!: keep_rules keeps_drop)

end
