(* ===== verification/Bb_Play.thy ===== *)
theory Bb_Play
  imports Bb_Bank Subcmd_Frame "HOL-Library.Multiset"
begin

section \<open>Sorting, wearing, hitting and learning\<close>

text \<open>
  The rest of what Blue Burst players do: sorting the inventory, putting on and taking off, and
  getting experience for the monsters they have hit.
\<close>

subsection \<open>Sorting\<close>

lemma sort_loop_all:
  fixes ids :: "u32 list" and items n
  defines "f \<equiv> \<lambda>i. find_slot (\<lambda>it. item_id it = i) items n"
  shows "sort_loop items n ids U = (let js = takeWhile (\<lambda>i. i \<noteq> 0xFFFFFFFF) ids in
     if (\<forall>j \<in> set js. f j < n) \<and> distinct (map f js) \<and> set (map f js) \<inter> U = {}
     then Some (map (\<lambda>j. items ! f j) js) else None)"
proof (induction ids arbitrary: U)
  case Nil
  then show ?case by simp
next
  case (Cons i ids)
  consider "i = 0xFFFFFFFF" | "i \<noteq> 0xFFFFFFFF" "f i \<ge> n" | "i \<noteq> 0xFFFFFFFF" "f i < n" "f i \<in> U"
    | "i \<noteq> 0xFFFFFFFF" "f i < n" "f i \<notin> U" by linarith
  then show ?case
  proof cases
    case 4
    then have "sort_loop items n (i # ids) U = map_option ((#) (items ! f i)) (sort_loop items n ids (insert (f i) U))"
      by (simp add: f_def Let_def)
    with 4 show ?thesis unfolding Cons by (auto simp: Let_def)
  qed (auto simp: f_def Let_def)
qed

lemma permuted:
  assumes "length xs = n" "distinct xs" "set xs \<subseteq> {..<n}" "n \<le> length ys"
  shows "mset (map ((!) ys) xs) = mset (take n ys)"
proof -
  have "set xs = {..<n}"
    using assms(1-3) by (intro card_subset_eq) (simp_all add: distinct_card)
  then have "mset xs = mset [0..<n]"
    using assms(2) by (metis atLeast_upt distinct_upt set_eq_iff_mset_eq_distinct)
  then have "mset (map ((!) ys) xs) = mset (map ((!) ys) [0..<n])" by (metis mset_map)
  also have "map ((!) ys) [0..<n] = take n ys" using assms(4) by (simp add: list_eq_iff_nth_eq)
  finally show ?thesis .
qed

text \<open>C11: Sorting the inventory.  The request is accepted exactly when it is well formed and its list, up
  to the end mark, names every carried item once.  Then the items are carried in the order of the
  list, none is lost or doubled, and the inventory is well formed; otherwise nothing changes.\<close>

theorem handle_bb_sort_inv_permutes:
  assumes "player_ok (cl w c)" "\<forall>x \<in> set (junk_items e). length (data_b x) = 12" "length (junk_items e) = 30"
    "handle_bb_sort_inv e c p w = (r, w')"
  defines "js \<equiv> takeWhile (\<lambda>i. i \<noteq> 0xFFFFFFFF) (sort_ids p)"
  shows "(r = 0 \<longleftrightarrow> \<not> bad_packet w c p 0x84 0x1F \<and> mset js = mset (map item_id (carried (cl w c)))) \<and>
     (if r = 0 then mset (carried (cl w' c)) = mset (carried (cl w c)) \<and>
        map item_id (carried (cl w' c)) = js \<and> player_ok (cl w' c)
      else r = -1 \<and> w' = w)"
proof -
  let ?x = "cl w c"
  let ?n = "bb_count ?x" and ?items = "bb_items ?x"
  define f where "f = (\<lambda>i. find_slot (\<lambda>it. item_id it = i) ?items ?n)"
  have wf: "?n \<le> length ?items" "distinct (map item_id (take ?n ?items))" "?n \<le> 30" "length ?items = 30"
    "\<forall>x \<in> set ?items. length (data_b x) = 12"
    using assms(1) by (auto simp: player_ok_def inv_wf_def)
  have id: "item_id (?items ! f i) = i" if "f i < ?n" for i
    using that find_slot_found [OF wf(1), of "\<lambda>it. item_id it = i"] by (auto simp: f_def)
  define xs where "xs = map (\<lambda>j. ?items ! f j) js"
  let ?good = "(\<forall>j \<in> set js. f j < ?n) \<and> distinct (map f js)"
  have loop: "sort_loop ?items ?n (sort_ids p) {} = (if ?good then Some xs else None)"
    unfolding sort_loop_all by (simp add: f_def js_def xs_def Let_def)
  have good: "?good \<and> length js = ?n \<longleftrightarrow> mset js = mset (map item_id (carried ?x))"
  proof
    assume g: "?good \<and> length js = ?n"
    have "mset xs = mset (carried ?x)"
      using permuted [of "map f js" ?n ?items] g wf(1) by (auto simp: xs_def carried_def comp_def)
    then have "mset (map item_id xs) = mset (map item_id (carried ?x))" by (metis mset_map)
    moreover have "map item_id xs = js" using g id by (simp add: xs_def map_idI)
    ultimately show "mset js = mset (map item_id (carried ?x))" by simp
  next
    assume m: "mset js = mset (map item_id (carried ?x))"
    have len: "length js = ?n" using arg_cong [OF m, of size] wf(1) by (simp add: carried_def)
    have found: "\<forall>j \<in> set js. f j < ?n"
    proof
      fix j assume "j \<in> set js"
      then have "j \<in> item_id ` set (take ?n ?items)" using arg_cong [OF m, of set_mset] by (simp add: carried_def)
      then have "f j \<noteq> ?n" using find_slot_none [OF wf(1), of "\<lambda>it. item_id it = j"] by (auto simp: f_def)
      then show "f j < ?n" using find_slot_le [of "\<lambda>it. item_id it = j" ?items ?n] by (simp add: f_def)
    qed
    have "distinct js" using m wf(2) by (metis carried_def distinct_count_atmost_1 mset_eq_setD)
    moreover have "inj_on f (set js)" using found id by (metis inj_onI)
    ultimately show "?good \<and> length js = ?n" using found len by (simp add: distinct_map)
  qed
  have rw: "r = fst (handle_bb_sort_inv e c p w)" "w' = snd (handle_bb_sort_inv e c p w)" using assms(4) by simp_all
  show ?thesis
  proof (cases "\<not> bad_packet w c p 0x84 0x1F \<and> ?good \<and> length js = ?n")
    case False
    then have "r = -1 \<and> w' = w" unfolding rw handle_bb_sort_inv_def Let_def loop by (auto simp: xs_def split: if_splits)
    then show ?thesis using False good by auto
  next
    case True
    then have x': "r = 0" "cl w' c = ?x\<lparr>bb_inv := (bb_inv ?x)\<lparr>inv_items := xs @ drop (length xs) (junk_items e)\<rparr>,
        pl_inv := (bb_inv ?x)\<lparr>inv_items := xs @ drop (length xs) (junk_items e)\<rparr>\<rparr>"
      unfolding rw handle_bb_sort_inv_def Let_def loop by (auto simp: xs_def)
    then have c': "carried (cl w' c) = xs" "bb_count (cl w' c) = ?n"
        "bb_items (cl w' c) = xs @ drop (length xs) (junk_items e)"
      using True by (simp_all add: carried_def bb_items_def bb_count_def xs_def)
    have perm: "mset xs = mset (carried ?x)"
      using permuted [of "map f js" ?n ?items] True wf(1) by (auto simp: xs_def carried_def comp_def)
    have ids: "map item_id xs = js" using True id by (simp add: xs_def map_idI)
    have "distinct js" using True by (auto simp: distinct_map)
    moreover have "\<forall>x \<in> set xs. length (data_b x) = 12"
      using wf(5) arg_cong [OF perm, of set_mset] by (auto simp: carried_def dest: in_set_takeD)
    ultimately have "player_ok (cl w' c)"
      using c' True wf(3,4) assms(2,3) ids
      by (auto simp: player_ok_def inv_wf_def xs_def dest: in_set_dropD)
    then show ?thesis using x'(1) c'(1) perm ids True good by simp
  qed
qed

definition two_items_world :: world where
  "two_items_world = upd_client 7 (\<lambda>x. set_bb_count 2 (set_bb_items ((bb_items x)[0 := monomates\<lparr>item_id := 7\<rparr>]) x)) bb_world"

definition sort_two :: packet where
  "sort_two = bb_packet 0x84 ([0xC4, 0x1F, 0, 0, 0, 0, 1, 0, 7, 0, 0, 0] @ replicate 112 0xFF)"

theorem handle_bb_sort_inv_permutes_witness:
  "\<exists>w'. handle_bb_sort_inv bb_env 7 sort_two two_items_world = (0, w') \<and>
     map item_id (carried (cl w' 7)) = [0x10000, 7] \<and> map item_id (carried (cl two_items_world 7)) = [7, 0x10000]"
proof -
  obtain r w' where h: "handle_bb_sort_inv bb_env 7 sort_two two_items_world = (r, w')" by fastforce
  have "player_ok (cl two_items_world 7)" "\<forall>x \<in> set (junk_items bb_env). length (data_b x) = 12" "length (junk_items bb_env) = 30"
    "\<not> bad_packet two_items_world 7 sort_two 0x84 0x1F" "takeWhile (\<lambda>i. i \<noteq> 0xFFFFFFFF) (sort_ids sort_two) = [0x10000, 7]"
    "map item_id (carried (cl two_items_world 7)) = [7, 0x10000]"
    by code_simp+
  then show ?thesis using handle_bb_sort_inv_permutes [OF _ _ _ h] h by (simp add: add_mset_commute)
qed

subsection \<open>Levels\<close>

lemma level_loop_reaches:
  assumes "level < 199"
  shows "case level_loop table tot level st of (lv, st') \<Rightarrow> level \<le> lv \<and> lv \<le> 199 \<and>
     (\<forall>j. level < j \<and> j \<le> lv \<longrightarrow> e_exp (table j) \<le> tot) \<and> (lv < 199 \<longrightarrow> tot < e_exp (table (lv + 1))) \<and>
     st' = fold give_stats (map table [level + 1..<lv + 1]) st"
  using assms
proof (induction table tot level st rule: level_loop.induct)
  case (1 table tot level st)
  show ?case
  proof (cases "e_exp (table (level + 1)) \<le> tot")
    case False
    then show ?thesis using 1(2) by (subst level_loop.simps) (auto simp: Let_def not_le)
  next
    case True
    show ?thesis
    proof (cases "level + 1 < 199")
      case False
      then show ?thesis using True 1(2) by (subst level_loop.simps) (auto simp: Let_def le_Suc_eq)
    next
      case more: True
      obtain lv st' where l: "level_loop table tot (level + 1) (give_stats (table (level + 1)) st) = (lv, st')" by fastforce
      have eq: "level_loop table tot level st = (lv, st')"
        using True more l by (subst level_loop.simps) (simp add: Let_def)
      have ih: "level + 1 \<le> lv" "lv \<le> 199" "\<forall>j. level + 1 < j \<and> j \<le> lv \<longrightarrow> e_exp (table j) \<le> tot"
          "lv < 199 \<longrightarrow> tot < e_exp (table (lv + 1))"
          "st' = fold give_stats (map table [level + 1 + 1..<lv + 1]) (give_stats (table (level + 1)) st)"
        using 1(1) [OF refl _ refl refl] True more l by simp_all
      have "e_exp (table j) \<le> tot" if "level < j" "j \<le> lv" for j
        using that ih(3) True by (cases "j = level + 1") simp_all
      moreover have "[level + 1..<lv + 1] = (level + 1) # [level + 1 + 1..<lv + 1]"
        by (subst upt_rec) (use ih(1) in simp)
      ultimately show ?thesis unfolding eq using ih by simp
    qed
  qed
qed

text \<open>C16: Experience, given to a Blue Burst player whose character is loaded, when the level table of
  the class does not decrease.  Below level 199 it is added to what the player has; the new level, never
  above 199, is the highest one whose experience the player has now, and the statistics grow by those
  of every level in between.  A player who has reached level 199 gets nothing: nothing happens.\<close>

theorem client_give_exp_levels:
  fixes e :: sub_env and w :: world and c :: cref
  defines "table \<equiv> levels e (unat (bb_class (cl w c)))" and "old \<equiv> unat (bb_level (cl w c))"
  assumes "version (cl w c) = CLIENT_VERSION_BB" "bb_loaded (cl w c)"
    "\<forall>i j. i \<le> j \<and> j \<le> 199 \<longrightarrow> e_exp (table i) \<le> e_exp (table j)"
    "client_give_exp e c ex w = (r, w')"
  shows "r = 0 \<and> (bb_level (cl w c) < 199 \<longrightarrow>
       bb_exp (cl w' c) = bb_exp (cl w c) + ex \<and> old \<le> unat (bb_level (cl w' c)) \<and> unat (bb_level (cl w' c)) \<le> 199 \<and>
       (\<forall>j. old < j \<and> j \<le> 199 \<longrightarrow> (e_exp (table j) \<le> bb_exp (cl w' c) \<longleftrightarrow> j \<le> unat (bb_level (cl w' c)))) \<and>
       bb_stats (cl w' c) = fold give_stats (map table [old + 1..<unat (bb_level (cl w' c)) + 1]) (bb_stats (cl w c))) \<and>
     (199 \<le> bb_level (cl w c) \<longrightarrow> w' = w)"
proof (cases "bb_level (cl w c) < 199")
  case False
  then have "r = 0" "w' = w" using assms(3,4,6) by (simp_all add: client_give_exp_def not_less)
  with False show ?thesis by simp
next
  case True
  let ?x = "cl w c" and ?tot = "bb_exp (cl w c) + ex"
  have old: "old < 199" using True by (simp add: old_def word_less_nat_alt)
  obtain lv st where l: "level_loop table ?tot old (bb_stats ?x) = (lv, st)" by fastforce
  have lv: "old \<le> lv" "lv \<le> 199" "\<forall>j. old < j \<and> j \<le> lv \<longrightarrow> e_exp (table j) \<le> ?tot"
    "lv < 199 \<longrightarrow> ?tot < e_exp (table (lv + 1))" "st = fold give_stats (map table [old + 1..<lv + 1]) (bb_stats ?x)"
    using level_loop_reaches [OF old, of table ?tot "bb_stats ?x"] l by auto
  have u: "unat (of_nat lv :: u32) = lv" using lv(2) by (simp add: unat_of_nat)
  have ge: "(199 \<le> bb_level ?x) = False" using True by (simp add: not_le)
  have same: "lv = old \<Longrightarrow> st = bb_stats ?x" using lv(5) by simp
  have "r = fst (client_give_exp e c ex w)" "w' = snd (client_give_exp e c ex w)" using assms(6) by simp_all
  then have "r = 0" "bb_exp (cl w' c) = ?tot" "unat (bb_level (cl w' c)) = lv" "bb_stats (cl w' c) = st"
    using assms(3,4) l u same
    by (simp_all add: ge client_give_exp_def Let_def split_def subcmd_send_bb_exp_def subcmd_send_bb_level_def
        table_def [symmetric] old_def [symmetric])
  moreover have "e_exp (table j) \<le> ?tot \<longleftrightarrow> j \<le> lv" if "old < j" "j \<le> 199" for j
  proof (cases "j \<le> lv")
    case False
    then have "?tot < e_exp (table (lv + 1))" "e_exp (table (lv + 1)) \<le> e_exp (table j)"
      using lv(4) that(2) assms(5) by auto
    then show ?thesis using False by (simp add: not_le)
  qed (use lv(3) that in simp)
  ultimately show ?thesis using lv ge True by simp
qed

theorem client_give_exp_levels_witness:
  "\<exists>w'. client_give_exp bb_env 7 120 bb_world = (0, w') \<and> unat (bb_level (cl w' 7)) = 2"
proof -
  obtain r w' where h: "client_give_exp bb_env 7 120 bb_world = (r, w')" by fastforce
  have b: "version (cl bb_world 7) = CLIENT_VERSION_BB" "bb_loaded (cl bb_world 7)" "bb_level (cl bb_world 7) = 0"
    "bb_exp (cl bb_world 7) = 0"
    by code_simp+
  have t: "e_exp (levels bb_env k n) = of_nat (50 * n)" for k n by (simp add: bb_env_def)
  have "\<forall>i j. i \<le> j \<and> j \<le> 199 \<longrightarrow> e_exp (levels bb_env (unat (bb_class (cl bb_world 7))) i)
      \<le> e_exp (levels bb_env (unat (bb_class (cl bb_world 7))) j)"
    unfolding t by (auto simp: word_le_nat_alt unat_of_nat simp del: of_nat_mult)
  moreover have "bb_level (cl bb_world 7) < 199" unfolding b(3) by simp
  ultimately have "r = 0 \<and> bb_exp (cl w' 7) = bb_exp (cl bb_world 7) + 120 \<and>
      (\<forall>j. unat (bb_level (cl bb_world 7)) < j \<and> j \<le> 199 \<longrightarrow>
        (e_exp (levels bb_env (unat (bb_class (cl bb_world 7))) j) \<le> bb_exp (cl w' 7) \<longleftrightarrow> j \<le> unat (bb_level (cl w' 7))))"
    using client_give_exp_levels [OF b(1,2) _ h] by blast
  then have "r = 0" "\<forall>j. 0 < j \<and> j \<le> 199 \<longrightarrow> (of_nat (50 * j) \<le> (120 :: u32) \<longleftrightarrow> j \<le> unat (bb_level (cl w' 7)))"
    unfolding t b(3,4) by auto
  then have "r = 0" "2 \<le> unat (bb_level (cl w' 7))" "\<not> 3 \<le> unat (bb_level (cl w' 7))"
    by (auto dest: spec [of _ 2] spec [of _ 3])
  then show ?thesis using h by auto
qed

subsection \<open>Experience once\<close>

text \<open>
  Players of one game hit monsters and ask for the experience they are worth, in any order.
\<close>

inductive hunt_step :: "sub_env \<Rightarrow> lref \<Rightarrow> world \<Rightarrow> world \<Rightarrow> bool" for e l where
  hit: "lobby_of w c = l \<Longrightarrow> handle_bb_mhit e c p w = (r, w') \<Longrightarrow> hunt_step e l w w'"
| ask: "lobby_of w c = l \<Longrightarrow> handle_bb_req_exp e c p w = (r, w') \<Longrightarrow> hunt_step e l w w'"

inductive_cases hunt_stepE: "hunt_step e l w w'"

text \<open>The monster is dead, and the player has no claim to it, or not any more.\<close>

definition settled :: "lref \<Rightarrow> nat \<Rightarrow> nat \<Rightarrow> world \<Rightarrow> bool" where
  "settled l mid cid w \<longleftrightarrow> (\<exists>L ens. lobbies w l = Some L \<and> map_enemies L = Some ens \<and> mid < length ens \<and>
     bit (clients_hit (ens ! mid)) 7 \<and> \<not> bit (clients_hit (ens ! mid)) cid)"

lemma settled_cong: "lobbies w' l = lobbies w l \<Longrightarrow> settled l mid cid w' = settled l mid cid w"
  by (simp add: settled_def)

lemma settled_sent [simp]:
  "settled l mid cid (snd (subcmd_send_lobby_bb e l' d p ig w)) = settled l mid cid w"
  "settled l mid cid (upd_client d' f w) = settled l mid cid w"
  by (simp_all add: settled_def)

lemma settled_exp [simp]: "settled l mid cid (snd (client_give_exp e d ex w)) = settled l mid cid w"
  by (simp add: client_give_exp_def Let_def split_def subcmd_send_bb_exp_def subcmd_send_bb_level_def)

lemma settled_upd:
  assumes "settled l mid cid w"
    "m = mid \<Longrightarrow> bit (clients_hit (f (the (map_enemies (lob w l)) ! mid))) 7 \<and>
       \<not> bit (clients_hit (f (the (map_enemies (lob w l)) ! mid))) cid"
  shows "settled l mid cid (upd_enemy l m f w)"
  using assms by (cases "m = mid") (auto simp: settled_def upd_enemy_def lob_def)

lemma claim_flag: "(v AND push_bit n 1 = 0) \<longleftrightarrow> \<not> bit v n" if "n < 8" for v :: u8
proof -
  have "v AND push_bit n 1 = (if bit v n then push_bit n 1 else 0)"
    by (rule bit_eqI) (auto simp: bit_simps)
  moreover have "push_bit n 1 \<noteq> (0 :: u8)" using that by (simp add: bit_eq_iff) (auto simp: bit_simps)
  ultimately show ?thesis by simp
qed

lemma dead_bit: "bit (0x80 :: u8) n \<longleftrightarrow> n = 7"
proof -
  have "bit (2 ^ 7 :: u8) n \<longleftrightarrow> n = 7" by (simp only: bit_exp_iff) (auto simp: possible_bit_def)
  then show ?thesis by simp
qed

lemma dead_flag: "(v AND 0x80 = 0) \<longleftrightarrow> \<not> bit v 7" for v :: u8
  using claim_flag [of 7 v] by simp

lemma settled_hit:
  assumes "settled l mid cid w" "lobby_of w c = l" "handle_bb_mhit e c p w = (r, w')"
  shows "settled l mid cid w'"
proof -
  obtain L ens where L: "lobbies w l = Some L" "map_enemies L = Some ens" "mid < length ens"
      "bit (clients_hit (ens ! mid)) 7"
    using assms(1) by (auto simp: settled_def)
  let ?m = "unat (sub_short p 4)"
  have "settled l mid cid (snd (handle_bb_mhit e c p w))"
  proof (cases "clients_hit (enemy_at e ens ?m) AND 0x80 = 0")
    case True
    then have "?m \<noteq> mid" using L by (auto simp: enemy_at_def dead_flag)
    then show ?thesis
      using assms(1,2) L by (simp add: handle_bb_mhit_def Let_def lob_def settled_upd)
  next
    case False
    then show ?thesis using assms(1,2) L by (simp add: handle_bb_mhit_def Let_def lob_def)
  qed
  with assms(3) show ?thesis by simp
qed

lemma claimed_bits:
  fixes v :: u8
  assumes "n < 7"
  shows "bit ((v AND NOT (push_bit m 1)) OR 0x80) 7" "\<not> bit v n \<or> m = n \<Longrightarrow> \<not> bit ((v AND NOT (push_bit m 1)) OR 0x80) n"
  using assms dead_bit [of 7] dead_bit [of n]
  by (simp_all only: bit_or_iff bit_and_iff bit_not_iff bit_push_bit_iff bit_1_iff possible_bit_def) auto

lemma settled_ask:
  assumes "settled l mid cid w" "cid < 7" "lobby_of w c = l" "handle_bb_req_exp e c p w = (r, w')"
  shows "settled l mid cid w'"
proof -
  obtain L ens where L: "lobbies w l = Some L" "map_enemies L = Some ens" "mid < length ens"
      "bit (clients_hit (ens ! mid)) 7" "\<not> bit (clients_hit (ens ! mid)) cid"
    using assms(1) by (auto simp: settled_def)
  let ?m = "unat (sub_short p 4)"
  define f :: "game_enemy \<Rightarrow> game_enemy" where "f = (\<lambda>en. en\<lparr>clients_hit := (clients_hit en AND NOT (push_bit (client_id (cl w c)) 1)) OR 0x80\<rparr>)"
  have "settled l mid cid (upd_enemy l ?m f w)"
    using assms(1) L claimed_bits [OF assms(2)] by (intro settled_upd) (simp_all add: f_def lob_def del: push_bit_of_1)
  then have "settled l mid cid (snd (handle_bb_req_exp e c p w))"
    using assms(1,3) L by (simp add: handle_bb_req_exp_def Let_def lob_def flip: f_def del: push_bit_of_1)
  with assms(4) show ?thesis by simp
qed

lemma hunt_keeps: "hunt_step e l w w' \<Longrightarrow> keeps w w'"
  by (erule hunt_stepE) (metis keeps_bb_rest(1,2) keeps_refl snd_conv)+

lemma hunt_run:
  assumes "(hunt_step e l)\<^sup>*\<^sup>* w w'" "settled l mid cid w" "cid < 7"
  shows "settled l mid cid w' \<and> keeps w w'"
  using assms(1)
proof (induction rule: rtranclp_induct)
  case base
  then show ?case using assms(2) by (simp add: keeps_refl)
next
  case (step v v')
  have "settled l mid cid v'"
    using step(2)
  proof (rule hunt_stepE)
    show "settled l mid cid v'" if "lobby_of v c = l" "handle_bb_mhit e c p v = (r, v')" for c p r
      using settled_hit [OF _ that] step(3) by simp
    show "settled l mid cid v'" if "lobby_of v c = l" "handle_bb_req_exp e c p v = (r, v')" for c p r
      using settled_ask [OF _ assms(3) that] step(3) by simp
  qed
  then show ?case using keeps_trans [OF _ hunt_keeps [OF step(2)]] step(3) by simp
qed

text \<open>C4: A player gets the experience for a monster once.  After the request that earned it, whatever the
  players of the game hit and ask for in between, and in whatever order, another request of this
  player for the same monster changes nothing.\<close>

theorem experience_once:
  assumes "lobbies w l = Some L" "map_enemies L = Some ens" "mid < length ens" "lobby_of w c = l"
    "client_id (cl w c) < 7" "\<not> bad_packet w c p 0x0014 0x03" "unat (sub_short p 4) = mid"
    "bit (clients_hit (ens ! mid)) (client_id (cl w c))"
    "handle_bb_req_exp e c p w = (r, w1)" "(hunt_step e l)\<^sup>*\<^sup>* w1 w2"
    "unat (sub_short q 4) = mid" "handle_bb_req_exp e c q w2 = (r', w3)"
  shows "w3 = w2"
proof -
  let ?cid = "client_id (cl w c)"
  have hit: "clients_hit (enemy_at e ens mid) AND push_bit ?cid 1 \<noteq> 0"
    using assms(3,5,8) claim_flag [where n = ?cid] by (simp add: enemy_at_def del: push_bit_of_1)
  have "settled l mid ?cid (upd_enemy l mid (\<lambda>en. en\<lparr>clients_hit := (clients_hit en AND NOT (push_bit ?cid 1)) OR 0x80\<rparr>) w)"
    using assms(1-3,5) claimed_bits [where n = ?cid and m = ?cid] by (simp add: settled_def upd_enemy_def del: push_bit_of_1)
  then have "settled l mid ?cid (snd (handle_bb_req_exp e c p w))"
    using assms(1-4,6,7) hit by (simp add: handle_bb_req_exp_def Let_def lob_def del: push_bit_of_1)
  then have s2: "settled l mid ?cid w2" "keeps w w2"
    using hunt_run [OF assms(10) _ assms(5)] keeps_trans keeps_bb_rest(2) [OF keeps_refl, of w e c p] assms(9) by auto
  have c2: "client_id (cl w2 c) = ?cid" "lobby_of w2 c = l"
    using s2(2) assms(4) by (simp_all add: keeps_def same_seats_def lobby_of_def)
  obtain L2 ens2 where L2: "lobbies w2 l = Some L2" "map_enemies L2 = Some ens2" "mid < length ens2"
      "\<not> bit (clients_hit (ens2 ! mid)) ?cid"
    using s2(1) by (auto simp: settled_def)
  then have "clients_hit (enemy_at e ens2 mid) AND push_bit ?cid 1 = 0"
    using assms(5) claim_flag [where n = ?cid] by (simp add: enemy_at_def del: push_bit_of_1)
  then have "snd (handle_bb_req_exp e c q w2) = w2"
    using L2(1-3) c2 assms(11) by (simp add: handle_bb_req_exp_def Let_def lob_def del: push_bit_of_1)
  with assms(12) show ?thesis by simp
qed

definition hunt_world :: world where
  "hunt_world = upd_lobby 5 (\<lambda>L. L\<lparr>bb_exps := [10], map_enemies := Some [\<lparr>bp_entry = 0, rt_index = 0, clients_hit = 1,
     last_client = 0, drop_done = 0\<rparr>]\<rparr>) bb_world"

definition ask_packet :: packet where
  "ask_packet = bb_packet 0x14 [0xC8, 3, 0, 0, 0, 0, 0, 0, 1, 0, 0, 0]"

definition hit_packet :: packet where
  "hit_packet = bb_packet 0x14 [0x0A, 3, 0, 0, 0, 0, 0, 0, 0, 8, 0, 0]"

theorem experience_once_witness:
  defines "w1 \<equiv> snd (handle_bb_req_exp bb_env 7 ask_packet hunt_world)"
  defines "w2 \<equiv> snd (handle_bb_mhit bb_env 7 hit_packet w1)"
  shows "bb_exp (cl w1 7) = 10 \<and> snd (handle_bb_req_exp bb_env 7 ask_packet w2) = w2"
proof -
  have "lobby_of w1 7 = 5" "bb_exp (cl w1 7) = 10" unfolding w1_def by code_simp+
  then have "hunt_step bb_env 5 w1 w2" unfolding w2_def by (metis hunt_step.hit prod.collapse)
  then have run: "(hunt_step bb_env 5)\<^sup>*\<^sup>* w1 w2" by (rule r_into_rtranclp)
  have "lobbies hunt_world 5 = Some (the (lobbies hunt_world 5))"
    "map_enemies (the (lobbies hunt_world 5)) = Some (the (map_enemies (the (lobbies hunt_world 5))))"
    "0 < length (the (map_enemies (the (lobbies hunt_world 5))))" "lobby_of hunt_world 7 = 5"
    "client_id (cl hunt_world 7) < 7" "\<not> bad_packet hunt_world 7 ask_packet 0x0014 0x03"
    "unat (sub_short ask_packet 4) = 0"
    "bit (clients_hit (the (map_enemies (the (lobbies hunt_world 5))) ! 0)) (client_id (cl hunt_world 7))"
    by code_simp+
  note setting = this
  have "snd (handle_bb_req_exp bb_env 7 ask_packet w2) = w2"
    by (rule experience_once [OF setting _ run setting(7), of "fst (handle_bb_req_exp bb_env 7 ask_packet hunt_world)"
        "fst (handle_bb_req_exp bb_env 7 ask_packet w2)"]) (simp_all add: w1_def)
  then show ?thesis using \<open>bb_exp (cl w1 7) = 10\<close> by simp
qed

subsection \<open>Only in games\<close>





end
