(* ===== verification/Subcmd_Props.thy ===== *)
theory Subcmd_Props
  imports Bb_Play
begin

section \<open>What subcommands do to a lobby\<close>

text \<open>
  The dispatchers of subcommands seen from the lobby: nobody moves, broadcasts reach everybody in the
  numbering of his version, and changes of statistics add up.
\<close>

subsection \<open>Nobody moves\<close>

text \<open>
  What \<open>keeps\<close> says, for the dispatchers: nobody moves, and nothing is put into a queue or taken out
  of it.  So the dispatchers are handlers as the queue of a lobby may have them.
\<close>

lemma subcommands_keep_seats:
  assumes "drops_keep drops"
    "subcmd_handle_bcast e c p w = Some (r, w') \<or> subcmd_bb_handle_bcast e c p w = Some (r, w') \<or>
     subcmd_handle_one e drops c p w = Some (r, w') \<or> subcmd_bb_handle_one e drops c p w = Some (r, w')"
  shows "keeps w w'"
  using assms(2) by (auto dest: if_definedD [OF keeps_bcast] if_definedD [OF keeps_bb_bcast]
      if_definedD [OF keeps_one [OF assms(1)]] if_definedD [OF keeps_bb_one [OF assms(1)]])

definition subcmd_handlers :: "sub_env \<Rightarrow> drop_functions \<Rightarrow> handlers" where
  "subcmd_handlers e drops b c p w = (if b then subcmd_handle_bcast e c p w else subcmd_handle_one e drops c p w)"

lemma subcmd_handlers_seatless: "drops_keep drops \<Longrightarrow> seatless (subcmd_handlers e drops)"
  unfolding seatless_def subcmd_handlers_def using subcommands_keep_seats keeps_def by (metis (no_types))

subsection \<open>Broadcasting\<close>

lemma nte_types_inverse: "dc_to_nte_type t = Some n \<longleftrightarrow> nte_to_dc_type n = Some t"
proof
  show "dc_to_nte_type t = Some n \<Longrightarrow> nte_to_dc_type n = Some t"
    by (auto simp: dc_to_nte_type_def nte_to_dc_type_def nte_defs split: if_splits)
  show "nte_to_dc_type n = Some t \<Longrightarrow> dc_to_nte_type t = Some n"
    by (auto simp: dc_to_nte_type_def nte_to_dc_type_def nte_defs split: if_splits)
qed

definition renumbered :: "u8 option \<Rightarrow> packet \<Rightarrow> packet" where
  "renumbered t p = (case t of None \<Rightarrow> p | Some t \<Rightarrow> p\<lparr>payload := (payload p)[0 := t]\<rparr>)"

text \<open>C18: A broadcast reaches everybody in the lobby but the sender and, where ignore lists count, those who
  ignore the sender, once each and in the order of the slots.  Players of the network trial edition
  get it with the number the subcommand has there, or not at all when it has none, and the
  numbering is one to one; nothing else happens.  (The copies for them are assumed to get memory.)\<close>

theorem subcmd_send_lobby_dc_recipients:
  fixes w :: world
  assumes "has_mem e"
  defines "nte \<equiv> \<lambda>d. has_flag (flags (cl w d)) CLIENT_FLAG_IS_DCNTE"
  shows "subcmd_send_lobby_dc e l c p ig w = (0, w\<lparr>sent := sent w @
     map (\<lambda>d. Send_pkt d (if nte d then renumbered (dc_to_nte_type (sub_type p)) p else p))
       (filter (\<lambda>d. d \<noteq> c \<and> \<not> (ig \<and> client_has_ignored (cl w d) (guildcard (cl w c))) \<and>
                   (nte d \<longrightarrow> dc_to_nte_type (sub_type p) \<noteq> None)) (seat_list (lob w l)))\<rparr>) \<and>
     (\<forall>t n. dc_to_nte_type t = Some n \<longleftrightarrow> nte_to_dc_type n = Some t)"
proof (intro conjI allI)
  show "subcmd_send_lobby_dc e l c p ig w = (0, w\<lparr>sent := sent w @
     map (\<lambda>d. Send_pkt d (if nte d then renumbered (dc_to_nte_type (sub_type p)) p else p))
       (filter (\<lambda>d. d \<noteq> c \<and> \<not> (ig \<and> client_has_ignored (cl w d) (guildcard (cl w c))) \<and>
                   (nte d \<longrightarrow> dc_to_nte_type (sub_type p) \<noteq> None)) (seat_list (lob w l)))\<rparr>)"
    unfolding subcmd_send_lobby_dc_def for_clients_fold
    by (intro arg_cong [of _ _ "Pair 0"] fold_emit_all)
      (auto simp: cl_def nte_def send_pkt_def subcmd_translate_dc_to_nte_def send_translated_def renumbered_def assms(1)
        split: option.split)
qed (rule nte_types_inverse)

theorem subcmd_send_lobby_dc_recipients_witness:
  "sent (snd (subcmd_send_lobby_dc bb_env 5 9 monomate_drop False bb_world)) = [Send_pkt 7 monomate_drop]"
proof -
  have "has_mem bb_env" "seat_list (lob bb_world 5) = [7]" "sent bb_world = []"
    "\<not> has_flag (flags (cl bb_world 7)) CLIENT_FLAG_IS_DCNTE" by code_simp+
  then show ?thesis using subcmd_send_lobby_dc_recipients [of bb_env 5 9 monomate_drop False bb_world] by simp
qed

subsection \<open>Changes of a statistic\<close>

lemma stat_changes_0 [simp]: "stat_changes cid stat 0 = []"
  by (subst stat_changes.simps) (rule if_P [OF refl])

text \<open>A change of a statistic by any amount is cut into pieces of at most 255 that add up to it; none is
  empty, and there are as few as possible.\<close>

theorem stat_changes_add_up:
  "\<exists>ns. stat_changes cid stat amt = concat (map (\<lambda>n. [0x9A, 2, cid, 0, 0, 0, stat, n]) ns) \<and>
     sum_list (map unat ns) = amt \<and> 0 \<notin> set ns \<and> length ns = (amt + 254) div 255"
proof (induction cid stat amt rule: stat_changes.induct)
  case (1 cid stat amt)
  consider "amt = 0" | "0 < amt" "amt \<le> 255" | "255 < amt" by linarith
  then show ?case
  proof cases
    case 2
    then have "stat_changes cid stat amt = [0x9A, 2, cid, 0, 0, 0, stat, of_nat amt]"
      by (subst stat_changes.simps) simp
    moreover have u: "unat (of_nat amt :: u8) = amt" using 2(2) by (simp add: unat_of_nat)
    moreover have "of_nat amt \<noteq> (0 :: u8)" using u 2(1) by (metis less_irrefl unat_0)
    moreover have "(amt + 254) div 255 = 1" by (rule div_nat_eqI) (use 2 in simp_all)
    ultimately show ?thesis by (intro exI [of _ "[of_nat amt]"]) (simp only: list.map concat.simps append_Nil2 sum_list_simps set_simps list.size, simp)
  next
    case 3
    then obtain ns where "stat_changes cid stat (amt - 255) = concat (map (\<lambda>n. [0x9A, 2, cid, 0, 0, 0, stat, n]) ns)"
        "sum_list (map unat ns) = amt - 255" "0 \<notin> set ns" "length ns = (amt - 255 + 254) div 255"
      using 1 by auto
    moreover have "(amt + 254) div 255 = Suc ((amt - 255 + 254) div 255)"
    proof -
      have "amt + 254 = amt - 255 + 254 + 255" using 3 by simp
      then show ?thesis by (metis Suc_eq_plus1 div_add_self2 zero_neq_numeral)
    qed
    ultimately show ?thesis using 3 by (subst stat_changes.simps) (intro exI [of _ "255 # ns"], simp)
  qed simp
qed

end
