(* ===== verification/Card_Props.thy ===== *)
theory Card_Props
  imports Subcmd_Props
begin

section \<open>Guild cards keep their owner\<close>

text \<open>
  A guild card changes its layout from version to version; the number of the owner, the language, the
  section id and the class must come through, and the packet must have the length it states.
\<close>

text \<open>Where the versions keep the number and the last three fields, and how long the card is after its header.\<close>

definition card_length :: "nat \<Rightarrow> nat" where
  "card_length v = (if v = CLIENT_VERSION_BB then 268 else if v = CLIENT_VERSION_PC then 244
     else if v \<in> gc_ep3 then 148 else 132)"

definition card_number :: "nat \<Rightarrow> packet \<Rightarrow> u8 list" where
  "card_number v q = field (if v = CLIENT_VERSION_BB then 4 else 8) 4 q"

definition card_owner :: "nat \<Rightarrow> packet \<Rightarrow> u8 list" where
  "card_owner v q = field (if v = CLIENT_VERSION_BB then 265 else if v = CLIENT_VERSION_PC then 241
     else if v \<in> gc_ep3 then 145 else 126) 3 q"

definition card_header :: "nat \<Rightarrow> nat" where
  "card_header v = (if v = CLIENT_VERSION_BB then 8 else 4)"

lemma length_conv_into [simp]: "length (conv_into e cs s buf) = length buf"
  by (simp add: conv_into_def Let_def)

lemma length_utf16 [simp]: "length (to_utf16 e s n) = n" "length (from_utf16 e s n) = n"
  by (simp_all add: to_utf16_def from_utf16_def)

lemma length_field: "i + n \<le> length (payload p) \<Longrightarrow> length (field i n p) = n"
  by (simp add: field_def)

lemma take_drop_skip: "length xs = i \<Longrightarrow> take n (drop (i + j) (xs @ ys)) = take n (drop j ys)"
  by simp

lemma cards:
  assumes "length tag = 4" "length gc = 4" "length who = 3"
  shows "length name = 24 \<Longrightarrow> length text = 88 \<Longrightarrow> v \<in> old_dc \<Longrightarrow>
      card_number v (dc_card ty fl t tag gc name text who) = gc \<and>
      card_owner v (dc_card ty fl t tag gc name text who) = who \<and>
      length (payload (dc_card ty fl t tag gc name text who)) = card_length v \<and>
      unat (pkt_len (dc_card ty fl t tag gc name text who)) = card_length v + card_header v"
    "length name = 48 \<Longrightarrow> length text = 176 \<Longrightarrow> v = CLIENT_VERSION_PC \<Longrightarrow>
      card_number v (pc_card ty fl t tag gc name text who) = gc \<and>
      card_owner v (pc_card ty fl t tag gc name text who) = who \<and>
      length (payload (pc_card ty fl t tag gc name text who)) = card_length v \<and>
      unat (pkt_len (pc_card ty fl t tag gc name text who)) = card_length v + card_header v"
    "length name = 24 \<Longrightarrow> length text = 88 \<Longrightarrow> v \<in> gc_ep3 \<Longrightarrow>
      card_number v (gc_card ty fl t tag gc name text who) = gc \<and>
      card_owner v (gc_card ty fl t tag gc name text who) = who \<and>
      length (payload (gc_card ty fl t tag gc name text who)) = card_length v \<and>
      unat (pkt_len (gc_card ty fl t tag gc name text who)) = card_length v + card_header v"
    "length name = 48 \<Longrightarrow> length team = 32 \<Longrightarrow> length text = 176 \<Longrightarrow> v = CLIENT_VERSION_BB \<Longrightarrow>
      card_number v (bb_card fl gc name team text who) = gc \<and>
      card_owner v (bb_card fl gc name team text who) = who \<and>
      length (payload (bb_card fl gc name team text who)) = card_length v \<and>
      unat (pkt_len (bb_card fl gc name team text who)) = card_length v + card_header v"
  using assms
  by (auto simp: card_number_def card_owner_def card_length_def card_header_def field_def dc_card_def pc_card_def
      gc_card_def bb_card_def version_defs)

definition good_card :: "nat \<Rightarrow> u8 list \<Rightarrow> u8 list \<Rightarrow> packet \<Rightarrow> bool" where
  "good_card v num who q \<longleftrightarrow> card_number v q = num \<and> card_owner v q = who \<and> length (payload q) = card_length v \<and>
     unat (pkt_len q) = card_length v + card_header v"

lemmas good_cards = cards(1-3) [folded good_card_def] cards(4) [where tag = "[0, 0, 0, 0]", folded good_card_def]

lemma sent_pkt: "\<exists>q. sent (snd (send_pkt e d p w)) = sent w @ [Send_pkt d q] \<and> P q" if "P p"
  using that by (simp add: send_pkt_def)

lemma version_neq:
  "CLIENT_VERSION_DCV1 \<noteq> CLIENT_VERSION_DCV2" "CLIENT_VERSION_DCV1 \<noteq> CLIENT_VERSION_PC" "CLIENT_VERSION_DCV1 \<noteq> CLIENT_VERSION_GC" "CLIENT_VERSION_DCV1 \<noteq> CLIENT_VERSION_EP3" "CLIENT_VERSION_DCV1 \<noteq> CLIENT_VERSION_BB"
  "CLIENT_VERSION_DCV2 \<noteq> CLIENT_VERSION_DCV1" "CLIENT_VERSION_DCV2 \<noteq> CLIENT_VERSION_PC" "CLIENT_VERSION_DCV2 \<noteq> CLIENT_VERSION_GC" "CLIENT_VERSION_DCV2 \<noteq> CLIENT_VERSION_EP3" "CLIENT_VERSION_DCV2 \<noteq> CLIENT_VERSION_BB"
  "CLIENT_VERSION_PC \<noteq> CLIENT_VERSION_DCV1" "CLIENT_VERSION_PC \<noteq> CLIENT_VERSION_DCV2" "CLIENT_VERSION_PC \<noteq> CLIENT_VERSION_GC" "CLIENT_VERSION_PC \<noteq> CLIENT_VERSION_EP3" "CLIENT_VERSION_PC \<noteq> CLIENT_VERSION_BB"
  "CLIENT_VERSION_GC \<noteq> CLIENT_VERSION_DCV1" "CLIENT_VERSION_GC \<noteq> CLIENT_VERSION_DCV2" "CLIENT_VERSION_GC \<noteq> CLIENT_VERSION_PC" "CLIENT_VERSION_GC \<noteq> CLIENT_VERSION_EP3" "CLIENT_VERSION_GC \<noteq> CLIENT_VERSION_BB"
  "CLIENT_VERSION_EP3 \<noteq> CLIENT_VERSION_DCV1" "CLIENT_VERSION_EP3 \<noteq> CLIENT_VERSION_DCV2" "CLIENT_VERSION_EP3 \<noteq> CLIENT_VERSION_PC" "CLIENT_VERSION_EP3 \<noteq> CLIENT_VERSION_GC" "CLIENT_VERSION_EP3 \<noteq> CLIENT_VERSION_BB"
  "CLIENT_VERSION_BB \<noteq> CLIENT_VERSION_DCV1" "CLIENT_VERSION_BB \<noteq> CLIENT_VERSION_DCV2" "CLIENT_VERSION_BB \<noteq> CLIENT_VERSION_PC" "CLIENT_VERSION_BB \<noteq> CLIENT_VERSION_GC" "CLIENT_VERSION_BB \<noteq> CLIENT_VERSION_EP3"
  by (simp_all add: version_defs)

lemma from_dc:
  assumes "version (cl w d) \<in> old_dc \<union> gc_ep3 \<union> {CLIENT_VERSION_PC, CLIENT_VERSION_BB}" "length (payload p) = 132"
    "\<And>v. version (cl w d) = v \<Longrightarrow> v \<in> old_dc \<Longrightarrow> good_card v (field 8 4 p) (field 126 3 p) p"
  shows "\<exists>q. sent (snd (handle_dc_gcsend e d p w)) = sent w @ [Send_pkt d q] \<and>
     good_card (version (cl w d)) (field 8 4 p) (field 126 3 p) q"
  using assms(1)
  by (elim UnE insertE emptyE; simp add: handle_dc_gcsend_def Let_def version_neq assms(2) tab_E_def;
      intro sent_pkt good_cards length_field) (simp_all add: assms length_field)

lemma from_pc:
  assumes "version (cl w d) \<in> old_dc \<union> gc_ep3 \<union> {CLIENT_VERSION_PC, CLIENT_VERSION_BB}" "length (payload p) = 244"
    "\<And>v. version (cl w d) = v \<Longrightarrow> v \<in> {CLIENT_VERSION_PC} \<Longrightarrow> good_card v (field 8 4 p) (field 241 3 p) p"
  shows "\<exists>q. sent (snd (handle_pc_gcsend e d p w)) = sent w @ [Send_pkt d q] \<and>
     good_card (version (cl w d)) (field 8 4 p) (field 241 3 p) q"
  using assms(1)
  by (elim UnE insertE emptyE; simp add: handle_pc_gcsend_def Let_def version_neq assms(2) tab_E_def;
      intro sent_pkt good_cards length_field) (simp_all add: assms length_field)

lemma from_gc:
  assumes "version (cl w d) \<in> old_dc \<union> gc_ep3 \<union> {CLIENT_VERSION_PC, CLIENT_VERSION_BB}" "length (payload p) = 148"
    "\<And>v. version (cl w d) = v \<Longrightarrow> v \<in> gc_ep3 \<Longrightarrow> good_card v (field 8 4 p) (field 145 3 p) p"
  shows "\<exists>q. sent (snd (handle_gc_gcsend e d p w)) = sent w @ [Send_pkt d q] \<and>
     good_card (version (cl w d)) (field 8 4 p) (field 145 3 p) q"
  using assms(1)
  by (elim UnE insertE emptyE; simp add: handle_gc_gcsend_def Let_def version_neq assms(2) tab_E_def;
      intro sent_pkt good_cards length_field) (simp_all add: assms length_field)

lemma older_card_keeps_owner:
  assumes "version (cl w c) \<in> old_dc \<union> gc_ep3 \<union> {CLIENT_VERSION_PC}"
    "version (cl w dest) \<in> old_dc \<union> gc_ep3 \<union> {CLIENT_VERSION_PC, CLIENT_VERSION_BB}"
    "good_card (version (cl w c)) num who p"
    "\<not> client_has_ignored (cl w dest) (guildcard (cl w c))" "guild_card_to e c dest p w = (r, w')"
  shows "\<exists>q. sent w' = sent w @ [Send_pkt dest q] \<and> good_card (version (cl w dest)) num who q"
proof -
  have "\<exists>q. sent (snd (guild_card_to e c dest p w)) = sent w @ [Send_pkt dest q] \<and> good_card (version (cl w dest)) num who q"
    using assms(1)
  proof (elim UnE)
    assume v: "version (cl w c) \<in> old_dc"
    then have "num = field 8 4 p" "who = field 126 3 p" "length (payload p) = 132"
      "good_card u num who p" if "u \<in> old_dc" for u
      using assms(3) that by (auto simp: good_card_def card_number_def card_owner_def card_length_def card_header_def version_neq)
    then show ?thesis using from_dc [OF assms(2), of p e] v assms(4) by (auto simp: guild_card_to_def Let_def)
  next
    assume v: "version (cl w c) \<in> gc_ep3"
    then have "num = field 8 4 p" "who = field 145 3 p" "length (payload p) = 148"
      "good_card u num who p" if "u \<in> gc_ep3" for u
      using assms(3) that by (auto simp: good_card_def card_number_def card_owner_def card_length_def card_header_def version_neq)
    then show ?thesis using from_gc [OF assms(2), of p e] v assms(4) by (auto simp: guild_card_to_def Let_def version_neq)
  next
    assume v: "version (cl w c) \<in> {CLIENT_VERSION_PC}"
    then have "num = field 8 4 p" "who = field 241 3 p" "length (payload p) = 244" "good_card CLIENT_VERSION_PC num who p"
      using assms(3) by (auto simp: good_card_def card_number_def card_owner_def card_length_def card_header_def version_neq)
    then show ?thesis using from_pc [OF assms(2), of p e] v assms(4) by (auto simp: guild_card_to_def Let_def version_neq)
  qed
  with assms(5) show ?thesis by simp
qed

lemma from_bb:
  assumes "version (cl w d) \<in> old_dc \<union> gc_ep3 \<union> {CLIENT_VERSION_PC, CLIENT_VERSION_BB}" "length (ch_name (cl w c)) = 52"
    "length (card_text (cl w c)) = 176" "length (team_name (cl w c)) = 32"
  shows "\<exists>q. sent (snd (handle_bb_gcsend e c d w)) = sent w @ [Send_pkt d q] \<and>
     good_card (version (cl w d)) (le32_bytes (guildcard (cl w c)))
       [language_code (cl w c), ch_section (cl w c), ch_class (cl w c)] q"
proof -
  have len: "length (le32_bytes x) = 4" for x by (simp add: le32_bytes_def)
  show ?thesis
    using assms(1)
    by (elim UnE insertE emptyE; simp add: handle_bb_gcsend_def Let_def version_neq assms(2-4);
        intro sent_pkt good_cards) (simp_all add: assms len)
qed

text \<open>C9: Handing over a guild card.  Exactly one packet is sent, to the receiver; in the layout of the
  receiver's version it has the number, the language, the section id and the class of the card that
  is handed over, and exactly the length it states.  For a sender of the older versions
  these are those of the card in the packet that came in, provided that packet has the layout of
  the sender's version and the receiver does not ignore the sender; for a sender of Blue Burst,
  those of the character the server has.\<close>

theorem guild_card_keeps_owner:
  assumes "version (cl w dest) \<in> old_dc \<union> gc_ep3 \<union> {CLIENT_VERSION_PC, CLIENT_VERSION_BB}"
  shows "(version (cl w c) \<in> old_dc \<union> gc_ep3 \<union> {CLIENT_VERSION_PC} \<and> good_card (version (cl w c)) num who p \<and>
      \<not> client_has_ignored (cl w dest) (guildcard (cl w c)) \<and> guild_card_to e c dest p w = (r, w') \<longrightarrow>
      (\<exists>q. sent w' = sent w @ [Send_pkt dest q] \<and> good_card (version (cl w dest)) num who q)) \<and>
    (length (ch_name (cl w c)) = 52 \<and> length (card_text (cl w c)) = 176 \<and> length (team_name (cl w c)) = 32 \<and>
      handle_bb_gcsend e c dest w = (r, w') \<longrightarrow>
      (\<exists>q. sent w' = sent w @ [Send_pkt dest q] \<and> good_card (version (cl w dest)) (le32_bytes (guildcard (cl w c)))
        [language_code (cl w c), ch_section (cl w c), ch_class (cl w c)] q))"
proof (intro conjI impI; elim conjE)
  show "\<exists>q. sent w' = sent w @ [Send_pkt dest q] \<and> good_card (version (cl w dest)) num who q"
    if "version (cl w c) \<in> old_dc \<union> gc_ep3 \<union> {CLIENT_VERSION_PC}" "good_card (version (cl w c)) num who p"
      "\<not> client_has_ignored (cl w dest) (guildcard (cl w c))" "guild_card_to e c dest p w = (r, w')"
    by (rule older_card_keeps_owner [OF that(1) assms that(2-4)])
  assume "length (ch_name (cl w c)) = 52" "length (card_text (cl w c)) = 176" "length (team_name (cl w c)) = 32"
    and h: "handle_bb_gcsend e c dest w = (r, w')"
  from from_bb [OF assms this(1-3), of e, unfolded h]
  show "\<exists>q. sent w' = sent w @ [Send_pkt dest q] \<and> good_card (version (cl w dest)) (le32_bytes (guildcard (cl w c)))
      [language_code (cl w c), ch_section (cl w c), ch_class (cl w c)] q" by simp
qed

definition card_world :: world where
  "card_world = upd_client 3 (\<lambda>x. x\<lparr>version := CLIENT_VERSION_DCV1, guildcard := 77\<rparr>) bb_world"

definition dc_example_card :: packet where
  "dc_example_card = \<lparr>pkt_type = GAME_COMMAND2_TYPE, pkt_len = 0x88, pkt_flags = 0,
     payload = [6, 0x21, 0, 0, 0, 0, 1, 0, 77, 0, 0, 0] @ replicate 114 0x41 @ [1, 4, 8, 0, 0, 0]\<rparr>"

theorem guild_card_keeps_owner_witness:
  "\<exists>q. sent (snd (guild_card_to bb_env 3 7 dc_example_card card_world)) = [Send_pkt 7 q] \<and>
     good_card CLIENT_VERSION_BB [77, 0, 0, 0] [1, 4, 8] q"
proof -
  have "version (cl card_world 3) = CLIENT_VERSION_DCV1" "version (cl card_world 7) = CLIENT_VERSION_BB"
    "\<not> client_has_ignored (cl card_world 7) (guildcard (cl card_world 3))" "sent card_world = []"
    "good_card CLIENT_VERSION_DCV1 [77, 0, 0, 0] [1, 4, 8] dc_example_card"
    by code_simp+
  then show ?thesis
    using guild_card_keeps_owner [of card_world 7 3 "[77, 0, 0, 0]" "[1, 4, 8]" dc_example_card
        bb_env "fst (guild_card_to bb_env 3 7 dc_example_card card_world)"
        "snd (guild_card_to bb_env 3 7 dc_example_card card_world)"] by simp
qed

end
