(* ===== verification/Word_Props.thy ===== *)
theory Word_Props
  imports Word_Select
begin

section \<open>Word select: the translations are inverse to each other\<close>

text \<open>
  The six columns of the three tables are three partial bijections and their inverses.  This is
  checked on the pieces of the tables and lifted to the loop over the words of a phrase.
\<close>

text \<open>The words of a column that exist in the other version, with their numbers.\<close>

primrec known :: "(u16 \<times> u16 \<Rightarrow> u16) \<Rightarrow> int \<Rightarrow> (u16 \<times> u16) list \<Rightarrow> (int \<times> int) list" where
  "known f i [] = []"
| "known f i (r # rs) =
     (let n = uint (f r) in if n = 0xFFFF then known f (i + 1) rs else (i, n) # known f (i + 1) rs)"

lemma dc_pc_pieces:
  "known fst 0 word_select_dc_1 = sort_key fst (map prod.swap (known fst 0 word_select_pc_1))"
  "known fst 99 word_select_dc_2 = sort_key fst (map prod.swap (known fst 116 word_select_pc_2))"
  "known fst 173 word_select_dc_3 = sort_key fst (map prod.swap (known fst 266 word_select_pc_3))"
  "known fst 318 word_select_dc_4 = sort_key fst (map prod.swap (known fst 416 word_select_pc_4))"
  "known fst 363 word_select_dc_5 = sort_key fst (map prod.swap (known fst 566 word_select_pc_5))"
  "known fst 470 word_select_dc_6 = sort_key fst (map prod.swap (known fst 716 word_select_pc_6))"
  "known fst 518 word_select_dc_7 = sort_key fst (map prod.swap (known fst 853 word_select_pc_7))"
  "known fst 564 word_select_dc_8 = sort_key fst (map prod.swap (known fst 1002 word_select_pc_8))"
  "known fst 676 word_select_dc_9 = sort_key fst (map prod.swap (known fst 1134 word_select_pc_9))"
  "known fst 785 word_select_dc_10 = sort_key fst (map prod.swap (known fst 1279 word_select_pc_10))"
  "known fst 935 word_select_dc_11 = sort_key fst (map prod.swap (known fst 1429 word_select_pc_11))"
  "known fst 1085 word_select_dc_12 = sort_key fst (map prod.swap (known fst 1579 word_select_pc_12))"
  by code_simp+

lemma dc_gc_pieces:
  "known snd 0 word_select_dc_1 = sort_key fst (map prod.swap (known fst 0 word_select_gc_1))"
  "known snd 99 word_select_dc_2 = sort_key fst (map prod.swap (known fst 150 word_select_gc_2))"
  "known snd 173 word_select_dc_3 = sort_key fst (map prod.swap (known fst 300 word_select_gc_3))"
  "known snd 318 word_select_dc_4 = sort_key fst (map prod.swap (known fst 450 word_select_gc_4))"
  "known snd 363 word_select_dc_5 = sort_key fst (map prod.swap (known fst 600 word_select_gc_5))"
  "known snd 470 word_select_dc_6 = sort_key fst (map prod.swap (known fst 750 word_select_gc_6))"
  "known snd 518 word_select_dc_7 = sort_key fst (map prod.swap (known fst 900 word_select_gc_7))"
  "known snd 564 word_select_dc_8 = sort_key fst (map prod.swap (known fst 1050 word_select_gc_8))"
  "known snd 676 word_select_dc_9 = sort_key fst (map prod.swap (known fst 1200 word_select_gc_9))"
  "known snd 785 word_select_dc_10 = sort_key fst (map prod.swap (known fst 1350 word_select_gc_10))"
  "known snd 935 word_select_dc_11 = sort_key fst (map prod.swap (known fst 1500 word_select_gc_11))"
  "known snd 1085 word_select_dc_12 = sort_key fst (map prod.swap (known fst 1650 word_select_gc_12))"
  by code_simp+

lemma pc_gc_pieces:
  "known snd 0 word_select_pc_1 = sort_key fst (map prod.swap (known snd 0 word_select_gc_1))"
  "known snd 116 word_select_pc_2 = sort_key fst (map prod.swap (known snd 150 word_select_gc_2))"
  "known snd 266 word_select_pc_3 = sort_key fst (map prod.swap (known snd 300 word_select_gc_3))"
  "known snd 416 word_select_pc_4 = sort_key fst (map prod.swap (known snd 450 word_select_gc_4))"
  "known snd 566 word_select_pc_5 = sort_key fst (map prod.swap (known snd 600 word_select_gc_5))"
  "known snd 716 word_select_pc_6 = sort_key fst (map prod.swap (known snd 750 word_select_gc_6))"
  "known snd 853 word_select_pc_7 = sort_key fst (map prod.swap (known snd 900 word_select_gc_7))"
  "known snd 1002 word_select_pc_8 = sort_key fst (map prod.swap (known snd 1050 word_select_gc_8))"
  "known snd 1134 word_select_pc_9 = sort_key fst (map prod.swap (known snd 1200 word_select_gc_9))"
  "known snd 1279 word_select_pc_10 = sort_key fst (map prod.swap (known snd 1350 word_select_gc_10))"
  "known snd 1429 word_select_pc_11 = sort_key fst (map prod.swap (known snd 1500 word_select_gc_11))"
  "known snd 1579 word_select_pc_12 = sort_key fst (map prod.swap (known snd 1650 word_select_gc_12))"
  by code_simp+

lemma length_dc_pieces:
  "length word_select_dc_1 = 99"
  "length word_select_dc_2 = 74"
  "length word_select_dc_3 = 145"
  "length word_select_dc_4 = 45"
  "length word_select_dc_5 = 107"
  "length word_select_dc_6 = 48"
  "length word_select_dc_7 = 46"
  "length word_select_dc_8 = 112"
  "length word_select_dc_9 = 109"
  "length word_select_dc_10 = 150"
  "length word_select_dc_11 = 150"
  "length word_select_dc_12 = 39"
  by (simp_all add: word_select_dc_1_def word_select_dc_2_def word_select_dc_3_def word_select_dc_4_def
      word_select_dc_5_def word_select_dc_6_def word_select_dc_7_def word_select_dc_8_def
      word_select_dc_9_def word_select_dc_10_def word_select_dc_11_def word_select_dc_12_def)

lemma length_pc_pieces:
  "length word_select_pc_1 = 116"
  "length word_select_pc_2 = 150"
  "length word_select_pc_3 = 150"
  "length word_select_pc_4 = 150"
  "length word_select_pc_5 = 150"
  "length word_select_pc_6 = 137"
  "length word_select_pc_7 = 149"
  "length word_select_pc_8 = 132"
  "length word_select_pc_9 = 145"
  "length word_select_pc_10 = 150"
  "length word_select_pc_11 = 150"
  "length word_select_pc_12 = 39"
  by (simp_all add: word_select_pc_1_def word_select_pc_2_def word_select_pc_3_def word_select_pc_4_def
      word_select_pc_5_def word_select_pc_6_def word_select_pc_7_def word_select_pc_8_def
      word_select_pc_9_def word_select_pc_10_def word_select_pc_11_def word_select_pc_12_def)

lemma length_gc_pieces:
  "length word_select_gc_1 = 150"
  "length word_select_gc_2 = 150"
  "length word_select_gc_3 = 150"
  "length word_select_gc_4 = 150"
  "length word_select_gc_5 = 150"
  "length word_select_gc_6 = 150"
  "length word_select_gc_7 = 150"
  "length word_select_gc_8 = 150"
  "length word_select_gc_9 = 150"
  "length word_select_gc_10 = 150"
  "length word_select_gc_11 = 150"
  "length word_select_gc_12 = 39"
  by (simp_all add: word_select_gc_1_def word_select_gc_2_def word_select_gc_3_def word_select_gc_4_def
      word_select_gc_5_def word_select_gc_6_def word_select_gc_7_def word_select_gc_8_def
      word_select_gc_9_def word_select_gc_10_def word_select_gc_11_def word_select_gc_12_def)

lemma known_append: "known f i (xs @ ys) = known f i xs @ known f (i + int (length xs)) ys"
  by (induction xs arbitrary: i) (simp_all add: Let_def algebra_simps)

lemma uint_none: "uint (n :: u16) = 0xFFFF \<longleftrightarrow> n = 0xFFFF"
  by (simp add: word_uint_eq_iff)

lemma in_known:
  "(i, n) \<in> set (known f s rs) \<longleftrightarrow>
     (\<exists>k < length rs. i = s + int k \<and> n = uint (f (rs ! k)) \<and> f (rs ! k) \<noteq> 0xFFFF)"
proof (induction rs arbitrary: s)
  case (Cons r rs)
  show ?case (is "_ = (\<exists>k < length (r # rs). ?P k)")
  proof -
    have "(\<exists>k < length (r # rs). ?P k) \<longleftrightarrow> ?P 0 \<or> (\<exists>k < length rs. ?P (Suc k))"
      by (auto simp: less_Suc_eq_0_disj)
    then show ?thesis using Cons.IH [of "s + 1"] by (auto simp: Let_def uint_none algebra_simps)
  qed
qed simp

subsection \<open>Two columns that are inverse to each other\<close>

locale translation =
  fixes there :: "(u16 \<times> u16) list" and f :: "u16 \<times> u16 \<Rightarrow> u16" and mx :: u16
    and home :: "(u16 \<times> u16) list" and g :: "u16 \<times> u16 \<Rightarrow> u16" and mx' :: u16
  assumes inverse: "set (known f 0 there) = set (map prod.swap (known g 0 home))"
    and sizes: "length there = Suc (unat mx)" "length home = Suc (unat mx')" "mx < 0xFFFF" "mx' < 0xFFFF"
begin

lemma there_and_back:
  assumes "x \<le> mx" "f (there ! unat x) \<noteq> 0xFFFF"
  shows "f (there ! unat x) \<le> mx' \<and> g (home ! unat (f (there ! unat x))) = x"
proof -
  have "unat x < length there" using assms(1) sizes(1) by (simp add: word_le_nat_alt)
  then have "(int (unat x), uint (f (there ! unat x))) \<in> set (known f 0 there)"
    unfolding in_known using assms(2) by (intro exI [of _ "unat x"]) simp
  then have "(uint (f (there ! unat x)), int (unat x)) \<in> set (known g 0 home)"
    unfolding inverse by force
  then obtain k where k: "k < length home \<and> uint (f (there ! unat x)) = 0 + int k \<and>
      int (unat x) = uint (g (home ! k)) \<and> g (home ! k) \<noteq> 0xFFFF" unfolding in_known ..
  have "unat (f (there ! unat x)) = k" using k by (simp only: unat_eq_nat_uint)
  moreover have "uint (g (home ! k)) = uint x" using k by (simp only: uint_nat)
  then have "g (home ! k) = x" by (rule word_uint_eqI)
  ultimately show ?thesis using k sizes(2) by (auto simp: word_le_nat_alt)
qed

lemma not_a_number: "f (there ! unat x) = x' \<Longrightarrow> x' \<le> mx' \<Longrightarrow> x' \<noteq> 0xFFFF"
  using sizes(4) by auto

text \<open>Words that all exist on the other side come back as they were.\<close>

lemma words_back:
  assumes "\<forall>x \<in> set xs. x \<le> mx \<or> x = 0xFFFF" "\<forall>x \<in> set xs. x \<noteq> 0xFFFF \<longrightarrow> f (there ! unat x) \<noteq> 0xFFFF"
  defines "ys \<equiv> map (\<lambda>x. if x = 0xFFFF then 0xFFFF else f (there ! unat x)) xs"
  shows "(\<forall>y \<in> set ys. y \<le> mx' \<or> y = 0xFFFF) \<and>
     map (\<lambda>y. if y = 0xFFFF then 0xFFFF else g (home ! unat y)) ys = xs \<and>
     (\<forall>y \<in> set ys. y \<noteq> 0xFFFF \<longrightarrow> g (home ! unat y) \<noteq> 0xFFFF)"
proof -
  have one: "f (there ! unat x) \<le> mx' \<and> g (home ! unat (f (there ! unat x))) = x \<and> x \<noteq> 0xFFFF"
    if "x \<in> set xs" "x \<noteq> 0xFFFF" for x using that assms(1,2) there_and_back by blast
  show ?thesis
    using assms(2) one unfolding ys_def
    by (auto simp: map_idI comp_def)
qed

end

lemma swap_known: "set (known f 0 a) = set (map prod.swap (known g 0 b)) \<Longrightarrow>
    set (known g 0 b) = set (map prod.swap (known f 0 a))"
  by (auto simp: image_iff)

lemma dc_pc_inverse: "set (known fst 0 word_select_dc_map) = set (map prod.swap (known fst 0 word_select_pc_map))"
  by (simp only: word_select_dc_map_def word_select_pc_map_def known_append length_dc_pieces length_pc_pieces)
    (simp add: dc_pc_pieces Un_assoc)

lemma dc_gc_inverse: "set (known snd 0 word_select_dc_map) = set (map prod.swap (known fst 0 word_select_gc_map))"
  by (simp only: word_select_dc_map_def word_select_gc_map_def known_append length_dc_pieces length_gc_pieces)
    (simp add: dc_gc_pieces Un_assoc)

lemma pc_gc_inverse: "set (known snd 0 word_select_pc_map) = set (map prod.swap (known snd 0 word_select_gc_map))"
  by (simp only: word_select_pc_map_def word_select_gc_map_def known_append length_pc_pieces length_gc_pieces)
    (simp add: pc_gc_pieces Un_assoc)

lemma map_sizes:
  "length word_select_dc_map = Suc (unat WORD_SELECT_DC_MAX)" "WORD_SELECT_DC_MAX < 0xFFFF"
  "length word_select_pc_map = Suc (unat WORD_SELECT_PC_MAX)" "WORD_SELECT_PC_MAX < 0xFFFF"
  "length word_select_gc_map = Suc (unat WORD_SELECT_GC_MAX)" "WORD_SELECT_GC_MAX < 0xFFFF"
  by (simp_all add: word_select_dc_map_def word_select_pc_map_def word_select_gc_map_def length_dc_pieces
      length_pc_pieces length_gc_pieces WORD_SELECT_DC_MAX_def WORD_SELECT_PC_MAX_def WORD_SELECT_GC_MAX_def)

interpretation dc_pc: translation word_select_dc_map fst WORD_SELECT_DC_MAX word_select_pc_map fst WORD_SELECT_PC_MAX
  by unfold_locales (fact dc_pc_inverse map_sizes)+

interpretation pc_dc: translation word_select_pc_map fst WORD_SELECT_PC_MAX word_select_dc_map fst WORD_SELECT_DC_MAX
  by unfold_locales (fact swap_known [OF dc_pc_inverse] map_sizes)+

interpretation dc_gc: translation word_select_dc_map snd WORD_SELECT_DC_MAX word_select_gc_map fst WORD_SELECT_GC_MAX
  by unfold_locales (fact dc_gc_inverse map_sizes)+

interpretation gc_dc: translation word_select_gc_map fst WORD_SELECT_GC_MAX word_select_dc_map snd WORD_SELECT_DC_MAX
  by unfold_locales (fact swap_known [OF dc_gc_inverse] map_sizes)+

interpretation pc_gc: translation word_select_pc_map snd WORD_SELECT_PC_MAX word_select_gc_map snd WORD_SELECT_GC_MAX
  by unfold_locales (fact pc_gc_inverse map_sizes)+

interpretation gc_pc: translation word_select_gc_map snd WORD_SELECT_GC_MAX word_select_pc_map snd WORD_SELECT_PC_MAX
  by unfold_locales (fact swap_known [OF pc_gc_inverse] map_sizes)+

subsection \<open>The loop\<close>

definition column :: "(u16 \<times> u16 \<Rightarrow> u16) \<Rightarrow> (u16 \<times> u16) list \<Rightarrow> u16 list \<Rightarrow> u16 list" where
  "column f table xs = map (\<lambda>x. if x = 0xFFFF then 0xFFFF else f (table ! unat x)) xs"

definition missing :: "(u16 \<times> u16 \<Rightarrow> u16) \<Rightarrow> (u16 \<times> u16) list \<Rightarrow> u16 list \<Rightarrow> bool" where
  "missing f table xs \<longleftrightarrow> (\<exists>x \<in> set xs. x \<noteq> 0xFFFF \<and> f (table ! unat x) = 0xFFFF)"

lemma missing_back:
  assumes "translation there f mx home g mx'" "\<forall>x \<in> set xs. x \<le> mx \<or> x = 0xFFFF" "\<not> missing f there xs"
  shows "(\<forall>y \<in> set (column f there xs). y \<le> mx' \<or> y = 0xFFFF) \<and>
     column g home (column f there xs) = xs \<and> \<not> missing g home (column f there xs)"
  using translation.words_back [OF assms(1,2)] assms(3) unfolding column_def missing_def by blast

lemma ws_loop_eq:
  "ws_loop mx table xs =
     (if \<forall>x \<in> set xs. x \<le> mx \<or> x = 0xFFFF
      then Some (column fst table xs, missing fst table xs, column snd table xs, missing snd table xs) else None)"
  by (induction xs) (auto simp: column_def missing_def Let_def split: prod.split)

lemma ws_loop_back:
  "translation there fst mx home fst mx' \<Longrightarrow> ws_loop mx there xs = Some (ys, False, zs, z) \<Longrightarrow>
     \<exists>us u. ws_loop mx' home ys = Some (xs, False, us, u)"
  "translation there fst mx home snd mx' \<Longrightarrow> ws_loop mx there xs = Some (ys, False, zs, z) \<Longrightarrow>
     \<exists>us u. ws_loop mx' home ys = Some (us, u, xs, False)"
  "translation there snd mx home fst mx' \<Longrightarrow> ws_loop mx there xs = Some (zs, z, ys, False) \<Longrightarrow>
     \<exists>us u. ws_loop mx' home ys = Some (xs, False, us, u)"
  "translation there snd mx home snd mx' \<Longrightarrow> ws_loop mx there xs = Some (zs, z, ys, False) \<Longrightarrow>
     \<exists>us u. ws_loop mx' home ys = Some (us, u, xs, False)"
  by (drule missing_back [where xs = xs]; force simp: ws_loop_eq split: if_splits)+

text \<open>C10: Translating the words of a phrase loses nothing: when all of them exist in the version they are
  translated to, that version accepts the result as words of its own, all of which exist in the version
  they came from, and translating them back gives the phrase the player chose.  This holds in all six
  directions between Dreamcast, PC and Gamecube.\<close>

theorem word_select_roundtrip:
  "(ws_loop WORD_SELECT_DC_MAX word_select_dc_map xs = Some (ys, False, zs, z) \<longrightarrow>
      (\<exists>us u. ws_loop WORD_SELECT_PC_MAX word_select_pc_map ys = Some (xs, False, us, u))) \<and>
   (ws_loop WORD_SELECT_DC_MAX word_select_dc_map xs = Some (zs, z, ys, False) \<longrightarrow>
      (\<exists>us u. ws_loop WORD_SELECT_GC_MAX word_select_gc_map ys = Some (xs, False, us, u))) \<and>
   (ws_loop WORD_SELECT_PC_MAX word_select_pc_map xs = Some (ys, False, zs, z) \<longrightarrow>
      (\<exists>us u. ws_loop WORD_SELECT_DC_MAX word_select_dc_map ys = Some (xs, False, us, u))) \<and>
   (ws_loop WORD_SELECT_PC_MAX word_select_pc_map xs = Some (zs, z, ys, False) \<longrightarrow>
      (\<exists>us u. ws_loop WORD_SELECT_GC_MAX word_select_gc_map ys = Some (us, u, xs, False))) \<and>
   (ws_loop WORD_SELECT_GC_MAX word_select_gc_map xs = Some (ys, False, zs, z) \<longrightarrow>
      (\<exists>us u. ws_loop WORD_SELECT_DC_MAX word_select_dc_map ys = Some (us, u, xs, False))) \<and>
   (ws_loop WORD_SELECT_GC_MAX word_select_gc_map xs = Some (zs, z, ys, False) \<longrightarrow>
      (\<exists>us u. ws_loop WORD_SELECT_PC_MAX word_select_pc_map ys = Some (us, u, xs, False)))"
  by (intro conjI impI; erule ws_loop_back(1) [OF dc_pc.translation_axioms] ws_loop_back(3) [OF dc_gc.translation_axioms]
      ws_loop_back(1) [OF pc_dc.translation_axioms] ws_loop_back(4) [OF pc_gc.translation_axioms]
      ws_loop_back(2) [OF gc_dc.translation_axioms] ws_loop_back(4) [OF gc_pc.translation_axioms])

theorem word_select_roundtrip_witness:
  "ws_loop WORD_SELECT_DC_MAX word_select_dc_map [7, 0xFFFF, 0xC] = Some ([9, 0xFFFF, 0xE], False, [9, 0xFFFF, 48], False) \<and>
   (\<exists>us u. ws_loop WORD_SELECT_PC_MAX word_select_pc_map [9, 0xFFFF, 0xE] = Some ([7, 0xFFFF, 0xC], False, us, u))"
proof -
  have "ws_loop WORD_SELECT_DC_MAX word_select_dc_map [7, 0xFFFF, 0xC] = Some ([9, 0xFFFF, 0xE], False, [9, 0xFFFF, 48], False)"
    by code_simp
  with word_select_roundtrip [THEN conjunct1, rule_format, OF this] show ?thesis by blast
qed

end
