(* ===== verification/Drop_Tables.thy ===== *)
theory Drop_Tables
  imports Ship_State "HOL-Library.Monad_Syntax"
begin

section \<open>The tables that drops are made from\<close>

text \<open>
  \<open>ship_server/src/pmtdata.c\<close> and \<open>rtdata.c\<close>: what the server knows about weapons, frames, barriers and
  units, the table it picks units from, and the rare items.  The structures of the three versions
  of the game have the fields the server reads in common; their others are never read, so one
  record stands for all three, and the functions of the versions, which are the same text, are the
  same function of the tables of the version.  An access outside of a table is \<open>None\<close>; the return
  value of a function that can fail is \<open>Inl\<close> its error code or \<open>Inr\<close> the value it writes through its
  pointer.
\<close>

definition at :: "'a list \<Rightarrow> nat \<Rightarrow> 'a option" where
  "at xs i = (if i < length xs then Some (xs ! i) else None)"

lemma at_Some [simp]: "at xs i = Some x \<longleftrightarrow> i < length xs \<and> x = xs ! i"
  by (auto simp: at_def)

text \<open>A random number below \<open>n\<close>: \<open>mt19937_genrand_int32(rng) % n\<close>.\<close>

definition roll :: "u32 \<Rightarrow> mt19937_state \<Rightarrow> u32 \<times> mt19937_state" where
  "roll n g = (let (r, g) = mt19937_genrand_int32 g in (r mod n, g))"

subsection \<open>Parameters of the items\<close>

record pmt_weapon =
  w_index :: u32

record pmt_guard =
  g_index :: u32
  dfp_range :: u8
  evp_range :: u8

record pmt_unit =
  u_index :: u32
  u_stat :: u16
  pm_range :: u8

record pmt =
  have_pmt :: bool
  pmt_weapons :: "pmt_weapon list list"
  pmt_guards :: "pmt_guard list list"
  pmt_units :: "pmt_unit list"
  star_table :: "u8 list"
  star_max :: u32
  weapon_lowest :: u32
  unit_lowest :: u32
  units_by_stars :: "u64 list"
  units_with_stars :: "u32 list"
  unit_max_stars :: u8

definition code_part :: "u32 \<Rightarrow> nat \<Rightarrow> u8" where
  "code_part code i = ucast (drop_bit (8 * i) code AND 0xFF)"

definition pmt_lookup_weapon :: "pmt \<Rightarrow> u32 \<Rightarrow> (int + pmt_weapon) option" where
  "pmt_lookup_weapon p code =
     (let t = unat (code_part code 1); i = unat (code_part code 2)
      in if \<not> have_pmt p then Some (Inl (-1))
         else if code_part code 0 \<noteq> 0x00 then Some (Inl (-2))
         else if t > length (pmt_weapons p) then Some (Inl (-3))
         else do {
           ws \<leftarrow> at (pmt_weapons p) t;
           Some (if i \<ge> length ws then Inl (-4) else Inr (ws ! i))
         })"

definition pmt_lookup_guard :: "pmt \<Rightarrow> u32 \<Rightarrow> (int + pmt_guard) option" where
  "pmt_lookup_guard p code =
     (let t = unat (code_part code 1); i = unat (code_part code 2)
      in if \<not> have_pmt p then Some (Inl (-1))
         else if code_part code 0 \<noteq> 0x01 then Some (Inl (-2))
         else if t = 0x03 then Some (Inl (-3))
         else if t > length (pmt_guards p) then Some (Inl (-4))
         else if t = 0 then None
         else do {
           gs \<leftarrow> at (pmt_guards p) (t - 1);
           Some (if i \<ge> length gs then Inl (-5) else Inr (gs ! i))
         })"

definition pmt_lookup_unit :: "pmt \<Rightarrow> u32 \<Rightarrow> int + pmt_unit" where
  "pmt_lookup_unit p code =
     (let i = unat (code_part code 2)
      in if \<not> have_pmt p then Inl (-1)
         else if code_part code 0 \<noteq> 0x01 \<or> code_part code 1 \<noteq> 0x03 then Inl (-2)
         else if i \<ge> length (pmt_units p) then Inl (-3)
         else Inr (pmt_units p ! i))"

text \<open>The number of stars of an item; 0xFF says that there is none.\<close>

definition stars_of_index :: "pmt \<Rightarrow> u32 \<Rightarrow> u8 option" where
  "stars_of_index p i =
     (if i - weapon_lowest p > star_max p then Some 0xFF
      else at (star_table p) (unat (i - weapon_lowest p)))"

definition pmt_lookup_stars :: "pmt \<Rightarrow> u32 \<Rightarrow> u8 option" where
  "pmt_lookup_stars p code =
     (if \<not> have_pmt p then Some 0xFF
      else if code_part code 0 = 0x00 then do {
        r \<leftarrow> pmt_lookup_weapon p code;
        case r of Inl _ \<Rightarrow> Some 0xFF | Inr w \<Rightarrow> stars_of_index p (w_index w)
      }
      else if code_part code 0 = 0x01 \<and> code_part code 1 \<in> {0x01, 0x02} then do {
        r \<leftarrow> pmt_lookup_guard p code;
        case r of Inl _ \<Rightarrow> Some 0xFF | Inr g \<Rightarrow> stars_of_index p (g_index g)
      }
      else if code_part code 0 = 0x01 \<and> code_part code 1 = 0x03 then
        (case pmt_lookup_unit p code of Inl _ \<Rightarrow> Some 0xFF | Inr u \<Rightarrow> stars_of_index p (u_index u))
      else Some 0xFF)"

subsection \<open>Units sorted by their stars\<close>

definition Item_Knight_Power :: u32 where "Item_Knight_Power = 0x000301"

definition unit_code :: "nat \<Rightarrow> u32" where
  "unit_code j = 0x00000301 OR push_bit 16 (of_nat j)"

text \<open>A unit with its modifier, which is a signed number in the upper half of the second word.\<close>

definition modified :: "nat \<Rightarrow> int \<Rightarrow> u64" where
  "modified j m = ucast (unit_code j) OR push_bit 48 (scast (word_of_int m :: u16))"

text \<open>
  What the inner loop of \<open>build_v2_units\<close> adds for unit \<open>j\<close> on the level of \<open>i\<close> stars: with a minus it
  counts as one star less than it has, with a plus as one star more.
\<close>

definition unit_entries :: "bool \<Rightarrow> nat \<Rightarrow> nat \<Rightarrow> pmt_unit \<Rightarrow> u8 \<Rightarrow> u64 list" where
  "unit_entries norestrict i j u star =
     (let boosts = (pm_range u \<noteq> 0 \<and> (u_stat u \<le> 3 \<or> norestrict)); pm = uint (pm_range u)
      in if uint star - 1 = int i \<and> boosts then [modified j (-2 * pm), modified j (-1 * pm)]
         else if uint star = int i then [ucast (unit_code j)]
         else if uint star + 1 = int i \<and> boosts then [modified j (2 * pm), modified j pm]
         else [])"

definition unit_level_entries :: "bool \<Rightarrow> pmt_unit list \<Rightarrow> u8 list \<Rightarrow> nat \<Rightarrow> u64 list" where
  "unit_level_entries norestrict us stars i =
     concat (map (\<lambda>j. unit_entries norestrict i j (us ! j) (stars ! j)) [0..<length us])"

primrec build_levels :: "(nat \<Rightarrow> u64 list) \<Rightarrow> nat list \<Rightarrow> u64 list \<Rightarrow> u64 list \<times> u32 list" where
  "build_levels f [] us = (us, [])"
| "build_levels f (i # is) us =
     (let us = us @ f i; (us', ks) = build_levels f is us in (us', of_nat (length us) # ks))"

text \<open>The stars of the units, and the most a unit has; \<open>None\<close> is a unit outside of the star table.\<close>

definition unit_stars :: "pmt \<Rightarrow> u8 list option" where
  "unit_stars p = those (map (\<lambda>j. at (star_table p) (unat (of_nat j + unit_lowest p - weapon_lowest p)))
     [0..<length (pmt_units p)])"

definition most_stars :: "u8 list \<Rightarrow> u8 \<Rightarrow> u8" where
  "most_stars stars m = fold (\<lambda>s m. if s > m then s else m) stars m"

text \<open>\<open>mem1\<close> and \<open>mem2\<close> say whether there is memory for the two tables.\<close>

definition build_units :: "bool \<Rightarrow> bool \<Rightarrow> bool \<Rightarrow> pmt \<Rightarrow> (int \<times> pmt) option" where
  "build_units mem1 mem2 norestrict p = do {
     stars \<leftarrow> unit_stars p;
     let p = p\<lparr>unit_max_stars := most_stars stars (unit_max_stars p) + 1\<rparr>;
     if \<not> mem1 then Some (-1, p\<lparr>units_by_stars := []\<rparr>)
     else if \<not> mem2 then Some (-2, p\<lparr>units_by_stars := []\<rparr>)
     else
       let (us, ks) = build_levels (unit_level_entries norestrict (pmt_units p) stars)
             [0..<Suc (unat (unit_max_stars p))] [ucast Item_Knight_Power]
       in Some (0, p\<lparr>units_by_stars := us, units_with_stars := ks\<rparr>)
   }"

text \<open>The builders of the three versions are this one.\<close>

definition build_v2_units :: "bool \<Rightarrow> bool \<Rightarrow> bool \<Rightarrow> pmt \<Rightarrow> (int \<times> pmt) option" where
  "build_v2_units = build_units"
definition build_gc_units :: "bool \<Rightarrow> bool \<Rightarrow> bool \<Rightarrow> pmt \<Rightarrow> (int \<times> pmt) option" where
  "build_gc_units = build_units"
definition build_bb_units :: "bool \<Rightarrow> bool \<Rightarrow> bool \<Rightarrow> pmt \<Rightarrow> (int \<times> pmt) option" where
  "build_bb_units = build_units"

definition pmt_random_unit :: "pmt \<Rightarrow> u8 \<Rightarrow> mt19937_state \<Rightarrow> (u32 list \<times> mt19937_state) option" where
  "pmt_random_unit p mx g =
     (let mx = (if mx > unit_max_stars p then unit_max_stars p else mx) in do {
        n \<leftarrow> at (units_with_stars p) (unat mx);
        if n = 0 then None
        else do {
          let (r, g) = roll n g;
          unit \<leftarrow> at (units_by_stars p) (unat r);
          Some ([ucast unit, ucast (drop_bit 32 unit), 0, 0], g)
        }
      })"

subsection \<open>Rare items\<close>

text \<open>
  The probability of a rare item is \<open>expand_rate\<close> of the byte in the file, a fraction over 2 ^ 32; the
  random number it is compared with is a fraction over 2 ^ 32 - 1.  Both are kept as their numerators
  and compared as the fractions they are.  In C they are doubles; the first is exact, and the second
  is off by less than the distance of any two such fractions that differ.
\<close>

definition expand_rate :: "u8 \<Rightarrow> u32" where
  "expand_rate rate =
     (let tmp = int (unat (drop_bit 3 rate)) - 4
      in push_bit (nat (if tmp < 0 then 0 else tmp)) 2 * (ucast (rate AND 7) + 7))"

definition below_prob :: "u32 \<Rightarrow> u32 \<Rightarrow> bool" where
  "below_prob rnd prob \<longleftrightarrow> uint rnd * 2 ^ 32 < uint prob * (2 ^ 32 - 1)"

record rt_data =
  rt_prob :: u32
  rt_item :: u32
  rt_area :: u32

record rt_set =
  enemy_rares :: "rt_data list"
  box_rares :: "rt_data list"

primrec box_rare :: "rt_data list \<Rightarrow> u32 \<Rightarrow> mt19937_state \<Rightarrow> u32 \<times> mt19937_state" where
  "box_rare [] area g = (0, g)"
| "box_rare (d # ds) area g =
     (if rt_area d = area then
        let (r, g) = mt19937_genrand_int32 g
        in if below_prob r (rt_prob d) then (rt_item d, g) else box_rare ds area g
      else box_rare ds area g)"

text \<open>The set is the one for the difficulty (and the episode) of the game and the section id of its leader.\<close>

definition rt_generate :: "bool \<Rightarrow> rt_set option \<Rightarrow> int \<Rightarrow> int \<Rightarrow> mt19937_state \<Rightarrow> (u32 \<times> mt19937_state) option" where
  "rt_generate have_rt rts ix area g =
     (if \<not> have_rt then Some (0, g)
      else if ix < -1 \<or> ix > 100 then Some (-1, g)
      else do {
        s \<leftarrow> rts;
        if ix \<ge> 0 then do {
          let (r, g) = mt19937_genrand_int32 g;
          d \<leftarrow> at (enemy_rares s) (nat ix);
          Some (if below_prob r (rt_prob d) then (rt_item d, g) else (0, g))
        }
        else Some (box_rare (box_rares s) (word_of_int area) g)
      })"

end
