(* ===== verification/Pmt_Read.thy ===== *)
theory Pmt_Read
  imports Drop_Tables Prs_Decomp
begin

section \<open>Reading the parameters of the items\<close>

text \<open>
  The readers of \<open>pmtdata.c\<close> for the ItemPMT files.  The three versions of a reader do the same on
  structures of different sizes, with different pointers of the pointer table, and in the byte order of
  the version; that is the record \<open>pmt_layout\<close>.  A reader returns \<open>None\<close> when it reads outside of the
  file, \<open>Inl\<close> its error code, or \<open>Inr\<close> the tables with what it has read; a table that is read only in part
  before an error is left out, since nobody looks at it when \<open>have_pmt\<close> is not set.  \<open>size_t\<close> has 64 bits, so that the sums in the comparisons do not wrap.
\<close>

record pmt_layout =
  big_endian :: bool
  weapon_ptrs :: "nat \<times> nat"
  guard_ptrs :: "nat \<times> nat"
  unit_ptr :: nat
  star_ptrs :: "nat \<times> nat"
  weapon_size :: nat
  guard_size :: nat
  dfp_at :: nat
  evp_at :: nat
  unit_size :: nat
  stat_at :: nat
  pm_at :: nat

definition v2_layout :: pmt_layout where
  "v2_layout = \<lparr>big_endian = False, weapon_ptrs = (1, 11), guard_ptrs = (2, 3), unit_ptr = 3,
     star_ptrs = (12, 13), weapon_size = 24, guard_size = 24, dfp_at = 18, evp_at = 19, unit_size = 12, stat_at = 4,
     pm_at = 8\<rparr>"

definition gc_layout :: pmt_layout where
  "gc_layout = \<lparr>big_endian = True, weapon_ptrs = (0, 17), guard_ptrs = (1, 2), unit_ptr = 2,
     star_ptrs = (11, 12), weapon_size = 40, guard_size = 28, dfp_at = 22, evp_at = 23, unit_size = 16, stat_at = 8,
     pm_at = 12\<rparr>"

definition bb_layout :: pmt_layout where
  "bb_layout = \<lparr>big_endian = False, weapon_ptrs = (0, 17), guard_ptrs = (1, 2), unit_ptr = 2,
     star_ptrs = (11, 12), weapon_size = 44, guard_size = 32, dfp_at = 26, evp_at = 27, unit_size = 20, stat_at = 12,
     pm_at = 16\<rparr>"

text \<open>Which of the allocations succeed is a parameter.\<close>

datatype pmt_memory =
  Mem_num_weapons | Mem_weapons | Mem_weapon_table nat | Mem_num_guards | Mem_guards | Mem_guard_table nat |
  Mem_units | Mem_stars | Mem_by_stars | Mem_with_stars

subsection \<open>Bytes of the file\<close>

definition bytes_at :: "u8 list \<Rightarrow> nat \<Rightarrow> nat \<Rightarrow> u8 list option" where
  "bytes_at buf off n = (if off + n \<le> length buf then Some (take n (drop off buf)) else None)"

definition word_of :: "bool \<Rightarrow> u8 list \<Rightarrow> nat \<Rightarrow> u32" where
  "word_of big b i =
     (if big then le32_of (b ! (i + 3)) (b ! (i + 2)) (b ! (i + 1)) (b ! i)
      else le32_of (b ! i) (b ! (i + 1)) (b ! (i + 2)) (b ! (i + 3)))"

definition half_of :: "bool \<Rightarrow> u8 list \<Rightarrow> nat \<Rightarrow> u16" where
  "half_of big b i =
     (if big then ucast (b ! (i + 1)) OR push_bit 8 (ucast (b ! i)) else ucast (b ! i) OR push_bit 8 (ucast (b ! (i + 1))))"

definition read_ptr_table :: "bool \<Rightarrow> nat \<Rightarrow> u8 list \<Rightarrow> (int + u32 list) option" where
  "read_ptr_table big n buf =
     (if length buf < 16 then None
      else do {
        b \<leftarrow> bytes_at buf (length buf - 16) 4;
        let tmp = unat (word_of big b 0);
        if tmp + 4 * n > length buf - 16 then Some (Inl (-1))
        else do {
          b \<leftarrow> bytes_at buf tmp (4 * n);
          Some (Inr (map (\<lambda>i. word_of big b (4 * i)) [0..<n]))
        }
      })"

text \<open>
  A table is given by its number of entries and its place.  \<open>read_entries\<close> reads both, compares them with
  the size of the file, and decodes the entries, each from its own bytes.
\<close>

definition read_entries ::
  "bool \<Rightarrow> nat \<Rightarrow> (u8 list \<Rightarrow> 'a) \<Rightarrow> u8 list \<Rightarrow> nat \<Rightarrow> bool \<Rightarrow> int \<Rightarrow> int \<Rightarrow> (int + 'a list) option"
where
  "read_entries big sz decode buf off mem e_bounds e_mem = do {
     b \<leftarrow> bytes_at buf off 8;
     let n = unat (word_of big b 0);
     let from = unat (word_of big b 4);
     if from + sz * n > length buf then Some (Inl e_bounds)
     else if \<not> mem then Some (Inl e_mem)
     else do {
       b \<leftarrow> bytes_at buf from (sz * n);
       Some (Inr (map (\<lambda>j. decode (take sz (drop (sz * j) b))) [0..<n]))
     }
   }"

primrec read_tables ::
  "(nat \<Rightarrow> (int + 'a list) option) \<Rightarrow> nat list \<Rightarrow> (int + 'a list list) option"
where
  "read_tables f [] = Some (Inr [])"
| "read_tables f (i # is) = do {
     r \<leftarrow> f i;
     case r of Inl e \<Rightarrow> Some (Inl e)
     | Inr t \<Rightarrow> do {
         r \<leftarrow> read_tables f is;
         Some (case r of Inl e \<Rightarrow> Inl e | Inr ts \<Rightarrow> Inr (t # ts))
       }
   }"

definition lowest :: "u32 list \<Rightarrow> u32 \<Rightarrow> u32" where
  "lowest is m = fold (\<lambda>i m. if i < m then i else m) is m"

subsection \<open>The parts of the file\<close>

definition weapon_entry :: "pmt_layout \<Rightarrow> u8 list \<Rightarrow> pmt_weapon" where
  "weapon_entry lay b = \<lparr>w_index = word_of (big_endian lay) b 0\<rparr>"

definition guard_entry :: "pmt_layout \<Rightarrow> u8 list \<Rightarrow> pmt_guard" where
  "guard_entry lay b = \<lparr>g_index = word_of (big_endian lay) b 0, dfp_range = b ! dfp_at lay, evp_range = b ! evp_at lay\<rparr>"

definition unit_entry :: "pmt_layout \<Rightarrow> u8 list \<Rightarrow> pmt_unit" where
  "unit_entry lay b = \<lparr>u_index = word_of (big_endian lay) b 0, u_stat = half_of (big_endian lay) b (stat_at lay),
     pm_range = b ! pm_at lay\<rparr>"

definition read_weapons :: "pmt_layout \<Rightarrow> (pmt_memory \<Rightarrow> bool) \<Rightarrow> u8 list \<Rightarrow> u32 list \<Rightarrow> pmt \<Rightarrow> (int + pmt) option" where
  "read_weapons lay mem buf ptrs p =
     (let a = unat (ptrs ! fst (weapon_ptrs lay)); b = unat (ptrs ! snd (weapon_ptrs lay))
      in if a > length buf \<or> a > b then Some (Inl (-1))
         else if \<not> mem Mem_num_weapons then Some (Inl (-2))
         else if \<not> mem Mem_weapons then Some (Inl (-3))
         else do {
           r \<leftarrow> read_tables (\<lambda>i. read_entries (big_endian lay) (weapon_size lay) (weapon_entry lay) buf (a + 8 * i)
                  (mem (Mem_weapon_table i)) (-4) (-5)) [0..<(b - a) div 8];
           Some (case r of Inl e \<Rightarrow> Inl e
             | Inr ts \<Rightarrow> Inr (p\<lparr>pmt_weapons := ts, weapon_lowest := lowest (map w_index (concat ts)) (weapon_lowest p)\<rparr>))
         })"

definition read_guards :: "pmt_layout \<Rightarrow> (pmt_memory \<Rightarrow> bool) \<Rightarrow> u8 list \<Rightarrow> u32 list \<Rightarrow> pmt \<Rightarrow> (int + pmt) option" where
  "read_guards lay mem buf ptrs p =
     (let a = unat (ptrs ! fst (guard_ptrs lay)); b = unat (ptrs ! snd (guard_ptrs lay))
      in if b > length buf \<or> a > b then Some (Inl (-1))
         else if (b - a) div 8 \<noteq> 2 then Some (Inl (-2))
         else if \<not> mem Mem_num_guards then Some (Inl (-3))
         else if \<not> mem Mem_guards then Some (Inl (-4))
         else do {
           r \<leftarrow> read_tables (\<lambda>i. read_entries (big_endian lay) (guard_size lay) (guard_entry lay) buf (a + 8 * i)
                  (mem (Mem_guard_table i)) (-5) (-6)) [0..<(b - a) div 8];
           Some (case r of Inl e \<Rightarrow> Inl e | Inr ts \<Rightarrow> Inr (p\<lparr>pmt_guards := ts\<rparr>))
         })"

definition read_units :: "pmt_layout \<Rightarrow> (pmt_memory \<Rightarrow> bool) \<Rightarrow> u8 list \<Rightarrow> u32 list \<Rightarrow> pmt \<Rightarrow> (int + pmt) option" where
  "read_units lay mem buf ptrs p =
     (let a = unat (ptrs ! unit_ptr lay)
      in if a > length buf then Some (Inl (-1))
         else do {
           r \<leftarrow> read_entries (big_endian lay) (unit_size lay) (unit_entry lay) buf a (mem Mem_units) (-2) (-3);
           Some (case r of Inl e \<Rightarrow> Inl e
             | Inr us \<Rightarrow> Inr (p\<lparr>pmt_units := us, unit_lowest := lowest (map u_index us) (unit_lowest p)\<rparr>))
         })"

text \<open>
  The number of units in the comparison is that of the second version, \<open>num_units\<close>, whichever version
  is read.
\<close>

definition read_stars ::
  "pmt_layout \<Rightarrow> (pmt_memory \<Rightarrow> bool) \<Rightarrow> u32 \<Rightarrow> u8 list \<Rightarrow> u32 list \<Rightarrow> pmt \<Rightarrow> (int + pmt) option"
where
  "read_stars lay mem nu buf ptrs p =
     (let a = ptrs ! fst (star_ptrs lay); b = ptrs ! snd (star_ptrs lay); n = b - a
      in if unat a > length buf \<or> unat b > length buf \<or> b < a then Some (Inl (-1))
         else if n < unit_lowest p + nu - weapon_lowest p then Some (Inl (-2))
         else if \<not> mem Mem_stars then Some (Inl (-3))
         else do {
           t \<leftarrow> bytes_at buf (unat a) (unat n);
           Some (Inr (p\<lparr>star_max := n, star_table := t\<rparr>))
         })"

text \<open>The readers of the versions.\<close>

type_synonym pmt_reader = "(pmt_memory \<Rightarrow> bool) \<Rightarrow> u8 list \<Rightarrow> u32 list \<Rightarrow> pmt \<Rightarrow> (int + pmt) option"

definition read_ptr_tbl :: "u8 list \<Rightarrow> (int + u32 list) option" where "read_ptr_tbl = read_ptr_table False 21"
definition read_gcptr_tbl :: "u8 list \<Rightarrow> (int + u32 list) option" where "read_gcptr_tbl = read_ptr_table True 23"
definition read_bbptr_tbl :: "u8 list \<Rightarrow> (int + u32 list) option" where "read_bbptr_tbl = read_ptr_table False 23"

definition read_v2_weapons :: pmt_reader where "read_v2_weapons = read_weapons v2_layout"
definition read_gc_weapons :: pmt_reader where "read_gc_weapons = read_weapons gc_layout"
definition read_bb_weapons :: pmt_reader where "read_bb_weapons = read_weapons bb_layout"

definition read_v2_guards :: pmt_reader where "read_v2_guards = read_guards v2_layout"
definition read_gc_guards :: pmt_reader where "read_gc_guards = read_guards gc_layout"
definition read_bb_guards :: pmt_reader where "read_bb_guards = read_guards bb_layout"

definition read_v2_units :: pmt_reader where "read_v2_units = read_units v2_layout"
definition read_gc_units :: pmt_reader where "read_gc_units = read_units gc_layout"
definition read_bb_units :: pmt_reader where "read_bb_units = read_units bb_layout"

text \<open>\<open>num_units\<close> is a parameter of the other two versions.\<close>

definition read_v2_stars :: pmt_reader where
  "read_v2_stars mem buf ptrs p = read_stars v2_layout mem (of_nat (length (pmt_units p))) buf ptrs p"
definition read_gc_stars :: "u32 \<Rightarrow> pmt_reader" where "read_gc_stars num_units mem = read_stars gc_layout mem num_units"
definition read_bb_stars :: "u32 \<Rightarrow> pmt_reader" where "read_bb_stars num_units mem = read_stars bb_layout mem num_units"

lemmas pmt_readers = read_v2_weapons_def read_gc_weapons_def read_bb_weapons_def read_v2_guards_def read_gc_guards_def
  read_bb_guards_def read_v2_units_def read_gc_units_def read_bb_units_def read_v2_stars_def read_gc_stars_def read_bb_stars_def

subsection \<open>The readers\<close>

definition no_pmt :: pmt where
  "no_pmt = \<lparr>have_pmt = False, pmt_weapons = [], pmt_guards = [], pmt_units = [], star_table = [], star_max = 0,
     weapon_lowest = 0xFFFFFFFF, unit_lowest = 0xFFFFFFFF, units_by_stars = [], units_with_stars = [], unit_max_stars = 0\<rparr>"

text \<open>A step whose error, whatever it is, ends the reader with the code \<open>e\<close> and what was read before it.\<close>

definition pmt_step :: "int \<Rightarrow> pmt \<Rightarrow> (int + 'a) option \<Rightarrow> ('a \<Rightarrow> (int \<times> pmt) option) \<Rightarrow> (int \<times> pmt) option" where
  "pmt_step e p m f = do { r \<leftarrow> m; case r of Inl _ \<Rightarrow> Some (e, p) | Inr x \<Rightarrow> f x }"

definition pmt_read ::
  "(u8 list \<Rightarrow> (int + u32 list) option) \<Rightarrow> pmt_reader \<Rightarrow> pmt_reader \<Rightarrow> pmt_reader \<Rightarrow> pmt_reader \<Rightarrow>
     (bool \<Rightarrow> bool \<Rightarrow> bool \<Rightarrow> pmt \<Rightarrow> (int \<times> pmt) option) \<Rightarrow>
     heap \<Rightarrow> errno \<Rightarrow> (pmt_memory \<Rightarrow> bool) \<Rightarrow> (nat \<times> u8 list) option \<Rightarrow> bool \<Rightarrow> pmt \<Rightarrow> (int \<times> pmt) option"
where
  "pmt_read rd_ptrs rd_weapons rd_guards rd_units rd_stars build h err mem file norestrict p = do {
     r \<leftarrow> prs_decompress_file h err file False;
     case r of Inl _ \<Rightarrow> Some (-1, p)
     | Inr (ucsz, data) \<Rightarrow>
         let buf = take (nat ucsz) data in
         pmt_step (-9) p (rd_ptrs buf) (\<lambda>ptrs.
         pmt_step (-10) p (rd_weapons mem buf ptrs p) (\<lambda>p.
         pmt_step (-11) p (rd_guards mem buf ptrs p) (\<lambda>p.
         pmt_step (-12) p (rd_units mem buf ptrs p) (\<lambda>p.
         pmt_step (-13) p (rd_stars mem buf ptrs p) (\<lambda>p. do {
           (rv, p) \<leftarrow> build (mem Mem_by_stars) (mem Mem_with_stars) norestrict p;
           Some (if rv \<noteq> 0 then (-14, p) else (0, p\<lparr>have_pmt := True\<rparr>))
         })))))
   }"

definition pmt_read_v2 ::
  "heap \<Rightarrow> errno \<Rightarrow> (pmt_memory \<Rightarrow> bool) \<Rightarrow> (nat \<times> u8 list) option \<Rightarrow> bool \<Rightarrow> pmt \<Rightarrow> (int \<times> pmt) option" where
  "pmt_read_v2 = pmt_read read_ptr_tbl read_v2_weapons read_v2_guards read_v2_units read_v2_stars build_v2_units"

definition pmt_read_gc ::
  "u32 \<Rightarrow> heap \<Rightarrow> errno \<Rightarrow> (pmt_memory \<Rightarrow> bool) \<Rightarrow> (nat \<times> u8 list) option \<Rightarrow> bool \<Rightarrow> pmt \<Rightarrow> (int \<times> pmt) option" where
  "pmt_read_gc num_units =
     pmt_read read_gcptr_tbl read_gc_weapons read_gc_guards read_gc_units (read_gc_stars num_units) build_gc_units"

definition pmt_read_bb ::
  "u32 \<Rightarrow> heap \<Rightarrow> errno \<Rightarrow> (pmt_memory \<Rightarrow> bool) \<Rightarrow> (nat \<times> u8 list) option \<Rightarrow> bool \<Rightarrow> pmt \<Rightarrow> (int \<times> pmt) option" where
  "pmt_read_bb num_units =
     pmt_read read_bbptr_tbl read_bb_weapons read_bb_guards read_bb_units (read_bb_stars num_units) build_bb_units"

end
