(* ===== verification/Drop_Items.thy ===== *)
theory Drop_Items
  imports Drop_Tables
begin

section \<open>Making an item\<close>

text \<open>
  The generators of \<open>ship_server/src/ptdata.c\<close>.  An item is four words; the views of it as bytes and
  as half words (\<open>item_b\<close>, \<open>item_w\<close>) are \<open>put_byte\<close> and \<open>put_half\<close>.  The tables of the two formats
  differ in the width of \<open>percent_pattern\<close> only, which is the parameter of the record; a signed byte
  is a byte that is read with \<open>sint\<close> or \<open>scast\<close>.  A generator returns \<open>None\<close> when it reads outside of a
  table, \<open>Inl\<close> its error code, or \<open>Inr\<close> the item.
\<close>

record 'p pt_entry =
  weapon_ratio :: "u8 list"
  weapon_minrank :: "u8 list"
  weapon_upgfloor :: "u8 list"
  power_pattern :: "u8 list list"
  percent_pattern :: "'p list list"
  area_pattern :: "u8 list list"
  percent_attachment :: "u8 list list"
  element_ranking :: "u8 list"
  element_probability :: "u8 list"
  armor_ranking :: "u8 list"
  slot_ranking :: "u8 list"
  unit_level :: "u8 list"
  tool_frequency :: "u16 list list"
  tech_frequency :: "u8 list list"
  tech_levels :: "u8 list list"
  enemy_dar :: "u8 list"
  enemy_meseta :: "u16 list list"
  enemy_drop :: "u8 list"
  box_meseta :: "u16 list list"
  box_drop :: "u8 list list"
  armor_level :: u32

type_synonym pt_v2_entry = "u8 pt_entry"
type_synonym pt_v3_entry = "u16 pt_entry"

type_synonym made = "((int + u32 list) \<times> mt19937_state) option"

text \<open>
  The way a random number picks an entry of a list of weights: they are subtracted in turn until the
  unsigned number drops below zero, which makes it larger than the limit.
\<close>

primrec pick :: "u32 \<Rightarrow> u32 \<Rightarrow> u32 list \<Rightarrow> nat option" where
  "pick limit rnd [] = None"
| "pick limit rnd (r # rs) = (if rnd - r > limit then Some 0 else map_option Suc (pick limit (rnd - r) rs))"

text \<open>Column \<open>j\<close> of a table, and its entry in row \<open>i\<close>.\<close>

definition column_at :: "'a list list \<Rightarrow> nat \<Rightarrow> 'a list option" where
  "column_at tbl j = those (map (\<lambda>row. at row j) tbl)"

definition entry :: "'a list list \<Rightarrow> nat \<Rightarrow> nat \<Rightarrow> 'a option" where
  "entry tbl i j = do { row \<leftarrow> at tbl i; at row j }"

definition put_byte :: "nat \<Rightarrow> u8 \<Rightarrow> u32 list \<Rightarrow> u32 list" where
  "put_byte n b d =
     (let s = 8 * (n mod 4)
      in d[n div 4 := (d ! (n div 4) AND NOT (push_bit s 0xFF)) OR push_bit s (ucast b)])"

definition put_half :: "nat \<Rightarrow> u16 \<Rightarrow> u32 list \<Rightarrow> u32 list" where
  "put_half n h d =
     (let s = 16 * (n mod 2)
      in d[n div 2 := (d ! (n div 2) AND NOT (push_bit s 0xFFFF)) OR push_bit s (ucast h)])"

definition item_byte :: "u32 list \<Rightarrow> nat \<Rightarrow> u8" where
  "item_byte d n = ucast (drop_bit (8 * (n mod 4)) (d ! (n div 4)))"

subsection \<open>Weapons\<close>

definition attr_list :: "u8 list list" where
  "attr_list =
     [[1, 5, 15, 19, 23, 27, 31, 35, 0, 0, 0, 0],
      [2, 6, 16, 20, 24, 28, 32, 36, 9, 12, 0, 0],
      [3, 7, 17, 21, 25, 29, 33, 37, 10, 12, 13, 39],
      [4, 8, 18, 22, 26, 30, 34, 38, 11, 12, 14, 40]]"

definition attr_count :: "u32 list" where "attr_count = [8, 10, 12, 12]"

text \<open>The loop over the ranks: every full \<open>upg\<close> floors a type of weapon gets one rank better.\<close>

function rank_loop :: "int \<Rightarrow> int \<Rightarrow> int \<Rightarrow> int \<times> int" where
  "rank_loop upg rank warea =
     (if 0 < upg \<and> warea - upg \<ge> 0 then rank_loop upg (rank + 1) (warea - upg) else (rank, warea))"
  by pat_completeness auto
termination by (relation "measure (\<lambda>(upg, rank, warea). nat warea)") auto

declare rank_loop.simps [simp del]

text \<open>
  The types of weapons that can drop in an area, with the rank and the grind pattern each has there.
  \<open>None\<close> is the early return for a type that never gets better.
\<close>

record candidate_weapon =
  cw_type :: nat
  cw_rank :: int
  cw_pattern :: int

primrec weapon_candidates :: "('p, 'z) pt_entry_scheme \<Rightarrow> nat \<Rightarrow> nat list \<Rightarrow> candidate_weapon list option" where
  "weapon_candidates ent area [] = Some []"
| "weapon_candidates ent area (i # is) =
     (let minrank = sint (weapon_minrank ent ! i); upg = sint (weapon_upgfloor ent ! i)
      in if minrank + int area \<ge> 0 \<and> sint (weapon_ratio ent ! i) > 0 then
           if upg \<le> 0 then None
           else do {
             let (rank, warea) = (if minrank \<ge> 0 then rank_loop upg minrank (int area)
                                  else rank_loop upg 0 (minrank + int area));
             ws \<leftarrow> weapon_candidates ent area is;
             Some (\<lparr>cw_type = i, cw_rank = rank, cw_pattern = min warea 3\<rparr> # ws)
           }
         else weapon_candidates ent area is)"

definition semirare :: "u32 list \<Rightarrow> bool" where
  "semirare d \<longleftrightarrow> item_byte d 1 \<ge> 10 \<and> item_byte d 2 > 3 \<or> item_byte d 2 > 4"

text \<open>The part of the generator before \<open>already_picked\<close>: the type, the rank and the grind pattern.\<close>

definition pick_weapon :: "('p, 'z) pt_entry_scheme \<Rightarrow> nat \<Rightarrow> mt19937_state \<Rightarrow> (int + u32 list \<times> nat) \<times> mt19937_state" where
  "pick_weapon ent area g =
     (case weapon_candidates ent area [0..<12] of
        None \<Rightarrow> (Inl (-1), g)
      | Some [] \<Rightarrow> (Inl (-1), g)
      | Some ws \<Rightarrow>
          let ratios = map (\<lambda>x. scast (weapon_ratio ent ! cw_type x)) ws;
              wchance = sum_list ratios;
              (rnd, g) = roll wchance g
          in case pick wchance rnd ratios of
               None \<Rightarrow> (Inl (-1), g)
             | Some k \<Rightarrow>
                 let x = ws ! k
                 in (Inr ([push_bit 8 (of_nat (cw_type x) + 1) OR push_bit 16 (word_of_int (cw_rank x)), 0, 0, 0],
                          nat (cw_pattern x)), g))"

text \<open>The grind value: the row of the power pattern the random number falls into.\<close>

definition set_grind :: "('p, 'z) pt_entry_scheme \<Rightarrow> nat \<Rightarrow> u32 list \<Rightarrow> mt19937_state \<Rightarrow> made" where
  "set_grind ent pattern d g = do {
     let (rnd, g) = roll 100 g;
     col \<leftarrow> column_at (power_pattern ent) pattern;
     Some (case pick 100 rnd (map scast col) of
             None \<Rightarrow> (Inl (-1), g)
           | Some i \<Rightarrow> (Inr (d[0 := d ! 0 OR push_bit 24 (of_nat i)]), g))
   }"

text \<open>
  The percentages.  The state of the loop is the item, the number of percentages it has, and the
  mask of the attributes that have one.
\<close>

definition percent_step ::
  "('p::len word, 'z) pt_entry_scheme \<Rightarrow> u32 \<Rightarrow> nat \<Rightarrow> nat \<Rightarrow> u32 list \<times> nat \<times> u32 \<Rightarrow> mt19937_state \<Rightarrow>
     ((u32 list \<times> nat \<times> u32) \<times> mt19937_state) option"
where
  "percent_step ent limit area i st g = do {
     v \<leftarrow> entry (area_pattern ent) i area;
     if sint v < 0 then Some (st, g)
     else do {
       let (rnd, g) = roll limit g;
       col \<leftarrow> column_at (percent_pattern ent) (nat (sint v));
       case pick limit rnd (map ucast col) of
         None \<Rightarrow> Some (st, g)
       | Some j \<Rightarrow>
           if j = 2 then Some (st, g)
           else do {
             let (rnd, g) = roll 100 g;
             att \<leftarrow> column_at (percent_attachment ent) area;
             Some (case pick 100 rnd (map scast att) of
                     None \<Rightarrow> (st, g)
                   | Some k \<Rightarrow>
                       let (d, npcts, upcts) = st
                       in if k = 0 \<or> upcts AND push_bit k 1 \<noteq> 0 then (st, g)
                          else ((put_byte (2 * npcts + 7) (word_of_int ((int j - 2) * 5))
                                  (put_byte (2 * npcts + 6) (of_nat k) d),
                                 npcts + 1, upcts OR push_bit k 1), g))
           }
     }
   }"

primrec percent_loop ::
  "('p::len word, 'z) pt_entry_scheme \<Rightarrow> u32 \<Rightarrow> nat \<Rightarrow> nat list \<Rightarrow> u32 list \<times> nat \<times> u32 \<Rightarrow> mt19937_state \<Rightarrow>
     (u32 list \<times> mt19937_state) option"
where
  "percent_loop ent limit area [] st g = Some (fst st, g)"
| "percent_loop ent limit area (i # is) st g = do {
     (st, g) \<leftarrow> percent_step ent limit area i st g;
     percent_loop ent limit area is st g
   }"

text \<open>The elemental attribute; it is written over the whole second word of the item.\<close>

definition set_element ::
  "('p, 'z) pt_entry_scheme \<Rightarrow> nat \<Rightarrow> bool \<Rightarrow> bool \<Rightarrow> u32 list \<Rightarrow> mt19937_state \<Rightarrow> (u32 list \<times> mt19937_state) option"
where
  "set_element ent area semi flagged d g = do {
     rank \<leftarrow> at (element_ranking ent) area;
     if \<not> semi \<and> rank \<noteq> 0 then do {
       let (rnd, g) = roll 100 g;
       prob \<leftarrow> at (element_probability ent) area;
       if rnd < scast prob then do {
         n \<leftarrow> (if sint rank < 0 then None else at attr_count (nat (sint rank - 1)));
         let (rnd, g) = roll n g;
         a \<leftarrow> entry attr_list (nat (sint rank - 1)) (unat rnd);
         Some (d[1 := 0x80 OR ucast a], g)
       }
       else Some (d, g)
     }
     else if flagged then Some (d[1 := 0x80], g)
     else Some (d, g)
   }"

definition finish_weapon ::
  "('p::len word, 'z) pt_entry_scheme \<Rightarrow> u32 \<Rightarrow> nat \<Rightarrow> bool \<Rightarrow> bool \<Rightarrow> nat \<Rightarrow> u32 list \<Rightarrow> mt19937_state \<Rightarrow> made"
where
  "finish_weapon ent limit area semi flagged pattern d g = do {
     (r, g) \<leftarrow> set_grind ent pattern d g;
     case r of
       Inl rc \<Rightarrow> Some (Inl rc, g)
     | Inr d \<Rightarrow> do {
         (d, g) \<leftarrow> percent_loop ent limit area [0..<3] (d, 0, 0) g;
         (d, g) \<leftarrow> set_element ent area semi flagged d g;
         Some (Inr d, g)
       }
   }"

text \<open>
  With \<open>picked\<close> the first word of the item is already there (it is a rare item).  \<open>limit\<close> is the sum of
  a column of the percent pattern, and \<open>semi_flag\<close> says whether better weapons get the flag of
  the rare ones.
\<close>

definition generate_weapon ::
  "('p::len word, 'z) pt_entry_scheme \<Rightarrow> u32 \<Rightarrow> bool \<Rightarrow> nat \<Rightarrow> u32 \<Rightarrow> mt19937_state \<Rightarrow> bool \<Rightarrow> made"
where
  "generate_weapon ent limit semi_flag area code g picked =
     (if picked then
        let d = [code, 0, 0, 0]; rare = (item_byte d 1 > 12); semi = (rare \<or> semirare d)
        in finish_weapon ent limit area semi (rare \<or> semi_flag \<and> semi) 3 d g
      else case pick_weapon ent area g of
        (Inl rc, g) \<Rightarrow> Some (Inl rc, g)
      | (Inr (d, pattern), g) \<Rightarrow>
          finish_weapon ent limit area (semirare d) (semi_flag \<and> semirare d) pattern d g)"

definition generate_weapon_v2 :: "pt_v2_entry \<Rightarrow> nat \<Rightarrow> u32 \<Rightarrow> mt19937_state \<Rightarrow> bool \<Rightarrow> bool \<Rightarrow> made" where
  "generate_weapon_v2 ent area code g picked v1 = generate_weapon ent 100 v1 area code g picked"

definition generate_weapon_v3 :: "pt_v3_entry \<Rightarrow> nat \<Rightarrow> u32 \<Rightarrow> mt19937_state \<Rightarrow> bool \<Rightarrow> made" where
  "generate_weapon_v3 ent area code g picked = generate_weapon ent 10000 False area code g picked"

subsection \<open>Frames and barriers\<close>

definition pick_armor :: "('p, 'z) pt_entry_scheme \<Rightarrow> u32 \<Rightarrow> nat \<Rightarrow> mt19937_state \<Rightarrow> (int + u32) \<times> mt19937_state" where
  "pick_armor ent base area g =
     (let (rnd, g) = roll 100 g
      in case pick 100 rnd (map scast (armor_ranking ent)) of
           None \<Rightarrow> (Inl (-1), g)
         | Some i \<Rightarrow>
             let armor = max 0 (sint (armor_level ent) - 3 + int area + int i)
             in (Inr (base OR push_bit 16 (word_of_int armor)), g))"

text \<open>A random boost up to the range of the item, in a half word of it.\<close>

definition boost :: "nat \<Rightarrow> u8 \<Rightarrow> u32 list \<Rightarrow> mt19937_state \<Rightarrow> u32 list \<times> mt19937_state" where
  "boost n rg d g =
     (if rg \<noteq> 0 then let (rnd, g) = roll (ucast rg + 1) g in (put_half n (ucast rnd) d, g) else (d, g))"

definition set_boosts :: "pmt \<Rightarrow> u32 list \<Rightarrow> mt19937_state \<Rightarrow> made" where
  "set_boosts p d g = do {
     r \<leftarrow> pmt_lookup_guard p (d ! 0);
     case r of
       Inl _ \<Rightarrow> Some (Inl (-2), g)
     | Inr gd \<Rightarrow>
         let (d, g) = boost 3 (dfp_range gd) d g; (d, g) = boost 4 (evp_range gd) d g
         in Some (Inr d, g)
   }"

definition set_slots :: "('p, 'z) pt_entry_scheme \<Rightarrow> u32 list \<Rightarrow> mt19937_state \<Rightarrow> u32 list \<times> mt19937_state" where
  "set_slots ent d g =
     (let (rnd, g) = roll 100 g
      in case pick 100 rnd (map scast (slot_ranking ent)) of
           None \<Rightarrow> (d, g)
         | Some i \<Rightarrow> (put_byte 5 (of_nat i) d, g))"

definition generate_armor ::
  "('p, 'z) pt_entry_scheme \<Rightarrow> pmt \<Rightarrow> nat \<Rightarrow> u32 \<Rightarrow> mt19937_state \<Rightarrow> bool \<Rightarrow> made" where
  "generate_armor ent p area code g picked =
     (let (r, g) = (if picked then (Inr code, g) else pick_armor ent 0x00000101 area g)
      in case r of
           Inl rc \<Rightarrow> Some (Inl rc, g)
         | Inr code \<Rightarrow> let (d, g) = set_slots ent [code, 0, 0, 0] g in set_boosts p d g)"

definition generate_shield ::
  "('p, 'z) pt_entry_scheme \<Rightarrow> pmt \<Rightarrow> nat \<Rightarrow> u32 \<Rightarrow> mt19937_state \<Rightarrow> bool \<Rightarrow> made" where
  "generate_shield ent p area code g picked =
     (let (r, g) = (if picked then (Inr code, g) else pick_armor ent 0x00000201 area g)
      in case r of
           Inl rc \<Rightarrow> Some (Inl rc, g)
         | Inr code \<Rightarrow> set_boosts p [code, 0, 0, 0] g)"

definition generate_armor_v2 :: "pt_v2_entry \<Rightarrow> pmt \<Rightarrow> nat \<Rightarrow> u32 \<Rightarrow> mt19937_state \<Rightarrow> bool \<Rightarrow> made" where
  "generate_armor_v2 = generate_armor"

definition generate_armor_v3 :: "pt_v3_entry \<Rightarrow> pmt \<Rightarrow> pmt \<Rightarrow> nat \<Rightarrow> u32 \<Rightarrow> mt19937_state \<Rightarrow> bool \<Rightarrow> bool \<Rightarrow> made" where
  "generate_armor_v3 ent gc bb_tbl area code g picked bb =
     generate_armor ent (if bb then bb_tbl else gc) area code g picked"

definition generate_shield_v2 :: "pt_v2_entry \<Rightarrow> pmt \<Rightarrow> nat \<Rightarrow> u32 \<Rightarrow> mt19937_state \<Rightarrow> bool \<Rightarrow> made" where
  "generate_shield_v2 = generate_shield"

definition generate_shield_v3 :: "pt_v3_entry \<Rightarrow> pmt \<Rightarrow> pmt \<Rightarrow> nat \<Rightarrow> u32 \<Rightarrow> mt19937_state \<Rightarrow> bool \<Rightarrow> bool \<Rightarrow> made" where
  "generate_shield_v3 ent gc bb_tbl area code g picked bb =
     generate_shield ent (if bb then bb_tbl else gc) area code g picked"

subsection \<open>Tools and money\<close>

definition tool_base :: "u32 list" where
  "tool_base =
     [0x000003, 0x010003, 0x020003, 0x000103, 0x010103, 0x020103, 0x000603, 0x010603, 0x000303, 0x000403,
      0x000503, 0x000703, 0x000803, 0x000A03, 0x010A03, 0x020A03, 0x000B03, 0x010B03, 0x020B03, 0x030B03,
      0x040B03, 0x050B03, 0x060B03, 0x070B03, 0x000903, 0x000203, 0x001003, 0xFFFFFF]"

definition Item_Disk_Lv01 :: u32 where "Item_Disk_Lv01 = 0x000203"
definition Item_Photon_Drop :: u32 where "Item_Photon_Drop = 0x001003"
definition Item_NoSuchItem :: u32 where "Item_NoSuchItem = 0xFFFFFF"

definition generate_tool_base :: "u16 list list \<Rightarrow> nat \<Rightarrow> mt19937_state \<Rightarrow> (u32 \<times> mt19937_state) option" where
  "generate_tool_base freqs area g = do {
     let (rnd, g) = roll 10000 g;
     col \<leftarrow> column_at freqs area;
     case pick 10000 rnd (map ucast col) of
       None \<Rightarrow> Some (Item_NoSuchItem, g)
     | Some i \<Rightarrow> do { code \<leftarrow> at tool_base i; Some (code, g) }
   }"

definition generate_tech :: "u8 list list \<Rightarrow> u8 list list \<Rightarrow> nat \<Rightarrow> u32 list \<Rightarrow> mt19937_state \<Rightarrow> made" where
  "generate_tech freqs levels area d g = do {
     let (r, g) = mt19937_genrand_int32 g;
     let tech = r mod 1000;
     let rnd = r div 1000;
     col \<leftarrow> column_at freqs area;
     case pick 1000 tech (map ucast col) of
       None \<Rightarrow> Some (Inl (-1), g)
     | Some i \<Rightarrow> do {
         a \<leftarrow> entry levels i (2 * area);
         b \<leftarrow> entry levels i (2 * area + 1);
         let t1 = (scast a :: u32);
         let t2 = (scast b :: u32);
         Some (if t1 = -1 \<or> t1 > t2 then (Inl (-1), g)
               else
                 let level = (if t1 < t2 then rnd mod (t2 + 1 - t1) + t1 else t1)
                 in (Inr (d[1 := of_nat i, 0 := d ! 0 OR push_bit 16 level]), g))
       }
   }"

definition generate_tool :: "(u32 \<Rightarrow> bool) \<Rightarrow> ('p, 'z) pt_entry_scheme \<Rightarrow> nat \<Rightarrow> mt19937_state \<Rightarrow> made" where
  "generate_tool bad ent area g = do {
     (code, g) \<leftarrow> generate_tool_base (tool_frequency ent) area g;
     if bad code then Some (Inl (-1), g)
     else
       let d = [code, if item_is_stackable code then push_bit 8 1 else 0, 0, 0]
       in if code = Item_Disk_Lv01 then do {
            (r, g) \<leftarrow> generate_tech (tech_frequency ent) (tech_levels ent) area d g;
            Some (case r of Inl _ \<Rightarrow> Inl (-1) | Inr d \<Rightarrow> Inr d, g)
          }
          else Some (Inr d, g)
   }"

definition generate_tool_v2 :: "pt_v2_entry \<Rightarrow> nat \<Rightarrow> mt19937_state \<Rightarrow> made" where
  "generate_tool_v2 ent area g =
     generate_tool (\<lambda>code. code = Item_Photon_Drop \<or> code = Item_NoSuchItem) ent area g"

definition generate_tool_v3 :: "pt_v3_entry \<Rightarrow> nat \<Rightarrow> mt19937_state \<Rightarrow> made" where
  "generate_tool_v3 ent area g = generate_tool (\<lambda>code. code = Item_NoSuchItem) ent area g"

definition generate_meseta :: "u16 \<Rightarrow> u16 \<Rightarrow> mt19937_state \<Rightarrow> (int + u32 list) \<times> mt19937_state" where
  "generate_meseta mn mx g =
     (let (rnd, g) = (if mn < mx then let (r, g) = roll (ucast mx + 1 - ucast mn) g in (r + ucast mn, g)
                      else (ucast mn, g))
      in if rnd \<noteq> 0 then (Inr [0x00000004, 0, 0, rnd], g) else (Inl (-1), g))"

end
