(* ===== verification/Drops.thy ===== *)
theory Drops
  imports Drop_Items Subcmd_Dispatch
begin

section \<open>Drops of monsters and boxes\<close>

text \<open>
  The six drop functions of \<open>ship_server/src/ptdata.c\<close>.  They share their steps: where the player is,
  whether the monster has dropped something or the box was opened, what the quest allows, the rare
  item, and the item from the tables.  What differs from version to version (the generators, the mag,
  how the item is sent) is a record \<open>drop_kit\<close>.  \<open>None\<close> is an access outside of a table or through
  a null pointer.
\<close>

record drop_data =
  v2_ptdata :: "pt_v2_entry list list"
  gc_ptdata :: "pt_v3_entry list list list"
  bb_ptdata :: "pt_v3_entry list list list"
  pmt_v2 :: pmt
  pmt_gc :: pmt
  pmt_bb :: pmt
  have_v2rt :: bool
  have_gcrt :: bool
  v2_rtdata :: "rt_set list list"
  gc_rtdata :: "rt_set list list list"
  quest_rares :: bool
  quest_srares :: bool

text \<open>The functions of \<open>pmtdata.c\<close> for a version read the tables of the version.\<close>

definition pmt_lookup_stars_v2 :: "drop_data \<Rightarrow> u32 \<Rightarrow> u8 option" where
  "pmt_lookup_stars_v2 dd = pmt_lookup_stars (pmt_v2 dd)"
definition pmt_lookup_stars_gc :: "drop_data \<Rightarrow> u32 \<Rightarrow> u8 option" where
  "pmt_lookup_stars_gc dd = pmt_lookup_stars (pmt_gc dd)"
definition pmt_lookup_stars_bb :: "drop_data \<Rightarrow> u32 \<Rightarrow> u8 option" where
  "pmt_lookup_stars_bb dd = pmt_lookup_stars (pmt_bb dd)"

definition pmt_random_unit_v2 :: "drop_data \<Rightarrow> u8 \<Rightarrow> mt19937_state \<Rightarrow> (u32 list \<times> mt19937_state) option" where
  "pmt_random_unit_v2 dd = pmt_random_unit (pmt_v2 dd)"
definition pmt_random_unit_gc :: "drop_data \<Rightarrow> u8 \<Rightarrow> mt19937_state \<Rightarrow> (u32 list \<times> mt19937_state) option" where
  "pmt_random_unit_gc dd = pmt_random_unit (pmt_gc dd)"
definition pmt_random_unit_bb :: "drop_data \<Rightarrow> u8 \<Rightarrow> mt19937_state \<Rightarrow> (u32 list \<times> mt19937_state) option" where
  "pmt_random_unit_bb dd = pmt_random_unit (pmt_bb dd)"

definition entry3 :: "'a list list list \<Rightarrow> int \<Rightarrow> nat \<Rightarrow> nat \<Rightarrow> 'a option" where
  "entry3 t e i j = (if e < 0 then None else do { s \<leftarrow> at t (nat e); entry s i j })"

definition rt_generate_v2_rare ::
  "drop_data \<Rightarrow> lobby \<Rightarrow> nat \<Rightarrow> int \<Rightarrow> int \<Rightarrow> mt19937_state \<Rightarrow> (u32 \<times> mt19937_state) option" where
  "rt_generate_v2_rare dd L sec = rt_generate (have_v2rt dd) (entry (v2_rtdata dd) (unat (difficulty L)) sec)"

definition rt_generate_gc_rare ::
  "drop_data \<Rightarrow> lobby \<Rightarrow> nat \<Rightarrow> int \<Rightarrow> int \<Rightarrow> mt19937_state \<Rightarrow> (u32 \<times> mt19937_state) option" where
  "rt_generate_gc_rare dd L sec =
     rt_generate (have_gcrt dd) (entry3 (gc_rtdata dd) (uint (episode L) - 1) (unat (difficulty L)) sec)"

definition leader_section :: "world \<Rightarrow> lref \<Rightarrow> nat option" where
  "leader_section w l = do {
     s \<leftarrow> at (slots (lob w l)) (unat (leader_id (lob w l)));
     d \<leftarrow> s;
     Some (unat (ch_section (cl w d)))
   }"

definition req_pt_index :: "packet \<Rightarrow> u8" where "req_pt_index p = payload p ! 5"
definition req_req :: "packet \<Rightarrow> u16" where "req_req p = sub_short p 6"

subsection \<open>Sending the item\<close>

definition ITEM_VERSION_V1 :: u32 where "ITEM_VERSION_V1 = 0x01"
definition ITEM_VERSION_V2 :: u32 where "ITEM_VERSION_V2 = 0x02"
definition ITEM_VERSION_GC :: u32 where "ITEM_VERSION_GC = 0x04"

definition limits_version :: "nat \<Rightarrow> u32 option" where
  "limits_version v =
     (if v = CLIENT_VERSION_DCV1 then Some ITEM_VERSION_V1
      else if v = CLIENT_VERSION_DCV2 \<or> v = CLIENT_VERSION_PC then Some ITEM_VERSION_V2
      else if v = CLIENT_VERSION_GC then Some ITEM_VERSION_GC
      else None)"

definition drop_stars :: "drop_data \<Rightarrow> nat \<Rightarrow> u32 \<Rightarrow> u8 option" where
  "drop_stars dd v code =
     (if v \<in> {CLIENT_VERSION_DCV1, CLIENT_VERSION_DCV2, CLIENT_VERSION_PC} then pmt_lookup_stars_v2 dd code
      else if v = CLIENT_VERSION_GC then pmt_lookup_stars_gc dd code
      else Some 0)"

definition as_item :: "u32 list \<Rightarrow> item_t" where
  "as_item d = zero_item\<lparr>data_b := le32_bytes (d ! 0) @ le32_bytes (d ! 1) @ le32_bytes (d ! 2),
     data2_b := le32_bytes (d ! 3)\<rparr>"

text \<open>With limits, a client they do not cover skips the check and the test for stars.\<close>

definition check_and_send ::
  "sub_env \<Rightarrow> drop_data \<Rightarrow> cref \<Rightarrow> lref \<Rightarrow> packet \<Rightarrow> u32 list \<Rightarrow> bool \<Rightarrow> world \<Rightarrow> (int \<times> world) option"
where
  "check_and_send e dd c l req d csr w =
     (let ok = Some (subcmd_send_lobby_item l req d w);
          rest = (if csr then do {
                    stars \<leftarrow> drop_stars dd (l_version (lob w l)) (d ! 0);
                    if stars \<noteq> 0xFF \<and> stars \<ge> 9 then Some (0, w) else ok
                  } else ok)
      in case ship_limits e of
           None \<Rightarrow> rest
         | Some lim \<Rightarrow>
             (case limits_version (version (cl w c)) of
                None \<Rightarrow> ok
              | Some v \<Rightarrow>
                  if \<not> sylverant_limits_check_item (shl1 e) lim (as_item d) v then Some (0, w) else rest))"

definition check_and_send_bb ::
  "sub_env \<Rightarrow> drop_data \<Rightarrow> lref \<Rightarrow> packet \<Rightarrow> u32 list \<Rightarrow> bool \<Rightarrow> world \<Rightarrow> (int \<times> world) option"
where
  "check_and_send_bb e dd l req d csr w = do {
     stars \<leftarrow> (if csr then pmt_lookup_stars_bb dd (d ! 0) else Some 0);
     if csr \<and> stars \<ge> 9 then Some (0, w)
     else do {
       let (it, w) = lobby_add_item_locked (has_mem e) l d w;
       it \<leftarrow> it;
       Some (subcmd_send_bb_lobby_item e l req it w)
     }
   }"

subsection \<open>Where and what\<close>

text \<open>The index of the area in the tables; \<open>Inl\<close> is the return for an area without drops.\<close>

definition area_ep1 :: "int \<Rightarrow> int + int" where
  "area_ep1 area =
     (if area = 11 then Inr (3 - 1) else if area = 12 then Inr (6 - 1) else if area = 13 then Inr (8 - 1)
      else if area = 14 then Inr (10 - 1) else if area > 14 then Inr (10 - 1)
      else if area = 0 then Inl (-1) else Inr (area - 1))"

definition area_ep2 :: "int \<Rightarrow> int + int" where
  "area_ep2 area =
     (if area = 14 then Inr (3 - 1) else if area = 15 then Inr (6 - 1) else if area = 12 then Inr (9 - 1)
      else if area = 13 then Inr (10 - 1) else if area > 10 then Inr (10 - 1)
      else if area = 0 then Inl (-1) else Inr (area - 1))"

definition area_gc :: "u8 \<Rightarrow> int \<Rightarrow> int + int" where
  "area_gc ep area =
     (if ep = 0 \<or> ep = 1 then area_ep1 area else if ep = 2 then area_ep2 area else Inr (area - 1))"

definition search_enemy_list :: "u32 \<Rightarrow> qenemy list \<Rightarrow> u32" where
  "search_enemy_list i list =
     (case List.find (\<lambda>q. q_key q = i) list of Some q \<Rightarrow> q_value q | None \<Rightarrow> 0xFFFFFFFF)"

definition SYLVERANT_QUEST_ENDROP_NONE :: u32 where "SYLVERANT_QUEST_ENDROP_NONE = 0"
definition SYLVERANT_QUEST_ENDROP_NORARE :: u32 where "SYLVERANT_QUEST_ENDROP_NORARE = 1"
definition SYLVERANT_QUEST_ENDROP_PARTIAL :: u32 where "SYLVERANT_QUEST_ENDROP_PARTIAL = 2"
definition SYLVERANT_QUEST_ENDROP_FREE :: u32 where "SYLVERANT_QUEST_ENDROP_FREE = 3"

text \<open>
  What the quest allows: \<open>None\<close> is no drop at all; otherwise whether there may be a rare item, and
  whether items with many stars are held back.
\<close>

definition quest_default :: "drop_data \<Rightarrow> bool \<times> bool" where
  "quest_default dd = (quest_rares dd, \<not> quest_srares dd)"

definition quest_drop :: "drop_data \<Rightarrow> u32 \<Rightarrow> (bool \<times> bool) option" where
  "quest_drop dd qdrop =
     (if qdrop = SYLVERANT_QUEST_ENDROP_NONE then None
      else if qdrop = SYLVERANT_QUEST_ENDROP_NORARE then Some (False, True)
      else if qdrop = SYLVERANT_QUEST_ENDROP_PARTIAL then Some (False, False)
      else if qdrop = SYLVERANT_QUEST_ENDROP_FREE then Some (True, False)
      else Some (quest_default dd))"

definition enemy_quest_v2 :: "drop_data \<Rightarrow> lobby \<Rightarrow> packet \<Rightarrow> (bool \<times> bool) option" where
  "enemy_quest_v2 dd L p =
     (if qid L = 0 then Some (True, False)
      else
        let q = (case mids L of None \<Rightarrow> 0xFFFFFFFF | Some m \<Rightarrow> search_enemy_list (ucast (req_req p)) m);
            q = (if q = 0xFFFFFFFF
                 then case mtypes L of None \<Rightarrow> q | Some m \<Rightarrow> search_enemy_list (ucast (req_pt_index p)) m
                 else q)
        in quest_drop dd q)"

definition box_quest_v2 :: "drop_data \<Rightarrow> lobby \<Rightarrow> packet \<Rightarrow> (bool \<times> bool) option" where
  "box_quest_v2 dd L p =
     (if qid L = 0 then Some (True, False)
      else quest_drop dd (case mtypes L of None \<Rightarrow> 0xFFFFFFFF | Some m \<Rightarrow> search_enemy_list 0x30 m))"

definition quest_gc :: "drop_data \<Rightarrow> lobby \<Rightarrow> packet \<Rightarrow> (bool \<times> bool) option" where
  "quest_gc dd L p = Some (if qid L = 0 then (True, False) else quest_default dd)"

text \<open>An area below zero, which takes an episode no version of the game has, is no index of a table.\<close>

definition area_index :: "int \<Rightarrow> nat option" where
  "area_index area = (if area < 0 then None else Some (nat area))"

subsection \<open>The steps the versions share\<close>

record drop_kit =
  k_weapon :: "nat \<Rightarrow> u32 \<Rightarrow> mt19937_state \<Rightarrow> bool \<Rightarrow> made"
  k_armor :: "nat \<Rightarrow> u32 \<Rightarrow> mt19937_state \<Rightarrow> bool \<Rightarrow> made"
  k_shield :: "nat \<Rightarrow> u32 \<Rightarrow> mt19937_state \<Rightarrow> bool \<Rightarrow> made"
  k_unit :: "u8 \<Rightarrow> mt19937_state \<Rightarrow> (u32 list \<times> mt19937_state) option"
  k_tool :: "nat \<Rightarrow> mt19937_state \<Rightarrow> made"
  k_mag :: "u32 list"
  k_rare :: "int \<Rightarrow> int \<Rightarrow> mt19937_state \<Rightarrow> (u32 \<times> mt19937_state) option"
  k_send :: "u32 list \<Rightarrow> bool \<Rightarrow> world \<Rightarrow> (int \<times> world) option"

text \<open>An item that was made is sent; an error of its generator means no drop.\<close>

definition deliver :: "drop_kit \<Rightarrow> bool \<Rightarrow> world \<Rightarrow> made \<Rightarrow> (int \<times> world) option" where
  "deliver k csr w m = do {
     (r, g) \<leftarrow> m;
     case r of Inl _ \<Rightarrow> Some (0, set_rng g w) | Inr d \<Rightarrow> k_send k d csr (set_rng g w)
   }"

definition unit_made :: "drop_kit \<Rightarrow> ('p, 'z) pt_entry_scheme \<Rightarrow> nat \<Rightarrow> mt19937_state \<Rightarrow> made" where
  "unit_made k ent area g = do {
     mx \<leftarrow> at (unit_level ent) area;
     (d, g) \<leftarrow> k_unit k mx g;
     Some (Inr d, g)
   }"

text \<open>
  A rare item gets what its type needs.  The words after the first of a rare unit are whatever the
  stack holds; they are the parameter \<open>stack\<close>.
\<close>

definition rare_item :: "drop_kit \<Rightarrow> u32 list \<Rightarrow> nat \<Rightarrow> u32 \<Rightarrow> mt19937_state \<Rightarrow> made" where
  "rare_item k stack area code g =
     (let t = code AND 0xFF; u = drop_bit 8 code AND 0xFF
      in if t = 0 then k_weapon k area code g True
         else if t = 1 then
           (if u = 1 then k_armor k area code g True
            else if u = 2 then k_shield k area code g True
            else if u = 3 then Some (Inr (code # stack), g)
            else Some (Inl 0, g))
         else if t = 2 then Some (Inr (k_mag k), g)
         else if t = 3 then Some (Inr [code, if item_is_stackable code then push_bit 8 1 else 0, 0, 0], g)
         else Some (Inl 0, g))"

text \<open>Monsters: a third each for the item of the monster, a tool, and money.\<close>

definition enemy_item ::
  "drop_kit \<Rightarrow> ('p, 'z) pt_entry_scheme \<Rightarrow> nat \<Rightarrow> nat \<Rightarrow> mt19937_state \<Rightarrow> made"
where
  "enemy_item k ent area pt g = do {
     let (rnd, g) = roll 3 g;
     if rnd = 0 then do {
       t \<leftarrow> at (enemy_drop ent) pt;
       if t = 0 then k_weapon k area 0 g False
       else if t = 1 then k_armor k area 0 g False
       else if t = 2 then k_shield k area 0 g False
       else if t = 3 then unit_made k ent area g
       else Some (Inl 0, g)
     }
     else if rnd = 1 then k_tool k area g
     else do {
       mn \<leftarrow> entry (enemy_meseta ent) pt 0;
       mx \<leftarrow> entry (enemy_meseta ent) pt 1;
       Some (generate_meseta mn mx g)
     }
   }"

definition enemy_part ::
  "drop_kit \<Rightarrow> ('p, 'z) pt_entry_scheme \<Rightarrow> (lobby \<Rightarrow> packet \<Rightarrow> (bool \<times> bool) option) \<Rightarrow> u32 list \<Rightarrow>
     lref \<Rightarrow> nat \<Rightarrow> packet \<Rightarrow> world \<Rightarrow> (int \<times> world) option"
where
  "enemy_part k ent quest stack l area p w = do {
     let pt = unat (req_pt_index p);
     en \<leftarrow> map_enemies (lob w l);
     let mid = unat (req_req p);
     if mid > length en then Some (-1, w)
     else do {
       x \<leftarrow> at en mid;
       if drop_done x \<noteq> 0 then Some (0, w)
       else do {
         let w = upd_lobby l (\<lambda>L. L\<lparr>map_enemies := Some (en[mid := x\<lparr>drop_done := 1\<rparr>])\<rparr>) w;
         let (rnd, g) = roll 100 (rng w);
         let w = set_rng g w;
         dar \<leftarrow> at (enemy_dar ent) pt;
         if rnd \<ge> scast dar then Some (0, w)
         else case quest (lob w l) p of
           None \<Rightarrow> Some (0, w)
         | Some (do_rare, csr) \<Rightarrow> do {
             (code, g) \<leftarrow> (if do_rare then k_rare k (int pt) 0 g else Some (0, g));
             if code \<noteq> 0 then deliver k csr w (rare_item k stack area code g)
             else deliver k csr w (enemy_item k ent area pt g)
           }
       }
     }
   }"

text \<open>
  Boxes.  The test of a word of the object for the float 1, up to a tolerance of a thousandth, is a
  comparison of the bits, since those of positive floats are ordered as the floats are, and those of
  all other floats are above: the bounds are the bits of \<open>1.0f - EPSILON\<close> and \<open>1.0f + EPSILON\<close>.
\<close>

definition about_one :: "u32 \<Rightarrow> bool" where
  "about_one f \<longleftrightarrow> 0x3F7FBE77 < f \<and> f < 0x3F8020C5"

definition ntohl :: "u32 \<Rightarrow> u32" where
  "ntohl x = le32_of (ucast (drop_bit 24 x)) (ucast (drop_bit 16 x)) (ucast (drop_bit 8 x)) (ucast x)"

definition fixed_item :: "map_object \<Rightarrow> u32 list" where
  "fixed_item x =
     (let code = ntohl (o_dword x ! 2)
      in [code, if item_is_stackable code then push_bit 8 1 else 0, 0,
          if code = 0x00000004 then drop_bit 16 (o_dword x ! 3) * 10 else 0])"

text \<open>The kinds of items a box holds, in the order of the rows of \<open>box_drop\<close>.\<close>

definition box_kind ::
  "drop_kit \<Rightarrow> ('p, 'z) pt_entry_scheme \<Rightarrow> nat \<Rightarrow> nat \<Rightarrow> mt19937_state \<Rightarrow> made"
where
  "box_kind k ent area n g =
     (if n = 0 then k_weapon k area 0 g False
      else if n = 1 then k_armor k area 0 g False
      else if n = 2 then k_shield k area 0 g False
      else if n = 3 then unit_made k ent area g
      else if n = 4 then k_tool k area g
      else if n = 5 then do {
        mn \<leftarrow> entry (box_meseta ent) area 0;
        mx \<leftarrow> entry (box_meseta ent) area 1;
        Some (generate_meseta mn mx g)
      }
      else Some (Inl 0, g))"

definition box_item ::
  "drop_kit \<Rightarrow> ('p, 'z) pt_entry_scheme \<Rightarrow> nat \<Rightarrow> mt19937_state \<Rightarrow> made"
where
  "box_item k ent area g = do {
     let (rnd, g) = roll 100 g;
     col \<leftarrow> column_at (take 6 (box_drop ent)) area;
     case pick 100 rnd (map ucast col) of
       None \<Rightarrow> Some (Inl 0, g)
     | Some n \<Rightarrow> box_kind k ent area n g
   }"

definition fixed_kind :: "u32 \<Rightarrow> nat option" where
  "fixed_kind t =
     (let t = t AND 0xFF in
      if t = 0 then Some 0 else if t = 1 then Some 1 else if t = 3 then Some 4 else if t = 4 then Some 5 else None)"

definition box_part ::
  "drop_kit \<Rightarrow> ('p, 'z) pt_entry_scheme \<Rightarrow> (lobby \<Rightarrow> packet \<Rightarrow> (bool \<times> bool) option) \<Rightarrow> (int \<Rightarrow> int + int) \<Rightarrow>
     u32 list \<Rightarrow> lref \<Rightarrow> cref \<Rightarrow> packet \<Rightarrow> world \<Rightarrow> (int \<times> world) option"
where
  "box_part k ent quest area_of stack l c p w =
     (if req_pt_index p \<noteq> 0x30 then Some (-1, w)
      else do {
        objs \<leftarrow> map_objs (lob w l);
        let i = unat (req_req p);
        if i > length objs then Some (-1, w)
        else do {
          x \<leftarrow> at objs i;
          if has_flag (obj_flags x) 1 then Some (0, w)
          else case area_of (uint (cur_area (cl w c))) of
            Inl rc \<Rightarrow> Some (rc, w)
          | Inr area \<Rightarrow> do {
              let w = upd_lobby l (\<lambda>L. L\<lparr>map_objs := Some (objs[i := x\<lparr>obj_flags := obj_flags x OR 1\<rparr>])\<rparr>) w;
              let obj = obj_data x;
              case quest (lob w l) p of
                None \<Rightarrow> Some (0, w)
              | Some (do_rare, csr) \<Rightarrow>
                  if (o_skin obj = 0x00000092 \<or> o_skin obj = 0x00000161) \<and> about_one (o_dword obj ! 0) then
                    if about_one (o_dword obj ! 1) then k_send k (fixed_item obj) csr w
                    else case fixed_kind (ntohl (o_dword obj ! 2)) of
                      None \<Rightarrow> Some (0, w)
                    | Some n \<Rightarrow> do {
                        ix \<leftarrow> area_index area;
                        deliver k csr w (box_kind k ent ix n (rng w))
                      }
                  else do {
                    (code, g) \<leftarrow> (if do_rare then k_rare k (-1) (area + 1) (rng w) else Some (0, rng w));
                    ix \<leftarrow> area_index area;
                    if code \<noteq> 0 then deliver k csr w (rare_item k stack ix code g)
                    else deliver k csr w (box_item k ent ix g)
                  }
            }
        }
      })"

subsection \<open>The functions of the versions\<close>

definition v2_kit :: "sub_env \<Rightarrow> drop_data \<Rightarrow> cref \<Rightarrow> lref \<Rightarrow> packet \<Rightarrow> pt_v2_entry \<Rightarrow> nat \<Rightarrow> lobby \<Rightarrow> drop_kit" where
  "v2_kit e dd c l p ent sec L = \<lparr>
     k_weapon = (\<lambda>area code g picked. generate_weapon_v2 ent area code g picked (l_version L = CLIENT_VERSION_DCV1)),
     k_armor = generate_armor_v2 ent (pmt_v2 dd),
     k_shield = generate_shield_v2 ent (pmt_v2 dd),
     k_unit = pmt_random_unit_v2 dd,
     k_tool = generate_tool_v2 ent,
     k_mag = [0x00050002, 0x000101F4, 0x00010001, 0x00280000],
     k_rare = rt_generate_v2_rare dd L sec,
     k_send = check_and_send e dd c l p\<rparr>"

definition pt_generate_v2_boxdrop ::
  "sub_env \<Rightarrow> drop_data \<Rightarrow> u32 list \<Rightarrow> cref \<Rightarrow> lref \<Rightarrow> packet \<Rightarrow> world \<Rightarrow> (int \<times> world) option"
where
  "pt_generate_v2_boxdrop e dd stack c l p w = do {
     sec \<leftarrow> leader_section w l;
     ent \<leftarrow> entry (v2_ptdata dd) (unat (difficulty (lob w l))) sec;
     box_part (v2_kit e dd c l p ent sec (lob w l)) ent (box_quest_v2 dd) area_ep1 stack l c p w
   }"

definition pt_generate_v2_drop ::
  "sub_env \<Rightarrow> drop_data \<Rightarrow> u32 list \<Rightarrow> cref \<Rightarrow> lref \<Rightarrow> packet \<Rightarrow> world \<Rightarrow> (int \<times> world) option"
where
  "pt_generate_v2_drop e dd stack c l p w = do {
     sec \<leftarrow> leader_section w l;
     ent \<leftarrow> entry (v2_ptdata dd) (unat (difficulty (lob w l))) sec;
     if req_pt_index p > 0x33 then Some (-1, w)
     else if req_pt_index p = 0x30 then pt_generate_v2_boxdrop e dd stack c l p w
     else case area_ep1 (uint (cur_area (cl w c))) of
       Inl rc \<Rightarrow> Some (rc, w)
     | Inr area \<Rightarrow> do {
         ix \<leftarrow> area_index area;
         enemy_part (v2_kit e dd c l p ent sec (lob w l)) ent (enemy_quest_v2 dd) stack l ix p w
       }
   }"

definition gc_kit :: "sub_env \<Rightarrow> drop_data \<Rightarrow> cref \<Rightarrow> lref \<Rightarrow> packet \<Rightarrow> pt_v3_entry \<Rightarrow> nat \<Rightarrow> lobby \<Rightarrow> drop_kit" where
  "gc_kit e dd c l p ent sec L = \<lparr>
     k_weapon = generate_weapon_v3 ent,
     k_armor = (\<lambda>area code g picked. generate_armor_v3 ent (pmt_gc dd) (pmt_bb dd) area code g picked False),
     k_shield = (\<lambda>area code g picked. generate_shield_v3 ent (pmt_gc dd) (pmt_bb dd) area code g picked False),
     k_unit = pmt_random_unit_gc dd,
     k_tool = generate_tool_v3 ent,
     k_mag = [0x00050002, 0x000001F4, 0x00000000, 0x280000FF],
     k_rare = rt_generate_gc_rare dd L sec,
     k_send = check_and_send e dd c l p\<rparr>"

definition pt_generate_gc_boxdrop ::
  "sub_env \<Rightarrow> drop_data \<Rightarrow> u32 list \<Rightarrow> cref \<Rightarrow> lref \<Rightarrow> packet \<Rightarrow> world \<Rightarrow> (int \<times> world) option"
where
  "pt_generate_gc_boxdrop e dd stack c l p w = do {
     sec \<leftarrow> leader_section w l;
     ent \<leftarrow> entry3 (gc_ptdata dd) (uint (episode (lob w l))) (unat (difficulty (lob w l))) sec;
     box_part (gc_kit e dd c l p ent sec (lob w l)) ent (quest_gc dd) (area_gc (episode (lob w l))) stack l c p w
   }"

definition pt_generate_gc_drop ::
  "sub_env \<Rightarrow> drop_data \<Rightarrow> u32 list \<Rightarrow> cref \<Rightarrow> lref \<Rightarrow> packet \<Rightarrow> world \<Rightarrow> (int \<times> world) option"
where
  "pt_generate_gc_drop e dd stack c l p w = do {
     sec \<leftarrow> leader_section w l;
     ent \<leftarrow> entry3 (gc_ptdata dd) (uint (episode (lob w l)) - 1) (unat (difficulty (lob w l))) sec;
     if req_pt_index p = 0x30 then pt_generate_gc_boxdrop e dd stack c l p w
     else case area_gc (episode (lob w l)) (uint (cur_area (cl w c))) of
       Inl rc \<Rightarrow> Some (rc, w)
     | Inr area \<Rightarrow> do {
         ix \<leftarrow> area_index area;
         enemy_part (gc_kit e dd c l p ent sec (lob w l)) ent (quest_gc dd) stack l ix p w
       }
   }"

text \<open>Rare items of Blue Burst come from the table of the GameCube version.\<close>

definition bb_kit :: "sub_env \<Rightarrow> drop_data \<Rightarrow> cref \<Rightarrow> lref \<Rightarrow> packet \<Rightarrow> pt_v3_entry \<Rightarrow> nat \<Rightarrow> lobby \<Rightarrow> drop_kit" where
  "bb_kit e dd c l p ent sec L = \<lparr>
     k_weapon = generate_weapon_v3 ent,
     k_armor = (\<lambda>area code g picked. generate_armor_v3 ent (pmt_gc dd) (pmt_bb dd) area code g picked True),
     k_shield = (\<lambda>area code g picked. generate_shield_v3 ent (pmt_gc dd) (pmt_bb dd) area code g picked True),
     k_unit = pmt_random_unit_bb dd,
     k_tool = generate_tool_v3 ent,
     k_mag = [0x00050002, 0x000001F4, 0x00000000, 0xFF000028],
     k_rare = rt_generate_gc_rare dd L sec,
     k_send = check_and_send_bb e dd l p\<rparr>"

definition pt_generate_bb_boxdrop ::
  "sub_env \<Rightarrow> drop_data \<Rightarrow> u32 list \<Rightarrow> cref \<Rightarrow> lref \<Rightarrow> packet \<Rightarrow> world \<Rightarrow> (int \<times> world) option"
where
  "pt_generate_bb_boxdrop e dd stack c l p w = do {
     sec \<leftarrow> leader_section w l;
     if episode (lob w l) = 3 then Some (0, w)
     else do {
       ent \<leftarrow> entry3 (bb_ptdata dd) (uint (episode (lob w l))) (unat (difficulty (lob w l))) sec;
       box_part (bb_kit e dd c l p ent sec (lob w l)) ent (quest_gc dd) (area_gc (episode (lob w l))) stack l c p w
     }
   }"

definition pt_generate_bb_drop ::
  "sub_env \<Rightarrow> drop_data \<Rightarrow> u32 list \<Rightarrow> cref \<Rightarrow> lref \<Rightarrow> packet \<Rightarrow> world \<Rightarrow> (int \<times> world) option"
where
  "pt_generate_bb_drop e dd stack c l p w = do {
     sec \<leftarrow> leader_section w l;
     if episode (lob w l) = 3 then Some (0, w)
     else do {
       ent \<leftarrow> entry3 (bb_ptdata dd) (uint (episode (lob w l)) - 1) (unat (difficulty (lob w l))) sec;
       if req_pt_index p = 0x30 then pt_generate_bb_boxdrop e dd stack c l p w
       else case area_gc (episode (lob w l)) (uint (cur_area (cl w c))) of
         Inl rc \<Rightarrow> Some (rc, w)
       | Inr area \<Rightarrow> do {
           ix \<leftarrow> area_index area;
           enemy_part (bb_kit e dd c l p ent sec (lob w l)) ent (quest_gc dd) stack l ix p w
         }
     }
   }"

definition pt_drop ::
  "sub_env \<Rightarrow> drop_data \<Rightarrow> u32 list \<Rightarrow> drop_function \<Rightarrow> cref \<Rightarrow> lref \<Rightarrow> packet \<Rightarrow> world \<Rightarrow> (int \<times> world) option"
where
  "pt_drop e dd stack f c l p w =
     (case f of
        Pt_v2_drop \<Rightarrow> pt_generate_v2_drop e dd stack c l p w
      | Pt_gc_drop \<Rightarrow> pt_generate_gc_drop e dd stack c l p w
      | Pt_bb_drop \<Rightarrow> pt_generate_bb_drop e dd stack c l p w
      | Td \<Rightarrow> Some (td l p w)
      | No_drops \<Rightarrow> None)"

text \<open>
  The drop functions as the dispatchers of the subcommands call them: for the lobby of the client, whose
  mutex is held.  \<open>check_and_send_bb\<close> takes it again before it makes the item, so for Blue Burst a call
  that gets as far as taking an item number is \<open>None\<close>.
\<close>

definition pt_drops :: "sub_env \<Rightarrow> drop_data \<Rightarrow> u32 list \<Rightarrow> drop_functions" where
  "pt_drops e dd stack f c p w =
     (let l = lobby_of w c
      in if lobbies w l = None then None
         else Option.bind (pt_drop e dd stack f c l p w) (\<lambda>(r, w').
           if f = Pt_bb_drop \<and> l_item_id (lob w' l) \<noteq> l_item_id (lob w l) then None else Some (r, w')))"

end
