(* ===== verification/Pt_Read.thy ===== *)
theory Pt_Read
  imports Pmt_Read Drops
begin

section \<open>Reading the drop tables\<close>

text \<open>
  The readers of \<open>ptdata.c\<close> and \<open>rtdata.c\<close> for the ItemPT and ItemRT files, and the order in which
  \<open>ship_server.c\<close> reads all of them.  A file is \<open>None\<close> when it cannot be opened, and otherwise its bytes.
  A seek does not fail, and a read fails when the file does not have the bytes.  When a reader fails
  the flag that the tables are there is not set, and what it has read already is never looked at.
\<close>

primrec collect :: "(nat \<Rightarrow> int + 'a) \<Rightarrow> nat list \<Rightarrow> int + 'a list" where
  "collect f [] = Inr []"
| "collect f (i # is) =
     (case f i of Inl e \<Rightarrow> Inl e
      | Inr x \<Rightarrow> (case collect f is of Inl e \<Rightarrow> Inl e | Inr xs \<Rightarrow> Inr (x # xs)))"

definition file_bytes :: "u8 list \<Rightarrow> nat \<Rightarrow> nat \<Rightarrow> int + u8 list" where
  "file_bytes f pos n = (case bytes_at f pos n of None \<Rightarrow> Inl (-2) | Some b \<Rightarrow> Inr b)"

subsection \<open>The headers of the archives\<close>

definition afs_entry :: "u8 list \<Rightarrow> u8 list \<Rightarrow> nat \<Rightarrow> int + u32" where
  "afs_entry esz f i =
     (case file_bytes f (8 + 8 * i) 4 of Inl e \<Rightarrow> Inl e
      | Inr off \<Rightarrow>
          (case file_bytes f (8 + 8 * i + 4) 4 of Inl e \<Rightarrow> Inl e
           | Inr sz \<Rightarrow> if sz \<noteq> esz then Inl 5 else Inr (word_of False off 0)))"

definition afs_offsets :: "u8 list \<Rightarrow> u8 list \<Rightarrow> int + u32 list" where
  "afs_offsets esz f =
     (case file_bytes f 0 4 of Inl e \<Rightarrow> Inl e
      | Inr m \<Rightarrow>
          if m \<noteq> [0x41, 0x46, 0x53, 0x00] then Inl (-3)
          else (case file_bytes f 4 4 of Inl e \<Rightarrow> Inl e
                | Inr n \<Rightarrow> if n \<noteq> [40, 0, 0, 0] then Inl (-4) else collect (afs_entry esz f) [0..<40]))"

text \<open>The entries of a GSL archive have 48 bytes: a name, the place in blocks of 2048 bytes, the size, padding.\<close>

definition gsl_entry :: "u8 list \<Rightarrow> u8 list \<Rightarrow> nat \<Rightarrow> int + u32" where
  "gsl_entry esz f i =
     (case file_bytes f (48 * i + 32) 4 of Inl e \<Rightarrow> Inl e
      | Inr off \<Rightarrow>
          (case file_bytes f (48 * i + 36) 4 of Inl e \<Rightarrow> Inl e
           | Inr sz \<Rightarrow> if sz \<noteq> esz then Inl 5 else Inr (push_bit 11 (word_of True off 0))))"

definition gsl_offsets :: "u8 list \<Rightarrow> u8 list \<Rightarrow> int + u32 list" where
  "gsl_offsets esz f = collect (gsl_entry esz f) [0..<80]"

subsection \<open>ItemPT\<close>

definition row_at :: "u8 list \<Rightarrow> nat \<Rightarrow> nat \<Rightarrow> u8 list" where
  "row_at b off n = take n (drop off b)"

definition rows_at :: "u8 list \<Rightarrow> nat \<Rightarrow> nat \<Rightarrow> nat \<Rightarrow> u8 list list" where
  "rows_at b off m n = map (\<lambda>i. row_at b (off + n * i) n) [0..<m]"

definition half_rows_at :: "bool \<Rightarrow> u8 list \<Rightarrow> nat \<Rightarrow> nat \<Rightarrow> nat \<Rightarrow> u16 list list" where
  "half_rows_at big b off m n = map (\<lambda>i. map (\<lambda>j. half_of big b (off + 2 * (n * i + j))) [0..<n]) [0..<m]"

definition pt_v2_of :: "u8 list \<Rightarrow> pt_v2_entry" where
  "pt_v2_of b =
    \<lparr>weapon_ratio = row_at b 0x0000 12, weapon_minrank = row_at b 0x000C 12, weapon_upgfloor = row_at b 0x0018 12,
     power_pattern = rows_at b 0x0024 9 4, percent_pattern = rows_at b 0x0048 23 5, area_pattern = rows_at b 0x00BB 3 10,
     percent_attachment = rows_at b 0x00D9 6 10, element_ranking = row_at b 0x0115 10,
     element_probability = row_at b 0x011F 10, armor_ranking = row_at b 0x0129 5, slot_ranking = row_at b 0x012E 5,
     unit_level = row_at b 0x0133 10, tool_frequency = half_rows_at False b 0x013E 28 10,
     tech_frequency = rows_at b 0x036E 19 10, tech_levels = rows_at b 0x042C 19 20, enemy_dar = row_at b 0x05A8 100,
     enemy_meseta = half_rows_at False b 0x060C 100 2, enemy_drop = row_at b 0x079C 100,
     box_meseta = half_rows_at False b 0x0800 10 2, box_drop = rows_at b 0x0828 7 10,
     armor_level = word_of False b 0x08B8\<rparr>"

definition pt_v3_of :: "u8 list \<Rightarrow> pt_v3_entry" where
  "pt_v3_of b =
    \<lparr>weapon_ratio = row_at b 0x0000 12, weapon_minrank = row_at b 0x000C 12, weapon_upgfloor = row_at b 0x0018 12,
     power_pattern = rows_at b 0x0024 9 4, percent_pattern = half_rows_at True b 0x0048 23 6,
     area_pattern = rows_at b 0x015C 3 10, percent_attachment = rows_at b 0x017A 6 10,
     element_ranking = row_at b 0x01B6 10, element_probability = row_at b 0x01C0 10, armor_ranking = row_at b 0x01CA 5,
     slot_ranking = row_at b 0x01CF 5, unit_level = row_at b 0x01D4 10, tool_frequency = half_rows_at True b 0x01DE 28 10,
     tech_frequency = rows_at b 0x040E 19 10, tech_levels = rows_at b 0x04CC 19 20, enemy_dar = row_at b 0x0648 100,
     enemy_meseta = half_rows_at True b 0x06AC 100 2, enemy_drop = row_at b 0x083C 100,
     box_meseta = half_rows_at True b 0x08A0 10 2, box_drop = rows_at b 0x08C8 7 10,
     armor_level = word_of True b 0x0958\<rparr>"

text \<open>\<open>n\<close> bytes at each offset of a table of 4 difficulties and 10 sections, which starts at entry \<open>k\<close>.\<close>

definition entries_of :: "u8 list \<Rightarrow> u32 list \<Rightarrow> nat \<Rightarrow> nat \<Rightarrow> (nat \<Rightarrow> u8 list \<Rightarrow> 'a) \<Rightarrow> int + 'a list list" where
  "entries_of f offs k n decode =
     collect (\<lambda>i. collect (\<lambda>j. case file_bytes f (unat (offs ! (k + i * 10 + j))) n of
       Inl e \<Rightarrow> Inl e | Inr b \<Rightarrow> Inr (decode j b)) [0..<10]) [0..<4]"

definition pt_read_v2 :: "u8 list option \<Rightarrow> drop_data \<Rightarrow> int \<times> drop_data" where
  "pt_read_v2 fn dd =
     (case fn of None \<Rightarrow> (-1, dd)
      | Some f \<Rightarrow>
          (case afs_offsets [0x40, 0x09, 0, 0] f of Inl e \<Rightarrow> (e, dd)
           | Inr offs \<Rightarrow>
               (case entries_of f offs 0 0x8BC (\<lambda>_. pt_v2_of) of Inl e \<Rightarrow> (e, dd)
                | Inr t \<Rightarrow> (0, dd\<lparr>v2_ptdata := t\<rparr>))))"

definition pt_read_v3 :: "u8 list option \<Rightarrow> bool \<Rightarrow> drop_data \<Rightarrow> int \<times> drop_data" where
  "pt_read_v3 fn bb dd =
     (case fn of None \<Rightarrow> (-1, dd)
      | Some f \<Rightarrow>
          (case gsl_offsets [0, 0, 0x09, 0xE0] f of Inl e \<Rightarrow> (e, dd)
           | Inr offs \<Rightarrow>
               (case collect (\<lambda>i. entries_of f offs (i * 40) 0x95C (\<lambda>_. pt_v3_of)) [0..<2] of Inl e \<Rightarrow> (e, dd)
                | Inr t \<Rightarrow> (0, if bb then dd\<lparr>bb_ptdata := t\<rparr> else dd\<lparr>gc_ptdata := t\<rparr>))))"

subsection \<open>ItemRT\<close>

text \<open>
  101 entries of enemies, the areas of the boxes, and 30 entries of boxes.  The area of box \<open>l\<close> is byte
  \<open>area l\<close> of the areas.
\<close>

definition rt_data_of :: "u8 list \<Rightarrow> nat \<Rightarrow> u32 \<Rightarrow> rt_data" where
  "rt_data_of b pos area = \<lparr>rt_prob = expand_rate (b ! pos), rt_item = le32_of (b ! (pos + 1)) (b ! (pos + 2)) (b ! (pos + 3)) 0,
     rt_area = area\<rparr>"

definition rt_set_of :: "(nat \<Rightarrow> nat) \<Rightarrow> u8 list \<Rightarrow> rt_set" where
  "rt_set_of area b =
     \<lparr>enemy_rares = map (\<lambda>k. rt_data_of b (4 * k) 0) [0..<0x65],
      box_rares = map (\<lambda>l. rt_data_of b (434 + 4 * l) (ucast (b ! (404 + area l)))) [0..<30]\<rparr>"

definition rt_read_v2 :: "u8 list option \<Rightarrow> drop_data \<Rightarrow> int \<times> drop_data" where
  "rt_read_v2 fn dd =
     (let dd = dd\<lparr>have_v2rt := False\<rparr> in
      case fn of None \<Rightarrow> (-1, dd)
      | Some f \<Rightarrow>
          (case afs_offsets [0x80, 0x02, 0, 0] f of Inl e \<Rightarrow> (e, dd)
           | Inr offs \<Rightarrow>
               (case entries_of f offs 0 554 (\<lambda>_. rt_set_of (\<lambda>l. l)) of Inl e \<Rightarrow> (e, dd)
                | Inr t \<Rightarrow> (0, dd\<lparr>v2_rtdata := t, have_v2rt := True\<rparr>))))"

text \<open>Here the index of the area is that of the section, the same for all boxes.\<close>

definition rt_read_gc :: "u8 list option \<Rightarrow> drop_data \<Rightarrow> int \<times> drop_data" where
  "rt_read_gc fn dd =
     (let dd = dd\<lparr>have_gcrt := False\<rparr> in
      case fn of None \<Rightarrow> (-1, dd)
      | Some f \<Rightarrow>
          (case gsl_offsets [0, 0, 0x02, 0x80] f of Inl e \<Rightarrow> (e, dd)
           | Inr offs \<Rightarrow>
               (case collect (\<lambda>i. entries_of f offs (i * 40) 554 (\<lambda>k. rt_set_of (\<lambda>_. k))) [0..<2] of Inl e \<Rightarrow> (e, dd)
                | Inr t \<Rightarrow> (0, dd\<lparr>gc_rtdata := t, have_gcrt := True\<rparr>))))"

subsection \<open>What the ship reads when it starts\<close>

text \<open>
  The files of the configuration; one that is not configured is \<open>None\<close>.  \<open>PMT_LIMIT\<close> flags are tested
  with \<open>!flags & LIMIT\<close>, which negates first: the result is the lowest bit of \<open>LIMIT\<close> when no flag at
  all is set, and zero otherwise.
\<close>

record item_files =
  v2_ptdata_file :: "u8 list option option"
  gc_ptdata_file :: "u8 list option option"
  bb_ptdata_file :: "u8 list option option"
  v2_pmtdata_file :: "(nat \<times> u8 list) option option"
  gc_pmtdata_file :: "(nat \<times> u8 list) option option"
  bb_pmtdata_file :: "(nat \<times> u8 list) option option"
  v2_rtdata_file :: "u8 list option option"
  gc_rtdata_file :: "u8 list option option"
  local_flags :: u32

definition SYLVERANT_SHIP_PMT_LIMITV2 :: u32 where "SYLVERANT_SHIP_PMT_LIMITV2 = 0x00000001"
definition SYLVERANT_SHIP_PMT_LIMITGC :: u32 where "SYLVERANT_SHIP_PMT_LIMITGC = 0x00000002"
definition SYLVERANT_SHIP_PMT_LIMITBB :: u32 where "SYLVERANT_SHIP_PMT_LIMITBB = 0x00000010"

definition norestrict_flag :: "item_files \<Rightarrow> u32 \<Rightarrow> bool" where
  "norestrict_flag cfg lim \<longleftrightarrow> (if local_flags cfg = 0 then 1 else 0) AND lim \<noteq> 0"

definition try_read :: "'f option \<Rightarrow> ('f \<Rightarrow> drop_data \<Rightarrow> int \<times> drop_data) \<Rightarrow> drop_data \<Rightarrow> int \<times> drop_data" where
  "try_read fn rd dd = (case fn of None \<Rightarrow> (-1, dd) | Some f \<Rightarrow> rd f dd)"

definition try_pmt ::
  "'f option \<Rightarrow> ('f \<Rightarrow> pmt \<Rightarrow> (int \<times> pmt) option) \<Rightarrow> pmt \<Rightarrow> (int \<times> pmt) option"
where
  "try_pmt fn rd p = (case fn of None \<Rightarrow> Some (-1, p) | Some f \<Rightarrow> rd f p)"

text \<open>
  The result says too whether Blue Burst is disabled.  The three ItemPMT readers have memory of their own.
\<close>

definition read_item_files ::
  "heap \<Rightarrow> errno \<Rightarrow> (nat \<Rightarrow> pmt_memory \<Rightarrow> bool) \<Rightarrow> item_files \<Rightarrow> drop_data \<Rightarrow> (bool \<times> drop_data) option"
where
  "read_item_files h err mem cfg dd = do {
     let (rv, dd) = try_read (v2_ptdata_file cfg) pt_read_v2 dd;
     (rv, p) \<leftarrow> try_pmt (v2_pmtdata_file cfg)
        (\<lambda>f. pmt_read_v2 h err (mem 0) f (norestrict_flag cfg SYLVERANT_SHIP_PMT_LIMITV2)) (pmt_v2 dd);
     let dd = dd\<lparr>pmt_v2 := p\<rparr>;
     let num_units = of_nat (length (pmt_units p));
     let (rv, dd) = try_read (gc_ptdata_file cfg) (\<lambda>f. pt_read_v3 f False) dd;
     let (bb_pt, dd) = try_read (bb_ptdata_file cfg) (\<lambda>f. pt_read_v3 f True) dd;
     (rv, p) \<leftarrow> try_pmt (gc_pmtdata_file cfg)
        (\<lambda>f. pmt_read_gc num_units h err (mem 1) f (norestrict_flag cfg SYLVERANT_SHIP_PMT_LIMITGC)) (pmt_gc dd);
     let dd = dd\<lparr>pmt_gc := p\<rparr>;
     (bb_pmt, p) \<leftarrow> try_pmt (bb_pmtdata_file cfg)
        (\<lambda>f. pmt_read_bb num_units h err (mem 2) f (norestrict_flag cfg SYLVERANT_SHIP_PMT_LIMITBB)) (pmt_bb dd);
     let dd = dd\<lparr>pmt_bb := p\<rparr>;
     let (rv, dd) = try_read (v2_rtdata_file cfg) rt_read_v2 dd;
     let (rv, dd) = try_read (gc_rtdata_file cfg) rt_read_gc dd;
     Some (bb_pt \<noteq> 0 \<or> bb_pmt \<noteq> 0, dd)
   }"

end
