(* ===== verification/Drop_Pick.thy ===== *)
theory Drop_Pick
  imports Drop_Items
begin

section \<open>Weights and bytes\<close>

lemma u32_sub_wraps:
  fixes rnd r limit :: u32
  assumes "rnd \<le> limit" "unat r + unat limit < 2 ^ 32"
  shows "rnd - r > limit \<longleftrightarrow> rnd < r"
  using assms by (auto simp: word_less_nat_alt word_le_nat_alt unat_sub_if_size word_size)

lemma pick_weights:
  assumes "rnd \<le> limit" "\<forall>r \<in> set ws. unat r + unat limit < 2 ^ 32"
  shows "pick limit rnd ws = Some i \<longleftrightarrow>
    i < length ws \<and> sum_list (map unat (take i ws)) \<le> unat rnd \<and> unat rnd < sum_list (map unat (take (Suc i) ws))"
  using assms
proof (induction ws arbitrary: rnd i)
  case (Cons r ws)
  have wrap: "rnd - r > limit \<longleftrightarrow> rnd < r" using Cons.prems by (intro u32_sub_wraps) auto
  show ?case
  proof (cases "rnd < r")
    case True
    then show ?thesis using wrap by (cases i) (auto simp: word_less_nat_alt)
  next
    case False
    then have le: "rnd - r \<le> limit" and u: "unat (rnd - r) = unat rnd - unat r" "unat r \<le> unat rnd"
      using wrap by (auto simp: not_less unat_sub word_le_nat_alt word_less_nat_alt)
    show ?thesis
    proof (cases i)
      case 0
      then show ?thesis using False wrap u by (auto simp: word_less_nat_alt)
    next
      case (Suc k)
      then show ?thesis using False wrap u Cons.IH [OF le, of k] Cons.prems(2) by auto
    qed
  qed
qed simp

text \<open>Among the random numbers below the limit, as many pick an entry as its weight says.\<close>

lemma card_words_between: "b \<le> 2 ^ 32 \<Longrightarrow> card {x :: u32. a \<le> unat x \<and> unat x < b} = b - a"
proof -
  assume b: "b \<le> 2 ^ 32"
  have u: "unat (of_nat n :: u32) = n" if "n < b" for n
    using that b by (simp add: unat_of_nat take_bit_nat_eq_self)
  have "bij_betw unat {x :: u32. a \<le> unat x \<and> unat x < b} {a..<b}"
    by (rule bij_betw_byWitness [where f' = of_nat]) (auto simp: u)
  then show ?thesis using bij_betw_same_card by fastforce
qed

lemma sum_take_Suc: "i < length ws \<Longrightarrow> sum_list (map unat (take (Suc i) ws)) = sum_list (map unat (take i ws)) + unat (ws ! i)"
  by (simp add: take_Suc_conv_app_nth)

text \<open>C26: Every choice the drop tables ask for is fair: when the weights of a list add up to at most the
  limit, exactly as many of the random numbers below the limit choose an entry as its weight
  says, and no number chooses two.\<close>

theorem pick_fair:
  assumes "i < length ws" "sum_list (map unat ws) \<le> unat limit" "\<forall>r \<in> set ws. unat r + unat limit < 2 ^ 32"
  shows "card {rnd. rnd < limit \<and> pick limit rnd ws = Some i} = unat (ws ! i)"
proof -
  let ?a = "sum_list (map unat (take i ws))" and ?b = "sum_list (map unat (take (Suc i) ws))"
  have "sum_list (map unat (take (Suc i) ws)) + sum_list (map unat (drop (Suc i) ws)) = sum_list (map unat ws)"
    by (metis append_take_drop_id map_append sum_list_append)
  then have b: "?b \<le> unat limit" using assms(2) by linarith
  have "rnd < limit \<and> pick limit rnd ws = Some i \<longleftrightarrow> ?a \<le> unat rnd \<and> unat rnd < ?b" for rnd
    using pick_weights [of rnd limit ws i] assms b by (auto simp: word_le_nat_alt word_less_nat_alt)
  moreover have "unat limit < 2 ^ LENGTH(32)" by (rule unsigned_less)
  then have "?b \<le> 2 ^ 32" using b by simp
  ultimately show ?thesis using card_words_between sum_take_Suc [OF assms(1)] by simp
qed

lemma pick_fair_witness: "card {rnd. rnd < 100 \<and> pick 100 rnd [30, 50, 20] = Some 1} = 50"
  using pick_fair [of 1 "[30, 50, 20]" 100] by simp

subsection \<open>Bytes of an item\<close>

lemma byte_cases: "(n :: nat) mod 4 = 0 \<or> n mod 4 = 1 \<or> n mod 4 = 2 \<or> n mod 4 = 3"
  by linarith

lemma byte_mask: "(255 :: u32) = mask 8"
  by (simp add: mask_eq_exp_minus_1)

lemma put_byte_word:
  fixes x :: u32 and b :: u8
  assumes "s \<in> {0, 8, 16, 24}" "t \<in> {0, 8, 16, 24}"
  shows "ucast (drop_bit t ((x AND NOT (push_bit s 0xFF)) OR push_bit s (ucast b))) =
    (if s = t then b else ucast (drop_bit t x))"
proof (rule bit_word_eqI)
  fix i assume "i < LENGTH(8)"
  then have "i < 8" by simp
  with assms show "bit (ucast (drop_bit t ((x AND NOT (push_bit s 0xFF)) OR push_bit s (ucast b))) :: u8) i \<longleftrightarrow>
      bit (if s = t then b else ucast (drop_bit t x)) i"
    by (auto simp: byte_mask bit_simps dest: bit_imp_le_length)
qed

lemma item_byte_put [simp]:
  "n div 4 < length d \<Longrightarrow> item_byte (put_byte n b d) m = (if m = n then b else item_byte d m)"
proof -
  assume n: "n div 4 < length d"
  have s: "8 * (k mod 4) \<in> {0, 8, 16, 24}" for k :: nat using byte_cases [of k] by auto
  have "m = n \<longleftrightarrow> m div 4 = n div 4 \<and> 8 * (m mod 4) = 8 * (n mod 4)"
    by (metis div_mult_mod_eq mult_left_cancel zero_neq_numeral)
  then show ?thesis
    using n put_byte_word [OF s [of n] s [of m]] by (auto simp: item_byte_def put_byte_def Let_def nth_list_update)
qed

lemma length_put_byte [simp]: "length (put_byte n b d) = length d"
  by (simp add: put_byte_def Let_def)

end
