(* ===== verification/Drop_Weapon.thy ===== *)
theory Drop_Weapon
  imports Drop_Pick
begin

section \<open>The weapons that drop\<close>

lemma pick_less: "pick limit rnd ws = Some i \<Longrightarrow> i < length ws"
  by (induction ws arbitrary: rnd i) (auto split: if_splits)

lemma column_at_Some:
  assumes "column_at tbl j = Some col"
  shows "length col = length tbl" "i < length tbl \<Longrightarrow> j < length (tbl ! i) \<and> col ! i = tbl ! i ! j"
proof -
  have "\<forall>j col. those (map (\<lambda>row. at row j) tbl) = Some col \<longrightarrow>
      length col = length tbl \<and> (\<forall>i < length tbl. j < length (tbl ! i) \<and> col ! i = tbl ! i ! j)"
    by (induction tbl) (auto simp: nth_Cons split: option.splits nat.splits)
  with assms show "length col = length tbl" "i < length tbl \<Longrightarrow> j < length (tbl ! i) \<and> col ! i = tbl ! i ! j"
    by (auto simp: column_at_def)
qed

text \<open>
  The percentages of an item: slot \<open>i\<close> is the attribute in byte \<open>6 + 2 * i\<close> with its value in the next
  byte.  In the middle of the loop the first \<open>n\<close> slots are taken, by different attributes whose bits
  are set in the mask.
\<close>

definition good_percent :: "u8 \<Rightarrow> u8 \<Rightarrow> bool" where
  "good_percent k v \<longleftrightarrow> k \<le> 5 \<and> sint v mod 5 = 0 \<and> -10 \<le> sint v \<and> sint v \<le> 100 \<and>
     (k = 0 \<longrightarrow> v = 0)"

definition percents_ok :: "u32 list \<Rightarrow> nat \<Rightarrow> u32 \<Rightarrow> bool" where
  "percents_ok d n up \<longleftrightarrow> length d = 4 \<and> item_byte d 4 = 0 \<and> item_byte d 5 = 0 \<and>
     (\<forall>i < 3. good_percent (item_byte d (2 * i + 6)) (item_byte d (2 * i + 7))) \<and>
     (\<forall>i < n. item_byte d (2 * i + 6) \<noteq> 0 \<and> bit up (unat (item_byte d (2 * i + 6)))) \<and>
     (\<forall>i. n \<le> i \<and> i < 3 \<longrightarrow> item_byte d (2 * i + 6) = 0 \<and> item_byte d (2 * i + 7) = 0) \<and>
     inj_on (\<lambda>i. item_byte d (2 * i + 6)) {..<n}"

lemma percent_value:
  assumes "j < 23"
  shows "sint (word_of_int ((int j - 2) * 5) :: u8) = (int j - 2) * 5"
proof -
  have "\<forall>j \<in> set [0..<23]. sint (word_of_int ((int j - 2) * 5) :: u8) = (int j - 2) * 5" by code_simp
  then show ?thesis using assms by simp
qed

lemma bit_mask_and: "(up AND push_bit k 1 \<noteq> (0 :: u32)) \<longleftrightarrow> bit up k"
  by (simp add: and_exp_eq_0_iff_not_bit)

lemma percents_ok_add:
  assumes ok: "percents_ok d n up" and n: "n < 3" and j: "j < 23" and k: "k < 6" "k \<noteq> 0" and new: "\<not> bit up k"
  shows "percents_ok (put_byte (2 * n + 7) (word_of_int ((int j - 2) * 5)) (put_byte (2 * n + 6) (of_nat k) d))
           (Suc n) (up OR push_bit k 1)"
proof -
  let ?v = "word_of_int ((int j - 2) * 5) :: u8"
  let ?d = "put_byte (2 * n + 7) ?v (put_byte (2 * n + 6) (of_nat k) d)"
  have len: "length d = 4" using ok by (simp add: percents_ok_def)
  have ku: "unat (of_nat k :: u8) = k" using k by (simp add: unat_of_nat take_bit_nat_eq_self)
  have byte: "item_byte ?d (2 * i + 6) = (if i = n then of_nat k else item_byte d (2 * i + 6))"
    "item_byte ?d (2 * i + 7) = (if i = n then ?v else item_byte d (2 * i + 7))" for i
  proof -
    have "(2 * n + 6) div 4 < length d" "(2 * n + 7) div 4 < length d" using n len by simp_all
    moreover have "2 * i + 6 \<noteq> 2 * n + 7" "2 * i + 7 \<noteq> 2 * n + 6" by presburger+
    ultimately show "item_byte ?d (2 * i + 6) = (if i = n then of_nat k else item_byte d (2 * i + 6))"
      "item_byte ?d (2 * i + 7) = (if i = n then ?v else item_byte d (2 * i + 7))"
      by simp_all
  qed
  have good: "good_percent (of_nat k) ?v"
    using k j percent_value [OF j] ku by (auto simp: good_percent_def word_le_nat_alt)
  have low: "item_byte ?d 4 = item_byte d 4" "item_byte ?d 5 = item_byte d 5" using n len by simp_all
  have bits: "bit (up OR push_bit k 1) i \<longleftrightarrow> bit up i \<or> i = k" for i
    using k by (auto simp: bit_simps simp del: push_bit_of_1)
  have new': "of_nat k \<noteq> item_byte d (2 * i + 6)" "item_byte d (2 * i + 6) \<noteq> of_nat k" if "i < n" for i
    using ok that new ku by (auto simp: percents_ok_def)
  have k0: "(of_nat k :: u8) \<noteq> 0" using ku k(2) by auto
  show ?thesis
    using ok n good k0 new' unfolding percents_ok_def byte low
    by (simp add: bits ku less_Suc_eq inj_on_def lessThan_Suc all_conj_distrib imp_conjR
        del: push_bit_of_1 of_int_mult of_int_diff)
qed

lemma percent_step_ok:
  assumes "percent_step ent limit area i (d, n, up) g = Some ((d', n', up'), g')" "percents_ok d n up" "n < 3"
    "length (percent_pattern ent) = 23" "length (percent_attachment ent) = 6"
  shows "percents_ok d' n' up' \<and> n' \<le> Suc n \<and> d' ! 0 = d ! 0"
proof -
  have keep: "put_byte (2 * n + 7) v (put_byte (2 * n + 6) k d) ! 0 = d ! 0" for v k
    using assms(3) by (simp add: put_byte_def Let_def nth_list_update)
  show ?thesis
    using assms
    by (auto simp: percent_step_def Let_def bit_mask_and keep column_at_Some(1)
        simp del: push_bit_of_1 of_int_mult of_int_diff left_diff_distrib_numeral
        split: if_splits option.splits prod.splits bind_splits
        intro!: percents_ok_add dest!: pick_less)
qed

lemma percent_loop_ok:
  assumes "percent_loop ent limit area is (d, n, up) g = Some (d', g')" "percents_ok d n up" "n + length is \<le> 3"
    "length (percent_pattern ent) = 23" "length (percent_attachment ent) = 6"
  shows "\<exists>n up. percents_ok d' n up \<and> d' ! 0 = d ! 0"
  using assms
proof (induction "is" arbitrary: d n up g)
  case (Cons i "is")
  obtain d1 n1 up1 g1 where s: "percent_step ent limit area i (d, n, up) g = Some ((d1, n1, up1), g1)"
    and r: "percent_loop ent limit area is (d1, n1, up1) g1 = Some (d', g')"
    using Cons.prems(1) by (auto split: bind_splits)
  have "percents_ok d1 n1 up1 \<and> n1 \<le> Suc n \<and> d1 ! 0 = d ! 0"
    using Cons.prems by (intro percent_step_ok [OF s]) auto
  then show ?case using Cons.IH [OF r] Cons.prems by auto
qed auto

text \<open>What the slots of a finished weapon hold.\<close>

definition weapon_ok :: "u32 list \<Rightarrow> bool" where
  "weapon_ok d \<longleftrightarrow> length d = 4 \<and> item_byte d 4 AND 0x7F \<le> WEAPON_ATTR_MAX \<and> item_byte d 5 = 0 \<and>
     (\<forall>i < 3. good_percent (item_byte d (2 * i + 6)) (item_byte d (2 * i + 7))) \<and>
     (\<forall>i < 3. \<forall>j < i. item_byte d (2 * i + 6) \<noteq> 0 \<longrightarrow> item_byte d (2 * i + 6) \<noteq> item_byte d (2 * j + 6))"

lemma percents_weapon_ok:
  assumes "percents_ok d n up"
  shows "weapon_ok d"
proof -
  have "item_byte d (2 * i + 6) \<noteq> item_byte d (2 * j + 6)"
    if "i < 3" "j < i" "item_byte d (2 * i + 6) \<noteq> 0" for i j
  proof -
    have "i < n" using assms that by (meson not_le percents_ok_def)
    then have "i \<in> {..<n}" "j \<in> {..<n}" "i \<noteq> j" using that by auto
    moreover have "inj_on (\<lambda>i. item_byte d (2 * i + 6)) {..<n}" using assms by (simp add: percents_ok_def)
    ultimately show ?thesis by (blast dest: inj_onD)
  qed
  then show ?thesis using assms by (simp add: weapon_ok_def percents_ok_def)
qed

lemma attr_bytes: "\<forall>row \<in> set attr_list. \<forall>a \<in> set row. a \<le> WEAPON_ATTR_MAX"
  by code_simp

lemma item_byte_set_first:
  "0 < length d \<Longrightarrow> item_byte (d[0 := x]) m = (if m < 4 then ucast (drop_bit (8 * m) x) else item_byte d m)"
  by (auto simp: item_byte_def nth_list_update)

lemma item_byte_set_second:
  assumes "1 < length d"
  shows "item_byte (d[1 := x]) m =
     (if 4 \<le> m \<and> m < 8 then ucast (drop_bit (8 * (m - 4)) x) else item_byte d m)"
proof -
  have "Suc 0 = m div 4 \<longleftrightarrow> 4 \<le> m \<and> m < 8" by presburger
  moreover have "4 \<le> m \<Longrightarrow> m < 8 \<Longrightarrow> m mod 4 = m - 4" by presburger
  ultimately show ?thesis using assms by (simp add: item_byte_def nth_list_update)
qed

lemma element_word:
  fixes a :: u8
  shows "ucast ((0x80 :: u32) OR ucast a) = 0x80 OR a"
    "k \<ge> 8 \<Longrightarrow> (ucast (drop_bit k ((0x80 :: u32) OR ucast a)) :: u8) = 0"
proof -
  have e: "(0x80 :: u32) = push_bit 7 1" "(0x80 :: u8) = push_bit 7 1" by simp_all
  show "ucast ((0x80 :: u32) OR ucast a) = 0x80 OR a"
    unfolding e by (rule bit_word_eqI) (auto simp: bit_simps simp del: push_bit_of_1)
  show "(ucast (drop_bit k ((0x80 :: u32) OR ucast a)) :: u8) = 0" if "k \<ge> 8"
    unfolding e by (rule bit_word_eqI)
      (use that in \<open>auto simp: bit_simps simp del: push_bit_of_1 dest: bit_imp_le_length\<close>)
qed

lemma small_attr: "a \<le> WEAPON_ATTR_MAX \<Longrightarrow> (0x80 OR a) AND 0x7F \<le> WEAPON_ATTR_MAX" for a :: u8
proof -
  have "\<forall>n \<in> set [0..<41]. ((0x80 OR of_nat n) AND 0x7F :: u8) \<le> 0x28" by code_simp
  moreover assume "a \<le> WEAPON_ATTR_MAX"
  then have "unat a \<in> set [0..<41]" "of_nat (unat a) = a" by (simp_all add: WEAPON_ATTR_MAX_def word_le_nat_alt)
  ultimately show ?thesis by (metis WEAPON_ATTR_MAX_def)
qed

lemma less3:
  "(\<forall>i < 3. P i) \<longleftrightarrow> P 0 \<and> P 1 \<and> P (2 :: nat)" "(\<forall>i < 2. P i) \<longleftrightarrow> P 0 \<and> P (1 :: nat)"
  "(\<forall>i < 1. P i) \<longleftrightarrow> P (0 :: nat)"
  by (auto simp: numeral_3_eq_3 less_Suc_eq numeral_2_eq_2)

lemma weapon_ok_element:
  assumes "weapon_ok d" "a \<le> WEAPON_ATTR_MAX"
  shows "weapon_ok (d[1 := 0x80 OR ucast a])"
proof -
  define e where "e = d[1 := 0x80 OR ucast a]"
  have b: "item_byte e m = (if m = 4 then 0x80 OR a else if 4 < m \<and> m < 8 then 0 else item_byte d m)" for m
    unfolding e_def using assms(1) by (subst item_byte_set_second) (auto simp: weapon_ok_def element_word simp del: drop_bit_or)
  have bytes: "item_byte e 4 = 0x80 OR a" "item_byte e 5 = 0" "item_byte e 6 = 0" "item_byte e 7 = 0"
    "item_byte e 8 = item_byte d 8" "item_byte e 9 = item_byte d 9" "item_byte e 10 = item_byte d 10"
    "item_byte e 11 = item_byte d 11"
    by (simp_all add: b)
  have "good_percent 0 0" by (simp add: good_percent_def)
  moreover have "length e = 4" using assms(1) by (simp add: e_def weapon_ok_def)
  ultimately show ?thesis
    using assms(1) small_attr [OF assms(2)] unfolding e_def [symmetric] by (simp add: weapon_ok_def less3 bytes)
qed

lemma weapon_ok_first: "weapon_ok d \<Longrightarrow> weapon_ok (d[0 := x])"
  by (simp add: weapon_ok_def item_byte_set_first)

lemma percents_ok_first: "percents_ok d n up \<Longrightarrow> percents_ok (d[0 := x]) n up"
  by (simp add: percents_ok_def item_byte_set_first)

lemma percents_ok_start: "percents_ok [code, 0, 0, 0] 0 0"
proof -
  have "item_byte [code, 0, 0, 0] m = 0" if "4 \<le> m" "m < 12" for m
  proof -
    have "m div 4 = 1 \<or> m div 4 = 2" using that by presburger
    then show ?thesis by (auto simp: item_byte_def)
  qed
  then show ?thesis by (simp add: percents_ok_def less3 good_percent_def)
qed

lemma set_element_ok:
  assumes "set_element ent area semi flagged d g = Some (d', g')" "weapon_ok d"
  shows "weapon_ok d' \<and> d' ! 0 = d ! 0"
proof -
  have el: "weapon_ok (d[Suc 0 := 0x80 OR ucast (attr_list ! i ! j)])" if "i < length attr_list" "j < length (attr_list ! i)" for i j
    using weapon_ok_element [OF assms(2)] attr_bytes that by (metis One_nat_def nth_mem)
  have "weapon_ok (d[Suc 0 := 0x80])"
    using weapon_ok_element [OF assms(2), of 0] by (simp add: WEAPON_ATTR_MAX_def)
  then show ?thesis
    using assms
    by (auto simp: set_element_def Let_def entry_def el split: if_splits prod.splits bind_splits)
qed

definition weapon_tables_ok :: "('p, 'z) pt_entry_scheme \<Rightarrow> bool" where
  "weapon_tables_ok ent \<longleftrightarrow> length (power_pattern ent) = 9 \<and> length (percent_pattern ent) = 23 \<and>
     length (percent_attachment ent) = 6 \<and> length (element_ranking ent) = 10"

lemma finish_weapon_ok:
  assumes "finish_weapon ent limit area semi flagged pattern [code, 0, 0, 0] g = Some (Inr d, g')" "weapon_tables_ok ent"
  shows "weapon_ok d \<and> area < 10 \<and> (\<exists>i < 9. d ! 0 = code OR push_bit 24 (of_nat i))"
proof -
  obtain d1 g1 d2 g2 where 1: "set_grind ent pattern [code, 0, 0, 0] g = Some (Inr d1, g1)"
    and 2: "percent_loop ent limit area [0..<3] (d1, 0, 0) g1 = Some (d2, g2)"
    and 3: "set_element ent area semi flagged d2 g2 = Some (d, g')"
    using assms(1) by (auto simp: finish_weapon_def split: bind_splits sum.splits)
  have "\<exists>i < 9. d1 = [code, 0, 0, 0][0 := code OR push_bit 24 (of_nat i)]"
    using 1 assms(2)
    by (auto simp: set_grind_def Let_def weapon_tables_ok_def column_at_Some(1) split: prod.splits bind_splits option.splits
        dest!: pick_less)
  moreover have "percents_ok d1 0 0"
    using calculation percents_ok_first [OF percents_ok_start] by blast
  then obtain n up where "percents_ok d2 n up" "d2 ! 0 = d1 ! 0"
    using percent_loop_ok [OF 2] assms(2) by (auto simp: weapon_tables_ok_def)
  moreover have "area < 10"
    using 3 assms(2) by (auto simp: set_element_def at_def weapon_tables_ok_def split: bind_splits if_splits)
  ultimately show ?thesis using set_element_ok [OF 3 percents_weapon_ok] by auto
qed

lemma weapon_ok_length: "weapon_ok d \<Longrightarrow> length d = 4"
  by (simp add: weapon_ok_def)

text \<open>The grind is the highest byte of the first word, as long as nothing else has got there.\<close>

lemma grind_byte:
  assumes "length d = 4" "d ! 0 = code OR push_bit 24 (of_nat i)" "i < 9" "drop_bit 24 code = 0"
  shows "item_byte d 3 = of_nat i"
proof -
  have "\<forall>i \<in> set [0..<9]. (ucast (drop_bit 24 (push_bit 24 (of_nat i) :: u32)) :: u8) = of_nat i"
    by code_simp
  then show ?thesis using assms by (simp add: item_byte_def drop_bit_or)
qed

text \<open>The type of a weapon that was not picked before is that of a candidate, with its rank.\<close>

lemma candidates_types:
  "weapon_candidates ent area is = Some ws \<Longrightarrow> x \<in> set ws \<Longrightarrow> cw_type x \<in> set is"
  by (induction "is" arbitrary: ws) (auto simp: Let_def split: if_splits bind_splits prod.splits)

lemma rank_loop_range:
  "rank_loop upg rank warea = (r, a) \<Longrightarrow> 0 \<le> warea \<Longrightarrow> rank \<le> r \<and> r \<le> rank + warea \<and> 0 \<le> a"
proof (induction upg rank warea arbitrary: r a rule: rank_loop.induct)
  case (1 upg rank warea)
  note loop = rank_loop.simps [of upg rank warea]
  show ?case
  proof (cases "0 < upg \<and> warea - upg \<ge> 0")
    case True
    then have "rank_loop upg (rank + 1) (warea - upg) = (r, a)" using "1.prems"(1) loop by simp
    from "1.IH" [OF True this] True show ?thesis by linarith
  next
    case False
    then have "r = rank" "a = warea" using "1.prems"(1) loop by auto
    then show ?thesis using "1.prems"(2) by simp
  qed
qed

lemma candidates_ranks:
  "weapon_candidates ent area is = Some ws \<Longrightarrow> x \<in> set ws \<Longrightarrow> 0 \<le> cw_rank x \<and> cw_rank x \<le> 127 + int area"
proof (induction "is" arbitrary: ws)
  case (Cons i "is")
  let ?m = "sint (weapon_minrank ent ! i)" and ?u = "sint (weapon_upgfloor ent ! i)"
  show ?case
  proof (cases "?m + int area \<ge> 0 \<and> sint (weapon_ratio ent ! i) > 0")
    case False
    then have "weapon_candidates ent area is = Some ws"
      using Cons.prems(1) by (simp only: weapon_candidates.simps Let_def if_not_P [OF False] if_False)
    then show ?thesis using Cons.IH Cons.prems(2) by blast
  next
    case True
    define start where "start = (if ?m \<ge> 0 then (?m, int area) else (0, ?m + int area))"
    have start: "rank_loop ?u (fst start) (snd start) = (if ?m \<ge> 0 then rank_loop ?u ?m (int area) else rank_loop ?u 0 (?m + int area))"
      "0 \<le> snd start" "0 \<le> fst start" "fst start + snd start \<le> 127 + int area"
      using True sint_lt [of "weapon_minrank ent ! i"] by (auto simp: start_def)
    obtain r a ws' where r: "rank_loop ?u (fst start) (snd start) = (r, a)" and ws': "weapon_candidates ent area is = Some ws'"
      "ws = \<lparr>cw_type = i, cw_rank = r, cw_pattern = min a 3\<rparr> # ws'"
      using Cons.prems(1) True unfolding start(1)
      by (cases "if ?m \<ge> 0 then rank_loop ?u ?m (int area) else rank_loop ?u 0 (?m + int area)")
        (auto simp: Let_def split: if_splits bind_splits)
    have "0 \<le> r \<and> r \<le> 127 + int area" using rank_loop_range [OF r start(2)] start(3,4) by linarith
    then show ?thesis using Cons.IH [OF ws'(1)] Cons.prems(2) ws'(2) by auto
  qed
qed simp

lemma pick_weapon_type:
  assumes "pick_weapon ent area g = (Inr (d, pattern), g')"
  shows "\<exists>t < 12. \<exists>r \<le> 127 + area. d = [push_bit 8 (of_nat t + 1) OR push_bit 16 (of_nat r), 0, 0, 0]"
proof -
  obtain ws where ws: "weapon_candidates ent area [0..<12] = Some ws"
    using assms by (auto simp: pick_weapon_def split: option.splits)
  obtain k where k: "k < length ws" "d = [push_bit 8 (of_nat (cw_type (ws ! k)) + 1) OR push_bit 16 (word_of_int (cw_rank (ws ! k))), 0, 0, 0]"
    using assms ws
    by (auto simp: pick_weapon_def Let_def simp del: pick.simps list.map sum_list.Cons
        split: prod.splits option.splits list.splits dest!: pick_less)
  let ?x = "ws ! k"
  have "cw_type ?x < 12" using candidates_types [OF ws] k(1) by (metis atLeastLessThan_upt atLeastLessThan_iff nth_mem)
  moreover have "0 \<le> cw_rank ?x \<and> cw_rank ?x \<le> 127 + int area" using candidates_ranks [OF ws] k(1) by simp
  then have "nat (cw_rank ?x) \<le> 127 + area" "(word_of_int (cw_rank ?x) :: u32) = of_nat (nat (cw_rank ?x))"
    by (simp_all add: nat_le_iff)
  ultimately show ?thesis using k(2) by metis
qed

lemma rank_bytes:
  assumes "t < 12" "r < 256"
  shows "drop_bit 24 (push_bit 8 (of_nat t + 1) OR push_bit 16 (of_nat r) :: u32) = 0"
proof -
  have "\<forall>t \<in> set [0..<12]. drop_bit 24 (push_bit 8 (of_nat t + 1) :: u32) = 0"
    "\<forall>r \<in> set [0..<256]. drop_bit 24 (push_bit 16 (of_nat r) :: u32) = 0" by code_simp+
  then show ?thesis using assms by (simp add: drop_bit_or)
qed

text \<open>C6: A weapon the server makes from tables of the right size is well formed: its up to three
  percentages belong to different attributes (numbered from 1 to 5), are multiples of five between -10
  and 100, an attribute is missing where there is no percentage, and the elemental attribute exists.  The
  grind is one of 0 to 8: it is put over the highest byte of the first word, and that byte is at most 8
  unless the code of a rare weapon has something there itself.  A rare weapon
  keeps its code; another one has one of the twelve types and a rank that fits into its byte.\<close>

theorem generate_weapon_ok:
  assumes "generate_weapon ent limit semi_flag area code g picked = Some (Inr d, g')" "weapon_tables_ok ent"
  shows "weapon_ok d \<and> (\<exists>i < 9. (if picked then d ! 0 = code OR push_bit 24 (of_nat i)
      else \<exists>t < 12. \<exists>r < 256. d ! 0 = push_bit 8 (of_nat t + 1) OR push_bit 16 (of_nat r) OR push_bit 24 (of_nat i)) \<and>
    (\<not> picked \<or> code < 2 ^ 24 \<longrightarrow> item_byte d 3 = of_nat i))"
proof (cases picked)
  case True
  obtain semi flagged where "finish_weapon ent limit area semi flagged 3 [code, 0, 0, 0] g = Some (Inr d, g')"
    using assms(1) True by (simp add: generate_weapon_def Let_def)
  from finish_weapon_ok [OF this assms(2)]
  obtain i where i: "weapon_ok d" "i < 9" "d ! 0 = code OR push_bit 24 (of_nat i)" by blast
  have "item_byte d 3 = of_nat i" if "code < 2 ^ 24"
    using grind_byte [OF weapon_ok_length [OF i(1)] i(3,2)] div_word_less [OF that] by (simp add: drop_bit_eq_div)
  then show ?thesis using True i by auto
next
  case False
  then obtain d0 pattern g1 where p: "pick_weapon ent area g = (Inr (d0, pattern), g1)"
    and f: "finish_weapon ent limit area (semirare d0) (semi_flag \<and> semirare d0) pattern d0 g1 = Some (Inr d, g')"
    using assms(1) by (auto simp: generate_weapon_def split: prod.splits sum.splits)
  obtain t r where t: "t < 12" "r \<le> 127 + area" "d0 = [push_bit 8 (of_nat t + 1) OR push_bit 16 (of_nat r), 0, 0, 0]"
    using pick_weapon_type [OF p] by blast
  obtain i where i: "weapon_ok d" "area < 10" "i < 9"
    "d ! 0 = (push_bit 8 (of_nat t + 1) OR push_bit 16 (of_nat r)) OR push_bit 24 (of_nat i)"
    using finish_weapon_ok [OF f [unfolded t(3)] assms(2)] by blast
  have r: "r < 256" using t(2) i(2) by simp
  have "item_byte d 3 = of_nat i"
    by (rule grind_byte [OF weapon_ok_length [OF i(1)] i(4,3) rank_bytes [OF t(1) r]])
  moreover have "picked = False" using False by simp
  ultimately show ?thesis using t(1) r i by (simp only: or.assoc if_False) blast
qed

text \<open>A small table, and a generator of random numbers that starts with given words.\<close>

definition sample_pt :: pt_v2_entry where
  "sample_pt = \<lparr>weapon_ratio = [20, 30, 0, 50] @ replicate 8 0, weapon_minrank = [0, 1, 0, -1] @ replicate 8 0,
     weapon_upgfloor = replicate 12 2, power_pattern = [[40, 40, 40, 40], [60, 60, 60, 60]] @ replicate 7 [0, 0, 0, 0],
     percent_pattern = [5, 5] # [10, 10] # [25, 25] # replicate 20 [3, 3], area_pattern = replicate 3 (replicate 10 1),
     percent_attachment = replicate 10 0 # replicate 5 (replicate 10 20), element_ranking = replicate 10 2,
     element_probability = replicate 10 50, armor_ranking = [30, 30, 20, 10, 10], slot_ranking = [20, 20, 20, 20, 20],
     unit_level = replicate 10 3, tool_frequency = replicate 27 (replicate 10 370) @ [replicate 10 10],
     tech_frequency = replicate 18 (replicate 10 52) @ [replicate 10 64], tech_levels = replicate 19 (replicate 20 4),
     enemy_dar = replicate 100 90, enemy_meseta = replicate 100 [10, 20], enemy_drop = replicate 100 0,
     box_meseta = replicate 10 [5, 15], box_drop = [replicate 10 20, replicate 10 10, replicate 10 10, replicate 10 5,
       replicate 10 25, replicate 10 30, replicate 10 0], armor_level = 0\<rparr>"

definition seeded :: "u32 list \<Rightarrow> mt19937_state" where "seeded xs = \<lparr>mti = 0, mt = xs @ replicate 20 0\<rparr>"

definition lucky_rng :: mt19937_state where
  "lucky_rng = seeded [12345, 987654321, 42, 77777, 123456789, 5, 600, 31337, 271828, 314159]"

lemma generate_weapon_ok_witness:
  "\<exists>g'. generate_weapon sample_pt 100 False 3 0 lucky_rng False = Some (Inr [16843776, 4211212288, 0, 0], g') \<and>
     weapon_ok [16843776, 4211212288, 0, 0]"
proof -
  have v: "map_option fst (generate_weapon sample_pt 100 False 3 0 lucky_rng False) = Some (Inr [16843776, 4211212288, 0, 0])"
    by code_simp
  obtain g' where g: "generate_weapon sample_pt 100 False 3 0 lucky_rng False = Some (Inr [16843776, 4211212288, 0, 0], g')"
    using v by auto
  have "weapon_tables_ok sample_pt" by code_simp
  then show ?thesis using g generate_weapon_ok [OF g] by blast
qed

end
