(* ===== verification/Drop_Units.thy ===== *)
theory Drop_Units
  imports Drop_Weapon
begin

section \<open>The table of units\<close>

text \<open>
  The modifiers a unit can have, and what the table counts it as: one star less with a minus, one star
  more with a plus.
\<close>

definition unit_modifiers :: "bool \<Rightarrow> pmt_unit \<Rightarrow> int set" where
  "unit_modifiers norestrict u =
     (let pm = uint (pm_range u)
      in if pm \<noteq> 0 \<and> (u_stat u \<le> 3 \<or> norestrict) then {-2 * pm, - pm, 0, pm, 2 * pm} else {0})"

definition worth :: "u8 \<Rightarrow> int \<Rightarrow> int" where
  "worth star m = uint star + sgn m"

text \<open>The units worth at most \<open>mx\<close> stars.\<close>

definition units_up_to :: "bool \<Rightarrow> pmt_unit list \<Rightarrow> u8 list \<Rightarrow> nat \<Rightarrow> u64 set" where
  "units_up_to norestrict us stars mx =
     {modified j m | j m. j < length us \<and> m \<in> unit_modifiers norestrict (us ! j) \<and>
        0 \<le> worth (stars ! j) m \<and> worth (stars ! j) m \<le> int mx}"

lemma modified_zero: "modified j 0 = ucast (unit_code j)"
  by (simp add: modified_def)

lemma unit_entries_set:
  "set (unit_entries norestrict i j u star) =
     {modified j m | m. m \<in> unit_modifiers norestrict u \<and> worth star m = int i}"
proof -
  have pm: "uint (pm_range u) \<ge> 0" "pm_range u \<noteq> 0 \<longleftrightarrow> uint (pm_range u) \<noteq> 0" by (simp_all add: uint_0_iff)
  consider "uint (pm_range u) = 0" | "uint (pm_range u) > 0" using pm by linarith
  then show ?thesis
  proof cases
    case 1
    then show ?thesis
      using pm by (auto simp: unit_entries_def unit_modifiers_def worth_def modified_zero Let_def)
  next
    case 2
    then show ?thesis
      using pm by (auto simp: unit_entries_def unit_modifiers_def worth_def modified_zero [symmetric] Let_def)
  qed
qed

lemma unit_level_set:
  "set (unit_level_entries norestrict us stars i) =
     {modified j m | j m. j < length us \<and> m \<in> unit_modifiers norestrict (us ! j) \<and> worth (stars ! j) m = int i}"
  by (fastforce simp: unit_level_entries_def unit_entries_set)

lemma units_up_to_levels:
  "units_up_to norestrict us stars mx = (\<Union>i \<le> mx. set (unit_level_entries norestrict us stars i))"
proof (intro set_eqI iffI)
  fix u assume "u \<in> units_up_to norestrict us stars mx"
  then obtain j m where u: "u = modified j m" "j < length us" "m \<in> unit_modifiers norestrict (us ! j)"
    and w: "0 \<le> worth (stars ! j) m" "worth (stars ! j) m \<le> int mx"
    by (auto simp: units_up_to_def)
  have "nat (worth (stars ! j) m) \<le> mx" "worth (stars ! j) m = int (nat (worth (stars ! j) m))"
    using w by simp_all
  then show "u \<in> (\<Union>i \<le> mx. set (unit_level_entries norestrict us stars i))"
    using u unfolding unit_level_set by blast
next
  fix u assume "u \<in> (\<Union>i \<le> mx. set (unit_level_entries norestrict us stars i))"
  then obtain i j m where u: "u = modified j m" "j < length us" "m \<in> unit_modifiers norestrict (us ! j)"
    and w: "worth (stars ! j) m = int i" "i \<le> mx"
    by (auto simp: unit_level_set)
  have "0 \<le> worth (stars ! j) m" "worth (stars ! j) m \<le> int mx" using w by simp_all
  with u show "u \<in> units_up_to norestrict us stars mx" unfolding units_up_to_def by blast
qed

text \<open>The table after the loop: level after level, and where each ends.\<close>

lemma build_levels_table:
  "build_levels f is us = (us', ks) \<Longrightarrow>
     us' = us @ concat (map f is) \<and> length ks = length is \<and>
     (\<forall>n < length is. ks ! n = of_nat (length (us @ concat (map f (take (Suc n) is)))))"
proof (induction "is" arbitrary: us us' ks)
  case (Cons i "is")
  obtain ks' where r: "build_levels f is (us @ f i) = (us', ks')" and k: "ks = of_nat (length (us @ f i)) # ks'"
    using Cons.prems by (auto simp: Let_def split: prod.splits)
  have "ks ! n = of_nat (length (us @ concat (map f (take (Suc n) (i # is)))))" if "n < length (i # is)" for n
    using that Cons.IH [OF r] k by (cases n) (auto simp: add.assoc)
  then show ?case using Cons.IH [OF r] k by auto
qed simp

text \<open>Five entries for a unit are enough.\<close>

lemma unit_entries_length:
  "length (unit_entries norestrict i j u star) \<le>
     (if int i = uint star - 1 then 2 else 0) + (if int i = uint star then 1 else 0) + (if int i = uint star + 1 then 2 else 0)"
  by (auto simp: unit_entries_def Let_def)

lemma level_sum:
  "(\<Sum>i < n. length (unit_entries norestrict i j u star)) \<le> 5"
proof -
  have one: "(\<Sum>i < n. if int i = x then c else 0) \<le> (c :: nat)" for x c
    by (induction n) (auto intro: sum.neutral)
  have "(\<Sum>i < n. length (unit_entries norestrict i j u star)) \<le>
      (\<Sum>i < n. (if int i = uint star - 1 then 2 else 0) + (if int i = uint star then 1 else 0) +
        (if int i = uint star + 1 then 2 else 0))"
    by (intro sum_mono unit_entries_length)
  also have "\<dots> \<le> 2 + 1 + 2"
    unfolding sum.distrib by (intro add_mono one)
  finally show ?thesis by simp
qed

lemma levels_length:
  "length (concat (map (unit_level_entries norestrict us stars) [0..<n])) \<le> 5 * length us"
proof -
  have "length (concat (map (unit_level_entries norestrict us stars) [0..<n])) =
      (\<Sum>i < n. \<Sum>j < length us. length (unit_entries norestrict i j (us ! j) (stars ! j)))"
    by (simp add: length_concat unit_level_entries_def comp_def interv_sum_list_conv_sum_set_nat atLeast0LessThan)
  also have "\<dots> = (\<Sum>j < length us. \<Sum>i < n. length (unit_entries norestrict i j (us ! j) (stars ! j)))"
    by (rule sum.swap)
  also have "\<dots> \<le> (\<Sum>j < length us. 5)" by (intro sum_mono level_sum)
  finally show ?thesis by (simp add: mult.commute)
qed

lemma those_length: "those xs = Some ys \<Longrightarrow> length ys = length xs"
  by (induction xs arbitrary: ys) (auto split: option.splits)

lemma build_units_table:
  assumes "build_units mem1 mem2 norestrict p = Some (0, p')"
  obtains stars where "unit_stars p = Some stars" "length stars = length (pmt_units p)" "pmt_units p' = pmt_units p"
    "unit_max_stars p' = most_stars stars (unit_max_stars p) + 1"
    "units_by_stars p' = ucast Item_Knight_Power #
       concat (map (unit_level_entries norestrict (pmt_units p) stars) [0..<Suc (unat (unit_max_stars p'))])"
    "length (units_with_stars p') = Suc (unat (unit_max_stars p'))"
    "\<And>i. i \<le> unat (unit_max_stars p') \<Longrightarrow> units_with_stars p' ! i =
       of_nat (Suc (length (concat (map (unit_level_entries norestrict (pmt_units p) stars) [0..<Suc i]))))"
proof -
  obtain stars where s: "unit_stars p = Some stars"
    using assms by (auto simp: build_units_def split: bind_splits)
  define mx where "mx = most_stars stars (unit_max_stars p) + 1"
  define f where "f = unit_level_entries norestrict (pmt_units p) stars"
  obtain us ks where b: "build_levels f [0..<Suc (unat mx)] [ucast Item_Knight_Power] = (us, ks)" by fastforce
  have p': "p' = p\<lparr>unit_max_stars := mx, units_by_stars := us, units_with_stars := ks\<rparr>"
    using assms b by (auto simp: build_units_def s Let_def mx_def [symmetric] f_def [symmetric] simp del: upt_Suc
        split: if_splits prod.splits)
  have take: "take (Suc i) [0..<Suc (unat mx)] = [0..<Suc i]" if "i \<le> unat mx" for i
    using that by (simp add: take_upt del: upt_Suc)
  note t = build_levels_table [OF b]
  show thesis
    by (rule that [OF s]) (use s t take in \<open>auto simp: p' mx_def [symmetric] f_def [symmetric] unit_stars_def
        less_Suc_eq_le simp del: upt_Suc dest: those_length\<close>)
qed

lemma random_unit_below:
  assumes built: "build_units mem1 mem2 norestrict p = Some (0, p')" and small: "5 * length (pmt_units p) + 1 < 2 ^ 32"
    and stars: "unit_stars p = Some stars" and mx: "mx \<le> unit_max_stars p'"
  shows "length (units_by_stars p') \<le> 5 * length (pmt_units p) + 1 \<and>
    length (units_with_stars p') = unat (unit_max_stars p') + 1 \<and>
    (\<exists>n > 0. n \<le> length (units_by_stars p') \<and> units_by_stars p' ! 0 = ucast Item_Knight_Power \<and>
       set (take n (units_by_stars p')) =
         insert (ucast Item_Knight_Power) (units_up_to norestrict (pmt_units p) stars (unat mx)) \<and>
       pmt_random_unit p' mx g = (let (r, g') = mt19937_genrand_int32 g; u = units_by_stars p' ! (unat r mod n)
         in Some ([ucast u, ucast (drop_bit 32 u), 0, 0], g')))"
proof -
  define f where "f = unit_level_entries norestrict (pmt_units p) stars"
  have t: "units_by_stars p' = ucast Item_Knight_Power # concat (map f [0..<Suc (unat (unit_max_stars p'))])"
    "length (units_with_stars p') = Suc (unat (unit_max_stars p'))"
    "\<And>i. i \<le> unat (unit_max_stars p') \<Longrightarrow> units_with_stars p' ! i = of_nat (Suc (length (concat (map f [0..<Suc i]))))"
    using built stars by (auto elim!: build_units_table simp: f_def simp del: upt_Suc)
  let ?k = "Suc (length (concat (map f [0..<Suc (unat mx)])))"
  have mx': "unat mx \<le> unat (unit_max_stars p')" using mx by (simp add: word_le_nat_alt)
  have len: "length (concat (map f [0..<m])) \<le> 5 * length (pmt_units p)" for m
    unfolding f_def by (rule levels_length)
  have "unat (of_nat m :: u32) = m" if "m < 2 ^ 32" for m
    using that by (simp add: unat_of_nat take_bit_nat_eq_self)
  moreover have "?k < 2 ^ 32" using small len [of "Suc (unat mx)"] by linarith
  ultimately have k: "unat (of_nat ?k :: u32) = ?k" by blast
  have split: "concat (map f [0..<Suc (unat (unit_max_stars p'))]) =
      concat (map f [0..<Suc (unat mx)]) @ concat (map f [Suc (unat mx)..<Suc (unat (unit_max_stars p'))])"
    using mx' by (metis concat_append le_iff_add map_append plus_1_eq_Suc add_Suc upt_add_eq_append zero_le)
  have tk: "take ?k (units_by_stars p') = ucast Item_Knight_Power # concat (map f [0..<Suc (unat mx)])"
    unfolding t(1) split by simp
  have set: "set (take ?k (units_by_stars p')) =
      insert (ucast Item_Knight_Power) (units_up_to norestrict (pmt_units p) stars (unat mx))"
    using arg_cong [OF tk, of set] by (auto simp: units_up_to_levels f_def less_Suc_eq_le simp del: upt_Suc)
  have kl: "?k \<le> length (units_by_stars p')" unfolding t(1) split by simp
  obtain r g' where mt: "mt19937_genrand_int32 g = (r, g')" by fastforce
  then have r: "roll (of_nat ?k) g = (r mod of_nat ?k, g')" by (simp add: roll_def)
  have ru: "unat (r mod of_nat ?k :: u32) = unat r mod ?k" unfolding unat_mod k ..
  have k0: "(of_nat ?k :: u32) \<noteq> 0" using k by (metis nat.distinct(1) unsigned_0)
  have "unat r mod ?k < length (units_by_stars p')" using kl mod_less_divisor [of ?k "unat r"] by linarith
  then have draw: "pmt_random_unit p' mx g =
      Some ([ucast (units_by_stars p' ! (unat r mod ?k)), ucast (drop_bit 32 (units_by_stars p' ! (unat r mod ?k))), 0, 0], g')"
    using mx mx' t(2) t(3) [OF mx'] r ru k0
    by (simp add: pmt_random_unit_def at_def not_less [symmetric] del: upt_Suc of_nat_Suc mod_less)
  have first: "units_by_stars p' ! 0 = ucast Item_Knight_Power" unfolding t(1) by simp
  have "length (units_by_stars p') \<le> 5 * length (pmt_units p) + 1"
    unfolding t(1) using len [of "Suc (unat (unit_max_stars p'))"] by simp
  moreover have "length (units_with_stars p') = unat (unit_max_stars p') + 1" using t(2) by simp
  ultimately show ?thesis
    using draw mt first set kl by (intro conjI exI [of _ ?k]) (simp_all only: Let_def prod.case zero_less_Suc)
qed

text \<open>C22: The table of units, when building it succeeds and its length fits into 32 bits, is built inside
  the memory it was given (five entries for a unit and one more).  For a most number of stars some first part of the table counts: its first entry is
  the plain Knight/Power, and the others are exactly the units, with every modifier they may have, that
  are worth at most that many stars.  However many stars are asked for, a drop takes the entry of that
  part that a random word, modulo its length, says.\<close>

theorem random_unit_from_table:
  assumes built: "build_units mem1 mem2 norestrict p = Some (0, p')" and small: "5 * length (pmt_units p) + 1 < 2 ^ 32"
    and stars: "unit_stars p = Some stars"
  shows "length (units_by_stars p') \<le> 5 * length (pmt_units p) + 1 \<and>
    length (units_with_stars p') = unat (unit_max_stars p') + 1 \<and>
    (\<exists>n > 0. n \<le> length (units_by_stars p') \<and> units_by_stars p' ! 0 = ucast Item_Knight_Power \<and>
       set (take n (units_by_stars p')) =
         insert (ucast Item_Knight_Power) 
           (units_up_to norestrict (pmt_units p) stars (unat (min mx (unit_max_stars p')))) \<and>
       pmt_random_unit p' mx g = (let (r, g') = mt19937_genrand_int32 g; u = units_by_stars p' ! (unat r mod n)
         in Some ([ucast u, ucast (drop_bit 32 u), 0, 0], g')))"
proof -
  have eq: "pmt_random_unit p' mx g = pmt_random_unit p' (min mx (unit_max_stars p')) g"
    by (cases "mx \<le> unit_max_stars p'")
      (simp_all add: pmt_random_unit_def min_def linorder_not_le [symmetric])
  show ?thesis unfolding eq by (rule random_unit_below [OF built small stars]) simp
qed

definition small_pmt :: pmt where
  "small_pmt = \<lparr>have_pmt = True, pmt_weapons = [], pmt_guards = [[\<lparr>g_index = 10, dfp_range = 3, evp_range = 2\<rparr>],
       [\<lparr>g_index = 11, dfp_range = 0, evp_range = 4\<rparr>]],
     pmt_units = [\<lparr>u_index = 12, u_stat = 1, pm_range = 2\<rparr>, \<lparr>u_index = 13, u_stat = 5, pm_range = 1\<rparr>],
     star_table = [1, 2, 2, 3], star_max = 4, weapon_lowest = 10, unit_lowest = 12, units_by_stars = [],
     units_with_stars = [], unit_max_stars = 0\<rparr>"

lemma random_unit_from_table_witness:
  "\<exists>p' d g'. build_units True True False small_pmt = Some (0, p') \<and> pmt_random_unit p' 3 lucky_rng = Some (d, g')"
proof -
  have "map_option (\<lambda>(r, p'). (r, unit_max_stars p')) (build_units True True False small_pmt) = Some (0, 4)"
    by code_simp
  then obtain p' where b: "build_units True True False small_pmt = Some (0, p')" "unit_max_stars p' = 4" by auto
  have "unit_stars small_pmt = Some [2, 3]" by code_simp
  then show ?thesis
    using b random_unit_from_table [OF b(1), of "[2, 3]" 3 lucky_rng] by (auto simp: small_pmt_def Let_def split_def)
qed

end
