(* ===== verification/Drop_Props.thy ===== *)
theory Drop_Props
  imports Drops Drop_Units Subcmd_Props
begin

section \<open>What a drop costs and what it may be\<close>

text \<open>
  Every drop function either does nothing, or it first uses up a monster or a box and then sends at
  most one item.  What that means for the lobby, for the number of items, and for what is
  sent follows from this one fact.
\<close>

subsection \<open>Monsters and boxes that are left\<close>

definition drops_left :: "lobby \<Rightarrow> nat" where
  "drops_left L =
     (case map_enemies L of None \<Rightarrow> 0 | Some en \<Rightarrow> length (filter (\<lambda>x. drop_done x = 0) en)) +
     (case map_objs L of None \<Rightarrow> 0 | Some xs \<Rightarrow> length (filter (\<lambda>x. \<not> has_flag (obj_flags x) 1) xs))"

lemma filter_update:
  assumes "i < length xs" "P (xs ! i)" "\<not> P y"
  shows "Suc (length (filter P (xs[i := y]))) = length (filter P xs)"
proof -
  have "xs = take i xs @ xs ! i # drop (Suc i) xs" using assms(1) by (simp add: id_take_nth_drop)
  then have "filter P xs = filter P (take i xs) @ xs ! i # filter P (drop (Suc i) xs)"
    using assms(2) by (metis filter_append filter.simps(2))
  moreover have "filter P (xs[i := y]) = filter P (take i xs) @ filter P (drop (Suc i) xs)"
    using assms by (simp add: upd_conv_take_nth_drop)
  ultimately show ?thesis by simp
qed

text \<open>A store in which lobby \<open>l\<close> has used up one monster or box, and only random numbers were drawn.\<close>

definition spends :: "lref \<Rightarrow> world \<Rightarrow> world \<Rightarrow> bool" where
  "spends l w w' \<longleftrightarrow> keeps w w' \<and> cl w' = cl w \<and> sent w' = sent w \<and> lobbies w' l \<noteq> None \<and>
     l_item_id (lob w' l) = l_item_id (lob w l) \<and> Suc (drops_left (lob w' l)) = drops_left (lob w l)"

lemma sent_rng [simp]: "sent (set_rng g w) = sent w"
  by (simp add: set_rng_def)

lemma spends_rng [simp]: "spends l w w' \<Longrightarrow> spends l w (set_rng g w')"
  by (simp add: spends_def keeps_rng fun_eq_iff)

lemma spends_enemy:
  assumes "lobbies w l \<noteq> None" "map_enemies (lob w l) = Some en" "mid < length en" "drop_done (en ! mid) = 0"
  shows "spends l w (upd_lobby l (\<lambda>L. L\<lparr>map_enemies := Some (en[mid := (en ! mid)\<lparr>drop_done := 1\<rparr>])\<rparr>) w)"
  using assms filter_update [of mid en "\<lambda>x. drop_done x = 0" "(en ! mid)\<lparr>drop_done := 1\<rparr>"]
  by (auto simp: spends_def store drops_left_def fun_eq_iff keeps_refl intro!: keeps_lobby)

lemma spends_box:
  assumes "lobbies w l \<noteq> None" "map_objs (lob w l) = Some xs" "i < length xs" "\<not> has_flag (obj_flags (xs ! i)) 1"
  shows "spends l w (upd_lobby l (\<lambda>L. L\<lparr>map_objs := Some (xs[i := (xs ! i)\<lparr>obj_flags := obj_flags (xs ! i) OR 1\<rparr>])\<rparr>) w)"
proof -
  have "(f OR 1) AND 1 = (1 :: u32)" for f by (rule bit_word_eqI) (auto simp: bit_simps)
  then have "has_flag (f OR 1) 1" for f by (simp add: has_flag_def)
  then show ?thesis
    using assms filter_update [of i xs "\<lambda>x. \<not> has_flag (obj_flags x) 1" "(xs ! i)\<lparr>obj_flags := obj_flags (xs ! i) OR 1\<rparr>"]
    by (auto simp: spends_def store drops_left_def fun_eq_iff keeps_refl intro!: keeps_lobby)
qed

text \<open>How a call ended: nothing happened, something was used up in vain, or the item \<open>d\<close> was handed on.\<close>

definition ended :: "drop_kit \<Rightarrow> lref \<Rightarrow> world \<Rightarrow> int \<times> world \<Rightarrow> bool" where
  "ended k l w res \<longleftrightarrow> snd res = w \<or> spends l w (snd res) \<or>
     (\<exists>w1 d csr. spends l w w1 \<and> k_send k d csr w1 = Some res)"

lemma ended_deliver:
  assumes "spends l w w1" "deliver k csr w1 m = Some res"
  shows "ended k l w res"
proof -
  obtain r g where m: "m = Some (r, g)" using assms(2) by (auto simp: deliver_def split: bind_splits)
  have "spends l w (set_rng g w1)" using assms(1) by simp
  then show ?thesis using assms(2) m unfolding ended_def deliver_def by (cases r) auto
qed

lemma enemy_part_ended:
  assumes "enemy_part k ent quest stack l area p w = Some res" "lobbies w l \<noteq> None"
  shows "ended k l w res"
proof -
  obtain en where en: "map_enemies (lob w l) = Some en"
    using assms(1) by (auto simp: enemy_part_def Let_def split: bind_splits)
  define mid where "mid = unat (req_req p)"
  show ?thesis
  proof (cases "mid > length en \<or> drop_done (en ! mid) \<noteq> 0")
    case True
    then show ?thesis
      using assms(1) en by (auto simp: enemy_part_def Let_def ended_def mid_def split: if_splits bind_splits)
  next
    case False
    define w1 where "w1 = upd_lobby l (\<lambda>L. L\<lparr>map_enemies := Some (en[mid := (en ! mid)\<lparr>drop_done := 1\<rparr>])\<rparr>) w"
    have mid: "mid < length en"
      using assms(1) en False by (auto simp: enemy_part_def Let_def mid_def [symmetric] split: bind_splits if_splits)
    have sp: "spends l w w1" unfolding w1_def using spends_enemy [OF assms(2) en mid] False by simp
    note del = ended_deliver [OF spends_rng [OF sp]]
    show ?thesis
      using sp assms(1) en False mid
      by (auto simp: enemy_part_def Let_def mid_def [symmetric] w1_def [symmetric] split_def spends_rng ended_def [of k l w "(0, _)"]
          split: if_splits bind_splits option.splits dest: del)
  qed
qed

lemma box_part_ended:
  assumes "box_part k ent quest area_of stack l c p w = Some res" "lobbies w l \<noteq> None"
  shows "ended k l w res"
proof (cases "req_pt_index p = 0x30")
  case False
  then show ?thesis using assms(1) by (auto simp: box_part_def ended_def)
next
  case pt: True
  obtain xs where xs: "map_objs (lob w l) = Some xs"
    using assms(1) pt by (auto simp: box_part_def Let_def split: bind_splits)
  define i where "i = unat (req_req p)"
  show ?thesis
  proof (cases "i > length xs \<or> has_flag (obj_flags (xs ! i)) 1 \<or> (\<exists>rc. area_of (uint (cur_area (cl w c))) = Inl rc)")
    case True
    then show ?thesis
      using assms(1) xs pt
      by (auto simp: box_part_def Let_def ended_def i_def [symmetric] split: if_splits bind_splits sum.splits)
  next
    case False
    define w1 where "w1 = upd_lobby l (\<lambda>L. L\<lparr>map_objs := Some (xs[i := (xs ! i)\<lparr>obj_flags := obj_flags (xs ! i) OR 1\<rparr>])\<rparr>) w"
    obtain area where area: "area_of (uint (cur_area (cl w c))) = Inr area"
      using False by (cases "area_of (uint (cur_area (cl w c)))") auto
    have i: "i < length xs"
      using assms(1) xs pt False by (auto simp: box_part_def Let_def i_def [symmetric] split: bind_splits if_splits)
    have sp: "spends l w w1" unfolding w1_def using spends_box [OF assms(2) xs i] False by simp
    note del = ended_deliver [OF sp]
    show ?thesis
      using sp assms(1) xs False i pt area
      by (auto simp: box_part_def Let_def i_def [symmetric] w1_def [symmetric] split_def ended_def [of k l w "(0, _)"]
          split: if_splits bind_splits option.splits dest: del) (auto simp: ended_def)
  qed
qed

subsection \<open>What is handed on\<close>

definition drop_send ::
  "sub_env \<Rightarrow> drop_data \<Rightarrow> drop_function \<Rightarrow> cref \<Rightarrow> lref \<Rightarrow> packet \<Rightarrow> u32 list \<Rightarrow> bool \<Rightarrow> world \<Rightarrow> (int \<times> world) option"
where
  "drop_send e dd f c l p =
     (if f = Pt_bb_drop then check_and_send_bb e dd l p else check_and_send e dd c l p)"

lemmas pt_functions = pt_generate_v2_drop_def pt_generate_v2_boxdrop_def pt_generate_gc_drop_def
  pt_generate_gc_boxdrop_def pt_generate_bb_drop_def pt_generate_bb_boxdrop_def

lemma kit_send: "k_send (v2_kit e dd c l p ent sec L) = check_and_send e dd c l p"
  "k_send (gc_kit e dd c l p ent3 sec L) = check_and_send e dd c l p"
  "k_send (bb_kit e dd c l p ent3 sec L) = check_and_send_bb e dd l p"
  by (simp_all add: v2_kit_def gc_kit_def bb_kit_def)

lemma ended_same: "ended k l w (r, w)"
  by (simp add: ended_def)

lemma ended_send: "ended k l w res \<Longrightarrow> k_send k = s \<Longrightarrow> \<exists>k. k_send k = s \<and> ended k l w res"
  by blast

lemma pt_drop_ended:
  assumes "pt_drop e dd stack f c l p w = Some res" "f \<in> {Pt_v2_drop, Pt_gc_drop, Pt_bb_drop}" "lobbies w l \<noteq> None"
  shows "\<exists>k. k_send k = drop_send e dd f c l p \<and> ended k l w res"
proof -
  have "\<exists>k. k_send k = s \<and> ended k l w (r, w)" for s r
    by (rule exI [of _ "\<lparr>k_weapon = undefined, k_armor = undefined, k_shield = undefined, k_unit = undefined, k_tool = undefined,
      k_mag = [], k_rare = undefined, k_send = s\<rparr>"]) (simp add: ended_same)
  note idle = this
  note parts = enemy_part_ended [OF _ assms(3), THEN ended_send] box_part_ended [OF _ assms(3), THEN ended_send]
  show ?thesis
    using assms(1,2)
    by (auto simp: pt_drop_def pt_functions drop_send_def kit_send split: if_splits bind_splits sum.splits
        intro: idle dest!: parts)
qed

text \<open>Sending an item takes the next item number and leaves monsters and boxes alone.\<close>

definition numbers :: "lref \<Rightarrow> world \<Rightarrow> world \<Rightarrow> bool" where
  "numbers l w w' \<longleftrightarrow> keeps w w' \<and> lobbies w' l \<noteq> None \<and> l_item_id (lob w' l) = l_item_id (lob w l) + 1 \<and>
     drops_left (lob w' l) = drops_left (lob w l)"

lemma send_lobby_item_numbers:
  assumes "lobbies w l \<noteq> None"
  shows "numbers l w (snd (subcmd_send_lobby_item l p d w))"
proof -
  define w1 where "w1 = upd_lobby l (\<lambda>L. L\<lparr>l_item_id := l_item_id L + 1\<rparr>) w"
  have "only_sent w1 (snd (subcmd_send_lobby_item l p d w))"
    unfolding subcmd_send_lobby_item_def Let_def snd_conv w1_def [symmetric] by (intro sent_rules)
  note same = only_sent_store [OF this]
  have "keeps w (snd (subcmd_send_lobby_item l p d w))" by (intro keep_rules)
  then show ?thesis using assms same by (simp add: numbers_def w1_def store drops_left_def)
qed

lemma bb_lobby_item_numbers:
  assumes "lobbies w l \<noteq> None" "lobby_add_item_locked mem l d w = (Some it, w1)"
  shows "numbers l w (snd (subcmd_send_bb_lobby_item e l p it w1))"
proof -
  have w1: "w1 = upd_lobby l (\<lambda>L. L\<lparr>l_item_id := l_item_id L + 1, item_queue := it # item_queue L\<rparr>) w"
    using assms(2) by (auto simp: lobby_add_item_locked_def Let_def split: if_splits)
  have "only_sent w1 (snd (subcmd_send_bb_lobby_item e l p it w1))"
    unfolding subcmd_send_bb_lobby_item_def Let_def snd_conv by (intro sent_rules)
  note same = only_sent_store [OF this]
  have "keeps w (snd (subcmd_send_bb_lobby_item e l p it w1))"
    unfolding subcmd_send_bb_lobby_item_def Let_def snd_conv w1 by (intro keep_rules) auto
  then show ?thesis using assms(1) same by (simp add: numbers_def w1 store drops_left_def)
qed

lemma check_and_send_cases:
  assumes "check_and_send e dd c l p d csr w = Some res"
  shows "res = (0, w) \<or> res = subcmd_send_lobby_item l p d w \<and>
    (\<forall>lim v. ship_limits e = Some lim \<longrightarrow> limits_version (version (cl w c)) = Some v \<longrightarrow>
       sylverant_limits_check_item (shl1 e) lim (as_item d) v)"
  using assms by (auto simp: check_and_send_def Let_def split: option.splits if_splits bind_splits)

lemma check_and_send_bb_cases:
  assumes "check_and_send_bb e dd l p d csr w = Some res"
  shows "res = (0, w) \<or>
    (\<exists>it w1. lobby_add_item_locked (has_mem e) l d w = (Some it, w1) \<and> res = subcmd_send_bb_lobby_item e l p it w1)"
  using assms by (auto simp: check_and_send_bb_def Let_def split: if_splits bind_splits prod.splits)

lemma drop_send_numbers:
  assumes "drop_send e dd f c l p d csr w = Some res" "lobbies w l \<noteq> None"
  shows "snd res = w \<or> numbers l w (snd res)"
proof (cases "f = Pt_bb_drop")
  case True
  then have "check_and_send_bb e dd l p d csr w = Some res" using assms(1) by (simp add: drop_send_def)
  then show ?thesis using check_and_send_bb_cases [of e dd l p d csr w res] bb_lobby_item_numbers [OF assms(2)] by auto
next
  case False
  then have "check_and_send e dd c l p d csr w = Some res" using assms(1) by (simp add: drop_send_def)
  then show ?thesis
    using check_and_send_cases [of e dd c l p d csr w res] send_lobby_item_numbers [OF assms(2)] by auto
qed

text \<open>The step of a drop function: nothing, or a monster or box less, and then perhaps an item more.\<close>

lemma pt_drop_step:
  assumes "pt_drop e dd stack f c l p w = Some res" "f \<in> {Pt_v2_drop, Pt_gc_drop, Pt_bb_drop}" "lobbies w l \<noteq> None"
  shows "snd res = w \<or> spends l w (snd res) \<or> (\<exists>w1. spends l w w1 \<and> numbers l w1 (snd res))"
  using pt_drop_ended [OF assms] drop_send_numbers unfolding ended_def spends_def by metis

lemma pt_drop_keeps:
  assumes "pt_drop e dd stack f c l p w = Some res" "f \<in> {Pt_v2_drop, Pt_gc_drop, Pt_bb_drop}" "lobbies w l \<noteq> None"
  shows "keeps w (snd res)"
  using pt_drop_step [OF assms] keeps_trans unfolding spends_def numbers_def by (metis keeps_refl)

subsection \<open>Nothing drops twice\<close>

text \<open>A sequence of requests of players of the lobby, each with what the stack holds at the call.\<close>

primrec drop_run ::
  "sub_env \<Rightarrow> drop_data \<Rightarrow> drop_function \<Rightarrow> lref \<Rightarrow> (u32 list \<times> cref \<times> packet) list \<Rightarrow> world \<Rightarrow> world option"
where
  "drop_run e dd f l [] w = Some w"
| "drop_run e dd f l (x # xs) w = do {
     (r, w) \<leftarrow> pt_drop e dd (fst x) f (fst (snd x)) l (snd (snd x)) w;
     drop_run e dd f l xs w
   }"

text \<open>C5: Monsters and boxes drop at most once.  The players of a game may ask for anything, in whatever
  order, as long as every request stays inside the tables; this leaves out the index just past the last
  monster or box, which the code lets through and with which it reads, and pays for, what lies behind
  them.  Then every item the server makes costs a monster that has not dropped anything or
  a box that has not been opened: the items made and the monsters and boxes left are together never
  more than the monsters and boxes there were.\<close>

theorem drops_bounded:
  assumes "drop_run e dd f l xs w = Some w'" "f \<in> {Pt_v2_drop, Pt_gc_drop, Pt_bb_drop}" "lobbies w l \<noteq> None"
  shows "\<exists>k. l_item_id (lob w' l) = l_item_id (lob w l) + of_nat k \<and> k + drops_left (lob w' l) \<le> drops_left (lob w l)"
  using assms
proof (induction xs arbitrary: w)
  case Nil
  then show ?case by (intro exI [of _ 0]) simp
next
  case (Cons x xs)
  obtain r w1 where s: "pt_drop e dd (fst x) f (fst (snd x)) l (snd (snd x)) w = Some (r, w1)"
    and run: "drop_run e dd f l xs w1 = Some w'"
    using Cons.prems(1) by (auto split: bind_splits)
  note step = pt_drop_step [OF s Cons.prems(2,3), unfolded snd_conv]
  have "\<exists>j. lobbies w1 l \<noteq> None \<and> l_item_id (lob w1 l) = l_item_id (lob w l) + of_nat j \<and>
      j + drops_left (lob w1 l) \<le> drops_left (lob w l)"
    using step
  proof (elim disjE exE conjE)
    show ?thesis if "w1 = w" using that Cons.prems(3) by (intro exI [of _ 0]) simp
    show ?thesis if "spends l w w1" using that by (intro exI [of _ 0]) (simp add: spends_def)
    show ?thesis if "spends l w w2" "numbers l w2 w1" for w2
      using that by (intro exI [of _ 1]) (simp add: spends_def numbers_def)
  qed
  then obtain j where j: "lobbies w1 l \<noteq> None" "l_item_id (lob w1 l) = l_item_id (lob w l) + of_nat j"
    "j + drops_left (lob w1 l) \<le> drops_left (lob w l)" by blast
  obtain k where "l_item_id (lob w' l) = l_item_id (lob w1 l) + of_nat k" "k + drops_left (lob w' l) \<le> drops_left (lob w1 l)"
    using Cons.IH [OF run Cons.prems(2) j(1)] by blast
  then show ?case using j by (intro exI [of _ "j + k"]) (simp add: add.assoc)
qed

text \<open>A game of the second version in the third area, with one monster and one box.\<close>

definition drop_tables :: drop_data where
  "drop_tables = \<lparr>v2_ptdata = [[sample_pt]], gc_ptdata = [], bb_ptdata = [], pmt_v2 = small_pmt, pmt_gc = small_pmt,
     pmt_bb = small_pmt, have_v2rt = False, have_gcrt = False, v2_rtdata = [], gc_rtdata = [], quest_rares = False,
     quest_srares = False\<rparr>"

definition v2_player :: ship_client where
  "v2_player = (new_client CLIENT_VERSION_DCV2 42)\<lparr>cur_lobby := Some 5, cur_area := 4\<rparr>"

definition v2_game :: lobby where
  "v2_game = bb_game\<lparr>l_version := CLIENT_VERSION_DCV2, dropfunc := Pt_v2_drop, l_item_id := 0xF0000000,
     map_enemies := Some [\<lparr>bp_entry = 0, rt_index = 0, clients_hit = 0, last_client = 0, drop_done = 0\<rparr>],
     map_objs := Some [\<lparr>obj_flags = 0, obj_data = \<lparr>o_skin = 0x88, o_dword = replicate 6 0\<rparr>\<rparr>]\<rparr>"

definition v2_world :: world where
  "v2_world = world0\<lparr>lobbies := (\<lambda>l. if l = 5 then Some v2_game else None), clients := (\<lambda>_. v2_player),
     rng := seeded [987654321, 42, 77777, 123456789, 5, 600, 31337, 271828, 314159]\<rparr>"

definition monster_request :: packet where
  "monster_request = bb_packet 0x18 ([0x60, 6, 0, 0, 4, 1, 0, 0] @ replicate 16 0)"

definition box_request :: packet where
  "box_request = bb_packet 0x18 ([0x60, 6, 0, 0, 4, 0x30, 0, 0] @ replicate 16 0)"

lemma drops_bounded_witness:
  "\<exists>w'. drop_run bb_env drop_tables Pt_v2_drop 5 [([], 7, monster_request), ([], 7, box_request), ([], 7, monster_request)] v2_world
      = Some w' \<and> l_item_id (lob w' 5) = 0xF0000002 \<and> drops_left (lob w' 5) = 0"
proof -
  let ?xs = "[([], 7, monster_request), ([], 7, box_request), ([], 7, monster_request)]"
  have "map_option (\<lambda>w'. l_item_id (lob w' 5)) (drop_run bb_env drop_tables Pt_v2_drop 5 ?xs v2_world) = Some 0xF0000002"
    by code_simp
  then obtain w' where w': "drop_run bb_env drop_tables Pt_v2_drop 5 ?xs v2_world = Some w'" "l_item_id (lob w' 5) = 0xF0000002"
    by (auto simp: map_option_eq_Some)
  have start: "lobbies v2_world 5 \<noteq> None" "l_item_id (lob v2_world 5) = 0xF0000000" "drops_left (lob v2_world 5) = 2"
    by code_simp+
  obtain k where k: "(0xF0000002 :: u32) = 0xF0000000 + of_nat k" "k + drops_left (lob w' 5) \<le> 2"
    using drops_bounded [OF w'(1) _ start(1)] start(2,3) w'(2) by auto
  have "k = 0 \<or> k = 1 \<or> k = 2" using k(2) by linarith
  then have "k = 2" using k(1) by auto
  then show ?thesis using w' k(2) by simp
qed

subsection \<open>Only legitimate items drop\<close>

text \<open>C23: When the administrator has configured limits, the drop functions for the versions those cover send
  an item only after it has passed the legit check for the version of the client who asked; otherwise
  they send nothing.\<close>

theorem drops_legit:
  assumes "pt_drop e dd stack f c l p w = Some (r, w')" "f \<in> {Pt_v2_drop, Pt_gc_drop}" "lobbies w l \<noteq> None"
    "ship_limits e = Some lim" "limits_version (version (cl w c)) = Some v"
  shows "sent w' = sent w \<or> (\<exists>d w1. sent w1 = sent w \<and> (r, w') = subcmd_send_lobby_item l p d w1 \<and>
    sylverant_limits_check_item (shl1 e) lim (as_item d) v)"
proof -
  have f: "f \<in> {Pt_v2_drop, Pt_gc_drop, Pt_bb_drop}" "drop_send e dd f c l p = check_and_send e dd c l p"
    using assms(2) by (auto simp: drop_send_def)
  obtain k where k: "k_send k = check_and_send e dd c l p" "ended k l w (r, w')"
    using pt_drop_ended [OF assms(1) f(1) assms(3)] f(2) by auto
  from k(2) consider "w' = w" | "spends l w w'"
    | w1 d csr where "spends l w w1" "check_and_send e dd c l p d csr w1 = Some (r, w')"
    unfolding ended_def k(1) by auto
  then show ?thesis
  proof cases
    case 3
    then have "cl w1 = cl w" "sent w1 = sent w" by (simp_all add: spends_def)
    then show ?thesis using check_and_send_cases [OF 3(2)] assms(4,5) by auto
  qed (simp_all add: spends_def)
qed

definition open_limits :: limits_t where
  "open_limits = \<lparr>weapons = [], guards = [], mags = [], tools = [], default_behavior = True,
     check_srank_names = True, check_pbs = True\<rparr>"

lemma drops_legit_witness:
  "\<exists>r w' d w1. pt_drop (bb_env\<lparr>ship_limits := Some open_limits\<rparr>) drop_tables [] Pt_v2_drop 7 5 monster_request v2_world = Some (r, w') \<and>
     (r, w') = subcmd_send_lobby_item 5 monster_request d w1 \<and> sylverant_limits_check_item (\<lambda>n. 2 ^ n) open_limits (as_item d) ITEM_VERSION_V2"
proof -
  let ?e = "bb_env\<lparr>ship_limits := Some open_limits\<rparr>"
  have "map_option (\<lambda>(r, w'). sent w' = sent v2_world) (pt_drop ?e drop_tables [] Pt_v2_drop 7 5 monster_request v2_world) = Some False"
    by code_simp
  then obtain r w' where w': "pt_drop ?e drop_tables [] Pt_v2_drop 7 5 monster_request v2_world = Some (r, w')" "sent w' \<noteq> sent v2_world"
    by (auto simp: map_option_eq_Some)
  have start: "lobbies v2_world 5 \<noteq> None" "limits_version (version (cl v2_world 7)) = Some ITEM_VERSION_V2"
    by code_simp+
  show ?thesis
    using drops_legit [OF w'(1) _ start(1) _ start(2), of open_limits] w' by (auto simp: bb_env_def)
qed

subsection \<open>The subcommands with the drop functions of the server\<close>

lemma pt_drops_keep: "drops_keep (pt_drops e dd stack)"
proof -
  have "keeps w w'" if d: "pt_drops e dd stack f c p w = Some (r, w')" for f c p w r w'
  proof -
    have "lobbies w (lobby_of w c) \<noteq> None" "pt_drop e dd stack f c (lobby_of w c) p w = Some (r, w')"
      using d by (auto simp: pt_drops_def Let_def bind_eq_Some_conv split: if_splits)
    then show ?thesis
      using pt_drop_keeps [of e dd stack f c "lobby_of w c" p w "(r, w')"] keeps_td [OF keeps_refl]
      by (cases f) (auto simp: pt_drop_def, metis snd_conv)
  qed
  then show ?thesis by (auto simp: drops_keep_def if_defined_def)
qed

text \<open>C19: No subcommand of any version, for one player or for all, with the drop functions of the server,
  moves a player to another lobby or slot, changes who is in a lobby or the flags and the type of a
  lobby, harms the seats of a sound block, or puts a packet into the queue of a lobby or takes one out
  of it.  This holds of every call that has a defined outcome in C: one that writes beyond the slots of
  the items overwrites just those fields, and one that locks its lobby twice does not end.\<close>

theorem subcommands_move_nobody:
  assumes "subcmd_handle_bcast e c p w = Some (r, w') \<or> subcmd_bb_handle_bcast e c p w = Some (r, w') \<or>
     subcmd_handle_one e (pt_drops e dd stack) c p w = Some (r, w') \<or>
     subcmd_bb_handle_one e (pt_drops e dd stack) c p w = Some (r, w')"
  shows "(\<forall>d. cur_lobby (cl w' d) = cur_lobby (cl w d) \<and> client_id (cl w' d) = client_id (cl w d)) \<and>
     members w' = members w \<and> (\<forall>l. map_option l_flags (lobbies w' l) = map_option l_flags (lobbies w l)) \<and>
     (\<forall>l. map_option l_type (lobbies w' l) = map_option l_type (lobbies w l)) \<and> (lobbies_ok w \<longrightarrow> lobbies_ok w') \<and>
     (\<forall>l. map_option pkt_queue (lobbies w' l) = map_option pkt_queue (lobbies w l))"
  using subcommands_keep_seats [OF pt_drops_keep assms] by (simp add: keeps_def same_seats_def)

theorem subcommands_move_nobody_witness:
  "\<exists>r w'. subcmd_bb_handle_bcast bb_env 7 monomate_drop bb_world = Some (r, w') \<and> members w' = members bb_world"
proof -
  have "subcmd_bb_handle_bcast bb_env 7 monomate_drop bb_world \<noteq> None" by code_simp
  then obtain r w' where "subcmd_bb_handle_bcast bb_env 7 monomate_drop bb_world = Some (r, w')" by auto
  then show ?thesis using subcommands_move_nobody [of bb_env 7 monomate_drop bb_world r w'] by blast
qed

end
