(* ===== verification/Drop_Types.thy ===== *)
theory Drop_Types
  imports Drop_Props
begin

section \<open>Well-formed tables do not get stuck\<close>

text \<open>
  What a table must look like for the generators never to read outside of it: the sizes are those of
  \<open>ptdata.h\<close>, and the entries that are indices (the percent patterns, the rank of the elements) are
  within what they index.  One lemma for each generator says that it returns; the kits and the drop
  functions follow.
\<close>

definition grid :: "nat \<Rightarrow> nat \<Rightarrow> 'a list list \<Rightarrow> bool" where
  "grid m n t \<longleftrightarrow> length t = m \<and> (\<forall>row \<in> set t. length row = n)"

definition pt_ok :: "('p, 'z) pt_entry_scheme \<Rightarrow> bool" where
  "pt_ok ent \<longleftrightarrow> grid 9 4 (power_pattern ent) \<and> grid 3 10 (area_pattern ent) \<and> grid 6 10 (percent_attachment ent) \<and>
     (\<forall>row \<in> set (area_pattern ent). \<forall>v \<in> set row. sint v < 0 \<or> (\<forall>r \<in> set (percent_pattern ent). nat (sint v) < length r)) \<and>
     length (element_ranking ent) = 10 \<and> (\<forall>v \<in> set (element_ranking ent). v \<le> 4) \<and>
     length (element_probability ent) = 10 \<and> length (unit_level ent) = 10 \<and> grid 28 10 (tool_frequency ent) \<and>
     grid 19 10 (tech_frequency ent) \<and> grid 19 20 (tech_levels ent) \<and> length (enemy_dar ent) = 100 \<and>
     grid 100 2 (enemy_meseta ent) \<and> length (enemy_drop ent) = 100 \<and> grid 10 2 (box_meseta ent) \<and> grid 7 10 (box_drop ent)"

definition units_ok :: "pmt \<Rightarrow> bool" where
  "units_ok p \<longleftrightarrow> length (units_with_stars p) = Suc (unat (unit_max_stars p)) \<and>
     (\<forall>n \<in> set (units_with_stars p). 0 < unat n \<and> unat n \<le> length (units_by_stars p))"

named_theorems progress \<open>generators that return\<close>

lemma at_defined: "i < length xs \<Longrightarrow> at xs i = Some (xs ! i)"
  by (simp add: at_def)

lemma column_defined:
  assumes "\<forall>row \<in> set t. j < length row"
  shows "column_at t j = Some (map (\<lambda>row. row ! j) t)"
  using assms by (induction t) (auto simp: column_at_def at_def)

lemma grid_column: "grid m n t \<Longrightarrow> j < n \<Longrightarrow> column_at t j = Some (map (\<lambda>row. row ! j) t)"
  by (rule column_defined) (simp add: grid_def)

lemma grid_entry: "grid m n t \<Longrightarrow> i < m \<Longrightarrow> j < n \<Longrightarrow> entry t i j = Some (t ! i ! j)"
  by (simp add: grid_def entry_def at_def)

lemma grid_in: "grid m n t \<Longrightarrow> i < m \<Longrightarrow> j < n \<Longrightarrow> t ! i \<in> set t \<and> t ! i ! j \<in> set (t ! i)"
  by (simp add: grid_def)

subsection \<open>The generators\<close>

lemma rank_loop_bounds:
  "0 \<le> warea \<Longrightarrow> rank_loop upg rank warea = (rank', warea') \<Longrightarrow> 0 \<le> warea'"
proof (induction upg rank warea rule: rank_loop.induct)
  case (1 upg rank warea)
  show ?case
  proof (cases "0 < upg \<and> warea - upg \<ge> 0")
    case True
    then show ?thesis using 1 by (simp add: rank_loop.simps [of upg rank warea])
  next
    case False
    then have "warea' = warea" using 1(3) by (subst (asm) rank_loop.simps) auto
    then show ?thesis using 1(2) by simp
  qed
qed

lemma candidates_pattern:
  "weapon_candidates ent area is = Some ws \<Longrightarrow> x \<in> set ws \<Longrightarrow> 0 \<le> cw_pattern x \<and> cw_pattern x < 4"
proof (induction "is" arbitrary: ws)
  case (Cons i "is")
  have "0 \<le> snd (rank_loop u r w)" if "0 \<le> w" for u r w
    using that rank_loop_bounds by (cases "rank_loop u r w") auto
  then show ?case
    using Cons by (auto simp: Let_def split_def split: if_splits bind_splits)
qed simp

lemma pick_weapon_pattern:
  assumes "pick_weapon ent area g = (Inr (d, pattern), g')"
  shows "pattern < 4"
proof -
  obtain ws where ws: "weapon_candidates ent area [0..<12] = Some ws"
    using assms by (auto simp: pick_weapon_def split: option.splits)
  have "\<exists>k < length ws. pattern = nat (cw_pattern (ws ! k))"
    using assms ws
    by (auto simp: pick_weapon_def Let_def simp del: pick.simps list.map sum_list.Cons
        split: prod.splits option.splits list.splits dest!: pick_less)
  then show ?thesis using candidates_pattern [OF ws] by (metis nth_mem nat_less_iff of_nat_numeral)
qed

lemma set_grind_defined [progress]:
  "pt_ok ent \<Longrightarrow> pattern < 4 \<Longrightarrow> set_grind ent pattern d g \<noteq> None"
  by (auto simp: set_grind_def Let_def pt_ok_def grid_column split_def)

lemma percent_step_defined [progress]:
  assumes "pt_ok ent" "i < 3" "area < 10"
  shows "percent_step ent limit area i st g \<noteq> None"
proof -
  have a: "grid 3 10 (area_pattern ent)" "grid 6 10 (percent_attachment ent)" using assms(1) by (auto simp: pt_ok_def)
  define v where "v = area_pattern ent ! i ! area"
  have v: "entry (area_pattern ent) i area = Some v" "sint v < 0 \<or> (\<forall>r \<in> set (percent_pattern ent). nat (sint v) < length r)"
  proof -
    show "entry (area_pattern ent) i area = Some v" using assms grid_entry [OF a(1)] by (simp add: v_def)
    have "area_pattern ent ! i \<in> set (area_pattern ent)" "v \<in> set (area_pattern ent ! i)"
      using assms grid_in [OF a(1)] by (auto simp: v_def)
    then show "sint v < 0 \<or> (\<forall>r \<in> set (percent_pattern ent). nat (sint v) < length r)"
      using assms(1) unfolding pt_ok_def by blast
  qed
  obtain d0 n0 u0 where st: "st = (d0, n0, u0)" by (cases st) auto
  show ?thesis
  proof (cases "sint v < 0")
    case False
    then have "column_at (percent_pattern ent) (nat (sint v)) = Some (map (\<lambda>row. row ! nat (sint v)) (percent_pattern ent))"
      using v(2) by (intro column_defined) auto
    then show ?thesis
      using False assms(3) by (auto simp: percent_step_def st v(1) Let_def split_def grid_column [OF a(2)] split: option.split)
  qed (simp add: percent_step_def v(1))
qed

lemma percent_loop_defined [progress]:
  "pt_ok ent \<Longrightarrow> \<forall>i \<in> set is. i < 3 \<Longrightarrow> area < 10 \<Longrightarrow> percent_loop ent limit area is st g \<noteq> None"
proof (induction "is" arbitrary: st g)
  case (Cons i "is")
  then show ?case using percent_step_defined [of ent i area limit st g] by auto
qed simp

lemma attr_tables: "length attr_count = 4" "\<And>r. r < 4 \<Longrightarrow> unat (attr_count ! r) \<le> length (attr_list ! r) \<and> 0 < unat (attr_count ! r)"
  "length attr_list = 4"
proof -
  show "length attr_count = 4" "length attr_list = 4" by (simp_all add: attr_count_def attr_list_def)
  have "\<forall>r \<in> set [0..<4]. unat (attr_count ! r) \<le> length (attr_list ! r) \<and> 0 < unat (attr_count ! r)" by code_simp
  then show "\<And>r. r < 4 \<Longrightarrow> unat (attr_count ! r) \<le> length (attr_list ! r) \<and> 0 < unat (attr_count ! r)" by simp
qed

lemma roll_less: "roll n g = (r, g') \<Longrightarrow> 0 < unat n \<Longrightarrow> unat r < unat n"
  by (auto simp: roll_def Let_def unat_mod split: prod.splits)

lemma set_element_defined [progress]:
  assumes "pt_ok ent" "area < 10"
  shows "set_element ent area semi flagged d g \<noteq> None"
proof -
  define v where "v = element_ranking ent ! area"
  have r: "at (element_ranking ent) area = Some v" "v \<le> 4" "at (element_probability ent) area = Some (element_probability ent ! area)"
    using assms by (auto simp: pt_ok_def at_def v_def)
  have "unat v \<in> {0, 1, 2, 3, 4}" using r(2) by (auto simp: word_le_nat_alt)
  then have "v \<in> {0, 1, 2, 3, 4}" by (auto simp: word_unat_eq_iff)
  then have s: "v = 0 \<or> \<not> sint v < 0 \<and> nat (sint v - 1) < 4" by auto
  show ?thesis
  proof (cases "v = 0")
    case False
    define k where "k = nat (sint v - 1)"
    have k: "k < 4" "\<not> sint v < 0" using s False by (auto simp: k_def)
    have n: "at attr_count k = Some (attr_count ! k)" using k attr_tables(1) by (simp add: at_def)
    let ?h = "snd (roll 100 g)"
    have "entry attr_list k (unat (fst (roll (attr_count ! k) h))) \<noteq> None" for h
      using roll_less [of "attr_count ! k" h "fst (roll (attr_count ! k) h)" "snd (roll (attr_count ! k) h)"]
        attr_tables(2) [OF k(1)] k(1) attr_tables(3) by (simp add: entry_def at_def)
    then obtain a where e: "entry attr_list k (unat (fst (roll (attr_count ! k) ?h))) = Some a" by fastforce
    show ?thesis
      using k(2) False by (auto simp: set_element_def r Let_def split_def n e k_def [symmetric])
  qed (simp add: set_element_def r)
qed

lemma finish_weapon_defined [progress]:
  assumes "pt_ok ent" "area < 10" "pattern < 4"
  shows "finish_weapon ent limit area semi flagged pattern d g \<noteq> None"
proof -
  obtain r h where 1: "set_grind ent pattern d g = Some (r, h)" using set_grind_defined [OF assms(1,3)] by fastforce
  show ?thesis
  proof (cases r)
    case (Inr d1)
    obtain d2 h2 where 2: "percent_loop ent limit area [0..<3] (d1, 0, 0) h = Some (d2, h2)"
      using percent_loop_defined [OF assms(1) _ assms(2), of "[0..<3]" limit "(d1, 0, 0)" h] by (auto simp del: upt_Suc)
    show ?thesis using set_element_defined [OF assms(1,2), of semi flagged d2 h2] by (auto simp: finish_weapon_def 1 Inr 2 simp del: upt_Suc)
  qed (simp add: finish_weapon_def 1)
qed

lemma generate_weapon_defined [progress]:
  assumes "pt_ok ent" "area < 10"
  shows "generate_weapon ent limit f area code g picked \<noteq> None"
proof (cases picked)
  case False
  obtain r h where r: "pick_weapon ent area g = (r, h)" by fastforce
  show ?thesis
  proof (cases r)
    case (Inr x)
    obtain d n where x: "x = (d, n)" by fastforce
    have "n < 4" using pick_weapon_pattern r Inr x by blast
    from finish_weapon_defined [OF assms this] show ?thesis using False r Inr x by (simp add: generate_weapon_def)
  qed (use False r in \<open>simp add: generate_weapon_def\<close>)
qed (simp add: generate_weapon_def Let_def finish_weapon_defined assms)

text \<open>Frames and barriers have a type that the table of guards can be asked for.\<close>

lemma lookup_guard_defined: "code_part code 1 \<noteq> 0 \<Longrightarrow> pmt_lookup_guard p code \<noteq> None"
proof -
  assume "code_part code 1 \<noteq> 0"
  then have "0 < unat (code_part code 1)" by (simp add: unat_gt_0)
  then show ?thesis by (auto simp: pmt_lookup_guard_def Let_def at_def)
qed

lemma bind_defined: "m \<noteq> None \<Longrightarrow> (\<And>x. m = Some x \<Longrightarrow> f x \<noteq> None) \<Longrightarrow> m \<bind> f \<noteq> None"
  by (cases m) auto

lemma set_boosts_defined: "code_part (d ! 0) 1 \<noteq> 0 \<Longrightarrow> set_boosts p d g \<noteq> None"
  using lookup_guard_defined [of "d ! 0" p] by (auto simp: set_boosts_def Let_def split_def split: sum.split)

lemma code_part_base:
  "code_part (0x101 OR push_bit 16 x) 1 = 1" "code_part (0x201 OR push_bit 16 x) 1 = 2"
proof -
  have m: "(255 :: u32) = mask 8" by (simp add: mask_eq_exp_minus_1)
  have b: "(0x101 :: u32) = push_bit 8 1 OR 1" "(0x201 :: u32) = push_bit 9 1 OR 1" "(2 :: u8) = push_bit 1 1" by simp_all
  show "code_part (0x101 OR push_bit 16 x) 1 = 1"
    unfolding code_part_def m b by (rule bit_word_eqI) (auto simp: bit_simps bit_1_iff simp del: push_bit_of_1)
  show "code_part (0x201 OR push_bit 16 x) 1 = 2"
    unfolding code_part_def m b by (rule bit_word_eqI) (auto simp: bit_simps bit_1_iff simp del: push_bit_of_1)
qed

lemma pick_armor_part:
  assumes "pick_armor ent base area g = (Inr code, g')" "base = 0x101 \<or> base = 0x201"
  shows "code_part code 1 \<noteq> 0"
  using assms code_part_base by (auto simp: pick_armor_def Let_def split: prod.splits option.splits)

lemma set_slots_first: "set_slots ent [code, 0, 0, 0] g = (d, g') \<Longrightarrow> d ! 0 = code"
  by (auto simp: set_slots_def Let_def put_byte_def split: prod.splits option.splits)

lemma generate_armor_defined [progress]:
  assumes "picked \<longrightarrow> code_part code 1 \<noteq> 0"
  shows "generate_armor ent p area code g picked \<noteq> None" "generate_shield ent p area code g picked \<noteq> None"
proof -
  have a: "\<exists>r h. (if picked then (Inr code, g) else pick_armor ent base area g) = (r, h) \<and>
      (\<forall>c. r = Inr c \<longrightarrow> code_part c 1 \<noteq> 0)" if "base = 0x101 \<or> base = 0x201" for base
    using assms pick_armor_part [of ent base area g, OF _ that] by (cases "pick_armor ent base area g") auto
  obtain r h where r: "(if picked then (Inr code, g) else pick_armor ent 0x101 area g) = (r, h)"
    "\<forall>c. r = Inr c \<longrightarrow> code_part c 1 \<noteq> 0" using a [of "0x101"] by auto
  show "generate_armor ent p area code g picked \<noteq> None"
  proof (cases r)
    case (Inr c)
    obtain d h' where d: "set_slots ent [c, 0, 0, 0] h = (d, h')" by fastforce
    then have "set_boosts p d h' \<noteq> None" using r(2) Inr set_slots_first [OF d] by (intro set_boosts_defined) simp
    then show ?thesis using r(1) Inr d by (simp add: generate_armor_def)
  qed (use r(1) in \<open>simp add: generate_armor_def\<close>)
  obtain r h where r: "(if picked then (Inr code, g) else pick_armor ent 0x201 area g) = (r, h)"
    "\<forall>c. r = Inr c \<longrightarrow> code_part c 1 \<noteq> 0" using a [of "0x201"] by auto
  show "generate_shield ent p area code g picked \<noteq> None"
  proof (cases r)
    case (Inr c)
    then have "set_boosts p [c, 0, 0, 0] h \<noteq> None" using r(2) by (intro set_boosts_defined) simp
    then show ?thesis using r(1) Inr by (simp add: generate_shield_def)
  qed (use r(1) in \<open>simp add: generate_shield_def\<close>)
qed

lemma generate_tech_defined [progress]:
  assumes "grid 19 10 freqs" "grid 19 20 lv" "area < 10"
  shows "generate_tech freqs lv area d g \<noteq> None"
proof -
  have "i < 19" if "pick 1000 tech (map (ucast \<circ> (\<lambda>row. row ! area)) freqs) = Some i" for tech i
    using pick_less [OF that] assms(1) by (simp add: grid_def)
  then show ?thesis
    using assms(3) by (auto simp: generate_tech_def Let_def split_def grid_column [OF assms(1)] grid_entry [OF assms(2)] split: option.split)
qed

lemma generate_tool_defined [progress]:
  assumes "pt_ok ent" "area < 10"
  shows "generate_tool bad ent area g \<noteq> None"
proof -
  have t: "grid 28 10 (tool_frequency ent)" "grid 19 10 (tech_frequency ent)" "grid 19 20 (tech_levels ent)"
    using assms(1) by (auto simp: pt_ok_def)
  have "i < 28" if "pick 10000 rnd (map (ucast \<circ> (\<lambda>row. row ! area)) (tool_frequency ent)) = Some i" for rnd i
    using pick_less [OF that] t(1) by (simp add: grid_def)
  moreover have "length tool_base = 28" by (simp add: tool_base_def)
  ultimately have "generate_tool_base (tool_frequency ent) area g \<noteq> None"
    using assms(2) by (auto simp: generate_tool_base_def Let_def split_def grid_column [OF t(1)] at_def split: option.split)
  then obtain code h where b: "generate_tool_base (tool_frequency ent) area g = Some (code, h)" by auto
  have "generate_tech (tech_frequency ent) (tech_levels ent) area d h \<noteq> None" for d
    by (rule generate_tech_defined [OF t(2,3) assms(2)])
  then show ?thesis
    by (simp add: generate_tool_def b Let_def split_def bind_defined del: not_None_eq)
qed

lemma random_unit_defined [progress]:
  assumes "units_ok p"
  shows "pmt_random_unit p mx g \<noteq> None"
proof -
  define m where "m = (if mx > unit_max_stars p then unit_max_stars p else mx)"
  have "m \<le> unit_max_stars p" by (simp add: m_def not_less)
  then have m: "unat m < length (units_with_stars p)" using assms by (simp add: units_ok_def word_le_nat_alt)
  define n where "n = units_with_stars p ! unat m"
  have n: "0 < unat n" "unat n \<le> length (units_by_stars p)" "at (units_with_stars p) (unat m) = Some n"
    using assms m by (auto simp: units_ok_def n_def at_def)
  obtain r h where r: "roll n g = (r, h)" by fastforce
  have "unat r < length (units_by_stars p)" using roll_less [OF r n(1)] n(2) by linarith
  then show ?thesis using n(1,3) r by (auto simp: pmt_random_unit_def Let_def m_def [symmetric] at_def)
qed

subsection \<open>The drop functions\<close>

text \<open>A kit whose generators return for areas the tables have, with the items a rare item can be.\<close>

definition kit_ok :: "drop_kit \<Rightarrow> bool" where
  "kit_ok k \<longleftrightarrow> (\<forall>area < 10. \<forall>code g. k_weapon k area code g True \<noteq> None \<and> k_weapon k area code g False \<noteq> None \<and>
     k_armor k area code g False \<noteq> None \<and> k_shield k area code g False \<noteq> None \<and>
     (code_part code 1 \<noteq> 0 \<longrightarrow> k_armor k area code g True \<noteq> None \<and> k_shield k area code g True \<noteq> None)) \<and>
     (\<forall>mx g. k_unit k mx g \<noteq> None) \<and> (\<forall>area < 10. \<forall>g. k_tool k area g \<noteq> None)"

lemma code_part_shift: "drop_bit 8 code AND 0xFF = (n :: u32) \<Longrightarrow> n \<noteq> 0 \<Longrightarrow> code_part code 1 \<noteq> 0"
proof
  assume n: "drop_bit 8 code AND 0xFF = n" "n \<noteq> 0" "code_part code 1 = 0"
  have m: "(255 :: u32) = mask 8" by (simp add: mask_eq_exp_minus_1)
  have "ucast (code_part code 1) = (drop_bit 8 code AND 0xFF :: u32)"
    unfolding code_part_def m by (rule bit_word_eqI) (auto simp: bit_simps dest: bit_imp_le_length)
  then show False using n by simp
qed

lemma rare_item_defined [progress]: "kit_ok k \<Longrightarrow> area < 10 \<Longrightarrow> rare_item k stack area code g \<noteq> None"
  using code_part_shift [of code 1] code_part_shift [of code 2]
  by (auto simp: rare_item_def Let_def kit_ok_def simp del: not_None_eq)

lemma unit_made_defined: "kit_ok k \<Longrightarrow> area < length (unit_level ent) \<Longrightarrow> unit_made k ent area g \<noteq> None"
  by (simp add: unit_made_def at_def kit_ok_def split_def bind_defined del: not_None_eq)

lemma enemy_item_defined [progress]:
  assumes "kit_ok k" "pt_ok ent" "area < 10" "pt < 100"
  shows "enemy_item k ent area pt g \<noteq> None"
proof -
  have t: "at (enemy_drop ent) pt = Some (enemy_drop ent ! pt)" "entry (enemy_meseta ent) pt 0 = Some (enemy_meseta ent ! pt ! 0)"
    "entry (enemy_meseta ent) pt 1 = Some (enemy_meseta ent ! pt ! 1)" "area < length (unit_level ent)"
    using assms(2,3,4) by (auto simp: pt_ok_def at_def intro!: grid_entry)
  show ?thesis
    using assms(1,3) t unit_made_defined [OF assms(1) t(4)]
    by (auto simp: enemy_item_def Let_def split_def kit_ok_def at_defined simp del: not_None_eq)
qed

lemma box_kind_defined [progress]:
  assumes "kit_ok k" "pt_ok ent" "area < 10"
  shows "box_kind k ent area n g \<noteq> None"
proof -
  have t: "entry (box_meseta ent) area 0 = Some (box_meseta ent ! area ! 0)"
    "entry (box_meseta ent) area 1 = Some (box_meseta ent ! area ! 1)" "area < length (unit_level ent)"
    using assms(2,3) by (auto simp: pt_ok_def intro!: grid_entry)
  show ?thesis
    using assms(1,3) t unit_made_defined [OF assms(1) t(3)]
    by (auto simp: box_kind_def kit_ok_def simp del: not_None_eq)
qed

lemma box_item_defined [progress]:
  assumes "kit_ok k" "pt_ok ent" "area < 10"
  shows "box_item k ent area g \<noteq> None"
proof -
  have "\<forall>row \<in> set (take 6 (box_drop ent)). area < length row"
    using assms(2,3) by (auto simp: pt_ok_def grid_def dest: in_set_takeD)
  from column_defined [OF this] show ?thesis
    using box_kind_defined [OF assms]
    by (auto simp: box_item_def Let_def split_def simp del: not_None_eq split: option.split)
qed

lemma check_and_send_defined [progress]: "check_and_send e dd c l p d False w \<noteq> None"
  by (auto simp: check_and_send_def Let_def split: option.split)

definition sends :: "drop_kit \<Rightarrow> bool" where
  "sends k \<longleftrightarrow> (\<forall>d w. k_send k d False w \<noteq> None)"

definition rares_ok :: "drop_kit \<Rightarrow> bool" where
  "rares_ok k \<longleftrightarrow> (\<forall>i a g. -1 \<le> i \<and> i < 101 \<longrightarrow> k_rare k i a g \<noteq> None)"

lemma deliver_defined: "m \<noteq> None \<Longrightarrow> sends k \<Longrightarrow> deliver k False w m \<noteq> None"
proof -
  assume "m \<noteq> None" and k: "sends k"
  then obtain r g where m: "m = Some (r, g)" by auto
  have "k_send k d False w' \<noteq> None" for d w' using k by (simp add: sends_def)
  then show ?thesis by (cases r) (simp_all add: deliver_def m del: not_None_eq)
qed

lemma enemy_part_defined [progress]:
  assumes "kit_ok k" "rares_ok k" "sends k" "pt_ok ent" "area < 10" "unat (req_pt_index p) < 100"
    "map_enemies (lob w l) = Some en" "unat (req_req p) \<noteq> length en" "\<And>L. qid L = 0 \<Longrightarrow> quest L p = Some (True, False)"
    "lobbies w l \<noteq> None" "qid (lob w l) = 0"
  shows "enemy_part k ent quest stack l area p w \<noteq> None"
proof -
  let ?pt = "unat (req_pt_index p)" and ?mid = "unat (req_req p)"
  have dar: "at (enemy_dar ent) ?pt = Some (enemy_dar ent ! ?pt)" using assms(4,6) by (simp add: pt_ok_def at_def)
  have "-1 \<le> int ?pt" "int ?pt < 101" using assms(6) by linarith+
  then have rare: "k_rare k (int ?pt) 0 g \<noteq> None" for g using assms(2) unfolding rares_ok_def by blast
  have items: "rare_item k stack area code g \<noteq> None" "enemy_item k ent area ?pt g \<noteq> None" for code g
    using rare_item_defined [OF assms(1,5)] enemy_item_defined [OF assms(1,4,5,6)] .
  have tail: "k_rare k (int ?pt) 0 g \<bind> (\<lambda>x. if fst x \<noteq> 0 then deliver k False w (rare_item k stack area (fst x) (snd x))
      else deliver k False w (enemy_item k ent area ?pt (snd x))) \<noteq> None" for g w
    using rare items assms(3) by (intro bind_defined) (simp_all add: deliver_defined del: not_None_eq)
  show ?thesis
  proof (cases "?mid > length en \<or> drop_done (en ! ?mid) \<noteq> 0")
    case True
    then show ?thesis using assms(7,8) by (auto simp: enemy_part_def Let_def at_def)
  next
    case False
    then have "at en ?mid = Some (en ! ?mid)" using assms(8) by (simp add: at_def)
    then show ?thesis
      using False assms(7) tail
      by (simp add: enemy_part_def Let_def split_def dar assms(9-11) lob_upd_lobby del: not_None_eq at_Some cong del: if_weak_cong)
  qed
qed

lemma box_part_defined [progress]:
  assumes "kit_ok k" "rares_ok k" "sends k" "pt_ok ent" "map_objs (lob w l) = Some xs" "unat (req_req p) \<noteq> length xs"
    "\<And>L. qid L = 0 \<Longrightarrow> quest L p = Some (True, False)" "lobbies w l \<noteq> None" "qid (lob w l) = 0"
    "\<And>a area. area_of a = Inr area \<Longrightarrow> a \<ge> 0 \<Longrightarrow> 0 \<le> area \<and> area < 10"
  shows "box_part k ent quest area_of stack l c p w \<noteq> None"
proof (cases "req_pt_index p = 0x30")
  case pt: True
  let ?i = "unat (req_req p)" and ?a = "area_of (uint (cur_area (cl w c)))"
  show ?thesis
  proof (cases "?i > length xs \<or> has_flag (obj_flags (xs ! ?i)) 1 \<or> (\<exists>rc. ?a = Inl rc)")
    case True
    then show ?thesis using assms(5,6) pt by (auto simp: box_part_def Let_def at_def)
  next
    case False
    then obtain area where a: "?a = Inr area" by (cases ?a) auto
    have i: "at xs ?i = Some (xs ! ?i)" using False assms(6) by (simp add: at_def)
    have area: "area_index area = Some (nat area)" "nat area < 10"
      using assms(10) [OF a] by (auto simp: area_index_def)
    have items: "rare_item k stack (nat area) code g \<noteq> None" "box_item k ent (nat area) g \<noteq> None"
      "box_kind k ent (nat area) n g \<noteq> None" for code g n
      using rare_item_defined [OF assms(1) area(2)] box_item_defined [OF assms(1,4) area(2)]
        box_kind_defined [OF assms(1,4) area(2)] .
    have rare: "k_rare k (-1) (area + 1) g \<noteq> None" for g using assms(2) by (simp add: rares_ok_def)
    have tail: "k_rare k (-1) (area + 1) g \<bind> (\<lambda>x. if fst x \<noteq> 0 then deliver k False w (rare_item k stack (nat area) (fst x) (snd x))
        else deliver k False w (box_item k ent (nat area) (snd x))) \<noteq> None" for g w
      using rare items assms(3) by (intro bind_defined) (simp_all add: deliver_defined del: not_None_eq)
    have send: "k_send k d False w \<noteq> None" for d w using assms(3) by (simp add: sends_def)
    show ?thesis
      using False assms(5) pt tail send deliver_defined [OF items(3) assms(3)]
      by (simp add: box_part_def Let_def split_def i a area(1) assms(7-9) lob_upd_lobby del: not_None_eq at_Some cong del: if_weak_cong split: option.split)
  qed
qed (simp add: box_part_def)


subsection \<open>The requests\<close>

definition rts_ok :: "rt_set list list \<Rightarrow> bool" where
  "rts_ok t \<longleftrightarrow> grid 4 10 t \<and> (\<forall>row \<in> set t. \<forall>s \<in> set row. length (enemy_rares s) = 101)"

definition pts_ok :: "('p, 'z) pt_entry_scheme list list \<Rightarrow> bool" where
  "pts_ok t \<longleftrightarrow> grid 4 10 t \<and> (\<forall>row \<in> set t. \<forall>ent \<in> set row. pt_ok ent)"

definition v2_data_ok :: "drop_data \<Rightarrow> bool" where
  "v2_data_ok dd \<longleftrightarrow> pts_ok (v2_ptdata dd) \<and> units_ok (pmt_v2 dd) \<and> (have_v2rt dd \<longrightarrow> rts_ok (v2_rtdata dd))"

definition gc_data_ok :: "drop_data \<Rightarrow> bool" where
  "gc_data_ok dd \<longleftrightarrow> length (gc_ptdata dd) = 2 \<and> (\<forall>t \<in> set (gc_ptdata dd). pts_ok t) \<and> units_ok (pmt_gc dd) \<and>
     (have_gcrt dd \<longrightarrow> length (gc_rtdata dd) = 2 \<and> (\<forall>t \<in> set (gc_rtdata dd). rts_ok t))"

text \<open>A game whose leader is there, with its monsters and boxes, outside of quests.\<close>

definition game_ready :: "world \<Rightarrow> lref \<Rightarrow> packet \<Rightarrow> bool" where
  "game_ready w l p \<longleftrightarrow> (\<exists>sec en xs. lobbies w l \<noteq> None \<and> leader_section w l = Some sec \<and> sec < 10 \<and> unat (difficulty (lob w l)) < 4 \<and>
     qid (lob w l) = 0 \<and> map_enemies (lob w l) = Some en \<and> map_objs (lob w l) = Some xs \<and>
     unat (req_req p) \<noteq> length en \<and> unat (req_req p) \<noteq> length xs)"

lemma game_readyE:
  assumes "game_ready w l p"
  obtains sec en xs where "lobbies w l \<noteq> None" "leader_section w l = Some sec" "sec < 10" "unat (difficulty (lob w l)) < 4"
    "qid (lob w l) = 0" "map_enemies (lob w l) = Some en" "map_objs (lob w l) = Some xs"
    "unat (req_req p) \<noteq> length en" "unat (req_req p) \<noteq> length xs"
  using assms unfolding game_ready_def by blast

lemma pts_entry: "pts_ok t \<Longrightarrow> d < 4 \<Longrightarrow> sec < 10 \<Longrightarrow> \<exists>ent. entry t d sec = Some ent \<and> pt_ok ent"
  using grid_entry [of 4 10 t d sec] grid_in [of 4 10 t d sec] unfolding pts_ok_def by blast

lemma rts_entry: "rts_ok t \<Longrightarrow> d < 4 \<Longrightarrow> sec < 10 \<Longrightarrow> \<exists>s. entry t d sec = Some s \<and> length (enemy_rares s) = 101"
  using grid_entry [of 4 10 t d sec] grid_in [of 4 10 t d sec] unfolding rts_ok_def by blast

lemma rt_generate_defined:
  "(have \<longrightarrow> (\<exists>s. rts = Some s \<and> length (enemy_rares s) = 101)) \<Longrightarrow> rt_generate have rts ix area g \<noteq> None"
  by (auto simp: rt_generate_def split_def at_def Let_def)

lemma area_ep1_bounds: "area_ep1 a = Inr area \<Longrightarrow> a \<ge> 0 \<Longrightarrow> 0 \<le> area \<and> area < 10"
  by (auto simp: area_ep1_def split: if_splits)


lemma v2_kit_ok:
  assumes "v2_data_ok dd" "pt_ok ent" "unat (difficulty L) < 4" "sec < 10"
  shows "kit_ok (v2_kit e dd c l p ent sec L)" "rares_ok (v2_kit e dd c l p ent sec L)" "sends (v2_kit e dd c l p ent sec L)"
proof -
  have rt: "have_v2rt dd \<longrightarrow> (\<exists>s. entry (v2_rtdata dd) (unat (difficulty L)) sec = Some s \<and> length (enemy_rares s) = 101)"
    using assms rts_entry unfolding v2_data_ok_def by blast
  show "rares_ok (v2_kit e dd c l p ent sec L)"
    using rt_generate_defined [OF rt] by (simp add: rares_ok_def v2_kit_def rt_generate_v2_rare_def del: not_None_eq)
  show "sends (v2_kit e dd c l p ent sec L)"
    by (simp add: sends_def v2_kit_def check_and_send_defined del: not_None_eq)
  show "kit_ok (v2_kit e dd c l p ent sec L)"
    using assms(1,2) by (simp add: kit_ok_def v2_kit_def v2_data_ok_def progress generate_weapon_v2_def
        generate_armor_v2_def generate_shield_v2_def generate_tool_v2_def pmt_random_unit_v2_def del: not_None_eq)
qed


lemma v2_boxdrop_defined:
  assumes "v2_data_ok dd" "game_ready w l p"
  shows "pt_generate_v2_boxdrop e dd stack c l p w \<noteq> None"
proof -
  from assms(2) obtain sec en xs where w: "leader_section w l = Some sec" "sec < 10" "unat (difficulty (lob w l)) < 4"
    "lobbies w l \<noteq> None" "qid (lob w l) = 0" "map_objs (lob w l) = Some xs" "unat (req_req p) \<noteq> length xs" by (elim game_readyE)
  have "pts_ok (v2_ptdata dd)" using assms(1) by (simp add: v2_data_ok_def)
  then obtain ent where ent: "entry (v2_ptdata dd) (unat (difficulty (lob w l))) sec = Some ent" "pt_ok ent"
    using pts_entry w(2,3) by blast
  show ?thesis
    using box_part_defined [OF v2_kit_ok [OF assms(1) ent(2) w(3,2)] ent(2) w(6,7) _ w(4,5), of "box_quest_v2 dd" area_ep1]
      area_ep1_bounds by (simp add: pt_generate_v2_boxdrop_def w(1) ent(1) box_quest_v2_def del: not_None_eq)
qed

lemma v2_drop_answer:
  assumes "v2_data_ok dd" "game_ready w l p"
  shows "\<exists>r w'. pt_drop e dd stack Pt_v2_drop c l p w = Some (r, w')"
proof -
  from assms(2) obtain sec en xs where w: "leader_section w l = Some sec" "sec < 10" "unat (difficulty (lob w l)) < 4"
    "lobbies w l \<noteq> None" "qid (lob w l) = 0" "map_enemies (lob w l) = Some en" "unat (req_req p) \<noteq> length en" by (elim game_readyE)
  have "pts_ok (v2_ptdata dd)" using assms(1) by (simp add: v2_data_ok_def)
  then obtain ent where ent: "entry (v2_ptdata dd) (unat (difficulty (lob w l))) sec = Some ent" "pt_ok ent"
    using pts_entry w(2,3) by blast
  note kit = v2_kit_ok [OF assms(1) ent(2) w(3,2)]
  have pt: "unat (req_pt_index p) < 100" if "\<not> req_pt_index p > 0x33"
    using that by (simp add: word_less_nat_alt)
  have "pt_generate_v2_drop e dd stack c l p w \<noteq> None"
    using v2_boxdrop_defined [OF assms] enemy_part_defined [OF kit ent(2) _ pt w(6,7) _ w(4,5), of _ "enemy_quest_v2 dd"]
      area_ep1_bounds [of "uint (cur_area (cl w c))"]
    by (cases "area_ep1 (uint (cur_area (cl w c)))")
      (simp_all add: pt_generate_v2_drop_def w(1) ent(1) enemy_quest_v2_def area_index_def nat_less_iff del: not_None_eq)
  then show ?thesis by (auto simp: pt_drop_def)
qed



text \<open>Tables of the sizes of \<open>ptdata.h\<close>, the same for every difficulty and section.\<close>

definition full_pmt :: pmt where
  "full_pmt = small_pmt\<lparr>units_by_stars := [0x0301], units_with_stars := [1], unit_max_stars := 0\<rparr>"

definition sample_pt3 :: pt_v3_entry where
  "sample_pt3 = \<lparr>weapon_ratio = weapon_ratio sample_pt, weapon_minrank = weapon_minrank sample_pt,
     weapon_upgfloor = weapon_upgfloor sample_pt, power_pattern = power_pattern sample_pt,
     percent_pattern = map (map ucast) (percent_pattern sample_pt), area_pattern = area_pattern sample_pt,
     percent_attachment = percent_attachment sample_pt, element_ranking = element_ranking sample_pt,
     element_probability = element_probability sample_pt, armor_ranking = armor_ranking sample_pt,
     slot_ranking = slot_ranking sample_pt, unit_level = unit_level sample_pt, tool_frequency = tool_frequency sample_pt,
     tech_frequency = tech_frequency sample_pt, tech_levels = tech_levels sample_pt, enemy_dar = enemy_dar sample_pt,
     enemy_meseta = enemy_meseta sample_pt, enemy_drop = enemy_drop sample_pt, box_meseta = box_meseta sample_pt,
     box_drop = box_drop sample_pt, armor_level = armor_level sample_pt\<rparr>"

definition full_tables :: drop_data where
  "full_tables = drop_tables\<lparr>v2_ptdata := replicate 4 (replicate 10 sample_pt),
     gc_ptdata := replicate 2 (replicate 4 (replicate 10 sample_pt3)), pmt_v2 := full_pmt, pmt_gc := full_pmt\<rparr>"

definition gc_game_world :: "u8 \<Rightarrow> world" where
  "gc_game_world ep = upd_lobby 5 (\<lambda>L. L\<lparr>l_version := CLIENT_VERSION_GC, dropfunc := Pt_gc_drop, episode := ep\<rparr>) v2_world"

lemma pts_ok_replicate: "pt_ok ent \<Longrightarrow> pts_ok (replicate 4 (replicate 10 ent))"
  by (simp add: pts_ok_def grid_def)

lemma full_tables_ok: "v2_data_ok full_tables" "gc_data_ok full_tables"
proof -
  have "pt_ok sample_pt" "pt_ok sample_pt3" "units_ok full_pmt" by code_simp+
  then show "v2_data_ok full_tables" "gc_data_ok full_tables"
    by (simp_all add: v2_data_ok_def gc_data_ok_def full_tables_def drop_tables_def pts_ok_replicate)
qed

lemma world_ready: "game_ready v2_world 5 monster_request" "game_ready (gc_game_world ep) 5 box_request"
proof -
  have w: "lobbies v2_world 5 \<noteq> None" "leader_section v2_world 5 = Some 0" "difficulty (lob v2_world 5) = 0" "qid (lob v2_world 5) = 0"
    "map_option length (map_enemies (lob v2_world 5)) = Some 1" "map_option length (map_objs (lob v2_world 5)) = Some 1"
    "req_req monster_request = 0" "req_req box_request = 0" by code_simp+
  then show "game_ready v2_world 5 monster_request" by (auto simp: game_ready_def)
  have "leader_section (gc_game_world ep) 5 = leader_section v2_world 5"
    using w(1) by (simp add: leader_section_def gc_game_world_def lob_upd_lobby)
  then show "game_ready (gc_game_world ep) 5 box_request"
    using w by (auto simp: game_ready_def gc_game_world_def lob_upd_lobby)
qed

lemma v2_drop_answer_example: "\<exists>r w'. pt_drop bb_env full_tables [] Pt_v2_drop 7 5 monster_request v2_world = Some (r, w')"
  by (rule v2_drop_answer [OF full_tables_ok(1) world_ready(1)])


end
