(* ===== verification/Pt_Props.thy ===== *)
theory Pt_Props
  imports Pt_Read Drop_Types
begin

section \<open>Tables that were read do not get stuck\<close>

text \<open>
  Whatever is in the files: a reader that succeeds has filled its tables to their sizes, and the table
  of units the ship builds is one the generators can draw from.  Together with \<open>Drop_Types\<close> this takes
  the requests of players back to the files.
\<close>

subsection \<open>ItemPT and ItemRT\<close>

lemma collect_Inr: "collect f is = Inr xs \<Longrightarrow> map f is = map Inr xs"
  by (induction "is" arbitrary: xs) (auto split: sum.splits)

lemma map_Inr_in: "map f is = map Inr xs \<Longrightarrow> x \<in> set xs \<Longrightarrow> \<exists>i \<in> set is. f i = Inr x"
  by (metis image_eqI image_iff list.set_map)

lemma entries_of_Inr:
  assumes "entries_of f offs k n decode = Inr t"
  shows "grid 4 10 t" "\<And>row x. row \<in> set t \<Longrightarrow> x \<in> set row \<Longrightarrow> \<exists>j b. x = decode j b \<and> length b = n"
proof -
  note rows = collect_Inr [OF assms [unfolded entries_of_def]]
  have row: "\<exists>i. map (\<lambda>j. case file_bytes f (unat (offs ! (k + i * 10 + j))) n of Inl e \<Rightarrow> Inl e | Inr b \<Rightarrow> Inr (decode j b)) [0..<10]
      = map Inr row" if "row \<in> set t" for row
    using that by (auto dest!: map_Inr_in [OF rows] collect_Inr)
  have "length row = 10" if "row \<in> set t" for row
  proof -
    from row [OF \<open>row \<in> set t\<close>] show ?thesis by (elim exE) (drule map_eq_imp_length_eq, simp)
  qed
  then show "grid 4 10 t" using map_eq_imp_length_eq [OF rows] by (simp add: grid_def)
  show "\<exists>j b. x = decode j b \<and> length b = n" if "row \<in> set t" "x \<in> set row" for row x
    using row [OF that(1)] that(2)
    by (auto dest!: map_Inr_in simp: file_bytes_def bytes_at_def split: sum.splits option.splits if_splits)
      (intro exI conjI, rule refl, simp)
qed

lemma length_row_at [simp]: "off + n \<le> length b \<Longrightarrow> length (row_at b off n) = n"
  by (simp add: row_at_def)

lemma grid_rows_at [simp]: "off + n * m \<le> length b \<Longrightarrow> grid m n (rows_at b off m n)"
proof -
  assume len: "off + n * m \<le> length b"
  have "n * i + n \<le> n * m" if "i < m" for i
    using that by (metis Suc_leI mult_Suc_right mult_le_mono2 add.commute)
  then show ?thesis using len by (fastforce simp: grid_def rows_at_def intro!: length_row_at)
qed

lemma grid_half_rows_at [simp]: "grid m n (half_rows_at big b off m n)"
  by (auto simp: grid_def half_rows_at_def)

text \<open>The entries of an ItemPT file that are indices of other tables.\<close>

definition pt_indices_ok :: "nat \<Rightarrow> ('p, 'z) pt_entry_scheme \<Rightarrow> bool" where
  "pt_indices_ok n ent \<longleftrightarrow> (\<forall>row \<in> set (area_pattern ent). \<forall>v \<in> set row. sint v < int n) \<and> (\<forall>v \<in> set (element_ranking ent). v \<le> 4)"

lemma pt_v2_of_ok: "length b = 0x8BC \<Longrightarrow> pt_indices_ok 5 (pt_v2_of b) \<Longrightarrow> pt_ok (pt_v2_of b)"
proof -
  assume b: "length b = 0x8BC" and ix: "pt_indices_ok 5 (pt_v2_of b)"
  have "length r = 5" if "r \<in> set (percent_pattern (pt_v2_of b))" for r
    using that b grid_rows_at [of "0x48" 5 23 b] by (auto simp: pt_v2_of_def grid_def)
  moreover have "nat v < 5" if "v < 5" for v :: int using that by linarith
  ultimately show ?thesis using b ix by (auto simp: pt_ok_def pt_indices_ok_def) (auto simp: pt_v2_of_def)
qed

lemma pt_v3_of_ok: "length b = 0x95C \<Longrightarrow> pt_indices_ok 6 (pt_v3_of b) \<Longrightarrow> pt_ok (pt_v3_of b)"
proof -
  assume b: "length b = 0x95C" and ix: "pt_indices_ok 6 (pt_v3_of b)"
  have "length r = 6" if "r \<in> set (percent_pattern (pt_v3_of b))" for r
    using that grid_half_rows_at [of 23 6 True b "0x48"] by (auto simp: pt_v3_of_def grid_def)
  moreover have "nat v < 6" if "v < 6" for v :: int using that by linarith
  ultimately show ?thesis using b ix by (auto simp: pt_ok_def pt_indices_ok_def) (auto simp: pt_v3_of_def)
qed

lemma rt_set_of_length [simp]: "length (enemy_rares (rt_set_of area b)) = 101"
  by (simp add: rt_set_of_def)

subsection \<open>ItemPMT\<close>

lemma build_units_ok:
  assumes built: "build_units mem1 mem2 norestrict p = Some (0, p')" and small: "5 * length (pmt_units p) + 1 < 2 ^ 32"
  shows "units_ok p'" "pmt_units p' = pmt_units p"
proof -
  obtain stars where s: "pmt_units p' = pmt_units p"
    "units_by_stars p' = ucast Item_Knight_Power #
       concat (map (unit_level_entries norestrict (pmt_units p) stars) [0..<Suc (unat (unit_max_stars p'))])"
    "length (units_with_stars p') = Suc (unat (unit_max_stars p'))"
    "\<And>i. i \<le> unat (unit_max_stars p') \<Longrightarrow> units_with_stars p' ! i =
       of_nat (Suc (length (concat (map (unit_level_entries norestrict (pmt_units p) stars) [0..<Suc i]))))"
    using build_units_table [OF built] by metis
  show "pmt_units p' = pmt_units p" by (fact s(1))
  define n where "n i = length (concat (map (unit_level_entries norestrict (pmt_units p) stars) [0..<i]))" for i
  have len: "n i \<le> 5 * length (pmt_units p)" for i unfolding n_def by (rule levels_length)
  have mono: "n i \<le> n j" if "i \<le> j" for i j
    using that unfolding n_def by (metis concat_append le_add1 le_add_diff_inverse length_append map_append upt_add_eq_append zero_le)
  have "0 < unat (units_with_stars p' ! i) \<and> unat (units_with_stars p' ! i) \<le> length (units_by_stars p')"
    if "i \<le> unat (unit_max_stars p')" for i
  proof -
    have "units_with_stars p' ! i = of_nat (Suc (n (Suc i)))" using s(4) [OF that] by (simp add: n_def)
    moreover have "Suc (n (Suc i)) < 2 ^ 32" using len [of "Suc i"] small by linarith
    ultimately have "unat (units_with_stars p' ! i) = Suc (n (Suc i))" by (simp only: unat_of_nat) simp
    moreover have "length (units_by_stars p') = Suc (n (Suc (unat (unit_max_stars p'))))" by (simp add: s(2) n_def del: upt_Suc)
    ultimately show ?thesis using mono [of "Suc i" "Suc (unat (unit_max_stars p'))"] that by simp
  qed
  then show "units_ok p'" using s(3) by (auto simp: units_ok_def in_set_conv_nth less_Suc_eq_le)
qed

lemma pmt_step_cases:
  assumes "pmt_step e p m f = Some r" "\<not> have_pmt p" "e \<noteq> 0"
    "\<And>x. m = Some (Inr x) \<Longrightarrow> f x = Some r \<Longrightarrow> Q r" "\<And>p. \<not> have_pmt p \<Longrightarrow> Q (e, p)"
  shows "Q r"
  using assms by (auto simp: pmt_step_def split: bind_splits sum.splits)

lemma have_pmt_read:
  "read_weapons lay mem buf ptrs p = Some (Inr p') \<Longrightarrow> have_pmt p' = have_pmt p"
  "read_guards lay mem buf ptrs p = Some (Inr p') \<Longrightarrow> have_pmt p' = have_pmt p"
  "read_units lay mem buf ptrs p = Some (Inr p') \<Longrightarrow> have_pmt p' = have_pmt p"
  "read_stars lay mem n buf ptrs p = Some (Inr p') \<Longrightarrow> have_pmt p' = have_pmt p"
  by (auto simp: read_weapons_def read_guards_def read_units_def read_stars_def Let_def
      split: if_splits bind_splits sum.splits)

lemma read_tables_length: "read_tables f is = Some (Inr ts) \<Longrightarrow> length ts = length is"
  by (induction "is" arbitrary: ts) (auto split: bind_splits sum.splits)

lemma pmt_tables_read:
  "read_guards lay mem buf ptrs p = Some (Inr p') \<Longrightarrow> length (pmt_guards p') = 2"
  "read_units lay mem buf ptrs p = Some (Inr p') \<Longrightarrow> pmt_guards p' = pmt_guards p"
  "read_stars lay mem n buf ptrs p = Some (Inr p') \<Longrightarrow> pmt_guards p' = pmt_guards p"
  "read_stars lay mem n buf ptrs p = Some (Inr p') \<Longrightarrow> length (star_table p') = unat (star_max p')"
  by (auto simp: read_guards_def read_units_def read_stars_def bytes_at_def Let_def dest!: read_tables_length
      split: if_splits bind_splits sum.splits)

definition pmt_tables_ok :: "pmt \<Rightarrow> bool" where
  "pmt_tables_ok p \<longleftrightarrow> length (pmt_guards p) = 2 \<and> length (star_table p) = unat (star_max p)"

lemma pmt_tables_build: "build_units m1 m2 nr p = Some (r, p') \<Longrightarrow> pmt_tables_ok p' = pmt_tables_ok p"
  by (auto simp: build_units_def pmt_tables_ok_def Let_def split: if_splits bind_splits prod.splits)

lemma have_pmt_build: "build_units m1 m2 nr p = Some (r, p') \<Longrightarrow> have_pmt p' = have_pmt p"
  by (auto simp: build_units_def Let_def split: if_splits bind_splits prod.splits)

text \<open>A file that was read: the units were built from the tables \<open>q\<close> that were read.\<close>

definition pmt_built :: "(pmt_memory \<Rightarrow> bool) \<Rightarrow> bool \<Rightarrow> int \<times> pmt \<Rightarrow> bool" where
  "pmt_built mem nr res \<longleftrightarrow> (if fst res = 0 then
     \<exists>q p. build_units (mem Mem_by_stars) (mem Mem_with_stars) nr q = Some (0, p) \<and> pmt_tables_ok q \<and> snd res = p\<lparr>have_pmt := True\<rparr>
     else \<not> have_pmt (snd res))"

definition pmt_versions ::
  "(heap \<Rightarrow> errno \<Rightarrow> (pmt_memory \<Rightarrow> bool) \<Rightarrow> (nat \<times> u8 list) option \<Rightarrow> bool \<Rightarrow> pmt \<Rightarrow> (int \<times> pmt) option) set" where
  "pmt_versions = {pmt_read_v2} \<union> range pmt_read_gc \<union> range pmt_read_bb"

lemma pmt_read_built_any:
  assumes "pmt_read rp (read_weapons lay) (read_guards lay) (read_units lay) rs build_units h err mem file nr p = Some res"
    "\<not> have_pmt p" and rs: "\<And>mem buf ptrs p. \<exists>n. rs mem buf ptrs p = read_stars lay mem n buf ptrs p"
  shows "pmt_built mem nr res"
proof -
  have stars: "have_pmt p' = have_pmt p \<and> pmt_guards p' = pmt_guards p \<and> length (star_table p') = unat (star_max p')"
    if "rs mem buf ptrs p = Some (Inr p')" for buf ptrs p p'
    using that rs [of mem buf ptrs p] have_pmt_read(4) pmt_tables_read(3,4) by metis
  have failed: "e \<noteq> 0 \<Longrightarrow> \<not> have_pmt q \<Longrightarrow> pmt_built mem nr (e, q)" for e q by (simp add: pmt_built_def)
  have built: "pmt_built mem nr res" if "\<not> have_pmt q" "pmt_tables_ok q" "(do { (rv, p) \<leftarrow> build_units (mem Mem_by_stars) (mem Mem_with_stars) nr q;
      Some (if rv \<noteq> 0 then (-14, p) else (0, p\<lparr>have_pmt := True\<rparr>)) }) = Some res" for q
    using that by (auto simp: pmt_built_def have_pmt_build split: bind_splits if_splits) blast
  note step = pmt_step_cases [where Q = "pmt_built mem nr"]
  show ?thesis
    using assms(1,2) unfolding pmt_read_def Let_def
    apply (auto simp: failed split: bind_splits sum.splits prod.splits)
    apply (erule step, assumption, simp)
     apply (erule step, assumption, simp)
      apply (erule step, simp add: have_pmt_read, simp)
       apply (erule step, simp add: have_pmt_read, simp)
        apply (erule step, simp add: have_pmt_read, simp)
         apply (rule built, simp_all add: failed pmt_tables_ok_def)
     apply (auto dest!: have_pmt_read stars) [1]
    by (auto dest!: pmt_tables_read(1,2) stars)
qed

lemma pmt_read_built:
  assumes "rd \<in> pmt_versions" "rd h err mem file nr p = Some res" "\<not> have_pmt p"
  shows "pmt_built mem nr res"
proof -
  consider "rd = pmt_read_v2" | n where "rd = pmt_read_gc n" | n where "rd = pmt_read_bb n"
    using assms(1) unfolding pmt_versions_def by blast
  then show ?thesis
    by cases (use assms(2,3) in \<open>auto simp: pmt_read_v2_def pmt_read_gc_def pmt_read_bb_def pmt_readers build_v2_units_def
        build_gc_units_def build_bb_units_def elim!: pmt_read_built_any\<close>)
qed

lemma pmt_read_tables:
  assumes "rd \<in> pmt_versions" "rd h err mem file nr no_pmt = Some (0, p)"
  shows "have_pmt p" "length (pmt_guards p) = 2" "length (star_table p) = unat (star_max p)"
proof -
  have "\<not> have_pmt no_pmt" by (simp add: no_pmt_def)
  then obtain q p' where "build_units (mem Mem_by_stars) (mem Mem_with_stars) nr q = Some (0, p')" "pmt_tables_ok q"
    "p = p'\<lparr>have_pmt := True\<rparr>"
    using pmt_read_built [OF assms] by (auto simp: pmt_built_def)
  then show "have_pmt p" "length (pmt_guards p) = 2" "length (star_table p) = unat (star_max p)"
    using pmt_tables_build by (fastforce simp: pmt_tables_ok_def)+
qed

text \<open>C25: Looking up an item in tables that were read from a file leaves a table in exactly three cases, all by one: for
  the weapon type that is just the number of types, for the armor type zero (the index is one less), and
  for an index of the star table that is just its size.\<close>

theorem pmt_lookups_in_tables:
  assumes "rd \<in> pmt_versions" "rd h err mem file nr no_pmt = Some (0, p)"
  shows "(pmt_lookup_weapon p code = None \<longleftrightarrow> code_part code 0 = 0 \<and> unat (code_part code 1) = length (pmt_weapons p)) \<and>
    (pmt_lookup_guard p code = None \<longleftrightarrow> code_part code 0 = 1 \<and> code_part code 1 = 0) \<and>
    (stars_of_index p i = None \<longleftrightarrow> i - weapon_lowest p = star_max p)"
proof -
  note t = pmt_read_tables [OF assms]
  have z: "unat (code_part code 1) = 0 \<longleftrightarrow> code_part code 1 = 0" by (simp add: unat_eq_zero)
  have "unat (code_part code 1) - 1 < 2" if "unat (code_part code 1) \<noteq> 3" "\<not> unat (code_part code 1) > 2"
    using that by linarith
  then have "pmt_lookup_guard p code = None \<longleftrightarrow> code_part code 0 = 1 \<and> code_part code 1 = 0"
    using t by (auto simp: pmt_lookup_guard_def Let_def at_def z [unfolded One_nat_def])
  moreover have "stars_of_index p i = None \<longleftrightarrow> i - weapon_lowest p = star_max p"
    using t(3) by (auto simp: stars_of_index_def at_def not_less word_le_nat_alt word_less_nat_alt word_unat_eq_iff)
  moreover have "pmt_lookup_weapon p code = None \<longleftrightarrow> code_part code 0 = 0 \<and> unat (code_part code 1) = length (pmt_weapons p)"
    using t(1) by (auto simp: pmt_lookup_weapon_def Let_def at_def)
  ultimately show ?thesis by blast
qed

subsection \<open>The start of the ship\<close>

definition no_data :: "bool \<Rightarrow> bool \<Rightarrow> drop_data" where
  "no_data rares srares = \<lparr>v2_ptdata = [], gc_ptdata = [], bb_ptdata = [], pmt_v2 = no_pmt, pmt_gc = no_pmt, pmt_bb = no_pmt,
     have_v2rt = False, have_gcrt = False, v2_rtdata = [], gc_rtdata = [], quest_rares = rares, quest_srares = srares\<rparr>"

text \<open>The tables of the second version, as far as they have been read.\<close>

definition v2_read :: "drop_data \<Rightarrow> bool" where
  "v2_read dd \<longleftrightarrow> (v2_ptdata dd \<noteq> [] \<longrightarrow> grid 4 10 (v2_ptdata dd) \<and>
       (\<forall>row \<in> set (v2_ptdata dd). \<forall>ent \<in> set row. pt_indices_ok 5 ent \<longrightarrow> pt_ok ent)) \<and>
     (have_v2rt dd \<longrightarrow> rts_ok (v2_rtdata dd))"

definition same_v2 :: "drop_data \<Rightarrow> drop_data \<Rightarrow> bool" where
  "same_v2 dd dd' \<longleftrightarrow> v2_ptdata dd' = v2_ptdata dd \<and> pmt_v2 dd' = pmt_v2 dd \<and> have_v2rt dd' = have_v2rt dd \<and> v2_rtdata dd' = v2_rtdata dd"

lemma pt_read_v2_data:
  assumes "pt_read_v2 fn dd = (rv, dd')" "v2_read dd"
  shows "v2_read dd' \<and> pmt_v2 dd' = pmt_v2 dd"
proof -
  have "grid 4 10 t \<and> (\<forall>row \<in> set t. \<forall>ent \<in> set row. pt_indices_ok 5 ent \<longrightarrow> pt_ok ent)"
    if "entries_of f offs 0 0x8BC (\<lambda>_. pt_v2_of) = Inr t" for f offs t
    using entries_of_Inr [OF that] pt_v2_of_ok by blast
  then show ?thesis
    using assms by (auto simp: pt_read_v2_def v2_read_def split: option.splits sum.splits)
qed

lemma rt_read_v2_data:
  assumes "rt_read_v2 fn dd = (rv, dd')" "v2_read dd"
  shows "v2_read dd' \<and> pmt_v2 dd' = pmt_v2 dd \<and> v2_ptdata dd' = v2_ptdata dd"
proof -
  have "rts_ok t" if "entries_of f offs 0 554 (\<lambda>_. rt_set_of (\<lambda>l. l)) = Inr t" for f offs t
    using entries_of_Inr [OF that] unfolding rts_ok_def by fastforce
  then show ?thesis
    using assms by (auto simp: rt_read_v2_def Let_def v2_read_def split: option.splits sum.splits)
qed

lemma other_readers:
  "pt_read_v3 fn bb dd = (rv, dd') \<Longrightarrow> same_v2 dd dd'"
  "rt_read_gc fn dd = (rv, dd') \<Longrightarrow> same_v2 dd dd'"
  by (auto simp: pt_read_v3_def rt_read_gc_def Let_def same_v2_def split: option.splits sum.splits if_splits)

lemma try_read_same:
  "try_read fn (\<lambda>f. pt_read_v3 f bb) dd = (rv, dd') \<Longrightarrow> same_v2 dd dd'"
  "try_read fn rt_read_gc dd = (rv, dd') \<Longrightarrow> same_v2 dd dd'"
  by (auto simp: try_read_def same_v2_def split: option.splits dest: other_readers [unfolded same_v2_def])

lemma read_item_files_ok:
  assumes "read_item_files h err mem cfg (no_data rares srares) = Some (nobb, dd)"
    "have_pmt (pmt_v2 dd)" "5 * length (pmt_units (pmt_v2 dd)) + 1 < 2 ^ 32"
  shows "v2_read dd" "units_ok (pmt_v2 dd)"
proof -
  let ?nr = "norestrict_flag cfg SYLVERANT_SHIP_PMT_LIMITV2"
  obtain rv1 d1 where d1: "try_read (v2_ptdata_file cfg) pt_read_v2 (no_data rares srares) = (rv1, d1)" by fastforce
  have "v2_read (no_data rares srares)" "pmt_v2 (no_data rares srares) = no_pmt" by (simp_all add: v2_read_def no_data_def)
  then have v1: "v2_read d1" "pmt_v2 d1 = no_pmt"
    using d1 pt_read_v2_data by (auto simp: try_read_def split: option.splits)
  obtain rv p where p: "try_pmt (v2_pmtdata_file cfg) (\<lambda>f. pmt_read_v2 h err (mem 0) f ?nr) no_pmt = Some (rv, p)"
    using assms(1) unfolding read_item_files_def d1 Let_def case_prod_conv v1(2) by (auto split: bind_splits)
  have built: "have_pmt p \<Longrightarrow> 5 * length (pmt_units p) + 1 < 2 ^ 32 \<Longrightarrow> units_ok p"
  proof -
    assume got: "have_pmt p" and small: "5 * length (pmt_units p) + 1 < 2 ^ 32"
    have "\<not> have_pmt no_pmt" by (simp add: no_pmt_def)
    then obtain f where "pmt_read_v2 h err (mem 0) f ?nr no_pmt = Some (rv, p)"
      using p got by (auto simp: try_pmt_def split: option.splits)
    then have "pmt_built (mem 0) ?nr (rv, p)"
      by (rule pmt_read_built [rotated]) (simp_all add: \<open>\<not> have_pmt no_pmt\<close> pmt_versions_def)
    then obtain q p' where q: "build_units (mem 0 Mem_by_stars) (mem 0 Mem_with_stars) ?nr q = Some (0, p')" "p = p'\<lparr>have_pmt := True\<rparr>"
      using got by (auto simp: pmt_built_def split: if_splits)
    have "5 * length (pmt_units q) + 1 < 2 ^ 32"
      using small q build_units_table [OF q(1)] by (metis pmt.select_convs(4) pmt.update_convs(1) pmt.surjective)
    from build_units_ok(1) [OF q(1) this] show ?thesis by (simp add: q(2) units_ok_def)
  qed
  obtain r3 d3 where d3: "try_read (gc_ptdata_file cfg) (\<lambda>f. pt_read_v3 f False) (d1\<lparr>pmt_v2 := p\<rparr>) = (r3, d3)" by fastforce
  obtain r4 d4 where d4: "try_read (bb_ptdata_file cfg) (\<lambda>f. pt_read_v3 f True) d3 = (r4, d4)" by fastforce
  obtain q q' where q: "(case try_read (v2_rtdata_file cfg) rt_read_v2 (d4\<lparr>pmt_gc := q, pmt_bb := q'\<rparr>) of
      (rv, d5) \<Rightarrow> (case try_read (gc_rtdata_file cfg) rt_read_gc d5 of (rv, d6) \<Rightarrow> d6)) = dd"
    using assms(1) p unfolding read_item_files_def d1 Let_def case_prod_conv v1(2)
    by (auto simp: d3 d4 split_def split: bind_splits)
  obtain r5 d5 where d5: "try_read (v2_rtdata_file cfg) rt_read_v2 (d4\<lparr>pmt_gc := q, pmt_bb := q'\<rparr>) = (r5, d5)" by fastforce
  obtain r6 where d6: "try_read (gc_rtdata_file cfg) rt_read_gc d5 = (r6, dd)" using q d5 by (auto split: prod.splits)
  have "same_v2 (d1\<lparr>pmt_v2 := p\<rparr>) (d4\<lparr>pmt_gc := q, pmt_bb := q'\<rparr>)"
    using try_read_same(1) [OF d3] try_read_same(1) [OF d4] by (simp add: same_v2_def)
  then have 4: "v2_read (d4\<lparr>pmt_gc := q, pmt_bb := q'\<rparr>)" "pmt_v2 (d4\<lparr>pmt_gc := q, pmt_bb := q'\<rparr>) = p"
    using v1(1) by (auto simp: same_v2_def v2_read_def)
  then have 5: "v2_read d5" "pmt_v2 d5 = p"
    using d5 rt_read_v2_data by (auto simp: try_read_def split: option.splits)
  then show "v2_read dd" using try_read_same(2) [OF d6] by (simp add: same_v2_def v2_read_def)
  have "pmt_v2 dd = p" using try_read_same(2) [OF d6] 5(2) by (simp add: same_v2_def)
  then show "units_ok (pmt_v2 dd)" using built assms(2,3) by simp
qed

text \<open>C7: A ship that has read its item files, each reader staying inside its file, and whose ItemPT file of
  the second version holds only indices in range (the percent patterns, the rank of the elements),
  answers a request for a drop in a game of that version: no generator leaves a table, whatever else
  the files contain and whatever the random numbers are.  The game is outside of quests, its
  difficulty below 4, its leader there with a section id below 10, its monsters and boxes are loaded,
  and the request does not name the index just past the last monster or box.\<close>

theorem loaded_drops_answered:
  assumes "read_item_files h err mem cfg (no_data rares srares) = Some (nobb, dd)"
    "v2_ptdata dd \<noteq> []" "have_pmt (pmt_v2 dd)" "5 * length (pmt_units (pmt_v2 dd)) + 1 < 2 ^ 32"
    "\<forall>row \<in> set (v2_ptdata dd). \<forall>ent \<in> set row. pt_indices_ok 5 ent" "game_ready w l p"
  shows "\<exists>r w'. pt_drop e dd stack Pt_v2_drop c l p w = Some (r, w')"
proof -
  have "v2_data_ok dd"
    using read_item_files_ok [OF assms(1,3,4)] assms(2,5) by (auto simp: v2_data_ok_def v2_read_def pts_ok_def)
  then show ?thesis by (rule v2_drop_answer [OF _ assms(6)])
qed

text \<open>
  Small files: an archive whose 40 entries are one block of zeros, and a compressed ItemPMT with a
  single unit and a table of stars for it.
\<close>

definition pt_header :: "u8 list" where
  "pt_header = [0x41, 0x46, 0x53, 0, 40, 0, 0, 0] @ concat (replicate 40 [0x48, 0x01, 0, 0, 0x40, 0x09, 0, 0])"

definition zero_entry :: "u8 list" where "zero_entry = replicate 0x8BC 0"

definition pmt_file :: "u8 list" where
  "pmt_file =
    [253, 0, 248, 255, 14, 1, 0, 0, 0, 24, 255, 0, 0, 0, 5, 0, 0, 0, 1, 223, 0, 1, 0, 2, 0, 254, 255, 2,
     221, 0, 248, 255, 11, 16, 0, 248, 255, 33, 36, 223, 0, 0, 0, 44, 0, 248, 255, 29, 44, 21, 0, 248,
     255, 13, 0, 0]"

definition small_files :: item_files where
  "small_files = \<lparr>v2_ptdata_file = Some (Some (pt_header @ zero_entry)), gc_ptdata_file = None, bb_ptdata_file = None,
     v2_pmtdata_file = Some (Some (length pmt_file, pmt_file)), gc_pmtdata_file = None, bb_pmtdata_file = None,
     v2_rtdata_file = Some None, gc_rtdata_file = None, local_flags = 0\<rparr>"

lemma bytes_at_append: "bytes_at f off n = Some b \<Longrightarrow> bytes_at (f @ g) off n = Some b"
  by (auto simp: bytes_at_def split: if_splits)

lemma file_bytes_append: "file_bytes f off n = Inr b \<Longrightarrow> file_bytes (f @ g) off n = Inr b"
  by (auto simp: file_bytes_def bytes_at_append split: option.splits)

lemma collect_mono: "collect f is = Inr xs \<Longrightarrow> (\<And>i x. f i = Inr x \<Longrightarrow> g i = Inr x) \<Longrightarrow> collect g is = Inr xs"
  by (induction "is" arbitrary: xs) (fastforce split: sum.splits)+

lemma afs_offsets_append:
  assumes "afs_offsets esz f = Inr offs"
  shows "afs_offsets esz (f @ g) = Inr offs"
proof -
  have "afs_entry esz f i = Inr x \<Longrightarrow> afs_entry esz (f @ g) i = Inr x" for i x
    by (auto simp: afs_entry_def split: sum.splits if_splits dest: file_bytes_append [of _ _ _ _ g])
  then show ?thesis
    using assms by (auto simp: afs_offsets_def split: sum.splits if_splits dest: file_bytes_append [of _ _ _ _ g] elim!: collect_mono)
qed

lemma collect_const: "(\<And>i. i \<in> set is \<Longrightarrow> f i = Inr x) \<Longrightarrow> collect f is = Inr (replicate (length is) x)"
  by (induction "is") auto

lemma small_afs: "afs_offsets [0x40, 0x09, 0, 0] pt_header = Inr (replicate 40 328)"
proof -
  have "afs_entry [0x40, 0x09, 0, 0] pt_header i = Inr 328" if i: "i < 40" for i
  proof -
    obtain k where k: "40 = i + Suc k" using less_imp_Suc_add [OF i] by auto
    let ?blk = "[0x48, 0x01, 0, 0, 0x40, 0x09, 0, 0] :: u8 list"
    define before where "before = [0x41, 0x46, 0x53, 0, 40, 0, 0, 0] @ concat (replicate i ?blk)"
    have "length (concat (replicate i xs)) = i * length xs" for xs :: "u8 list" by (induction i) auto
    then have len: "length before = 8 + 8 * i" by (simp add: before_def)
    have "concat (replicate 40 ?blk) = concat (replicate i ?blk) @ ?blk @ concat (replicate k ?blk)"
      unfolding k replicate_add replicate_Suc by (simp only: concat_append concat.simps)
    then have split: "pt_header = before @ ?blk @ concat (replicate k ?blk)"
      unfolding pt_header_def before_def by (simp only: append_assoc)
    have "take 4 (drop (8 + 8 * i) pt_header) = [0x48, 0x01, 0, 0]" "take 4 (drop (8 + 8 * i + 4) pt_header) = [0x40, 0x09, 0, 0]"
      unfolding split by (simp_all add: len)
    moreover have "length pt_header = 328" by (simp add: pt_header_def eval_nat_numeral)
    ultimately show ?thesis using i by (simp add: afs_entry_def file_bytes_def bytes_at_def word_of_def le32_of_def)
  qed
  then have "collect (afs_entry [0x40, 0x09, 0, 0] pt_header) [0..<40] = Inr (replicate 40 328)"
    by (subst collect_const [where x = 328]) auto
  then show ?thesis by (simp add: afs_offsets_def file_bytes_def bytes_at_def pt_header_def)
qed

lemma small_pt_read: "pt_read_v2 (Some (pt_header @ zero_entry)) dd =
    (0, dd\<lparr>v2_ptdata := replicate 4 (replicate 10 (pt_v2_of zero_entry))\<rparr>)"
proof -
  from afs_offsets_append [OF small_afs]
  have offs: "afs_offsets [0x40, 0x09, 0, 0] (pt_header @ zero_entry) = Inr (replicate 40 328)" .
  have "length pt_header = 328" by (simp add: pt_header_def eval_nat_numeral)
  then have "file_bytes (pt_header @ zero_entry) 328 0x8BC = Inr zero_entry"
    by (simp add: file_bytes_def bytes_at_def zero_entry_def)
  then have inner: "collect (\<lambda>j. case file_bytes (pt_header @ zero_entry) (unat (replicate 40 (328 :: u32) ! (0 + i * 10 + j))) 0x8BC of
      Inl e \<Rightarrow> Inl e | Inr b \<Rightarrow> Inr (pt_v2_of b)) [0..<10] = Inr (replicate 10 (pt_v2_of zero_entry))" if "i < 4" for i
    using that by (subst collect_const [where x = "pt_v2_of zero_entry"]) simp_all
  have "entries_of (pt_header @ zero_entry) (replicate 40 328) 0 0x8BC (\<lambda>_. pt_v2_of) =
      Inr (replicate 4 (replicate 10 (pt_v2_of zero_entry)))"
    unfolding entries_of_def
    by (subst collect_const [where x = "replicate 10 (pt_v2_of zero_entry)"]) (simp_all only: inner set_upt atLeastLessThan_iff length_upt diff_zero)
  then show ?thesis by (simp add: pt_read_v2_def offs)
qed

lemma zero_rows: "row \<in> set (rows_at (replicate n 0) off m k) \<Longrightarrow> v \<in> set row \<Longrightarrow> v = 0"
  "v \<in> set (row_at (replicate n 0) off k) \<Longrightarrow> v = 0"
  by (auto simp: rows_at_def row_at_def)

lemma zero_indices: "pt_indices_ok 5 (pt_v2_of zero_entry)"
  by (auto simp: pt_indices_ok_def pt_v2_of_def zero_entry_def dest: zero_rows)

definition free_heap :: heap where "free_heap = \<lparr>can_alloc = \<lambda>n. True, garbage = \<lambda>n. 0\<rparr>"

lemma small_pmt_read:
  "\<exists>p. pmt_read_v2 free_heap ENOMEM (\<lambda>_. True) (Some (length pmt_file, pmt_file)) nr no_pmt = Some (0, p) \<and>
     have_pmt p \<and> length (pmt_units p) = 1"
proof -
  have "map_option (map_prod id (\<lambda>p. have_pmt p \<and> length (pmt_units p) = 1))
      (pmt_read_v2 free_heap ENOMEM (\<lambda>_. True) (Some (length pmt_file, pmt_file)) nr no_pmt) = Some (0, True)" for nr
    by (cases nr; simp only:; code_simp)
  then show ?thesis by (auto simp: map_option_eq_Some)
qed

lemma loaded_drops_answered_witness:
  "\<exists>nobb dd r w'. read_item_files free_heap ENOMEM (\<lambda>_ _. True) small_files (no_data False False) = Some (nobb, dd) \<and>
     pt_drop bb_env dd [] Pt_v2_drop 7 5 monster_request v2_world = Some (r, w')"
proof -
  obtain p where p: "pmt_read_v2 free_heap ENOMEM (\<lambda>_. True) (Some (length pmt_file, pmt_file))
      (norestrict_flag small_files SYLVERANT_SHIP_PMT_LIMITV2) no_pmt = Some (0, p)" "have_pmt p" "length (pmt_units p) = 1"
    using small_pmt_read by blast
  define t where "t = replicate 4 (replicate 10 (pt_v2_of zero_entry))"
  have dd: "read_item_files free_heap ENOMEM (\<lambda>_ _. True) small_files (no_data False False) =
      Some (True, (no_data False False)\<lparr>v2_ptdata := t, pmt_v2 := p\<rparr>)"
    using p(1) by (simp add: read_item_files_def try_read_def try_pmt_def small_files_def small_pt_read t_def rt_read_v2_def no_data_def)
  have "\<forall>row \<in> set t. \<forall>ent \<in> set row. pt_indices_ok 5 ent" by (auto simp: t_def zero_indices)
  then show ?thesis
    using loaded_drops_answered [OF dd _ _ _ _ world_ready(1)] dd p(2,3) by (fastforce simp: t_def)
qed

lemma pmt_lookups_in_tables_witness:
  "\<exists>p. pmt_read_v2 free_heap ENOMEM (\<lambda>_. True) (Some (length pmt_file, pmt_file)) True no_pmt = Some (0, p) \<and>
     (\<exists>i. stars_of_index p i = None) \<and> pmt_lookup_guard p 0x000101 \<noteq> None"
proof -
  obtain p where p: "pmt_read_v2 free_heap ENOMEM (\<lambda>_. True) (Some (length pmt_file, pmt_file)) True no_pmt = Some (0, p)"
    using small_pmt_read by blast
  have "pmt_read_v2 \<in> pmt_versions" by (simp add: pmt_versions_def)
  note lookups = pmt_lookups_in_tables [OF this p]
  have "code_part 0x000101 0 = 1 \<and> code_part 0x000101 1 \<noteq> 0" by code_simp
  then have "pmt_lookup_guard p 0x000101 \<noteq> None" using lookups [of "0x000101"] by blast
  moreover have "stars_of_index p (star_max p + weapon_lowest p) = None"
    using lookups [of _ "star_max p + weapon_lowest p"] by simp
  ultimately show ?thesis using p by blast
qed

end
