(* ===== verification/Cmd_State.thy ===== *)
theory Cmd_State
  imports Subcmd_Dispatch
begin

section \<open>The ship, and the parameters of a command\<close>

text \<open>
  What the commands of the chat need beyond the block of the player who types them: the structure
  \<open>ship_t\<close> with the other blocks and the list of bans, the privileges of \<open>admin.h\<close>, and the functions of
  the C library that read numbers.  A parameter is the list of the bytes before its end mark.  The
  lobbies of the player's own block are those of its store; \<open>None\<close> as the result of a handler
  is a run that C does not define.
\<close>

subsection \<open>The state\<close>

record ship_block =
  run :: bool
  b_clients :: "cref list"
  b_num_clients :: int
  b_lobbies :: "lref list"

text \<open>
  \<open>block\<close> is the store with the block of the player, the clients of all blocks and their lobbies;
  \<open>this_block\<close> is the index of that block in \<open>blocks\<close>.
\<close>

record ship =
  block :: world
  blocks :: "ship_block option list"
  this_block :: nat
  lobby_event :: u8
  game_event :: u8
  guildcard_bans :: "guildcard_ban list"
  limits :: "limits_t option"
  shutdown_time :: int
  restart_on_shutdown :: bool

text \<open>
  The surroundings: which files are configured and what reading or writing them gives (for bans the
  code that \<open>write_bans_list\<close> returns, for limits the new ones), which log files can be opened, the
  conversion of text to UTF-8, the translation of a message for a client, the text form of an address,
  the version of the server, whether the drop tables for the Gamecube are there, the bytes that lie behind a
  parameter and in the local packet of a handler, and what the end of a ban reads as after it was freed.
\<close>

datatype text_code = Ic_sjis_to_utf8 | Ic_8859_to_utf8 | Ic_utf16_to_utf8

record cmd_env = sub_env +
  bans_written :: int
  gm_file :: bool
  gms_read :: bool
  limits_file :: bool
  limits_read :: "limits_t option"
  quests_loaded :: bool
  log_opens :: "cref \<Rightarrow> bool"
  to_utf8 :: "text_code \<Rightarrow> u8 list \<Rightarrow> nat \<Rightarrow> u8 list"
  translated :: "ship_client \<Rightarrow> string \<Rightarrow> u8 list"
  ip_text :: "cref \<Rightarrow> u8 list"
  revision :: "u8 list"
  pt_gc_enabled :: bool
  behind :: "u8 list"
  junk_card :: "u8 list"
  freed_end :: "guildcard_ban \<Rightarrow> int"

type_synonym outcome = "(int \<times> ship) option"
type_synonym handler = "cmd_env \<Rightarrow> cref \<Rightarrow> u8 list \<Rightarrow> ship \<Rightarrow> outcome"

abbreviation me :: "ship \<Rightarrow> cref \<Rightarrow> ship_client" where "me S c \<equiv> cl (block S) c"

definition lift :: "(world \<Rightarrow> int \<times> world) \<Rightarrow> ship \<Rightarrow> int \<times> ship" where
  "lift f S = (let (r, w) = f (block S) in (r, S\<lparr>block := w\<rparr>))"

definition on_client :: "cref \<Rightarrow> (ship_client \<Rightarrow> ship_client) \<Rightarrow> ship \<Rightarrow> ship" where
  "on_client c f S = S\<lparr>block := upd_client c f (block S)\<rparr>"

definition on_lobby :: "lref \<Rightarrow> (lobby \<Rightarrow> lobby) \<Rightarrow> ship \<Rightarrow> ship" where
  "on_lobby l f S = S\<lparr>block := upd_lobby l f (block S)\<rparr>"

definition ask :: "'e env_scheme \<Rightarrow> request \<Rightarrow> world \<Rightarrow> int \<times> world" where
  "ask e q w = (if send_fails e (Ask q) then -1 else 0, emit (Ask q) w)"

definition request :: "cmd_env \<Rightarrow> request \<Rightarrow> ship \<Rightarrow> outcome" where
  "request e q S = Some (lift (ask e q) S)"

text \<open>
  An answer to the player.  The constant part of a message is its English text without the codes for language
  and color and without line breaks; one that is put together has the pieces in their order.
\<close>

definition say :: "cmd_env \<Rightarrow> cref \<Rightarrow> string \<Rightarrow> ship \<Rightarrow> outcome" where
  "say e c m S = Some (lift (send_txt e c m) S)"

definition say_with :: "cmd_env \<Rightarrow> cref \<Rightarrow> string \<Rightarrow> arg list \<Rightarrow> ship \<Rightarrow> outcome" where
  "say_with e c m xs S = request e (Txt c m xs) S"

text \<open>Something sent whose result the code does not look at.\<close>

definition tell :: "event \<Rightarrow> ship \<Rightarrow> ship" where
  "tell ev S = S\<lparr>block := emit ev (block S)\<rparr>"

text \<open>The lobby of the player, read through the pointer \<open>cur_lobby\<close>.\<close>

definition in_lobby :: "cref \<Rightarrow> ship \<Rightarrow> (lref \<Rightarrow> lobby \<Rightarrow> outcome) \<Rightarrow> outcome" where
  "in_lobby c S f = (case cur_lobby (me S c) of None \<Rightarrow> None | Some l \<Rightarrow> f l (lob (block S) l))"

subsection \<open>Privileges\<close>

definition CLIENT_PRIV_LOCAL_GM :: u8 where "CLIENT_PRIV_LOCAL_GM = 0x01"
definition CLIENT_PRIV_GLOBAL_GM :: u8 where "CLIENT_PRIV_GLOBAL_GM = 0x02"
definition CLIENT_PRIV_LOCAL_ROOT :: u8 where "CLIENT_PRIV_LOCAL_ROOT = 0x04"

definition CLIENT_FLAG_DISCONNECTED :: u32 where "CLIENT_FLAG_DISCONNECTED = 0x00000010"
definition CLIENT_FLAG_SHOW_DCPC_ON_GC :: u32 where "CLIENT_FLAG_SHOW_DCPC_ON_GC = 0x00000080"
definition CLIENT_FLAG_LOGGED_IN :: u32 where "CLIENT_FLAG_LOGGED_IN = 0x00000100"
definition CLIENT_FLAG_AUTO_BACKUP :: u32 where "CLIENT_FLAG_AUTO_BACKUP = 0x00002000"

definition LOCAL_GM :: "ship_client \<Rightarrow> bool" where
  "LOCAL_GM x \<longleftrightarrow> privilege x AND CLIENT_PRIV_LOCAL_GM \<noteq> 0 \<and> has_flag (flags x) CLIENT_FLAG_LOGGED_IN"

definition GLOBAL_GM :: "ship_client \<Rightarrow> bool" where
  "GLOBAL_GM x \<longleftrightarrow> privilege x AND CLIENT_PRIV_GLOBAL_GM \<noteq> 0 \<and> has_flag (flags x) CLIENT_FLAG_LOGGED_IN"

definition LOCAL_ROOT :: "ship_client \<Rightarrow> bool" where
  "LOCAL_ROOT x \<longleftrightarrow> privilege x AND CLIENT_PRIV_LOCAL_ROOT \<noteq> 0 \<and> has_flag (flags x) CLIENT_FLAG_LOGGED_IN"

definition set_flag :: "u32 \<Rightarrow> ship_client \<Rightarrow> ship_client" where
  "set_flag f x = x\<lparr>flags := flags x OR f\<rparr>"

definition clear_flag :: "u32 \<Rightarrow> ship_client \<Rightarrow> ship_client" where
  "clear_flag f x = x\<lparr>flags := flags x AND NOT f\<rparr>"

definition set_lflag :: "u32 \<Rightarrow> lobby \<Rightarrow> lobby" where
  "set_lflag f L = L\<lparr>l_flags := l_flags L OR f\<rparr>"

definition clear_lflag :: "u32 \<Rightarrow> lobby \<Rightarrow> lobby" where
  "clear_lflag f L = L\<lparr>l_flags := l_flags L AND NOT f\<rparr>"

subsection \<open>Reading numbers\<close>

definition ascii :: "string \<Rightarrow> u8 list" where "ascii s = map of_char s"

definition is_space :: "u8 \<Rightarrow> bool" where "is_space b \<longleftrightarrow> b = 32 \<or> 9 \<le> b \<and> b \<le> 13"
definition is_digit :: "u8 \<Rightarrow> bool" where "is_digit b \<longleftrightarrow> 48 \<le> b \<and> b \<le> 57"

definition is_xdigit :: "u8 \<Rightarrow> bool" where
  "is_xdigit b \<longleftrightarrow> is_digit b \<or> 65 \<le> b \<and> b \<le> 70 \<or> 97 \<le> b \<and> b \<le> 102"

definition digit_value :: "u8 \<Rightarrow> int" where
  "digit_value b = (if is_digit b then uint b - 48 else if b \<le> 70 then uint b - 55 else uint b - 87)"

definition number :: "int \<Rightarrow> u8 list \<Rightarrow> int" where
  "number base ds = foldl (\<lambda>n d. n * base + digit_value d) 0 ds"

definition sign :: "u8 list \<Rightarrow> bool \<times> u8 list" where
  "sign s = (case s of [] \<Rightarrow> (False, []) | b # r \<Rightarrow>
     if b = 45 then (True, r) else if b = 43 then (False, r) else (False, s))"

text \<open>
  \<open>strtoul(s, &end, 10)\<close> with 64 bits: the number and what \<open>end\<close> points to, \<open>None\<close> when \<open>errno\<close> is set.
  Without digits the number is 0 and \<open>end\<close> is \<open>s\<close>; a minus sign negates the unsigned number.
\<close>

definition strtoul :: "u8 list \<Rightarrow> (u64 \<times> u8 list) option" where
  "strtoul s =
     (let (neg, r) = sign (dropWhile is_space s);
          ds = takeWhile is_digit r
      in if ds = [] then Some (0, s)
         else if number 10 ds \<ge> 2 ^ 64 then None
         else Some (word_of_int (if neg then - number 10 ds else number 10 ds), drop (length ds) r))"

text \<open>
  The value of a decimal number as \<open>strtol\<close> gives it, which stops at the least and the greatest number of 64 bits, and
  its conversion to \<open>int\<close>.
\<close>

definition long_value :: "bool \<Rightarrow> int \<Rightarrow> u32" where
  "long_value neg n = word_of_int (if neg then max (- n) (- (2 ^ 63)) else min n (2 ^ 63 - 1))"

definition atoi :: "u8 list \<Rightarrow> int" where
  "atoi s =
     (let (neg, r) = sign (dropWhile is_space s)
      in sint (long_value neg (number 10 (takeWhile is_digit r))))"

text \<open>
  \<open>sscanf\<close>: its result (\<open>- 1\<close> for \<open>EOF\<close>) and the values read.  A value that needs more than 32 bits is
  converted from 64 bits, where \<open>%x\<close> stops at the greatest unsigned number.
\<close>

datatype directive = Hex | Dec | Lit u8 | Blank

definition scan_dec :: "u8 list \<Rightarrow> (u32 \<times> u8 list) option" where
  "scan_dec s =
     (let (neg, r) = sign s; ds = takeWhile is_digit r
      in if ds = [] then None else Some (long_value neg (number 10 ds), drop (length ds) r))"

definition scan_hex :: "u8 list \<Rightarrow> (u32 \<times> u8 list) option" where
  "scan_hex s =
     (let (neg, r) = sign s;
          r = (if take 1 r = [48] \<and> length r > 1 \<and> r ! 1 \<in> {88, 120} then drop 2 r else r);
          ds = takeWhile is_xdigit r;
          n = number 16 ds
      in if ds = [] then None
         else Some (word_of_int (if n \<ge> 2 ^ 64 then - 1 else if neg then - n else n), drop (length ds) r))"

fun sscanf :: "directive list \<Rightarrow> u8 list \<Rightarrow> u32 list \<Rightarrow> int \<times> u32 list" where
  "sscanf [] s vs = (int (length vs), vs)"
| "sscanf (Blank # fs) s vs = sscanf fs (dropWhile is_space s) vs"
| "sscanf (Lit b # fs) s vs =
     (case s of [] \<Rightarrow> (if vs = [] then -1 else int (length vs), vs)
      | x # r \<Rightarrow> if x = b then sscanf fs r vs else (int (length vs), vs))"
| "sscanf (f # fs) s vs =
     (let s = dropWhile is_space s
      in if s = [] then (if vs = [] then -1 else int (length vs), vs)
         else case (if f = Hex then scan_hex s else scan_dec s) of
                None \<Rightarrow> (int (length vs), vs)
              | Some (v, r) \<Rightarrow> sscanf fs r (vs @ [v]))"

subsection \<open>The players of the ship\<close>

definition clients_of :: "ship_block option \<Rightarrow> cref list" where
  "clients_of b = (case b of None \<Rightarrow> [] | Some b \<Rightarrow> b_clients b)"

text \<open>The clients of the blocks that run, in the order in which the loops over the blocks reach them.\<close>

definition running_clients :: "ship \<Rightarrow> cref list" where
  "running_clients S = concat (map clients_of (filter (\<lambda>b. b \<noteq> None \<and> run (the b)) (blocks S)))"

definition ship_clients :: "ship \<Rightarrow> cref list" where
  "ship_clients S = concat (map clients_of (blocks S))"

text \<open>The clients of the player's block.\<close>

definition block_clients :: "ship \<Rightarrow> cref list" where
  "block_clients S = clients_of (blocks S ! this_block S)"

definition find_player :: "ship \<Rightarrow> u32 \<Rightarrow> cref list \<Rightarrow> cref option" where
  "find_player S gc xs = List.find (\<lambda>i. guildcard (me S i) = gc) xs"

text \<open>
  \<open>lobby_send_pkt_dc\<close> with a null pointer for the sender, so to everybody.
\<close>

definition lobby_send_all_dc :: "lref \<Rightarrow> packet \<Rightarrow> world \<Rightarrow> int \<times> world" where
  "lobby_send_all_dc l h w = (0, for_clients l (\<lambda>d. emit (Send_pkt d h)) w)"

end
