(* ===== verification/Cmd_Admin.thy ===== *)
theory Cmd_Admin
  imports Cmd_State
begin

section \<open>Administration and bans\<close>

text \<open>
  \<open>ship_server/src/admin.c\<close>, and the list of banned players of \<open>bans.c\<close> with its operations (its file is
  written with libxml2).  Also the part of \<open>utils.c\<close> that sets the event of the lobbies.
\<close>

subsection \<open>Bans\<close>

definition ban_over :: "int \<Rightarrow> int \<Rightarrow> bool" where
  "ban_over t end \<longleftrightarrow> end \<noteq> -1 \<and> end < t"

text \<open>
  What \<open>write_bans_list\<close> returns is up to the file and to libxml2; when it is - 5, the list of bans is left
  locked, and nothing that uses the bans afterwards ends.
\<close>

definition write_bans_list :: "cmd_env \<Rightarrow> ship \<Rightarrow> int \<times> ship" where
  "write_bans_list e S =
     (bans_written e,
      if bans_written e = 0
      then tell (Ask (Save_bans (filter (\<lambda>i. \<not> ban_over (now (block S)) (end_time i)) (guildcard_bans S)))) S
      else S)"

definition ban_gc_int :: "cmd_env \<Rightarrow> int \<Rightarrow> int \<Rightarrow> u32 \<Rightarrow> u32 \<Rightarrow> u8 list \<Rightarrow> ship \<Rightarrow> int \<times> ship" where
  "ban_gc_int e until from setter gc reason S =
     (if \<not> has_mem e then (-1, S)
      else (0, S\<lparr>guildcard_bans := guildcard_bans S @
             [\<lparr>start_time = from, end_time = until, set_by = setter, banned_gc = gc, ban_reason = reason\<rparr>]\<rparr>))"

definition ban_guildcard :: "cmd_env \<Rightarrow> int \<Rightarrow> u32 \<Rightarrow> u32 \<Rightarrow> u8 list \<Rightarrow> ship \<Rightarrow> int \<times> ship" where
  "ban_guildcard e until setter gc reason S =
     (let (r, S) = ban_gc_int e until (now (block S)) setter gc reason S
      in if r \<noteq> 0 then (-1, S)
         else let (r, S) = write_bans_list e S in if r \<noteq> 0 then (-2, S) else (0, S))"

text \<open>
  The loop that lifts bans: the rest of the list, the number of entries removed and of those that match.
  An entry that matches has been freed when its end is read again; when that reads as a ban that is over,
  it is removed and freed a second time, which is \<open>None\<close>.
\<close>

primrec lift_loop :: "cmd_env \<Rightarrow> int \<Rightarrow> u32 \<Rightarrow> guildcard_ban list \<Rightarrow> (guildcard_ban list \<times> nat \<times> nat) option" where
  "lift_loop e t gc [] = Some ([], 0, 0)"
| "lift_loop e t gc (i # is) =
     (if banned_gc i = gc \<and> ban_over t (freed_end e i) then None
      else case lift_loop e t gc is of
             None \<Rightarrow> None
           | Some (rest, lifted, matching) \<Rightarrow>
               if banned_gc i = gc then Some (rest, lifted + 1, matching + 1)
               else if ban_over t (end_time i) then Some (rest, lifted + 1, matching)
               else Some (i # rest, lifted, matching))"

definition ban_lift_guildcard_ban :: "cmd_env \<Rightarrow> u32 \<Rightarrow> ship \<Rightarrow> outcome" where
  "ban_lift_guildcard_ban e gc S =
     (case lift_loop e (now (block S)) gc (guildcard_bans S) of
        None \<Rightarrow> None
      | Some (rest, lifted, matching) \<Rightarrow>
          let S = S\<lparr>guildcard_bans := rest\<rparr>
          in if lifted > 0 then
               let (r, S) = write_bans_list e S
               in Some (if r \<noteq> 0 then -2 else if matching > 0 then 0 else -1, S)
             else Some (-1, S))"

definition ban_sweep_guildcards :: "cmd_env \<Rightarrow> ship \<Rightarrow> int \<times> ship" where
  "ban_sweep_guildcards e S =
     (let t = now (block S);
          rest = filter (\<lambda>i. \<not> ban_over t (end_time i)) (guildcard_bans S);
          lifted = length (guildcard_bans S) - length rest;
          S = S\<lparr>guildcard_bans := rest\<rparr>
      in if lifted > 0 then
           let (r, S) = write_bans_list e S in (if r \<noteq> 0 then -1 else 0, S)
         else (0, S))"

text \<open>The reason and the end of the first ban that holds, when there is one.\<close>

definition is_guildcard_banned :: "u32 \<Rightarrow> ship \<Rightarrow> (u8 list \<times> int) option" where
  "is_guildcard_banned gc S =
     map_option (\<lambda>i. (ban_reason i, end_time i))
       (List.find (\<lambda>i. banned_gc i = gc \<and> (end_time i \<ge> now (block S) \<or> end_time i = -1)) (guildcard_bans S))"

definition ban_list_clear :: "ship \<Rightarrow> ship" where
  "ban_list_clear S = S\<lparr>guildcard_bans := []\<rparr>"

subsection \<open>The functions of the administrators\<close>

definition kick :: "cref \<Rightarrow> ship \<Rightarrow> ship" where
  "kick i S = on_client i (set_flag CLIENT_FLAG_DISCONNECTED) S"

definition kill_guildcard :: "cmd_env \<Rightarrow> cref \<Rightarrow> u32 \<Rightarrow> u8 list option \<Rightarrow> ship \<Rightarrow> outcome" where
  "kill_guildcard e c gc reason S =
     (if \<not> LOCAL_GM (me S c) then Some (-1, S)
      else case find_player S gc (running_clients S) of
             Some i \<Rightarrow>
               if privilege (me S c) \<le> privilege (me S i) then say e c ''Nice try.'' S
               else Some (0, kick i (tell (Ask (Box i (case reason of
                        Some r \<Rightarrow> [Key ''You have been kicked by a GM.'', Key ''Reason:'', Str r]
                      | None \<Rightarrow> [Key ''You have been kicked by a GM.'']))) S))
           | None \<Rightarrow>
               Some (0, if GLOBAL_GM (me S c)
                        then tell (Ask (Gate_kick (guildcard (me S c)) gc reason)) S else S))"

definition refresh_quests :: "cmd_env \<Rightarrow> cref \<Rightarrow> ship \<Rightarrow> outcome" where
  "refresh_quests e c S =
     (if \<not> LOCAL_GM (me S c) then Some (-1, S)
      else let S = tell (Ask Load_quests) S
           in say e c (if quests_loaded e then ''Updated quests.'' else ''No quests configured.'') S)"

definition refresh_gms :: "cmd_env \<Rightarrow> cref \<Rightarrow> ship \<Rightarrow> outcome" where
  "refresh_gms e c S =
     (if \<not> LOCAL_ROOT (me S c) then Some (-1, S)
      else if gm_file e then
        let S = tell (Ask Load_gms) S
        in say e c (if gms_read e then ''Updated GM list.'' else ''Couldn't read GM list.'') S
      else say e c ''No GM list configured.'' S)"

definition refresh_limits :: "cmd_env \<Rightarrow> cref \<Rightarrow> ship \<Rightarrow> outcome" where
  "refresh_limits e c S =
     (if \<not> LOCAL_GM (me S c) then Some (-1, S)
      else if limits_file e then
        case limits_read e of
          None \<Rightarrow> say e c ''Couldn't read limits.'' S
        | Some lim \<Rightarrow> say e c ''Updated limits.'' (S\<lparr>limits := Some lim\<rparr>)
      else say e c ''No configured limits.'' S)"

definition broadcast_message :: "cref \<Rightarrow> u8 list \<Rightarrow> bool \<Rightarrow> ship \<Rightarrow> int \<times> ship" where
  "broadcast_message c message prefix S =
     (if \<not> LOCAL_GM (me S c) then (-1, S)
      else (0, fold (\<lambda>i S.
             if has_pl (me S i) then
               let S = (if prefix then tell (Send_txt i ''Global Message:'') S else S)
               in tell (Ask (Txt i ''%s'' [Str message])) S
             else S) (running_clients S) S))"

text \<open>The multiplication by 60 is one of 32 bits.  The byte that wakes up the thread of the ship is left out.\<close>

definition ship_server_shutdown :: "int \<Rightarrow> ship \<Rightarrow> ship" where
  "ship_server_shutdown when S = (if when \<ge> now (block S) then S\<lparr>shutdown_time := when\<rparr> else S)"

definition schedule_shutdown :: "cmd_env \<Rightarrow> cref \<Rightarrow> u32 \<Rightarrow> bool \<Rightarrow> ship \<Rightarrow> outcome" where
  "schedule_shutdown e c when restart S =
     (if \<not> LOCAL_ROOT (me S c) then Some (-1, S)
      else
        let m = (if restart then ''Ship is going down for restart in'' else ''Ship is going down for shutdown in'');
            S = fold (\<lambda>i S. if has_pl (me S i)
                  then tell (Ask (Txt i m [Num (uint when), Key ''minutes.''])) S else S) (running_clients S) S;
            S = S\<lparr>restart_on_shutdown := restart\<rparr>
        in Some (0, ship_server_shutdown (now (block S) + uint (when * 60)) S))"

definition ban_length :: "u32 \<Rightarrow> string option" where
  "ban_length l =
     (if l = 0xFFFFFFFF then Some ''Forever'' else if l = 2592000 then Some ''30 days''
      else if l = 604800 then Some ''1 week'' else if l = 86400 then Some ''1 day'' else None)"

definition global_ban_text :: "u32 \<Rightarrow> u8 list option \<Rightarrow> arg list" where
  "global_ban_text l reason =
     Key ''You have been banned by a GM.'' #
     (case ban_length l of None \<Rightarrow> [] | Some t \<Rightarrow> [Key ''Ban Length:'', Key t]) @
     (case reason of None \<Rightarrow> [] | Some r \<Rightarrow> [Key ''Reason:'', Str r])"

definition global_ban :: "cmd_env \<Rightarrow> cref \<Rightarrow> u32 \<Rightarrow> u32 \<Rightarrow> u8 list option \<Rightarrow> ship \<Rightarrow> outcome" where
  "global_ban e c gc l reason S =
     (if \<not> GLOBAL_GM (me S c) then Some (-1, S)
      else
        let (r, S) = lift (ask e (Gate_ban (guildcard (me S c)) gc l reason)) S
        in if r \<noteq> 0 then say e c ''Error setting ban.'' S
           else case find_player S gc (running_clients S) of
                  Some i \<Rightarrow>
                    if privilege (me S c) \<le> privilege (me S i) then say e c ''Nice try.'' S
                    else Some (0, kick i (tell (Ask (Box i (global_ban_text l reason))) S))
                | None \<Rightarrow> Some (0, tell (Ask (Gate_kick (guildcard (me S c)) gc reason)) S))"

subsection \<open>The event of the lobbies\<close>

definition LOBBY_EVENT_TYPE :: u16 where "LOBBY_EVENT_TYPE = 0x00DA"

text \<open>The lobbies of block number \<open>j\<close>.\<close>

definition lobbies_of :: "ship \<Rightarrow> nat \<Rightarrow> lref list" where
  "lobbies_of S j = (if j = this_block S then block_lobbies (block S)
     else case blocks S ! j of None \<Rightarrow> [] | Some b \<Rightarrow> b_lobbies b)"

definition set_event :: "u8 \<Rightarrow> lref \<Rightarrow> world \<Rightarrow> world" where
  "set_event ev l w =
     (if l_type (lob w l) = LOBBY_TYPE_DEFAULT then
        for_clients l (\<lambda>c w. if version (cl w c) > CLIENT_VERSION_PC
            then emit (Ask (Simple c LOBBY_EVENT_TYPE (ucast ev))) w else w)
          (upd_lobby l (\<lambda>L. L\<lparr>l_event := ev\<rparr>) w)
      else w)"

definition update_lobby_event :: "ship \<Rightarrow> ship" where
  "update_lobby_event S =
     fold (\<lambda>j S. if blocks S ! j \<noteq> None \<and> run (the (blocks S ! j))
        then S\<lparr>block := fold (set_event (lobby_event S)) (lobbies_of S j) (block S)\<rparr> else S)
       [0..<length (blocks S)] S"

end
