(* ===== verification/Commands.thy ===== *)
theory Commands
  imports Cmd_Admin
begin

section \<open>The commands of the chat\<close>

text \<open>
  The handlers of \<open>ship_server/src/commands.c\<close>, in the order of the file.  A handler that locks the
  mutex of a lobby it holds is \<open>None\<close>; otherwise the mutexes are left out.  The packets that go through other components use their definitions.
\<close>

text \<open>The environment of the subcommands.\<close>

definition sub :: "cmd_env \<Rightarrow> sub_env" where "sub e = sub_env.truncate e"

text \<open>The reason that follows a number and a blank.\<close>

definition given_reason :: "u8 list \<Rightarrow> u8 list option" where
  "given_reason r = (if length r > 1 then Some (tl r) else None)"

text \<open>A string that ends at the first zero of the given bytes; \<open>None\<close> when it runs out of them.\<close>

definition c_string :: "u8 list \<Rightarrow> u8 list option" where
  "c_string s = (if 0 \<in> set s then Some (takeWhile (\<lambda>b. b \<noteq> 0) s) else None)"

definition handle_warp :: handler where
  "handle_warp e c p S =
     (if \<not> LOCAL_GM (me S c) then say e c ''Nice try.'' S
      else in_lobby c S (\<lambda>l L.
        if l_type L \<noteq> LOBBY_TYPE_GAME then say e c ''Only valid in a game.'' S
        else case strtoul p of
               None \<Rightarrow> say e c ''Invalid area.'' S
             | Some (area, _) \<Rightarrow>
                 if area > 17 then say e c ''Invalid area.'' S
                 else request e (Warp c (ucast area)) S))"

definition handle_warpall :: handler where
  "handle_warpall e c p S =
     (if \<not> LOCAL_GM (me S c) then say e c ''Nice try.'' S
      else in_lobby c S (\<lambda>l L.
        if l_type L \<noteq> LOBBY_TYPE_GAME then say e c ''Only valid in a game.'' S
        else case strtoul p of
               None \<Rightarrow> say e c ''Invalid area.'' S
             | Some (area, _) \<Rightarrow>
                 if area > 17 then say e c ''Invalid area.'' S
                 else request e (Lobby_warp l (ucast area)) S))"

definition handle_kill :: handler where
  "handle_kill e c p S =
     (if \<not> LOCAL_GM (me S c) then say e c ''Nice try.'' S
      else case strtoul p of
             None \<Rightarrow> say e c ''Invalid Guild Card.'' S
           | Some (gc, r) \<Rightarrow> kill_guildcard e c (ucast gc) (given_reason r) S)"

definition handle_min_level :: handler where
  "handle_min_level e c p S = in_lobby c S (\<lambda>l L.
     if l_type L = LOBBY_TYPE_DEFAULT then say e c ''Only valid in a game.'' S
     else if unat (leader_id L) \<noteq> client_id (me S c) then say e c ''Only the leader may use this command.'' S
     else case strtoul p of
            None \<Rightarrow> say e c ''Invalid level value.'' S
          | Some (v, _) \<Rightarrow>
              let lvl = ucast v :: u32
              in if sint lvl > 200 \<or> sint lvl < 1 then say e c ''Invalid level value.'' S
                 else if unat (difficulty L) \<ge> length game_required_level then None
                 else if lvl < game_required_level ! unat (difficulty L)
                 then say e c ''Invalid level for this difficulty.'' S
                 else if lvl > max_level L then say e c ''Minimum level must be <= maximum.'' S
                 else say e c ''Minimum level set.'' (on_lobby l (\<lambda>L. L\<lparr>min_level := lvl\<rparr>) S))"

definition handle_max_level :: handler where
  "handle_max_level e c p S = in_lobby c S (\<lambda>l L.
     if l_type L = LOBBY_TYPE_DEFAULT then say e c ''Only valid in a game.'' S
     else if unat (leader_id L) \<noteq> client_id (me S c) then say e c ''Only the leader may use this command.'' S
     else case strtoul p of
            None \<Rightarrow> say e c ''Invalid level value.'' S
          | Some (v, _) \<Rightarrow>
              let lvl = ucast v :: u32
              in if sint lvl > 200 \<or> sint lvl < 1 then say e c ''Invalid level value.'' S
                 else if lvl < min_level L then say e c ''Maximum level must be >= minimum.'' S
                 else say e c ''Maximum level set.'' (on_lobby l (\<lambda>L. L\<lparr>max_level := lvl\<rparr>) S))"

definition handle_refresh :: handler where
  "handle_refresh e c p S =
     (if \<not> LOCAL_GM (me S c) then say e c ''Nice try.'' S
      else if p = ascii ''quests'' then refresh_quests e c S
      else if p = ascii ''gms'' then
        if \<not> LOCAL_ROOT (me S c) then say e c ''Nice try.'' S else refresh_gms e c S
      else if p = ascii ''limits'' then refresh_limits e c S
      else say e c ''Unknown item to refresh.'' S)"

definition handle_save :: handler where
  "handle_save e c p S =
     (if has_flag (flags (me S c)) CLIENT_FLAG_GC_PROTECT
      then say e c ''You must login before you can do that.'' S
      else in_lobby c S (\<lambda>l L.
        if l_type L \<noteq> LOBBY_TYPE_DEFAULT then say e c ''Not valid in a game.'' S
        else if version (me S c) = CLIENT_VERSION_BB then say e c ''Not valid on Blue Burst.'' S
        else case strtoul p of
               None \<Rightarrow> say e c ''Invalid slot value.'' S
             | Some (v, _) \<Rightarrow>
                 let slot = ucast v :: u32
                 in if slot > 4 \<or> slot < 1 then say e c ''Invalid slot value.'' S
                    else
                      let (r, S) = lift (ask e (Gate_cdata (guildcard (me S c)) (slot + 4) c (block_no (block S)))) S
                      in if r \<noteq> 0 then say e c ''Couldn't save character data.'' S else Some (0, S)))"

definition handle_restore :: handler where
  "handle_restore e c p S =
     (if has_flag (flags (me S c)) CLIENT_FLAG_GC_PROTECT
      then say e c ''You must login before you can do that.'' S
      else in_lobby c S (\<lambda>l L.
        if l_type L \<noteq> LOBBY_TYPE_DEFAULT then say e c ''Not valid in a game.'' S
        else if version (me S c) = CLIENT_VERSION_BB then say e c ''Not valid on Blue Burst.'' S
        else case strtoul p of
               None \<Rightarrow> say e c ''Invalid slot value.'' S
             | Some (v, _) \<Rightarrow>
                 let slot = ucast v :: u32
                 in if slot > 4 \<or> slot < 1 then say e c ''Invalid slot value.'' S
                    else
                      let (r, S) = lift (ask e (Gate_creq (guildcard (me S c)) (slot + 4))) S
                      in if r \<noteq> 0 then say e c ''Couldn't request character data.'' S else Some (0, S)))"

definition handle_bstat :: handler where
  "handle_bstat e c p S =
     (case blocks S ! this_block S of
        None \<Rightarrow> None
      | Some b \<Rightarrow>
          say_with e c ''BLOCK%02d: %d %s %d %s''
            [Num (int (block_no (block S))), Num (b_num_clients b), Key ''Users'',
             Num (block_games (block S)), Key ''Teams''] S)"

definition handle_bcast :: handler where
  "handle_bcast e c p S =
     (if \<not> LOCAL_GM (me S c) then say e c ''Nice try.'' S else Some (broadcast_message c p True S))"

definition handle_arrow :: handler where
  "handle_arrow e c p S =
     (if has_flag (flags (me S c)) CLIENT_FLAG_GC_PROTECT
      then say e c ''You must login before you can do that.'' S
      else
        let S = on_client c (\<lambda>x. x\<lparr>arrow := word_of_int (atoi p)\<rparr>) S;
            S = tell (Send_txt c ''Arrow set.'') S
        in in_lobby c S (\<lambda>l L. request e (Arrows l) S))"

text \<open>
  The loops of \<open>handle_login\<close> that copy up to \<open>n\<close> bytes; the first does not stop at the end of the string.  The
  test reads the next byte even when \<open>n\<close> have been copied.
\<close>

fun grab :: "(u8 \<Rightarrow> bool) \<Rightarrow> nat \<Rightarrow> u8 list \<Rightarrow> (u8 list \<times> u8 list) option" where
  "grab stop n [] = None"
| "grab stop n (b # r) =
     (if stop b \<or> n = 0 then Some ([], b # r)
      else map_option (\<lambda>(xs, s). (b # xs, s)) (grab stop (n - 1) r))"

definition handle_login :: handler where
  "handle_login e c p S =
     (case grab (\<lambda>b. b = 32) 32 (p @ [0] @ behind e) of
        None \<Rightarrow> None
      | Some (user, rest) \<Rightarrow>
          if length user = 32 then say e c ''Invalid request.'' S
          else case grab (\<lambda>b. b = 32 \<or> b = 0) 32 (tl rest) of
                 None \<Rightarrow> None
               | Some (pass, _) \<Rightarrow>
                   if length pass = 32 then say e c ''Invalid request.'' S
                   else request e (Gate_gmlogin (guildcard (me S c)) (block_no (block S))
                          (takeWhile (\<lambda>b. b \<noteq> 0) user) pass) S)"

definition handle_item :: handler where
  "handle_item e c p S =
     (if \<not> LOCAL_GM (me S c) then say e c ''Nice try.'' S
      else let (count, vs) = sscanf [Hex, Lit 44, Hex, Lit 44, Hex, Lit 44, Hex] p []
           in if count = -1 \<or> count = 0 then say e c ''Invalid item code.'' S
              else say e c ''Next item set successfully.''
                     (on_client c (\<lambda>x. x\<lparr>next_item := vs @ replicate (4 - length vs) 0\<rparr>) S))"

definition handle_item4 :: handler where
  "handle_item4 e c p S =
     (if \<not> LOCAL_GM (me S c) then say e c ''Nice try.'' S
      else let (count, vs) = sscanf [Hex] p []
           in if count = -1 \<or> count = 0 then say e c ''Invalid item code.'' S
              else say e c ''Next item set successfully.''
                     (on_client c (\<lambda>x. x\<lparr>next_item := (next_item x)[3 := vs ! 0]\<rparr>) S))"

definition handle_event :: handler where
  "handle_event e c p S =
     (if \<not> LOCAL_GM (me S c) then say e c ''Nice try.'' S
      else let ev = atoi p
           in if ev < 0 \<or> ev > 14 then say e c ''Invalid event code.'' S
              else say e c ''Event set.'' (update_lobby_event (S\<lparr>lobby_event := word_of_int ev\<rparr>)))"

text \<open>\<open>strcpy\<close> into the buffer \<open>old\<close>, which has room.\<close>

definition strcpy :: "u8 list \<Rightarrow> u8 list \<Rightarrow> u8 list" where
  "strcpy s old = s @ [0] @ drop (length s + 1) old"

definition handle_passwd :: handler where
  "handle_passwd e c p S = in_lobby c S (\<lambda>l L.
     if l_type L = LOBBY_TYPE_DEFAULT then say e c ''Only valid in a game.'' S
     else if unat (leader_id L) \<noteq> client_id (me S c) then say e c ''Only the leader may use this command.'' S
     else if length p > 16 then say e c ''Password too long.'' S
     else if list_ex (\<lambda>b. b < 0x20 \<or> b \<ge> 0x7F) p then say e c ''Illegal character in password.'' S
     else say e c ''Password set.'' (on_lobby l (\<lambda>L. L\<lparr>passwd := strcpy p (passwd L)\<rparr>) S))"

definition handle_lname :: handler where
  "handle_lname e c p S = in_lobby c S (\<lambda>l L.
     if l_type L = LOBBY_TYPE_DEFAULT then say e c ''Only valid in a game.'' S
     else if unat (leader_id L) \<noteq> client_id (me S c) then say e c ''Only the leader may use this command.'' S
     else if length p > 16 then say e c ''Lobby name too long.'' S
     else say e c ''Lobby name set.'' (on_lobby l (\<lambda>L. L\<lparr>l_name := strcpy p (l_name L)\<rparr>) S))"

text \<open>\<open>sprintf\<close> of a string into a field with the contents \<open>junk\<close>.\<close>

definition print_into :: "u8 list \<Rightarrow> u8 list \<Rightarrow> u8 list option" where
  "print_into s junk = (if length s < length junk then Some (strcpy s junk) else None)"

definition BUG_REPORT_GC :: u32 where "BUG_REPORT_GC = 1"
definition CLIENT_LANG_ENGLISH :: u8 where "CLIENT_LANG_ENGLISH = 1"

definition forged_card :: "ship_client \<Rightarrow> u32 \<Rightarrow> u8 list \<Rightarrow> u8 list \<Rightarrow> u8 \<Rightarrow> packet" where
  "forged_card x gc name txt pad =
     \<lparr>pkt_type = GAME_COMMAND2_TYPE, pkt_len = 0x88, pkt_flags = of_nat (client_id x),
      payload = [0x06, 0x21, 0, 0] @ le32_bytes 0x00010000 @ le32_bytes gc @ name @ txt @
        [0, 1, CLIENT_LANG_ENGLISH, 0, 8, 0, 0, pad]\<rparr>"

definition handle_bug :: handler where
  "handle_bug e c p S =
     (let x = me S c
      in case (print_into (translated e x ''Report Bug'') (take 24 (junk_card e)),
               print_into (translated e x ''Send a Simple Mail to this guildcard to report a bug.'')
                 (take 88 (drop 24 (junk_card e)))) of
           (Some name, Some txt) \<Rightarrow>
             let S = tell (Send_txt c ''Send a mail to the 'Report Bug' user to report a bug.'') S
             in Some (lift (handle_dc_gcsend (sub e) c
                  (forged_card x BUG_REPORT_GC name txt (junk_card e ! 112))) S)
         | _ \<Rightarrow> None)"

definition classes :: "string list" where
  "classes = [''HUmar'', ''HUnewearl'', ''HUcast'', ''RAmar'', ''RAcast'', ''RAcaseal'', ''FOmarl'', ''FOnewm'',
     ''FOnewearl'', ''HUcaseal'', ''FOmar'', ''RAmarl'']"

definition handle_clinfo :: handler where
  "handle_clinfo e c p S =
     (if \<not> LOCAL_GM (me S c) then say e c ''Nice try.'' S
      else
        let (count, vs) = sscanf [Dec] p []
        in if count = -1 \<or> count = 0 then say e c ''Invalid Client ID.'' S
           else in_lobby c S (\<lambda>l L.
             if sint (vs ! 0) \<ge> int (max_clients L) \<or> sint (vs ! 0) < 0 then say e c ''Invalid Client ID.'' S
             else case slots L ! unat (vs ! 0) of
                    None \<Rightarrow> say e c ''No such client.'' S
                  | Some d \<Rightarrow>
                      let x = me S d
                      in if unat (ch_class x) \<ge> length classes then None
                         else say_with e c ''Name: %s IP: %s GC: %u %s Lv.%d''
                                [Str (pl_name x), Str (ip_text e d), Num (uint (guildcard x)),
                                 Key (classes ! unat (ch_class x)), Num (sint (pl_level x + 1))] S))"

definition handle_gban :: "u32 \<Rightarrow> handler" where
  "handle_gban len e c p S =
     (if \<not> GLOBAL_GM (me S c) then say e c ''Nice try.'' S
      else case strtoul p of
             None \<Rightarrow> say e c ''Invalid Guild Card.'' S
           | Some (gc, r) \<Rightarrow> global_ban e c (ucast gc) len (given_reason r) S)"

definition handle_gban_d :: handler where "handle_gban_d = handle_gban 86400"
definition handle_gban_w :: handler where "handle_gban_w = handle_gban 604800"
definition handle_gban_m :: handler where "handle_gban_m = handle_gban 2592000"
definition handle_gban_p :: handler where "handle_gban_p = handle_gban 0xFFFFFFFF"

definition handle_list :: handler where
  "handle_list e c p S =
     (if \<not> LOCAL_GM (me S c) then say e c ''Nice try.'' S else request e (Player_list c p) S)"

definition CHAR_DATA_REQUEST_TYPE :: u16 where "CHAR_DATA_REQUEST_TYPE = 0x0095"

definition ask_for_data :: "cmd_env \<Rightarrow> cref \<Rightarrow> world \<Rightarrow> world" where
  "ask_for_data e d w =
     (let (r, w) = ask e (Simple d CHAR_DATA_REQUEST_TYPE 0) w
      in if r \<noteq> 0 then upd_client d (set_flag CLIENT_FLAG_DISCONNECTED) w else w)"

definition handle_legit :: handler where
  "handle_legit e c p S = in_lobby c S (\<lambda>l L.
     if l_type L \<noteq> LOBBY_TYPE_GAME then say e c ''Only valid in a game.'' S
     else if unat (leader_id L) \<noteq> client_id (me S c) then say e c ''Only the leader may use this command.'' S
     else if has_flag (l_flags L) LOBBY_FLAG_LEGIT_MODE then say e c ''Already in legit mode.'' S
     else if has_flag (l_flags L) LOBBY_FLAG_LEGIT_CHECK then say e c ''Legit check in progress...'' S
     else
       let S = on_lobby l (\<lambda>L. (set_lflag (LOBBY_FLAG_TEMP_UNAVAIL OR LOBBY_FLAG_LEGIT_CHECK) L)
                 \<lparr>legit_check_passed := 0, legit_check_done := 0\<rparr>) S
       in Some (0, S\<lparr>block := for_clients l (ask_for_data e) (block S)\<rparr>))"

definition handle_normal :: handler where
  "handle_normal e c p S = in_lobby c S (\<lambda>l L.
     if l_type L \<noteq> LOBBY_TYPE_GAME then say e c ''Only valid in a game.'' S
     else if unat (leader_id L) \<noteq> client_id (me S c) then say e c ''Only the leader may use this command.'' S
     else if has_flag (l_flags L) LOBBY_FLAG_LEGIT_CHECK
     then say e c ''Please wait a while before using this command.'' S
     else if \<not> has_flag (l_flags L) LOBBY_FLAG_LEGIT_MODE then say e c ''Already in normal mode.'' S
     else
       let S = on_lobby l (clear_lflag LOBBY_FLAG_LEGIT_MODE) S
       in Some (0, S\<lparr>block := for_clients l (\<lambda>d. emit (Send_txt d ''Legit mode deactivated.'')) (block S)\<rparr>))"

definition handle_down :: "bool \<Rightarrow> handler" where
  "handle_down restart e c p S =
     (if \<not> LOCAL_ROOT (me S c) then say e c ''Nice try.'' S
      else case strtoul p of
             None \<Rightarrow> say e c ''Invalid time.'' S
           | Some (v, _) \<Rightarrow>
               let when = ucast v :: u32
               in schedule_shutdown e c (if when < 1 then 1 else when) restart S)"

definition handle_shutdown :: handler where "handle_shutdown = handle_down False"
definition handle_restart :: handler where "handle_restart = handle_down True"

definition pkt_log_start :: "cmd_env \<Rightarrow> cref \<Rightarrow> ship \<Rightarrow> int \<times> ship" where
  "pkt_log_start e i S =
     (if logging (me S i) then (-1, S)
      else if \<not> log_opens e i then (-2, S)
      else (0, on_client i (\<lambda>x. x\<lparr>logging := True\<rparr>) S))"

definition pkt_log_stop :: "cref \<Rightarrow> ship \<Rightarrow> int \<times> ship" where
  "pkt_log_stop i S =
     (if \<not> logging (me S i) then (-1, S) else (0, on_client i (\<lambda>x. x\<lparr>logging := False\<rparr>) S))"

definition handle_log :: handler where
  "handle_log e c p S =
     (if \<not> LOCAL_ROOT (me S c) then say e c ''Nice try.'' S
      else case strtoul p of
             None \<Rightarrow> say e c ''Invalid Guild Card.'' S
           | Some (gc, _) \<Rightarrow>
               (case find_player S (ucast gc) (block_clients S) of
                  None \<Rightarrow> say e c ''Requested user not found.'' S
                | Some i \<Rightarrow>
                    let (rv, S) = pkt_log_start e i S
                    in if rv = 0 then say e c ''Logging started.'' S
                       else if rv = -1 then say e c ''The user is already being logged.'' S
                       else say e c ''Cannot create log file.'' S))"

definition handle_endlog :: handler where
  "handle_endlog e c p S =
     (if \<not> LOCAL_ROOT (me S c) then say e c ''Nice try.'' S
      else case strtoul p of
             None \<Rightarrow> say e c ''Invalid Guild Card.'' S
           | Some (gc, _) \<Rightarrow>
               (case find_player S (ucast gc) (block_clients S) of
                  None \<Rightarrow> say e c ''Requested user not found.'' S
                | Some i \<Rightarrow>
                    let (rv, S) = pkt_log_stop i S
                    in if rv = 0 then say e c ''Logging ended.'' S
                       else say e c ''The user is not being logged.'' S))"

definition handle_motd :: handler where
  "handle_motd e c p S = request e (Motd c) S"

definition handle_friendadd :: handler where
  "handle_friendadd e c p S =
     (if has_flag (flags (me S c)) CLIENT_FLAG_GC_PROTECT
      then say e c ''You must login before you can do that.'' S
      else case strtoul p of
             None \<Rightarrow> say e c ''Invalid Guild Card.'' S
           | Some (gc, nick) \<Rightarrow>
               if take 1 nick \<noteq> [32] \<or> length nick < 2 then say e c ''Invalid Nickname.'' S
               else Some (0, tell (Ask (Gate_friend_add (guildcard (me S c)) (ucast gc) (tl nick))) S))"

definition handle_frienddel :: handler where
  "handle_frienddel e c p S =
     (if has_flag (flags (me S c)) CLIENT_FLAG_GC_PROTECT
      then say e c ''You must login before you can do that.'' S
      else case strtoul p of
             None \<Rightarrow> say e c ''Invalid Guild Card.'' S
           | Some (gc, _) \<Rightarrow>
               Some (0, tell (Ask (Gate_friend_del (guildcard (me S c)) (ucast gc))) S))"

text \<open>The loops over the players of a game that look for one of another version.\<close>

definition version_in_game :: "(nat \<Rightarrow> bool) \<Rightarrow> ship \<Rightarrow> lobby \<Rightarrow> bool" where
  "version_in_game P S L \<longleftrightarrow>
     list_ex (\<lambda>s. case s of None \<Rightarrow> False | Some d \<Rightarrow> P (version (me S d))) (take (max_clients L) (slots L))"

definition handle_dconly :: handler where
  "handle_dconly e c p S = in_lobby c S (\<lambda>l L.
     if l_type L \<noteq> LOBBY_TYPE_GAME then say e c ''Only valid in a game.'' S
     else if unat (leader_id L) \<noteq> client_id (me S c) then say e c ''Only the leader may use this command.'' S
     else if p = ascii ''off'' then
       say e c ''Dreamcast-only mode off.'' (on_lobby l (clear_lflag LOBBY_FLAG_DCONLY) S)
     else if version_in_game (\<lambda>v. v \<noteq> CLIENT_VERSION_DCV1 \<and> v \<noteq> CLIENT_VERSION_DCV2) S L
     then say e c ''At least one non-Dreamcast player is in the game.'' S
     else say e c ''Dreamcast-only mode on.'' (on_lobby l (set_lflag LOBBY_FLAG_DCONLY) S))"

definition handle_v1only :: handler where
  "handle_v1only e c p S = in_lobby c S (\<lambda>l L.
     if l_type L \<noteq> LOBBY_TYPE_GAME then say e c ''Only valid in a game.'' S
     else if unat (leader_id L) \<noteq> client_id (me S c) then say e c ''Only the leader may use this command.'' S
     else if p = ascii ''off'' then say e c ''V1-only mode off.'' (on_lobby l (clear_lflag LOBBY_FLAG_V1ONLY) S)
     else if version_in_game (\<lambda>v. v \<noteq> CLIENT_VERSION_DCV1) S L
     then say e c ''At least one non-PSOv1 player is in the game.'' S
     else say e c ''V1-only mode on.'' (on_lobby l (set_lflag LOBBY_FLAG_V1ONLY) S))"

definition handle_forgegc :: handler where
  "handle_forgegc e c p S =
     (if \<not> LOCAL_GM (me S c) then say e c ''Nice try.'' S
      else case strtoul p of
             None \<Rightarrow> say e c ''Invalid Guild Card.'' S
           | Some (gc, name) \<Rightarrow>
               if take 1 name \<noteq> [32] \<or> length name < 2 then say e c ''No name given.'' S
               else Some (lift (handle_dc_gcsend (sub e) c
                      (forged_card (me S c) (ucast gc)
                        ((strncpy 16 (tl name))[15 := 0] @ take 8 (drop 16 (junk_card e))) (replicate 88 0) 0)) S))"

definition handle_invuln :: handler where
  "handle_invuln e c p S =
     (if \<not> LOCAL_GM (me S c) then say e c ''Nice try.'' S
      else if p = ascii ''off'' then
        say e c ''Invulnerability off.'' (on_client c (clear_flag CLIENT_FLAG_INVULNERABLE) S)
      else say e c ''Invulnerability on.'' (on_client c (set_flag CLIENT_FLAG_INVULNERABLE) S))"

definition handle_inftp :: handler where
  "handle_inftp e c p S =
     (if \<not> LOCAL_GM (me S c) then say e c ''Nice try.'' S
      else if p = ascii ''off'' then
        say e c ''Infinite TP off.'' (on_client c (clear_flag CLIENT_FLAG_INFINITE_TP) S)
      else say e c ''Infinite TP on.'' (on_client c (set_flag CLIENT_FLAG_INFINITE_TP) S))"

text \<open>
  The damage is sent while the mutex of the lobby is held, and \<open>send_lobby_mod_stat\<close> locks it
  again: only a request for no damage at all comes back.
\<close>

definition handle_smite :: handler where
  "handle_smite e c p S =
     (if \<not> LOCAL_GM (me S c) then say e c ''Nice try.'' S
      else in_lobby c S (\<lambda>l L.
        if l_type L \<noteq> LOBBY_TYPE_GAME then say e c ''Only valid in a game.'' S
        else
          let (count, vs) = sscanf [Dec, Blank, Dec, Blank, Dec] p [];
              i = sint (vs ! 0); hp = sint (vs ! 1); tp = sint (vs ! 2)
          in if count = -1 \<or> count < 3 \<or> i \<ge> int (max_clients L) \<or> i < 0 \<or> hp < 0 \<or> tp < 0 \<or>
                hp > 2040 \<or> tp > 2040 then say e c ''Invalid Parameter.'' S
             else case slots L ! nat i of
                    None \<Rightarrow> say e c ''No such client.'' S
                  | Some d \<Rightarrow>
                      if hp \<noteq> 0 \<or> tp \<noteq> 0 then None else say e c ''Nothing to do.'' S))"

end
