(* ===== verification/Command_Table.thy ===== *)
theory Command_Table
  imports Commands
begin

section \<open>The rest of the commands, and the way a line of chat finds its command\<close>

text \<open>
  The handlers of \<open>commands.c\<close> from \<open>/makeitem\<close> on, the table of the commands, \<open>command_call\<close> and the
  three functions that convert a packet of chat; from \<open>block.c\<close>, the chat of the Dreamcast and
  Gamecube versions, and what the server does with the data it asked for in a legit check.
\<close>

definition handle_makeitem :: handler where
  "handle_makeitem e c p S =
     (if \<not> LOCAL_GM (me S c) then say e c ''Nice try.'' S
      else in_lobby c S (\<lambda>l L.
        if l_type L \<noteq> LOBBY_TYPE_GAME then say e c ''Only valid in a game.'' S
        else if next_item (me S c) ! 0 = 0 then say e c ''Need to set an item first.'' S
        else
          let d = next_item (me S c);
              (ok, S) = (if l_version L = CLIENT_VERSION_BB then
                  let (it, w) = lobby_add_item_locked (has_mem e) l d (block S) in (it \<noteq> None, S\<lparr>block := w\<rparr>)
                else (True, on_lobby l (\<lambda>L. L\<lparr>l_item_id := l_item_id L + 1\<rparr>) S));
              x = me S c;
              p2 = \<lparr>pkt_type = GAME_COMMAND0_TYPE, pkt_len = 0x2C, pkt_flags = 0,
                 payload = [0x5D, 0x0A, of_nat (client_id x), 0] @ le16_bytes (ucast (cur_area x)) @ [0, 0] @
                   le32_bytes (position x ! 1) @ le32_bytes (position x ! 3) @
                   le32_bytes (d ! 0) @ le32_bytes (d ! 1) @ le32_bytes (d ! 2) @
                   le32_bytes (l_item_id (lob (block S) l) - 1) @ le32_bytes (d ! 3) @ le32_bytes 2\<rparr>
          in if \<not> ok then say e c ''No space for new item.'' S
             else Some (lift (lobby_send_all_dc l p2) (on_client c (\<lambda>x. x\<lparr>next_item := [0, 0, 0, 0]\<rparr>) S))))"

text \<open>The index is an \<open>int\<close> that is compared with the number of slots of the lobby, but not with zero.\<close>

definition handle_teleport :: handler where
  "handle_teleport e c p S =
     (if \<not> LOCAL_GM (me S c) then say e c ''Nice try.'' S
      else in_lobby c S (\<lambda>l L.
        if l_type L \<noteq> LOBBY_TYPE_GAME then say e c ''Only valid in a game.'' S
        else case strtoul p of
               None \<Rightarrow> say e c ''Invalid Client ID.'' S
             | Some (v, _) \<Rightarrow>
                 let client = sint (ucast v :: u32)
                 in if client > int (max_clients L) then say e c ''Invalid Client ID.'' S
                    else if client < 0 \<or> client \<ge> int (length (slots L)) then None
                    else case slots L ! nat client of
                           None \<Rightarrow> say e c ''Invalid Client ID.'' S
                         | Some d \<Rightarrow>
                             let x = me S c; y = me S d
                             in if cur_area y \<noteq> cur_area x then request e (Warp c (ucast (cur_area y))) S
                                else Some (lift (lobby_send_all_dc l
                                  \<lparr>pkt_type = GAME_COMMAND0_TYPE, pkt_len = 0x18, pkt_flags = 0,
                                   payload = [0x17, 5, of_nat (client_id x), 0] @
                                     le32_bytes (position y ! 1) @ le32_bytes (position y ! 2) @
                                     le32_bytes (position y ! 3) @ le32_bytes (position y ! 0)\<rparr>) S)))"

text \<open>What is dumped goes to the log file of the server.\<close>

definition handle_dumpinv :: handler where
  "handle_dumpinv e c p S =
     (if \<not> LOCAL_GM (me S c) then say e c ''Nice try.'' S
      else if p \<noteq> ascii ''lobby'' then
        (if version (me S c) = CLIENT_VERSION_BB \<and> \<not> bb_loaded (me S c) then None else Some (0, S))
      else in_lobby c S (\<lambda>l L.
        if l_type L \<noteq> LOBBY_TYPE_GAME \<or> l_version L \<noteq> CLIENT_VERSION_BB then say e c ''Invalid request.'' S
        else Some (0, S)))"

definition handle_showdcpc :: handler where
  "handle_showdcpc e c p S =
     (if version (me S c) \<noteq> CLIENT_VERSION_GC then say e c ''Only valid on Gamecube.'' S
      else if p = ascii ''off'' then
        say e c ''DC/PC games hidden.'' (on_client c (clear_flag CLIENT_FLAG_SHOW_DCPC_ON_GC) S)
      else say e c ''DC/PC games visible.'' (on_client c (set_flag CLIENT_FLAG_SHOW_DCPC_ON_GC) S))"

definition handle_allowgc :: handler where
  "handle_allowgc e c p S = in_lobby c S (\<lambda>l L.
     if l_type L \<noteq> LOBBY_TYPE_GAME then say e c ''Only valid in a game.'' S
     else if unat (leader_id L) \<noteq> client_id (me S c) then say e c ''Only the leader may use this command.'' S
     else if p = ascii ''off'' then say e c ''Gamecube disallowed.'' (on_lobby l (clear_lflag LOBBY_FLAG_GC_ALLOWED) S)
     else if has_flag (l_flags L) LOBBY_FLAG_DCONLY \<or> has_flag (l_flags L) LOBBY_FLAG_PCONLY \<or>
        has_flag (l_flags L) LOBBY_FLAG_V1ONLY then say e c ''Game flag conflict.'' S
     else say e c ''Gamecube allowed.'' (on_lobby l (set_lflag LOBBY_FLAG_GC_ALLOWED) S))"

text \<open>A subcommand of the server that goes to the player who asked for it and to the others.\<close>

definition to_all :: "cmd_env \<Rightarrow> cref \<Rightarrow> packet \<Rightarrow> ship \<Rightarrow> outcome" where
  "to_all e c pkt S =
     map_option (\<lambda>(r, w). (r, S\<lparr>block := w\<rparr>)) (subcmd_handle_bcast (sub e) c pkt (emit (Send_pkt c pkt) (block S)))"

definition handle_ws :: handler where
  "handle_ws e c p S =
     (if \<not> LOCAL_GM (me S c) then say e c ''Nice try.'' S
      else
        let (count, vs) = sscanf [Hex, Lit 44, Hex, Lit 44, Hex, Lit 44, Hex] p [];
            ws = vs @ replicate (4 - length vs) 0xFFFF;
            x = me S c;
            i = of_nat (client_id x)
        in if count = -1 \<or> count = 0 then say e c ''Invalid WS code.'' S
           else to_all e c \<lparr>pkt_type = GAME_COMMAND0_TYPE, pkt_len = 0x24, pkt_flags = 0,
                  payload = [0x74, 0x08] @ (if version x \<noteq> CLIENT_VERSION_GC then [i, 0] else [0, i]) @
                    [word_of_int count, 0, 1, 0] @ le16_bytes (ucast (ws ! 0)) @ le16_bytes (ucast (ws ! 1)) @
                    le16_bytes (ucast (ws ! 2)) @ le16_bytes (ucast (ws ! 3)) @ replicate 8 0xFF @ replicate 8 0\<rparr> S)"

text \<open>
  The list of the players.  Each \<open>snprintf\<close> prints the string onto itself and appends to it; it leaves at most 510
  bytes.
\<close>

definition decimal_int :: "int \<Rightarrow> u8 list" where
  "decimal_int z = (if z < 0 then 45 # decimal (nat (- z)) else decimal (nat z))"

definition ll_entry :: "bool \<Rightarrow> ship \<Rightarrow> cref option list \<Rightarrow> nat \<Rightarrow> u8 list" where
  "ll_entry gm S xs i =
     decimal i @ ascii '': '' @
     (case xs ! i of
        None \<Rightarrow> ascii ''None''
      | Some d \<Rightarrow> pl_name (me S d) @
          (if gm then ascii '' ('' @ decimal_int (sint (guildcard (me S d))) @ ascii '')'' else [])) @
     (if even i then ascii ''   '' else [10])"

definition handle_ll :: handler where
  "handle_ll e c p S =
     (if has_flag (flags (me S c)) CLIENT_FLAG_GC_PROTECT
      then say e c ''You must login before you can do that.'' S
      else in_lobby c S (\<lambda>l L.
        request e (Box c [Str (foldl (\<lambda>str i. take 510 (str @ ll_entry (LOCAL_GM (me S c)) S (slots L) i))
          [9, 69] [0..<max_clients L])]) S))"

text \<open>The highest free slot, \<open>- 1\<close> when there is none.\<close>

definition open_slot :: "lobby \<Rightarrow> int" where
  "open_slot L = (case List.find (\<lambda>i. slots L ! i = None) (rev [0..<max_clients L]) of
     None \<Rightarrow> -1 | Some i \<Rightarrow> int i)"

definition handle_npc :: handler where
  "handle_npc e c p S = in_lobby c S (\<lambda>l L.
     if l_type L \<noteq> LOBBY_TYPE_GAME then say e c ''Only valid in a game.'' S
     else if num_clients L \<noteq> 1 then say e c ''Only valid in a game with one player.'' S
     else if battle L \<noteq> 0 \<or> challenge L \<noteq> 0 then say e c ''Not valid in battle or challenge modes.'' S
     else if has_flag (l_flags L) LOBBY_FLAG_LEGIT_MODE then say e c ''Not valid in legit mode.'' S
     else if has_flag (l_flags L) LOBBY_FLAG_QUESTING then say e c ''Not valid in quests.'' S
     else if cur_area (me S c) \<noteq> 0 then say e c ''Only valid on Pioneer 2.'' S
     else
       let (count, vs) = sscanf [Dec, Lit 44, Dec, Lit 44, Dec] p []
       in if count = -1 \<or> count = 0 then say e c ''Invalid NPC data.'' S
          else
            let npcnum = sint (vs ! 0);
                cid = (if count = 1 then open_slot L else sint (vs ! 1));
                follow = (if count < 3 then int (client_id (me S c)) else sint (vs ! 2))
            in if npcnum < 0 \<or> npcnum > 63 then say e c ''Invalid NPC number.'' S
               else if cid < 0 \<or> cid \<ge> int (max_clients L) \<or> slots L ! nat cid \<noteq> None
               then say e c ''Invalid client ID given, or no open client slots.'' S
               else if follow < 0 \<or> follow \<ge> int (max_clients L) \<or> slots L ! nat follow = None
               then say e c ''Invalid follow client given.'' S
               else to_all e c \<lparr>pkt_type = GAME_COMMAND0_TYPE, pkt_len = 0x10, pkt_flags = 0,
                      payload = [0x69, 0x03, 1, 1, word_of_int follow, 0, word_of_int cid, 0, 0, 0,
                        word_of_int npcnum, 0]\<rparr> (on_lobby l (set_lflag LOBBY_FLAG_SINGLEPLAYER) S))"

definition handle_stfu :: handler where
  "handle_stfu e c p S =
     (if \<not> LOCAL_GM (me S c) then say e c ''Nice try.'' S
      else case strtoul p of
             None \<Rightarrow> say e c ''Invalid Guild Card.'' S
           | Some (gc, _) \<Rightarrow>
               (case List.find (\<lambda>i. guildcard (me S i) = ucast gc \<and> privilege (me S i) < privilege (me S c))
                       (block_clients S) of
                  None \<Rightarrow> say e c ''Guildcard not found'' S
                | Some i \<Rightarrow> say e c ''Client STFUed.'' (on_client i (set_flag CLIENT_FLAG_STFU) S)))"

definition handle_unstfu :: handler where
  "handle_unstfu e c p S =
     (if \<not> LOCAL_GM (me S c) then say e c ''Nice try.'' S
      else case strtoul p of
             None \<Rightarrow> say e c ''Invalid Guild Card.'' S
           | Some (gc, _) \<Rightarrow>
               (case find_player S (ucast gc) (block_clients S) of
                  None \<Rightarrow> say e c ''Guildcard not found.'' S
                | Some i \<Rightarrow> say e c ''Client un-STFUed.'' (on_client i (clear_flag CLIENT_FLAG_STFU) S)))"

definition handle_ignore :: handler where
  "handle_ignore e c p S =
     (if has_flag (flags (me S c)) CLIENT_FLAG_GC_PROTECT
      then say e c ''You must login before you can do that.'' S
      else
        let (count, vs) = sscanf [Dec] p []
        in if count = -1 \<or> count = 0 then say e c ''Invalid Client ID.'' S
           else in_lobby c S (\<lambda>l L.
             if sint (vs ! 0) \<ge> int (max_clients L) \<or> sint (vs ! 0) < 0 then say e c ''Invalid Client ID.'' S
             else case slots L ! unat (vs ! 0) of
                    None \<Rightarrow> say e c ''No such client.'' S
                  | Some d \<Rightarrow>
                      (case List.find (\<lambda>i. ignore_list (me S c) ! i = 0) [0..<length (ignore_list (me S c))] of
                         None \<Rightarrow> say e c ''Ignore list full.'' S
                       | Some i \<Rightarrow>
                           say_with e c ''%s %s %s %d''
                             [Key ''Ignoring'', Str (pl_name (me S d)), Key ''Entry'', Num (int i)]
                             (on_client c (\<lambda>x. x\<lparr>ignore_list := (ignore_list x)[i := guildcard (me S d)]\<rparr>) S))))"

definition CLIENT_IGNORE_LIST_SIZE :: int where "CLIENT_IGNORE_LIST_SIZE = 10"

definition handle_unignore :: handler where
  "handle_unignore e c p S =
     (if has_flag (flags (me S c)) CLIENT_FLAG_GC_PROTECT
      then say e c ''You must login before you can do that.'' S
      else
        let (count, vs) = sscanf [Dec] p []
        in if count = -1 \<or> count = 0 \<or> sint (vs ! 0) \<ge> CLIENT_IGNORE_LIST_SIZE \<or> sint (vs ! 0) < 0
           then say e c ''Invalid Entry Number.'' S
           else say e c ''Ignore list entry cleared.''
                  (on_client c (\<lambda>x. x\<lparr>ignore_list := (ignore_list x)[unat (vs ! 0) := 0]\<rparr>) S))"

definition handle_quit :: handler where
  "handle_quit e c p S = Some (0, on_client c (set_flag CLIENT_FLAG_DISCONNECTED) S)"

definition handle_gameevent :: handler where
  "handle_gameevent e c p S =
     (if \<not> LOCAL_GM (me S c) then say e c ''Nice try.'' S
      else let ev = atoi p
           in if ev < 0 \<or> ev > 6 then say e c ''Invalid event code.'' S
              else say e c ''Game Event set.'' (S\<lparr>game_event := word_of_int ev\<rparr>))"

subsection \<open>Bans\<close>

definition ban_text :: "string \<Rightarrow> u8 list \<Rightarrow> u8 list \<Rightarrow> arg list" where
  "ban_text len r reason =
     [Key ''You have been banned from this ship.'', Key ''Ban Length:'', Key len] @
     (if length r > 1 then [Key ''Reason:'', Str reason] else [])"

text \<open>
  The reason starts one byte after the number; when the parameter ends with the number, that is behind the
  end of the string.
\<close>

definition handle_ban :: "string \<Rightarrow> (int \<Rightarrow> int) \<Rightarrow> handler" where
  "handle_ban len until e c p S =
     (if \<not> LOCAL_GM (me S c) then say e c ''Nice try.'' S
      else case strtoul p of
             None \<Rightarrow> say e c ''Invalid Guild Card.'' S
           | Some (gc, r) \<Rightarrow>
               (case c_string (if r = [] then behind e else tl r @ [0]) of
                  None \<Rightarrow> None
                | Some reason \<Rightarrow>
                    let (rv, S) = ban_guildcard e (until (now (block S))) (guildcard (me S c)) (ucast gc) reason S
                    in if rv \<noteq> 0 then say e c ''Error setting ban.'' S
                       else say e c ''Successfully set ban.''
                         (fold (\<lambda>i S. if guildcard (me S i) = ucast gc
                                  then kick i (tell (Ask (Box i (ban_text len r reason))) S) else S)
                            (ship_clients S) S)))"

definition handle_ban_d :: handler where "handle_ban_d = handle_ban ''1 day'' (\<lambda>t. t + 86400)"
definition handle_ban_w :: handler where "handle_ban_w = handle_ban ''1 week'' (\<lambda>t. t + 604800)"
definition handle_ban_m :: handler where "handle_ban_m = handle_ban ''30 days'' (\<lambda>t. t + 2592000)"
definition handle_ban_p :: handler where "handle_ban_p = handle_ban ''Forever'' (\<lambda>t. -1)"

definition handle_unban :: handler where
  "handle_unban e c p S =
     (if \<not> LOCAL_GM (me S c) then say e c ''Nice try.'' S
      else case strtoul p of
             None \<Rightarrow> say e c ''Invalid Guild Card.'' S
           | Some (gc, _) \<Rightarrow>
               (case ban_lift_guildcard_ban e (ucast gc) S of
                  None \<Rightarrow> None
                | Some (rv, S) \<Rightarrow>
                    if rv = 0 then say e c ''Lifted ban.'' S
                    else if rv = -1 then say e c ''User not banned.'' S
                    else say e c ''Error lifting ban.'' S))"

subsection \<open>Options\<close>

definition handle_cc :: handler where
  "handle_cc e c p S =
     (if has_flag (flags (me S c)) CLIENT_FLAG_GC_PROTECT
      then say e c ''You must login before you can do that.'' S
      else if p = ascii ''off'' then say e c ''Color Chat off.'' (on_client c (\<lambda>x. x\<lparr>cc_char := 0\<rparr>) S)
      else if length p \<noteq> 1 then say e c ''Invalid trigger character.'' S
      else say e c ''Color Chat on.'' (on_client c (\<lambda>x. x\<lparr>cc_char := p ! 0\<rparr>) S))"

definition language_codes :: "string list" where
  "language_codes = [''jp'', ''en'', ''de'', ''fr'', ''es'', ''cs'', ''ct'', ''kr'']"

definition USER_OPT_QUEST_LANG :: u32 where "USER_OPT_QUEST_LANG = 1"
definition USER_OPT_ENABLE_BACKUP :: u32 where "USER_OPT_ENABLE_BACKUP = 2"
definition USER_OPT_GC_PROTECT :: u32 where "USER_OPT_GC_PROTECT = 3"
definition USER_OPT_TRACK_KILLS :: u32 where "USER_OPT_TRACK_KILLS = 4"

text \<open>The option goes to the shipgate; whether it could be sent is not looked at.\<close>

definition set_option :: "cref \<Rightarrow> u32 \<Rightarrow> u8 \<Rightarrow> ship \<Rightarrow> ship" where
  "set_option c opt v S =
     tell (Ask (Gate_user_opt (guildcard (me S c)) (block_no (block S)) opt [v])) S"

definition handle_qlang :: handler where
  "handle_qlang e c p S =
     (if has_flag (flags (me S c)) CLIENT_FLAG_GC_PROTECT
      then say e c ''You must login before you can do that.'' S
      else if length p \<noteq> 2 then say e c ''Invalid language code.'' S
      else case List.find (\<lambda>i. ascii (language_codes ! i) = p) [0..<length language_codes] of
             None \<Rightarrow> say e c ''Invalid language code.'' S
           | Some i \<Rightarrow>
               say e c ''Quest language set.''
                 (set_option c USER_OPT_QUEST_LANG (of_nat i) (on_client c (\<lambda>x. x\<lparr>q_lang := of_nat i\<rparr>) S)))"

definition handle_friends :: handler where
  "handle_friends e c p S =
     (if has_flag (flags (me S c)) CLIENT_FLAG_GC_PROTECT
      then say e c ''You must login before you can do that.'' S
      else case strtoul p of
             None \<Rightarrow> say e c ''Invalid Page.'' S
           | Some (page, _) \<Rightarrow>
               request e (Gate_frlist (guildcard (me S c)) (block_no (block S)) (ucast page * 5)) S)"

definition handle_gbc :: handler where
  "handle_gbc e c p S =
     (if \<not> GLOBAL_GM (me S c) then say e c ''Nice try.'' S
      else if p = [] then say e c ''Forget something?'' S
      else request e (Gate_global_msg (guildcard (me S c)) p) S)"

definition handle_logout :: handler where
  "handle_logout e c p S =
     (if \<not> has_flag (flags (me S c)) CLIENT_FLAG_LOGGED_IN then say e c ''Not logged in.'' S
      else say e c ''Logged out.''
             (on_client c (clear_flag (CLIENT_FLAG_LOGGED_IN OR CLIENT_FLAG_OVERRIDE_GAME)) S))"

definition handle_override :: handler where
  "handle_override e c p S =
     (if \<not> LOCAL_GM (me S c) then say e c ''Nice try.'' S
      else in_lobby c S (\<lambda>l L.
        if l_type L \<noteq> LOBBY_TYPE_DEFAULT then say e c ''Not valid in a game.'' S
        else say e c ''Lobby restriction override on.'' (on_client c (set_flag CLIENT_FLAG_OVERRIDE_GAME) S)))"

definition handle_ver :: handler where
  "handle_ver e c p S = say_with e c ''%s: %s'' [Key ''Ship Revision'', Str (revision e)] S"

definition GUILD_SEARCH_TYPE :: u16 where "GUILD_SEARCH_TYPE = 0x0040"

text \<open>The three packets differ in the layout of the header and the length that counts it.\<close>

definition handle_search :: handler where
  "handle_search e c p S =
     (if has_flag (flags (me S c)) CLIENT_FLAG_GC_PROTECT
      then say e c ''You must login before you can do that.'' S
      else case strtoul p of
             None \<Rightarrow> say e c ''Invalid Guild Card.'' S
           | Some (gc, _) \<Rightarrow>
               request e (Process_pkt c
                 \<lparr>pkt_type = GUILD_SEARCH_TYPE,
                  pkt_len = (if version (me S c) = CLIENT_VERSION_BB then 0x14 else 0x10), pkt_flags = 0,
                  payload = le32_bytes 0x00010000 @ le32_bytes (guildcard (me S c)) @ le32_bytes (ucast gc)\<rparr>) S)"

definition handle_gm :: handler where
  "handle_gm e c p S =
     (if \<not> LOCAL_GM (me S c) then say e c ''Nice try.'' S else request e (Gm_menu c) S)"

text \<open>The loop over the digits: the message when one is wrong, otherwise the maps.\<close>

fun read_maps :: "u8 list \<Rightarrow> u32 list \<Rightarrow> string + u32 list" where
  "read_maps [] ms = Inr ms"
| "read_maps (b # r) ms =
     (if \<not> is_digit b then Inl ''Invalid map entry.''
      else if length ms > 31 then Inl ''Too many entries.''
      else read_maps r (ms @ [ucast (b - 48)]))"

definition handle_maps :: handler where
  "handle_maps e c p S =
     (if \<not> LOCAL_GM (me S c) then say e c ''Nice try.'' S
      else case read_maps p [] of
             Inl m \<Rightarrow> say e c m S
           | Inr ms \<Rightarrow>
               if has_mem e then
                 say e c ''Set maps for next team.''
                   (on_client c (\<lambda>x. x\<lparr>next_maps := Some (ms @ replicate (32 - length ms) 0)\<rparr>) S)
               else say e c ''Unknown error.'' (on_client c (\<lambda>x. x\<lparr>next_maps := None\<rparr>) S))"

definition handle_showmaps :: handler where
  "handle_showmaps e c p S = in_lobby c S (\<lambda>l L.
     if l_type L \<noteq> LOBBY_TYPE_GAME then say e c ''Only valid in a game.'' S
     else say_with e c ''%s %s''
            [Key ''Maps in use:'', Str (takeWhile (\<lambda>b. b \<noteq> 0) (map (\<lambda>m. ucast m + 48) (take 32 (l_maps L))))] S)"

definition handle_restorebk :: handler where
  "handle_restorebk e c p S =
     (if has_flag (flags (me S c)) CLIENT_FLAG_GC_PROTECT
      then say e c ''You must login before you can do that.'' S
      else in_lobby c S (\<lambda>l L.
        if l_type L \<noteq> LOBBY_TYPE_DEFAULT then say e c ''Not valid in a game.'' S
        else if version (me S c) = CLIENT_VERSION_BB then say e c ''Not valid on Blue Burst.'' S
        else
          let (r, S) = lift (ask e (Gate_cbkup_req (guildcard (me S c)) (block_no (block S)) (pl_name (me S c)))) S
          in if r \<noteq> 0 then say e c ''Couldn't request character data.'' S else Some (0, S)))"

definition handle_enablebk :: handler where
  "handle_enablebk e c p S =
     (if \<not> has_flag (flags (me S c)) CLIENT_FLAG_LOGGED_IN
      then say e c ''You must be logged in to use this command.'' S
      else say e c ''Character backups enabled.''
             (on_client c (set_flag CLIENT_FLAG_AUTO_BACKUP) (set_option c USER_OPT_ENABLE_BACKUP 1 S)))"

definition handle_disablebk :: handler where
  "handle_disablebk e c p S =
     (if \<not> has_flag (flags (me S c)) CLIENT_FLAG_LOGGED_IN
      then say e c ''You must be logged in to use this command.'' S
      else say e c ''Character backups disabled.''
             (on_client c (clear_flag CLIENT_FLAG_AUTO_BACKUP) (set_option c USER_OPT_ENABLE_BACKUP 0 S)))"

definition handle_exp :: handler where
  "handle_exp e c p S =
     (if \<not> LOCAL_GM (me S c) then say e c ''Nice try.'' S
      else in_lobby c S (\<lambda>l L.
        if l_type L \<noteq> LOBBY_TYPE_GAME then say e c ''Only valid in a game.'' S
        else if version (me S c) \<noteq> CLIENT_VERSION_BB then say e c ''Only valid on Blue Burst.'' S
        else case strtoul p of
               None \<Rightarrow> say e c ''Invalid amount.'' S
             | Some (amt, _) \<Rightarrow> Some (lift (client_give_exp (sub e) c (ucast amt)) S)))"

definition handle_level :: handler where
  "handle_level e c p S =
     (if \<not> LOCAL_GM (me S c) then say e c ''Nice try.'' S
      else in_lobby c S (\<lambda>l L.
        if l_type L \<noteq> LOBBY_TYPE_GAME then say e c ''Only valid in a game.'' S
        else if version (me S c) \<noteq> CLIENT_VERSION_BB then say e c ''Only valid on Blue Burst.'' S
        else if p \<noteq> [] \<and> strtoul p = None then say e c ''Invalid level.'' S
        else if p = [] \<and> \<not> bb_loaded (me S c) then None
        else
          let amt = (if p \<noteq> [] then ucast (fst (the (strtoul p))) - 1 else bb_level (me S c) + 1)
          in if amt > 199 then say e c ''Invalid level.'' S
             else Some (lift (client_give_level (sub e) c amt) S)))"

text \<open>\<open>v2_drop_data\<close> is the conjunction of the four questions for the older versions.\<close>

definition handle_sdrops :: handler where
  "handle_sdrops e c p S =
     (let v = version (me S c);
          refused = ''Server-side drops not suported on this ship for your client version.''
      in if v \<in> {CLIENT_VERSION_DCV1, CLIENT_VERSION_DCV2, CLIENT_VERSION_PC} \<and> \<not> v2_drop_data e
         then say e c refused S
         else if v = CLIENT_VERSION_GC \<and> \<not> pt_gc_enabled e then say e c refused S
         else if v = CLIENT_VERSION_EP3 then say e c ''Not valid on Episode 3.'' S
         else if v = CLIENT_VERSION_BB then say e c ''Not valid on Blue Burst.'' S
         else if p = ascii ''off'' then
           say e c ''Server drops off for any new teams.'' (on_client c (clear_flag CLIENT_FLAG_SERVER_DROPS) S)
         else say e c ''Server drops on for any new teams.'' (on_client c (set_flag CLIENT_FLAG_SERVER_DROPS) S))"

definition handle_gcprotect :: handler where
  "handle_gcprotect e c p S =
     (if \<not> has_flag (flags (me S c)) CLIENT_FLAG_LOGGED_IN
      then say e c ''You must be logged in to use this command.'' S
      else if p = ascii ''off'' then
        say e c ''Guildcard protection disabled.'' (set_option c USER_OPT_GC_PROTECT 0 S)
      else say e c ''Guildcard protection enabled.'' (set_option c USER_OPT_GC_PROTECT 1 S))"

definition handle_trackinv :: handler where
  "handle_trackinv e c p S =
     (if \<not> LOCAL_GM (me S c) then say e c ''Nice try.'' S
      else in_lobby c S (\<lambda>l L.
        if l_type L \<noteq> LOBBY_TYPE_DEFAULT then say e c ''Not valid in a game.'' S
        else say e c ''Flag set.'' (on_client c (set_flag CLIENT_FLAG_TRACK_INVENTORY) S)))"

definition handle_trackkill :: handler where
  "handle_trackkill e c p S =
     (if \<not> has_flag (flags (me S c)) CLIENT_FLAG_LOGGED_IN
      then say e c ''You must be logged in to use this command.'' S
      else if p = ascii ''off'' then
        say e c ''Kill tracking disabled.''
          (on_client c (clear_flag CLIENT_FLAG_TRACK_KILLS) (set_option c USER_OPT_TRACK_KILLS 0 S))
      else say e c ''Kill tracking enabled.''
          (on_client c (set_flag CLIENT_FLAG_TRACK_KILLS) (set_option c USER_OPT_TRACK_KILLS 1 S)))"

subsection \<open>Finding the command\<close>

definition cmds :: "(string \<times> handler) list" where
  "cmds =
     [(''warp'', handle_warp), (''kill'', handle_kill), (''minlvl'', handle_min_level),
      (''maxlvl'', handle_max_level), (''refresh'', handle_refresh), (''save'', handle_save),
      (''restore'', handle_restore), (''bstat'', handle_bstat), (''bcast'', handle_bcast),
      (''arrow'', handle_arrow), (''login'', handle_login), (''item'', handle_item),
      (''item4'', handle_item4), (''event'', handle_event), (''passwd'', handle_passwd),
      (''lname'', handle_lname), (''warpall'', handle_warpall), (''bug'', handle_bug),
      (''clinfo'', handle_clinfo), (''gban:d'', handle_gban_d), (''gban:w'', handle_gban_w),
      (''gban:m'', handle_gban_m), (''gban:p'', handle_gban_p), (''list'', handle_list),
      (''legit'', handle_legit), (''normal'', handle_normal), (''shutdown'', handle_shutdown),
      (''log'', handle_log), (''endlog'', handle_endlog), (''motd'', handle_motd),
      (''friendadd'', handle_friendadd), (''frienddel'', handle_frienddel), (''dconly'', handle_dconly),
      (''v1only'', handle_v1only), (''forgegc'', handle_forgegc), (''invuln'', handle_invuln),
      (''inftp'', handle_inftp), (''smite'', handle_smite), (''makeitem'', handle_makeitem),
      (''teleport'', handle_teleport), (''dumpinv'', handle_dumpinv), (''showdcpc'', handle_showdcpc),
      (''allowgc'', handle_allowgc), (''ws'', handle_ws), (''ll'', handle_ll), (''npc'', handle_npc),
      (''stfu'', handle_stfu), (''unstfu'', handle_unstfu), (''ignore'', handle_ignore),
      (''unignore'', handle_unignore), (''quit'', handle_quit), (''gameevent'', handle_gameevent),
      (''ban:d'', handle_ban_d), (''ban:w'', handle_ban_w), (''ban:m'', handle_ban_m),
      (''ban:p'', handle_ban_p), (''unban'', handle_unban), (''cc'', handle_cc), (''qlang'', handle_qlang),
      (''friends'', handle_friends), (''gbc'', handle_gbc), (''logout'', handle_logout),
      (''override'', handle_override), (''ver'', handle_ver), (''restart'', handle_restart),
      (''search'', handle_search), (''gm'', handle_gm), (''maps'', handle_maps),
      (''showmaps'', handle_showmaps), (''restorebk'', handle_restorebk), (''enablebk'', handle_enablebk),
      (''disablebk'', handle_disablebk), (''exp'', handle_exp), (''level'', handle_level),
      (''sdrops'', handle_sdrops), (''gcprotect'', handle_gcprotect), (''trackinv'', handle_trackinv),
      (''trackkill'', handle_trackkill)]"

text \<open>
  The first word after the two bytes of the language and the slash, at most nine bytes of it, is the command;
  the byte after it is skipped, and the rest up to the end mark is the parameter.  Only the bytes that
  were converted are read; a text without an end mark is \<open>None\<close>.
\<close>

definition split_command :: "u8 list \<Rightarrow> (u8 list \<times> u8 list) option" where
  "split_command txt =
     (case grab (\<lambda>b. b = 32 \<or> b = 0) 9 (drop 3 txt) of
        None \<Rightarrow> None
      | Some (cmd, rest) \<Rightarrow>
          if hd rest = 0 then Some (cmd, [])
          else map_option (Pair cmd) (c_string (tl rest)))"

definition find_handler :: "u8 list \<Rightarrow> handler option" where
  "find_handler cmd = map_option snd (List.find (\<lambda>(trigger, hnd). ascii trigger = cmd) cmds)"

definition command_call :: "cmd_env \<Rightarrow> cref \<Rightarrow> u8 list \<Rightarrow> ship \<Rightarrow> outcome" where
  "command_call e c txt S =
     (case split_command txt of
        None \<Rightarrow> None
      | Some (cmd, params) \<Rightarrow>
          (case find_handler cmd of
             None \<Rightarrow> say e c ''Invalid Command.'' S
           | Some hnd \<Rightarrow> hnd e c params S))"

text \<open>The text of a chat packet: what follows the first \<open>n\<close> bytes of the packet, header included.\<close>

definition chat_text :: "nat \<Rightarrow> nat \<Rightarrow> packet \<Rightarrow> u8 list option" where
  "chat_text hdr n p =
     (if unat (pkt_len p) < n then None else Some (take (unat (pkt_len p) - n) (drop (n - hdr) (payload p))))"

definition convert :: "cmd_env \<Rightarrow> text_code \<Rightarrow> u8 list \<Rightarrow> u8 list" where
  "convert e code msg = take (2 * length msg) (to_utf8 e code msg (2 * length msg))"

definition command_parse :: "cmd_env \<Rightarrow> cref \<Rightarrow> packet \<Rightarrow> ship \<Rightarrow> outcome" where
  "command_parse e c p S =
     (case chat_text 4 12 p of
        None \<Rightarrow> None
      | Some msg \<Rightarrow>
          command_call e c (convert e (if take 2 msg = [9, 74] then Ic_sjis_to_utf8 else Ic_8859_to_utf8) msg) S)"

definition wcommand_parse :: "cmd_env \<Rightarrow> cref \<Rightarrow> packet \<Rightarrow> ship \<Rightarrow> outcome" where
  "wcommand_parse e c p S =
     (case chat_text 4 12 p of None \<Rightarrow> None | Some msg \<Rightarrow> command_call e c (convert e Ic_utf16_to_utf8 msg) S)"

definition bbcommand_parse :: "cmd_env \<Rightarrow> cref \<Rightarrow> packet \<Rightarrow> ship \<Rightarrow> outcome" where
  "bbcommand_parse e c p S =
     (case chat_text 8 16 p of None \<Rightarrow> None | Some msg \<Rightarrow> command_call e c (convert e Ic_utf16_to_utf8 msg) S)"

subsection \<open>Chat\<close>

text \<open>
  A trigger character that stands before a C that something follows becomes a tab.  The bytes of the message
  are signed, the trigger is not, so one above 127 never matches.
\<close>

fun color :: "u8 \<Rightarrow> u8 list \<Rightarrow> u8 list" where
  "color cc [] = []"
| "color cc (b # r) =
     (if b = cc \<and> cc < 128 \<and> length r \<ge> 2 \<and> r ! 0 = 67 then 9 else b) # color cc r"

text \<open>\<open>msg\<close> is the message with its end mark; a packet whose text has none is \<open>None\<close>.\<close>

definition dc_process_chat :: "cmd_env \<Rightarrow> cref \<Rightarrow> packet \<Rightarrow> ship \<Rightarrow> outcome" where
  "dc_process_chat e c p S =
     (case cur_lobby (me S c) of
        None \<Rightarrow> Some (-1, S)
      | Some l \<Rightarrow>
          (case c_string (drop 8 (payload p)) of
             None \<Rightarrow> None
           | Some s \<Rightarrow>
               let cc = cc_char (me S c);
                   s = (if cc \<noteq> 0 then color cc s else s);
                   p = p\<lparr>payload := take 8 (payload p) @ s @ drop (8 + length s) (payload p)\<rparr>
               in if length s > 2 \<and> s ! 2 = 47 then command_parse e c p S
                  else if length s < 2 \<and> length (payload p) < 11 then None
                  else if length s < 2 \<and> payload p ! 10 = 47 then command_parse e c p S
                  else if has_flag (flags (me S c)) CLIENT_FLAG_GC_PROTECT
                  then say e c ''You must login before you can chat.'' S
                  else request e (Chat l c s) S))"

subsection \<open>The legit check\<close>

text \<open>
  The answer of a player in a game that is being checked: the branch of \<open>dc_process_char\<close> for packets
  other than the one sent when leaving.  \<open>None\<close> is the access through the slot of a leader that is not there.
\<close>

definition being_checked :: "cref \<Rightarrow> world \<Rightarrow> bool" where
  "being_checked c w \<longleftrightarrow> (case cur_lobby (cl w c) of
     None \<Rightarrow> False
   | Some l \<Rightarrow> l_type (lob w l) = LOBBY_TYPE_GAME \<and> has_flag (l_flags (lob w l)) LOBBY_FLAG_LEGIT_CHECK)"

definition dc_process_char_checked :: "env \<Rightarrow> cref \<Rightarrow> inventory \<Rightarrow> world \<Rightarrow> (int \<times> world) option" where
  "dc_process_char_checked e c pinv w =
     (let l = lobby_of w c;
          w = upd_lobby l (\<lambda>L. L\<lparr>legit_check_done := legit_check_done L + 1\<rparr>) w
      in case item_version (version (cl w c)) of
           None \<Rightarrow> Some (if version (cl w c) = CLIENT_VERSION_EP3 then 0 else -1, w)
         | Some v \<Rightarrow>
             let w = (if lobby_check_player_legit e (lob w l) pinv v
                  then upd_lobby l (\<lambda>L. L\<lparr>legit_check_passed := legit_check_passed L + 1\<rparr>) w else w)
             in if int (unat (legit_check_done (lob w l))) = num_clients (lob w l) then
                  map_option (Pair 0) (lobby_legit_check_finish_locked l w)
                else Some (0, w))"

end
