(* ===== verification/Cmd_Frame.thy ===== *)
theory Cmd_Frame
  imports Command_Table Subcmd_Frame
begin

section \<open>What commands may change\<close>

text \<open>
  A property of a command relates the ship it starts from to the one it ends in.  The locale \<open>player_frame\<close>
  lists the steps the commands for everybody are made of: log entries, changes of the player's own
  record that give no privileges, changes of a lobby the player leads or is alone in, and
  disconnecting somebody.  \<open>admin_frame\<close> adds the steps of the administrators.  A relation that allows the
  steps holds for the commands.
\<close>

definition mild :: "(ship_client \<Rightarrow> ship_client) \<Rightarrow> bool" where
  "mild f \<longleftrightarrow> (\<forall>x. cur_lobby (f x) = cur_lobby x \<and> client_id (f x) = client_id x \<and> privilege (f x) = privilege x \<and>
     (has_flag (flags (f x)) CLIENT_FLAG_LOGGED_IN \<longrightarrow> has_flag (flags x) CLIENT_FLAG_LOGGED_IN))"

definition calm :: "(lobby \<Rightarrow> lobby) \<Rightarrow> bool" where
  "calm g \<longleftrightarrow> (\<forall>L. slots (g L) = slots L \<and> max_clients (g L) = max_clients L \<and> num_clients (g L) = num_clients L \<and>
     l_type (g L) = l_type L \<and> l_version (g L) = l_version L)"

text \<open>The lobby of a player who leads it or is alone in it.\<close>

definition leads :: "cref \<Rightarrow> ship \<Rightarrow> lref \<Rightarrow> bool" where
  "leads c S l \<longleftrightarrow> cur_lobby (me S c) = Some l \<and>
     (unat (leader_id (lob (block S) l)) = client_id (me S c) \<or> num_clients (lob (block S) l) = 1)"

text \<open>The updates of the commands are of these kinds.\<close>

lemma has_flag_or: "has_flag (x OR f) g \<longleftrightarrow> has_flag x g \<or> has_flag f g"
  by (simp add: has_flag_def word_ao_dist or_eq_0_iff)

lemma has_flag_and: "has_flag (x AND f) g \<Longrightarrow> has_flag x g"
  by (auto simp: has_flag_def) (metis word_bw_lcs(1) word_log_esimps(7) word_bw_comms(1) and_zero_eq)

lemma mild_set_flag: "f AND CLIENT_FLAG_LOGGED_IN = 0 \<Longrightarrow> mild (set_flag f)"
  by (simp add: mild_def set_flag_def has_flag_or) (simp add: has_flag_def)

lemma mild_clear_flag [simp]: "mild (clear_flag f)"
  by (auto simp: mild_def clear_flag_def dest: has_flag_and)

lemma mild_flags [simp]:
  "mild (set_flag CLIENT_FLAG_DISCONNECTED)" "mild (set_flag CLIENT_FLAG_INVULNERABLE)"
  "mild (set_flag CLIENT_FLAG_INFINITE_TP)" "mild (set_flag CLIENT_FLAG_SHOW_DCPC_ON_GC)"
  "mild (set_flag CLIENT_FLAG_STFU)" "mild (set_flag CLIENT_FLAG_OVERRIDE_GAME)"
  "mild (set_flag CLIENT_FLAG_AUTO_BACKUP)" "mild (set_flag CLIENT_FLAG_SERVER_DROPS)"
  "mild (set_flag CLIENT_FLAG_TRACK_INVENTORY)" "mild (set_flag CLIENT_FLAG_TRACK_KILLS)"
  by (rule mild_set_flag; code_simp)+

lemma mild_fields [simp]:
  "mild (\<lambda>x. x\<lparr>arrow := a\<rparr>)" "mild (\<lambda>x. x\<lparr>next_item := b x\<rparr>)" "mild (\<lambda>x. x\<lparr>logging := d\<rparr>)"
  "mild (\<lambda>x. x\<lparr>ignore_list := h x\<rparr>)" "mild (\<lambda>x. x\<lparr>cc_char := i\<rparr>)" "mild (\<lambda>x. x\<lparr>q_lang := j\<rparr>)"
  "mild (\<lambda>x. x\<lparr>next_maps := k\<rparr>)"
  by (simp_all add: mild_def)

lemma calm_fields [simp]:
  "calm (set_lflag f)" "calm (clear_lflag f)" "calm (\<lambda>L. L\<lparr>min_level := a\<rparr>)" "calm (\<lambda>L. L\<lparr>max_level := a\<rparr>)"
  "calm (\<lambda>L. L\<lparr>passwd := b L\<rparr>)" "calm (\<lambda>L. L\<lparr>l_name := b L\<rparr>)" "calm (\<lambda>L. L\<lparr>l_item_id := d L\<rparr>)"
  "calm (\<lambda>L. L\<lparr>l_event := ev\<rparr>)"
  "calm (\<lambda>L. (set_lflag f L)\<lparr>legit_check_passed := h, legit_check_done := i\<rparr>)"
  by (simp_all add: calm_def set_lflag_def clear_lflag_def)

lemma snd_lift: "snd (lift f S) = S\<lparr>block := snd (f (block S))\<rparr>"
  by (simp add: lift_def split_def Let_def)

text \<open>What a guild card is given to, it is sent to, and nothing else happens.\<close>

lemma dc_gcsend_emits: "snd (handle_dc_gcsend e d p w) = w \<or> (\<exists>ev. snd (handle_dc_gcsend e d p w) = emit ev w)"
  by (auto simp: handle_dc_gcsend_def Let_def send_pkt_def)

text \<open>The packet of a computer player, which goes to the others.\<close>

definition npc_packet :: "packet \<Rightarrow> bool" where
  "npc_packet p \<longleftrightarrow> sub_type p = 0x69"

text \<open>The names that stand for several commands.\<close>

lemmas shared_handlers = handle_gban_d_def handle_gban_w_def handle_gban_m_def handle_gban_p_def handle_shutdown_def
  handle_restart_def handle_ban_d_def handle_ban_w_def handle_ban_m_def handle_ban_p_def

subsection \<open>Commands for everybody\<close>

locale player_frame =
  fixes R :: "ship \<Rightarrow> ship \<Rightarrow> bool" and c :: cref
  assumes start: "R S S"
    and log: "R S S' \<Longrightarrow> R S (S'\<lparr>block := emit ev (block S')\<rparr>)"
    and own: "R S S' \<Longrightarrow> mild f \<Longrightarrow> R S (S'\<lparr>block := upd_client c f (block S')\<rparr>)"
    and drop: "R S S' \<Longrightarrow> R S (S'\<lparr>block := upd_client d (set_flag CLIENT_FLAG_DISCONNECTED) (block S')\<rparr>)"
    and led: "R S S' \<Longrightarrow> leads c S l \<Longrightarrow> calm g \<Longrightarrow> R S (S'\<lparr>block := upd_lobby l g (block S')\<rparr>)"
    and npc: "R S S' \<Longrightarrow> leads c S l \<Longrightarrow> npc_packet p \<Longrightarrow> cur_lobby (me S' c) = Some l \<Longrightarrow>
       subcmd_handle_bcast se c p (block S') = Some (r, w) \<Longrightarrow> R S (S'\<lparr>block := w\<rparr>)"
begin

definition goes :: "ship \<Rightarrow> outcome \<Rightarrow> bool" where
  "goes S out \<longleftrightarrow> (\<forall>r S'. out = Some (r, S') \<longrightarrow> R S S')"

lemma R_steps:
  assumes "R S S'"
  shows "R S (tell ev S')" "mild f \<Longrightarrow> R S (on_client c f S')" "leads c S l \<Longrightarrow> calm g \<Longrightarrow> R S (on_lobby l g S')"
    "R S (snd (lift (ask e q) S'))" "R S (set_option d opt v S')"
  using assms log own led
  by (simp_all add: tell_def on_client_def on_lobby_def snd_lift ask_def set_option_def)

lemma R_each:
  assumes "R S S'" "\<And>d S'. R S S' \<Longrightarrow> R S (S'\<lparr>block := f d (block S')\<rparr>)"
  shows "R S (S'\<lparr>block := each_client f xs (block S')\<rparr>)"
  using assms(1)
proof (induction xs arbitrary: S')
  case (Cons x xs)
  have "R S (S'\<lparr>block := (case x of None \<Rightarrow> block S' | Some d \<Rightarrow> f d (block S'))\<rparr>)"
    using assms(2) Cons.prems by (cases x) simp_all
  from Cons.IH [OF this] show ?case by simp
qed simp

lemma R_for:
  assumes "R S S'" "\<And>d S'. R S S' \<Longrightarrow> R S (S'\<lparr>block := f d (block S')\<rparr>)"
  shows "R S (S'\<lparr>block := for_clients l f (block S')\<rparr>)"
  unfolding for_clients_def by (rule R_each [OF assms])

lemma R_led_for:
  assumes "R S S'" "leads c S l" "calm g" "\<And>d S'. R S S' \<Longrightarrow> R S (S'\<lparr>block := f d (block S')\<rparr>)"
  shows "R S (S'\<lparr>block := for_clients l f (upd_lobby l g (block S'))\<rparr>)"
  using R_for [OF led [OF assms(1-3)] assms(4), of l] by simp

lemma R_ask_for_data: "R S S' \<Longrightarrow> R S (S'\<lparr>block := ask_for_data e d (block S')\<rparr>)"
  using drop [OF log] log by (simp add: ask_for_data_def ask_def Let_def)

lemma R_send_all: "R S S' \<Longrightarrow> R S (snd (lift (lobby_send_all_dc l p) S'))"
  by (simp add: snd_lift lobby_send_all_dc_def R_for log)

lemma R_gcsend: "R S S' \<Longrightarrow> R S (snd (lift (handle_dc_gcsend se d p) S'))"
  using dc_gcsend_emits [of se d p "block S'"] log by (auto simp: snd_lift)

lemma goes_None: "goes S None"
  by (simp add: goes_def)

lemma goes_Some: "R S (snd x) \<Longrightarrow> goes S (Some x)"
  by (auto simp: goes_def)

lemma goes_answers:
  assumes "R S S'"
  shows "goes S (say e d m S')" "goes S (say_with e d m xs S')" "goes S (request e q S')"
  using assms log by (auto simp: say_def say_with_def request_def ask_def send_txt_def lift_def split_def intro!: goes_Some)

lemma goes_in_lobby:
  "(\<And>l. cur_lobby (me S c) = Some l \<Longrightarrow> goes S (f l (lob (block S) l))) \<Longrightarrow> goes S (in_lobby c S f)"
  by (simp add: in_lobby_def goes_None split: option.split)

lemma goes_in_lobby':
  "R S S' \<Longrightarrow> (\<And>l L. goes S (f l L)) \<Longrightarrow> goes S (in_lobby c S' f)"
  by (simp add: in_lobby_def goes_None split: option.split)

lemmas goes_rules = goes_None goes_answers goes_Some goes_in_lobby R_steps R_for R_ask_for_data R_send_all R_gcsend
  start log own drop

lemma goes_if: "(b \<Longrightarrow> goes S x) \<Longrightarrow> (\<not> b \<Longrightarrow> goes S y) \<Longrightarrow> goes S (if b then x else y)"
  by simp

lemma goes_leader:
  "(unat (leader_id (lob (block S) l)) = client_id (me S c) \<Longrightarrow> goes S x) \<Longrightarrow> goes S y \<Longrightarrow>
     goes S (if unat (leader_id (lob (block S) l)) \<noteq> client_id (me S c) then y else x)"
  by simp

lemma leading: "cur_lobby (me S c) = Some l \<Longrightarrow> unat (leader_id (lob (block S) l)) = client_id (me S c) \<Longrightarrow> leads c S l"
  by (simp add: leads_def)

lemma goes_levels: "goes S (handle_min_level e c p S)" "goes S (handle_max_level e c p S)"
  by (auto simp: handle_min_level_def handle_max_level_def Let_def
      intro!: goes_rules leading split: option.split)

lemma goes_characters:
  "goes S (handle_save e c p S)" "goes S (handle_restore e c p S)" "goes S (handle_restorebk e c p S)"
  by (auto simp: handle_save_def handle_restore_def handle_restorebk_def Let_def split_def
      intro!: goes_rules split: option.split)

lemma goes_lobby_settings:
  "goes S (handle_passwd e c p S)" "goes S (handle_lname e c p S)" "goes S (handle_dconly e c p S)"
  "goes S (handle_v1only e c p S)" "goes S (handle_allowgc e c p S)" "goes S (handle_legit e c p S)"
  "goes S (handle_normal e c p S)"
  by (auto simp: handle_passwd_def handle_lname_def handle_dconly_def handle_v1only_def handle_allowgc_def
      handle_legit_def handle_normal_def on_lobby_def Let_def intro!: goes_rules R_led_for led leading)

lemma goes_own:
  "goes S (handle_showdcpc e c p S)" "goes S (handle_ignore e c p S)" "goes S (handle_unignore e c p S)"
  "goes S (handle_quit e c p S)" "goes S (handle_cc e c p S)" "goes S (handle_qlang e c p S)"
  "goes S (handle_logout e c p S)" "goes S (handle_enablebk e c p S)" "goes S (handle_disablebk e c p S)"
  "goes S (handle_sdrops e c p S)" "goes S (handle_gcprotect e c p S)" "goes S (handle_trackkill e c p S)"
  by (auto simp: handle_showdcpc_def handle_ignore_def handle_unignore_def handle_quit_def handle_cc_def
      handle_qlang_def handle_logout_def handle_enablebk_def handle_disablebk_def handle_sdrops_def
      handle_gcprotect_def handle_trackkill_def Let_def intro!: goes_rules split: option.split prod.split)

lemma goes_arrow: "goes S (handle_arrow e c p S)"
  by (auto simp: handle_arrow_def Let_def intro!: goes_rules goes_in_lobby')

lemma goes_requests:
  "goes S (handle_bstat e c p S)" "goes S (handle_login e c p S)" "goes S (handle_bug e c p S)"
  "goes S (handle_motd e c p S)" "goes S (handle_friendadd e c p S)" "goes S (handle_frienddel e c p S)"
  "goes S (handle_ll e c p S)" "goes S (handle_friends e c p S)" "goes S (handle_ver e c p S)"
  "goes S (handle_search e c p S)" "goes S (handle_showmaps e c p S)"
  by (auto simp: handle_bstat_def handle_login_def handle_bug_def handle_motd_def handle_friendadd_def
      handle_frienddel_def handle_ll_def handle_friends_def handle_ver_def handle_search_def handle_showmaps_def
      Let_def intro!: goes_rules split: option.split prod.split)

lemma goes_to_all:
  assumes "R S S'" "leads c S l" "npc_packet p" "cur_lobby (me S' c) = Some l"
  shows "goes S (to_all e c p S')"
  using npc [OF log [OF assms(1), of "Send_pkt c p"] assms(2,3)] assms(4)
  by (auto simp: to_all_def goes_def)

lemma goes_npc: "goes S (handle_npc e c p S)"
  unfolding handle_npc_def Let_def split_def
  by (intro goes_in_lobby goes_if goes_answers goes_to_all R_steps start)
    (auto simp: leads_def npc_packet_def sub_type_def on_lobby_def)

text \<open>Whoever has no privileges is refused.\<close>

lemma goes_refused:
  assumes "\<not> LOCAL_GM (me S c)" "\<not> GLOBAL_GM (me S c)" "\<not> LOCAL_ROOT (me S c)"
  shows "goes S (handle_warp e c p S)" "goes S (handle_warpall e c p S)" "goes S (handle_kill e c p S)"
    "goes S (handle_refresh e c p S)" "goes S (handle_bcast e c p S)" "goes S (handle_item e c p S)"
    "goes S (handle_item4 e c p S)" "goes S (handle_event e c p S)" "goes S (handle_clinfo e c p S)"
    "goes S (handle_gban len e c p S)" "goes S (handle_list e c p S)" "goes S (handle_down b e c p S)"
    "goes S (handle_log e c p S)" "goes S (handle_endlog e c p S)" "goes S (handle_forgegc e c p S)"
    "goes S (handle_invuln e c p S)" "goes S (handle_inftp e c p S)" "goes S (handle_smite e c p S)"
    "goes S (handle_makeitem e c p S)" "goes S (handle_teleport e c p S)" "goes S (handle_dumpinv e c p S)"
    "goes S (handle_ws e c p S)" "goes S (handle_stfu e c p S)" "goes S (handle_unstfu e c p S)"
    "goes S (handle_gameevent e c p S)" "goes S (handle_ban t u e c p S)" "goes S (handle_unban e c p S)"
    "goes S (handle_gbc e c p S)" "goes S (handle_override e c p S)" "goes S (handle_gm e c p S)"
    "goes S (handle_maps e c p S)" "goes S (handle_exp e c p S)" "goes S (handle_level e c p S)"
    "goes S (handle_trackinv e c p S)"
  unfolding handle_warp_def handle_warpall_def handle_kill_def handle_refresh_def handle_bcast_def handle_item_def
    handle_item4_def handle_event_def handle_clinfo_def handle_gban_def handle_list_def handle_down_def handle_log_def
    handle_endlog_def handle_forgegc_def handle_invuln_def handle_inftp_def handle_smite_def handle_makeitem_def
    handle_teleport_def handle_dumpinv_def handle_ws_def handle_stfu_def handle_unstfu_def handle_gameevent_def
    handle_ban_def handle_unban_def handle_gbc_def handle_override_def handle_gm_def handle_maps_def handle_exp_def
    handle_level_def handle_trackinv_def if_P [OF assms(1)] if_P [OF assms(2)] if_P [OF assms(3)]
  by (rule goes_answers start)+

lemmas goes_players = goes_levels goes_characters goes_lobby_settings goes_own goes_arrow goes_requests goes_npc

lemma goes_call:
  assumes "\<And>t hnd p. (t, hnd) \<in> set cmds \<Longrightarrow> goes S (hnd e c p S)"
  shows "goes S (command_call e c txt S)"
proof -
  have "goes S (hnd e c p S)" if "find_handler cmd = Some hnd" for cmd hnd p
    using that assms by (auto simp: find_handler_def find_Some_iff) (metis nth_mem)
  then show ?thesis
    by (auto simp: command_call_def intro!: goes_None goes_answers start split: option.split)
qed

lemma goes_command:
  assumes "\<not> LOCAL_GM (me S c)" "\<not> GLOBAL_GM (me S c)" "\<not> LOCAL_ROOT (me S c)"
  shows "goes S (command_call e c txt S)"
proof (rule goes_call)
  fix t hnd p assume "(t, hnd) \<in> set cmds"
  moreover have "list_all (\<lambda>(t, hnd). goes S (hnd e c p S)) cmds"
    unfolding cmds_def shared_handlers by (simp add: goes_players goes_refused [OF assms])
  ultimately show "goes S (hnd e c p S)" by (auto simp: list_all_iff)
qed

end

subsection \<open>Commands of the administrators\<close>

locale admin_frame = player_frame +
  assumes anyone: "R S S' \<Longrightarrow> mild f \<Longrightarrow> R S (S'\<lparr>block := upd_client i f (block S')\<rparr>)"
    and fields: "R S S' \<Longrightarrow> block S'' = block S' \<Longrightarrow> R S S''"
    and inside: "R S S' \<Longrightarrow> keeps (block S') w \<Longrightarrow> R S (S'\<lparr>block := w\<rparr>)"
begin

lemma R_fold:
  assumes "\<And>x S'. R S S' \<Longrightarrow> R S (f x S')"
  shows "R S S' \<Longrightarrow> R S (fold f xs S')"
  by (induction xs arbitrary: S') (simp_all add: assms)

lemma R_kick: "R S S' \<Longrightarrow> R S (kick i S')"
  by (simp add: kick_def on_client_def drop)

lemma R_client: "R S S' \<Longrightarrow> mild f \<Longrightarrow> R S (on_client i f S')"
  by (simp add: on_client_def anyone)

lemma R_fields:
  assumes "R S S'"
  shows "R S (S'\<lparr>lobby_event := a\<rparr>)" "R S (S'\<lparr>game_event := a\<rparr>)" "R S (S'\<lparr>guildcard_bans := b\<rparr>)"
    "R S (S'\<lparr>limits := d\<rparr>)" "R S (S'\<lparr>shutdown_time := t\<rparr>)" "R S (S'\<lparr>restart_on_shutdown := u\<rparr>)"
  by (rule fields [OF assms], simp)+

lemma R_inside: "R S S' \<Longrightarrow> keeps (block S') (snd (f (block S'))) \<Longrightarrow> R S (snd (lift f S'))"
  by (simp add: snd_lift inside)

lemma keeps_set_event: "keeps w w' \<Longrightarrow> keeps w (set_event ev l w')"
  by (auto simp: set_event_def intro!: keep_rules)

lemma keeps_fold: "(\<And>x w'. keeps w w' \<Longrightarrow> keeps w (f x w')) \<Longrightarrow> keeps w w' \<Longrightarrow> keeps w (fold f xs w')"
  by (induction xs arbitrary: w') simp_all

lemma R_update_event: "R S S' \<Longrightarrow> R S (update_lobby_event S')"
  unfolding update_lobby_event_def
  by (rule R_fold) (auto intro!: inside keeps_fold keeps_set_event keeps_refl)

lemmas admin_rules = R_kick R_client R_fields R_update_event R_fold

lemma goes_moderation:
  "goes S (handle_kill e c p S)" "goes S (handle_gban len e c p S)" "goes S (handle_stfu e c p S)"
  "goes S (handle_unstfu e c p S)" "goes S (handle_log e c p S)" "goes S (handle_endlog e c p S)"
  by (auto simp: handle_kill_def kill_guildcard_def handle_gban_def global_ban_def handle_stfu_def handle_unstfu_def
      handle_log_def handle_endlog_def pkt_log_start_def pkt_log_stop_def Let_def split_def
      intro!: goes_rules admin_rules split: option.split)

lemma R_bans:
  assumes "R S S'"
  shows "R S (snd (write_bans_list e S'))" "R S (snd (ban_gc_int e u f t gc r S'))"
  using assms by (auto simp: write_bans_list_def ban_gc_int_def intro!: goes_rules admin_rules)

lemma R_ban_guildcard: "R S S' \<Longrightarrow> R S (snd (ban_guildcard e u t gc r S'))"
  by (simp add: ban_guildcard_def Let_def split_def R_bans)

lemma goes_bans: "goes S (handle_ban t u e c p S)" "goes S (handle_unban e c p S)"
  by (auto simp: handle_ban_def handle_unban_def ban_lift_guildcard_ban_def Let_def split_def
      intro!: goes_rules admin_rules R_ban_guildcard R_bans split: option.split)

lemma goes_refresh: "goes S (handle_refresh e c p S)"
  by (auto simp: handle_refresh_def refresh_quests_def refresh_gms_def refresh_limits_def Let_def
      intro!: goes_rules admin_rules split: option.split)

lemma goes_messages: "goes S (handle_bcast e c p S)" "goes S (handle_down b e c p S)"
  by (auto simp: handle_bcast_def broadcast_message_def handle_down_def schedule_shutdown_def ship_server_shutdown_def
      Let_def intro!: goes_rules admin_rules split: option.split)

lemma goes_admin_requests:
  "goes S (handle_warp e c p S)" "goes S (handle_warpall e c p S)" "goes S (handle_clinfo e c p S)"
  "goes S (handle_list e c p S)" "goes S (handle_forgegc e c p S)" "goes S (handle_teleport e c p S)"
  "goes S (handle_dumpinv e c p S)" "goes S (handle_gbc e c p S)" "goes S (handle_gm e c p S)"
  by (auto simp: handle_warp_def handle_warpall_def handle_clinfo_def handle_list_def handle_forgegc_def
      handle_teleport_def handle_dumpinv_def handle_gbc_def handle_gm_def Let_def
      intro!: goes_rules split: option.split prod.split)

lemma goes_admin_own:
  "goes S (handle_item e c p S)" "goes S (handle_item4 e c p S)" "goes S (handle_event e c p S)"
  "goes S (handle_invuln e c p S)" "goes S (handle_inftp e c p S)" "goes S (handle_gameevent e c p S)"
  "goes S (handle_override e c p S)" "goes S (handle_maps e c p S)" "goes S (handle_trackinv e c p S)"
  by (auto simp: handle_item_def handle_item4_def handle_event_def handle_invuln_def handle_inftp_def
      handle_gameevent_def handle_override_def handle_maps_def handle_trackinv_def Let_def
      intro!: goes_rules admin_rules split: option.split prod.split sum.split)

lemma keeps_level: "keeps w w' \<Longrightarrow> keeps w (snd (client_give_level e c lv w'))"
  by (auto simp: client_give_level_def Let_def split_def intro!: keep_rules)

lemma goes_option: "goes S x \<Longrightarrow> (\<And>a. goes S (f a)) \<Longrightarrow> goes S (case y of None \<Rightarrow> x | Some a \<Rightarrow> f a)"
  by (simp split: option.split)

lemma goes_smite: "goes S (handle_smite e c p S)"
  unfolding handle_smite_def Let_def split_def
  by (intro goes_if goes_in_lobby goes_answers goes_option goes_None start)

lemma goes_levelling: "goes S (handle_exp e c p S)" "goes S (handle_level e c p S)"
  unfolding handle_exp_def handle_level_def Let_def split_def
  by (intro goes_if goes_in_lobby goes_answers goes_option goes_None goes_Some R_inside keeps_exp keeps_level
      keeps_refl start)+

lemma goes_ws: "goes S (handle_ws e c p S)"
proof -
  have "goes S (to_all e c q S)" for q
  proof -
    have "R S (S\<lparr>block := w\<rparr>)" if "subcmd_handle_bcast (sub e) c q (emit (Send_pkt c q) (block S)) = Some (r, w)" for r w
      using if_definedD [OF keeps_bcast that] by (intro inside start) (rule keeps_trans [OF keeps_emit [OF keeps_refl]])
    then show ?thesis by (auto simp: to_all_def goes_def)
  qed
  then show ?thesis
    unfolding handle_ws_def Let_def split_def by (intro goes_if goes_answers start) simp
qed

lemma goes_makeitem: "goes S (handle_makeitem e c p S)"
proof -
  have "keeps w (snd (lobby_add_item_locked mem l d w))" for mem l d w
    by (auto simp: lobby_add_item_locked_def Let_def intro!: keep_rules)
  then have add: "R S (S\<lparr>block := snd (lobby_add_item_locked mem l d (block S))\<rparr>)" for mem l d
    by (intro inside start)
  moreover have "R S (on_lobby l (\<lambda>L. L\<lparr>l_item_id := l_item_id L + 1\<rparr>) S)" for l
    using inside [OF start] by (auto simp: on_lobby_def intro!: inside start keep_rules)
  ultimately show ?thesis
    by (auto simp: handle_makeitem_def Let_def split_def intro!: goes_None goes_answers goes_Some goes_in_lobby
        R_send_all R_client start)
qed

lemmas goes_admins = goes_moderation goes_bans goes_refresh goes_messages goes_admin_requests goes_admin_own
  goes_smite goes_levelling goes_ws goes_makeitem

lemma goes_any_command: "goes S (command_call e c txt S)"
proof (rule goes_call)
  fix t hnd p assume "(t, hnd) \<in> set cmds"
  moreover have "list_all (\<lambda>(t, hnd). goes S (hnd e c p S)) cmds"
    unfolding cmds_def shared_handlers by (simp add: goes_players goes_admins)
  ultimately show "goes S (hnd e c p S)" by (auto simp: list_all_iff)
qed

end

end
