(* ===== verification/Cmd_Props.thy ===== *)
theory Cmd_Props
  imports Cmd_Frame Bb_Floor
begin

section \<open>What commands can and cannot do\<close>

text \<open>
  Players without privileges cannot touch the ship or anybody else with a command, and no command
  moves anybody.
\<close>

subsection \<open>Players without privileges\<close>

text \<open>
  What such a player may change: his own record without gaining privileges, the lobby he leads or is
  alone in, and somebody who cannot be reached is marked as disconnected.
\<close>

definition harmless :: "cref \<Rightarrow> ship \<Rightarrow> ship \<Rightarrow> bool" where
  "harmless c S S' \<longleftrightarrow> (\<exists>w. S' = S\<lparr>block := w\<rparr>) \<and>
     (\<forall>d. privilege (me S' d) = privilege (me S d) \<and>
        (has_flag (flags (me S' d)) CLIENT_FLAG_LOGGED_IN \<longrightarrow> has_flag (flags (me S d)) CLIENT_FLAG_LOGGED_IN)) \<and>
     (\<forall>d. d \<noteq> c \<longrightarrow> me S' d = me S d \<or> me S' d = set_flag CLIENT_FLAG_DISCONNECTED (me S d)) \<and>
     (\<forall>l. lobbies (block S') l = lobbies (block S) l \<or> leads c S l)"

text \<open>The packet for a computer player is sent to the others.\<close>

definition sends_only :: "lref \<Rightarrow> world \<Rightarrow> world \<Rightarrow> bool" where
  "sends_only l w w' \<longleftrightarrow> (\<forall>d. cl w' d = cl w d) \<and> (\<forall>l'. l' \<noteq> l \<longrightarrow> lobbies w' l' = lobbies w l')"

lemma sends_only_refl [simp]: "sends_only l w w"
  by (simp add: sends_only_def)

lemma sends_only_emit [simp]: "sends_only l w (emit ev w') = sends_only l w w'"
  by (simp add: sends_only_def)

lemma sends_only_for:
  assumes "\<And>d w'. sends_only l w w' \<Longrightarrow> sends_only l w (f d w')"
  shows "sends_only l w w' \<Longrightarrow> sends_only l w (for_clients k f w')"
proof -
  have "sends_only l w w' \<Longrightarrow> sends_only l w (each_client f xs w')" for xs
    by (induction xs arbitrary: w') (auto intro: assms split: option.split)
  then show "sends_only l w w' \<Longrightarrow> sends_only l w (for_clients k f w')" by (simp add: for_clients_def)
qed

lemma sends_only_translated: "sends_only l w w' \<Longrightarrow> sends_only l w (snd (send_translated e t d p w'))"
  by (auto simp: send_translated_def send_pkt_def split: option.split)

lemma npc_sends_only:
  assumes p: "npc_packet p" and l: "cur_lobby (cl w c) = Some l"
    and sent: "subcmd_handle_bcast e c p w = Some (r, w')"
  shows "sends_only l w w'"
proof -
  have "sends_only l w (snd (subcmd_send_lobby_dc e l c p b w))"
    "sends_only l w (snd (subcmd_send_lobby_dcnte e l c p b w))" for b
    by (auto simp: subcmd_send_lobby_dc_def subcmd_send_lobby_dcnte_def subcmd_translate_dc_to_nte_def
        subcmd_translate_nte_to_dc_def send_pkt_def intro!: sends_only_for sends_only_translated)
  then show ?thesis
    using p l sent by (auto simp: subcmd_handle_bcast_def subcmd_dcnte_handle_bcast_def npc_packet_def subcmd_types Let_def split: if_splits)
      (metis snd_conv)+
qed

lemma set_flag_twice [simp]: "set_flag f (set_flag f x) = set_flag f x"
  by (simp add: set_flag_def or.assoc)

lemma harmless_refl: "harmless c S S"
  by (auto simp: harmless_def intro: exI [of _ "block S"])

interpretation player: player_frame "harmless c" c for c
proof (unfold_locales, goal_cases)
  case (3 S S' f)
  then show ?case by (auto simp: harmless_def mild_def)
next
  case (4 S S' d)
  then show ?case using mild_flags(1) by (auto simp: harmless_def mild_def)
next
  case (6 S S' l p se r w)
  then show ?case using npc_sends_only [of p "block S'" c l se r w] by (auto simp: harmless_def sends_only_def) metis
qed (auto simp: harmless_refl, auto simp: harmless_def)

text \<open>C20: Without privileges nobody administers anything.  Whatever line of chat a player sends who is not
  logged in as an administrator, when the command has a defined outcome: the bans, the events, the limits,
  the other blocks and the time of a shutdown stay as they are; nobody's privileges change and nobody
  gets logged in; the record of every other player stays, except that one who cannot be reached is
  marked as disconnected; and of the lobbies at most one changes, the lobby the player leads or is
  alone in.\<close>

theorem players_cannot_administer:
  assumes "\<not> LOCAL_GM (me S c)" "\<not> GLOBAL_GM (me S c)" "\<not> LOCAL_ROOT (me S c)"
    and "command_call e c txt S = Some (r, S')"
  shows "S' = S\<lparr>block := block S'\<rparr> \<and>
    (\<forall>d. privilege (me S' d) = privilege (me S d) \<and>
       (has_flag (flags (me S' d)) CLIENT_FLAG_LOGGED_IN \<longrightarrow> has_flag (flags (me S d)) CLIENT_FLAG_LOGGED_IN)) \<and>
    (\<forall>d. d \<noteq> c \<longrightarrow> me S' d = me S d \<or> me S' d = set_flag CLIENT_FLAG_DISCONNECTED (me S d)) \<and>
    (\<forall>l. lobbies (block S') l \<noteq> lobbies (block S) l \<longrightarrow> cur_lobby (me S c) = Some l \<and>
       (unat (leader_id (lob (block S) l)) = client_id (me S c) \<or> num_clients (lob (block S) l) = 1))"
proof -
  have "harmless c S S'"
    using player.goes_command [OF assms(1-3), of e "txt"] assms(4) by (simp add: player.goes_def)
  then show ?thesis by (auto simp: harmless_def leads_def)
qed

text \<open>A ship with one block: an administrator in a lobby, and a player without privileges who leads a game.\<close>

definition cmd_world :: world where
  "cmd_world = bb_world\<lparr>lobbies := (\<lambda>l. if l = 5 then Some (bb_game\<lparr>l_version := CLIENT_VERSION_GC, max_level := 200\<rparr>) else None),
     clients := (\<lambda>d. (new_client CLIENT_VERSION_GC (of_nat d))\<lparr>cur_lobby := (if d = 7 then Some 5 else None),
       privilege := (if d = 9 then 0x07 else 0), flags := (if d = 9 then CLIENT_FLAG_LOGGED_IN else 0)\<rparr>)\<rparr>"

definition cmd_ship :: ship where
  "cmd_ship = \<lparr>block = cmd_world,
     blocks = [Some \<lparr>run = True, b_clients = [7, 9], b_num_clients = 2, b_lobbies = []\<rparr>], this_block = 0,
     lobby_event = 0, game_event = 0, guildcard_bans = [], limits = None, shutdown_time = 0,
     restart_on_shutdown = False\<rparr>"

definition cmd_env0 :: cmd_env where
  "cmd_env0 = sub_env.extend bb_env
     (cmd_env.fields 0 False False False None False (\<lambda>_. True) (\<lambda>_ s n. take n s) (\<lambda>_ m. ascii m) (\<lambda>_. [])
        [] False [0] (replicate 113 0) end_time)"

lemma players_cannot_administer_witness:
  "\<exists>r S'. command_call cmd_env0 7 (ascii ''xE/minlvl 30'' @ [0]) cmd_ship = Some (r, S') \<and>
     min_level (lob (block S') 5) = 30 \<and> guildcard_bans S' = []"
proof -
  have "map_option (\<lambda>(r, S'). min_level (lob (block S') 5))
      (command_call cmd_env0 7 (ascii ''xE/minlvl 30'' @ [0]) cmd_ship) = Some 30"
    by code_simp
  then obtain r S' where c: "command_call cmd_env0 7 (ascii ''xE/minlvl 30'' @ [0]) cmd_ship = Some (r, S')"
    "min_level (lob (block S') 5) = 30" by auto
  have "\<not> LOCAL_GM (me cmd_ship 7)" "\<not> GLOBAL_GM (me cmd_ship 7)" "\<not> LOCAL_ROOT (me cmd_ship 7)"
    by code_simp+
  from players_cannot_administer [OF this c(1)] have "S' = cmd_ship\<lparr>block := block S'\<rparr>" by blast
  then have "guildcard_bans S' = guildcard_bans cmd_ship" by (metis ship.ext_inject ship.surjective ship.update_convs(1))
  then show ?thesis using c by (auto simp: cmd_ship_def)
qed

subsection \<open>Seats\<close>

lemma seated_client: "mild f \<Longrightarrow> same_seats w w' \<Longrightarrow> same_seats w (upd_client d f w')"
  by (rule same_seats_client) (simp_all add: mild_def)

lemma seated_lobby: "calm g \<Longrightarrow> same_seats w w' \<Longrightarrow> same_seats w (upd_lobby l g w')"
  by (rule same_seats_lobby) (simp_all add: calm_def)

lemma seated_keeps: "same_seats w w' \<Longrightarrow> keeps w' w'' \<Longrightarrow> same_seats w w''"
  by (auto simp: keeps_def intro: same_seats_trans)

interpretation seated: admin_frame "\<lambda>S S'. same_seats (block S) (block S')" c for c
proof (unfold_locales, goal_cases)
  case (4 S S' d)
  then show ?case using seated_client [OF mild_flags(1)] by simp
next
  case (6 S S' l p se r w)
  then show ?case using seated_keeps [OF _ if_definedD [OF keeps_bcast]] by simp
next
  case (9 S S' w)
  then show ?case using seated_keeps by simp
qed (simp_all add: same_seats_refl same_seats_emit seated_client seated_lobby)

text \<open>C21: No command moves anybody.  Whatever anyone types, administrators included, when the command has
  a defined outcome: every player stays in the lobby and the slot he is in, every lobby keeps its
  members, and the seats of a block that were consistent are consistent afterwards.\<close>

theorem commands_move_nobody:
  assumes "command_call e c txt S = Some (r, S')"
  shows "(\<forall>d. cur_lobby (me S' d) = cur_lobby (me S d) \<and> client_id (me S' d) = client_id (me S d)) \<and>
    members (block S') = members (block S) \<and> (seats_ok (block S) \<longrightarrow> seats_ok (block S'))"
proof -
  have "same_seats (block S) (block S')"
    using seated.goes_any_command [of S e c "txt"] assms by (simp add: seated.goes_def)
  then show ?thesis using same_seats_ok [of "block S" "block S'"] by (auto simp: same_seats_def)
qed

lemma commands_move_nobody_witness:
  "\<exists>r S'. command_call cmd_env0 9 (ascii ''xE/gameevent 3'' @ [0]) cmd_ship = Some (r, S') \<and> game_event S' = 3 \<and>
     cur_lobby (me S' 7) = Some 5"
proof -
  have "map_option (\<lambda>(r, S'). game_event S') (command_call cmd_env0 9 (ascii ''xE/gameevent 3'' @ [0]) cmd_ship) = Some 3"
    by code_simp
  then obtain r S' where c: "command_call cmd_env0 9 (ascii ''xE/gameevent 3'' @ [0]) cmd_ship = Some (r, S')"
    "game_event S' = 3" by auto
  moreover have "cur_lobby (me cmd_ship 7) = Some 5" by code_simp
  ultimately show ?thesis using commands_move_nobody [OF c(1)] by auto
qed

end
