(* ===== verification/Spec2Isabelle.thy ===== *)
theory Spec2Isabelle
  imports Crypt Prs Item_Names Item_Stores Legit MTwist Checksum Lobby_Packets Card_Props Word_Props Pt_Props Cmd_Props
begin

text \<open>
  Sylverant is a set of servers for Phantasy Star Online.  This library models the part of it that decides
  what happens in the game: the ciphers and the compression every packet and file goes through
  (\<open>libsylverant\<close>), and, of the ship server, the lobbies and games of a block, the packets that players
  of a game send each other, the item stores and the item drops.  Every definition is a translation of the
  C function of the same name (or of a loop or branch of it, with a name of its own); the manifest gives
  the lines.  The properties are the numbered theorems (C1, C2, ...) of the theories.

  How the parts interact.  A client is connected to a block of the ship.  Its packets are decrypted
  (\<open>Crypt\<close>), and the subcommands among them go to the dispatchers of \<open>subcmd.c\<close>
  (\<open>Subcmd_Dispatch\<close>), which find the handler.  Handlers change the state of the client, of its lobby and,
  for Blue Burst, the inventory, the bank and the floor (\<open>Items\<close>, \<open>Subcmd_BB\<close>), and broadcast the packet
  to the other members (\<open>Subcmd_Send\<close>, \<open>Lobby\<close>).  A request for a drop goes to the drop function that was
  stored in the lobby when the game was created (\<open>Drops\<close>); it draws from tables that were decompressed
  (\<open>Prs_Decomp\<close>) and read (\<open>Pmt_Read\<close>, \<open>Pt_Read\<close>) when the ship started, and lets the limits of the
  administrator decide whether the item is sent (\<open>Limits\<close>).  While somebody joins a game the packets of
  the others are to wait in a queue of the lobby and to be played through the same handlers afterwards
  (\<open>lobby_handle_done_burst\<close> in \<open>Lobby\<close>); both take a mutex of the lobby that is held, see below.  A line of
  chat that starts with a slash is a command (\<open>Command_Table\<close>): players set up their games with them, and
  administrators the ship (\<open>Cmd_Admin\<close>).
\<close>

section \<open>Conventions\<close>

text \<open>
  Integers.  \<open>uint8_t\<close>, \<open>uint16_t\<close>, \<open>uint32_t\<close> and \<open>uint64_t\<close> are words of that width and wrap around as in C;
  \<open>int\<close> is the type \<open>int\<close> where the values stay small and a 32-bit word with \<open>sint\<close> where they may not;
  indices and counts are naturals.  Pointers and \<open>size_t\<close> have 64 bits.  Packets and files are lists of
  bytes, in the byte order the code gives them.

  Memory.  A buffer is the list of its bytes; \<open>None\<close> as the result of a function stands for an access
  outside of a buffer or table, or for a call of a null pointer, that is, for a run whose behaviour C does not define; a
  theorem that gives a result other than \<open>None\<close> shows that this does not happen.  This includes the index
  just past the last monster that the tests of the code let through, a destination beyond the slots of a
  lobby, and an inventory of the older versions that runs over.  Sizes that the code casts to \<open>int\<close> are cast
  here (\<open>c_int\<close>).  Values that the
  code reads without having written them, and what lies behind a buffer, are parameters (\<open>past\<close>, \<open>junk\<close>,
  the stack words of the drop functions), so the theorems hold for all of them.  Whether an allocation
  succeeds is a parameter too.  Errors of the source are values: a negative \<open>errno\<close>, \<open>Inl\<close> of a sum, or
  the return code \<open>- 1\<close>.

  Loops.  Loops over an array are folds or structural recursion.  The others are functions with a
  measure: the cipher loops (the bytes left), the key setup (the index left), \<open>match_length\<close> (the bytes up to the end),
  \<open>rank_loop\<close> (the area left), \<open>level_loop\<close> (the levels up to 199).  Three loops have fuel, and the theorems
  show that it is enough: the decoder gets \<open>rounds n = 8 * n + 1\<close> for a source of \<open>n\<close> bytes, since every
  round reads at least one flag bit; the walk along a hash chain gets one step more than the position
  it starts from, since inside the window the positions fall; the compressor gets the length of the source, since
  every round encodes at least one byte.  The search for a free number of a game gets one more step than there are lobbies, since
  a step fails only on a number in use.  The queue of waiting packets (\<open>drain\<close>) may in C be extended
  by its own handlers and is a \<open>partial_function\<close>.

  State.  The clients and lobbies of a block are a store (\<open>world\<close> in \<open>Ship_State\<close>) from references to
  records, so that what two lobbies or two variables point to is shared as in C.  What leaves the program is appended to
  a log.  Each operation is one step, and the mutexes are left out where they only exclude other
  threads.  Where the code locks the mutex of a lobby it holds already, which is not recursive,
  the call never returns, and the model says \<open>None\<close>: packets that are to wait while a player is joining and the
  queue when it is played (\<open>handle_queued\<close>), the damage and technique handlers of players with special flags,
  a drop for Blue Burst, and the command \<open>/smite\<close>.

  Parameters.  \<open>env\<close> and \<open>sub_env\<close> are the surroundings: which sends fail, the configured limits, the maps and
  experience tables that were loaded, \<open>iconv\<close>.  \<open>shl1\<close> is the value of a shift by more than
  the width of \<open>int\<close>.  \<open>handlers\<close> is what the queue calls; \<open>subcmd_handlers\<close> in \<open>Subcmd_Props\<close> are the
  dispatchers.  \<open>cmd_env\<close> adds what the commands need: files, text conversion and translation, and the bytes
  that lie behind a parameter.
\<close>

section \<open>The theories\<close>

text \<open>
  \<^item> \<open>Prelude\<close>: the words, error codes, bytes of a buffer, and lemmas on lists and words.

  \<^item> Encryption (\<open>libsylverant/src/encryption\<close>): \<open>Crypt_Setup\<close> is the state \<open>CRYPT_SETUP\<close> and the locale
    \<open>keystream_cipher\<close>; \<open>Crypt_PC\<close> (\<open>psopc-crypt.c\<close>) and \<open>Crypt_GC\<close> (\<open>psogc-crypt.c\<close>) interpret it;
    \<open>Crypt_BB\<close> (\<open>psobb-crypt.c\<close>) has the locale \<open>block_cipher\<close> and its interpretation; \<open>Crypt\<close>
    (\<open>encryption.c\<close>) has the two entry points and a connection as a sequence of packets.  Shown: the
    session round trip, totality from fresh keys, and that the Blue Burst cipher is the textbook
    Blowfish network.

  \<^item> Compression: \<open>Prs_Decomp\<close> (\<open>prs-decomp.c\<close>) and \<open>Prs_Comp\<close> (\<open>prs-comp.c\<close>) are the code.
    \<open>Prs_Format\<close> is the abstract specification, lists of tokens with their meaning and their layout in bits
    and bytes.  \<open>Prs_Run\<close> and \<open>Prs_Sink\<close> hold three contracts on the callbacks of the decoder (progress,
    two variants in lockstep, a sink that collects the output), and \<open>Prs_Decode\<close> interprets
    them for the four variants: growing buffer, fixed buffer, size only, file.  \<open>Prs_Match\<close> and
    \<open>Prs_Encode\<close> are about the match search and the bit writer, \<open>Prs\<close> joins the two sides.  Shown: termination on
    every input, agreement of the variants, decoding of every layout, and the round trip.

  \<^item> \<open>MTwist\<close> (\<open>mt19937ar.c\<close>) and \<open>Checksum\<close> (\<open>checksum.c\<close>): the generator against its recurrence, the
    CRC against its table form.

  \<^item> Items: \<open>Item_List\<close> and \<open>Item_Names\<close> (the names of \<open>ship_server/src/items.c\<close>), \<open>Items\<close> and
    \<open>Item_Stores\<close> (its inventory and bank operations, with the locale \<open>stackable\<close> interpreted for both kinds
    of item), \<open>Limits\<close> and \<open>Legit\<close> (the legit check of \<open>libsylverant/src/utils/items.c\<close>).

  \<^item> Lobbies (\<open>lobby.c\<close>, and parts of \<open>clients.h\<close>, \<open>lobby.h\<close>, \<open>block.h\<close>): \<open>Ship_State\<close> is the store, \<open>Lobby\<close>
    the operations.  \<open>Lobby_Seats\<close> states the contract of joining and leaving as the locale \<open>seats\<close>
    and interprets it; \<open>Lobby_Change\<close> shows that every operation keeps the invariant, \<open>Lobby_Block\<close> has the step
    relation of the lobbies of a block and its invariant, \<open>Lobby_Props\<close> the functional behaviour
    and a refinement of moving, \<open>Lobby_Packets\<close> the creation of games.

  \<^item> Subcommands (\<open>subcmd.c\<close>, \<open>subcmd-dcnte.c\<close>, \<open>word_select.c\<close>, and the experience of \<open>clients.c\<close>):
    \<open>Subcmd_Send\<close>, \<open>Subcmd\<close>, \<open>Subcmd_BB\<close>, \<open>Guild_Card\<close>, \<open>Word_Tables\<close>, \<open>Word_Select\<close> are the senders and handlers, and
    \<open>Subcmd_Dispatch\<close> the dispatchers.  \<open>Subcmd_Frame\<close> shows that none of them moves a player;
    \<open>Subcmd_Items\<close> has the lemmas for counting items, which \<open>Bb_Bank\<close>, \<open>Bb_Floor\<close> and \<open>Bb_Play\<close> use for the
    conservation of items and money and for experience; \<open>Card_Props\<close>, \<open>Word_Props\<close> (with the locale
    \<open>translation\<close>, interpreted for the six directions) and \<open>Subcmd_Props\<close> are about what is sent.

  \<^item> Drops (\<open>ptdata.c\<close>, \<open>pmtdata.c\<close>, \<open>rtdata.c\<close>): \<open>Drop_Tables\<close> are the tables and lookups, \<open>Drop_Items\<close> the
    generators, \<open>Drops\<close> the six drop functions, \<open>Pmt_Read\<close> and \<open>Pt_Read\<close> the readers of the files.
    \<open>Drop_Pick\<close> shows that choices have the probabilities of the tables, \<open>Drop_Weapon\<close> and \<open>Drop_Units\<close>
    what the generators make, \<open>Drop_Types\<close> that with tables of the right sizes no access leaves
    a table, \<open>Pt_Props\<close> that the readers give such tables whatever the files contain, and \<open>Drop_Props\<close> that
    monsters drop at most once and only legal items, whatever players ask for inside the tables.

  \<^item> Commands (\<open>commands.c\<close>, \<open>admin.c\<close>, \<open>bans.c\<close>, parts of \<open>utils.c\<close> and \<open>block.c\<close>): \<open>Cmd_State\<close> is the ship around a
    block, with the privileges and the functions that read numbers; \<open>Cmd_Admin\<close> what administrators do and the
    bans, \<open>Commands\<close> and \<open>Command_Table\<close> the handlers, the table of the commands, the way a line of
    chat finds its handler, and the legit check.  \<open>Cmd_Frame\<close> states the steps that commands are made of as the
    locales \<open>player_frame\<close> and \<open>admin_frame\<close>, and \<open>Cmd_Props\<close> interprets them: players without privileges administer
    nothing, and nobody is moved.
\<close>

section \<open>Not modelled\<close>

text \<open>
  \<^item> Threads, mutexes between threads, sockets, select loops, signals, logging and the Python bindings of the ship
    (\<open>ship.c\<close>, \<open>block.c\<close>, \<open>clients.c\<close>, \<open>scripts.c\<close>), and the connection to the shipgate: nothing
    of them computes; a failed send is the parameter \<open>send_fails\<close>.
  \<^item> Everything that is read through libxml2 (configuration, quests, limits, the files of bans and administrators),
    the shipgate and the login server, whose state is a MySQL database, and the patch and
    DNS servers.
  \<^item> The packets of \<open>ship_packets.c\<close> that fill in a fixed layout: they appear as entries of the log,
    and so do the replies to a command, the requests to the shipgate, and the list of players (\<open>list.c\<close>).
  \<^item> \<open>mapdata.c\<close>: what it reads is the parameter \<open>env\<close>.
  \<^item> Third-party code in the tree (MD5, SHA-512, \<open>lookup3.c\<close>), the Dreamcast patcher and the command
    line tools.
  \<^item> Floating point.  Coordinates are copied as 32 bits; the one comparison of the drop
    functions that the code makes in floating point is written exactly.
  \<^item> Of the readers of the table files: a failed \<open>fseek\<close>, and the tables a reader that failed leaves behind, which
    the ship frees.
\<close>

end
